(* ===== verification/Governance_Types.thy ===== *)
theory Governance_Types
  imports Prelude
begin

text \<open>
  The governance vocabulary of \<open>workforce/action_metadata.py\<close>: the string enumerations, with
  their wire values and the parsing constructor (\<open>SideEffect(str(x))\<close>, which raises
  \<open>ValueError\<close> on an unknown value), the metadata record with its dictionary form, and the
  external-effect contract of \<open>orchestration/external_effect_inventory.py\<close>.
\<close>

section \<open>Enumerations\<close>

datatype side_effect = SE_READ | SE_INTERNAL_MUTATING | SE_EXTERNAL_MUTATING

datatype idempotency_strategy =
  IS_NONE | IS_APPROVAL_DEDUP_ONLY | IS_APPROVAL_PAYLOAD_GUARD | IS_DURABLE_CLAIM

datatype reversibility = RV_NONE | RV_PARTIAL | RV_FULL

datatype data_sensitivity = DS_PUBLIC | DS_INTERNAL | DS_CONFIDENTIAL | DS_RESTRICTED

datatype commit_check_strategy =
    CC_NONE
  | CC_APPROVAL_PAYLOAD_HASH
  | CC_RESOURCE_FINGERPRINT
  | CC_DURABLE_CLAIM
  | CC_APPROVAL_AND_FINGERPRINT

fun side_effect_value :: "side_effect \<Rightarrow> string" where
  "side_effect_value SE_READ = ''read''"
| "side_effect_value SE_INTERNAL_MUTATING = ''internal_mutating''"
| "side_effect_value SE_EXTERNAL_MUTATING = ''external_mutating''"

fun idempotency_value :: "idempotency_strategy \<Rightarrow> string" where
  "idempotency_value IS_NONE = ''none''"
| "idempotency_value IS_APPROVAL_DEDUP_ONLY = ''approval_dedup_only''"
| "idempotency_value IS_APPROVAL_PAYLOAD_GUARD = ''approval_payload_guard''"
| "idempotency_value IS_DURABLE_CLAIM = ''durable_claim''"

fun reversibility_value :: "reversibility \<Rightarrow> string" where
  "reversibility_value RV_NONE = ''none''"
| "reversibility_value RV_PARTIAL = ''partial''"
| "reversibility_value RV_FULL = ''full''"

fun sensitivity_value :: "data_sensitivity \<Rightarrow> string" where
  "sensitivity_value DS_PUBLIC = ''public''"
| "sensitivity_value DS_INTERNAL = ''internal''"
| "sensitivity_value DS_CONFIDENTIAL = ''confidential''"
| "sensitivity_value DS_RESTRICTED = ''restricted''"

fun commit_check_value :: "commit_check_strategy \<Rightarrow> string" where
  "commit_check_value CC_NONE = ''none''"
| "commit_check_value CC_APPROVAL_PAYLOAD_HASH = ''approval_payload_hash''"
| "commit_check_value CC_RESOURCE_FINGERPRINT = ''resource_fingerprint''"
| "commit_check_value CC_DURABLE_CLAIM = ''durable_claim''"
| "commit_check_value CC_APPROVAL_AND_FINGERPRINT = ''approval_and_fingerprint''"

text \<open>
  A \<open>StrEnum\<close> class called on a string returns the member with that value and raises
  otherwise. The member list is the class body.
\<close>

definition parse_enum :: "('a \<Rightarrow> string) \<Rightarrow> 'a list \<Rightarrow> string \<Rightarrow> (string, 'a) result" where
  "parse_enum value members s =
     (case find (\<lambda>m. value m = s) members of None \<Rightarrow> Inl ''ValueError'' | Some m \<Rightarrow> Inr m)"

definition side_effect_members :: "side_effect list" where
  "side_effect_members = [SE_READ, SE_INTERNAL_MUTATING, SE_EXTERNAL_MUTATING]"

definition idempotency_members :: "idempotency_strategy list" where
  "idempotency_members =
     [IS_NONE, IS_APPROVAL_DEDUP_ONLY, IS_APPROVAL_PAYLOAD_GUARD, IS_DURABLE_CLAIM]"

definition reversibility_members :: "reversibility list" where
  "reversibility_members = [RV_NONE, RV_PARTIAL, RV_FULL]"

definition sensitivity_members :: "data_sensitivity list" where
  "sensitivity_members = [DS_PUBLIC, DS_INTERNAL, DS_CONFIDENTIAL, DS_RESTRICTED]"

definition commit_check_members :: "commit_check_strategy list" where
  "commit_check_members =
     [CC_NONE, CC_APPROVAL_PAYLOAD_HASH, CC_RESOURCE_FINGERPRINT, CC_DURABLE_CLAIM,
      CC_APPROVAL_AND_FINGERPRINT]"

text \<open>
  The contract every enumeration meets: its values are distinct and its member list complete,
  so parsing the value of a member gives the member back.
\<close>

locale str_enum =
  fixes enum_value :: "'a \<Rightarrow> string" and members :: "'a list"
  assumes enum_inj: "enum_value a = enum_value b \<Longrightarrow> a = b"
    and enum_complete: "a \<in> set members"
begin

lemma parse_value: "parse_enum enum_value members (enum_value a) = Inr a"
proof -
  have "find (\<lambda>m. enum_value m = enum_value a) ms = Some a" if "a \<in> set ms" for ms
    using that by (induction ms) (auto dest: enum_inj)
  then show ?thesis using enum_complete by (simp add: parse_enum_def)
qed

lemma parse_sound: "parse_enum enum_value members s = Inr a \<Longrightarrow> enum_value a = s"
  by (auto simp: parse_enum_def find_Some_iff split: option.splits)

end

interpretation side_effect_enum: str_enum side_effect_value side_effect_members
proof
  show "side_effect_value a = side_effect_value b \<Longrightarrow> a = b" for a b
    by (cases a; cases b) simp_all
  show "a \<in> set side_effect_members" for a by (cases a) (simp_all add: side_effect_members_def)
qed

interpretation idempotency_enum: str_enum idempotency_value idempotency_members
proof
  show "idempotency_value a = idempotency_value b \<Longrightarrow> a = b" for a b
    by (cases a; cases b) simp_all
  show "a \<in> set idempotency_members" for a by (cases a) (simp_all add: idempotency_members_def)
qed

interpretation reversibility_enum: str_enum reversibility_value reversibility_members
proof
  show "reversibility_value a = reversibility_value b \<Longrightarrow> a = b" for a b
    by (cases a; cases b) simp_all
  show "a \<in> set reversibility_members" for a
    by (cases a) (simp_all add: reversibility_members_def)
qed

interpretation sensitivity_enum: str_enum sensitivity_value sensitivity_members
proof
  show "sensitivity_value a = sensitivity_value b \<Longrightarrow> a = b" for a b
    by (cases a; cases b) simp_all
  show "a \<in> set sensitivity_members" for a by (cases a) (simp_all add: sensitivity_members_def)
qed

interpretation commit_check_enum: str_enum commit_check_value commit_check_members
proof
  show "commit_check_value a = commit_check_value b \<Longrightarrow> a = b" for a b
    by (cases a; cases b) simp_all
  show "a \<in> set commit_check_members" for a by (cases a) (simp_all add: commit_check_members_def)
qed

section \<open>Governance metadata\<close>

record governance =
  gv_side_effect :: side_effect
  gv_reversibility :: reversibility
  gv_data_sensitivity :: data_sensitivity
  gv_parallel_safe :: bool
  gv_idempotency_strategy :: idempotency_strategy
  gv_commit_check_strategy :: commit_check_strategy

definition governance_to_dict :: "governance \<Rightarrow> pyval dict" where
  "governance_to_dict g =
     [(''side_effect'', PStr (side_effect_value (gv_side_effect g))),
      (''reversibility'', PStr (reversibility_value (gv_reversibility g))),
      (''data_sensitivity'', PStr (sensitivity_value (gv_data_sensitivity g))),
      (''parallel_safe'', PBool (gv_parallel_safe g)),
      (''idempotency_strategy'', PStr (idempotency_value (gv_idempotency_strategy g))),
      (''commit_check_strategy'', PStr (commit_check_value (gv_commit_check_strategy g)))]"

text \<open>The missing keys take the defaults the code writes after each \<open>or\<close>.\<close>

definition governance_from_dict :: "pyval dict \<Rightarrow> (string, governance) result" where
  "governance_from_dict raw =
     res_bind (parse_enum side_effect_value side_effect_members
        (str_or (pget raw ''side_effect'') ''read'')) (\<lambda>se.
     res_bind (parse_enum reversibility_value reversibility_members
        (str_or (pget raw ''reversibility'') ''none'')) (\<lambda>rv.
     res_bind (parse_enum sensitivity_value sensitivity_members
        (str_or (pget raw ''data_sensitivity'') ''internal'')) (\<lambda>ds.
     res_bind (parse_enum idempotency_value idempotency_members
        (str_or (pget raw ''idempotency_strategy'') ''none'')) (\<lambda>idem.
     res_bind (parse_enum commit_check_value commit_check_members
        (str_or (pget raw ''commit_check_strategy'') ''none'')) (\<lambda>cc.
     Inr \<lparr>gv_side_effect = se, gv_reversibility = rv, gv_data_sensitivity = ds,
          gv_parallel_safe = truthy (pget raw ''parallel_safe''),
          gv_idempotency_strategy = idem, gv_commit_check_strategy = cc\<rparr>)))))"

lemma enum_values_nonempty [simp]:
  "side_effect_value a \<noteq> []" "reversibility_value b \<noteq> []" "sensitivity_value c \<noteq> []"
  "idempotency_value d \<noteq> []" "commit_check_value e \<noteq> []"
proof -
  show "side_effect_value a \<noteq> []" by (cases a) simp_all
  show "reversibility_value b \<noteq> []" by (cases b) simp_all
  show "sensitivity_value c \<noteq> []" by (cases c) simp_all
  show "idempotency_value d \<noteq> []" by (cases d) simp_all
  show "commit_check_value e \<noteq> []" by (cases e) simp_all
qed

text \<open>Storing the metadata and reading it back loses nothing.\<close>

lemma governance_roundtrip: "governance_from_dict (governance_to_dict g) = Inr g"
  by (simp add: governance_from_dict_def governance_to_dict_def pget_def str_or_def
      side_effect_enum.parse_value reversibility_enum.parse_value sensitivity_enum.parse_value
      idempotency_enum.parse_value commit_check_enum.parse_value)

section \<open>External-effect contracts\<close>

record external_effect_contract =
  ec_action_key :: string
  ec_provider :: string
  ec_risk_level :: string
  ec_side_effect :: side_effect
  ec_approval_rule :: string
  ec_idempotency_strategy :: idempotency_strategy
  ec_idempotency_detail :: string
  ec_ownership_check :: string
  ec_retry_behavior :: string
  ec_notes :: string

definition blocks_autonomous_use :: "external_effect_contract \<Rightarrow> bool" where
  "blocks_autonomous_use c =
     (if ec_side_effect c = SE_READ then False
      else ec_idempotency_strategy c \<noteq> IS_DURABLE_CLAIM)"

end
