(* ===== verification/Tool_Catalog.thy ===== *)
theory Tool_Catalog
  imports Prelude
begin

text \<open>
  The seed data of \<open>workforce/constants.py\<close>: the native tools registered as tool definitions
  and the default action policies, in the source's order. A starred comprehension of the
  source is a \<open>map\<close> over the same providers.
\<close>

section \<open>Native tools\<close>

record native_tool =
  td_slug :: string
  td_name :: string
  td_description :: string
  td_risk_level :: string
  td_requires_approval :: bool
  td_provider_type :: "string option"
  td_schema_json :: "pyval option"

definition gmail_tools :: "native_tool list" where
  [table_defs]: "gmail_tools =
  [\<lparr>td_slug = ''gmail.search_messages'',
     td_name = ''Gmail Search Messages'',
     td_description = ''Search an explicitly bound Gmail mailbox'',
     td_risk_level = ''low'',
     td_requires_approval = False,
     td_provider_type = Some ''native_connector'',
     td_schema_json = Some (PDict [(''type'', PStr ''object''),
          (''required'', PList [PStr ''connector_installation_id'', PStr ''query'']),
          (''properties'', PDict [(''connector_installation_id'', PDict [(''type'', PStr ''string'')]),
            (''query'', PDict [(''type'', PStr ''string'')]),
            (''limit'', PDict [(''type'', PStr ''integer''),
              (''minimum'', PInt 1),
              (''maximum'', PInt 100)])])])\<rparr>,
   \<lparr>td_slug = ''gmail.get_message'',
     td_name = ''Gmail Get Message'',
     td_description = ''Read one Gmail message'',
     td_risk_level = ''low'',
     td_requires_approval = False,
     td_provider_type = Some ''native_connector'',
     td_schema_json = Some (PDict [(''type'', PStr ''object''),
          (''required'', PList [PStr ''connector_installation_id'', PStr ''message_id'']),
          (''properties'', PDict [(''connector_installation_id'', PDict [(''type'', PStr ''string'')]),
            (''message_id'', PDict [(''type'', PStr ''string'')])])])\<rparr>,
   \<lparr>td_slug = ''gmail.get_thread'',
     td_name = ''Gmail Get Thread'',
     td_description = ''Read one Gmail thread'',
     td_risk_level = ''low'',
     td_requires_approval = False,
     td_provider_type = Some ''native_connector'',
     td_schema_json = Some (PDict [(''type'', PStr ''object''),
          (''required'', PList [PStr ''connector_installation_id'', PStr ''thread_id'']),
          (''properties'', PDict [(''connector_installation_id'', PDict [(''type'', PStr ''string'')]),
            (''thread_id'', PDict [(''type'', PStr ''string'')])])])\<rparr>,
   \<lparr>td_slug = ''gmail.create_draft'',
     td_name = ''Gmail Create Draft'',
     td_description = ''Create a reply draft without sending'',
     td_risk_level = ''medium'',
     td_requires_approval = False,
     td_provider_type = Some ''native_connector'',
     td_schema_json = Some (PDict [(''type'', PStr ''object''),
          (''required'', PList [PStr ''connector_installation_id'', PStr ''to'', PStr ''subject'', PStr ''body'']),
          (''properties'', PDict [(''connector_installation_id'', PDict [(''type'', PStr ''string'')]),
            (''thread_id'', PDict [(''type'', PStr ''string'')]),
            (''to'', PDict [(''type'', PStr ''array'')]),
            (''cc'', PDict [(''type'', PStr ''array'')]),
            (''bcc'', PDict [(''type'', PStr ''array'')]),
            (''subject'', PDict [(''type'', PStr ''string'')]),
            (''body'', PDict [(''type'', PStr ''string'')])])])\<rparr>,
   \<lparr>td_slug = ''gmail.update_draft'',
     td_name = ''Gmail Update Draft'',
     td_description = ''Replace exact Gmail draft content'',
     td_risk_level = ''medium'',
     td_requires_approval = False,
     td_provider_type = Some ''native_connector'',
     td_schema_json = Some (PDict [(''type'', PStr ''object''),
          (''required'', PList [PStr ''connector_installation_id'', PStr ''gmail_draft_id'', PStr ''to'', PStr ''subject'', PStr ''body'']),
          (''properties'', PDict [(''connector_installation_id'', PDict [(''type'', PStr ''string'')]),
            (''gmail_draft_id'', PDict [(''type'', PStr ''string'')]),
            (''thread_id'', PDict [(''type'', PStr ''string'')]),
            (''to'', PDict [(''type'', PStr ''array'')]),
            (''subject'', PDict [(''type'', PStr ''string'')]),
            (''body'', PDict [(''type'', PStr ''string'')])])])\<rparr>,
   \<lparr>td_slug = ''gmail.send_draft'',
     td_name = ''Gmail Send Draft'',
     td_description = ''Send an exact approved Gmail draft'',
     td_risk_level = ''high'',
     td_requires_approval = True,
     td_provider_type = Some ''native_connector'',
     td_schema_json = Some (PDict [(''type'', PStr ''object''),
          (''required'', PList [PStr ''connector_installation_id'', PStr ''gmail_draft_id'', PStr ''thread_id'', PStr ''to'', PStr ''subject'', PStr ''body'']),
          (''properties'', PDict [(''connector_installation_id'', PDict [(''type'', PStr ''string'')]),
            (''gmail_draft_id'', PDict [(''type'', PStr ''string'')]),
            (''thread_id'', PDict [(''type'', PStr ''string'')]),
            (''to'', PDict [(''type'', PStr ''array'')]),
            (''cc'', PDict [(''type'', PStr ''array'')]),
            (''bcc'', PDict [(''type'', PStr ''array'')]),
            (''subject'', PDict [(''type'', PStr ''string'')]),
            (''body'', PDict [(''type'', PStr ''string'')])])])\<rparr>,
   \<lparr>td_slug = ''gmail.add_label'',
     td_name = ''Gmail Add Label'',
     td_description = ''Modify labels on a Gmail message'',
     td_risk_level = ''medium'',
     td_requires_approval = False,
     td_provider_type = Some ''native_connector'',
     td_schema_json = Some (PDict [(''type'', PStr ''object''),
          (''required'', PList [PStr ''connector_installation_id'', PStr ''message_id'', PStr ''add_label_ids'']),
          (''properties'', PDict [(''connector_installation_id'', PDict [(''type'', PStr ''string'')]),
            (''message_id'', PDict [(''type'', PStr ''string'')]),
            (''add_label_ids'', PDict [(''type'', PStr ''array''),
              (''items'', PDict [(''type'', PStr ''string'')])])])])\<rparr>]"

definition outlook_tools :: "native_tool list" where
  [table_defs]: "outlook_tools =
  [\<lparr>td_slug = ''outlook.search_messages'',
     td_name = ''Outlook Search Messages'',
     td_description = ''Search an explicitly bound Outlook mailbox'',
     td_risk_level = ''low'',
     td_requires_approval = False,
     td_provider_type = Some ''native_connector'',
     td_schema_json = Some (PDict [(''type'', PStr ''object''),
          (''required'', PList [PStr ''connector_installation_id'', PStr ''query'']),
          (''properties'', PDict [(''connector_installation_id'', PDict [(''type'', PStr ''string'')]),
            (''query'', PDict [(''type'', PStr ''string'')]),
            (''limit'', PDict [(''type'', PStr ''integer''),
              (''minimum'', PInt 1),
              (''maximum'', PInt 100)])])])\<rparr>,
   \<lparr>td_slug = ''outlook.get_message'',
     td_name = ''Outlook Get Message'',
     td_description = ''Read one Outlook message'',
     td_risk_level = ''low'',
     td_requires_approval = False,
     td_provider_type = Some ''native_connector'',
     td_schema_json = Some (PDict [(''type'', PStr ''object''),
          (''required'', PList [PStr ''connector_installation_id'', PStr ''message_id'']),
          (''properties'', PDict [(''connector_installation_id'', PDict [(''type'', PStr ''string'')]),
            (''message_id'', PDict [(''type'', PStr ''string'')])])])\<rparr>,
   \<lparr>td_slug = ''outlook.get_thread'',
     td_name = ''Outlook Get Thread'',
     td_description = ''Read one Outlook conversation thread'',
     td_risk_level = ''low'',
     td_requires_approval = False,
     td_provider_type = Some ''native_connector'',
     td_schema_json = Some (PDict [(''type'', PStr ''object''),
          (''required'', PList [PStr ''connector_installation_id'', PStr ''thread_id'']),
          (''properties'', PDict [(''connector_installation_id'', PDict [(''type'', PStr ''string'')]),
            (''thread_id'', PDict [(''type'', PStr ''string'')])])])\<rparr>,
   \<lparr>td_slug = ''outlook.create_draft'',
     td_name = ''Outlook Create Draft'',
     td_description = ''Create a reply draft without sending'',
     td_risk_level = ''medium'',
     td_requires_approval = False,
     td_provider_type = Some ''native_connector'',
     td_schema_json = Some (PDict [(''type'', PStr ''object''),
          (''required'', PList [PStr ''connector_installation_id'', PStr ''to'', PStr ''subject'', PStr ''body'']),
          (''properties'', PDict [(''connector_installation_id'', PDict [(''type'', PStr ''string'')]),
            (''thread_id'', PDict [(''type'', PStr ''string'')]),
            (''to'', PDict [(''type'', PStr ''array'')]),
            (''cc'', PDict [(''type'', PStr ''array'')]),
            (''bcc'', PDict [(''type'', PStr ''array'')]),
            (''subject'', PDict [(''type'', PStr ''string'')]),
            (''body'', PDict [(''type'', PStr ''string'')])])])\<rparr>,
   \<lparr>td_slug = ''outlook.update_draft'',
     td_name = ''Outlook Update Draft'',
     td_description = ''Replace exact Outlook draft content'',
     td_risk_level = ''medium'',
     td_requires_approval = False,
     td_provider_type = Some ''native_connector'',
     td_schema_json = Some (PDict [(''type'', PStr ''object''),
          (''required'', PList [PStr ''connector_installation_id'', PStr ''outlook_draft_id'', PStr ''to'', PStr ''subject'', PStr ''body'']),
          (''properties'', PDict [(''connector_installation_id'', PDict [(''type'', PStr ''string'')]),
            (''outlook_draft_id'', PDict [(''type'', PStr ''string'')]),
            (''thread_id'', PDict [(''type'', PStr ''string'')]),
            (''to'', PDict [(''type'', PStr ''array'')]),
            (''subject'', PDict [(''type'', PStr ''string'')]),
            (''body'', PDict [(''type'', PStr ''string'')])])])\<rparr>,
   \<lparr>td_slug = ''outlook.send_draft'',
     td_name = ''Outlook Send Draft'',
     td_description = ''Send an exact approved Outlook draft'',
     td_risk_level = ''high'',
     td_requires_approval = True,
     td_provider_type = Some ''native_connector'',
     td_schema_json = Some (PDict [(''type'', PStr ''object''),
          (''required'', PList [PStr ''connector_installation_id'', PStr ''outlook_draft_id'', PStr ''thread_id'', PStr ''to'', PStr ''subject'', PStr ''body'']),
          (''properties'', PDict [(''connector_installation_id'', PDict [(''type'', PStr ''string'')]),
            (''outlook_draft_id'', PDict [(''type'', PStr ''string'')]),
            (''thread_id'', PDict [(''type'', PStr ''string'')]),
            (''to'', PDict [(''type'', PStr ''array'')]),
            (''cc'', PDict [(''type'', PStr ''array'')]),
            (''bcc'', PDict [(''type'', PStr ''array'')]),
            (''subject'', PDict [(''type'', PStr ''string'')]),
            (''body'', PDict [(''type'', PStr ''string'')])])])\<rparr>,
   \<lparr>td_slug = ''outlook.add_label'',
     td_name = ''Outlook Add Category'',
     td_description = ''Modify categories on an Outlook message'',
     td_risk_level = ''medium'',
     td_requires_approval = False,
     td_provider_type = Some ''native_connector'',
     td_schema_json = Some (PDict [(''type'', PStr ''object''),
          (''required'', PList [PStr ''connector_installation_id'', PStr ''message_id'', PStr ''add_label_ids'']),
          (''properties'', PDict [(''connector_installation_id'', PDict [(''type'', PStr ''string'')]),
            (''message_id'', PDict [(''type'', PStr ''string'')]),
            (''add_label_ids'', PDict [(''type'', PStr ''array''),
              (''items'', PDict [(''type'', PStr ''string'')])])])])\<rparr>]"

definition telegram_tools :: "native_tool list" where
  [table_defs]: "telegram_tools =
  [\<lparr>td_slug = ''telegram.send_message'',
     td_name = ''Telegram Send Message'',
     td_description = ''Send a Telegram bot message'',
     td_risk_level = ''medium'',
     td_requires_approval = False,
     td_provider_type = Some ''native_connector'',
     td_schema_json = None\<rparr>,
   \<lparr>td_slug = ''telegram.edit_message'',
     td_name = ''Telegram Edit Message'',
     td_description = ''Edit a Telegram bot message'',
     td_risk_level = ''medium'',
     td_requires_approval = False,
     td_provider_type = Some ''native_connector'',
     td_schema_json = None\<rparr>,
   \<lparr>td_slug = ''telegram.answer_callback'',
     td_name = ''Telegram Answer Callback'',
     td_description = ''Acknowledge a Telegram callback query'',
     td_risk_level = ''low'',
     td_requires_approval = False,
     td_provider_type = Some ''native_connector'',
     td_schema_json = None\<rparr>]"

definition slack_tools :: "native_tool list" where
  [table_defs]: "slack_tools =
  [\<lparr>td_slug = ''slack.search_messages'',
     td_name = ''Slack Search Messages'',
     td_description = ''Search Slack messages or scan a channel'',
     td_risk_level = ''low'',
     td_requires_approval = False,
     td_provider_type = Some ''native_connector'',
     td_schema_json = Some (PDict [(''type'', PStr ''object''),
          (''required'', PList [PStr ''connector_installation_id'']),
          (''properties'', PDict [(''connector_installation_id'', PDict [(''type'', PStr ''string'')]),
            (''query'', PDict [(''type'', PStr ''string'')]),
            (''channel'', PDict [(''type'', PStr ''string'')]),
            (''limit'', PDict [(''type'', PStr ''integer'')])])])\<rparr>,
   \<lparr>td_slug = ''slack.get_thread'',
     td_name = ''Slack Get Thread'',
     td_description = ''Read replies in a Slack thread'',
     td_risk_level = ''low'',
     td_requires_approval = False,
     td_provider_type = Some ''native_connector'',
     td_schema_json = Some (PDict [(''type'', PStr ''object''),
          (''required'', PList [PStr ''connector_installation_id'', PStr ''channel'', PStr ''thread_ts'']),
          (''properties'', PDict [(''connector_installation_id'', PDict [(''type'', PStr ''string'')]),
            (''channel'', PDict [(''type'', PStr ''string'')]),
            (''thread_ts'', PDict [(''type'', PStr ''string'')]),
            (''limit'', PDict [(''type'', PStr ''integer'')])])])\<rparr>,
   \<lparr>td_slug = ''slack.get_message'',
     td_name = ''Slack Get Message'',
     td_description = ''Read a single Slack message'',
     td_risk_level = ''low'',
     td_requires_approval = False,
     td_provider_type = Some ''native_connector'',
     td_schema_json = Some (PDict [(''type'', PStr ''object''),
          (''required'', PList [PStr ''connector_installation_id'', PStr ''channel'']),
          (''properties'', PDict [(''connector_installation_id'', PDict [(''type'', PStr ''string'')]),
            (''channel'', PDict [(''type'', PStr ''string'')]),
            (''message_ts'', PDict [(''type'', PStr ''string'')]),
            (''latest'', PDict [(''type'', PStr ''string'')])])])\<rparr>,
   \<lparr>td_slug = ''slack.post_message'',
     td_name = ''Slack Post Message'',
     td_description = ''Post an approved Slack message'',
     td_risk_level = ''high'',
     td_requires_approval = True,
     td_provider_type = Some ''native_connector'',
     td_schema_json = Some (PDict [(''type'', PStr ''object''),
          (''required'', PList [PStr ''connector_installation_id'', PStr ''channel'', PStr ''text'']),
          (''properties'', PDict [(''connector_installation_id'', PDict [(''type'', PStr ''string'')]),
            (''channel'', PDict [(''type'', PStr ''string'')]),
            (''thread_ts'', PDict [(''type'', PStr ''string'')]),
            (''text'', PDict [(''type'', PStr ''string'')]),
            (''workflow_run_id'', PDict [(''type'', PStr ''string'')]),
            (''approval_request_id'', PDict [(''type'', PStr ''string'')])])])\<rparr>,
   \<lparr>td_slug = ''slack.update_message'',
     td_name = ''Slack Update Message'',
     td_description = ''Update a Slack message (approval channel feedback)'',
     td_risk_level = ''medium'',
     td_requires_approval = False,
     td_provider_type = Some ''native_connector'',
     td_schema_json = Some (PDict [(''type'', PStr ''object''),
          (''required'', PList [PStr ''connector_installation_id'', PStr ''channel'', PStr ''message_ts'', PStr ''text'']),
          (''properties'', PDict [(''connector_installation_id'', PDict [(''type'', PStr ''string'')]),
            (''channel'', PDict [(''type'', PStr ''string'')]),
            (''message_ts'', PDict [(''type'', PStr ''string'')]),
            (''text'', PDict [(''type'', PStr ''string'')])])])\<rparr>]"

definition teams_tools :: "native_tool list" where
  [table_defs]: "teams_tools =
  [\<lparr>td_slug = ''teams.search_messages'',
     td_name = ''Teams Search Messages'',
     td_description = ''Search Microsoft Teams messages'',
     td_risk_level = ''low'',
     td_requires_approval = False,
     td_provider_type = Some ''native_connector'',
     td_schema_json = Some (PDict [(''type'', PStr ''object''),
          (''required'', PList [PStr ''connector_installation_id'']),
          (''properties'', PDict [(''connector_installation_id'', PDict [(''type'', PStr ''string'')]),
            (''query'', PDict [(''type'', PStr ''string'')]),
            (''conversation_id'', PDict [(''type'', PStr ''string'')]),
            (''limit'', PDict [(''type'', PStr ''integer'')])])])\<rparr>,
   \<lparr>td_slug = ''teams.get_thread'',
     td_name = ''Teams Get Thread'',
     td_description = ''Read replies in a Teams chat thread'',
     td_risk_level = ''low'',
     td_requires_approval = False,
     td_provider_type = Some ''native_connector'',
     td_schema_json = Some (PDict [(''type'', PStr ''object''),
          (''required'', PList [PStr ''connector_installation_id'', PStr ''conversation_id'', PStr ''message_id'']),
          (''properties'', PDict [(''connector_installation_id'', PDict [(''type'', PStr ''string'')]),
            (''conversation_id'', PDict [(''type'', PStr ''string'')]),
            (''message_id'', PDict [(''type'', PStr ''string'')])])])\<rparr>,
   \<lparr>td_slug = ''teams.get_message'',
     td_name = ''Teams Get Message'',
     td_description = ''Read a single Teams message'',
     td_risk_level = ''low'',
     td_requires_approval = False,
     td_provider_type = Some ''native_connector'',
     td_schema_json = Some (PDict [(''type'', PStr ''object''),
          (''required'', PList [PStr ''connector_installation_id'', PStr ''conversation_id'', PStr ''message_id'']),
          (''properties'', PDict [(''connector_installation_id'', PDict [(''type'', PStr ''string'')]),
            (''conversation_id'', PDict [(''type'', PStr ''string'')]),
            (''message_id'', PDict [(''type'', PStr ''string'')])])])\<rparr>,
   \<lparr>td_slug = ''teams.post_message'',
     td_name = ''Teams Post Message'',
     td_description = ''Post an approved Teams message'',
     td_risk_level = ''high'',
     td_requires_approval = True,
     td_provider_type = Some ''native_connector'',
     td_schema_json = Some (PDict [(''type'', PStr ''object''),
          (''required'', PList [PStr ''connector_installation_id'', PStr ''conversation_id'', PStr ''text'']),
          (''properties'', PDict [(''connector_installation_id'', PDict [(''type'', PStr ''string'')]),
            (''conversation_id'', PDict [(''type'', PStr ''string'')]),
            (''reply_to_id'', PDict [(''type'', PStr ''string'')]),
            (''text'', PDict [(''type'', PStr ''string'')]),
            (''workflow_run_id'', PDict [(''type'', PStr ''string'')]),
            (''approval_request_id'', PDict [(''type'', PStr ''string'')])])])\<rparr>,
   \<lparr>td_slug = ''teams.update_message'',
     td_name = ''Teams Update Message'',
     td_description = ''Update a Teams message (approval channel feedback)'',
     td_risk_level = ''medium'',
     td_requires_approval = False,
     td_provider_type = Some ''native_connector'',
     td_schema_json = Some (PDict [(''type'', PStr ''object''),
          (''required'', PList [PStr ''connector_installation_id'', PStr ''conversation_id'', PStr ''message_id'', PStr ''text'']),
          (''properties'', PDict [(''connector_installation_id'', PDict [(''type'', PStr ''string'')]),
            (''conversation_id'', PDict [(''type'', PStr ''string'')]),
            (''message_id'', PDict [(''type'', PStr ''string'')]),
            (''text'', PDict [(''type'', PStr ''string'')])])])\<rparr>]"

definition calendar_list_events_tools :: "native_tool list" where
  [table_defs]: "calendar_list_events_tools =
  map (\<lambda>(provider, label).
    \<lparr>td_slug = (provider @ ''.list_events''),
     td_name = (label @ '' List Events''),
     td_description = (''List events from a bound '' @ label @ '' calendar''),
     td_risk_level = ''low'',
     td_requires_approval = False,
     td_provider_type = Some ''native_connector'',
     td_schema_json = Some (PDict [(''type'', PStr ''object''),
          (''required'', PList [PStr ''connector_installation_id'', PStr ''time_min'', PStr ''time_max'']),
          (''properties'', PDict [(''connector_installation_id'', PDict [(''type'', PStr ''string'')]),
            (''calendar_id'', PDict [(''type'', PStr ''string'')]),
            (''time_min'', PDict [(''type'', PStr ''string'')]),
            (''time_max'', PDict [(''type'', PStr ''string'')]),
            (''limit'', PDict [(''type'', PStr ''integer''),
              (''minimum'', PInt 1),
              (''maximum'', PInt 250)])])])\<rparr>)
   [(''google_calendar'', ''Google Calendar''), (''microsoft_calendar'', ''Microsoft Calendar'')]"

definition calendar_get_event_tools :: "native_tool list" where
  [table_defs]: "calendar_get_event_tools =
  map (\<lambda>(provider, label).
    \<lparr>td_slug = (provider @ ''.get_event''),
     td_name = (label @ '' Get Event''),
     td_description = (''Read one '' @ label @ '' event''),
     td_risk_level = ''low'',
     td_requires_approval = False,
     td_provider_type = Some ''native_connector'',
     td_schema_json = Some (PDict [(''type'', PStr ''object''),
          (''required'', PList [PStr ''connector_installation_id'', PStr ''event_id'']),
          (''properties'', PDict [(''connector_installation_id'', PDict [(''type'', PStr ''string'')]),
            (''calendar_id'', PDict [(''type'', PStr ''string'')]),
            (''event_id'', PDict [(''type'', PStr ''string'')])])])\<rparr>)
   [(''google_calendar'', ''Google Calendar''), (''microsoft_calendar'', ''Microsoft Calendar'')]"

definition calendar_get_availability_tools :: "native_tool list" where
  [table_defs]: "calendar_get_availability_tools =
  map (\<lambda>(provider, label).
    \<lparr>td_slug = (provider @ ''.get_availability''),
     td_name = (label @ '' Get Availability''),
     td_description = (''Read free/busy availability from '' @ label),
     td_risk_level = ''low'',
     td_requires_approval = False,
     td_provider_type = Some ''native_connector'',
     td_schema_json = Some (PDict [(''type'', PStr ''object''),
          (''required'', PList [PStr ''connector_installation_id'', PStr ''time_min'', PStr ''time_max'']),
          (''properties'', PDict [(''connector_installation_id'', PDict [(''type'', PStr ''string'')]),
            (''calendar_id'', PDict [(''type'', PStr ''string'')]),
            (''time_min'', PDict [(''type'', PStr ''string'')]),
            (''time_max'', PDict [(''type'', PStr ''string'')]),
            (''timezone'', PDict [(''type'', PStr ''string'')]),
            (''schedules'', PDict [(''type'', PStr ''array'')]),
            (''calendars'', PDict [(''type'', PStr ''array'')]),
            (''interval_minutes'', PDict [(''type'', PStr ''integer'')])])])\<rparr>)
   [(''google_calendar'', ''Google Calendar''), (''microsoft_calendar'', ''Microsoft Calendar'')]"

definition calendar_create_event_tools :: "native_tool list" where
  [table_defs]: "calendar_create_event_tools =
  map (\<lambda>(provider, label).
    \<lparr>td_slug = (provider @ ''.create_event''),
     td_name = (label @ '' Create Event''),
     td_description = (''Create an approved '' @ label @ '' event''),
     td_risk_level = ''medium'',
     td_requires_approval = True,
     td_provider_type = Some ''native_connector'',
     td_schema_json = Some (PDict [(''type'', PStr ''object''),
          (''required'', PList [PStr ''connector_installation_id'', PStr ''subject'', PStr ''start_at'', PStr ''end_at'']),
          (''properties'', PDict [(''connector_installation_id'', PDict [(''type'', PStr ''string'')]),
            (''calendar_id'', PDict [(''type'', PStr ''string'')]),
            (''subject'', PDict [(''type'', PStr ''string'')]),
            (''body'', PDict [(''type'', PStr ''string'')]),
            (''location'', PDict [(''type'', PStr ''string'')]),
            (''start_at'', PDict [(''type'', PStr ''string'')]),
            (''end_at'', PDict [(''type'', PStr ''string'')]),
            (''timezone'', PDict [(''type'', PStr ''string'')]),
            (''attendees'', PDict [(''type'', PStr ''array'')]),
            (''is_online_meeting'', PDict [(''type'', PStr ''boolean'')])])])\<rparr>)
   [(''google_calendar'', ''Google Calendar''), (''microsoft_calendar'', ''Microsoft Calendar'')]"

definition calendar_update_event_tools :: "native_tool list" where
  [table_defs]: "calendar_update_event_tools =
  map (\<lambda>(provider, label).
    \<lparr>td_slug = (provider @ ''.update_event''),
     td_name = (label @ '' Update Event''),
     td_description = (''Update an approved '' @ label @ '' event''),
     td_risk_level = ''medium'',
     td_requires_approval = True,
     td_provider_type = Some ''native_connector'',
     td_schema_json = Some (PDict [(''type'', PStr ''object''),
          (''required'', PList [PStr ''connector_installation_id'', PStr ''event_id'', PStr ''subject'', PStr ''start_at'', PStr ''end_at'']),
          (''properties'', PDict [(''connector_installation_id'', PDict [(''type'', PStr ''string'')]),
            (''calendar_id'', PDict [(''type'', PStr ''string'')]),
            (''event_id'', PDict [(''type'', PStr ''string'')]),
            (''subject'', PDict [(''type'', PStr ''string'')]),
            (''body'', PDict [(''type'', PStr ''string'')]),
            (''location'', PDict [(''type'', PStr ''string'')]),
            (''start_at'', PDict [(''type'', PStr ''string'')]),
            (''end_at'', PDict [(''type'', PStr ''string'')]),
            (''timezone'', PDict [(''type'', PStr ''string'')]),
            (''attendees'', PDict [(''type'', PStr ''array'')])])])\<rparr>)
   [(''google_calendar'', ''Google Calendar''), (''microsoft_calendar'', ''Microsoft Calendar'')]"

definition calendar_cancel_event_tools :: "native_tool list" where
  [table_defs]: "calendar_cancel_event_tools =
  map (\<lambda>(provider, label).
    \<lparr>td_slug = (provider @ ''.cancel_event''),
     td_name = (label @ '' Cancel Event''),
     td_description = (''Cancel an approved '' @ label @ '' event''),
     td_risk_level = ''high'',
     td_requires_approval = True,
     td_provider_type = Some ''native_connector'',
     td_schema_json = Some (PDict [(''type'', PStr ''object''),
          (''required'', PList [PStr ''connector_installation_id'', PStr ''event_id'']),
          (''properties'', PDict [(''connector_installation_id'', PDict [(''type'', PStr ''string'')]),
            (''calendar_id'', PDict [(''type'', PStr ''string'')]),
            (''event_id'', PDict [(''type'', PStr ''string'')])])])\<rparr>)
   [(''google_calendar'', ''Google Calendar''), (''microsoft_calendar'', ''Microsoft Calendar'')]"

definition drive_search_files_tools :: "native_tool list" where
  [table_defs]: "drive_search_files_tools =
  map (\<lambda>(provider, label).
    \<lparr>td_slug = (provider @ ''.search_files''),
     td_name = (label @ '' Search Files''),
     td_description = (''Search files in bound '' @ label),
     td_risk_level = ''low'',
     td_requires_approval = False,
     td_provider_type = Some ''native_connector'',
     td_schema_json = Some (PDict [(''type'', PStr ''object''),
          (''required'', PList [PStr ''connector_installation_id'']),
          (''properties'', PDict [(''connector_installation_id'', PDict [(''type'', PStr ''string'')]),
            (''query'', PDict [(''type'', PStr ''string'')]),
            (''folder_id'', PDict [(''type'', PStr ''string'')]),
            (''drive_id'', PDict [(''type'', PStr ''string'')]),
            (''site_id'', PDict [(''type'', PStr ''string'')]),
            (''limit'', PDict [(''type'', PStr ''integer''),
              (''minimum'', PInt 1),
              (''maximum'', PInt 100)])])])\<rparr>)
   [(''google_drive'', ''Google Drive''), (''microsoft_drive'', ''Microsoft Drive'')]"

definition drive_get_file_metadata_tools :: "native_tool list" where
  [table_defs]: "drive_get_file_metadata_tools =
  map (\<lambda>(provider, label).
    \<lparr>td_slug = (provider @ ''.get_file_metadata''),
     td_name = (label @ '' Get File Metadata''),
     td_description = (''Read metadata and ACL snapshot for one '' @ label @ '' file''),
     td_risk_level = ''low'',
     td_requires_approval = False,
     td_provider_type = Some ''native_connector'',
     td_schema_json = Some (PDict [(''type'', PStr ''object''),
          (''required'', PList [PStr ''connector_installation_id'', PStr ''file_id'']),
          (''properties'', PDict [(''connector_installation_id'', PDict [(''type'', PStr ''string'')]),
            (''file_id'', PDict [(''type'', PStr ''string'')]),
            (''drive_id'', PDict [(''type'', PStr ''string'')]),
            (''site_id'', PDict [(''type'', PStr ''string'')])])])\<rparr>)
   [(''google_drive'', ''Google Drive''), (''microsoft_drive'', ''Microsoft Drive'')]"

definition drive_get_file_content_tools :: "native_tool list" where
  [table_defs]: "drive_get_file_content_tools =
  map (\<lambda>(provider, label).
    \<lparr>td_slug = (provider @ ''.get_file_content''),
     td_name = (label @ '' Get File Content''),
     td_description = (''Read text content from one '' @ label @ '' file''),
     td_risk_level = ''low'',
     td_requires_approval = False,
     td_provider_type = Some ''native_connector'',
     td_schema_json = Some (PDict [(''type'', PStr ''object''),
          (''required'', PList [PStr ''connector_installation_id'', PStr ''file_id'']),
          (''properties'', PDict [(''connector_installation_id'', PDict [(''type'', PStr ''string'')]),
            (''file_id'', PDict [(''type'', PStr ''string'')]),
            (''drive_id'', PDict [(''type'', PStr ''string'')]),
            (''site_id'', PDict [(''type'', PStr ''string'')])])])\<rparr>)
   [(''google_drive'', ''Google Drive''), (''microsoft_drive'', ''Microsoft Drive'')]"

definition issue_search_issues_tools :: "native_tool list" where
  [table_defs]: "issue_search_issues_tools =
  map (\<lambda>(provider, label).
    \<lparr>td_slug = (provider @ ''.search_issues''),
     td_name = (label @ '' Search Issues''),
     td_description = (''Search issues in bound '' @ label),
     td_risk_level = ''low'',
     td_requires_approval = False,
     td_provider_type = Some ''native_connector'',
     td_schema_json = Some (PDict [(''type'', PStr ''object''),
          (''required'', PList [PStr ''connector_installation_id'']),
          (''properties'', PDict [(''connector_installation_id'', PDict [(''type'', PStr ''string'')]),
            (''jql'', PDict [(''type'', PStr ''string'')]),
            (''query'', PDict [(''type'', PStr ''string'')]),
            (''team_id'', PDict [(''type'', PStr ''string'')]),
            (''limit'', PDict [(''type'', PStr ''integer''),
              (''minimum'', PInt 1),
              (''maximum'', PInt 100)])])])\<rparr>)
   [(''jira'', ''Jira''), (''linear'', ''Linear'')]"

definition issue_get_issue_tools :: "native_tool list" where
  [table_defs]: "issue_get_issue_tools =
  map (\<lambda>(provider, label).
    \<lparr>td_slug = (provider @ ''.get_issue''),
     td_name = (label @ '' Get Issue''),
     td_description = (''Read one '' @ label @ '' issue with context''),
     td_risk_level = ''low'',
     td_requires_approval = False,
     td_provider_type = Some ''native_connector'',
     td_schema_json = Some (PDict [(''type'', PStr ''object''),
          (''required'', PList [PStr ''connector_installation_id'']),
          (''properties'', PDict [(''connector_installation_id'', PDict [(''type'', PStr ''string'')]),
            (''issue_id'', PDict [(''type'', PStr ''string'')]),
            (''issue_key'', PDict [(''type'', PStr ''string'')])])])\<rparr>)
   [(''jira'', ''Jira''), (''linear'', ''Linear'')]"

definition issue_get_issue_comments_tools :: "native_tool list" where
  [table_defs]: "issue_get_issue_comments_tools =
  map (\<lambda>(provider, label).
    \<lparr>td_slug = (provider @ ''.get_issue_comments''),
     td_name = (label @ '' Get Issue Comments''),
     td_description = (''Read comments on one '' @ label @ '' issue''),
     td_risk_level = ''low'',
     td_requires_approval = False,
     td_provider_type = Some ''native_connector'',
     td_schema_json = Some (PDict [(''type'', PStr ''object''),
          (''required'', PList [PStr ''connector_installation_id'']),
          (''properties'', PDict [(''connector_installation_id'', PDict [(''type'', PStr ''string'')]),
            (''issue_id'', PDict [(''type'', PStr ''string'')]),
            (''issue_key'', PDict [(''type'', PStr ''string'')])])])\<rparr>)
   [(''jira'', ''Jira''), (''linear'', ''Linear'')]"

definition issue_create_issue_tools :: "native_tool list" where
  [table_defs]: "issue_create_issue_tools =
  map (\<lambda>(provider, label).
    \<lparr>td_slug = (provider @ ''.create_issue''),
     td_name = (label @ '' Create Issue''),
     td_description = (''Create an approved '' @ label @ '' issue''),
     td_risk_level = ''medium'',
     td_requires_approval = True,
     td_provider_type = Some ''native_connector'',
     td_schema_json = Some (PDict [(''type'', PStr ''object''),
          (''required'', PList [PStr ''connector_installation_id'']),
          (''properties'', PDict [(''connector_installation_id'', PDict [(''type'', PStr ''string'')]),
            (''project_key'', PDict [(''type'', PStr ''string'')]),
            (''team_id'', PDict [(''type'', PStr ''string'')]),
            (''issue_type'', PDict [(''type'', PStr ''string'')]),
            (''summary'', PDict [(''type'', PStr ''string'')]),
            (''title'', PDict [(''type'', PStr ''string'')]),
            (''description'', PDict [(''type'', PStr ''string'')]),
            (''priority'', PDict [(''type'', PStr ''string'')]),
            (''workflow_run_id'', PDict [(''type'', PStr ''string'')]),
            (''approval_request_id'', PDict [(''type'', PStr ''string'')])])])\<rparr>)
   [(''jira'', ''Jira''), (''linear'', ''Linear'')]"

definition issue_update_issue_tools :: "native_tool list" where
  [table_defs]: "issue_update_issue_tools =
  map (\<lambda>(provider, label).
    \<lparr>td_slug = (provider @ ''.update_issue''),
     td_name = (label @ '' Update Issue''),
     td_description = (''Update an approved '' @ label @ '' issue''),
     td_risk_level = ''medium'',
     td_requires_approval = True,
     td_provider_type = Some ''native_connector'',
     td_schema_json = Some (PDict [(''type'', PStr ''object''),
          (''required'', PList [PStr ''connector_installation_id'']),
          (''properties'', PDict [(''connector_installation_id'', PDict [(''type'', PStr ''string'')]),
            (''issue_id'', PDict [(''type'', PStr ''string'')]),
            (''issue_key'', PDict [(''type'', PStr ''string'')]),
            (''summary'', PDict [(''type'', PStr ''string'')]),
            (''title'', PDict [(''type'', PStr ''string'')]),
            (''description'', PDict [(''type'', PStr ''string'')]),
            (''state_id'', PDict [(''type'', PStr ''string'')]),
            (''priority'', PDict [(''type'', PStr ''string'')]),
            (''workflow_run_id'', PDict [(''type'', PStr ''string'')]),
            (''approval_request_id'', PDict [(''type'', PStr ''string'')])])])\<rparr>)
   [(''jira'', ''Jira''), (''linear'', ''Linear'')]"

definition issue_add_comment_tools :: "native_tool list" where
  [table_defs]: "issue_add_comment_tools =
  map (\<lambda>(provider, label).
    \<lparr>td_slug = (provider @ ''.add_comment''),
     td_name = (label @ '' Add Comment''),
     td_description = (''Add an approved comment to a '' @ label @ '' issue''),
     td_risk_level = ''medium'',
     td_requires_approval = True,
     td_provider_type = Some ''native_connector'',
     td_schema_json = Some (PDict [(''type'', PStr ''object''),
          (''required'', PList [PStr ''connector_installation_id'', PStr ''comment_body'']),
          (''properties'', PDict [(''connector_installation_id'', PDict [(''type'', PStr ''string'')]),
            (''issue_id'', PDict [(''type'', PStr ''string'')]),
            (''issue_key'', PDict [(''type'', PStr ''string'')]),
            (''comment_body'', PDict [(''type'', PStr ''string'')]),
            (''workflow_run_id'', PDict [(''type'', PStr ''string'')]),
            (''approval_request_id'', PDict [(''type'', PStr ''string'')])])])\<rparr>)
   [(''jira'', ''Jira''), (''linear'', ''Linear'')]"

definition crm_search_contacts_tools :: "native_tool list" where
  [table_defs]: "crm_search_contacts_tools =
  map (\<lambda>(provider, label).
    \<lparr>td_slug = (provider @ ''.search_contacts''),
     td_name = (label @ '' Search Contacts''),
     td_description = (''Search contacts in '' @ label),
     td_risk_level = ''low'',
     td_requires_approval = False,
     td_provider_type = Some ''native_connector'',
     td_schema_json = Some (PDict [(''type'', PStr ''object''),
          (''required'', PList [PStr ''connector_installation_id'']),
          (''properties'', PDict [(''connector_installation_id'', PDict [(''type'', PStr ''string'')]),
            (''query'', PDict [(''type'', PStr ''string'')]),
            (''soql'', PDict [(''type'', PStr ''string'')]),
            (''limit'', PDict [(''type'', PStr ''integer''),
              (''minimum'', PInt 1),
              (''maximum'', PInt 100)])])])\<rparr>)
   [(''hubspot'', ''HubSpot''), (''salesforce'', ''Salesforce'')]"

definition crm_get_contact_tools :: "native_tool list" where
  [table_defs]: "crm_get_contact_tools =
  map (\<lambda>(provider, label).
    \<lparr>td_slug = (provider @ ''.get_contact''),
     td_name = (label @ '' Get Contact''),
     td_description = (''Read one '' @ label @ '' contact''),
     td_risk_level = ''low'',
     td_requires_approval = False,
     td_provider_type = Some ''native_connector'',
     td_schema_json = Some (PDict [(''type'', PStr ''object''),
          (''required'', PList [PStr ''connector_installation_id'', PStr ''contact_id'']),
          (''properties'', PDict [(''connector_installation_id'', PDict [(''type'', PStr ''string'')]),
            (''contact_id'', PDict [(''type'', PStr ''string'')]),
            (''record_id'', PDict [(''type'', PStr ''string'')])])])\<rparr>)
   [(''hubspot'', ''HubSpot''), (''salesforce'', ''Salesforce'')]"

definition crm_search_companies_tools :: "native_tool list" where
  [table_defs]: "crm_search_companies_tools =
  map (\<lambda>(provider, label).
    \<lparr>td_slug = (if provider = ''hubspot'' then (provider @ ''.search_companies'') else (provider @ ''.search_accounts'')),
     td_name = (label @ '' Search '' @ (if provider = ''hubspot'' then ''Companies'' else ''Accounts'')),
     td_description = (''Search '' @ (if provider = ''hubspot'' then ''companies'' else ''accounts'') @ '' in '' @ label),
     td_risk_level = ''low'',
     td_requires_approval = False,
     td_provider_type = Some ''native_connector'',
     td_schema_json = Some (PDict [(''type'', PStr ''object''),
          (''required'', PList [PStr ''connector_installation_id'']),
          (''properties'', PDict [(''connector_installation_id'', PDict [(''type'', PStr ''string'')]),
            (''query'', PDict [(''type'', PStr ''string'')]),
            (''soql'', PDict [(''type'', PStr ''string'')]),
            (''limit'', PDict [(''type'', PStr ''integer''),
              (''minimum'', PInt 1),
              (''maximum'', PInt 100)])])])\<rparr>)
   [(''hubspot'', ''HubSpot''), (''salesforce'', ''Salesforce'')]"

definition crm_get_company_tools :: "native_tool list" where
  [table_defs]: "crm_get_company_tools =
  map (\<lambda>(provider, label).
    \<lparr>td_slug = (if provider = ''hubspot'' then (provider @ ''.get_company'') else (provider @ ''.get_account'')),
     td_name = (label @ '' Get '' @ (if provider = ''hubspot'' then ''Company'' else ''Account'')),
     td_description = (''Read one '' @ label @ '' '' @ (if provider = ''hubspot'' then ''company'' else ''account'')),
     td_risk_level = ''low'',
     td_requires_approval = False,
     td_provider_type = Some ''native_connector'',
     td_schema_json = Some (PDict [(''type'', PStr ''object''),
          (''required'', PList [PStr ''connector_installation_id'']),
          (''properties'', PDict [(''connector_installation_id'', PDict [(''type'', PStr ''string'')]),
            (''company_id'', PDict [(''type'', PStr ''string'')]),
            (''account_id'', PDict [(''type'', PStr ''string'')]),
            (''record_id'', PDict [(''type'', PStr ''string'')])])])\<rparr>)
   [(''hubspot'', ''HubSpot''), (''salesforce'', ''Salesforce'')]"

definition crm_update_contact_tools :: "native_tool list" where
  [table_defs]: "crm_update_contact_tools =
  map (\<lambda>(provider, label).
    \<lparr>td_slug = (provider @ ''.update_contact''),
     td_name = (label @ '' Update Contact''),
     td_description = (''Update allowlisted fields on an approved '' @ label @ '' contact''),
     td_risk_level = ''medium'',
     td_requires_approval = True,
     td_provider_type = Some ''native_connector'',
     td_schema_json = Some (PDict [(''type'', PStr ''object''),
          (''required'', PList [PStr ''connector_installation_id'', PStr ''contact_id'', PStr ''fields'']),
          (''properties'', PDict [(''connector_installation_id'', PDict [(''type'', PStr ''string'')]),
            (''contact_id'', PDict [(''type'', PStr ''string'')]),
            (''record_id'', PDict [(''type'', PStr ''string'')]),
            (''fields'', PDict [(''type'', PStr ''object'')]),
            (''workflow_run_id'', PDict [(''type'', PStr ''string'')]),
            (''approval_request_id'', PDict [(''type'', PStr ''string'')])])])\<rparr>)
   [(''hubspot'', ''HubSpot''), (''salesforce'', ''Salesforce'')]"

definition hubspot_tools :: "native_tool list" where
  [table_defs]: "hubspot_tools =
  [\<lparr>td_slug = ''hubspot.create_note'',
     td_name = ''HubSpot Create Note'',
     td_description = ''Create an approved note on a HubSpot contact'',
     td_risk_level = ''medium'',
     td_requires_approval = True,
     td_provider_type = Some ''native_connector'',
     td_schema_json = Some (PDict [(''type'', PStr ''object''),
          (''required'', PList [PStr ''connector_installation_id'', PStr ''contact_id'', PStr ''note_body'']),
          (''properties'', PDict [(''connector_installation_id'', PDict [(''type'', PStr ''string'')]),
            (''contact_id'', PDict [(''type'', PStr ''string'')]),
            (''note_body'', PDict [(''type'', PStr ''string'')]),
            (''workflow_run_id'', PDict [(''type'', PStr ''string'')]),
            (''approval_request_id'', PDict [(''type'', PStr ''string'')])])])\<rparr>]"

definition salesforce_tools :: "native_tool list" where
  [table_defs]: "salesforce_tools =
  [\<lparr>td_slug = ''salesforce.create_task'',
     td_name = ''Salesforce Create Task'',
     td_description = ''Create an approved task on a Salesforce contact'',
     td_risk_level = ''medium'',
     td_requires_approval = True,
     td_provider_type = Some ''native_connector'',
     td_schema_json = Some (PDict [(''type'', PStr ''object''),
          (''required'', PList [PStr ''connector_installation_id'', PStr ''contact_id'', PStr ''task_subject'']),
          (''properties'', PDict [(''connector_installation_id'', PDict [(''type'', PStr ''string'')]),
            (''contact_id'', PDict [(''type'', PStr ''string'')]),
            (''task_subject'', PDict [(''type'', PStr ''string'')]),
            (''task_description'', PDict [(''type'', PStr ''string'')]),
            (''workflow_run_id'', PDict [(''type'', PStr ''string'')]),
            (''approval_request_id'', PDict [(''type'', PStr ''string'')])])])\<rparr>]"

definition crm_send_email_tools :: "native_tool list" where
  [table_defs]: "crm_send_email_tools =
  map (\<lambda>(provider, label).
    \<lparr>td_slug = (provider @ ''.send_email''),
     td_name = (label @ '' Send Email''),
     td_description = (''Send an approved outreach email via '' @ label),
     td_risk_level = ''high'',
     td_requires_approval = True,
     td_provider_type = Some ''native_connector'',
     td_schema_json = Some (PDict [(''type'', PStr ''object''),
          (''required'', PList [PStr ''connector_installation_id'']),
          (''properties'', PDict [(''connector_installation_id'', PDict [(''type'', PStr ''string'')]),
            (''contact_id'', PDict [(''type'', PStr ''string'')]),
            (''email_to'', PDict [(''type'', PStr ''string'')]),
            (''email_id'', PDict [(''type'', PStr ''string'')]),
            (''email_subject'', PDict [(''type'', PStr ''string'')]),
            (''email_body'', PDict [(''type'', PStr ''string'')]),
            (''workflow_run_id'', PDict [(''type'', PStr ''string'')]),
            (''approval_request_id'', PDict [(''type'', PStr ''string'')])])])\<rparr>)
   [(''hubspot'', ''HubSpot''), (''salesforce'', ''Salesforce'')]"

definition general_tools :: "native_tool list" where
  [table_defs]: "general_tools =
  [\<lparr>td_slug = ''web_search'',
     td_name = ''Web Search'',
     td_description = ''Search the public web'',
     td_risk_level = ''low'',
     td_requires_approval = False,
     td_provider_type = None,
     td_schema_json = None\<rparr>,
   \<lparr>td_slug = ''web_fetch'',
     td_name = ''Web Fetch'',
     td_description = ''Fetch a URL'',
     td_risk_level = ''low'',
     td_requires_approval = False,
     td_provider_type = None,
     td_schema_json = None\<rparr>,
   \<lparr>td_slug = ''knowledge_search'',
     td_name = ''Knowledge Search'',
     td_description = ''Search project/org knowledge'',
     td_risk_level = ''low'',
     td_requires_approval = False,
     td_provider_type = None,
     td_schema_json = None\<rparr>,
   \<lparr>td_slug = ''repo_search'',
     td_name = ''Repository Search'',
     td_description = ''Search linked repositories'',
     td_risk_level = ''low'',
     td_requires_approval = False,
     td_provider_type = None,
     td_schema_json = None\<rparr>,
   \<lparr>td_slug = ''fs_read'',
     td_name = ''Filesystem Read'',
     td_description = ''Read files in workspace'',
     td_risk_level = ''low'',
     td_requires_approval = False,
     td_provider_type = None,
     td_schema_json = None\<rparr>,
   \<lparr>td_slug = ''fs_write'',
     td_name = ''Filesystem Write'',
     td_description = ''Write files in workspace'',
     td_risk_level = ''high'',
     td_requires_approval = True,
     td_provider_type = None,
     td_schema_json = None\<rparr>,
   \<lparr>td_slug = ''code_execute'',
     td_name = ''Code Execute'',
     td_description = ''Execute code in sandbox'',
     td_risk_level = ''high'',
     td_requires_approval = True,
     td_provider_type = None,
     td_schema_json = None\<rparr>,
   \<lparr>td_slug = ''db_query'',
     td_name = ''Database Query'',
     td_description = ''Run read/write DB queries'',
     td_risk_level = ''critical'',
     td_requires_approval = True,
     td_provider_type = None,
     td_schema_json = None\<rparr>]"

definition github_tools :: "native_tool list" where
  [table_defs]: "github_tools =
  [\<lparr>td_slug = ''github_comment'',
     td_name = ''GitHub Comment'',
     td_description = ''Comment on GitHub issues/PRs'',
     td_risk_level = ''medium'',
     td_requires_approval = True,
     td_provider_type = Some ''github'',
     td_schema_json = None\<rparr>,
   \<lparr>td_slug = ''github_label_issue'',
     td_name = ''GitHub Label Issue'',
     td_description = ''Add/remove GitHub issue labels'',
     td_risk_level = ''medium'',
     td_requires_approval = True,
     td_provider_type = Some ''github'',
     td_schema_json = None\<rparr>,
   \<lparr>td_slug = ''github_create_pr'',
     td_name = ''GitHub Create PR'',
     td_description = ''Open a pull request'',
     td_risk_level = ''high'',
     td_requires_approval = True,
     td_provider_type = Some ''github'',
     td_schema_json = None\<rparr>]"

definition general2_tools :: "native_tool list" where
  [table_defs]: "general2_tools =
  [\<lparr>td_slug = ''invoke_specialist'',
     td_name = ''Invoke Specialist'',
     td_description = ''Delegate a bounded sub-task to a specialist agent (max depth 1)'',
     td_risk_level = ''medium'',
     td_requires_approval = False,
     td_provider_type = None,
     td_schema_json = Some (PDict [(''type'', PStr ''object''),
          (''required'', PList [PStr ''specialist_agent_id'', PStr ''prompt'']),
          (''properties'', PDict [(''specialist_agent_id'', PDict [(''type'', PStr ''string'')]),
            (''prompt'', PDict [(''type'', PStr ''string'')])])])\<rparr>]"

definition NATIVE_TOOL_CATALOG :: "native_tool list" where
  "NATIVE_TOOL_CATALOG =
     gmail_tools @
     outlook_tools @
     telegram_tools @
     slack_tools @
     teams_tools @
     calendar_list_events_tools @
     calendar_get_event_tools @
     calendar_get_availability_tools @
     calendar_create_event_tools @
     calendar_update_event_tools @
     calendar_cancel_event_tools @
     drive_search_files_tools @
     drive_get_file_metadata_tools @
     drive_get_file_content_tools @
     issue_search_issues_tools @
     issue_get_issue_tools @
     issue_get_issue_comments_tools @
     issue_create_issue_tools @
     issue_update_issue_tools @
     issue_add_comment_tools @
     crm_search_contacts_tools @
     crm_get_contact_tools @
     crm_search_companies_tools @
     crm_get_company_tools @
     crm_update_contact_tools @
     hubspot_tools @
     salesforce_tools @
     crm_send_email_tools @
     general_tools @
     github_tools @
     general2_tools"

section \<open>Default action policies\<close>

record default_policy =
  dp_action_key :: string
  dp_decision :: string
  dp_risk_level :: string

definition gmail_policies :: "default_policy list" where
  [table_defs]: "gmail_policies =
  [\<lparr>dp_action_key = ''gmail.search_messages'', dp_decision = ''autonomous'', dp_risk_level = ''low''\<rparr>,
   \<lparr>dp_action_key = ''gmail.get_message'', dp_decision = ''autonomous'', dp_risk_level = ''low''\<rparr>,
   \<lparr>dp_action_key = ''gmail.get_thread'', dp_decision = ''autonomous'', dp_risk_level = ''low''\<rparr>,
   \<lparr>dp_action_key = ''gmail.create_draft'', dp_decision = ''autonomous'', dp_risk_level = ''medium''\<rparr>,
   \<lparr>dp_action_key = ''gmail.update_draft'', dp_decision = ''autonomous'', dp_risk_level = ''medium''\<rparr>,
   \<lparr>dp_action_key = ''gmail.send_draft'', dp_decision = ''approval_required'', dp_risk_level = ''high''\<rparr>]"

definition outlook_policies :: "default_policy list" where
  [table_defs]: "outlook_policies =
  [\<lparr>dp_action_key = ''outlook.search_messages'', dp_decision = ''autonomous'', dp_risk_level = ''low''\<rparr>,
   \<lparr>dp_action_key = ''outlook.get_message'', dp_decision = ''autonomous'', dp_risk_level = ''low''\<rparr>,
   \<lparr>dp_action_key = ''outlook.get_thread'', dp_decision = ''autonomous'', dp_risk_level = ''low''\<rparr>,
   \<lparr>dp_action_key = ''outlook.create_draft'', dp_decision = ''autonomous'', dp_risk_level = ''medium''\<rparr>,
   \<lparr>dp_action_key = ''outlook.update_draft'', dp_decision = ''autonomous'', dp_risk_level = ''medium''\<rparr>,
   \<lparr>dp_action_key = ''outlook.send_draft'', dp_decision = ''approval_required'', dp_risk_level = ''high''\<rparr>]"

definition calendar_list_events_policies :: "default_policy list" where
  [table_defs]: "calendar_list_events_policies =
  map (\<lambda>provider.
    \<lparr>dp_action_key = (provider @ ''.list_events''), dp_decision = ''autonomous'', dp_risk_level = ''low''\<rparr>)
   [''google_calendar'', ''microsoft_calendar'']"

definition calendar_get_event_policies :: "default_policy list" where
  [table_defs]: "calendar_get_event_policies =
  map (\<lambda>provider.
    \<lparr>dp_action_key = (provider @ ''.get_event''), dp_decision = ''autonomous'', dp_risk_level = ''low''\<rparr>)
   [''google_calendar'', ''microsoft_calendar'']"

definition calendar_get_availability_policies :: "default_policy list" where
  [table_defs]: "calendar_get_availability_policies =
  map (\<lambda>provider.
    \<lparr>dp_action_key = (provider @ ''.get_availability''), dp_decision = ''autonomous'', dp_risk_level = ''low''\<rparr>)
   [''google_calendar'', ''microsoft_calendar'']"

definition calendar_create_event_policies :: "default_policy list" where
  [table_defs]: "calendar_create_event_policies =
  map (\<lambda>provider.
    \<lparr>dp_action_key = (provider @ ''.create_event''), dp_decision = ''approval_required'', dp_risk_level = ''medium''\<rparr>)
   [''google_calendar'', ''microsoft_calendar'']"

definition calendar_update_event_policies :: "default_policy list" where
  [table_defs]: "calendar_update_event_policies =
  map (\<lambda>provider.
    \<lparr>dp_action_key = (provider @ ''.update_event''), dp_decision = ''approval_required'', dp_risk_level = ''medium''\<rparr>)
   [''google_calendar'', ''microsoft_calendar'']"

definition calendar_cancel_event_policies :: "default_policy list" where
  [table_defs]: "calendar_cancel_event_policies =
  map (\<lambda>provider.
    \<lparr>dp_action_key = (provider @ ''.cancel_event''), dp_decision = ''approval_required'', dp_risk_level = ''high''\<rparr>)
   [''google_calendar'', ''microsoft_calendar'']"

definition drive_search_files_policies :: "default_policy list" where
  [table_defs]: "drive_search_files_policies =
  map (\<lambda>provider.
    \<lparr>dp_action_key = (provider @ ''.search_files''), dp_decision = ''autonomous'', dp_risk_level = ''low''\<rparr>)
   [''google_drive'', ''microsoft_drive'']"

definition drive_get_file_metadata_policies :: "default_policy list" where
  [table_defs]: "drive_get_file_metadata_policies =
  map (\<lambda>provider.
    \<lparr>dp_action_key = (provider @ ''.get_file_metadata''), dp_decision = ''autonomous'', dp_risk_level = ''low''\<rparr>)
   [''google_drive'', ''microsoft_drive'']"

definition drive_get_file_content_policies :: "default_policy list" where
  [table_defs]: "drive_get_file_content_policies =
  map (\<lambda>provider.
    \<lparr>dp_action_key = (provider @ ''.get_file_content''), dp_decision = ''autonomous'', dp_risk_level = ''low''\<rparr>)
   [''google_drive'', ''microsoft_drive'']"

definition issue_search_issues_policies :: "default_policy list" where
  [table_defs]: "issue_search_issues_policies =
  map (\<lambda>provider.
    \<lparr>dp_action_key = (provider @ ''.search_issues''), dp_decision = ''autonomous'', dp_risk_level = ''low''\<rparr>)
   [''jira'', ''linear'']"

definition issue_get_issue_policies :: "default_policy list" where
  [table_defs]: "issue_get_issue_policies =
  map (\<lambda>provider.
    \<lparr>dp_action_key = (provider @ ''.get_issue''), dp_decision = ''autonomous'', dp_risk_level = ''low''\<rparr>)
   [''jira'', ''linear'']"

definition issue_get_issue_comments_policies :: "default_policy list" where
  [table_defs]: "issue_get_issue_comments_policies =
  map (\<lambda>provider.
    \<lparr>dp_action_key = (provider @ ''.get_issue_comments''), dp_decision = ''autonomous'', dp_risk_level = ''low''\<rparr>)
   [''jira'', ''linear'']"

definition issue_create_issue_policies :: "default_policy list" where
  [table_defs]: "issue_create_issue_policies =
  map (\<lambda>provider.
    \<lparr>dp_action_key = (provider @ ''.create_issue''), dp_decision = ''approval_required'', dp_risk_level = ''medium''\<rparr>)
   [''jira'', ''linear'']"

definition issue_update_issue_policies :: "default_policy list" where
  [table_defs]: "issue_update_issue_policies =
  map (\<lambda>provider.
    \<lparr>dp_action_key = (provider @ ''.update_issue''), dp_decision = ''approval_required'', dp_risk_level = ''medium''\<rparr>)
   [''jira'', ''linear'']"

definition issue_add_comment_policies :: "default_policy list" where
  [table_defs]: "issue_add_comment_policies =
  map (\<lambda>provider.
    \<lparr>dp_action_key = (provider @ ''.add_comment''), dp_decision = ''approval_required'', dp_risk_level = ''medium''\<rparr>)
   [''jira'', ''linear'']"

definition crm_search_contacts_policies :: "default_policy list" where
  [table_defs]: "crm_search_contacts_policies =
  map (\<lambda>provider.
    \<lparr>dp_action_key = (provider @ ''.search_contacts''), dp_decision = ''autonomous'', dp_risk_level = ''low''\<rparr>)
   [''hubspot'', ''salesforce'']"

definition crm_get_contact_policies :: "default_policy list" where
  [table_defs]: "crm_get_contact_policies =
  map (\<lambda>provider.
    \<lparr>dp_action_key = (provider @ ''.get_contact''), dp_decision = ''autonomous'', dp_risk_level = ''low''\<rparr>)
   [''hubspot'', ''salesforce'']"

definition crm_search_companies_policies :: "default_policy list" where
  [table_defs]: "crm_search_companies_policies =
  map (\<lambda>provider.
    \<lparr>dp_action_key = (provider @ ''.search_companies''), dp_decision = ''autonomous'', dp_risk_level = ''low''\<rparr>)
   [''hubspot'']"

definition crm_get_company_policies :: "default_policy list" where
  [table_defs]: "crm_get_company_policies =
  map (\<lambda>provider.
    \<lparr>dp_action_key = (provider @ ''.get_company''), dp_decision = ''autonomous'', dp_risk_level = ''low''\<rparr>)
   [''hubspot'']"

definition crm_search_accounts_policies :: "default_policy list" where
  [table_defs]: "crm_search_accounts_policies =
  map (\<lambda>provider.
    \<lparr>dp_action_key = (provider @ ''.search_accounts''), dp_decision = ''autonomous'', dp_risk_level = ''low''\<rparr>)
   [''salesforce'']"

definition crm_get_account_policies :: "default_policy list" where
  [table_defs]: "crm_get_account_policies =
  map (\<lambda>provider.
    \<lparr>dp_action_key = (provider @ ''.get_account''), dp_decision = ''autonomous'', dp_risk_level = ''low''\<rparr>)
   [''salesforce'']"

definition crm_update_contact_policies :: "default_policy list" where
  [table_defs]: "crm_update_contact_policies =
  map (\<lambda>provider.
    \<lparr>dp_action_key = (provider @ ''.update_contact''), dp_decision = ''approval_required'', dp_risk_level = ''medium''\<rparr>)
   [''hubspot'', ''salesforce'']"

definition hubspot_policies :: "default_policy list" where
  [table_defs]: "hubspot_policies =
  [\<lparr>dp_action_key = ''hubspot.create_note'', dp_decision = ''approval_required'', dp_risk_level = ''medium''\<rparr>]"

definition salesforce_policies :: "default_policy list" where
  [table_defs]: "salesforce_policies =
  [\<lparr>dp_action_key = ''salesforce.create_task'', dp_decision = ''approval_required'', dp_risk_level = ''medium''\<rparr>]"

definition crm_send_email_policies :: "default_policy list" where
  [table_defs]: "crm_send_email_policies =
  map (\<lambda>provider.
    \<lparr>dp_action_key = (provider @ ''.send_email''), dp_decision = ''approval_required'', dp_risk_level = ''high''\<rparr>)
   [''hubspot'', ''salesforce'']"

definition slack_policies :: "default_policy list" where
  [table_defs]: "slack_policies =
  [\<lparr>dp_action_key = ''slack.search_messages'', dp_decision = ''autonomous'', dp_risk_level = ''low''\<rparr>,
   \<lparr>dp_action_key = ''slack.get_thread'', dp_decision = ''autonomous'', dp_risk_level = ''low''\<rparr>,
   \<lparr>dp_action_key = ''slack.get_message'', dp_decision = ''autonomous'', dp_risk_level = ''low''\<rparr>,
   \<lparr>dp_action_key = ''slack.post_message'', dp_decision = ''approval_required'', dp_risk_level = ''high''\<rparr>]"

definition teams_policies :: "default_policy list" where
  [table_defs]: "teams_policies =
  [\<lparr>dp_action_key = ''teams.search_messages'', dp_decision = ''autonomous'', dp_risk_level = ''low''\<rparr>,
   \<lparr>dp_action_key = ''teams.get_thread'', dp_decision = ''autonomous'', dp_risk_level = ''low''\<rparr>,
   \<lparr>dp_action_key = ''teams.get_message'', dp_decision = ''autonomous'', dp_risk_level = ''low''\<rparr>,
   \<lparr>dp_action_key = ''teams.post_message'', dp_decision = ''approval_required'', dp_risk_level = ''high''\<rparr>]"

definition general_policies :: "default_policy list" where
  [table_defs]: "general_policies =
  [\<lparr>dp_action_key = ''web_search'', dp_decision = ''autonomous'', dp_risk_level = ''low''\<rparr>,
   \<lparr>dp_action_key = ''knowledge_read'', dp_decision = ''autonomous'', dp_risk_level = ''low''\<rparr>,
   \<lparr>dp_action_key = ''external_email_send'', dp_decision = ''approval_required'', dp_risk_level = ''high''\<rparr>,
   \<lparr>dp_action_key = ''social_publish'', dp_decision = ''approval_required'', dp_risk_level = ''high''\<rparr>,
   \<lparr>dp_action_key = ''ad_budget_change'', dp_decision = ''approval_required'', dp_risk_level = ''critical''\<rparr>,
   \<lparr>dp_action_key = ''delete_record'', dp_decision = ''approval_required'', dp_risk_level = ''critical''\<rparr>,
   \<lparr>dp_action_key = ''merge_pull_request'', dp_decision = ''approval_required'', dp_risk_level = ''high''\<rparr>,
   \<lparr>dp_action_key = ''shell_destructive_action'', dp_decision = ''prohibited'', dp_risk_level = ''critical''\<rparr>,
   \<lparr>dp_action_key = ''invoke_specialist'', dp_decision = ''autonomous'', dp_risk_level = ''medium''\<rparr>]"

definition DEFAULT_ACTION_POLICIES :: "default_policy list" where
  "DEFAULT_ACTION_POLICIES =
     gmail_policies @
     outlook_policies @
     calendar_list_events_policies @
     calendar_get_event_policies @
     calendar_get_availability_policies @
     calendar_create_event_policies @
     calendar_update_event_policies @
     calendar_cancel_event_policies @
     drive_search_files_policies @
     drive_get_file_metadata_policies @
     drive_get_file_content_policies @
     issue_search_issues_policies @
     issue_get_issue_policies @
     issue_get_issue_comments_policies @
     issue_create_issue_policies @
     issue_update_issue_policies @
     issue_add_comment_policies @
     crm_search_contacts_policies @
     crm_get_contact_policies @
     crm_search_companies_policies @
     crm_get_company_policies @
     crm_search_accounts_policies @
     crm_get_account_policies @
     crm_update_contact_policies @
     hubspot_policies @
     salesforce_policies @
     crm_send_email_policies @
     slack_policies @
     teams_policies @
     general_policies"

end
