(* ===== verification/Effect_Inventory.thy ===== *)
theory Effect_Inventory
  imports Governance_Types Tool_Catalog
begin

text \<open>
  The external-effect inventory, \<open>orchestration/external_effect_inventory.py\<close>: one contract per
  tool slug, in the order of the source's dictionary, the two pattern families (\<open>mcp.*\<close> and
  \<open>a2a.*\<close>) and the queries over them. The tables are transcribed field by field; a
  comprehension of the source is a \<open>map\<close> over the same slugs.
\<close>

definition arrow_utf8 :: string where
  "arrow_utf8 = [CHR 0xE2, CHR 0x86, CHR 0x92]"

section \<open>The contracts\<close>

definition troop_contracts :: "(string \<times> external_effect_contract) list" where
  [table_defs]: "troop_contracts =
  [(''invoke_specialist'',
    \<lparr>ec_action_key = ''invoke_specialist'',
     ec_provider = ''troop'',
     ec_risk_level = ''medium'',
     ec_side_effect = SE_INTERNAL_MUTATING,
     ec_approval_rule = ''Execution policy; limited to an active parent run and one nesting level'',
     ec_idempotency_strategy = IS_NONE,
     ec_idempotency_detail = ''Creates and executes a child run; parent invocation count bounds fan-out'',
     ec_ownership_check = ''Parent run ownership is inherited and rechecked by ExecutionService'',
     ec_retry_behavior = ''Do not retry automatically because a replay may create another child run'',
     ec_notes = ''''\<rparr>)]"

definition gmail_contracts :: "(string \<times> external_effect_contract) list" where
  [table_defs]: "gmail_contracts =
  [(''gmail.search_messages'',
    \<lparr>ec_action_key = ''gmail.search_messages'',
     ec_provider = ''gmail'',
     ec_risk_level = ''low'',
     ec_side_effect = SE_READ,
     ec_approval_rule = ''ActionPolicy default autonomous'',
     ec_idempotency_strategy = IS_NONE,
     ec_idempotency_detail = ''Read-only; HTTP GET safe to retry'',
     ec_ownership_check = ''ConnectorInstallation.owner_id + active status'',
     ec_retry_behavior = ''Gmail adapter surfaces retryable GmailAPIError; no write retry'',
     ec_notes = ''''\<rparr>),
   (''gmail.get_message'',
    \<lparr>ec_action_key = ''gmail.get_message'',
     ec_provider = ''gmail'',
     ec_risk_level = ''low'',
     ec_side_effect = SE_READ,
     ec_approval_rule = ''ActionPolicy default autonomous'',
     ec_idempotency_strategy = IS_NONE,
     ec_idempotency_detail = ''Read-only'',
     ec_ownership_check = ''ConnectorInstallation.owner_id + active status'',
     ec_retry_behavior = ''Safe GET retry via external_http policy'',
     ec_notes = ''''\<rparr>),
   (''gmail.get_thread'',
    \<lparr>ec_action_key = ''gmail.get_thread'',
     ec_provider = ''gmail'',
     ec_risk_level = ''low'',
     ec_side_effect = SE_READ,
     ec_approval_rule = ''ActionPolicy default autonomous'',
     ec_idempotency_strategy = IS_NONE,
     ec_idempotency_detail = ''Read-only'',
     ec_ownership_check = ''ConnectorInstallation.owner_id + active status'',
     ec_retry_behavior = ''Safe GET retry via external_http policy'',
     ec_notes = ''''\<rparr>),
   (''gmail.create_draft'',
    \<lparr>ec_action_key = ''gmail.create_draft'',
     ec_provider = ''gmail'',
     ec_risk_level = ''medium'',
     ec_side_effect = SE_EXTERNAL_MUTATING,
     ec_approval_rule = ''ActionPolicy default autonomous; catalog requires_approval=False'',
     ec_idempotency_strategy = IS_NONE,
     ec_idempotency_detail = ''Each call creates a new provider draft; DraftExecutionMetadata is post-hoc fingerprint only'',
     ec_ownership_check = ''ConnectorInstallation.owner_id + company scope'',
     ec_retry_behavior = ''No durable claim; Celery/workflow replay may create duplicate drafts'',
     ec_notes = ''BLOCKED from new autonomous use until REL-001B receipt/claim exists.''\<rparr>),
   (''gmail.update_draft'',
    \<lparr>ec_action_key = ''gmail.update_draft'',
     ec_provider = ''gmail'',
     ec_risk_level = ''medium'',
     ec_side_effect = SE_EXTERNAL_MUTATING,
     ec_approval_rule = ''ActionPolicy default autonomous'',
     ec_idempotency_strategy = IS_NONE,
     ec_idempotency_detail = ''Provider draft replace; content_hash updated after success only'',
     ec_ownership_check = ''ConnectorInstallation.owner_id + DraftExecutionMetadata row'',
     ec_retry_behavior = ''No durable claim; ambiguous replay may overwrite draft twice'',
     ec_notes = ''BLOCKED from new autonomous use.''\<rparr>),
   (''gmail.send_draft'',
    \<lparr>ec_action_key = ''gmail.send_draft'',
     ec_provider = ''gmail'',
     ec_risk_level = ''high'',
     ec_side_effect = SE_EXTERNAL_MUTATING,
     ec_approval_rule = ''approval_required; consumed canonical ApprovalRequest + arguments_hash'',
     ec_idempotency_strategy = IS_DURABLE_CLAIM,
     ec_idempotency_detail = ''ExternalActionExecution.idempotency_key UNIQUE (workflow_run:approval:draft:action) claimed before Gmail send'',
     ec_ownership_check = ''ConnectorInstallation.owner_id; approval owner match; DraftExecutionMetadata fingerprint + stale thread check'',
     ec_retry_behavior = (''IntegrityError '' @ arrow_utf8 @ '' concurrent duplicate blocked; succeeded row returns cached result; ambiguous failure '' @ arrow_utf8 @ '' outcome_unknown''),
     ec_notes = ''''\<rparr>),
   (''gmail.add_label'',
    \<lparr>ec_action_key = ''gmail.add_label'',
     ec_provider = ''gmail'',
     ec_risk_level = ''medium'',
     ec_side_effect = SE_EXTERNAL_MUTATING,
     ec_approval_rule = ''ActionPolicy default autonomous'',
     ec_idempotency_strategy = IS_NONE,
     ec_idempotency_detail = ''Gmail modify labels API; no Troop receipt'',
     ec_ownership_check = ''ConnectorInstallation.owner_id'',
     ec_retry_behavior = (''POST without idempotency key '' @ arrow_utf8 @ '' single attempt per external_http policy''),
     ec_notes = ''BLOCKED from new autonomous use.''\<rparr>)]"

definition outlook_contracts :: "(string \<times> external_effect_contract) list" where
  [table_defs]: "outlook_contracts =
  [(''outlook.search_messages'',
    \<lparr>ec_action_key = ''outlook.search_messages'',
     ec_provider = ''outlook'',
     ec_risk_level = ''low'',
     ec_side_effect = SE_READ,
     ec_approval_rule = ''ActionPolicy default autonomous'',
     ec_idempotency_strategy = IS_NONE,
     ec_idempotency_detail = ''Read-only; Graph GET safe to retry'',
     ec_ownership_check = ''ConnectorInstallation.owner_id + active status'',
     ec_retry_behavior = ''Outlook adapter surfaces retryable OutlookAPIError; no write retry'',
     ec_notes = ''''\<rparr>),
   (''outlook.get_message'',
    \<lparr>ec_action_key = ''outlook.get_message'',
     ec_provider = ''outlook'',
     ec_risk_level = ''low'',
     ec_side_effect = SE_READ,
     ec_approval_rule = ''ActionPolicy default autonomous'',
     ec_idempotency_strategy = IS_NONE,
     ec_idempotency_detail = ''Read-only'',
     ec_ownership_check = ''ConnectorInstallation.owner_id + active status'',
     ec_retry_behavior = ''Safe GET retry via external_http policy'',
     ec_notes = ''''\<rparr>),
   (''outlook.get_thread'',
    \<lparr>ec_action_key = ''outlook.get_thread'',
     ec_provider = ''outlook'',
     ec_risk_level = ''low'',
     ec_side_effect = SE_READ,
     ec_approval_rule = ''ActionPolicy default autonomous'',
     ec_idempotency_strategy = IS_NONE,
     ec_idempotency_detail = ''Read-only'',
     ec_ownership_check = ''ConnectorInstallation.owner_id + active status'',
     ec_retry_behavior = ''Safe GET retry via external_http policy'',
     ec_notes = ''''\<rparr>),
   (''outlook.create_draft'',
    \<lparr>ec_action_key = ''outlook.create_draft'',
     ec_provider = ''outlook'',
     ec_risk_level = ''medium'',
     ec_side_effect = SE_EXTERNAL_MUTATING,
     ec_approval_rule = ''ActionPolicy default autonomous; catalog requires_approval=False'',
     ec_idempotency_strategy = IS_NONE,
     ec_idempotency_detail = ''Each call creates a new provider draft; DraftExecutionMetadata is post-hoc fingerprint only'',
     ec_ownership_check = ''ConnectorInstallation.owner_id + company scope'',
     ec_retry_behavior = ''No durable claim; Celery/workflow replay may create duplicate drafts'',
     ec_notes = ''BLOCKED from new autonomous use until durable receipt exists.''\<rparr>),
   (''outlook.update_draft'',
    \<lparr>ec_action_key = ''outlook.update_draft'',
     ec_provider = ''outlook'',
     ec_risk_level = ''medium'',
     ec_side_effect = SE_EXTERNAL_MUTATING,
     ec_approval_rule = ''ActionPolicy default autonomous'',
     ec_idempotency_strategy = IS_NONE,
     ec_idempotency_detail = ''Provider draft replace; content_hash updated after success only'',
     ec_ownership_check = ''ConnectorInstallation.owner_id + DraftExecutionMetadata row'',
     ec_retry_behavior = ''No durable claim; ambiguous replay may overwrite draft twice'',
     ec_notes = ''BLOCKED from new autonomous use.''\<rparr>),
   (''outlook.send_draft'',
    \<lparr>ec_action_key = ''outlook.send_draft'',
     ec_provider = ''outlook'',
     ec_risk_level = ''high'',
     ec_side_effect = SE_EXTERNAL_MUTATING,
     ec_approval_rule = ''approval_required; consumed canonical ApprovalRequest + arguments_hash'',
     ec_idempotency_strategy = IS_DURABLE_CLAIM,
     ec_idempotency_detail = ''ExternalActionExecution.idempotency_key UNIQUE (workflow_run:approval:draft:action) claimed before Outlook send'',
     ec_ownership_check = ''ConnectorInstallation.owner_id; approval owner match; DraftExecutionMetadata fingerprint + stale thread check'',
     ec_retry_behavior = (''IntegrityError '' @ arrow_utf8 @ '' concurrent duplicate blocked; succeeded row returns cached result; ambiguous failure '' @ arrow_utf8 @ '' outcome_unknown''),
     ec_notes = ''''\<rparr>),
   (''outlook.add_label'',
    \<lparr>ec_action_key = ''outlook.add_label'',
     ec_provider = ''outlook'',
     ec_risk_level = ''medium'',
     ec_side_effect = SE_EXTERNAL_MUTATING,
     ec_approval_rule = ''ActionPolicy default autonomous'',
     ec_idempotency_strategy = IS_NONE,
     ec_idempotency_detail = ''Graph categories PATCH; no Troop receipt'',
     ec_ownership_check = ''ConnectorInstallation.owner_id'',
     ec_retry_behavior = (''PATCH without idempotency key '' @ arrow_utf8 @ '' single attempt per external_http policy''),
     ec_notes = ''BLOCKED from new autonomous use.''\<rparr>)]"

definition google_calendar_read_contracts :: "(string \<times> external_effect_contract) list" where
  [table_defs]: "google_calendar_read_contracts =
  map (\<lambda>slug. (slug,
    \<lparr>ec_action_key = slug,
     ec_provider = ''google_calendar'',
     ec_risk_level = ''low'',
     ec_side_effect = SE_READ,
     ec_approval_rule = ''ActionPolicy default autonomous'',
     ec_idempotency_strategy = IS_NONE,
     ec_idempotency_detail = ''Read-only calendar query'',
     ec_ownership_check = ''ConnectorInstallation.owner_id + active status'',
     ec_retry_behavior = ''Safe GET/POST read retry'',
     ec_notes = ''''\<rparr>))
   [''google_calendar.list_events'', ''google_calendar.get_event'', ''google_calendar.get_availability'']"

definition google_calendar_write_contracts :: "(string \<times> external_effect_contract) list" where
  [table_defs]: "google_calendar_write_contracts =
  map (\<lambda>slug. (slug,
    \<lparr>ec_action_key = slug,
     ec_provider = ''google_calendar'',
     ec_risk_level = (if contains_str ''create'' slug \<or> contains_str ''update'' slug then ''medium'' else ''high''),
     ec_side_effect = SE_EXTERNAL_MUTATING,
     ec_approval_rule = ''approval_required'',
     ec_idempotency_strategy = IS_NONE,
     ec_idempotency_detail = ''Calendar mutation without durable Troop receipt'',
     ec_ownership_check = ''ConnectorInstallation.owner_id'',
     ec_retry_behavior = ''Approval-gated single attempt per workflow step'',
     ec_notes = ''BLOCKED from new autonomous use.''\<rparr>))
   [''google_calendar.create_event'', ''google_calendar.update_event'', ''google_calendar.cancel_event'']"

definition microsoft_calendar_read_contracts :: "(string \<times> external_effect_contract) list" where
  [table_defs]: "microsoft_calendar_read_contracts =
  map (\<lambda>slug. (slug,
    \<lparr>ec_action_key = slug,
     ec_provider = ''microsoft_calendar'',
     ec_risk_level = ''low'',
     ec_side_effect = SE_READ,
     ec_approval_rule = ''ActionPolicy default autonomous'',
     ec_idempotency_strategy = IS_NONE,
     ec_idempotency_detail = ''Read-only calendar query'',
     ec_ownership_check = ''ConnectorInstallation.owner_id + active status'',
     ec_retry_behavior = ''Safe GET/POST read retry'',
     ec_notes = ''''\<rparr>))
   [''microsoft_calendar.list_events'', ''microsoft_calendar.get_event'', ''microsoft_calendar.get_availability'']"

definition microsoft_calendar_write_contracts :: "(string \<times> external_effect_contract) list" where
  [table_defs]: "microsoft_calendar_write_contracts =
  map (\<lambda>slug. (slug,
    \<lparr>ec_action_key = slug,
     ec_provider = ''microsoft_calendar'',
     ec_risk_level = (if contains_str ''create'' slug \<or> contains_str ''update'' slug then ''medium'' else ''high''),
     ec_side_effect = SE_EXTERNAL_MUTATING,
     ec_approval_rule = ''approval_required'',
     ec_idempotency_strategy = IS_NONE,
     ec_idempotency_detail = ''Calendar mutation without durable Troop receipt'',
     ec_ownership_check = ''ConnectorInstallation.owner_id'',
     ec_retry_behavior = ''Approval-gated single attempt per workflow step'',
     ec_notes = ''BLOCKED from new autonomous use.''\<rparr>))
   [''microsoft_calendar.create_event'', ''microsoft_calendar.update_event'', ''microsoft_calendar.cancel_event'']"

definition google_drive_read_contracts :: "(string \<times> external_effect_contract) list" where
  [table_defs]: "google_drive_read_contracts =
  map (\<lambda>slug. (slug,
    \<lparr>ec_action_key = slug,
     ec_provider = ''google_drive'',
     ec_risk_level = ''low'',
     ec_side_effect = SE_READ,
     ec_approval_rule = ''ActionPolicy default autonomous'',
     ec_idempotency_strategy = IS_NONE,
     ec_idempotency_detail = ''Read-only Drive query'',
     ec_ownership_check = ''ConnectorInstallation.owner_id + active status'',
     ec_retry_behavior = ''Safe GET retry'',
     ec_notes = ''''\<rparr>))
   [''google_drive.search_files'', ''google_drive.get_file_metadata'', ''google_drive.get_file_content'']"

definition microsoft_drive_read_contracts :: "(string \<times> external_effect_contract) list" where
  [table_defs]: "microsoft_drive_read_contracts =
  map (\<lambda>slug. (slug,
    \<lparr>ec_action_key = slug,
     ec_provider = ''microsoft_drive'',
     ec_risk_level = ''low'',
     ec_side_effect = SE_READ,
     ec_approval_rule = ''ActionPolicy default autonomous'',
     ec_idempotency_strategy = IS_NONE,
     ec_idempotency_detail = ''Read-only Graph drive query'',
     ec_ownership_check = ''ConnectorInstallation.owner_id + active status'',
     ec_retry_behavior = ''Safe GET retry'',
     ec_notes = ''''\<rparr>))
   [''microsoft_drive.search_files'', ''microsoft_drive.get_file_metadata'', ''microsoft_drive.get_file_content'']"

definition jira_read_contracts :: "(string \<times> external_effect_contract) list" where
  [table_defs]: "jira_read_contracts =
  map (\<lambda>slug. (slug,
    \<lparr>ec_action_key = slug,
     ec_provider = ''jira'',
     ec_risk_level = ''low'',
     ec_side_effect = SE_READ,
     ec_approval_rule = ''ActionPolicy default autonomous'',
     ec_idempotency_strategy = IS_NONE,
     ec_idempotency_detail = ''Read-only Jira query'',
     ec_ownership_check = ''ConnectorInstallation.owner_id + active status'',
     ec_retry_behavior = ''Safe GET retry'',
     ec_notes = ''''\<rparr>))
   [''jira.search_issues'', ''jira.get_issue'', ''jira.get_issue_comments'']"

definition jira_write_contracts :: "(string \<times> external_effect_contract) list" where
  [table_defs]: "jira_write_contracts =
  map (\<lambda>slug. (slug,
    \<lparr>ec_action_key = slug,
     ec_provider = ''jira'',
     ec_risk_level = ''medium'',
     ec_side_effect = SE_EXTERNAL_MUTATING,
     ec_approval_rule = ''approval_required; consumed canonical ApprovalRequest + arguments_hash'',
     ec_idempotency_strategy = IS_DURABLE_CLAIM,
     ec_idempotency_detail = ''ExternalActionExecution.idempotency_key UNIQUE per workflow approval'',
     ec_ownership_check = ''ConnectorInstallation.owner_id; approval owner match'',
     ec_retry_behavior = (''IntegrityError '' @ arrow_utf8 @ '' concurrent duplicate blocked; succeeded row returns cached result''),
     ec_notes = ''''\<rparr>))
   [''jira.create_issue'', ''jira.update_issue'', ''jira.add_comment'']"

definition linear_read_contracts :: "(string \<times> external_effect_contract) list" where
  [table_defs]: "linear_read_contracts =
  map (\<lambda>slug. (slug,
    \<lparr>ec_action_key = slug,
     ec_provider = ''linear'',
     ec_risk_level = ''low'',
     ec_side_effect = SE_READ,
     ec_approval_rule = ''ActionPolicy default autonomous'',
     ec_idempotency_strategy = IS_NONE,
     ec_idempotency_detail = ''Read-only Linear GraphQL query'',
     ec_ownership_check = ''ConnectorInstallation.owner_id + active status'',
     ec_retry_behavior = ''Safe GraphQL read retry'',
     ec_notes = ''''\<rparr>))
   [''linear.search_issues'', ''linear.get_issue'', ''linear.get_issue_comments'']"

definition linear_write_contracts :: "(string \<times> external_effect_contract) list" where
  [table_defs]: "linear_write_contracts =
  map (\<lambda>slug. (slug,
    \<lparr>ec_action_key = slug,
     ec_provider = ''linear'',
     ec_risk_level = ''medium'',
     ec_side_effect = SE_EXTERNAL_MUTATING,
     ec_approval_rule = ''approval_required; consumed canonical ApprovalRequest + arguments_hash'',
     ec_idempotency_strategy = IS_DURABLE_CLAIM,
     ec_idempotency_detail = ''ExternalActionExecution.idempotency_key UNIQUE per workflow approval'',
     ec_ownership_check = ''ConnectorInstallation.owner_id; approval owner match'',
     ec_retry_behavior = (''IntegrityError '' @ arrow_utf8 @ '' concurrent duplicate blocked; succeeded row returns cached result''),
     ec_notes = ''''\<rparr>))
   [''linear.create_issue'', ''linear.update_issue'', ''linear.add_comment'']"

definition hubspot_read_contracts :: "(string \<times> external_effect_contract) list" where
  [table_defs]: "hubspot_read_contracts =
  map (\<lambda>slug. (slug,
    \<lparr>ec_action_key = slug,
     ec_provider = ''hubspot'',
     ec_risk_level = ''low'',
     ec_side_effect = SE_READ,
     ec_approval_rule = ''ActionPolicy default autonomous'',
     ec_idempotency_strategy = IS_NONE,
     ec_idempotency_detail = ''Read-only HubSpot CRM query'',
     ec_ownership_check = ''ConnectorInstallation.owner_id + active status'',
     ec_retry_behavior = ''Safe GET/POST search retry'',
     ec_notes = ''''\<rparr>))
   [''hubspot.search_contacts'', ''hubspot.get_contact'', ''hubspot.search_companies'', ''hubspot.get_company'']"

definition hubspot_write_contracts :: "(string \<times> external_effect_contract) list" where
  [table_defs]: "hubspot_write_contracts =
  map (\<lambda>slug. (slug,
    \<lparr>ec_action_key = slug,
     ec_provider = ''hubspot'',
     ec_risk_level = (if slug = ''hubspot.send_email'' then ''high'' else ''medium''),
     ec_side_effect = SE_EXTERNAL_MUTATING,
     ec_approval_rule = ''approval_required; consumed canonical ApprovalRequest + arguments_hash'',
     ec_idempotency_strategy = IS_DURABLE_CLAIM,
     ec_idempotency_detail = ''ExternalActionExecution.idempotency_key UNIQUE per workflow approval'',
     ec_ownership_check = ''ConnectorInstallation.owner_id; allowlisted contact fields only for updates'',
     ec_retry_behavior = (''IntegrityError '' @ arrow_utf8 @ '' concurrent duplicate blocked; succeeded row returns cached result''),
     ec_notes = ''''\<rparr>))
   [''hubspot.update_contact'', ''hubspot.create_note'', ''hubspot.send_email'']"

definition salesforce_read_contracts :: "(string \<times> external_effect_contract) list" where
  [table_defs]: "salesforce_read_contracts =
  map (\<lambda>slug. (slug,
    \<lparr>ec_action_key = slug,
     ec_provider = ''salesforce'',
     ec_risk_level = ''low'',
     ec_side_effect = SE_READ,
     ec_approval_rule = ''ActionPolicy default autonomous'',
     ec_idempotency_strategy = IS_NONE,
     ec_idempotency_detail = ''Read-only Salesforce SOQL/query'',
     ec_ownership_check = ''ConnectorInstallation.owner_id + active status'',
     ec_retry_behavior = ''Safe GET query retry'',
     ec_notes = ''''\<rparr>))
   [''salesforce.search_contacts'', ''salesforce.get_contact'', ''salesforce.search_accounts'', ''salesforce.get_account'']"

definition salesforce_write_contracts :: "(string \<times> external_effect_contract) list" where
  [table_defs]: "salesforce_write_contracts =
  map (\<lambda>slug. (slug,
    \<lparr>ec_action_key = slug,
     ec_provider = ''salesforce'',
     ec_risk_level = (if slug = ''salesforce.send_email'' then ''high'' else ''medium''),
     ec_side_effect = SE_EXTERNAL_MUTATING,
     ec_approval_rule = ''approval_required; consumed canonical ApprovalRequest + arguments_hash'',
     ec_idempotency_strategy = IS_DURABLE_CLAIM,
     ec_idempotency_detail = ''ExternalActionExecution.idempotency_key UNIQUE per workflow approval'',
     ec_ownership_check = ''ConnectorInstallation.owner_id; allowlisted contact fields only for updates'',
     ec_retry_behavior = (''IntegrityError '' @ arrow_utf8 @ '' concurrent duplicate blocked; succeeded row returns cached result''),
     ec_notes = ''''\<rparr>))
   [''salesforce.update_contact'', ''salesforce.create_task'', ''salesforce.send_email'']"

definition telegram_contracts :: "(string \<times> external_effect_contract) list" where
  [table_defs]: "telegram_contracts =
  [(''telegram.send_message'',
    \<lparr>ec_action_key = ''telegram.send_message'',
     ec_provider = ''telegram'',
     ec_risk_level = ''medium'',
     ec_side_effect = SE_EXTERNAL_MUTATING,
     ec_approval_rule = ''ActionPolicy default autonomous; catalog requires_approval=False'',
     ec_idempotency_strategy = IS_NONE,
     ec_idempotency_detail = ''sendMessage has no Troop durable key'',
     ec_ownership_check = ''ConnectorInstallation.owner_id + bot token from installation config'',
     ec_retry_behavior = ''Celery at-least-once may duplicate messages'',
     ec_notes = ''BLOCKED from new autonomous use.''\<rparr>),
   (''telegram.edit_message'',
    \<lparr>ec_action_key = ''telegram.edit_message'',
     ec_provider = ''telegram'',
     ec_risk_level = ''medium'',
     ec_side_effect = SE_EXTERNAL_MUTATING,
     ec_approval_rule = ''ActionPolicy default autonomous'',
     ec_idempotency_strategy = IS_NONE,
     ec_idempotency_detail = ''editMessageText; no Troop receipt'',
     ec_ownership_check = ''ConnectorInstallation.owner_id'',
     ec_retry_behavior = ''Retry may re-apply same edit; still no durable claim'',
     ec_notes = ''BLOCKED from new autonomous use.''\<rparr>),
   (''telegram.answer_callback'',
    \<lparr>ec_action_key = ''telegram.answer_callback'',
     ec_provider = ''telegram'',
     ec_risk_level = ''low'',
     ec_side_effect = SE_EXTERNAL_MUTATING,
     ec_approval_rule = ''ActionPolicy default autonomous'',
     ec_idempotency_strategy = IS_NONE,
     ec_idempotency_detail = ''answerCallbackQuery; Telegram rejects duplicate callback_id but Troop has no durable receipt'',
     ec_ownership_check = ''ConnectorInstallation.owner_id'',
     ec_retry_behavior = ''Provider may return error on duplicate; not durable at Troop boundary'',
     ec_notes = ''BLOCKED from new autonomous use.''\<rparr>)]"

definition slack_contracts :: "(string \<times> external_effect_contract) list" where
  [table_defs]: "slack_contracts =
  [(''slack.search_messages'',
    \<lparr>ec_action_key = ''slack.search_messages'',
     ec_provider = ''slack'',
     ec_risk_level = ''low'',
     ec_side_effect = SE_READ,
     ec_approval_rule = ''ActionPolicy default autonomous'',
     ec_idempotency_strategy = IS_NONE,
     ec_idempotency_detail = ''Read-only search/history scan'',
     ec_ownership_check = ''ConnectorInstallation.owner_id + active status'',
     ec_retry_behavior = ''Safe GET/search retry via external_http policy'',
     ec_notes = ''''\<rparr>),
   (''slack.get_thread'',
    \<lparr>ec_action_key = ''slack.get_thread'',
     ec_provider = ''slack'',
     ec_risk_level = ''low'',
     ec_side_effect = SE_READ,
     ec_approval_rule = ''ActionPolicy default autonomous'',
     ec_idempotency_strategy = IS_NONE,
     ec_idempotency_detail = ''Read-only thread replies'',
     ec_ownership_check = ''ConnectorInstallation.owner_id + active status'',
     ec_retry_behavior = ''Safe GET retry'',
     ec_notes = ''''\<rparr>),
   (''slack.get_message'',
    \<lparr>ec_action_key = ''slack.get_message'',
     ec_provider = ''slack'',
     ec_risk_level = ''low'',
     ec_side_effect = SE_READ,
     ec_approval_rule = ''ActionPolicy default autonomous'',
     ec_idempotency_strategy = IS_NONE,
     ec_idempotency_detail = ''Read-only message fetch'',
     ec_ownership_check = ''ConnectorInstallation.owner_id + active status'',
     ec_retry_behavior = ''Safe GET retry'',
     ec_notes = ''''\<rparr>),
   (''slack.post_message'',
    \<lparr>ec_action_key = ''slack.post_message'',
     ec_provider = ''slack'',
     ec_risk_level = ''high'',
     ec_side_effect = SE_EXTERNAL_MUTATING,
     ec_approval_rule = ''approval_required; consumed canonical ApprovalRequest + arguments_hash'',
     ec_idempotency_strategy = IS_DURABLE_CLAIM,
     ec_idempotency_detail = ''ExternalActionExecution.idempotency_key UNIQUE (workflow_run:approval:channel:thread:action)'',
     ec_ownership_check = ''ConnectorInstallation.owner_id; approval owner match; SlackIdentityBinding for channel approvals'',
     ec_retry_behavior = (''IntegrityError '' @ arrow_utf8 @ '' concurrent duplicate blocked; succeeded row returns cached result''),
     ec_notes = ''''\<rparr>),
   (''slack.update_message'',
    \<lparr>ec_action_key = ''slack.update_message'',
     ec_provider = ''slack'',
     ec_risk_level = ''medium'',
     ec_side_effect = SE_EXTERNAL_MUTATING,
     ec_approval_rule = ''ActionPolicy default autonomous; approval-channel feedback only'',
     ec_idempotency_strategy = IS_NONE,
     ec_idempotency_detail = ''chat.update for approval UX; no Troop durable receipt'',
     ec_ownership_check = ''ConnectorInstallation.owner_id'',
     ec_retry_behavior = ''Retry may re-apply same edit'',
     ec_notes = ''BLOCKED from new autonomous use.''\<rparr>)]"

definition teams_contracts :: "(string \<times> external_effect_contract) list" where
  [table_defs]: "teams_contracts =
  [(''teams.search_messages'',
    \<lparr>ec_action_key = ''teams.search_messages'',
     ec_provider = ''teams'',
     ec_risk_level = ''low'',
     ec_side_effect = SE_READ,
     ec_approval_rule = ''ActionPolicy default autonomous'',
     ec_idempotency_strategy = IS_NONE,
     ec_idempotency_detail = ''Read-only Graph search'',
     ec_ownership_check = ''ConnectorInstallation.owner_id + tenant match'',
     ec_retry_behavior = ''Safe search retry'',
     ec_notes = ''''\<rparr>),
   (''teams.get_thread'',
    \<lparr>ec_action_key = ''teams.get_thread'',
     ec_provider = ''teams'',
     ec_risk_level = ''low'',
     ec_side_effect = SE_READ,
     ec_approval_rule = ''ActionPolicy default autonomous'',
     ec_idempotency_strategy = IS_NONE,
     ec_idempotency_detail = ''Read-only thread replies'',
     ec_ownership_check = ''ConnectorInstallation.owner_id + tenant match'',
     ec_retry_behavior = ''Safe GET retry'',
     ec_notes = ''''\<rparr>),
   (''teams.get_message'',
    \<lparr>ec_action_key = ''teams.get_message'',
     ec_provider = ''teams'',
     ec_risk_level = ''low'',
     ec_side_effect = SE_READ,
     ec_approval_rule = ''ActionPolicy default autonomous'',
     ec_idempotency_strategy = IS_NONE,
     ec_idempotency_detail = ''Read-only message fetch'',
     ec_ownership_check = ''ConnectorInstallation.owner_id + tenant match'',
     ec_retry_behavior = ''Safe GET retry'',
     ec_notes = ''''\<rparr>),
   (''teams.post_message'',
    \<lparr>ec_action_key = ''teams.post_message'',
     ec_provider = ''teams'',
     ec_risk_level = ''high'',
     ec_side_effect = SE_EXTERNAL_MUTATING,
     ec_approval_rule = ''approval_required; consumed canonical ApprovalRequest + arguments_hash'',
     ec_idempotency_strategy = IS_DURABLE_CLAIM,
     ec_idempotency_detail = ''ExternalActionExecution.idempotency_key UNIQUE (workflow_run:approval:conversation:reply:action)'',
     ec_ownership_check = ''ConnectorInstallation.owner_id; TeamsIdentityBinding tenant/user match'',
     ec_retry_behavior = (''IntegrityError '' @ arrow_utf8 @ '' concurrent duplicate blocked; succeeded row returns cached result''),
     ec_notes = ''''\<rparr>),
   (''teams.update_message'',
    \<lparr>ec_action_key = ''teams.update_message'',
     ec_provider = ''teams'',
     ec_risk_level = ''medium'',
     ec_side_effect = SE_EXTERNAL_MUTATING,
     ec_approval_rule = ''ActionPolicy default autonomous; approval-channel feedback only'',
     ec_idempotency_strategy = IS_NONE,
     ec_idempotency_detail = ''Graph message update for approval UX'',
     ec_ownership_check = ''ConnectorInstallation.owner_id'',
     ec_retry_behavior = ''Retry may re-apply same edit'',
     ec_notes = ''BLOCKED from new autonomous use.''\<rparr>)]"

definition github_contracts :: "(string \<times> external_effect_contract) list" where
  [table_defs]: "github_contracts =
  [(''github_comment'',
    \<lparr>ec_action_key = ''github_comment'',
     ec_provider = ''github'',
     ec_risk_level = ''medium'',
     ec_side_effect = SE_EXTERNAL_MUTATING,
     ec_approval_rule = ''catalog requires_approval=True; HITL dangerous_tool_call grant OR github_comment approval API'',
     ec_idempotency_strategy = IS_APPROVAL_DEDUP_ONLY,
     ec_idempotency_detail = ''github_outbound_dedup dedupes approval creation; API post uses posted_comment_id payload guard only'',
     ec_ownership_check = ''resolve_authorized_repository + issue_link; GithubConnection.owner_id (SEC-001)'',
     ec_retry_behavior = ''Toolbox POST: no retry; approval API: skip if posted_comment_id set'',
     ec_notes = ''BLOCKED from new autonomous use; provider replay not durable.''\<rparr>),
   (''github_label_issue'',
    \<lparr>ec_action_key = ''github_label_issue'',
     ec_provider = ''github'',
     ec_risk_level = ''medium'',
     ec_side_effect = SE_EXTERNAL_MUTATING,
     ec_approval_rule = ''requires_approval=True; dangerous_tools HITL gate'',
     ec_idempotency_strategy = IS_NONE,
     ec_idempotency_detail = ''Direct GitHub labels API; no Troop receipt'',
     ec_ownership_check = ''resolve_authorized_repository + issue_link (SEC-001)'',
     ec_retry_behavior = ''POST without idempotency key'',
     ec_notes = ''BLOCKED from new autonomous use.''\<rparr>),
   (''github_create_pr'',
    \<lparr>ec_action_key = ''github_create_pr'',
     ec_provider = ''github'',
     ec_risk_level = ''high'',
     ec_side_effect = SE_EXTERNAL_MUTATING,
     ec_approval_rule = ''requires_approval=True; dangerous_tools HITL gate'',
     ec_idempotency_strategy = IS_NONE,
     ec_idempotency_detail = ''GitHub create pull request; no Troop durable key'',
     ec_ownership_check = ''resolve_authorized_repository (SEC-001)'',
     ec_retry_behavior = ''POST without idempotency key'',
     ec_notes = ''BLOCKED from new autonomous use.''\<rparr>)]"

definition execution_contracts :: "(string \<times> external_effect_contract) list" where
  [table_defs]: "execution_contracts =
  [(''fs_write'',
    \<lparr>ec_action_key = ''fs_write'',
     ec_provider = ''native'',
     ec_risk_level = ''high'',
     ec_side_effect = SE_INTERNAL_MUTATING,
     ec_approval_rule = ''requires_approval=True; dangerous_tools HITL when run_tool gate enabled'',
     ec_idempotency_strategy = IS_NONE,
     ec_idempotency_detail = ''Project-scoped path overwrite; no content-addressed receipt'',
     ec_ownership_check = ''OrchestratorProject-scoped _resolve_scoped_path'',
     ec_retry_behavior = ''Replay overwrites same path again'',
     ec_notes = ''BLOCKED from new autonomous use.''\<rparr>),
   (''code_execute'',
    \<lparr>ec_action_key = ''code_execute'',
     ec_provider = ''native'',
     ec_risk_level = ''high'',
     ec_side_effect = SE_INTERNAL_MUTATING,
     ec_approval_rule = ''requires_approval=True; dangerous_tools HITL'',
     ec_idempotency_strategy = IS_NONE,
     ec_idempotency_detail = ''Sandbox subprocess; side effects not keyed'',
     ec_ownership_check = ''Project/run scoped cpu_executor job'',
     ec_retry_behavior = ''No automatic retry; caller may re-run entire job'',
     ec_notes = ''BLOCKED from new autonomous use.''\<rparr>),
   (''db_query'',
    \<lparr>ec_action_key = ''db_query'',
     ec_provider = ''native'',
     ec_risk_level = ''critical'',
     ec_side_effect = SE_READ,
     ec_approval_rule = ''requires_approval=True (catalog); current implementation is SELECT-only'',
     ec_idempotency_strategy = IS_NONE,
     ec_idempotency_detail = ''Read-only entities (tasks/runs/documents/artifacts) despite catalog wording'',
     ec_ownership_check = ''OrchestratorProject.id filter on all entities'',
     ec_retry_behavior = ''Safe read retry'',
     ec_notes = ''Not mutating today; any future write path must add durable idempotency before autonomous use.''\<rparr>)]"

definition workspace_read_contracts :: "(string \<times> external_effect_contract) list" where
  [table_defs]: "workspace_read_contracts =
  [(''web_fetch'',
    \<lparr>ec_action_key = ''web_fetch'',
     ec_provider = ''native'',
     ec_risk_level = ''low'',
     ec_side_effect = SE_READ,
     ec_approval_rule = ''autonomous'',
     ec_idempotency_strategy = IS_NONE,
     ec_idempotency_detail = ''GET-only via safe_outbound_request'',
     ec_ownership_check = ''Outbound URL allowlist (outbound_url service)'',
     ec_retry_behavior = ''Safe GET retry'',
     ec_notes = ''''\<rparr>),
   (''web_search'',
    \<lparr>ec_action_key = ''web_search'',
     ec_provider = ''native'',
     ec_risk_level = ''low'',
     ec_side_effect = SE_READ,
     ec_approval_rule = ''autonomous'',
     ec_idempotency_strategy = IS_NONE,
     ec_idempotency_detail = ''Read-only search'',
     ec_ownership_check = ''Provider API key scoped to deployment'',
     ec_retry_behavior = ''Provider-dependent'',
     ec_notes = ''''\<rparr>),
   (''knowledge_search'',
    \<lparr>ec_action_key = ''knowledge_search'',
     ec_provider = ''native'',
     ec_risk_level = ''low'',
     ec_side_effect = SE_READ,
     ec_approval_rule = ''autonomous'',
     ec_idempotency_strategy = IS_NONE,
     ec_idempotency_detail = ''Project document chunk retrieval'',
     ec_ownership_check = ''ProjectDocument.project_id == current project'',
     ec_retry_behavior = ''Safe read retry'',
     ec_notes = ''''\<rparr>),
   (''repo_search'',
    \<lparr>ec_action_key = ''repo_search'',
     ec_provider = ''native'',
     ec_risk_level = ''low'',
     ec_side_effect = SE_READ,
     ec_approval_rule = ''autonomous'',
     ec_idempotency_strategy = IS_NONE,
     ec_idempotency_detail = ''Linked repository search'',
     ec_ownership_check = ''Project-scoped repository linkage'',
     ec_retry_behavior = ''Safe read retry'',
     ec_notes = ''''\<rparr>),
   (''fs_read'',
    \<lparr>ec_action_key = ''fs_read'',
     ec_provider = ''native'',
     ec_risk_level = ''low'',
     ec_side_effect = SE_READ,
     ec_approval_rule = ''autonomous'',
     ec_idempotency_strategy = IS_NONE,
     ec_idempotency_detail = ''Project-scoped filesystem read'',
     ec_ownership_check = ''OrchestratorProject-scoped _resolve_scoped_path'',
     ec_retry_behavior = ''Safe read retry'',
     ec_notes = ''''\<rparr>)]"

definition EXTERNAL_EFFECT_CONTRACTS :: "(string \<times> external_effect_contract) list" where
  "EXTERNAL_EFFECT_CONTRACTS =
     troop_contracts @
     gmail_contracts @
     outlook_contracts @
     google_calendar_read_contracts @
     google_calendar_write_contracts @
     microsoft_calendar_read_contracts @
     microsoft_calendar_write_contracts @
     google_drive_read_contracts @
     microsoft_drive_read_contracts @
     jira_read_contracts @
     jira_write_contracts @
     linear_read_contracts @
     linear_write_contracts @
     hubspot_read_contracts @
     hubspot_write_contracts @
     salesforce_read_contracts @
     salesforce_write_contracts @
     telegram_contracts @
     slack_contracts @
     teams_contracts @
     github_contracts @
     execution_contracts @
     workspace_read_contracts"

definition MCP_CONTRACT :: external_effect_contract where
  [table_defs]: "MCP_CONTRACT =
    \<lparr>ec_action_key = ''mcp.*'',
     ec_provider = ''mcp'',
     ec_risk_level = ''high'',
     ec_side_effect = SE_EXTERNAL_MUTATING,
     ec_approval_rule = ''ActionPolicy default approval_required for unknown; MCPToolProvider estimate_risk=high'',
     ec_idempotency_strategy = IS_NONE,
     ec_idempotency_detail = ''Dynamic MCP tool call; no Troop durable idempotency key before provider effect'',
     ec_ownership_check = ''ConnectorInstallation.owner_id; installation selected from owner MCP connectors'',
     ec_retry_behavior = ''MCPToolProvider returns failed status; Celery/workflow replay may duplicate writes'',
     ec_notes = ''BLOCKED from new autonomous use for all MCP tools until connector manifest idempotency (CONN-001).''\<rparr>"

definition A2A_CONTRACT :: external_effect_contract where
  [table_defs]: "A2A_CONTRACT =
    \<lparr>ec_action_key = ''a2a.*'',
     ec_provider = ''a2a'',
     ec_risk_level = ''high'',
     ec_side_effect = SE_EXTERNAL_MUTATING,
     ec_approval_rule = ''a2a.send_task requires_approval=True; dynamic a2a.{id} inherits high risk'',
     ec_idempotency_strategy = IS_NONE,
     ec_idempotency_detail = ''External agent task dispatch; no Troop receipt'',
     ec_ownership_check = ''ConnectorInstallation.owner_id for A2A installations'',
     ec_retry_behavior = ''Failed status returned; replay may duplicate external task'',
     ec_notes = ''BLOCKED from new autonomous use.''\<rparr>"

definition SMTP_EMAIL_CONTRACT :: external_effect_contract where
  [table_defs]: "SMTP_EMAIL_CONTRACT =
    \<lparr>ec_action_key = ''platform.smtp_send_email'',
     ec_provider = ''platform'',
     ec_risk_level = ''high'',
     ec_side_effect = SE_EXTERNAL_MUTATING,
     ec_approval_rule = ''Not exposed as agent tool; system transactional email only'',
     ec_idempotency_strategy = IS_NONE,
     ec_idempotency_detail = ''workers.email.send_email; Celery queue is at-least-once without recipient+subject dedupe'',
     ec_ownership_check = ''N/A (system triggered)'',
     ec_retry_behavior = ''Celery redelivery may duplicate email'',
     ec_notes = ''Not in tool catalog; documented for REL-001B regression scope.''\<rparr>"

section \<open>Queries\<close>

definition get_external_effect_contract :: "string \<Rightarrow> external_effect_contract option" where
  "get_external_effect_contract action_key =
     (let key = py_strip action_key in
      if key = [] then None
      else case map_of EXTERNAL_EFFECT_CONTRACTS key of
        Some c \<Rightarrow> Some c
      | None \<Rightarrow>
          if starts_with ''mcp.'' key then Some MCP_CONTRACT
          else if starts_with ''a2a.'' key then Some A2A_CONTRACT
          else None)"

definition list_external_effect_contracts :: "external_effect_contract list" where
  "list_external_effect_contracts =
     map snd EXTERNAL_EFFECT_CONTRACTS @ [MCP_CONTRACT, A2A_CONTRACT, SMTP_EMAIL_CONTRACT]"

definition list_autonomous_blocked_action_keys :: "string set" where
  "list_autonomous_blocked_action_keys =
     set (map ec_action_key (filter blocks_autonomous_use (map snd EXTERNAL_EFFECT_CONTRACTS)))
       \<union> {''mcp.*'', ''a2a.*''}"

definition is_autonomous_blocked :: "string \<Rightarrow> bool" where
  "is_autonomous_blocked action_key =
     (case get_external_effect_contract action_key of
        None \<Rightarrow> False | Some c \<Rightarrow> blocks_autonomous_use c)"

definition mutating_catalog_slugs :: "string list" where
  "mutating_catalog_slugs =
     remdups (filter (\<lambda>slug. case get_external_effect_contract slug of
          None \<Rightarrow> False | Some c \<Rightarrow> ec_side_effect c \<noteq> SE_READ)
        (map td_slug NATIVE_TOOL_CATALOG))"

text \<open>The slugs \<open>assert_inventory_covers_mutating_catalog\<close> collects; it raises when any is left.\<close>

definition uncovered_catalog_slugs :: "string list" where
  "uncovered_catalog_slugs =
     filter (\<lambda>slug. case get_external_effect_contract slug of
          None \<Rightarrow> True
        | Some c \<Rightarrow> ec_side_effect c \<noteq> SE_READ \<and> \<not> dhas EXTERNAL_EFFECT_CONTRACTS slug)
        (map td_slug NATIVE_TOOL_CATALOG)"

definition contracts_blocking_autonomous :: "external_effect_contract list" where
  "contracts_blocking_autonomous = filter blocks_autonomous_use list_external_effect_contracts"

section \<open>Facts about the table\<close>

lemmas contract_tables = table_defs EXTERNAL_EFFECT_CONTRACTS_def

text \<open>A dictionary display with repeated keys would keep the last; there are none.\<close>

lemma contract_keys_distinct: "distinct (map fst EXTERNAL_EFFECT_CONTRACTS)"
  by code_simp

lemma contract_key_is_action_key:
  "(k, c) \<in> set EXTERNAL_EFFECT_CONTRACTS \<Longrightarrow> ec_action_key c = k"
proof -
  have "list_all (\<lambda>(k, c). ec_action_key c = k) EXTERNAL_EFFECT_CONTRACTS"
    by (simp add: contract_tables)
  then show "(k, c) \<in> set EXTERNAL_EFFECT_CONTRACTS \<Longrightarrow> ec_action_key c = k"
    by (auto simp: list_all_iff)
qed

lemma contract_lookup_mem:
  "get_external_effect_contract a = Some c \<Longrightarrow>
     (py_strip a, c) \<in> set EXTERNAL_EFFECT_CONTRACTS \<or> c = MCP_CONTRACT \<or> c = A2A_CONTRACT"
  by (auto simp: get_external_effect_contract_def Let_def dest: map_of_SomeD
      split: if_splits option.splits)

lemma contract_of_entry:
  assumes "(k, c) \<in> set EXTERNAL_EFFECT_CONTRACTS" "py_strip k = k" "k \<noteq> []"
  shows "get_external_effect_contract k = Some c"
  using assms map_of_is_SomeI [OF contract_keys_distinct assms(1)]
  by (simp add: get_external_effect_contract_def)

lemma contract_lookup_strip [simp]:
  "get_external_effect_contract (py_strip a) = get_external_effect_contract a"
  by (simp add: get_external_effect_contract_def)

lemma pattern_contracts [simp]:
  "ec_side_effect MCP_CONTRACT = SE_EXTERNAL_MUTATING"
  "ec_side_effect A2A_CONTRACT = SE_EXTERNAL_MUTATING"
  "ec_idempotency_strategy MCP_CONTRACT = IS_NONE"
  "ec_idempotency_strategy A2A_CONTRACT = IS_NONE"
  "blocks_autonomous_use MCP_CONTRACT" "blocks_autonomous_use A2A_CONTRACT"
  by (simp_all add: MCP_CONTRACT_def A2A_CONTRACT_def blocks_autonomous_use_def)

section \<open>The catalog against the inventory\<close>

text \<open>
  Each family of catalog rows is covered by the contracts of its provider. \<open>covered P ts cs\<close>
  says every tool of \<open>ts\<close> has an entry under its own slug in \<open>cs\<close> that is related to it by \<open>P\<close>.
\<close>

definition covered ::
  "(native_tool \<Rightarrow> external_effect_contract \<Rightarrow> bool) \<Rightarrow> native_tool list \<Rightarrow>
   (string \<times> external_effect_contract) list \<Rightarrow> bool" where
  "covered P ts cs \<longleftrightarrow> (\<forall>t \<in> set ts. \<exists>kc \<in> set cs. fst kc = td_slug t \<and> P t (snd kc))"

lemma covered_append: "covered P (ts @ us) cs \<longleftrightarrow> covered P ts cs \<and> covered P us cs"
  by (auto simp: covered_def)

lemma covered_mono: "covered P ts cs \<Longrightarrow> set cs \<subseteq> set ds \<Longrightarrow> covered P ts ds"
  unfolding covered_def by blast

text \<open>
  What relates a catalog row to its contract: the slug is a normalised key, a tool without
  approval is read-only or barred from autonomous use, and a tool whose contract is durable
  needs approval.
\<close>

definition row_ok :: "native_tool \<Rightarrow> external_effect_contract \<Rightarrow> bool" where
  "row_ok t c \<longleftrightarrow>
     td_slug t \<noteq> [] \<and> py_strip (td_slug t) = td_slug t \<and>
     td_risk_level t = ec_risk_level c \<and>
     (\<not> td_requires_approval t \<longrightarrow> ec_side_effect c = SE_READ \<or> blocks_autonomous_use c) \<and>
     (ec_idempotency_strategy c = IS_DURABLE_CLAIM \<longrightarrow>
        td_requires_approval t \<and> ec_side_effect c = SE_EXTERNAL_MUTATING)"

lemmas row_simps =
  row_ok_def covered_def py_strip_def is_space_def blocks_autonomous_use_def starts_with_def
  table_defs

lemma rows_gmail:
  "covered row_ok
     (gmail_tools)
     EXTERNAL_EFFECT_CONTRACTS"
proof (rule covered_mono)
  show "covered row_ok (gmail_tools)
          (gmail_contracts)"
    by (simp add: row_simps)
qed (auto simp: EXTERNAL_EFFECT_CONTRACTS_def)

lemma rows_outlook:
  "covered row_ok
     (outlook_tools)
     EXTERNAL_EFFECT_CONTRACTS"
proof (rule covered_mono)
  show "covered row_ok (outlook_tools)
          (outlook_contracts)"
    by (simp add: row_simps)
qed (auto simp: EXTERNAL_EFFECT_CONTRACTS_def)

lemma rows_telegram:
  "covered row_ok
     (telegram_tools)
     EXTERNAL_EFFECT_CONTRACTS"
proof (rule covered_mono)
  show "covered row_ok (telegram_tools)
          (telegram_contracts)"
    by (simp add: row_simps)
qed (auto simp: EXTERNAL_EFFECT_CONTRACTS_def)

lemma rows_slack:
  "covered row_ok
     (slack_tools)
     EXTERNAL_EFFECT_CONTRACTS"
proof (rule covered_mono)
  show "covered row_ok (slack_tools)
          (slack_contracts)"
    by (simp add: row_simps)
qed (auto simp: EXTERNAL_EFFECT_CONTRACTS_def)

lemma rows_teams:
  "covered row_ok
     (teams_tools)
     EXTERNAL_EFFECT_CONTRACTS"
proof (rule covered_mono)
  show "covered row_ok (teams_tools)
          (teams_contracts)"
    by (simp add: row_simps)
qed (auto simp: EXTERNAL_EFFECT_CONTRACTS_def)

lemma rows_calendar_read:
  "covered row_ok
     (calendar_list_events_tools @ calendar_get_event_tools @ calendar_get_availability_tools)
     EXTERNAL_EFFECT_CONTRACTS"
proof (rule covered_mono)
  show "covered row_ok (calendar_list_events_tools @ calendar_get_event_tools @ calendar_get_availability_tools)
          (google_calendar_read_contracts @ microsoft_calendar_read_contracts)"
    by (simp add: row_simps)
qed (auto simp: EXTERNAL_EFFECT_CONTRACTS_def)

lemma rows_calendar_write:
  "covered row_ok
     (calendar_create_event_tools @ calendar_update_event_tools @ calendar_cancel_event_tools)
     EXTERNAL_EFFECT_CONTRACTS"
proof (rule covered_mono)
  show "covered row_ok (calendar_create_event_tools @ calendar_update_event_tools @ calendar_cancel_event_tools)
          (google_calendar_write_contracts @ microsoft_calendar_write_contracts)"
    by (simp add: row_simps)
qed (auto simp: EXTERNAL_EFFECT_CONTRACTS_def)

lemma rows_drive:
  "covered row_ok
     (drive_search_files_tools @ drive_get_file_metadata_tools @ drive_get_file_content_tools)
     EXTERNAL_EFFECT_CONTRACTS"
proof (rule covered_mono)
  show "covered row_ok (drive_search_files_tools @ drive_get_file_metadata_tools @ drive_get_file_content_tools)
          (google_drive_read_contracts @ microsoft_drive_read_contracts)"
    by (simp add: row_simps)
qed (auto simp: EXTERNAL_EFFECT_CONTRACTS_def)

lemma rows_issue_read:
  "covered row_ok
     (issue_search_issues_tools @ issue_get_issue_tools @ issue_get_issue_comments_tools)
     EXTERNAL_EFFECT_CONTRACTS"
proof (rule covered_mono)
  show "covered row_ok (issue_search_issues_tools @ issue_get_issue_tools @ issue_get_issue_comments_tools)
          (jira_read_contracts @ linear_read_contracts)"
    by (simp add: row_simps)
qed (auto simp: EXTERNAL_EFFECT_CONTRACTS_def)

lemma rows_issue_write:
  "covered row_ok
     (issue_create_issue_tools @ issue_update_issue_tools @ issue_add_comment_tools)
     EXTERNAL_EFFECT_CONTRACTS"
proof (rule covered_mono)
  show "covered row_ok (issue_create_issue_tools @ issue_update_issue_tools @ issue_add_comment_tools)
          (jira_write_contracts @ linear_write_contracts)"
    by (simp add: row_simps)
qed (auto simp: EXTERNAL_EFFECT_CONTRACTS_def)

lemma rows_crm_read:
  "covered row_ok
     (crm_search_contacts_tools @ crm_get_contact_tools @ crm_search_companies_tools @ crm_get_company_tools)
     EXTERNAL_EFFECT_CONTRACTS"
proof (rule covered_mono)
  show "covered row_ok (crm_search_contacts_tools @ crm_get_contact_tools @ crm_search_companies_tools @ crm_get_company_tools)
          (hubspot_read_contracts @ salesforce_read_contracts)"
    by (simp add: row_simps)
qed (auto simp: EXTERNAL_EFFECT_CONTRACTS_def)

lemma rows_crm_write:
  "covered row_ok
     (crm_update_contact_tools @ hubspot_tools @ salesforce_tools @ crm_send_email_tools)
     EXTERNAL_EFFECT_CONTRACTS"
proof (rule covered_mono)
  show "covered row_ok (crm_update_contact_tools @ hubspot_tools @ salesforce_tools @ crm_send_email_tools)
          (hubspot_write_contracts @ salesforce_write_contracts)"
    by (simp add: row_simps)
qed (auto simp: EXTERNAL_EFFECT_CONTRACTS_def)

lemma rows_general:
  "covered row_ok
     (general_tools)
     EXTERNAL_EFFECT_CONTRACTS"
proof (rule covered_mono)
  show "covered row_ok (general_tools)
          (execution_contracts @ workspace_read_contracts)"
    by (simp add: row_simps)
qed (auto simp: EXTERNAL_EFFECT_CONTRACTS_def)

lemma rows_github:
  "covered row_ok
     (github_tools)
     EXTERNAL_EFFECT_CONTRACTS"
proof (rule covered_mono)
  show "covered row_ok (github_tools)
          (github_contracts)"
    by (simp add: row_simps)
qed (auto simp: EXTERNAL_EFFECT_CONTRACTS_def)

lemma rows_specialist:
  "covered row_ok
     (general2_tools)
     EXTERNAL_EFFECT_CONTRACTS"
proof (rule covered_mono)
  show "covered row_ok (general2_tools)
          (troop_contracts)"
    by (simp add: row_simps)
qed (auto simp: EXTERNAL_EFFECT_CONTRACTS_def)

lemmas rows_all =
  rows_gmail rows_outlook rows_telegram rows_slack rows_teams rows_calendar_read rows_calendar_write rows_drive rows_issue_read rows_issue_write rows_crm_read rows_crm_write rows_general rows_github rows_specialist

text \<open>The families together are the whole catalog.\<close>

lemma catalog_covered: "covered row_ok NATIVE_TOOL_CATALOG EXTERNAL_EFFECT_CONTRACTS"
  using rows_all unfolding NATIVE_TOOL_CATALOG_def covered_append by (elim conjE) (intro conjI)

lemma catalog_contract:
  assumes "t \<in> set NATIVE_TOOL_CATALOG"
  obtains c where "get_external_effect_contract (td_slug t) = Some c" "row_ok t c"
    "(td_slug t, c) \<in> set EXTERNAL_EFFECT_CONTRACTS"
proof -
  obtain k c where kc: "(k, c) \<in> set EXTERNAL_EFFECT_CONTRACTS" "k = td_slug t" "row_ok t c"
    using catalog_covered assms by (fastforce simp: covered_def)
  moreover have "py_strip k = k" "k \<noteq> []" using kc by (simp_all add: row_ok_def)
  ultimately show thesis using that contract_of_entry by metis
qed

end
