(* ===== verification/Action_Metadata.thy ===== *)
theory Action_Metadata
  imports Effect_Inventory
begin

text \<open>
  Governance metadata of an action key, \<open>workforce/action_metadata.py\<close>: the rules that derive the
  six governance dimensions from a slug and its external-effect contract, the abstract action
  keys, and \<open>governance_for_action_key\<close>, which fails closed for keys it does not know.
\<close>

section \<open>Derivation rules\<close>

definition DURABLE_FINGERPRINT_SLUGS :: "string list" where
  "DURABLE_FINGERPRINT_SLUGS =
     [''gmail.send_draft'', ''outlook.send_draft'',
      ''google_calendar.create_event'', ''google_calendar.update_event'',
      ''google_calendar.cancel_event'',
      ''microsoft_calendar.create_event'', ''microsoft_calendar.update_event'',
      ''microsoft_calendar.cancel_event'',
      ''jira.create_issue'', ''jira.update_issue'', ''jira.add_comment'',
      ''linear.create_issue'', ''linear.update_issue'', ''linear.add_comment'',
      ''hubspot.update_contact'', ''hubspot.create_note'', ''hubspot.send_email'',
      ''salesforce.update_contact'', ''salesforce.create_task'', ''salesforce.send_email'',
      ''slack.post_message'', ''teams.post_message'']"

definition commit_check_for ::
  "string \<Rightarrow> side_effect \<Rightarrow> idempotency_strategy \<Rightarrow> commit_check_strategy" where
  "commit_check_for slug se idem =
     (if idem = IS_DURABLE_CLAIM then
        (if slug \<in> set DURABLE_FINGERPRINT_SLUGS then CC_APPROVAL_AND_FINGERPRINT
         else CC_DURABLE_CLAIM)
      else if idem = IS_APPROVAL_DEDUP_ONLY then CC_APPROVAL_PAYLOAD_HASH
      else if idem = IS_APPROVAL_PAYLOAD_GUARD then CC_APPROVAL_PAYLOAD_HASH
      else if se = SE_READ then CC_NONE
      else CC_NONE)"

definition reversibility_for :: "string \<Rightarrow> side_effect \<Rightarrow> reversibility" where
  "reversibility_for slug se =
     (if se = SE_READ then RV_FULL
      else if slug \<in> set [''gmail.create_draft'', ''gmail.update_draft'',
                ''outlook.create_draft'', ''outlook.update_draft'', ''fs_write''] then RV_PARTIAL
      else RV_NONE)"

definition data_sensitivity_for :: "string \<Rightarrow> data_sensitivity" where
  "data_sensitivity_for slug =
     (if starts_with_any [''gmail.'', ''outlook.'', ''google_calendar.'', ''microsoft_calendar.'',
           ''jira.'', ''linear.'', ''hubspot.'', ''salesforce.''] slug then DS_CONFIDENTIAL
      else if starts_with ''telegram.'' slug then DS_CONFIDENTIAL
      else if starts_with ''slack.'' slug then DS_CONFIDENTIAL
      else if starts_with ''teams.'' slug then DS_CONFIDENTIAL
      else if slug \<in> set [''db_query'', ''knowledge_search'', ''repo_search''] then DS_CONFIDENTIAL
      else if slug \<in> set [''web_search'', ''web_fetch''] then DS_PUBLIC
      else if starts_with ''github_'' slug then DS_INTERNAL
      else if starts_with ''fs_'' slug \<or> slug = ''code_execute'' then DS_INTERNAL
      else DS_INTERNAL)"

definition parallel_safe_for :: "string \<Rightarrow> side_effect \<Rightarrow> bool" where
  "parallel_safe_for slug se =
     (if se = SE_READ then True else slug = ''telegram.answer_callback'')"

definition governance_from_inventory :: "string \<Rightarrow> governance option" where
  "governance_from_inventory slug =
     (case get_external_effect_contract slug of
        None \<Rightarrow> None
      | Some c \<Rightarrow>
          (let se = ec_side_effect c; idem = ec_idempotency_strategy c in
           Some \<lparr>gv_side_effect = se,
                 gv_reversibility = reversibility_for slug se,
                 gv_data_sensitivity = data_sensitivity_for slug,
                 gv_parallel_safe = parallel_safe_for slug se,
                 gv_idempotency_strategy = idem,
                 gv_commit_check_strategy = commit_check_for slug se idem\<rparr>))"

section \<open>Abstract action keys\<close>

text \<open>Keys of the default policies that have no tool definition.\<close>

definition plain_governance ::
  "side_effect \<Rightarrow> reversibility \<Rightarrow> data_sensitivity \<Rightarrow> bool \<Rightarrow> governance" where
  "plain_governance se rv ds par =
     \<lparr>gv_side_effect = se, gv_reversibility = rv, gv_data_sensitivity = ds,
      gv_parallel_safe = par, gv_idempotency_strategy = IS_NONE,
      gv_commit_check_strategy = CC_NONE\<rparr>"

definition ABSTRACT_ACTION_GOVERNANCE :: "(string \<times> governance) list" where
  "ABSTRACT_ACTION_GOVERNANCE =
     [(''knowledge_read'', plain_governance SE_READ RV_FULL DS_CONFIDENTIAL True),
      (''external_email_send'', plain_governance SE_EXTERNAL_MUTATING RV_NONE DS_CONFIDENTIAL False),
      (''social_publish'', plain_governance SE_EXTERNAL_MUTATING RV_NONE DS_PUBLIC False),
      (''ad_budget_change'', plain_governance SE_EXTERNAL_MUTATING RV_PARTIAL DS_RESTRICTED False),
      (''delete_record'', plain_governance SE_INTERNAL_MUTATING RV_NONE DS_CONFIDENTIAL False),
      (''merge_pull_request'', plain_governance SE_EXTERNAL_MUTATING RV_NONE DS_INTERNAL False),
      (''shell_destructive_action'',
         plain_governance SE_INTERNAL_MUTATING RV_NONE DS_RESTRICTED False),
      (''invoke_specialist'', plain_governance SE_INTERNAL_MUTATING RV_NONE DS_INTERNAL False)]"

section \<open>Resolution\<close>

definition governance_for_action_key :: "string \<Rightarrow> governance" where
  "governance_for_action_key action_key =
     (let key = py_strip action_key in
      if key = [] then plain_governance SE_EXTERNAL_MUTATING RV_NONE DS_INTERNAL False
      else case map_of ABSTRACT_ACTION_GOVERNANCE key of
        Some g \<Rightarrow> g
      | None \<Rightarrow>
          (case governance_from_inventory key of
             Some g \<Rightarrow> g
           | None \<Rightarrow>
               if starts_with ''mcp.'' key
               then plain_governance SE_EXTERNAL_MUTATING RV_NONE DS_CONFIDENTIAL False
               else if starts_with ''a2a.'' key
               then plain_governance SE_EXTERNAL_MUTATING RV_NONE DS_CONFIDENTIAL False
               else (plain_governance SE_EXTERNAL_MUTATING RV_NONE DS_INTERNAL False)
                      \<lparr>gv_commit_check_strategy := CC_APPROVAL_PAYLOAD_HASH\<rparr>))"

definition native_tool_governance_rows :: "(string \<times> governance) list" where
  "native_tool_governance_rows =
     map (\<lambda>t. (td_slug t, governance_for_action_key (td_slug t))) NATIVE_TOOL_CATALOG"

definition governance_metadata_json :: "string \<Rightarrow> pyval dict" where
  "governance_metadata_json action_key =
     [(''governance'', PDict (governance_to_dict (governance_for_action_key action_key)))]"

definition policy_row_dict :: "default_policy \<Rightarrow> pyval dict" where
  "policy_row_dict p =
     [(''action_key'', PStr (dp_action_key p)), (''decision'', PStr (dp_decision p)),
      (''risk_level'', PStr (dp_risk_level p))]"

definition default_action_policies_with_governance :: "pyval dict list" where
  "default_action_policies_with_governance =
     map (\<lambda>row. dmerge (policy_row_dict row) (governance_metadata_json (dp_action_key row)))
       DEFAULT_ACTION_POLICIES"

text \<open>The slugs \<open>assert_native_catalog_has_governance\<close> reports as missing.\<close>

definition catalog_without_governance :: "string list" where
  "catalog_without_governance =
     filter (\<lambda>slug. governance_from_inventory slug = None) (map fst native_tool_governance_rows)"

section \<open>Facts\<close>

lemma plain_governance_simps [simp]:
  "gv_side_effect (plain_governance se rv ds par) = se"
  "gv_reversibility (plain_governance se rv ds par) = rv"
  "gv_data_sensitivity (plain_governance se rv ds par) = ds"
  "gv_parallel_safe (plain_governance se rv ds par) = par"
  "gv_idempotency_strategy (plain_governance se rv ds par) = IS_NONE"
  "gv_commit_check_strategy (plain_governance se rv ds par) = CC_NONE"
  by (simp_all add: plain_governance_def)

lemma governance_strip [simp]:
  "governance_for_action_key (py_strip a) = governance_for_action_key a"
  by (simp add: governance_for_action_key_def)

lemma abstract_parallel_read:
  "(k, g) \<in> set ABSTRACT_ACTION_GOVERNANCE \<Longrightarrow> gv_parallel_safe g \<Longrightarrow> gv_side_effect g = SE_READ"
  by (auto simp: ABSTRACT_ACTION_GOVERNANCE_def)

lemma governance_cases:
  obtains (empty) "py_strip a = []"
      "governance_for_action_key a = plain_governance SE_EXTERNAL_MUTATING RV_NONE DS_INTERNAL False"
  | (abstract) "map_of ABSTRACT_ACTION_GOVERNANCE (py_strip a) = Some (governance_for_action_key a)"
  | (inventory) c where "get_external_effect_contract a = Some c"
      "governance_from_inventory (py_strip a) = Some (governance_for_action_key a)"
      "map_of ABSTRACT_ACTION_GOVERNANCE (py_strip a) = None"
  | (unknown) "get_external_effect_contract a = None"
      "gv_side_effect (governance_for_action_key a) = SE_EXTERNAL_MUTATING"
      "\<not> gv_parallel_safe (governance_for_action_key a)"
proof -
  let ?k = "py_strip a"
  show thesis
  proof (cases "?k = []")
    case True
    then show thesis using that(1) by (simp add: governance_for_action_key_def)
  next
    case False
    show thesis
    proof (cases "map_of ABSTRACT_ACTION_GOVERNANCE ?k")
      case (Some g)
      then show thesis using False that(2) by (simp add: governance_for_action_key_def)
    next
      case None
      show thesis
      proof (cases "governance_from_inventory ?k")
        case (Some g)
        then obtain c where "get_external_effect_contract a = Some c"
          by (auto simp: governance_from_inventory_def split: option.splits)
        then show thesis using Some None False that(3)
          by (simp add: governance_for_action_key_def)
      next
        case None': None
        then have "get_external_effect_contract a = None"
          by (auto simp: governance_from_inventory_def Let_def split: option.splits)
        moreover have "gv_side_effect (governance_for_action_key a) = SE_EXTERNAL_MUTATING"
          "\<not> gv_parallel_safe (governance_for_action_key a)"
          using None None' False by (simp_all add: governance_for_action_key_def Let_def)
        ultimately show thesis by (rule that(4))
      qed
    qed
  qed
qed

lemma governance_inventory_fields:
  assumes "governance_from_inventory k = Some g" "get_external_effect_contract k = Some c"
  shows "gv_side_effect g = ec_side_effect c"
    "gv_idempotency_strategy g = ec_idempotency_strategy c"
    "gv_parallel_safe g = parallel_safe_for k (ec_side_effect c)"
  using assms by (auto simp: governance_from_inventory_def Let_def)

text \<open>Only a read, or the acknowledgement of a Telegram callback, is ever parallel-safe.\<close>

lemma parallel_safe_read:
  assumes "gv_parallel_safe (governance_for_action_key a)"
  shows "gv_side_effect (governance_for_action_key a) = SE_READ \<or>
    py_strip a = ''telegram.answer_callback''"
proof (cases a rule: governance_cases)
  case abstract
  then show ?thesis using assms abstract_parallel_read by (blast dest: map_of_SomeD)
next
  case (inventory c)
  then have "get_external_effect_contract (py_strip a) = Some c" by simp
  then show ?thesis using governance_inventory_fields [OF inventory(2)] assms
    by (auto simp: parallel_safe_for_def split: if_splits)
qed (use assms in simp_all)

text \<open>A key outside both tables and both pattern families is treated as an external mutation.\<close>

lemma unknown_key_external:
  assumes "get_external_effect_contract a = None"
    "map_of ABSTRACT_ACTION_GOVERNANCE (py_strip a) = None"
  shows "gv_side_effect (governance_for_action_key a) = SE_EXTERNAL_MUTATING"
  using assms by (cases a rule: governance_cases) simp_all

lemma catalog_governance:
  assumes "t \<in> set NATIVE_TOOL_CATALOG"
  shows "governance_from_inventory (td_slug t) \<noteq> None"
  using assms by (elim catalog_contract) (simp add: governance_from_inventory_def Let_def)

end
