(* ===== verification/Workforce_Db.thy ===== *)
theory Workforce_Db
  imports Governance_Types
begin

text \<open>
  The rows the tool-governance services read and write (\<open>workforce/models.py\<close>: tool
  definitions, action policies, tool grants, connector installations) and the repository queries they use
  (\<open>workforce/repository.py\<close>). Rows are in insertion order; a query is a filter.
\<close>

record tool_definition =
  tl_id :: string
  tl_slug :: string
  tl_name :: string
  tl_description :: string
  tl_provider_type :: string
  tl_schema_json :: pyval
  tl_risk_level :: string
  tl_requires_approval :: bool
  tl_side_effect :: string
  tl_reversibility :: string
  tl_data_sensitivity :: string
  tl_parallel_safe :: bool
  tl_idempotency_strategy :: string
  tl_commit_check_strategy :: string
  tl_is_active :: bool
  tl_metadata_json :: "pyval dict"

record action_policy =
  ap_id :: string
  ap_owner_id :: string
  ap_scope_type :: string
  ap_scope_id :: "string option"
  ap_action_key :: string
  ap_decision :: string
  ap_risk_level :: string

record tool_grant =
  tg_id :: string
  tg_tool_definition_id :: string
  tg_subject_type :: string
  tg_subject_id :: string
  tg_effect :: string

record connector_installation =
  ci_id :: string
  ci_owner_id :: string
  ci_company_id :: "string option"
  ci_status :: string

record workforce_db =
  db_tools :: "tool_definition list"
  db_policies :: "action_policy list"
  db_grants :: "tool_grant list"
  db_installations :: "connector_installation list"

section \<open>Queries\<close>

text \<open>The slug column is unique, so \<open>scalar_one_or_none\<close> is the first match.\<close>

definition get_tool_definition :: "workforce_db \<Rightarrow> string \<Rightarrow> tool_definition option" where
  "get_tool_definition db slug = find (\<lambda>t. tl_slug t = slug) (db_tools db)"

definition list_tool_definitions_by_ids :: "workforce_db \<Rightarrow> string list \<Rightarrow> tool_definition list" where
  "list_tool_definitions_by_ids db ids =
     (if ids = [] then [] else filter (\<lambda>t. tl_id t \<in> set ids) (db_tools db))"

definition list_tool_grants_for_subject ::
  "workforce_db \<Rightarrow> string \<Rightarrow> string \<Rightarrow> string option \<Rightarrow> tool_grant list" where
  "list_tool_grants_for_subject db subject_type subject_id effect =
     filter (\<lambda>g. tg_subject_type g = subject_type \<and> tg_subject_id g = subject_id \<and>
                 (case effect of None \<Rightarrow> True | Some e \<Rightarrow> tg_effect g = e)) (db_grants db)"

definition policies_for_key :: "workforce_db \<Rightarrow> string \<Rightarrow> string \<Rightarrow> action_policy list" where
  "policies_for_key db owner_id action_key =
     filter (\<lambda>p. ap_owner_id p = owner_id \<and> ap_action_key p = action_key) (db_policies db)"

lemma get_tool_definition_Some:
  "get_tool_definition db slug = Some t \<Longrightarrow> t \<in> set (db_tools db) \<and> tl_slug t = slug"
  by (auto simp: get_tool_definition_def find_Some_iff)

lemma get_tool_definition_None:
  "get_tool_definition db slug = None \<longleftrightarrow> slug \<notin> tl_slug ` set (db_tools db)"
  by (auto simp: get_tool_definition_def find_None_iff)

end
