(* ===== verification/Action_Policy.thy ===== *)
theory Action_Policy
  imports Action_Metadata Workforce_Db
begin

text \<open>
  Action policy resolution, \<open>workforce/services/action_policy.py\<close>: which policies apply in a
  context, how a decision is chosen among them (a prohibition overrides, otherwise the most
  specific scope wins, otherwise the tool's own default), and \<open>may_execute\<close>.

  A resolution is the dictionary the code returns, since later stages read and extend it.
\<close>

section \<open>Scopes and decisions\<close>

definition POLICY_SCOPE_ORDER :: "string list" where
  "POLICY_SCOPE_ORDER =
     [''task'', ''skill'', ''agent'', ''project'', ''department'', ''organization'', ''global'']"

definition DECISION_PROHIBITED :: string where
  [guard_defs]: "DECISION_PROHIBITED = ''prohibited''"

definition DECISION_APPROVAL :: string where
  [guard_defs]: "DECISION_APPROVAL = ''approval_required''"

definition DECISION_AUTONOMOUS :: string where
  [guard_defs]: "DECISION_AUTONOMOUS = ''autonomous''"

definition VALID_DECISIONS :: "string list" where
  [guard_defs]: "VALID_DECISIONS = [DECISION_PROHIBITED, DECISION_APPROVAL, DECISION_AUTONOMOUS]"

section \<open>The resolver\<close>

definition policy_scope :: "action_policy \<Rightarrow> string" where
  "policy_scope p = py_lower (py_strip (ap_scope_type p))"

definition policy_decision :: "action_policy \<Rightarrow> string" where
  "policy_decision p = py_lower (py_strip (ap_decision p))"

text \<open>One step of the loop: skip unknown scopes and decisions, \<open>setdefault\<close> otherwise.\<close>

definition add_by_scope ::
  "action_policy \<Rightarrow> (string \<rightharpoonup> action_policy) \<Rightarrow> (string \<rightharpoonup> action_policy)" where
  "add_by_scope p by_scope =
     (if policy_scope p \<notin> set POLICY_SCOPE_ORDER then by_scope
      else if policy_decision p \<notin> set VALID_DECISIONS then by_scope
      else case by_scope (policy_scope p) of
        Some _ \<Rightarrow> by_scope
      | None \<Rightarrow> by_scope(policy_scope p \<mapsto> p))"

definition ordered_policies :: "action_policy list \<Rightarrow> action_policy list" where
  "ordered_policies policies =
     (let by_scope = fold add_by_scope policies Map.empty in
      List.map_filter by_scope POLICY_SCOPE_ORDER)"

definition resolution_dict ::
  "string \<Rightarrow> string \<Rightarrow> pyval \<Rightarrow> pyval \<Rightarrow> bool \<Rightarrow> pyval dict" where
  "resolution_dict decision reason scope pid deny =
     [(''decision'', PStr decision), (''reason'', PStr reason), (''matched_scope'', scope),
      (''matched_policy_id'', pid), (''deny_override'', PBool deny)]"

definition resolve_decision_from_policies :: "action_policy list \<Rightarrow> string \<Rightarrow> pyval dict" where
  "resolve_decision_from_policies policies dflt =
     (let ordered = ordered_policies policies in
      case ordered of
        [] \<Rightarrow> resolution_dict dflt ''no_policy_matched'' PNone PNone False
      | first # _ \<Rightarrow>
          (let prohibited = filter (\<lambda>p. ap_decision p = DECISION_PROHIBITED) ordered in
           if prohibited \<noteq> [] then
             (let chosen = last prohibited in
              resolution_dict DECISION_PROHIBITED ''deny_override''
                (PStr (ap_scope_type chosen)) (PStr (ap_id chosen)) True)
           else
             resolution_dict (ap_decision first) ''most_specific''
               (PStr (ap_scope_type first)) (PStr (ap_id first)) False))"

section \<open>Applicable policies\<close>

text \<open>The loop over the scopes: the ids present in the context, and always the global scope.\<close>

definition scope_filter_step :: "pyval dict \<Rightarrow> string \<Rightarrow> (string \<times> string option) list" where
  "scope_filter_step ctx scope =
     (if scope = ''global'' then [(''global'', None)]
      else
        (let scope_id = pget ctx (scope @ ''_id'') in
         if truthy scope_id then [(scope, Some (py_str scope_id))] else []) @
        (if scope = ''organization'' \<and> truthy (pget ctx ''company_id'')
         then [(''organization'', Some (py_str (pget ctx ''company_id'')))] else []))"

definition scope_filters :: "pyval dict \<Rightarrow> (string \<times> string option) list" where
  "scope_filters ctx =
     (let fs = concat (map (scope_filter_step ctx) POLICY_SCOPE_ORDER) in
      if fs = [] then [(''global'', None)] else fs)"

definition policy_wanted :: "(string \<times> string option) list \<Rightarrow> action_policy \<Rightarrow> bool" where
  "policy_wanted fs p \<longleftrightarrow>
     (ap_scope_type p, ap_scope_id p) \<in> set fs \<or>
     (ap_scope_type p = ''global'' \<and> (''global'', None) \<in> set fs) \<or>
     (ap_scope_type p = ''organization'' \<and> ap_scope_id p = None \<and>
        (\<exists>f \<in> set fs. fst f = ''organization''))"

definition list_applicable_policies ::
  "workforce_db \<Rightarrow> string \<Rightarrow> string \<Rightarrow> pyval dict \<Rightarrow> action_policy list" where
  "list_applicable_policies db owner_id action_key ctx =
     filter (policy_wanted (scope_filters ctx)) (policies_for_key db owner_id action_key)"

section \<open>Resolution in a context\<close>

definition tool_default_decision :: "tool_definition option \<Rightarrow> string" where
  "tool_default_decision tool =
     (case tool of
        None \<Rightarrow> DECISION_APPROVAL
      | Some t \<Rightarrow> if tl_requires_approval t then DECISION_APPROVAL else DECISION_AUTONOMOUS)"

definition resolve_policy ::
  "workforce_db \<Rightarrow> string \<Rightarrow> string \<Rightarrow> pyval dict \<Rightarrow> string option \<Rightarrow> pyval dict" where
  "resolve_policy db owner_id action_key ctx tool_slug =
     (let policies = list_applicable_policies db owner_id action_key ctx;
          slug = (case tool_slug of Some s \<Rightarrow> if s = [] then action_key else s | None \<Rightarrow> action_key);
          tool = get_tool_definition db slug;
          resolved = resolve_decision_from_policies policies (tool_default_decision tool);
          resolved = dset ''tool_slug'' (PStr slug) (dset ''action_key'' (PStr action_key) resolved)
      in case tool of
        Some t \<Rightarrow>
          (let gov = governance_to_dict (governance_for_action_key slug);
               gov = dset ''requires_approval'' (PBool (tl_requires_approval t))
                       (dset ''risk_level'' (PStr (tl_risk_level t)) gov)
           in dset ''governance'' (PDict gov)
                (dset ''tool_requires_approval'' (PBool (tl_requires_approval t))
                  (dset ''tool_risk_level'' (PStr (tl_risk_level t)) resolved)))
      | None \<Rightarrow>
          dset ''governance'' (PDict (governance_to_dict (governance_for_action_key action_key)))
            resolved)"

definition resolution_decision :: "pyval dict \<Rightarrow> string" where
  "resolution_decision r = (case pget r ''decision'' of PStr s \<Rightarrow> s | _ \<Rightarrow> [])"

definition may_execute ::
  "workforce_db \<Rightarrow> string \<Rightarrow> string \<Rightarrow> pyval dict \<Rightarrow> bool \<times> pyval dict" where
  "may_execute db owner_id tool_slug ctx =
     (let resolution = resolve_policy db owner_id tool_slug ctx (Some tool_slug);
          decision = resolution_decision resolution
      in if decision = DECISION_PROHIBITED then (False, resolution)
         else if decision = DECISION_APPROVAL then
           (if truthy (pget ctx ''approval_granted'') then (True, resolution)
            else (False, resolution))
         else (True, resolution))"

section \<open>Facts\<close>

text \<open>A stored policy whose scope and decision are spelled canonically.\<close>

definition canonical_policy :: "action_policy \<Rightarrow> bool" where
  "canonical_policy p \<longleftrightarrow>
     ap_scope_type p \<in> set POLICY_SCOPE_ORDER \<and> ap_decision p \<in> set VALID_DECISIONS"

lemma resolution_decision_dict [simp]:
  "resolution_decision (resolution_dict d r s p b) = d"
  by (simp add: resolution_decision_def resolution_dict_def pget_def)

lemma resolution_decision_dset [simp]:
  "k \<noteq> ''decision'' \<Longrightarrow> resolution_decision (dset k v r) = resolution_decision r"
  "resolution_decision (dset ''decision'' (PStr s) r) = s"
  by (simp_all add: resolution_decision_def)

lemma by_scope_invariant:
  assumes "fold add_by_scope ps m s = Some p"
  shows "m s = Some p \<or> (p \<in> set ps \<and> policy_scope p = s \<and>
    s \<in> set POLICY_SCOPE_ORDER \<and> policy_decision p \<in> set VALID_DECISIONS)"
  using assms
proof (induction ps arbitrary: m)
  case (Cons q qs)
  then have "add_by_scope q m s = Some p \<or> (p \<in> set qs \<and> policy_scope p = s \<and>
    s \<in> set POLICY_SCOPE_ORDER \<and> policy_decision p \<in> set VALID_DECISIONS)"
    by simp
  then show ?case by (auto simp: add_by_scope_def split: if_splits option.splits)
qed simp

lemma add_by_scope_keeps: "m s = Some p \<Longrightarrow> add_by_scope q m s = Some p"
  by (auto simp: add_by_scope_def split: option.splits)

lemma by_scope_keeps: "m s = Some p \<Longrightarrow> fold add_by_scope ps m s = Some p"
  by (induction ps arbitrary: m) (simp_all add: add_by_scope_keeps)

text \<open>The first policy of a scope that is well formed is the one the dictionary keeps.\<close>

lemma by_scope_first:
  assumes "m s = None" "s \<in> set POLICY_SCOPE_ORDER"
  shows "fold add_by_scope ps m s =
    find (\<lambda>p. policy_scope p = s \<and> policy_decision p \<in> set VALID_DECISIONS) ps"
  using assms
proof (induction ps arbitrary: m)
  case (Cons q qs)
  show ?case
  proof (cases "policy_scope q = s \<and> policy_decision q \<in> set VALID_DECISIONS")
    case True
    then have "add_by_scope q m s = Some q" using Cons.prems by (simp add: add_by_scope_def)
    then show ?thesis using True by (simp add: by_scope_keeps)
  next
    case False
    then have "add_by_scope q m s = None"
      using Cons.prems by (auto simp: add_by_scope_def split: option.splits)
    then have "fold add_by_scope qs (add_by_scope q m) s =
        find (\<lambda>p. policy_scope p = s \<and> policy_decision p \<in> set VALID_DECISIONS) qs"
      using Cons.prems(2) by (rule Cons.IH)
    then show ?thesis using False by auto
  qed
qed simp

lemma ordered_policies_mem:
  "p \<in> set (ordered_policies ps) \<longleftrightarrow> (\<exists>s \<in> set POLICY_SCOPE_ORDER.
     find (\<lambda>p. policy_scope p = s \<and> policy_decision p \<in> set VALID_DECISIONS) ps = Some p)"
proof -
  let ?m = "fold add_by_scope ps Map.empty"
  have "p \<in> set (ordered_policies ps) \<longleftrightarrow> (\<exists>s \<in> set POLICY_SCOPE_ORDER. ?m s = Some p)"
    by (force simp: ordered_policies_def Let_def List.map_filter_def)
  then show ?thesis by (simp add: by_scope_first cong: bex_cong)
qed

lemma ordered_policies_sub: "p \<in> set (ordered_policies ps) \<Longrightarrow> p \<in> set ps"
  by (auto simp: ordered_policies_mem find_Some_iff)

lemma ordered_policies_valid:
  "p \<in> set (ordered_policies ps) \<Longrightarrow>
     policy_decision p \<in> set VALID_DECISIONS \<and> policy_scope p \<in> set POLICY_SCOPE_ORDER"
  by (auto simp: ordered_policies_mem find_Some_iff)

text \<open>A canonical row is read as it is spelled.\<close>

lemma canonical_scope: "s \<in> set POLICY_SCOPE_ORDER \<Longrightarrow> py_lower (py_strip s) = s"
  by (auto simp: POLICY_SCOPE_ORDER_def py_lower_def py_strip_def is_space_def lower_char_def)

lemma canonical_decision: "d \<in> set VALID_DECISIONS \<Longrightarrow> py_lower (py_strip d) = d"
  by (auto simp: guard_defs py_lower_def py_strip_def is_space_def lower_char_def)

lemma canonical_policy_read:
  "canonical_policy p \<Longrightarrow> policy_scope p = ap_scope_type p \<and> policy_decision p = ap_decision p"
  by (simp add: canonical_policy_def policy_scope_def policy_decision_def canonical_scope
      canonical_decision)

text \<open>The four outcomes of the resolver.\<close>

lemma resolve_decision_cases:
  "resolution_decision (resolve_decision_from_policies ps d) =
     (case ordered_policies ps of [] \<Rightarrow> d
      | first # _ \<Rightarrow>
         if \<exists>p \<in> set (ordered_policies ps). ap_decision p = DECISION_PROHIBITED
         then DECISION_PROHIBITED else ap_decision first)"
  by (auto simp: resolve_decision_from_policies_def Let_def filter_empty_conv split: list.splits)

lemma resolve_policy_decision:
  "resolution_decision (resolve_policy db owner key ctx slug) =
     resolution_decision (resolve_decision_from_policies (list_applicable_policies db owner key ctx)
       (tool_default_decision (get_tool_definition db
          (case slug of Some s \<Rightarrow> if s = [] then key else s | None \<Rightarrow> key))))"
  by (auto simp: resolve_policy_def Let_def split: option.splits)

lemma may_execute_snd [simp]:
  "snd (may_execute db owner slug ctx) = resolve_policy db owner slug ctx (Some slug)"
  by (simp add: may_execute_def Let_def)

lemma may_execute_fst:
  "fst (may_execute db owner slug ctx) \<longleftrightarrow>
     (let d = resolution_decision (resolve_policy db owner slug ctx (Some slug)) in
      d \<noteq> DECISION_PROHIBITED \<and>
      (d = DECISION_APPROVAL \<longrightarrow> truthy (pget ctx ''approval_granted'')))"
  by (auto simp: may_execute_def Let_def)

end
