(* ===== verification/Tool_Governance.thy ===== *)
theory Tool_Governance
  imports Action_Policy
begin

text \<open>
  Approval and risk queries on a tool slug, \<open>workforce/services/tool_governance.py\<close>. They answer
  from the native catalog, then from the default policies of abstract action keys, then from
  the ecosystem prefixes, and fail closed for everything else.
\<close>

section \<open>Catalog queries\<close>

definition catalog_entry :: "string \<Rightarrow> native_tool option" where
  "catalog_entry tool_slug =
     (let slug = py_strip tool_slug in find (\<lambda>t. td_slug t = slug) NATIVE_TOOL_CATALOG)"

definition abstract_policy_row :: "string \<Rightarrow> default_policy option" where
  "abstract_policy_row action_key =
     find (\<lambda>p. dp_action_key p = action_key) DEFAULT_ACTION_POLICIES"

definition str_or_default :: "string \<Rightarrow> string \<Rightarrow> string" where
  "str_or_default s d = (if s = [] then d else s)"

definition catalog_tool_risk_level :: "string \<Rightarrow> string" where
  "catalog_tool_risk_level tool_slug =
     (case catalog_entry tool_slug of
        Some t \<Rightarrow> str_or_default (td_risk_level t) ''medium''
      | None \<Rightarrow>
          (case abstract_policy_row tool_slug of
             Some p \<Rightarrow> str_or_default (dp_risk_level p) ''medium''
           | None \<Rightarrow> if starts_with_any [''mcp.'', ''a2a.''] tool_slug then ''high'' else ''medium''))"

definition catalog_tool_requires_approval :: "string \<Rightarrow> bool" where
  "catalog_tool_requires_approval tool_slug =
     (let slug = py_strip tool_slug in
      if slug = [] then True
      else case catalog_entry slug of
        Some t \<Rightarrow> td_requires_approval t
      | None \<Rightarrow>
          (case abstract_policy_row slug of
             Some p \<Rightarrow>
               (let decision = str_or_default (dp_decision p) DECISION_APPROVAL in
                if decision = DECISION_PROHIBITED then True else decision = DECISION_APPROVAL)
           | None \<Rightarrow> if starts_with_any [''mcp.'', ''a2a.''] slug then True else True))"

definition is_external_mutating_tool :: "string \<Rightarrow> bool" where
  "is_external_mutating_tool tool_slug =
     (let slug = py_strip tool_slug in
      if slug = [] then False
      else gv_side_effect (governance_for_action_key slug) = SE_EXTERNAL_MUTATING)"

definition is_low_risk_tool :: "string \<Rightarrow> bool" where
  "is_low_risk_tool tool_slug =
     (let slug = py_strip tool_slug in
      if slug = [] \<or> starts_with_any [''mcp.'', ''a2a.'', ''github_''] slug then False
      else if catalog_entry slug = None then False
      else if catalog_tool_requires_approval slug then False
      else gv_side_effect (governance_for_action_key slug) = SE_READ)"

definition tool_requires_hitl_execution_grant :: "string \<Rightarrow> bool" where
  "tool_requires_hitl_execution_grant tool_slug = catalog_tool_requires_approval tool_slug"

definition HIGH_RISK_LEVELS :: "string list" where
  "HIGH_RISK_LEVELS = [''high'', ''critical'']"

definition is_governed_high_risk_tool :: "string \<Rightarrow> bool" where
  "is_governed_high_risk_tool tool_slug =
     (let slug = py_strip tool_slug in
      if slug = [] then True
      else if catalog_tool_requires_approval slug then True
      else catalog_tool_risk_level slug \<in> set HIGH_RISK_LEVELS)"

section \<open>Effective decisions\<close>

record effective_tool_decision =
  ed_tool_slug :: string
  ed_decision :: string
  ed_requires_approval :: bool
  ed_risk_level :: string
  ed_is_low_risk :: bool
  ed_requires_hitl_grant :: bool
  ed_governance :: "pyval dict"
  ed_source :: string

definition decision_to_snapshot :: "effective_tool_decision \<Rightarrow> pyval dict" where
  "decision_to_snapshot d =
     [(''tool_slug'', PStr (ed_tool_slug d)), (''decision'', PStr (ed_decision d)),
      (''requires_approval'', PBool (ed_requires_approval d)),
      (''risk_level'', PStr (ed_risk_level d)), (''is_low_risk'', PBool (ed_is_low_risk d)),
      (''requires_hitl_grant'', PBool (ed_requires_hitl_grant d)),
      (''governance'', PDict (ed_governance d)), (''source'', PStr (ed_source d))]"

definition decision_from_tool_record ::
  "string \<Rightarrow> bool \<Rightarrow> string \<Rightarrow> string \<Rightarrow> effective_tool_decision" where
  "decision_from_tool_record slug requires_approval risk_level source =
     (let governance = governance_to_dict (governance_for_action_key slug);
          prohibited = (case abstract_policy_row slug of
              Some p \<Rightarrow> dp_decision p = DECISION_PROHIBITED | None \<Rightarrow> False);
          decision = (if prohibited then DECISION_PROHIBITED
            else if requires_approval then DECISION_APPROVAL else DECISION_AUTONOMOUS);
          requires = (requires_approval \<or> prohibited)
      in \<lparr>ed_tool_slug = slug, ed_decision = decision, ed_requires_approval = requires,
          ed_risk_level = risk_level, ed_is_low_risk = is_low_risk_tool slug,
          ed_requires_hitl_grant = tool_requires_hitl_execution_grant slug,
          ed_governance = dset ''requires_approval'' (PBool requires)
             (dset ''risk_level'' (PStr risk_level) governance),
          ed_source = source\<rparr>)"

definition effective_tool_decision_from_catalog :: "string \<Rightarrow> effective_tool_decision" where
  "effective_tool_decision_from_catalog tool_slug =
     (let slug = py_strip tool_slug in
      case catalog_entry slug of
        Some t \<Rightarrow> decision_from_tool_record slug (td_requires_approval t)
                    (str_or_default (td_risk_level t) ''medium'') ''catalog''
      | None \<Rightarrow>
          (case abstract_policy_row slug of
             Some p \<Rightarrow>
               (let decision = str_or_default (dp_decision p) DECISION_APPROVAL in
                decision_from_tool_record slug
                  (decision = DECISION_APPROVAL \<or> decision = DECISION_PROHIBITED)
                  (str_or_default (dp_risk_level p) ''medium'') ''abstract_policy'')
           | None \<Rightarrow>
               if starts_with_any [''mcp.'', ''a2a.''] slug
               then decision_from_tool_record slug True ''high'' ''ecosystem_fail_closed''
               else decision_from_tool_record slug True ''medium'' ''unknown_fail_closed''))"

definition effective_tool_decision_from_definition ::
  "tool_definition \<Rightarrow> effective_tool_decision" where
  "effective_tool_decision_from_definition t =
     decision_from_tool_record (tl_slug t) (tl_requires_approval t)
       (str_or_default (tl_risk_level t) ''medium'') ''tool_definition''"

definition resolve_effective_tool_decision ::
  "workforce_db \<Rightarrow> string \<Rightarrow> string \<Rightarrow> pyval dict \<Rightarrow> effective_tool_decision" where
  "resolve_effective_tool_decision db owner_id tool_slug ctx =
     (let slug = py_strip tool_slug;
          base = (case get_tool_definition db slug of
                    None \<Rightarrow> effective_tool_decision_from_catalog slug
                  | Some t \<Rightarrow> effective_tool_decision_from_definition t);
          resolution = resolve_policy db owner_id slug ctx (Some slug);
          decision = str_or (pget resolution ''decision'') (ed_decision base);
          requires = (decision = DECISION_APPROVAL \<or> decision = DECISION_PROHIBITED);
          governance = (if truthy (pget resolution ''governance'')
            then dict_or_empty (pget resolution ''governance'') else ed_governance base)
      in \<lparr>ed_tool_slug = slug, ed_decision = decision, ed_requires_approval = requires,
          ed_risk_level = str_or (pget governance ''risk_level'') (ed_risk_level base),
          ed_is_low_risk = (is_low_risk_tool slug \<and> decision = DECISION_AUTONOMOUS),
          ed_requires_hitl_grant = requires, ed_governance = governance,
          ed_source = ''action_policy''\<rparr>)"

text \<open>The snapshot map of every built-in tool and abstract key, and of one unknown slug.\<close>

definition built_in_tool_decision_snapshots :: "(string \<times> pyval dict) list" where
  "built_in_tool_decision_snapshots =
     (let snap = (\<lambda>k. decision_to_snapshot (effective_tool_decision_from_catalog k));
          tools = fold (\<lambda>t d. dset (td_slug t) (snap (td_slug t)) d) NATIVE_TOOL_CATALOG [];
          rows = fold (\<lambda>p d. if dhas d (dp_action_key p) then d
                             else dset (dp_action_key p) (snap (dp_action_key p)) d)
                   DEFAULT_ACTION_POLICIES tools
      in dset ''__unknown__'' (snap ''not.a.registered.tool'') rows)"

section \<open>Facts\<close>

lemma catalog_entry_Some:
  "catalog_entry s = Some t \<Longrightarrow> t \<in> set NATIVE_TOOL_CATALOG \<and> td_slug t = py_strip s"
  by (auto simp: catalog_entry_def Let_def find_Some_iff)

lemma catalog_entry_strip [simp]: "catalog_entry (py_strip s) = catalog_entry s"
  by (simp add: catalog_entry_def)

lemma requires_approval_strip [simp]:
  "catalog_tool_requires_approval (py_strip s) = catalog_tool_requires_approval s"
  by (simp add: catalog_tool_requires_approval_def)

lemma catalog_entry_contract:
  assumes "catalog_entry s = Some t"
  obtains c where "get_external_effect_contract s = Some c" "row_ok t c"
proof -
  from assms have "t \<in> set NATIVE_TOOL_CATALOG" "td_slug t = py_strip s"
    by (simp_all add: catalog_entry_Some)
  then show thesis using that catalog_contract by (metis contract_lookup_strip)
qed

lemma default_policy_decisions:
  "p \<in> set DEFAULT_ACTION_POLICIES \<Longrightarrow> dp_decision p \<in> set VALID_DECISIONS"
proof -
  have "list_all (\<lambda>p. dp_decision p \<in> set VALID_DECISIONS) DEFAULT_ACTION_POLICIES"
    by code_simp
  then show "p \<in> set DEFAULT_ACTION_POLICIES \<Longrightarrow> dp_decision p \<in> set VALID_DECISIONS"
    by (simp add: list_all_iff)
qed

lemma abstract_policy_row_Some:
  "abstract_policy_row k = Some p \<Longrightarrow> p \<in> set DEFAULT_ACTION_POLICIES \<and> dp_action_key p = k"
  by (auto simp: abstract_policy_row_def find_Some_iff)

text \<open>Approval is only ever waived by a catalog row or by an autonomous default policy.\<close>

lemma no_approval_cases:
  assumes "\<not> catalog_tool_requires_approval s"
  shows "catalog_entry s \<noteq> None \<or>
    (\<exists>p. abstract_policy_row (py_strip s) = Some p \<and> dp_decision p = DECISION_AUTONOMOUS)"
proof (cases "catalog_entry s")
  case None
  with assms obtain p where p: "abstract_policy_row (py_strip s) = Some p"
    and d: "str_or_default (dp_decision p) DECISION_APPROVAL \<notin> {DECISION_PROHIBITED, DECISION_APPROVAL}"
    by (auto simp: catalog_tool_requires_approval_def Let_def split: option.splits if_splits)
  from p have "dp_decision p \<in> set VALID_DECISIONS"
    by (blast dest: abstract_policy_row_Some default_policy_decisions)
  with d have "dp_decision p = DECISION_AUTONOMOUS"
    by (auto simp: VALID_DECISIONS_def str_or_default_def guard_defs)
  with p show ?thesis by blast
qed simp

end
