(* ===== verification/Effective_Permissions.thy ===== *)
theory Effective_Permissions
  imports Action_Policy
begin

text \<open>
  Effective tool permissions, \<open>workforce/services/effective_permissions.py\<close>: the grants inherited
  along organization, department, project, agent and skill, combined with the action policy.
  A deny grant wins over every allow; a tool with no allow is denied.
\<close>

section \<open>Scopes of grants\<close>

definition GRANT_SCOPE_ORDER :: "string list" where
  "GRANT_SCOPE_ORDER = [''skill'', ''agent'', ''project'', ''department'', ''organization'']"

definition GRANT_SUBJECT_ALIASES :: "(string \<times> string) list" where
  "GRANT_SUBJECT_ALIASES = [(''dept'', ''department''), (''company'', ''organization'')]"

definition normalize_scope :: "string \<Rightarrow> string" where
  "normalize_scope subject_type =
     (let key = py_lower (py_strip subject_type) in
      case map_of GRANT_SUBJECT_ALIASES key of None \<Rightarrow> key | Some s \<Rightarrow> s)"

fun index_of :: "'a \<Rightarrow> 'a list \<Rightarrow> nat option" where
  "index_of x [] = None"
| "index_of x (y # ys) = (if x = y then Some 0 else map_option Suc (index_of x ys))"

definition grant_scope_rank :: "string \<Rightarrow> nat" where
  "grant_scope_rank subject_type =
     (case index_of (normalize_scope subject_type) GRANT_SCOPE_ORDER of
        Some i \<Rightarrow> i | None \<Rightarrow> length GRANT_SCOPE_ORDER)"

section \<open>The execution context\<close>

record perm_context =
  pc_agent_id :: pyval
  pc_project_id :: pyval
  pc_company_id :: pyval
  pc_department_id :: pyval
  pc_skill_ids :: "pyval list"

definition grant_subjects :: "perm_context \<Rightarrow> (string \<times> string) list" where
  "grant_subjects pc =
     (let one = (\<lambda>ty v. if truthy v then [(ty, py_str v)] else []) in
      one ''organization'' (pc_company_id pc) @
      one ''department'' (pc_department_id pc) @
      one ''project'' (pc_project_id pc) @
      one ''agent'' (pc_agent_id pc) @
      concat (map (one ''skill'') (pc_skill_ids pc)))"

text \<open>
  The grants of one subject, by its own type or, when there are none, by the legacy alias. The
  dictionary by scope keeps the order of the subjects, so reading it back is the concatenation.
\<close>

definition subject_grants :: "workforce_db \<Rightarrow> string \<times> string \<Rightarrow> tool_grant list" where
  "subject_grants db subj =
     (case subj of (subject_type, subject_id) \<Rightarrow>
        (let grants = list_tool_grants_for_subject db subject_type subject_id None in
         if grants = []
         then list_tool_grants_for_subject db
                (if subject_type = ''department'' then ''dept'' else subject_type) subject_id None
         else grants))"

definition all_grants :: "workforce_db \<Rightarrow> perm_context \<Rightarrow> tool_grant list" where
  "all_grants db pc = concat (map (subject_grants db) (grant_subjects pc))"

section \<open>One tool\<close>

definition grant_source :: "tool_grant \<Rightarrow> pyval" where
  "grant_source g =
     PDict [(''type'', PStr ''grant''), (''scope_type'', PStr (normalize_scope (tg_subject_type g))),
            (''scope_id'', PStr (tg_subject_id g)), (''effect'', PStr (tg_effect g)),
            (''grant_id'', PStr (tg_id g))]"

text \<open>The scan over the grants, most specific first: sources, denied, allowed. It stops at a deny.\<close>

fun scan_grants :: "tool_grant list \<Rightarrow> pyval list \<times> bool \<times> bool" where
  "scan_grants [] = ([], False, False)"
| "scan_grants (g # gs) =
     (if py_lower (tg_effect g) = ''deny'' then ([grant_source g], True, False)
      else (case scan_grants gs of (sources, denied, allowed) \<Rightarrow>
             (grant_source g # sources, denied, py_lower (tg_effect g) = ''allow'' \<or> allowed)))"

definition tool_effect :: "bool \<Rightarrow> bool \<Rightarrow> string \<Rightarrow> string" where
  "tool_effect denied allowed decision =
     (if denied then ''deny''
      else if decision = DECISION_PROHIBITED then ''prohibited''
      else if \<not> allowed then ''deny''
      else if decision = DECISION_APPROVAL then ''approval_required''
      else if decision = DECISION_AUTONOMOUS then ''allow''
      else ''approval_required'')"

definition perm_policy_context ::
  "string \<Rightarrow> perm_context \<Rightarrow> string list \<Rightarrow> string \<Rightarrow> pyval dict" where
  "perm_policy_context owner_id pc declared slug =
     [(''owner_id'', PStr owner_id), (''project_id'', pc_project_id pc),
      (''company_id'', pc_company_id pc), (''department_id'', pc_department_id pc),
      (''agent_id'', pc_agent_id pc)] @
     (case pc_skill_ids pc of [] \<Rightarrow> [] | s # _ \<Rightarrow> [(''skill_id'', s)]) @
     [(''allowed_tools'', PList (map PStr (if declared \<noteq> [] then declared else [slug])))]"

record tool_permission =
  tp_effect :: string
  tp_sources :: "pyval list"

definition tool_permission_for ::
  "workforce_db \<Rightarrow> string \<Rightarrow> perm_context \<Rightarrow> string list \<Rightarrow> tool_grant list \<Rightarrow> string \<Rightarrow>
   tool_permission" where
  "tool_permission_for db owner_id pc declared slug_grants slug =
     (case scan_grants (sort_key (\<lambda>g. grant_scope_rank (normalize_scope (tg_subject_type g))) slug_grants)
      of (sources, denied, allowed) \<Rightarrow>
        (let resolution = resolve_policy db owner_id slug
               (perm_policy_context owner_id pc declared slug) (Some slug);
             decision = str_or (pget resolution ''decision'') DECISION_APPROVAL;
             sources = sources @ [PDict
               [(''type'', PStr ''policy''),
                (''action_key'', py_or (pget resolution ''action_key'') (PStr slug)),
                (''decision'', PStr decision),
                (''matched_scope'', pget resolution ''matched_scope''),
                (''matched_policy_id'', pget resolution ''matched_policy_id''),
                (''risk_level'', pget resolution ''tool_risk_level'')]];
             effect = tool_effect denied allowed decision
         in if declared \<noteq> [] \<and> slug \<notin> set declared
            then \<lparr>tp_effect = ''deny'',
                  tp_sources = sources @ [PDict [(''type'', PStr ''declared_tools''),
                                                (''effect'', PStr ''not_declared'')]]\<rparr>
            else \<lparr>tp_effect = effect, tp_sources = sources\<rparr>))"

section \<open>All candidate tools\<close>

record effective_permissions =
  ep_allow :: "string list"
  ep_deny :: "string list"
  ep_unavailable :: "string list"
  ep_by_tool :: "(string \<times> tool_permission) list"

definition stripped_nonempty :: "string list \<Rightarrow> string list" where
  "stripped_nonempty xs = filter (\<lambda>s. s \<noteq> []) (map py_strip xs)"

text \<open>
  The map from tool id to slug: the tools of the grants, and every requested tool that is
  registered. A later entry replaces an earlier one with the same id. The second component
  is the key set of \<open>id_by_slug\<close>, into which the loop stores the id of the tool, not its slug.
\<close>

definition slug_by_id ::
  "workforce_db \<Rightarrow> tool_grant list \<Rightarrow> string list \<Rightarrow> string \<Rightarrow> string option" where
  "slug_by_id db grants requested =
     (let ids = remdups (filter (\<lambda>i. i \<noteq> []) (map tg_tool_definition_id grants));
          defs = filter (\<lambda>t. tl_slug t \<noteq> []) (list_tool_definitions_by_ids db ids);
          base = fold (\<lambda>t m. m(tl_id t \<mapsto> tl_slug t)) defs Map.empty
      in fst (fold (\<lambda>slug (m, id_by_slug).
                 if slug \<in> set id_by_slug then (m, id_by_slug)
                 else case get_tool_definition db slug of
                   None \<Rightarrow> (m, id_by_slug)
                 | Some t \<Rightarrow> (m(tl_id t \<mapsto> tl_slug t), tl_id t # id_by_slug))
           requested (base, map tl_slug defs)))"

definition resolve_effective_tool_permissions ::
  "workforce_db \<Rightarrow> string \<Rightarrow> perm_context \<Rightarrow> string list \<Rightarrow> string list \<Rightarrow> effective_permissions" where
  "resolve_effective_tool_permissions db owner_id pc tool_slugs declared_tools =
     (let grants = all_grants db pc;
          requested = stripped_nonempty tool_slugs;
          names = slug_by_id db grants requested;
          candidates = (if requested \<noteq> [] then py_unique requested
            else py_sorted_set (List.map_filter (\<lambda>g. names (tg_tool_definition_id g)) grants));
          declared = stripped_nonempty declared_tools;
          perm = (\<lambda>slug. tool_permission_for db owner_id pc declared
                    (filter (\<lambda>g. names (tg_tool_definition_id g) = Some slug) grants) slug);
          by_tool = map (\<lambda>slug. (slug, perm slug)) candidates;
          allowed = filter (\<lambda>slug. tp_effect (perm slug) \<in> {''allow'', ''approval_required''}) candidates;
          denied = filter (\<lambda>slug. tp_effect (perm slug) \<notin> {''allow'', ''approval_required''}) candidates
      in \<lparr>ep_allow = py_sorted_set allowed, ep_deny = py_sorted_set denied,
          ep_unavailable = py_sorted_set (filter (\<lambda>s. s \<notin> set allowed) requested),
          ep_by_tool = by_tool\<rparr>)"

section \<open>Facts\<close>

lemma scan_denied: "fst (snd (scan_grants gs)) \<longleftrightarrow> (\<exists>g \<in> set gs. py_lower (tg_effect g) = ''deny'')"
  by (induction gs) (auto split: prod.splits)

lemma scan_allowed:
  "snd (snd (scan_grants gs)) \<Longrightarrow> \<exists>g \<in> set gs. py_lower (tg_effect g) = ''allow''"
  by (induction gs) (auto split: prod.splits if_splits)

lemma tool_effect_denied:
  "tool_effect denied allowed d \<in> {''allow'', ''approval_required''} \<Longrightarrow>
     \<not> denied \<and> allowed \<and> d \<noteq> DECISION_PROHIBITED"
  by (auto simp: tool_effect_def split: if_splits)

text \<open>The resolver of one tool: what an executable effect says about grants and policy.\<close>

lemma tool_permission_executable:
  assumes "tp_effect (tool_permission_for db owner_id pc declared gs slug)
             \<in> {''allow'', ''approval_required''}"
  shows "(\<forall>g \<in> set gs. py_lower (tg_effect g) \<noteq> ''deny'') \<and>
         (\<exists>g \<in> set gs. py_lower (tg_effect g) = ''allow'') \<and>
         (declared \<noteq> [] \<longrightarrow> slug \<in> set declared) \<and>
         str_or (pget (resolve_policy db owner_id slug
            (perm_policy_context owner_id pc declared slug) (Some slug)) ''decision'')
            DECISION_APPROVAL \<noteq> DECISION_PROHIBITED"
proof -
  let ?sorted = "sort_key (\<lambda>g. grant_scope_rank (normalize_scope (tg_subject_type g))) gs"
  obtain sources denied allowed where scan: "scan_grants ?sorted = (sources, denied, allowed)"
    by (cases "scan_grants ?sorted") auto
  let ?d = "str_or (pget (resolve_policy db owner_id slug
            (perm_policy_context owner_id pc declared slug) (Some slug)) ''decision'') DECISION_APPROVAL"
  from assms have decl: "\<not> (declared \<noteq> [] \<and> slug \<notin> set declared)"
    by (auto simp: tool_permission_for_def scan Let_def split: if_splits)
  with assms have "tool_effect denied allowed ?d \<in> {''allow'', ''approval_required''}"
    by (simp add: tool_permission_for_def scan Let_def)
  then have "\<not> denied" "allowed" "?d \<noteq> DECISION_PROHIBITED"
    using tool_effect_denied by blast+
  moreover have "denied \<longleftrightarrow> (\<exists>g \<in> set gs. py_lower (tg_effect g) = ''deny'')"
    using scan_denied [of ?sorted] scan by simp
  moreover have "allowed \<Longrightarrow> \<exists>g \<in> set gs. py_lower (tg_effect g) = ''allow''"
    using scan_allowed [of ?sorted] scan by simp
  ultimately show ?thesis using decl by blast
qed

lemma effective_partition:
  assumes "ep = resolve_effective_tool_permissions db owner_id pc slugs declared"
  shows "set (ep_allow ep) \<inter> set (ep_deny ep) = {}"
    and "set (ep_allow ep) \<union> set (ep_deny ep) = set (map fst (ep_by_tool ep))"
  unfolding assms by (auto simp: resolve_effective_tool_permissions_def Let_def)

lemma effective_single:
  assumes "py_strip slug = slug" "slug \<noteq> []"
    and "ep = resolve_effective_tool_permissions db owner_id pc [slug] []"
  shows "ep_allow ep = [slug] \<and> ep_deny ep = [] \<and> ep_unavailable ep = [] \<or>
         ep_allow ep = [] \<and> ep_deny ep = [slug] \<and> ep_unavailable ep = [slug]"
  unfolding assms(3)
  by (auto simp: resolve_effective_tool_permissions_def Let_def stripped_nonempty_def assms(1,2)
      py_unique_def py_sorted_set_def)

end
