(* ===== verification/Tool_Registry.thy ===== *)
theory Tool_Registry
  imports Tool_Governance Effective_Permissions
begin

text \<open>
  The tool registry, \<open>workforce/services/tool_registry.py\<close>: which provider serves a slug, the
  permission check of each provider (also \<open>ecosystem_providers.py\<close> and
  \<open>integrations/tool_provider.py\<close>), \<open>authorize_tool\<close>, which combines provider permission, policy
  resolution, effective grants and the idempotency contract, and \<open>execute_tool\<close>.

  Calls that leave the process (MCP and A2A clients, the connector adapters' HTTP requests) are
  the parameter \<open>ext\<close>; every such call is also recorded in the effect list an execution returns.
\<close>

section \<open>Providers\<close>

definition CONNECTOR_PREFIXES :: "string list" where
  "CONNECTOR_PREFIXES =
     [''gmail.'', ''outlook.'', ''google_calendar.'', ''microsoft_calendar.'', ''telegram.'',
      ''slack.'', ''teams.'']"

definition provider_for :: "string \<Rightarrow> string" where
  "provider_for tool_slug =
     (if starts_with_any CONNECTOR_PREFIXES tool_slug then ''connector''
      else if starts_with ''github_'' tool_slug then ''github''
      else if starts_with ''mcp.'' tool_slug then ''mcp''
      else if starts_with ''a2a.'' tool_slug then ''a2a''
      else ''native'')"

definition GITHUB_TOOLS :: "string list" where
  "GITHUB_TOOLS = [''github_comment'', ''github_label_issue'', ''github_create_pr'']"

text \<open>
  The permission checks. \<open>native_validate\<close> stores the resolution in the context it is given, so
  it returns the context too.
\<close>

definition native_validate ::
  "workforce_db option \<Rightarrow> string \<Rightarrow> pyval dict \<Rightarrow> bool \<times> pyval dict" where
  "native_validate db tool_slug ctx =
     (let owner = pget ctx ''owner_id''; allowed = list_or_empty (pget ctx ''allowed_tools'') in
      if \<not> truthy owner then (False, ctx)
      else if allowed \<noteq> [] \<and> PStr tool_slug \<notin> set allowed then (False, ctx)
      else case db of
        None \<Rightarrow> (if allowed \<noteq> [] then PStr tool_slug \<in> set allowed else False, ctx)
      | Some d \<Rightarrow>
          (case may_execute d (py_str owner) tool_slug ctx of (ok, resolution) \<Rightarrow>
             (if pget resolution ''decision'' = PStr DECISION_PROHIBITED then False else ok,
              dset ''_policy_resolution'' (PDict resolution) ctx)))"

definition github_validate ::
  "workforce_db option \<Rightarrow> string \<Rightarrow> pyval dict \<Rightarrow> bool \<times> pyval dict" where
  "github_validate db tool_slug ctx =
     (if tool_slug \<notin> set GITHUB_TOOLS then (False, ctx) else native_validate db tool_slug ctx)"

definition mcp_validate ::
  "workforce_db option \<Rightarrow> string \<Rightarrow> pyval dict \<Rightarrow> bool \<times> pyval dict" where
  "mcp_validate db tool_slug ctx =
     (if \<not> starts_with ''mcp.'' tool_slug then (False, ctx) else native_validate db tool_slug ctx)"

definition a2a_validate ::
  "workforce_db option \<Rightarrow> string \<Rightarrow> pyval dict \<Rightarrow> bool \<times> pyval dict" where
  "a2a_validate db tool_slug ctx =
     (if \<not> starts_with ''a2a.'' tool_slug then (False, ctx) else native_validate db tool_slug ctx)"

definition connector_validate :: "workforce_db \<Rightarrow> string \<Rightarrow> pyval dict \<Rightarrow> bool" where
  "connector_validate db tool_slug ctx =
     (let owner_id = str_or (pget ctx ''owner_id'') [];
          installation_id = str_or (pget ctx ''connector_installation_id'') [] in
      if owner_id = [] \<or> installation_id = [] then False
      else case find (\<lambda>i. ci_id i = installation_id \<and> ci_owner_id i = owner_id \<and>
                         ci_status i = ''active'') (db_installations db) of
        None \<Rightarrow> False
      | Some i \<Rightarrow>
          (let company_id = pget ctx ''company_id'' in
           \<not> (truthy company_id \<and> truthy (opt_str (ci_company_id i)) \<and>
              py_str company_id \<noteq> py_str (opt_str (ci_company_id i)))))"

definition validate_permissions ::
  "workforce_db \<Rightarrow> string \<Rightarrow> string \<Rightarrow> pyval dict \<Rightarrow> bool \<times> pyval dict" where
  "validate_permissions db provider tool_slug ctx =
     (if provider = ''connector'' then (connector_validate db tool_slug ctx, ctx)
      else if provider = ''github'' then github_validate (Some db) tool_slug ctx
      else if provider = ''mcp'' then mcp_validate (Some db) tool_slug ctx
      else if provider = ''a2a'' then a2a_validate (Some db) tool_slug ctx
      else native_validate (Some db) tool_slug ctx)"

section \<open>Authorization\<close>

record authorization =
  az_permitted :: bool
  az_decision :: pyval
  az_resolution :: "pyval dict"
  az_provider :: string
  az_effective :: "effective_permissions option"

definition perm_context_of :: "pyval dict \<Rightarrow> perm_context" where
  "perm_context_of ctx =
     \<lparr>pc_agent_id = pget ctx ''agent_id'', pc_project_id = pget ctx ''project_id'',
      pc_company_id = pget ctx ''company_id'', pc_department_id = pget ctx ''department_id'',
      pc_skill_ids = list_or_empty (pget ctx ''skill_ids'')\<rparr>"

definition apply_effective ::
  "effective_permissions \<Rightarrow> string \<Rightarrow> pyval dict \<Rightarrow> bool \<Rightarrow> bool" where
  "apply_effective ep tool_slug resolution permitted =
     (let effect = (case map_of (ep_by_tool ep) tool_slug of
                      None \<Rightarrow> [] | Some tp \<Rightarrow> tp_effect tp) in
      if tool_slug \<in> set (ep_deny ep) \<or> effect \<in> {''deny'', ''prohibited''} \<or>
         tool_slug \<in> set (ep_unavailable ep) then False
      else if tool_slug \<in> set (ep_allow ep) \<and>
              pget resolution ''decision'' \<noteq> PStr DECISION_PROHIBITED then True
      else permitted)"

text \<open>The resolution that replaces an autonomous decision the contract does not allow.\<close>

definition idempotency_block :: "external_effect_contract \<Rightarrow> pyval dict \<Rightarrow> pyval dict" where
  "idempotency_block c resolution =
     dmerge resolution
       [(''decision'', PStr DECISION_APPROVAL), (''matched_scope'', PStr ''idempotency_contract''),
        (''reason'', PStr ''missing_durable_idempotency''),
        (''idempotency_blocked_autonomous'', PBool True),
        (''action_key'', PStr (ec_action_key c))]"

text \<open>
  \<open>authorize_tool\<close>. The query for the effective permissions may raise; \<open>failure\<close> is its message.
  The result is the authorization and the context with its stored resolution.
\<close>

definition effective_stage ::
  "workforce_db \<Rightarrow> string option \<Rightarrow> string \<Rightarrow> string \<Rightarrow> pyval dict \<Rightarrow> pyval dict \<Rightarrow> bool \<Rightarrow>
   bool \<times> pyval dict \<times> pyval dict \<times> effective_permissions option" where
  "effective_stage db failure owner_id tool_slug ctx resolution permitted =
     (if truthy (pget ctx ''agent_id'') \<or> truthy (pget ctx ''project_id'') \<or>
         truthy (pget ctx ''company_id'') then
        (case failure of
           None \<Rightarrow>
             (let ep = resolve_effective_tool_permissions db owner_id (perm_context_of ctx)
                         [tool_slug] []
              in (apply_effective ep tool_slug resolution permitted, resolution, ctx, Some ep))
         | Some err \<Rightarrow>
             if \<not> is_low_risk_tool tool_slug then
               (let r = dmerge resolution
                      [(''decision'', PStr DECISION_PROHIBITED),
                       (''matched_scope'', PStr ''effective_permissions_error''),
                       (''error'', PStr err)]
                in (False, r, dset ''_policy_resolution'' (PDict r) ctx, None))
             else (permitted, resolution, ctx, None))
      else (permitted, resolution, ctx, None))"

definition provider_name :: "string \<Rightarrow> string" where
  "provider_name tool_slug =
     (if starts_with ''mcp.'' tool_slug then ''mcp''
      else if starts_with ''a2a.'' tool_slug then ''a2a''
      else if starts_with ''github_'' tool_slug then ''github''
      else if starts_with_any CONNECTOR_PREFIXES tool_slug then ''connector''
      else ''native'')"

definition authorize_tool ::
  "workforce_db \<Rightarrow> string option \<Rightarrow> string \<Rightarrow> string \<Rightarrow> pyval dict \<Rightarrow> authorization \<times> pyval dict" where
  "authorize_tool db failure owner_id tool_slug ctx =
     (let stored = pget ctx ''_policy_resolution'';
          resolution = (if truthy stored then dict_or_empty stored
                        else resolve_policy db owner_id tool_slug ctx (Some tool_slug));
          permitted = fst (validate_permissions db (provider_for tool_slug) tool_slug
                             (dset ''owner_id'' (PStr owner_id) ctx))
      in case effective_stage db failure owner_id tool_slug ctx resolution permitted of
        (permitted, resolution, ctx, effective) \<Rightarrow>
          (let permitted =
                 (if pget resolution ''decision'' = PStr DECISION_PROHIBITED then False else permitted);
               blocked = (case get_external_effect_contract tool_slug of
                   None \<Rightarrow> None
                 | Some c \<Rightarrow>
                     if blocks_autonomous_use c \<and>
                        pget resolution ''decision'' = PStr DECISION_AUTONOMOUS \<and>
                        \<not> truthy (pget ctx ''approval_granted'')
                     then Some (idempotency_block c resolution) else None);
               final = (case blocked of None \<Rightarrow> resolution | Some r \<Rightarrow> r);
               ctx' = (case blocked of
                   None \<Rightarrow> ctx | Some r \<Rightarrow> dset ''_policy_resolution'' (PDict r) ctx)
           in (\<lparr>az_permitted = permitted, az_decision = pget final ''decision'',
                az_resolution = final, az_provider = provider_name tool_slug,
                az_effective = effective\<rparr>, ctx')))"

section \<open>Execution\<close>

text \<open>
  \<open>ext provider slug params ctx\<close> is the result dictionary of a permitted provider call. A call
  is recorded as the provider and the slug.
\<close>

type_synonym external_call = "string \<times> string"
type_synonym external_services = "string \<Rightarrow> string \<Rightarrow> pyval dict \<Rightarrow> pyval dict \<Rightarrow> pyval dict"

definition merge_missing :: "pyval dict \<Rightarrow> pyval dict \<Rightarrow> pyval dict" where
  "merge_missing params ctx = params @ filter (\<lambda>kv. \<not> dhas params (fst kv)) ctx"

definition provider_execute ::
  "external_services \<Rightarrow> workforce_db \<Rightarrow> string \<Rightarrow> string \<Rightarrow> pyval dict \<Rightarrow> pyval dict \<Rightarrow>
   pyval dict \<times> external_call list" where
  "provider_execute ext db provider tool_slug params ctx =
     (if provider = ''connector'' then
        (let merged = merge_missing params ctx in
         if \<not> connector_validate db tool_slug merged
         then ([(''status'', PStr ''denied''),
                (''reason'', PStr ''connector_installation_not_authorized'')], [])
         else (ext provider tool_slug merged ctx, [(provider, tool_slug)]))
      else if provider = ''mcp'' \<or> provider = ''a2a'' then
        (case validate_permissions db provider tool_slug ctx of (ok, ctx') \<Rightarrow>
           if \<not> ok then
             ([(''status'', PStr ''denied''), (''provider'', PStr provider),
               (''tool_slug'', PStr tool_slug), (''policy'', pget ctx' ''_policy_resolution'')], [])
           else (ext provider tool_slug params ctx', [(provider, tool_slug)]))
      else
        (case native_validate (Some db) tool_slug ctx of (ok, ctx') \<Rightarrow>
           ([(''status'', PStr (if ok then ''delegated'' else ''denied'')),
             (''tool_slug'', PStr tool_slug), (''policy'', pget ctx' ''_policy_resolution'')], [])))"

definition effective_dict :: "effective_permissions \<Rightarrow> pyval dict" where
  "effective_dict ep =
     [(''effective_allow'', PList (map PStr (ep_allow ep))),
      (''effective_deny'', PList (map PStr (ep_deny ep))),
      (''requested_unavailable'', PList (map PStr (ep_unavailable ep))),
      (''by_tool'', PDict (map (\<lambda>(slug, tp). (slug,
          PDict [(''effect'', PStr (tp_effect tp)), (''sources'', PList (tp_sources tp))]))
        (ep_by_tool ep)))]"

definition authorization_dict :: "authorization \<Rightarrow> pyval dict" where
  "authorization_dict a =
     [(''permitted'', PBool (az_permitted a)), (''decision'', az_decision a),
      (''resolution'', PDict (az_resolution a)), (''provider'', PStr (az_provider a)),
      (''effective'', case az_effective a of None \<Rightarrow> PNone | Some ep \<Rightarrow> PDict (effective_dict ep))]"

text \<open>The three refusals that precede an execution, shared by the registry and the service.\<close>

definition refusal :: "authorization \<Rightarrow> pyval dict \<Rightarrow> pyval dict option" where
  "refusal auth ctx =
     (if \<not> az_permitted auth then
        Some (dmerge [(''status'', PStr ''denied''), (''reason'', PStr ''not_permitted'')]
                (authorization_dict auth))
      else if az_decision auth = PStr DECISION_PROHIBITED then
        Some (dmerge [(''status'', PStr ''denied''), (''reason'', PStr ''prohibited'')]
                (authorization_dict auth))
      else if az_decision auth = PStr DECISION_APPROVAL \<and> \<not> truthy (pget ctx ''approval_granted'') then
        Some (dmerge [(''status'', PStr ''approval_required'')] (authorization_dict auth))
      else None)"

definition registry_execute_tool ::
  "external_services \<Rightarrow> workforce_db \<Rightarrow> string option \<Rightarrow> string \<Rightarrow> string \<Rightarrow> pyval dict \<Rightarrow>
   pyval dict \<Rightarrow> pyval dict \<times> external_call list" where
  "registry_execute_tool ext db failure owner_id tool_slug params ctx =
     (case authorize_tool db failure owner_id tool_slug ctx of (auth, ctx') \<Rightarrow>
        (case refusal auth ctx' of
           Some d \<Rightarrow> (d, [])
         | None \<Rightarrow> provider_execute ext db (provider_for tool_slug) tool_slug params
                     (dset ''owner_id'' (PStr owner_id) ctx')))"

end
