(* ===== verification/Tool_Execution.thy ===== *)
theory Tool_Execution
  imports Tool_Registry
begin

text \<open>
  The unified tool executor of workflows and runs, \<open>workforce/services/tool_execution_service.py\<close>:
  authorize through the registry, then dispatch native tools of a project to the orchestration
  toolbox and everything else to the registry's provider, and normalise the result.

  The toolbox is the parameter \<open>toolbox\<close>: its result dictionary, or the message of the
  \<open>ToolExecutionError\<close> it raises. Every dispatch is recorded in the effect list under the
  provider name \<open>toolbox\<close>.
\<close>

definition NATIVE_EXECUTABLE :: "string list" where
  "NATIVE_EXECUTABLE =
     [''web_search'', ''web_fetch'', ''fs_read'', ''knowledge_search'', ''repo_search'',
      ''code_execute'', ''fs_write'', ''db_query'', ''github_comment'', ''github_label_issue'',
      ''github_create_pr'', ''invoke_specialist'']"

type_synonym toolbox = "string \<Rightarrow> pyval dict \<Rightarrow> pyval dict \<Rightarrow> (string, pyval) result"

section \<open>Normalisation\<close>

definition drop_keys :: "string list \<Rightarrow> pyval dict \<Rightarrow> pyval dict" where
  "drop_keys ks d = filter (\<lambda>kv. fst kv \<notin> set ks) d"

definition normalize_result :: "string \<Rightarrow> pyval dict \<Rightarrow> pyval dict" where
  "normalize_result tool_slug raw =
     (let status = str_or (pget raw ''status'') ''succeeded'';
          status = (if status = ''delegated'' \<and> pget raw ''output'' = PNone
                    then (if \<not> dhas raw ''error'' then ''succeeded'' else ''failed'') else status);
          output = pget raw ''output'';
          output = (if output = PNone \<and> status = ''succeeded''
                    then PDict (drop_keys [''status'', ''tool_slug'', ''evidence''] raw) else output);
          evidence = pget raw ''evidence'';
          evidence = (if evidence = PNone \<and> is_dict output
                      then pget (dict_or_empty output) ''evidence'' else evidence)
      in [(''status'', PStr status), (''tool_slug'', PStr tool_slug), (''output'', output),
          (''evidence'', evidence)] @
         drop_keys [''status'', ''tool_slug'', ''output'', ''evidence''] raw)"

section \<open>Dispatch\<close>

definition execute_via_toolbox ::
  "toolbox \<Rightarrow> (string \<Rightarrow> bool) \<Rightarrow> string \<Rightarrow> pyval dict \<Rightarrow> pyval dict \<Rightarrow>
   pyval dict \<times> external_call list" where
  "execute_via_toolbox toolbox project_exists tool_slug params ctx =
     (if \<not> project_exists (str_or (pget ctx ''project_id'') []) then
        ([(''status'', PStr ''failed''),
          (''error'', PStr ''project not found for tool execution'')], [])
      else
        (case toolbox tool_slug params ctx of
           Inr out \<Rightarrow> [(''status'', PStr ''succeeded''), (''output'', out)]
         | Inl message \<Rightarrow>
             [(''status'', PStr (if starts_with ''APPROVAL_REQUIRED'' message
                                 then ''approval_required'' else ''failed'')),
              (''error'', PStr message)],
         [(''toolbox'', tool_slug)]))"

definition runs_in_toolbox :: "string \<Rightarrow> pyval dict \<Rightarrow> bool" where
  "runs_in_toolbox tool_slug ctx \<longleftrightarrow>
     truthy (pget ctx ''project_id'') \<and>
     (tool_slug \<in> set NATIVE_EXECUTABLE \<or>
      starts_with_any [''github_'', ''mcp.'', ''a2a.''] tool_slug)"

definition auth_context :: "pyval dict \<Rightarrow> pyval dict \<Rightarrow> pyval dict" where
  "auth_context params ctx =
     (if truthy (pget params ''connector_installation_id'')
      then dset ''connector_installation_id'' (pget params ''connector_installation_id'') ctx
      else ctx)"

definition execute_tool ::
  "external_services \<Rightarrow> toolbox \<Rightarrow> (string \<Rightarrow> bool) \<Rightarrow> workforce_db \<Rightarrow> string option \<Rightarrow> string \<Rightarrow>
   string \<Rightarrow> pyval dict \<Rightarrow> pyval dict \<Rightarrow> pyval dict \<times> external_call list" where
  "execute_tool ext toolbox project_exists db failure owner_id tool_slug params ctx =
     (case authorize_tool db failure owner_id tool_slug (auth_context params ctx) of
        (auth, actx) \<Rightarrow>
          (case refusal auth ctx of
             Some d \<Rightarrow> (normalize_result tool_slug d, [])
           | None \<Rightarrow>
               (case (if runs_in_toolbox tool_slug ctx
                      then execute_via_toolbox toolbox project_exists tool_slug params ctx
                      else registry_execute_tool ext db failure owner_id tool_slug params actx)
                of (raw, calls) \<Rightarrow> (normalize_result tool_slug raw, calls))))"

section \<open>Facts\<close>

text \<open>What \<open>refusal\<close> lets through.\<close>

lemma refusal_None:
  "refusal auth ctx = None \<longleftrightarrow>
     az_permitted auth \<and> az_decision auth \<noteq> PStr DECISION_PROHIBITED \<and>
     (az_decision auth = PStr DECISION_APPROVAL \<longrightarrow> truthy (pget ctx ''approval_granted''))"
  by (simp add: refusal_def)

lemma pget_dmerge_hd: "pget (dmerge d ((k, v) # e)) j = pget (dmerge (dset k v d) e) j"
  by (simp add: dmerge_def)

lemma idempotency_block_decision [simp]:
  "pget (idempotency_block c r) ''decision'' = PStr DECISION_APPROVAL"
  by (simp add: idempotency_block_def dmerge_def)

lemma effective_stage_ctx:
  "effective_stage db failure owner slug ctx r p = (p', r', ctx', e) \<Longrightarrow>
     pget ctx' ''approval_granted'' = pget ctx ''approval_granted'' \<and>
     (pget r' ''decision'' = pget r ''decision'' \<or>
      pget r' ''decision'' = PStr DECISION_PROHIBITED)"
  by (auto simp: effective_stage_def dmerge_def Let_def split: if_splits option.splits)

lemma authorize_ctx:
  "authorize_tool db failure owner slug ctx = (auth, ctx') \<Longrightarrow>
     pget ctx' ''approval_granted'' = pget ctx ''approval_granted''"
  by (auto simp: authorize_tool_def Let_def dest!: effective_stage_ctx
      split: prod.splits option.splits if_splits)

lemma authorize_not_prohibited:
  assumes "authorize_tool db failure owner slug ctx = (auth, ctx')" "az_permitted auth"
  shows "az_decision auth \<noteq> PStr DECISION_PROHIBITED"
  using assms by (auto simp: authorize_tool_def Let_def guard_defs idempotency_block_def dmerge_def
      split: prod.splits option.splits if_splits)

text \<open>
  The decision an authorization reports: never autonomous when the contract bars it and no
  approval was granted.
\<close>

lemma authorize_blocks:
  assumes "authorize_tool db failure owner slug ctx = (auth, ctx')"
    and "get_external_effect_contract slug = Some c" "blocks_autonomous_use c"
    and "\<not> truthy (pget ctx ''approval_granted'')"
  shows "az_decision auth \<noteq> PStr DECISION_AUTONOMOUS"
proof -
  let ?stored = "pget ctx ''_policy_resolution''"
  define r where "r = (if truthy ?stored then dict_or_empty ?stored
                       else resolve_policy db owner slug ctx (Some slug))"
  define p where "p = fst (validate_permissions db (provider_for slug) slug
                             (dset ''owner_id'' (PStr owner) ctx))"
  obtain p' r' ctx1 e where st: "effective_stage db failure owner slug ctx r p = (p', r', ctx1, e)"
    by (cases "effective_stage db failure owner slug ctx r p") auto
  have "\<not> truthy (pget ctx1 ''approval_granted'')"
    using effective_stage_ctx [OF st] assms(4) by simp
  then show ?thesis
    using assms(1) st unfolding authorize_tool_def Let_def r_def [symmetric] p_def [symmetric]
    by (auto simp: assms(2,3) guard_defs split: if_splits)
qed

text \<open>The decision comes from the resolution in force, or is one of the three the code assigns.\<close>

lemma authorize_decision_source:
  assumes "authorize_tool db failure owner slug ctx = (auth, ctx')"
    and "\<not> truthy (pget ctx ''_policy_resolution'')"
  shows "az_decision auth \<in> {pget (resolve_policy db owner slug ctx (Some slug)) ''decision'',
           PStr DECISION_PROHIBITED, PStr DECISION_APPROVAL}"
proof -
  define r where "r = resolve_policy db owner slug ctx (Some slug)"
  define p where "p = fst (validate_permissions db (provider_for slug) slug
                             (dset ''owner_id'' (PStr owner) ctx))"
  obtain p' r' ctx1 e where st: "effective_stage db failure owner slug ctx r p = (p', r', ctx1, e)"
    by (cases "effective_stage db failure owner slug ctx r p") auto
  show ?thesis
    using assms(1) st effective_stage_ctx [OF st]
    unfolding authorize_tool_def Let_def r_def [symmetric] p_def [symmetric]
    by (auto simp: assms(2) r_def [symmetric] split: option.splits if_splits)
qed

text \<open>An effect of the registry or the service implies that nothing was refused.\<close>

lemma registry_calls:
  assumes "snd (registry_execute_tool ext db failure owner slug params ctx) \<noteq> []"
  obtains auth ctx' where "authorize_tool db failure owner slug ctx = (auth, ctx')"
    "refusal auth ctx' = None"
  using assms by (auto simp: registry_execute_tool_def split: prod.splits option.splits)

lemma execute_calls:
  assumes "snd (execute_tool ext toolbox pe db failure owner slug params ctx) \<noteq> []"
  obtains auth ctx' where
    "authorize_tool db failure owner slug (auth_context params ctx) = (auth, ctx')"
    "refusal auth ctx = None"
  using assms by (auto simp: execute_tool_def split: prod.splits option.splits)

lemma auth_context_other [simp]:
  "k \<noteq> ''connector_installation_id'' \<Longrightarrow> pget (auth_context params ctx) k = pget ctx k"
  by (simp add: auth_context_def)

text \<open>With canonical policies the resolver only answers with the three decisions.\<close>

lemma resolution_valid:
  assumes "\<And>p. p \<in> set (db_policies db) \<Longrightarrow> canonical_policy p"
  shows "resolution_decision (resolve_policy db owner key ctx slug) \<in> set VALID_DECISIONS"
proof -
  define ps where "ps = list_applicable_policies db owner key ctx"
  have canon: "canonical_policy p" if "p \<in> set (ordered_policies ps)" for p
    using ordered_policies_sub [OF that] assms
    by (auto simp: ps_def list_applicable_policies_def policies_for_key_def)
  have "resolution_decision (resolve_decision_from_policies ps (tool_default_decision t))
          \<in> set VALID_DECISIONS" for t
  proof (cases "ordered_policies ps")
    case Nil
    then show ?thesis
      by (simp add: resolve_decision_cases tool_default_decision_def VALID_DECISIONS_def
          split: option.split)
  next
    case (Cons p qs)
    then have "ap_decision p \<in> set VALID_DECISIONS" using canon by (simp add: canonical_policy_def)
    then show ?thesis using Cons by (auto simp: resolve_decision_cases VALID_DECISIONS_def)
  qed
  then show ?thesis by (simp add: resolve_policy_decision ps_def)
qed

lemma resolution_decision_pget:
  "pget (resolve_policy db owner key ctx slug) ''decision'' =
     PStr (resolution_decision (resolve_policy db owner key ctx slug))"
proof -
  have "\<exists>d. pget (resolve_decision_from_policies ps t) ''decision'' = PStr d" for ps t
    by (cases "ordered_policies ps")
      (simp_all add: resolve_decision_from_policies_def Let_def resolution_dict_def pget_def)
  then have "\<exists>d. pget (resolve_policy db owner key ctx slug) ''decision'' = PStr d"
    unfolding resolve_policy_def Let_def by (simp split: option.split)
  then show ?thesis by (auto simp: resolution_decision_def)
qed

end
