(* ===== verification/Governed_Execution.thy ===== *)
theory Governed_Execution
  imports Tool_Execution
begin

text \<open>
  The properties of the governed execution pipeline: what must hold before a tool call can
  leave the process, how a prohibition and a missing approval stop it, which slugs reach which
  provider, and the provider contract as a locale with the five providers as its instances.
\<close>

section \<open>The provider contract\<close>

text \<open>
  What the registry relies on in a provider's permission check: it refuses without an owner and
  changes nothing of the context but the stored resolution.
\<close>

locale permission_check =
  fixes check :: "pyval dict \<Rightarrow> bool \<times> pyval dict"
  assumes check_owner: "fst (check ctx) \<Longrightarrow> truthy (pget ctx ''owner_id'')"
    and check_frame: "k \<noteq> ''_policy_resolution'' \<Longrightarrow> pget (snd (check ctx)) k = pget ctx k"
begin

lemma no_owner: "\<not> truthy (pget ctx ''owner_id'') \<Longrightarrow> \<not> fst (check ctx)"
  using check_owner by blast

lemma approval_kept: "pget (snd (check ctx)) ''approval_granted'' = pget ctx ''approval_granted''"
  by (rule check_frame) simp

end

text \<open>A check that consults the policy: it also refuses a prohibited action.\<close>

locale policy_check = permission_check check
  for check :: "pyval dict \<Rightarrow> bool \<times> pyval dict" +
  fixes resolve :: "pyval dict \<Rightarrow> pyval dict"
  assumes check_policy: "fst (check ctx) \<Longrightarrow>
      pget (resolve ctx) ''decision'' \<noteq> PStr DECISION_PROHIBITED \<and>
      (pget (resolve ctx) ''decision'' = PStr DECISION_APPROVAL \<longrightarrow>
         truthy (pget ctx ''approval_granted''))"
begin

lemma needs_approval:
  "pget (resolve ctx) ''decision'' = PStr DECISION_APPROVAL \<Longrightarrow>
     \<not> truthy (pget ctx ''approval_granted'') \<Longrightarrow> \<not> fst (check ctx)"
  using check_policy by blast

end

definition owner_resolution :: "workforce_db \<Rightarrow> string \<Rightarrow> pyval dict \<Rightarrow> pyval dict" where
  "owner_resolution db slug ctx =
     resolve_policy db (py_str (pget ctx ''owner_id'')) slug ctx (Some slug)"

lemma native_check:
  "policy_check (native_validate (Some db) slug) (owner_resolution db slug)"
proof
  fix ctx k
  show "fst (native_validate (Some db) slug ctx) \<Longrightarrow> truthy (pget ctx ''owner_id'')"
    by (auto simp: native_validate_def Let_def split: if_splits)
  show "k \<noteq> ''_policy_resolution'' \<Longrightarrow> pget (snd (native_validate (Some db) slug ctx)) k = pget ctx k"
    by (auto simp: native_validate_def Let_def split: prod.splits)
  show "fst (native_validate (Some db) slug ctx) \<Longrightarrow>
     pget (owner_resolution db slug ctx) ''decision'' \<noteq> PStr DECISION_PROHIBITED \<and>
     (pget (owner_resolution db slug ctx) ''decision'' = PStr DECISION_APPROVAL \<longrightarrow>
        truthy (pget ctx ''approval_granted''))"
    using may_execute_fst [of db "py_str (pget ctx ''owner_id'')" slug ctx]
    by (auto simp: native_validate_def owner_resolution_def Let_def resolution_decision_def
        may_execute_snd [symmetric] simp del: may_execute_snd split: if_splits prod.splits)
qed

interpretation native: policy_check "native_validate (Some db) slug" "owner_resolution db slug"
  for db slug by (rule native_check)

interpretation github: policy_check "github_validate (Some db) slug" "owner_resolution db slug"
  for db slug
  by unfold_locales
    (use native.check_owner native.check_frame native.check_policy in
      \<open>auto simp: github_validate_def split: if_splits\<close>)

interpretation mcp: policy_check "mcp_validate (Some db) slug" "owner_resolution db slug"
  for db slug
  by unfold_locales
    (use native.check_owner native.check_frame native.check_policy in
      \<open>auto simp: mcp_validate_def split: if_splits\<close>)

interpretation a2a: policy_check "a2a_validate (Some db) slug" "owner_resolution db slug"
  for db slug
  by unfold_locales
    (use native.check_owner native.check_frame native.check_policy in
      \<open>auto simp: a2a_validate_def split: if_splits\<close>)

lemma str_or_empty_truthy: "str_or v [] \<noteq> [] \<Longrightarrow> truthy v"
  by (auto simp: str_or_def split: if_splits)

interpretation connector: permission_check "\<lambda>ctx. (connector_validate db slug ctx, ctx)"
  for db slug
  by unfold_locales (auto simp: connector_validate_def Let_def intro: str_or_empty_truthy)

lemma validate_no_owner:
  "\<not> truthy (pget ctx ''owner_id'') \<Longrightarrow> \<not> fst (validate_permissions db provider slug ctx)"
  using native.no_owner github.no_owner mcp.no_owner a2a.no_owner connector.no_owner
  unfolding validate_permissions_def by simp

section \<open>What an effect presupposes\<close>

lemma execute_calls_decision:
  assumes "snd (execute_tool ext toolbox pe db failure owner slug params ctx) \<noteq> []"
    and "\<not> truthy (pget ctx ''_policy_resolution'')"
  obtains auth where "az_permitted auth" "refusal auth ctx = None"
    "az_decision auth \<in> {pget (resolve_policy db owner slug (auth_context params ctx) (Some slug))
        ''decision'', PStr DECISION_PROHIBITED, PStr DECISION_APPROVAL}"
    "\<And>c. get_external_effect_contract slug = Some c \<Longrightarrow> blocks_autonomous_use c \<Longrightarrow>
       \<not> truthy (pget ctx ''approval_granted'') \<Longrightarrow> az_decision auth \<noteq> PStr DECISION_AUTONOMOUS"
proof -
  obtain auth ctx' where a: "authorize_tool db failure owner slug (auth_context params ctx) = (auth, ctx')"
    "refusal auth ctx = None"
    using assms(1) by (rule execute_calls)
  show thesis
  proof (rule that [OF _ a(2)])
    show "az_permitted auth" using a(2) by (simp add: refusal_None)
    show "az_decision auth \<in> {pget (resolve_policy db owner slug (auth_context params ctx) (Some slug))
        ''decision'', PStr DECISION_PROHIBITED, PStr DECISION_APPROVAL}"
      using authorize_decision_source [OF a(1)] assms(2) by simp
    show "az_decision auth \<noteq> PStr DECISION_AUTONOMOUS"
      if "get_external_effect_contract slug = Some c" "blocks_autonomous_use c"
        "\<not> truthy (pget ctx ''approval_granted'')" for c
      using authorize_blocks [OF a(1) that(1,2)] that(3) by simp
  qed
qed

text \<open>
  No external effect without approval for a non-durable mutation. When every stored policy
  is spelled canonically and the caller supplies no stored resolution, a tool whose contract
  mutates without a durable idempotency claim only ever reaches a provider or the toolbox in a
  context that carries an approval.
\<close>

theorem nondurable_effect_needs_approval:
  assumes "\<And>p. p \<in> set (db_policies db) \<Longrightarrow> canonical_policy p"
    and "\<not> truthy (pget ctx ''_policy_resolution'')"
    and "get_external_effect_contract slug = Some c" "blocks_autonomous_use c"
    and "snd (execute_tool ext toolbox pe db failure owner slug params ctx) \<noteq> []"
  shows "truthy (pget ctx ''approval_granted'')"
proof (rule ccontr)
  assume no: "\<not> truthy (pget ctx ''approval_granted'')"
  obtain auth where auth: "refusal auth ctx = None"
    "az_decision auth \<in> {pget (resolve_policy db owner slug (auth_context params ctx) (Some slug))
        ''decision'', PStr DECISION_PROHIBITED, PStr DECISION_APPROVAL}"
    "az_decision auth \<noteq> PStr DECISION_AUTONOMOUS"
    using execute_calls_decision [OF assms(5,2)] assms(3,4) no by metis
  have "resolution_decision (resolve_policy db owner slug (auth_context params ctx) (Some slug))
          \<in> set VALID_DECISIONS"
    using assms(1) by (rule resolution_valid)
  with auth(2,3) have "az_decision auth \<in> {PStr DECISION_PROHIBITED, PStr DECISION_APPROVAL}"
    by (auto simp: resolution_decision_pget VALID_DECISIONS_def)
  with auth(1) no show False by (auto simp: refusal_None)
qed

definition demo_tool :: "string \<Rightarrow> bool \<Rightarrow> tool_definition" where
  "demo_tool slug approval =
     \<lparr>tl_id = ''t1'', tl_slug = slug, tl_name = slug, tl_description = [],
      tl_provider_type = ''native'', tl_schema_json = PNone, tl_risk_level = ''medium'',
      tl_requires_approval = approval, tl_side_effect = ''read'', tl_reversibility = ''none'',
      tl_data_sensitivity = ''internal'', tl_parallel_safe = False,
      tl_idempotency_strategy = ''none'', tl_commit_check_strategy = ''none'',
      tl_is_active = True, tl_metadata_json = []\<rparr>"

definition demo_policy :: "string \<Rightarrow> string \<Rightarrow> string \<Rightarrow> action_policy" where
  "demo_policy scope key decision =
     \<lparr>ap_id = ''p1'', ap_owner_id = ''u1'', ap_scope_type = scope, ap_scope_id = None,
      ap_action_key = key, ap_decision = decision, ap_risk_level = ''medium''\<rparr>"

definition demo_db :: "string \<Rightarrow> action_policy list \<Rightarrow> workforce_db" where
  "demo_db slug ps =
     \<lparr>db_tools = [demo_tool slug False], db_policies = ps, db_grants = [],
      db_installations = [\<lparr>ci_id = ''i1'', ci_owner_id = ''u1'', ci_company_id = None,
                           ci_status = ''active''\<rparr>]\<rparr>"

definition demo_ctx :: "bool \<Rightarrow> pyval dict" where
  "demo_ctx approved =
     [(''connector_installation_id'', PStr ''i1''), (''approval_granted'', PBool approved)]"

definition demo_ext :: external_services where
  "demo_ext provider slug params ctx = [(''status'', PStr ''succeeded'')]"

definition demo_toolbox :: toolbox where
  "demo_toolbox slug params ctx = Inr (PDict [])"

lemmas demo_defs = demo_tool_def demo_policy_def demo_db_def demo_ctx_def demo_ext_def
  demo_toolbox_def

lemmas demo_eval =
  Let_def demo_defs execute_tool_def authorize_tool_def registry_execute_tool_def provider_execute_def
  refusal_def effective_stage_def validate_permissions_def provider_for_def connector_validate_def
  CONNECTOR_PREFIXES_def starts_with_any_def starts_with_def auth_context_def merge_missing_def
  dhas_def resolve_policy_def list_applicable_policies_def policies_for_key_def ordered_policies_def
  resolve_decision_from_policies_def resolution_dict_def tool_default_decision_def
  get_tool_definition_def runs_in_toolbox_def str_or_def opt_str_def pget_def guard_defs
  List.map_filter_def idempotency_block_def dmerge_def blocks_autonomous_use_def

lemma telegram_send_contract:
  obtains c where "get_external_effect_contract ''telegram.send_message'' = Some c"
    "ec_side_effect c = SE_EXTERNAL_MUTATING" "ec_idempotency_strategy c = IS_NONE"
proof -
  obtain c where "(''telegram.send_message'', c) \<in> set telegram_contracts"
    "ec_side_effect c = SE_EXTERNAL_MUTATING" "ec_idempotency_strategy c = IS_NONE"
    by (simp add: telegram_contracts_def)
  then show thesis using that contract_of_entry [of "''telegram.send_message''" c]
    by (simp add: EXTERNAL_EFFECT_CONTRACTS_def py_strip_def is_space_def)
qed

theorem nondurable_effect_needs_approval_witness:
  "snd (execute_tool demo_ext demo_toolbox (\<lambda>_. True) (demo_db ''telegram.send_message'' [])
      None ''u1'' ''telegram.send_message'' [] (demo_ctx True)) = [(''connector'', ''telegram.send_message'')]
   \<and> truthy (pget (demo_ctx True) ''approval_granted'')"
proof -
  obtain c where c: "get_external_effect_contract ''telegram.send_message'' = Some c"
    "ec_side_effect c = SE_EXTERNAL_MUTATING" "ec_idempotency_strategy c = IS_NONE"
    by (rule telegram_send_contract)
  have "snd (execute_tool demo_ext demo_toolbox (\<lambda>_. True) (demo_db ''telegram.send_message'' [])
      None ''u1'' ''telegram.send_message'' [] (demo_ctx True)) = [(''connector'', ''telegram.send_message'')]"
    by (simp add: demo_eval c)
  with c show ?thesis
    using nondurable_effect_needs_approval [of "demo_db ''telegram.send_message'' []" "demo_ctx True"
      "''telegram.send_message''" c demo_ext demo_toolbox "\<lambda>_. True" None "''u1''" "[]"]
    by (simp add: demo_db_def demo_ctx_def pget_def blocks_autonomous_use_def)
qed

section \<open>Prohibitions\<close>

lemma prohibited_resolution:
  assumes "p \<in> set (list_applicable_policies db owner slug ctx)" "canonical_policy p"
    and "ap_decision p = DECISION_PROHIBITED"
    and "\<And>q. q \<in> set (list_applicable_policies db owner slug ctx) \<Longrightarrow>
           policy_scope q = policy_scope p \<Longrightarrow> q = p"
  shows "pget (resolve_policy db owner slug ctx ts) ''decision'' = PStr DECISION_PROHIBITED"
proof -
  let ?ps = "list_applicable_policies db owner slug ctx"
  let ?ok = "\<lambda>q. policy_scope q = policy_scope p \<and> policy_decision q \<in> set VALID_DECISIONS"
  have p: "?ok p" "policy_scope p \<in> set POLICY_SCOPE_ORDER"
    using assms(2) canonical_policy_read [OF assms(2)] by (simp_all add: canonical_policy_def)
  then obtain q where q: "find ?ok ?ps = Some q"
    using assms(1) by (cases "find ?ok ?ps") (auto simp: find_None_iff)
  then have "q = p" using assms(4) by (auto simp: find_Some_iff)
  with q p(2) have mem: "p \<in> set (ordered_policies ?ps)" by (auto simp: ordered_policies_mem)
  then have "resolution_decision (resolve_decision_from_policies ?ps d) = DECISION_PROHIBITED" for d
    using assms(3) by (cases "ordered_policies ?ps") (auto simp: resolve_decision_cases)
  then show ?thesis by (simp add: resolution_decision_pget resolve_policy_decision)
qed

lemma prohibited_not_permitted:
  assumes "authorize_tool db failure owner slug ctx = (auth, ctx')"
    and "\<not> truthy (pget ctx ''_policy_resolution'')"
    and "pget (resolve_policy db owner slug ctx (Some slug)) ''decision'' = PStr DECISION_PROHIBITED"
  shows "\<not> az_permitted auth"
proof -
  define r where "r = resolve_policy db owner slug ctx (Some slug)"
  define p where "p = fst (validate_permissions db (provider_for slug) slug
                             (dset ''owner_id'' (PStr owner) ctx))"
  obtain p' r' ctx1 e where st: "effective_stage db failure owner slug ctx r p = (p', r', ctx1, e)"
    by (cases "effective_stage db failure owner slug ctx r p") auto
  then show ?thesis
    using assms(1,3) effective_stage_ctx [OF st]
    unfolding authorize_tool_def Let_def r_def [symmetric] p_def [symmetric]
    by (auto simp: assms(2) r_def [symmetric])
qed

lemma normalize_status:
  "pget raw ''status'' = PStr st \<Longrightarrow> st \<noteq> [] \<Longrightarrow> st \<noteq> ''delegated'' \<Longrightarrow>
     pget (normalize_result slug raw) ''status'' = PStr st"
  by (simp add: normalize_result_def Let_def str_or_def pget_def)



text \<open>
  The resolver's dictionary walk is a declarative choice: for each scope, from the most
  specific to the least, the first stored policy of that scope whose normalised decision is valid.
\<close>

theorem resolver_order:
  "ordered_policies ps =
     List.map_filter (\<lambda>s. find (\<lambda>p. policy_scope p = s \<and> policy_decision p \<in> set VALID_DECISIONS) ps)
       POLICY_SCOPE_ORDER"
  by (simp add: ordered_policies_def List.map_filter_def by_scope_first cong: filter_cong map_cong)

text \<open>
  A prohibition spelled with other capitals or surrounding blanks passes the validity test of
  the resolver and is then not recognised: as the only applicable policy it makes \<open>may_execute\<close>
  allow the call without an approval.
\<close>

theorem noncanonical_prohibition_allows:
  assumes "list_applicable_policies db owner slug ctx = [p]"
    and "policy_scope p \<in> set POLICY_SCOPE_ORDER"
    and "policy_decision p = DECISION_PROHIBITED"
    and "ap_decision p \<noteq> DECISION_PROHIBITED" "ap_decision p \<noteq> DECISION_APPROVAL"
  shows "fst (may_execute db owner slug ctx)"
proof -
  have "policy_decision p \<in> set VALID_DECISIONS" using assms(3) by (simp add: VALID_DECISIONS_def)
  then have "p \<in> set (ordered_policies [p])" using assms(2) by (auto simp: ordered_policies_mem)
  moreover have only: "set (ordered_policies [p]) \<subseteq> {p}" using ordered_policies_sub by force
  ultimately obtain qs where "ordered_policies [p] = p # qs"
    by (cases "ordered_policies [p]") auto
  with only have "resolution_decision (resolve_decision_from_policies [p] d) = ap_decision p" for d
    using assms(4) by (auto simp: resolve_decision_cases)
  then show ?thesis
    using assms by (simp add: may_execute_fst resolve_policy_decision Let_def)
qed

theorem noncanonical_prohibition_allows_witness:
  "fst (may_execute (demo_db ''telegram.send_message''
       [demo_policy ''global'' ''telegram.send_message'' ''Prohibited''])
     ''u1'' ''telegram.send_message'' [])"
proof -
  let ?p = "demo_policy ''global'' ''telegram.send_message'' ''Prohibited''"
  have "list_applicable_policies (demo_db ''telegram.send_message'' [?p]) ''u1'' ''telegram.send_message'' [] = [?p]"
    by (simp add: list_applicable_policies_def policies_for_key_def demo_defs policy_wanted_def
        scope_filters_def Let_def scope_filter_step_def POLICY_SCOPE_ORDER_def)
  moreover have "policy_scope ?p \<in> set POLICY_SCOPE_ORDER" by code_simp
  moreover have "policy_decision ?p = DECISION_PROHIBITED" by code_simp
  ultimately show ?thesis
    by (rule noncanonical_prohibition_allows) (simp_all add: demo_defs guard_defs)
qed

section \<open>Routing\<close>

definition UNROUTED_PREFIXES :: "string list" where
  "UNROUTED_PREFIXES =
     [''jira.'', ''linear.'', ''hubspot.'', ''salesforce.'', ''google_drive.'', ''microsoft_drive.'']"

lemma native_no_calls:
  "provider_for slug = ''native'' \<Longrightarrow>
     snd (registry_execute_tool ext db failure owner slug params ctx) = []"
  by (auto simp: registry_execute_tool_def provider_execute_def split: prod.splits option.splits)

lemma unrouted_provider:
  assumes "starts_with_any UNROUTED_PREFIXES slug"
  shows "provider_for slug = ''native'' \<and> \<not> runs_in_toolbox slug ctx"
proof -
  obtain p r where p: "p \<in> set UNROUTED_PREFIXES" and slug: "slug = p @ r"
    using assms by (auto simp: starts_with_any_def elim: starts_withE)
  from p show ?thesis
    unfolding UNROUTED_PREFIXES_def list.set slug
    by (elim insertE emptyE)
      (simp_all add: provider_for_def runs_in_toolbox_def starts_with_any_def starts_with_def
        CONNECTOR_PREFIXES_def NATIVE_EXECUTABLE_def)
qed

text \<open>
  The tools of Jira, Linear, HubSpot, Salesforce and the two drives are not among the
  connector prefixes of \<open>provider_for\<close>: the registry hands them to the native provider, so an
  execution through the service never calls their adapter, and an approved one still reports
  success.
\<close>

theorem connector_tools_unrouted:
  assumes "starts_with_any UNROUTED_PREFIXES slug"
  shows "provider_for slug = ''native'' \<and>
         snd (execute_tool ext toolbox pe db failure owner slug params ctx) = []"
  using unrouted_provider [OF assms] native_no_calls
  by (simp add: execute_tool_def split_beta split: option.split)

theorem connector_tools_unrouted_witness:
  "provider_for ''jira.create_issue'' = ''native'' \<and>
   snd (execute_tool demo_ext demo_toolbox (\<lambda>_. True) (demo_db ''jira.create_issue'' []) None ''u1''
     ''jira.create_issue'' [] (demo_ctx True)) = []"
  using connector_tools_unrouted [of "''jira.create_issue''"]
  by (simp add: starts_with_any_def UNROUTED_PREFIXES_def starts_with_def)

end
