(* ===== verification/Governance_Properties.thy ===== *)
theory Governance_Properties
  imports Governed_Execution
begin

text \<open>
  Properties of the permission resolver, of the catalog and its contracts, and of the approval
  and risk queries.
\<close>

section \<open>Grants\<close>

text \<open>
  A tool the permission resolver lists as executable has, among the grants inherited by the
  context and attached to that tool, an allow and no deny; it is declared when tools are declared.
\<close>

theorem executable_needs_grant:
  assumes "slug \<in> set (ep_allow (resolve_effective_tool_permissions db owner pc slugs declared))"
  defines "gs \<equiv> filter (\<lambda>g. slug_by_id db (all_grants db pc) (stripped_nonempty slugs)
                              (tg_tool_definition_id g) = Some slug) (all_grants db pc)"
  shows "(\<exists>g \<in> set gs. py_lower (tg_effect g) = ''allow'') \<and>
         (\<forall>g \<in> set gs. py_lower (tg_effect g) \<noteq> ''deny'') \<and>
         (stripped_nonempty declared \<noteq> [] \<longrightarrow> slug \<in> set (stripped_nonempty declared))"
proof -
  have "tp_effect (tool_permission_for db owner pc (stripped_nonempty declared) gs slug)
          \<in> {''allow'', ''approval_required''}"
    using assms(1) unfolding gs_def by (auto simp: resolve_effective_tool_permissions_def Let_def)
  from tool_permission_executable [OF this] show ?thesis by blast
qed

definition demo_grant :: "string \<Rightarrow> tool_grant" where
  "demo_grant effect = \<lparr>tg_id = ''g1'', tg_tool_definition_id = ''t1'', tg_subject_type = ''agent'',
     tg_subject_id = ''a1'', tg_effect = effect\<rparr>"

definition demo_perm :: perm_context where
  "demo_perm = \<lparr>pc_agent_id = PStr ''a1'', pc_project_id = PNone, pc_company_id = PNone,
     pc_department_id = PNone, pc_skill_ids = []\<rparr>"

definition grant_db :: workforce_db where
  "grant_db = (demo_db ''web_search'' [])\<lparr>db_grants := [demo_grant ''Allow'']\<rparr>"

lemma grant_db_facts:
  "all_grants grant_db demo_perm = [demo_grant ''Allow'']"
  "slug_by_id grant_db [demo_grant ''Allow''] (stripped_nonempty [''web_search'']) ''t1'' =
     Some ''web_search''"
  "str_or (pget (resolve_policy grant_db ''u1'' ''web_search'' ctx (Some ''web_search'')) ''decision'')
     DECISION_APPROVAL = DECISION_AUTONOMOUS"
proof -
  show "all_grants grant_db demo_perm = [demo_grant ''Allow'']" by code_simp
  show "slug_by_id grant_db [demo_grant ''Allow''] (stripped_nonempty [''web_search'']) ''t1'' =
     Some ''web_search''" by code_simp
  have "list_applicable_policies grant_db ''u1'' ''web_search'' ctx = []"
    by (simp add: list_applicable_policies_def policies_for_key_def grant_db_def demo_db_def Let_def)
  moreover have "ordered_policies [] = []"
    by (auto simp: ordered_policies_def List.map_filter_def Let_def)
  moreover have "get_tool_definition grant_db ''web_search'' = Some (demo_tool ''web_search'' False)"
    by (simp add: get_tool_definition_def grant_db_def demo_db_def demo_tool_def)
  ultimately show "str_or (pget (resolve_policy grant_db ''u1'' ''web_search'' ctx (Some ''web_search''))
      ''decision'') DECISION_APPROVAL = DECISION_AUTONOMOUS"
    by (simp add: resolution_decision_pget resolve_policy_decision resolve_decision_cases
        tool_default_decision_def demo_tool_def str_or_def guard_defs)
qed

theorem executable_needs_grant_witness:
  "''web_search'' \<in> set (ep_allow (resolve_effective_tool_permissions grant_db ''u1'' demo_perm
       [''web_search''] [])) \<and>
   (\<exists>g \<in> set (filter (\<lambda>g. slug_by_id grant_db (all_grants grant_db demo_perm)
        (stripped_nonempty [''web_search'']) (tg_tool_definition_id g) = Some ''web_search'')
      (all_grants grant_db demo_perm)). py_lower (tg_effect g) = ''allow'')"
proof -
  have strip: "stripped_nonempty [''web_search''] = [''web_search'']" by code_simp
  have low: "py_lower ''Allow'' = ''allow''" by code_simp
  have "tp_effect (tool_permission_for grant_db ''u1'' demo_perm [] [demo_grant ''Allow''] ''web_search'')
          = ''allow''"
    by (simp add: tool_permission_for_def Let_def demo_grant_def low tool_effect_def
        grant_db_facts(3) [unfolded guard_defs] guard_defs)
  then have "''web_search'' \<in> set (ep_allow (resolve_effective_tool_permissions grant_db ''u1'' demo_perm
       [''web_search''] []))"
    using grant_db_facts(2)
    by (simp add: resolve_effective_tool_permissions_def Let_def grant_db_facts(1) strip py_unique_def
        demo_grant_def) (simp add: stripped_nonempty_def)
  from executable_needs_grant [OF this] this show ?thesis by blast
qed

section \<open>The catalog\<close>

text \<open>
  The two start-up assertions over the built-in data never raise: every catalog slug has a
  contract and a mutating one has its own entry, and every catalog slug has governance metadata.
\<close>

theorem catalog_assertions_hold:
  "uncovered_catalog_slugs = [] \<and> catalog_without_governance = []"
proof
  have "(case get_external_effect_contract s of None \<Rightarrow> True
      | Some c \<Rightarrow> ec_side_effect c \<noteq> SE_READ \<and> \<not> dhas EXTERNAL_EFFECT_CONTRACTS s) = False"
    if mem: "s \<in> set (map td_slug NATIVE_TOOL_CATALOG)" for s
  proof -
    obtain t where t: "t \<in> set NATIVE_TOOL_CATALOG" "s = td_slug t" using mem unfolding set_map by blast
    then obtain c where "get_external_effect_contract s = Some c"
      "(s, c) \<in> set EXTERNAL_EFFECT_CONTRACTS" by (metis catalog_contract)
    then show ?thesis by (force simp: dhas_def)
  qed
  then show "uncovered_catalog_slugs = []" by (simp add: uncovered_catalog_slugs_def filter_empty_conv)
  show "catalog_without_governance = []"
    using catalog_governance
    by (auto simp: catalog_without_governance_def native_tool_governance_rows_def filter_empty_conv)
qed

text \<open>
  A built-in tool that needs no approval by default either only reads or is barred from
  autonomous use by its contract; one with a durable claim always needs approval and is an
  external mutation.
\<close>

theorem catalog_default_safe:
  assumes "t \<in> set NATIVE_TOOL_CATALOG" "get_external_effect_contract (td_slug t) = Some c"
  shows "(td_requires_approval t \<or> ec_side_effect c = SE_READ \<or> is_autonomous_blocked (td_slug t)) \<and>
         (ec_idempotency_strategy c = IS_DURABLE_CLAIM \<longrightarrow>
            td_requires_approval t \<and> ec_side_effect c = SE_EXTERNAL_MUTATING)"
proof -
  have "row_ok t c" using catalog_contract [OF assms(1)] assms(2) by (metis option.inject)
  then show ?thesis by (auto simp: row_ok_def is_autonomous_blocked_def assms(2))
qed

theorem catalog_default_safe_witness:
  "\<exists>t c. t \<in> set NATIVE_TOOL_CATALOG \<and> td_slug t = ''telegram.send_message'' \<and>
     get_external_effect_contract (td_slug t) = Some c \<and>
     (td_requires_approval t \<or> ec_side_effect c = SE_READ \<or> is_autonomous_blocked (td_slug t))"
proof -
  obtain t where t: "t \<in> set NATIVE_TOOL_CATALOG" "td_slug t = ''telegram.send_message''"
  proof -
    have "\<exists>t \<in> set telegram_tools. td_slug t = ''telegram.send_message''"
      by (simp add: telegram_tools_def)
    moreover have "set telegram_tools \<subseteq> set NATIVE_TOOL_CATALOG"
      unfolding NATIVE_TOOL_CATALOG_def set_append by blast
    ultimately show thesis using that by blast
  qed
  obtain c where c: "get_external_effect_contract (td_slug t) = Some c"
    using telegram_send_contract t(2) by metis
  show ?thesis using t c catalog_default_safe [OF t(1) c] by blast
qed

text \<open>
  Fail closed. A slug that is neither in the catalog nor an abstract action key needs
  approval, is not low risk, and its effective decision is approval required; when it has no
  contract either, it counts as an external mutation.
\<close>

theorem unknown_tool_fails_closed:
  assumes "catalog_entry s = None" "abstract_policy_row (py_strip s) = None"
  shows "catalog_tool_requires_approval s \<and> \<not> is_low_risk_tool s \<and> is_governed_high_risk_tool s \<and>
         ed_decision (effective_tool_decision_from_catalog s) = DECISION_APPROVAL \<and>
         ed_requires_hitl_grant (effective_tool_decision_from_catalog s)"
proof (cases "py_strip s = []")
  case True
  have "abstract_policy_row [] = None" by code_simp
  moreover have "catalog_entry [] = None" using assms(1) catalog_entry_strip [of s] True by simp
  ultimately show ?thesis using assms True
    by (simp add: catalog_tool_requires_approval_def is_low_risk_tool_def is_governed_high_risk_tool_def
        effective_tool_decision_from_catalog_def decision_from_tool_record_def
        tool_requires_hitl_execution_grant_def Let_def)
next
  case False
  then show ?thesis using assms
    by (simp add: catalog_tool_requires_approval_def is_low_risk_tool_def is_governed_high_risk_tool_def
        effective_tool_decision_from_catalog_def decision_from_tool_record_def
        tool_requires_hitl_execution_grant_def Let_def)
qed

theorem unknown_tool_fails_closed_witness:
  "catalog_tool_requires_approval ''x'' \<and>
   ed_decision (effective_tool_decision_from_catalog ''x'') = DECISION_APPROVAL"
proof -
  have "catalog_entry ''x'' = None" by code_simp
  moreover have "py_strip ''x'' = ''x''" "abstract_policy_row ''x'' = None" by code_simp+
  ultimately show ?thesis using unknown_tool_fails_closed [of "''x''"] by simp
qed

text \<open>
  A low-risk tool is registered, needs no approval, only reads, and is not an ecosystem or
  GitHub tool; its contract does not bar autonomous use.
\<close>

theorem low_risk_reads_only:
  assumes "is_low_risk_tool s"
  shows "catalog_entry s \<noteq> None \<and> \<not> catalog_tool_requires_approval s \<and>
         \<not> is_external_mutating_tool s \<and> gv_side_effect (governance_for_action_key s) = SE_READ \<and>
         \<not> starts_with_any [''mcp.'', ''a2a.'', ''github_''] (py_strip s)"
  using assms by (auto simp: is_low_risk_tool_def is_external_mutating_tool_def Let_def split: if_splits)

theorem low_risk_reads_only_witness:
  "is_low_risk_tool ''gmail.get_message'' \<and> \<not> catalog_tool_requires_approval ''gmail.get_message''"
proof -
  have entry: "catalog_entry ''gmail.get_message'' \<noteq> None"
    "\<not> catalog_tool_requires_approval ''gmail.get_message''" by code_simp+
  obtain c where c: "(''gmail.get_message'', c) \<in> set gmail_contracts" "ec_side_effect c = SE_READ"
    by (simp add: gmail_contracts_def)
  have strip: "py_strip ''gmail.get_message'' = ''gmail.get_message''" by code_simp
  have "get_external_effect_contract ''gmail.get_message'' = Some c"
    using c(1) by (intro contract_of_entry) (simp_all add: EXTERNAL_EFFECT_CONTRACTS_def strip)
  with c(2) have "gv_side_effect (governance_for_action_key ''gmail.get_message'') = SE_READ"
    by (simp add: governance_for_action_key_def governance_from_inventory_def strip
        ABSTRACT_ACTION_GOVERNANCE_def Let_def)
  with entry have "is_low_risk_tool ''gmail.get_message''"
    by (simp add: is_low_risk_tool_def strip starts_with_any_def starts_with_def)
  then show ?thesis using low_risk_reads_only by blast
qed

text \<open>
  Governance metadata survives storage: reading back the dictionary form gives the same
  metadata, for all values of the six dimensions.
\<close>

theorem governance_dict_roundtrip:
  "governance_from_dict (governance_to_dict g) = Inr g"
  by (rule governance_roundtrip)

end
