(* ===== verification/Json_Hash.thy ===== *)
theory Json_Hash
  imports Prelude
begin

text \<open>
  \<open>arguments_hash\<close> of \<open>orchestration/tool_execution_context.py\<close>: the SHA-256 digest of the
  canonical JSON text of an argument dictionary, \<open>json.dumps\<close> with sorted keys, the compact
  separators and ASCII escapes. The digest is the parameter \<open>sha\<close>; the text is defined here, and
  the last section proves that it determines the arguments up to the order of dictionary keys.
\<close>

section \<open>JSON strings\<close>

definition json_char :: "char \<Rightarrow> string" where
  "json_char c =
     (let n = (of_char c :: nat) in
      if n = 34 \<or> n = 92 then [CHR 0x5C, c]
      else if n = 10 then [CHR 0x5C, CHR ''n'']
      else if n = 13 then [CHR 0x5C, CHR ''r'']
      else if n = 9 then [CHR 0x5C, CHR ''t'']
      else if n = 12 then [CHR 0x5C, CHR ''f'']
      else if n = 8 then [CHR 0x5C, CHR ''b'']
      else if n < 32 \<or> 126 < n
      then [CHR 0x5C, CHR ''u'', CHR ''0'', CHR ''0'', hex_digit (n div 16), hex_digit (n mod 16)]
      else [c])"

definition json_str :: "string \<Rightarrow> string" where
  "json_str s = CHR 0x22 # concat (map json_char s) @ [CHR 0x22]"

section \<open>JSON values\<close>

text \<open>Dictionary items are written in the order of their keys, at every level.\<close>

fun sort_keys :: "pyval \<Rightarrow> pyval" where
  "sort_keys (PList xs) = PList (map sort_keys xs)"
| "sort_keys (PDict d) = PDict (sort_key fst (map (\<lambda>(k, v). (k, sort_keys v)) d))"
| "sort_keys v = v"

fun json_text :: "pyval \<Rightarrow> string" where
  "json_text PNone = ''null''"
| "json_text (PBool b) = (if b then ''true'' else ''false'')"
| "json_text (PInt i) = str_of_int i"
| "json_text (PStr s) = json_str s"
| "json_text (PList xs) = ''['' @ py_join '','' (map json_text xs) @ '']''"
| "json_text (PDict d) =
     ''{'' @ py_join '','' (map (\<lambda>(k, v). json_str k @ '':'' @ json_text v) d) @ ''}''"

lemma sort_keys_PStr [simp]: "sort_keys v = PStr t \<longleftrightarrow> v = PStr t"
  by (cases v) auto

definition json_dumps :: "pyval \<Rightarrow> string" where
  "json_dumps v = json_text (sort_keys v)"

definition arguments_hash :: "(string \<Rightarrow> string) \<Rightarrow> pyval dict \<Rightarrow> string" where
  "arguments_hash sha arguments = sha (json_dumps (PDict arguments))"

section \<open>The text determines the value\<close>

text \<open>Reading back one escaped character.\<close>

definition hex_val :: "char \<Rightarrow> nat" where
  "hex_val c = (let n = (of_char c :: nat) in if n < 58 then n - 48 else n - 87)"

fun read_char :: "string \<Rightarrow> (char \<times> string) option" where
  "read_char [] = None"
| "read_char (c # s) =
     (if c = CHR 0x22 then None
      else if c \<noteq> CHR 0x5C then Some (c, s)
      else case s of
        [] \<Rightarrow> None
      | e # t \<Rightarrow>
          (if e = CHR ''n'' then Some (char_of (10::nat), t)
           else if e = CHR ''r'' then Some (char_of (13::nat), t)
           else if e = CHR ''t'' then Some (char_of (9::nat), t)
           else if e = CHR ''f'' then Some (char_of (12::nat), t)
           else if e = CHR ''b'' then Some (char_of (8::nat), t)
           else if e = CHR ''u'' then
             (case t of _ # _ # a # b # r \<Rightarrow> Some (char_of (16 * hex_val a + hex_val b), r)
              | _ \<Rightarrow> None)
           else Some (e, t)))"

lemma hex_val_digit: "n < 16 \<Longrightarrow> hex_val (hex_digit n) = n"
  by (auto simp: hex_val_def hex_digit_def Let_def of_char_of)

lemma of_char_eq: "(of_char c :: nat) = n \<Longrightarrow> c = char_of n"
  by (metis char_of_char)

lemma char_of_char_bound: "(of_char c :: nat) < 256"
  using of_char_of [where 'a = nat] by (metis char_of_char mod_less_divisor zero_less_numeral of_char_mod_256)

lemma read_json_char: "read_char (json_char c @ s) = Some (c, s)"
proof -
  define n where "n = (of_char c :: nat)"
  have c: "c = char_of n" by (simp add: n_def)
  have b: "n < 256" unfolding n_def by (rule char_of_char_bound)
  have hx: "hex_val (hex_digit (n div 16)) = n div 16" "hex_val (hex_digit (n mod 16)) = n mod 16"
    using b by (simp_all add: hex_val_digit)
  have q: "CHR 0x22 = char_of (34 :: nat)" "CHR 0x5C = char_of (92 :: nat)" by code_simp+
  have ne: "c = CHR 0x22 \<longleftrightarrow> n = 34" "c = CHR 0x5C \<longleftrightarrow> n = 92"
    unfolding n_def q by (auto simp: of_char_of dest: of_char_eq)
  consider "n = 34" | "n = 92" | "n = 10" | "n = 13" | "n = 9" | "n = 12" | "n = 8"
    | "n \<notin> {34, 92, 10, 13, 9, 12, 8}" "n < 32 \<or> 126 < n"
    | "n \<notin> {34, 92, 10, 13, 9, 12, 8}" "\<not> (n < 32 \<or> 126 < n)"
    by fastforce
  then show ?thesis
  proof cases
    case 1
    then have "c = CHR 0x22" using ne by simp
    then show ?thesis by (simp add: json_char_def)
  next
    case 2
    then have "c = CHR 0x5C" using ne by simp
    then show ?thesis by (simp add: json_char_def)
  next
    case 8
    then have "json_char c = [CHR 0x5C, CHR ''u'', CHR ''0'', CHR ''0'',
        hex_digit (n div 16), hex_digit (n mod 16)]"
      by (simp add: json_char_def n_def [symmetric] Let_def)
    then show ?thesis using hx by (simp add: c)
  next
    case 9
    then have "json_char c = [c]" by (simp add: json_char_def n_def [symmetric] Let_def)
    then show ?thesis using ne 9 by simp
  qed (simp_all add: json_char_def n_def [symmetric] Let_def, simp_all add: c)
qed

lemma json_char_hd: "json_char c @ s \<noteq> CHR 0x22 # t"
  using read_json_char [of c s] by auto

lemma json_str_inj: "json_str s @ x = json_str t @ y \<Longrightarrow> s = t \<and> x = y"
proof -
  have "concat (map json_char s) @ CHR 0x22 # x = concat (map json_char t) @ CHR 0x22 # y \<Longrightarrow>
        s = t \<and> x = y"
  proof (induction s arbitrary: t)
    case Nil
    show ?case
    proof (cases t)
      case Nil
      with \<open>concat (map json_char []) @ _ = _\<close> show ?thesis by simp
    next
      case (Cons d u)
      then show ?thesis using Nil json_char_hd [of d "concat (map json_char u) @ CHR 0x22 # y" x]
        by simp
    qed
  next
    case (Cons c s)
    show ?case
    proof (cases t)
      case Nil
      then show ?thesis
        using Cons.prems json_char_hd [of c "concat (map json_char s) @ CHR 0x22 # x" y] by simp
    next
      case (Cons d u)
      have eq: "json_char c @ (concat (map json_char s) @ CHR 0x22 # x) =
            json_char d @ (concat (map json_char u) @ CHR 0x22 # y)"
        using Cons.prems Cons by simp
      from arg_cong [OF this, of read_char] have "c = d"
        "concat (map json_char s) @ CHR 0x22 # x = concat (map json_char u) @ CHR 0x22 # y"
        by (simp_all add: read_json_char)
      with Cons.IH Cons show ?thesis by blast
    qed
  qed
  then show "json_str s @ x = json_str t @ y \<Longrightarrow> s = t \<and> x = y"
    by (simp add: json_str_def)
qed

lemma digits_of_nonempty [simp]: "digits_of n \<noteq> []"
  by (subst digits_of.simps) simp

lemma digits_of_digits: "c \<in> set (digits_of n) \<Longrightarrow> 48 \<le> (of_char c :: nat) \<and> (of_char c :: nat) < 58"
proof (induction n rule: digits_of.induct)
  case (1 n)
  show ?case
  proof (cases "n < 10")
    case True
    then show ?thesis using 1(2) by (subst (asm) digits_of.simps) (auto simp: of_char_of)
  next
    case False
    then have "c \<in> set (digits_of (n div 10)) \<or> c = char_of (48 + n mod 10)"
      using 1(2) by (subst (asm) digits_of.simps) auto
    then show ?thesis using 1(1) [OF False] by (auto simp: of_char_of)
  qed
qed

definition digits_val :: "string \<Rightarrow> nat" where
  "digits_val s = foldl (\<lambda>a c. 10 * a + (of_char c - 48)) 0 s"

lemma digits_val_of: "digits_val (digits_of n) = n"
proof (induction n rule: digits_of.induct)
  case (1 n)
  show ?case
  proof (cases "n < 10")
    case True
    then show ?thesis by (subst digits_of.simps) (simp add: digits_val_def of_char_of)
  next
    case False
    have "digits_val (digits_of n) = 10 * digits_val (digits_of (n div 10)) + n mod 10"
      using False by (subst digits_of.simps) (simp add: digits_val_def of_char_of)
    then show ?thesis using 1(1) [OF False] by simp
  qed
qed

definition is_digit :: "char \<Rightarrow> bool" where
  "is_digit c \<longleftrightarrow> 48 \<le> (of_char c :: nat) \<and> (of_char c :: nat) < 58"

text \<open>A continuation that cannot extend a number: what follows a value in a JSON text.\<close>

definition ends_number :: "string \<Rightarrow> bool" where
  "ends_number s \<longleftrightarrow> s = [] \<or> \<not> is_digit (hd s)"

lemma takeWhile_digits: "ends_number x \<Longrightarrow> takeWhile is_digit (digits_of n @ x) = digits_of n"
  by (subst takeWhile_append2) (auto simp: digits_of_digits is_digit_def ends_number_def
      dest: digits_of_digits intro: takeWhile_eq_Nil_iff [THEN iffD2])

lemma digits_of_inj:
  assumes "digits_of m @ x = digits_of n @ y" "ends_number x" "ends_number y"
  shows "m = n \<and> x = y"
proof -
  have "digits_of m = digits_of n" using assms takeWhile_digits by metis
  then show ?thesis using assms(1) digits_val_of by (metis append_same_eq same_append_eq)
qed

lemma hd_digits_not_minus: "digits_of n @ x \<noteq> CHR ''-'' # y"
proof
  assume eq: "digits_of n @ x = CHR ''-'' # y"
  then have "hd (digits_of n) = CHR ''-''" by (metis digits_of_nonempty hd_append2 list.sel(1))
  then have "CHR ''-'' \<in> set (digits_of n)" by (metis digits_of_nonempty hd_in_set)
  then show False using digits_of_digits [of "CHR ''-''" n] by simp
qed

lemma str_of_int_inj:
  assumes "str_of_int i @ x = str_of_int j @ y" "ends_number x" "ends_number y"
  shows "i = j \<and> x = y"
proof (cases "i < 0 \<longleftrightarrow> j < 0")
  case True
  show ?thesis
  proof (cases "i < 0")
    case True
    with \<open>(i < 0) = (j < 0)\<close> show ?thesis
      using assms digits_of_inj [of "nat (- i)" x "nat (- j)" y] True
      by (simp add: str_of_int_def nat_eq_iff)
  next
    case False
    with \<open>(i < 0) = (j < 0)\<close> show ?thesis
      using assms digits_of_inj [of "nat i" x "nat j" y] False
      by (simp add: str_of_int_def nat_eq_iff)
  qed
next
  case False
  show ?thesis
  proof (cases "i < 0")
    case True
    with False show ?thesis using assms(1) hd_digits_not_minus [of "nat j" y, symmetric]
      by (simp add: str_of_int_def)
  next
    case i: False
    with False show ?thesis using assms(1) hd_digits_not_minus [of "nat i" x]
      by (simp add: str_of_int_def)
  qed
qed

subsection \<open>Values\<close>

text \<open>The first character of a JSON text tells the constructor.\<close>

fun json_kind :: "pyval \<Rightarrow> char \<Rightarrow> bool" where
  "json_kind PNone c \<longleftrightarrow> c = CHR ''n''"
| "json_kind (PBool b) c \<longleftrightarrow> c = (if b then CHR ''t'' else CHR ''f'')"
| "json_kind (PInt i) c \<longleftrightarrow> is_digit c \<or> c = CHR ''-''"
| "json_kind (PStr s) c \<longleftrightarrow> c = CHR 0x22"
| "json_kind (PList xs) c \<longleftrightarrow> c = CHR ''[''"
| "json_kind (PDict d) c \<longleftrightarrow> c = CHR ''{''"

lemma json_text_kind: "\<exists>c r. json_text v = c # r \<and> json_kind v c"
proof (cases v)
  case (PInt i)
  have "\<exists>c r. digits_of n = c # r \<and> is_digit c" for n
    using digits_of_nonempty [of n] digits_of_digits [of _ n]
    by (cases "digits_of n") (auto simp: is_digit_def)
  from this [of "nat i"] show ?thesis using PInt by (fastforce simp: str_of_int_def)
qed (auto simp: json_str_def)

definition same_kind :: "pyval \<Rightarrow> pyval \<Rightarrow> bool" where
  "same_kind v w \<longleftrightarrow> (case (v, w) of
       (PNone, PNone) \<Rightarrow> True | (PBool a, PBool b) \<Rightarrow> a = b | (PInt _, PInt _) \<Rightarrow> True
     | (PStr _, PStr _) \<Rightarrow> True | (PList _, PList _) \<Rightarrow> True | (PDict _, PDict _) \<Rightarrow> True
     | _ \<Rightarrow> False)"

lemma json_kind_unique: "json_kind v c \<Longrightarrow> json_kind w c \<Longrightarrow> same_kind v w"
  by (cases v; cases w) (auto simp: same_kind_def is_digit_def split: if_splits)

lemma json_text_same_kind: "json_text v @ x = json_text w @ y \<Longrightarrow> same_kind v w"
  using json_text_kind [of v] json_text_kind [of w] json_kind_unique by (metis append_Cons list.inject)

text \<open>Items joined by commas and closed by a bracket determine the items.\<close>

lemma py_join_Cons: "py_join sep (w # ws) = w @ (if ws = [] then [] else sep @ py_join sep ws)"
  by (cases ws) simp_all

lemma py_join_inj:
  assumes inj: "\<And>a b x y. a \<in> set xs \<Longrightarrow> f a @ x = f b @ y \<Longrightarrow> ends_number x \<Longrightarrow>
      ends_number y \<Longrightarrow> a = b \<and> x = y"
    and hd: "\<And>a r s. f a @ r \<noteq> close # s"
    and close: "\<not> is_digit close" "close \<noteq> CHR '',''"
    and eq: "py_join '','' (map f xs) @ close # x = py_join '','' (map f ys) @ close # y"
  shows "xs = ys \<and> x = y"
  using inj eq
proof (induction xs arbitrary: ys)
  case Nil
  show ?case
  proof (cases ys)
    case (Cons b bs)
    then show ?thesis using Nil.prems(2) hd [of b] by (simp add: py_join_Cons) metis
  qed (use Nil in simp)
next
  case (Cons a as)
  show ?case
  proof (cases ys)
    case Nil
    then show ?thesis using Cons.prems(2) hd [of a] by (simp add: py_join_Cons)
  next
    case ys: (Cons b bs)
    define rest where "rest zs u = (if zs = [] then [] else '','' @ py_join '','' (map f zs)) @ close # u"
      for zs u
    have stop: "ends_number (rest zs u)" for zs u
      using close(1) by (simp add: rest_def ends_number_def is_digit_def)
    have "f a @ rest as x = f b @ rest bs y"
      using Cons.prems(2) ys by (simp add: py_join_Cons rest_def split: if_splits)
    then have ab: "a = b" "rest as x = rest bs y"
      using Cons.prems(1) [of a] stop by fastforce+
    show ?thesis
    proof (cases "as = [] \<or> bs = []")
      case True
      then have "as = [] \<and> bs = []" using ab(2) close(2) by (auto simp: rest_def split: if_splits)
      then show ?thesis using ab ys by (simp add: rest_def)
    next
      case False
      then have "py_join '','' (map f as) @ close # x = py_join '','' (map f bs) @ close # y"
        using ab(2) by (simp add: rest_def)
      with Cons.prems(1) have "as = bs \<and> x = y" by (intro Cons.IH) (blast intro: list.set_intros)+
      then show ?thesis using ab ys by simp
    qed
  qed
qed

lemma json_text_inj:
  "json_text v @ x = json_text w @ y \<Longrightarrow> ends_number x \<Longrightarrow> ends_number y \<Longrightarrow> v = w \<and> x = y"
proof (induction v arbitrary: w x y)
  case (PList xs)
  obtain ys where w: "w = PList ys"
    using json_text_same_kind [OF PList.prems(1)] by (cases w) (auto simp: same_kind_def)
  have "xs = ys \<and> x = y"
  proof (rule py_join_inj [where f = json_text and close = "CHR '']''"])
    show "py_join '','' (map json_text xs) @ CHR '']'' # x = py_join '','' (map json_text ys) @ CHR '']'' # y"
      using PList.prems(1) w by simp
    show "json_text a @ r \<noteq> CHR '']'' # s" for a r s
      using json_text_kind [of a] by (cases a) (auto simp: is_digit_def split: if_splits)
  qed (use PList.IH in \<open>simp_all add: is_digit_def\<close>)
  then show ?case using w by simp
next
  case (PDict d)
  obtain e where w: "w = PDict e"
    using json_text_same_kind [OF PDict.prems(1)] by (cases w) (auto simp: same_kind_def)
  let ?f = "\<lambda>(k, v). json_str k @ '':'' @ json_text v"
  have item: "a = b \<and> r = s" if a: "a \<in> set d" and eq: "?f a @ r = ?f b @ s"
    and ends: "ends_number r" "ends_number s" for a b r s
  proof -
    obtain k v l u where ab: "a = (k, v)" "b = (l, u)" by (cases a, cases b) auto
    then have "json_str k @ '':'' @ json_text v @ r = json_str l @ '':'' @ json_text u @ s"
      using eq by simp
    from json_str_inj [OF this] have "k = l" "json_text v @ r = json_text u @ s" by simp_all
    then show ?thesis using PDict.IH [OF a, of v] ab ends by simp
  qed
  have "d = e \<and> x = y"
  proof (rule py_join_inj [where f = ?f and close = "CHR ''}''", OF item])
    show "py_join '','' (map ?f d) @ CHR ''}'' # x = py_join '','' (map ?f e) @ CHR ''}'' # y"
      using PDict.prems(1) w by simp
  qed (auto simp: is_digit_def json_str_def split: prod.splits)
  then show ?case using w by simp
next
  case (PInt i)
  obtain j where w: "w = PInt j"
    using json_text_same_kind [OF PInt(1)] by (cases w) (auto simp: same_kind_def)
  then show ?case using str_of_int_inj [of i x j y] PInt by simp
next
  case (PStr s)
  obtain t where w: "w = PStr t"
    using json_text_same_kind [OF PStr(1)] by (cases w) (auto simp: same_kind_def)
  then show ?case using json_str_inj [of s x t y] PStr by simp
next
  case PNone
  have "w = PNone" using json_text_same_kind [OF PNone(1)] by (cases w) (auto simp: same_kind_def)
  then show ?case using PNone(1) by simp
next
  case (PBool b)
  have "w = PBool b" using json_text_same_kind [OF PBool(1)] by (cases w) (auto simp: same_kind_def)
  then show ?case using PBool(1) by (simp split: if_splits)
qed

text \<open>The canonical text determines the value up to the order of dictionary keys.\<close>

lemma json_dumps_inj: "json_dumps v = json_dumps w \<longleftrightarrow> sort_keys v = sort_keys w"
  using json_text_inj [of "sort_keys v" "[]" "sort_keys w" "[]"]
  by (auto simp: json_dumps_def ends_number_def)

lemma arguments_hash_eq:
  assumes "arguments_hash sha a = arguments_hash sha b"
    and "sha (json_dumps (PDict a)) = sha (json_dumps (PDict b)) \<Longrightarrow>
           json_dumps (PDict a) = json_dumps (PDict b)"
  shows "sort_keys (PDict a) = sort_keys (PDict b)"
  using assms json_dumps_inj by (simp add: arguments_hash_def)

end
