(* ===== verification/Canonical_Arguments.thy ===== *)
theory Canonical_Arguments
  imports Json_Hash "HOL-Library.Product_Lexorder"
begin

text \<open>
  The canonical argument shapes an approval binds, one per provider:
  \<open>workforce/integrations/email.py\<close> (Gmail and Outlook), \<open>issue_tracking.py\<close> (Jira and Linear),
  \<open>crm_records.py\<close> (HubSpot and Salesforce), the message hashes of \<open>slack.py\<close> and the GitHub
  comment of \<open>hitl/exact_effect.py\<close>. Conversions that can raise return a sum.
\<close>

section \<open>Conversions\<close>

text \<open>
  \<open>int(x)\<close>: a string may have surrounding blanks, a sign and single underscores between digits.
\<close>

fun digit_groups :: "bool \<Rightarrow> string \<Rightarrow> nat \<Rightarrow> nat option" where
  "digit_groups after_digit [] n = (if after_digit then Some n else None)"
| "digit_groups after_digit (c # s) n =
     (if is_digit c then digit_groups True s (10 * n + (of_char c - 48))
      else if c = CHR ''_'' \<and> after_digit then digit_groups False s n
      else None)"

definition parse_int :: "string \<Rightarrow> int option" where
  "parse_int s =
     (case py_strip s of
        [] \<Rightarrow> None
      | c # r \<Rightarrow>
          (if c = CHR ''-'' then map_option (\<lambda>n. - int n) (digit_groups False r 0)
           else if c = CHR ''+'' then map_option int (digit_groups False r 0)
           else map_option int (digit_groups False (c # r) 0)))"

definition py_int :: "pyval \<Rightarrow> (string, int) result" where
  "py_int v = (case v of
       PInt i \<Rightarrow> Inr i
     | PBool b \<Rightarrow> Inr (if b then 1 else 0)
     | PStr s \<Rightarrow> (case parse_int s of None \<Rightarrow> Inl ''ValueError'' | Some i \<Rightarrow> Inr i)
     | _ \<Rightarrow> Inl ''TypeError'')"

text \<open>\<open>str(a.get(k) or "")\<close> and the same over two keys.\<close>

definition sget :: "pyval dict \<Rightarrow> string \<Rightarrow> string" where
  "sget a k = str_or (pget a k) []"

definition sget2 :: "pyval dict \<Rightarrow> string \<Rightarrow> string \<Rightarrow> string" where
  "sget2 a k l = str_or (py_or (pget a k) (pget a l)) []"

definition sget3 :: "pyval dict \<Rightarrow> string \<Rightarrow> string \<Rightarrow> string \<Rightarrow> string" where
  "sget3 a k l m = str_or (py_or (pget a k) (py_or (pget a l) (pget a m))) []"

text \<open>Iterating a value: a list, the keys of a dictionary, the characters of a string.\<close>

definition py_iter :: "pyval \<Rightarrow> (string, pyval list) result" where
  "py_iter v = (case v of
       PList xs \<Rightarrow> Inr xs
     | PDict d \<Rightarrow> Inr (map (PStr \<circ> fst) d)
     | PStr s \<Rightarrow> Inr (map (\<lambda>c. PStr [c]) s)
     | _ \<Rightarrow> Inl ''TypeError'')"

definition py_iter_or_empty :: "pyval \<Rightarrow> (string, pyval list) result" where
  "py_iter_or_empty v = (if truthy v then py_iter v else Inr [])"

fun map_res :: "('a \<Rightarrow> (string, 'b) result) \<Rightarrow> 'a list \<Rightarrow> (string, 'b list) result" where
  "map_res f [] = Inr []"
| "map_res f (x # xs) = res_bind (f x) (\<lambda>y. res_bind (map_res f xs) (\<lambda>ys. Inr (y # ys)))"

section \<open>Email\<close>

definition address_of :: "pyval \<Rightarrow> pyval" where
  "address_of item = (case item of PDict d \<Rightarrow> pget d ''email'' | v \<Rightarrow> v)"

definition normalize_addresses :: "pyval \<Rightarrow> string list" where
  "normalize_addresses value =
     (let raw = (case value of PList xs \<Rightarrow> xs | v \<Rightarrow> if truthy v then [v] else []) in
      sort (map (\<lambda>a. py_lower (py_strip (py_str a))) (filter truthy (map address_of raw))))"

type_synonym attachment = "string \<times> string \<times> int"

definition attachment_of :: "pyval dict \<Rightarrow> (string, attachment) result" where
  "attachment_of item =
     res_bind (py_int (py_or (pget item ''size'') (PInt 0)))
       (\<lambda>size. Inr (sget2 item ''attachment_id'' ''id'', sget item ''filename'', size))"

definition attachments_of :: "pyval \<Rightarrow> (string, attachment list) result" where
  "attachments_of value =
     res_bind (py_iter_or_empty value) (\<lambda>items.
     res_bind (map_res attachment_of
        (List.map_filter (\<lambda>i. case i of PDict d \<Rightarrow> Some d | _ \<Rightarrow> None) items)) (\<lambda>xs.
     Inr (sort xs)))"

definition attachment_value :: "attachment \<Rightarrow> pyval" where
  "attachment_value x = (case x of (i, f, s) \<Rightarrow>
     PDict [(''attachment_id'', PStr i), (''filename'', PStr f), (''size'', PInt s)])"

definition canonical_email_action_arguments ::
  "pyval dict \<Rightarrow> (string, pyval dict) result" where
  "canonical_email_action_arguments a =
     res_bind (attachments_of (pget a ''attachments'')) (\<lambda>att. Inr
      [(''provider'', PStr ''gmail''),
       (''connector_installation_id'', PStr (sget a ''connector_installation_id'')),
       (''gmail_draft_id'', PStr (sget2 a ''gmail_draft_id'' ''draft_id'')),
       (''thread_id'', PStr (sget a ''thread_id'')),
       (''in_reply_to'', PStr (sget a ''in_reply_to'')),
       (''from'', PStr (py_lower (py_strip (sget a ''from'')))),
       (''to'', PList (map PStr (normalize_addresses (pget a ''to'')))),
       (''cc'', PList (map PStr (normalize_addresses (pget a ''cc'')))),
       (''bcc'', PList (map PStr (normalize_addresses (pget a ''bcc'')))),
       (''subject'', PStr (sget a ''subject'')),
       (''body'', PStr (sget2 a ''body'' ''body_text'')),
       (''attachments'', PList (map attachment_value att))])"

definition canonical_outlook_email_action_arguments ::
  "pyval dict \<Rightarrow> (string, pyval dict) result" where
  "canonical_outlook_email_action_arguments a =
     res_bind (canonical_email_action_arguments
        (dset ''gmail_draft_id'' (py_or (pget a ''outlook_draft_id'') (pget a ''draft_id''))
          (dset ''provider'' (PStr ''outlook'') a))) (\<lambda>canonical.
     Inr (dset ''outlook_draft_id'' (PStr (sget2 a ''outlook_draft_id'' ''draft_id''))
           (dset ''provider'' (PStr ''outlook'') canonical)))"

section \<open>Issue trackers\<close>

definition canonical_jira_issue_arguments :: "pyval dict \<Rightarrow> pyval dict" where
  "canonical_jira_issue_arguments a =
     [(''provider'', PStr ''jira''),
      (''connector_installation_id'', PStr (sget a ''connector_installation_id'')),
      (''cloud_id'', PStr (sget a ''cloud_id'')),
      (''issue_id'', PStr (sget a ''issue_id'')),
      (''issue_key'', PStr (sget a ''issue_key'')),
      (''project_key'', PStr (sget a ''project_key'')),
      (''issue_type'', PStr (str_or (pget a ''issue_type'') ''Task'')),
      (''summary'', PStr (sget a ''summary'')),
      (''description'', PStr (sget2 a ''description'' ''body'')),
      (''comment_body'', PStr (sget2 a ''comment_body'' ''comment'')),
      (''priority'', PStr (sget a ''priority'')),
      (''assignee_account_id'', PStr (sget a ''assignee_account_id''))]"

definition canonical_linear_issue_arguments :: "pyval dict \<Rightarrow> pyval dict" where
  "canonical_linear_issue_arguments a =
     [(''provider'', PStr ''linear''),
      (''connector_installation_id'', PStr (sget a ''connector_installation_id'')),
      (''team_id'', PStr (sget a ''team_id'')),
      (''issue_id'', PStr (if sget a ''issue_id'' \<noteq> [] then sget a ''issue_id'' else sget a ''issue_key'')),
      (''issue_key'', PStr (sget a ''issue_key'')),
      (''title'', PStr (sget2 a ''title'' ''summary'')),
      (''description'', PStr (sget2 a ''description'' ''body'')),
      (''comment_body'', PStr (sget2 a ''comment_body'' ''comment'')),
      (''state_id'', PStr (sget a ''state_id'')),
      (''priority'', PStr (sget a ''priority'')),
      (''assignee_id'', PStr (sget a ''assignee_id''))]"

section \<open>CRM records\<close>

definition HUBSPOT_CONTACT_UPDATE_ALLOWLIST :: "string list" where
  "HUBSPOT_CONTACT_UPDATE_ALLOWLIST =
     [''firstname'', ''lastname'', ''email'', ''phone'', ''jobtitle'', ''company'', ''website'',
      ''lifecyclestage'', ''hs_lead_status'']"

definition SALESFORCE_CONTACT_UPDATE_ALLOWLIST :: "string list" where
  "SALESFORCE_CONTACT_UPDATE_ALLOWLIST =
     [''FirstName'', ''LastName'', ''Email'', ''Phone'', ''Title'', ''Department'',
      ''MailingCity'', ''MailingState'', ''MailingCountry'', ''LeadSource'']"

definition filter_allowlisted_fields :: "pyval dict \<Rightarrow> string list \<Rightarrow> (string \<times> string) list" where
  "filter_allowlisted_fields fields allowlist =
     map (\<lambda>(k, v). (k, py_str v))
       (filter (\<lambda>(k, v). k \<in> set allowlist \<and> v \<noteq> PNone \<and> py_strip (py_str v) \<noteq> []) fields)"

text \<open>\<open>dict(x or {})\<close>: an object, or an iterable of pairs; everything else raises.\<close>

definition dict_item :: "pyval \<Rightarrow> (string, string \<times> pyval) result" where
  "dict_item v = res_bind (py_iter v) (\<lambda>xs. case xs of
       [PStr k, w] \<Rightarrow> Inr (k, w) | _ \<Rightarrow> Inl ''ValueError'')"

definition dict_or_raise :: "pyval \<Rightarrow> (string, pyval dict) result" where
  "dict_or_raise v = (if \<not> truthy v then Inr []
     else case v of
       PDict d \<Rightarrow> Inr d
     | _ \<Rightarrow> res_bind (py_iter v) (\<lambda>xs. res_bind (map_res dict_item xs) (\<lambda>items.
              Inr (fold (\<lambda>(k, w). dset k w) items []))))"

definition sorted_fields :: "pyval \<Rightarrow> (string, pyval dict) result" where
  "sorted_fields fields =
     res_bind (dict_or_raise fields) (\<lambda>d.
       Inr (sort_key fst (map (\<lambda>(k, v). (k, PStr (py_str v))) (filter (\<lambda>(k, v). v \<noteq> PNone) d))))"

definition canonical_hubspot_crm_arguments :: "pyval dict \<Rightarrow> (string, pyval dict) result" where
  "canonical_hubspot_crm_arguments a =
     res_bind (sorted_fields (pget a ''fields'')) (\<lambda>fields. Inr
      [(''provider'', PStr ''hubspot''),
       (''connector_installation_id'', PStr (sget a ''connector_installation_id'')),
       (''record_id'', PStr (sget3 a ''record_id'' ''contact_id'' ''company_id'')),
       (''record_type'', PStr (str_or (pget a ''record_type'') ''contact'')),
       (''query'', PStr (sget a ''query'')),
       (''fields'', PDict fields),
       (''note_body'', PStr (sget2 a ''note_body'' ''body'')),
       (''email_to'', PStr (sget2 a ''email_to'' ''to'')),
       (''email_subject'', PStr (sget2 a ''email_subject'' ''subject'')),
       (''email_body'', PStr (sget2 a ''email_body'' ''message'')),
       (''email_id'', PStr (sget a ''email_id''))])"

definition canonical_salesforce_crm_arguments :: "pyval dict \<Rightarrow> (string, pyval dict) result" where
  "canonical_salesforce_crm_arguments a =
     res_bind (sorted_fields (pget a ''fields'')) (\<lambda>fields. Inr
      [(''provider'', PStr ''salesforce''),
       (''connector_installation_id'', PStr (sget a ''connector_installation_id'')),
       (''record_id'', PStr (sget3 a ''record_id'' ''contact_id'' ''account_id'')),
       (''record_type'', PStr (str_or (pget a ''record_type'') ''contact'')),
       (''query'', PStr (sget2 a ''query'' ''soql'')),
       (''fields'', PDict fields),
       (''task_subject'', PStr (sget2 a ''task_subject'' ''subject'')),
       (''task_description'', PStr (sget2 a ''task_description'' ''description'')),
       (''email_to'', PStr (sget2 a ''email_to'' ''to'')),
       (''email_subject'', PStr (sget2 a ''email_subject'' ''subject'')),
       (''email_body'', PStr (sget2 a ''email_body'' ''message''))])"

section \<open>Comments and messages\<close>

definition normalize_github_comment_effect :: "pyval dict \<Rightarrow> (string, pyval dict) result" where
  "normalize_github_comment_effect a =
     res_bind (py_int (py_or (pget a ''issue_number'') (PInt 0))) (\<lambda>n. Inr
      [(''issue_link_id'', PStr (sget a ''issue_link_id'')),
       (''repository_id'', PStr (sget a ''repository_id'')),
       (''issue_number'', PInt n),
       (''body'', PStr (py_strip (sget2 a ''body'' ''draft_comment''))),
       (''close_issue'', PBool (truthy (pget a ''close_issue'')))])"

section \<open>Hashes\<close>

definition email_action_arguments_hash ::
  "(string \<Rightarrow> string) \<Rightarrow> pyval dict \<Rightarrow> (string, string) result" where
  "email_action_arguments_hash sha a =
     res_bind (canonical_email_action_arguments a) (\<lambda>c. Inr (arguments_hash sha c))"

definition outlook_email_action_arguments_hash ::
  "(string \<Rightarrow> string) \<Rightarrow> pyval dict \<Rightarrow> (string, string) result" where
  "outlook_email_action_arguments_hash sha a =
     res_bind (canonical_outlook_email_action_arguments a) (\<lambda>c. Inr (arguments_hash sha c))"

definition jira_issue_arguments_hash :: "(string \<Rightarrow> string) \<Rightarrow> pyval dict \<Rightarrow> string" where
  "jira_issue_arguments_hash sha a = arguments_hash sha (canonical_jira_issue_arguments a)"

definition linear_issue_arguments_hash :: "(string \<Rightarrow> string) \<Rightarrow> pyval dict \<Rightarrow> string" where
  "linear_issue_arguments_hash sha a = arguments_hash sha (canonical_linear_issue_arguments a)"

definition hubspot_crm_arguments_hash ::
  "(string \<Rightarrow> string) \<Rightarrow> pyval dict \<Rightarrow> (string, string) result" where
  "hubspot_crm_arguments_hash sha a =
     res_bind (canonical_hubspot_crm_arguments a) (\<lambda>c. Inr (arguments_hash sha c))"

definition salesforce_crm_arguments_hash ::
  "(string \<Rightarrow> string) \<Rightarrow> pyval dict \<Rightarrow> (string, string) result" where
  "salesforce_crm_arguments_hash sha a =
     res_bind (canonical_salesforce_crm_arguments a) (\<lambda>c. Inr (arguments_hash sha c))"

section \<open>Canonical shapes are stable\<close>

lemma py_str_nonempty: "truthy v \<Longrightarrow> py_str v \<noteq> []"
  by (cases v) (auto simp: py_str_def str_of_int_def)

lemma str_or_PStr [simp]: "str_or (PStr s) d = (if s = [] then d else s)"
  by (simp add: str_or_def)

lemma str_or_PNone [simp]: "str_or PNone d = d"
  by (simp add: str_or_def)

lemma str_or_nonempty [simp]: "d \<noteq> [] \<Longrightarrow> str_or v d \<noteq> []"
  by (simp add: str_or_def py_str_nonempty)

lemma sget_Cons [simp]: "sget ((k, v) # d) j = (if j = k then str_or v [] else sget d j)"
  by (simp add: sget_def)

lemma sget_Nil [simp]: "sget [] j = []"
  by (simp add: sget_def)

lemma str_or_py_or: "str_or (py_or v w) [] = (if str_or v [] \<noteq> [] then str_or v [] else str_or w [])"
  by (auto simp: str_or_def py_or_def py_str_nonempty)

lemma sget2_eq: "sget2 a k l = (if sget a k \<noteq> [] then sget a k else sget a l)"
  by (simp add: sget2_def sget_def str_or_py_or)

lemma sget3_eq: "sget3 a k l m = (if sget a k \<noteq> [] then sget a k else sget2 a l m)"
  by (simp add: sget3_def sget2_def sget_def str_or_py_or)

text \<open>Canonicalising a canonical argument dictionary changes nothing, so hashing may repeat it.\<close>

lemma canonical_jira_idem [simp]:
  "canonical_jira_issue_arguments (canonical_jira_issue_arguments a) = canonical_jira_issue_arguments a"
  unfolding canonical_jira_issue_arguments_def [of "canonical_jira_issue_arguments a"]
  unfolding canonical_jira_issue_arguments_def [of a]
  by (simp add: sget2_eq)

lemma canonical_linear_idem [simp]:
  "canonical_linear_issue_arguments (canonical_linear_issue_arguments a) =
     canonical_linear_issue_arguments a"
proof -
  define c where "c = canonical_linear_issue_arguments a"
  have get: "sget c ''connector_installation_id'' = sget a ''connector_installation_id''"
    "sget c ''team_id'' = sget a ''team_id''" "sget c ''issue_key'' = sget a ''issue_key''"
    "sget c ''title'' = sget2 a ''title'' ''summary''"
    "sget c ''description'' = sget2 a ''description'' ''body''"
    "sget c ''comment_body'' = sget2 a ''comment_body'' ''comment''"
    "sget c ''state_id'' = sget a ''state_id''" "sget c ''priority'' = sget a ''priority''"
    "sget c ''assignee_id'' = sget a ''assignee_id''"
    "sget c ''summary'' = []" "sget c ''body'' = []" "sget c ''comment'' = []"
    by (simp_all add: c_def canonical_linear_issue_arguments_def split del: if_split)
  have id: "sget c ''issue_id'' = (if sget a ''issue_id'' \<noteq> [] then sget a ''issue_id''
      else sget a ''issue_key'')"
    by (simp add: c_def canonical_linear_issue_arguments_def)
  have two: "sget2 c k l = sget c k" if "sget c l = []" for k l
    using that by (simp add: sget2_eq)
  have three: "(if sget c ''issue_id'' \<noteq> [] then sget c ''issue_id'' else sget c ''issue_key'') =
      (if sget a ''issue_id'' \<noteq> [] then sget a ''issue_id'' else sget a ''issue_key'')"
    by (simp add: id get(3))
  have "canonical_linear_issue_arguments c = canonical_linear_issue_arguments a"
    unfolding canonical_linear_issue_arguments_def three
    by (simp only: get two)
  then show ?thesis by (simp add: c_def)
qed

end
