(* ===== verification/Exact_Effect.thy ===== *)
theory Exact_Effect
  imports Canonical_Arguments
begin

text \<open>
  Exact-effect approvals, \<open>orchestration/execution/hitl/exact_effect.py\<close>: normalising and hashing
  a proposed effect, binding it to an approval row, reading the binding back, the commit-time
  validation, and the replacement of a pending approval by an edited one.

  The digest, \<open>isoformat\<close> and \<open>fromisoformat\<close> are the fields of a \<open>runtime\<close>. Times are
  microseconds since the epoch; a naive time is read as UTC, as the code does. A raised exception
  is a value of \<open>hitl_error\<close>: the module's own error with its message, or another one by its class.
\<close>

section \<open>Rows and errors\<close>

datatype py_datetime = Naive int | Aware int

fun instant :: "py_datetime \<Rightarrow> int" where
  "instant (Naive t) = t"
| "instant (Aware t) = t"

record runtime =
  rt_sha :: "string \<Rightarrow> string"
  rt_iso :: "py_datetime \<Rightarrow> string"
  rt_from_iso :: "string \<Rightarrow> py_datetime option"

datatype hitl_error =
    ExactEffectError string
  | CommitAuthorizationError string
  | ApproverEligibilityError string
  | ApprovalDelegationError string
  | HttpError int string
  | PyError string

record approval_request =
  aq_id :: string
  aq_project_id :: "string option"
  aq_task_id :: "string option"
  aq_run_id :: "string option"
  aq_issue_link_id :: "string option"
  aq_requested_by :: "string option"
  aq_approved_by :: "string option"
  aq_approval_type :: string
  aq_status :: string
  aq_reason :: "string option"
  aq_payload :: "pyval dict"
  aq_effect_hash :: "string option"
  aq_effect_version :: int
  aq_fingerprint :: pyval
  aq_expires_at :: "py_datetime option"
  aq_proposed_effect :: "pyval dict"
  aq_workspace_id :: "string option"
  aq_delegations :: "pyval list"
  aq_escalation_state :: "pyval dict"
  aq_sla_policy :: "pyval dict"
  aq_due_at :: "py_datetime option"
  aq_created_at :: int
  aq_resolved_at :: "py_datetime option"
  aq_eligible :: "pyval dict list"
  aq_routing :: "pyval dict"
  aq_decided_reason :: "string option"

record proposed_effect =
  pe_action_key :: string
  pe_normalized :: "pyval dict"
  pe_hash :: string
  pe_fingerprint :: pyval
  pe_version :: int
  pe_expires_at :: "py_datetime option"
  pe_replaces :: "string option"

definition py_res :: "(string, 'a) result \<Rightarrow> (hitl_error, 'a) result" where
  "py_res r = (case r of Inl e \<Rightarrow> Inl (PyError e) | Inr x \<Rightarrow> Inr x)"

definition DEFAULT_APPROVAL_TTL_HOURS :: int where
  "DEFAULT_APPROVAL_TTL_HOURS = 168"

section \<open>Normalisation and hash\<close>

definition GMAIL_ACTIONS :: "string list" where
  [guard_defs]: "GMAIL_ACTIONS = [''gmail.send_draft'', ''gmail.create_draft'', ''gmail.update_draft'']"

definition OUTLOOK_ACTIONS :: "string list" where
  [guard_defs]: "OUTLOOK_ACTIONS =
     [''outlook.send_draft'', ''outlook.create_draft'', ''outlook.update_draft'']"

definition GITHUB_COMMENT_ACTIONS :: "string list" where
  [guard_defs]: "GITHUB_COMMENT_ACTIONS =
     [''github_comment'', ''github_progress_comment'', ''github_manager_closure'']"

definition JIRA_MUTATION_ACTIONS :: "string list" where
  [guard_defs]: "JIRA_MUTATION_ACTIONS =
     [''jira.create_issue'', ''jira.update_issue'', ''jira.add_comment'']"

definition LINEAR_MUTATION_ACTIONS :: "string list" where
  [guard_defs]: "LINEAR_MUTATION_ACTIONS =
     [''linear.create_issue'', ''linear.update_issue'', ''linear.add_comment'']"

definition HUBSPOT_MUTATION_ACTIONS :: "string list" where
  [guard_defs]: "HUBSPOT_MUTATION_ACTIONS =
     [''hubspot.update_contact'', ''hubspot.create_note'', ''hubspot.send_email'']"

definition SALESFORCE_MUTATION_ACTIONS :: "string list" where
  [guard_defs]: "SALESFORCE_MUTATION_ACTIONS =
     [''salesforce.update_contact'', ''salesforce.create_task'', ''salesforce.send_email'']"

definition strip_tool_prefix :: "string \<Rightarrow> string" where
  "strip_tool_prefix action_key =
     (let key = py_strip action_key in
      case find (\<lambda>p. starts_with p key) [''tool:'', ''execute:'', ''tool_execution:''] of
        Some p \<Rightarrow> drop (length p) key
      | None \<Rightarrow> key)"

definition binding_keys :: "string list" where
  "binding_keys =
     [''connector_installation_id'', ''resource_id'', ''repository_id'', ''issue_link_id'',
      ''thread_id'', ''gmail_draft_id'', ''outlook_draft_id'', ''draft_id'', ''path'']"

definition normalize_generic :: "pyval dict \<Rightarrow> pyval dict" where
  "normalize_generic arguments =
     (let first = List.map_filter (\<lambda>k. map_option (\<lambda>v. (k, v)) (dget arguments k)) binding_keys in
      first @ filter (\<lambda>kv. \<not> dhas first (fst kv)) arguments)"

definition normalize_proposed_effect ::
  "string \<Rightarrow> pyval dict \<Rightarrow> (string, pyval dict) result" where
  "normalize_proposed_effect action_key arguments =
     (let key = strip_tool_prefix action_key; provider = sget arguments ''provider'' in
      if key \<in> set GMAIL_ACTIONS \<or> provider = ''gmail''
      then canonical_email_action_arguments arguments
      else if key \<in> set OUTLOOK_ACTIONS \<or> provider = ''outlook''
      then canonical_outlook_email_action_arguments arguments
      else if key \<in> set GITHUB_COMMENT_ACTIONS then normalize_github_comment_effect arguments
      else if (key \<in> set JIRA_MUTATION_ACTIONS \<or> provider = ''jira'') \<and> starts_with ''jira.'' key
      then Inr (canonical_jira_issue_arguments arguments)
      else if (key \<in> set LINEAR_MUTATION_ACTIONS \<or> provider = ''linear'') \<and>
              starts_with ''linear.'' key
      then Inr (canonical_linear_issue_arguments arguments)
      else if (key \<in> set HUBSPOT_MUTATION_ACTIONS \<or> provider = ''hubspot'') \<and>
              starts_with ''hubspot.'' key
      then canonical_hubspot_crm_arguments arguments
      else if (key \<in> set SALESFORCE_MUTATION_ACTIONS \<or> provider = ''salesforce'') \<and>
              starts_with ''salesforce.'' key
      then canonical_salesforce_crm_arguments arguments
      else Inr (normalize_generic arguments))"

text \<open>
  \<open>compute_effect_hash\<close> digests a canonical form of what it is given. The form is a definition of
  its own, so that the theorems can say what a hash covers.
\<close>

definition hashed_form :: "pyval dict \<Rightarrow> string \<Rightarrow> (string, pyval dict) result" where
  "hashed_form normalized action_key =
     (let key = strip_tool_prefix action_key; provider = sget normalized ''provider'' in
      if key \<in> set GMAIL_ACTIONS \<or> provider = ''gmail''
      then canonical_email_action_arguments normalized
      else if key \<in> set OUTLOOK_ACTIONS \<or> provider = ''outlook''
      then canonical_outlook_email_action_arguments normalized
      else if key \<in> set JIRA_MUTATION_ACTIONS \<or> provider = ''jira''
      then Inr (canonical_jira_issue_arguments normalized)
      else if key \<in> set LINEAR_MUTATION_ACTIONS \<or> provider = ''linear''
      then Inr (canonical_linear_issue_arguments normalized)
      else if key \<in> set HUBSPOT_MUTATION_ACTIONS \<or> provider = ''hubspot''
      then canonical_hubspot_crm_arguments normalized
      else if key \<in> set SALESFORCE_MUTATION_ACTIONS \<or> provider = ''salesforce''
      then canonical_salesforce_crm_arguments normalized
      else Inr normalized)"

definition compute_effect_hash ::
  "runtime \<Rightarrow> pyval dict \<Rightarrow> string \<Rightarrow> (string, string) result" where
  "compute_effect_hash rt normalized action_key =
     res_bind (hashed_form normalized action_key) (\<lambda>c. Inr (arguments_hash (rt_sha rt) c))"

definition default_effect_expiry :: "int \<Rightarrow> py_datetime" where
  "default_effect_expiry now = Aware (now + DEFAULT_APPROVAL_TTL_HOURS * 3600 * 1000000)"

definition build_proposed_effect ::
  "runtime \<Rightarrow> string \<Rightarrow> pyval dict \<Rightarrow> string option \<Rightarrow> int \<Rightarrow> py_datetime option \<Rightarrow> string option \<Rightarrow>
   int \<Rightarrow> (string, proposed_effect) result" where
  "build_proposed_effect rt action_key raw fingerprint version expires_at replaces now =
     res_bind (normalize_proposed_effect action_key raw) (\<lambda>normalized.
     res_bind (compute_effect_hash rt normalized action_key) (\<lambda>h.
     Inr \<lparr>pe_action_key = strip_tool_prefix action_key, pe_normalized = normalized, pe_hash = h,
          pe_fingerprint = opt_str fingerprint, pe_version = max 1 version,
          pe_expires_at = (case expires_at of None \<Rightarrow> Some (default_effect_expiry now) | t \<Rightarrow> t),
          pe_replaces = replaces\<rparr>))"

section \<open>Binding an approval\<close>

definition apply_proposed_effect_to_approval ::
  "runtime \<Rightarrow> approval_request \<Rightarrow> proposed_effect \<Rightarrow> approval_request" where
  "apply_proposed_effect_to_approval rt approval e =
     (let p = aq_payload approval;
          p = dset ''action_key'' (PStr (pe_action_key e)) p;
          p = dset ''arguments_hash'' (PStr (pe_hash e)) p;
          p = dset ''effect_hash'' (PStr (pe_hash e)) p;
          p = dset ''effect_version'' (PInt (pe_version e)) p;
          p = dset ''precondition_fingerprint'' (pe_fingerprint e) p;
          p = (case pe_expires_at e of
                 None \<Rightarrow> p | Some t \<Rightarrow> dset ''expires_at'' (PStr (rt_iso rt t)) p);
          p = (if truthy (opt_str (pe_replaces e))
               then dset ''replaces_approval_request_id'' (opt_str (pe_replaces e)) p else p);
          p = dset ''proposed_effect'' (PDict (pe_normalized e)) p
      in approval\<lparr>aq_effect_hash := Some (pe_hash e), aq_effect_version := pe_version e,
                  aq_fingerprint := pe_fingerprint e, aq_expires_at := pe_expires_at e,
                  aq_proposed_effect := pe_normalized e, aq_payload := p\<rparr>)"

text \<open>The normalised effect: the column, then the payload in its three legacy forms.\<close>

definition stored_effect :: "approval_request \<Rightarrow> (string, pyval dict) result" where
  "stored_effect approval =
     (let payload = aq_payload approval in
      if aq_proposed_effect approval \<noteq> [] then Inr (aq_proposed_effect approval)
      else res_bind (dict_or_raise
             (py_or (pget payload ''proposed_effect'') (pget payload ''draft_arguments''))) (\<lambda>n.
      res_bind (if n = [] \<and> pget payload ''body'' \<noteq> PNone
         then normalize_github_comment_effect
           (dset ''issue_number'' (pget payload ''issue_number'')
             (dset ''repository_id'' (pget payload ''repository_id'')
               (dset ''issue_link_id'' (opt_str (aq_issue_link_id approval)) payload)))
         else Inr n) (\<lambda>n.
      if n = [] \<and> truthy (pget payload ''arguments'')
      then dict_or_raise (pget payload ''arguments'') else Inr n)))"

definition bound_action_key :: "approval_request \<Rightarrow> string" where
  "bound_action_key approval =
     (let payload = aq_payload approval in
      str_or (py_or (pget payload ''action_key'')
                (py_or (pget payload ''action'') (PStr (aq_approval_type approval)))) [])"

definition stored_expiry :: "runtime \<Rightarrow> approval_request \<Rightarrow> py_datetime option" where
  "stored_expiry rt approval =
     (case aq_expires_at approval of
        Some t \<Rightarrow> Some t
      | None \<Rightarrow>
          (let raw = pget (aq_payload approval) ''expires_at'' in
           if truthy raw then rt_from_iso rt (py_str raw) else None))"

definition read_proposed_effect ::
  "runtime \<Rightarrow> approval_request \<Rightarrow> (string, proposed_effect option) result" where
  "read_proposed_effect rt approval =
     (let payload = aq_payload approval; action_key = bound_action_key approval in
      if action_key = [] then Inr None
      else res_bind (stored_effect approval) (\<lambda>normalized.
      res_bind (if normalized \<noteq> [] then compute_effect_hash rt normalized action_key
                else Inr (str_or (py_or (opt_str (aq_effect_hash approval))
                            (py_or (pget payload ''effect_hash'') (pget payload ''arguments_hash''))) []))
        (\<lambda>effect_hash.
      if effect_hash = [] then Inr None
      else res_bind (py_int (py_or (PInt (aq_effect_version approval))
                        (py_or (pget payload ''effect_version'') (PInt 1)))) (\<lambda>version.
      Inr (Some \<lparr>pe_action_key = strip_tool_prefix action_key, pe_normalized = normalized,
                 pe_hash = effect_hash,
                 pe_fingerprint = py_or (aq_fingerprint approval)
                    (py_or (pget payload ''precondition_fingerprint'') PNone),
                 pe_version = version, pe_expires_at = stored_expiry rt approval,
                 pe_replaces = (let r = sget payload ''replaces_approval_request_id'' in
                                if r = [] then None else Some r)\<rparr>)))))"

definition is_approval_expired ::
  "runtime \<Rightarrow> int \<Rightarrow> approval_request \<Rightarrow> (string, bool) result" where
  "is_approval_expired rt now approval =
     res_bind (read_proposed_effect rt approval) (\<lambda>eff.
     Inr (case eff of
            None \<Rightarrow> False
          | Some e \<Rightarrow> (case pe_expires_at e of None \<Rightarrow> False | Some t \<Rightarrow> now \<ge> instant t)))"

section \<open>Commit-time validation\<close>

definition payload_owner :: "approval_request \<Rightarrow> string" where
  "payload_owner approval =
     str_or (py_or (pget (aq_payload approval) ''owner_id'')
               (py_or (opt_str (aq_requested_by approval)) (opt_str (aq_approved_by approval)))) []"

text \<open>
  The checks in their order: status, consumption, owner and run; then the expiry; then the effect
  itself, by action key, hash and resource fingerprint.
\<close>

definition check_commit_context ::
  "approval_request \<Rightarrow> bool \<Rightarrow> string option \<Rightarrow> string option \<Rightarrow> (hitl_error, unit) result" where
  "check_commit_context approval require_consumed owner workflow_run_id =
     (let payload = aq_payload approval; err = ExactEffectError in
      guard_or (aq_status approval \<notin> {''approved'', ''stale''})
        (err (''Approval status '' @ repr_str (aq_status approval) @ '' is not committable''))
      (guard_or (aq_status approval = ''stale'')
        (err (str_or (opt_str (aq_reason approval)) ''Approval is stale''))
      (guard_or (require_consumed \<and>
           \<not> (truthy (pget payload ''_consumed_at'') \<or> truthy (pget payload ''consumed_at'')))
        (err ''Approval grant has not been consumed'')
      (guard_or (truthy (opt_str owner) \<and> payload_owner approval \<noteq> [] \<and>
           Some (payload_owner approval) \<noteq> owner)
        (err ''Approval owner does not match commit context'')
      (guard_or (truthy (opt_str workflow_run_id) \<and> sget payload ''workflow_run_id'' \<noteq> [] \<and>
           Some (sget payload ''workflow_run_id'') \<noteq> workflow_run_id)
        (err ''Approval workflow_run_id does not match commit context'')
        (Inr ()))))))"

definition check_bound_effect ::
  "runtime \<Rightarrow> proposed_effect \<Rightarrow> string \<Rightarrow> pyval dict \<Rightarrow> string option \<Rightarrow>
   (hitl_error, proposed_effect) result" where
  "check_bound_effect rt b action_key raw fingerprint =
     guard_or (pe_action_key b \<noteq> strip_tool_prefix action_key)
       (ExactEffectError (''Approval action '' @ repr_str (pe_action_key b) @
          '' does not match commit action '' @ repr_str (strip_tool_prefix action_key)))
     (res_bind (py_res (normalize_proposed_effect action_key raw)) (\<lambda>normalized.
      res_bind (py_res (compute_effect_hash rt normalized action_key)) (\<lambda>commit_hash.
      guard_or (commit_hash \<noteq> pe_hash b)
        (ExactEffectError ''Commit effect hash does not match approved effect'')
      (guard_or (fingerprint \<noteq> None \<and> truthy (pe_fingerprint b) \<and>
           opt_str fingerprint \<noteq> pe_fingerprint b)
        (ExactEffectError ''Resource precondition fingerprint changed since approval'')
        (Inr b)))))"

definition validate_committed_effect ::
  "runtime \<Rightarrow> int \<Rightarrow> approval_request \<Rightarrow> string \<Rightarrow> pyval dict \<Rightarrow> string option \<Rightarrow> bool \<Rightarrow>
   string option \<Rightarrow> string option \<Rightarrow> (hitl_error, proposed_effect) result" where
  "validate_committed_effect rt now approval action_key raw fingerprint require_consumed owner
     workflow_run_id =
     res_bind (check_commit_context approval require_consumed owner workflow_run_id) (\<lambda>_.
     res_bind (py_res (is_approval_expired rt now approval)) (\<lambda>expired.
     guard_or expired (ExactEffectError ''Approval expired before commit'')
     (res_bind (py_res (read_proposed_effect rt approval)) (\<lambda>bound.
      case bound of
        None \<Rightarrow> Inl (ExactEffectError ''Approval is missing canonical effect binding'')
      | Some b \<Rightarrow> check_bound_effect rt b action_key raw fingerprint))))"

section \<open>Edits\<close>

definition invalidate_approval_for_edit :: "int \<Rightarrow> string \<Rightarrow> approval_request \<Rightarrow> approval_request" where
  "invalidate_approval_for_edit now reason approval =
     approval\<lparr>aq_status := ''invalidated'', aq_reason := Some reason,
              aq_resolved_at := Some (Aware now),
              aq_payload := dset ''invalidated_by_edit'' (PBool True) (aq_payload approval)\<rparr>"

text \<open>The edited approval and its replacement, whose fresh id is \<open>new_id\<close>.\<close>

definition create_replacement_approval ::
  "runtime \<Rightarrow> int \<Rightarrow> string \<Rightarrow> approval_request \<Rightarrow> proposed_effect \<Rightarrow> string \<Rightarrow> string option \<Rightarrow>
   (hitl_error, approval_request \<times> approval_request) result" where
  "create_replacement_approval rt now new_id approval e owner_id reason =
     (if aq_status approval \<noteq> ''pending''
      then Inl (ExactEffectError ''Only pending approvals can be replaced by an edited effect'')
      else
        (let old = invalidate_approval_for_edit now ''Draft edited; replacement approval created'' approval;
             fresh = \<lparr>aq_id = new_id, aq_project_id = aq_project_id old, aq_task_id = aq_task_id old,
                aq_run_id = aq_run_id old, aq_issue_link_id = aq_issue_link_id old,
                aq_requested_by = Some owner_id, aq_approved_by = None,
                aq_approval_type = aq_approval_type old, aq_status = ''pending'',
                aq_reason = Some (str_or (opt_str reason) ''Approve the revised effect''),
                aq_payload = aq_payload old, aq_effect_hash = None, aq_effect_version = 1,
                aq_fingerprint = PNone, aq_expires_at = None, aq_proposed_effect = [],
                aq_workspace_id = None, aq_delegations = [], aq_escalation_state = [],
                aq_sla_policy = [], aq_due_at = None, aq_created_at = now, aq_resolved_at = None,
                aq_eligible = [], aq_routing = [], aq_decided_reason = None\<rparr>;
             bound = apply_proposed_effect_to_approval rt fresh (e\<lparr>pe_replaces := Some (aq_id old)\<rparr>);
             p = aq_payload bound;
             p = (if dhas p ''draft_arguments'' \<or>
                     starts_with_any [''gmail.'', ''outlook.''] (pe_action_key e)
                  then dset ''draft_arguments'' (PDict (pe_normalized e)) p else p)
         in Inr (old, bound\<lparr>aq_payload := p\<rparr>)))"

section \<open>Facts\<close>

subsection \<open>Normalisation\<close>

lemma dget_filter_not_has:
  "dget (filter (\<lambda>kv. \<not> dhas f (fst kv)) d) k = (if dhas f k then None else dget d k)"
  by (induction d) auto

lemma dget_first:
  "dget (List.map_filter (\<lambda>k. map_option (\<lambda>v. (k, v)) (dget a k)) ks) k =
     (if k \<in> set ks then dget a k else None)"
proof (induction ks)
  case (Cons j ks)
  then show ?case by (cases "dget a j") (auto simp: map_filter_simps)
qed (simp add: map_filter_simps)

text \<open>The generic normal form holds the same arguments under the same keys.\<close>

lemma dget_normalize_generic [simp]: "dget (normalize_generic a) k = dget a k"
proof -
  let ?f = "List.map_filter (\<lambda>k. map_option (\<lambda>v. (k, v)) (dget a k)) binding_keys"
  have "dhas ?f k \<longleftrightarrow> dget ?f k \<noteq> None" by (simp add: dhas_def map_of_eq_None_iff)
  then show ?thesis
    by (auto simp: normalize_generic_def Let_def map_add_def dget_filter_not_has dget_first
        split: option.splits)
qed

lemma sget_dset: "sget (dset j v a) k = (if k = j then str_or v [] else sget a k)"
  by (simp add: sget_def)

lemma strip_prefix_keys:
  assumes "strip_tool_prefix (strip_tool_prefix k) = strip_tool_prefix k"
  shows "hashed_form n (strip_tool_prefix k) = hashed_form n k"
  using assms by (simp add: hashed_form_def)

lemma map_of_filter_key: "map_of xs k = map_of (filter (\<lambda>p. fst p = k) xs) k"
  by (induction xs) auto

lemma map_of_sort_key [simp]: "map_of (sort_key fst xs) k = map_of xs (k :: string)"
  by (metis map_of_filter_key sort_key_stable)

text \<open>Dictionaries with the same canonical text agree on every key.\<close>

lemma sort_keys_dict_eq:
  assumes "sort_keys (PDict a) = sort_keys (PDict b)"
  shows "map_option sort_keys (dget a k) = map_option sort_keys (dget b k)"
proof -
  let ?s = "\<lambda>d. sort_key fst (map (\<lambda>(k, v). (k, sort_keys v)) d)"
  have "map_of (?s d) k = map_option sort_keys (dget d k)" for d
    by (simp add: map_of_map)
  moreover have "?s a = ?s b" using assms by simp
  ultimately show ?thesis by metis
qed

subsection \<open>Reading a binding back\<close>

lemma build_Inr:
  assumes "build_proposed_effect rt k raw fp v ex rep now = Inr e"
  obtains n c where "normalize_proposed_effect k raw = Inr n" "hashed_form n k = Inr c"
    "pe_normalized e = n" "pe_hash e = arguments_hash (rt_sha rt) c"
    "pe_action_key e = strip_tool_prefix k" "pe_fingerprint e = opt_str fp" "pe_version e = max 1 v"
    "pe_expires_at e = (case ex of None \<Rightarrow> Some (default_effect_expiry now) | t \<Rightarrow> t)"
    "pe_replaces e = rep"
proof -
  obtain n where n: "normalize_proposed_effect k raw = Inr n"
    using assms by (cases "normalize_proposed_effect k raw") (auto simp: build_proposed_effect_def)
  obtain c where c: "hashed_form n k = Inr c"
    using assms n by (cases "hashed_form n k")
      (auto simp: build_proposed_effect_def compute_effect_hash_def)
  have "e = \<lparr>pe_action_key = strip_tool_prefix k, pe_normalized = n,
      pe_hash = arguments_hash (rt_sha rt) c, pe_fingerprint = opt_str fp, pe_version = max 1 v,
      pe_expires_at = (case ex of None \<Rightarrow> Some (default_effect_expiry now) | t \<Rightarrow> t),
      pe_replaces = rep\<rparr>"
    using assms n c by (simp add: build_proposed_effect_def compute_effect_hash_def)
  with n c show thesis by (intro that) simp_all
qed

lemma apply_fields [simp]:
  "aq_status (apply_proposed_effect_to_approval rt a e) = aq_status a"
  "aq_effect_hash (apply_proposed_effect_to_approval rt a e) = Some (pe_hash e)"
  "aq_effect_version (apply_proposed_effect_to_approval rt a e) = pe_version e"
  "aq_fingerprint (apply_proposed_effect_to_approval rt a e) = pe_fingerprint e"
  "aq_expires_at (apply_proposed_effect_to_approval rt a e) = pe_expires_at e"
  "aq_proposed_effect (apply_proposed_effect_to_approval rt a e) = pe_normalized e"
  "aq_approval_type (apply_proposed_effect_to_approval rt a e) = aq_approval_type a"
  "aq_requested_by (apply_proposed_effect_to_approval rt a e) = aq_requested_by a"
  "aq_approved_by (apply_proposed_effect_to_approval rt a e) = aq_approved_by a"
  by (simp_all add: apply_proposed_effect_to_approval_def Let_def)

lemma apply_payload:
  "pget (aq_payload (apply_proposed_effect_to_approval rt a e)) k =
     (if k = ''proposed_effect'' then PDict (pe_normalized e)
      else if k = ''replaces_approval_request_id'' \<and> truthy (opt_str (pe_replaces e))
      then opt_str (pe_replaces e)
      else if k = ''expires_at'' \<and> pe_expires_at e \<noteq> None
      then PStr (rt_iso rt (the (pe_expires_at e)))
      else if k = ''precondition_fingerprint'' then pe_fingerprint e
      else if k = ''effect_version'' then PInt (pe_version e)
      else if k = ''effect_hash'' \<or> k = ''arguments_hash'' then PStr (pe_hash e)
      else if k = ''action_key'' then PStr (pe_action_key e)
      else pget (aq_payload a) k)"
  by (auto simp: apply_proposed_effect_to_approval_def Let_def split: option.splits)

text \<open>
  A row that carries the binding of an effect. Decisions, consumption and every other change of
  the row outside these fields keep it.
\<close>

definition bound_to :: "approval_request \<Rightarrow> proposed_effect \<Rightarrow> bool" where
  "bound_to a e \<longleftrightarrow>
     aq_proposed_effect a = pe_normalized e \<and> aq_effect_version a = pe_version e \<and>
     aq_fingerprint a = pe_fingerprint e \<and> aq_expires_at a = pe_expires_at e \<and>
     pget (aq_payload a) ''action_key'' = PStr (pe_action_key e) \<and>
     pget (aq_payload a) ''precondition_fingerprint'' = pe_fingerprint e"

lemma bound_apply: "bound_to (apply_proposed_effect_to_approval rt a e) e"
  by (simp add: bound_to_def apply_payload)

lemma read_bound:
  assumes "bound_to a e" "pe_action_key e \<noteq> []" "pe_normalized e \<noteq> []" "pe_version e \<ge> 1"
    and "compute_effect_hash rt (pe_normalized e) (pe_action_key e) = Inr (pe_hash e)" "pe_hash e \<noteq> []"
    and "pe_expires_at e \<noteq> None"
  obtains b where "read_proposed_effect rt a = Inr (Some b)"
    "pe_action_key b = strip_tool_prefix (pe_action_key e)" "pe_hash b = pe_hash e"
    "pe_normalized b = pe_normalized e" "pe_version b = pe_version e"
    "pe_expires_at b = pe_expires_at e" "truthy (pe_fingerprint b) \<Longrightarrow> pe_fingerprint b = pe_fingerprint e"
proof -
  have key: "bound_action_key a = pe_action_key e"
    using assms(1,2) by (simp add: bound_action_key_def bound_to_def Let_def py_or_def str_or_def)
  have eff: "stored_effect a = Inr (pe_normalized e)"
    using assms(1,3) by (simp add: stored_effect_def bound_to_def)
  have exp: "stored_expiry rt a = pe_expires_at e"
    using assms(1,7) by (auto simp: stored_expiry_def bound_to_def)
  have ver: "py_int (py_or (PInt (aq_effect_version a)) v) = Inr (pe_version e)" for v
    using assms(1,4) by (simp add: bound_to_def py_or_def py_int_def)
  obtain b where b: "read_proposed_effect rt a = Inr (Some b)"
    and f: "b = \<lparr>pe_action_key = strip_tool_prefix (pe_action_key e), pe_normalized = pe_normalized e,
      pe_hash = pe_hash e,
      pe_fingerprint = py_or (aq_fingerprint a) (py_or (pget (aq_payload a) ''precondition_fingerprint'') PNone),
      pe_version = pe_version e, pe_expires_at = pe_expires_at e,
      pe_replaces = (let r = sget (aq_payload a) ''replaces_approval_request_id'' in
                     if r = [] then None else Some r)\<rparr>"
    unfolding read_proposed_effect_def by (simp add: key eff exp ver assms(2,3,5,6) Let_def)
  show thesis
    by (rule that [OF b]) (use assms(1) in \<open>auto simp: f bound_to_def py_or_def split: if_splits\<close>)
qed

definition commit_context_ok ::
  "approval_request \<Rightarrow> bool \<Rightarrow> string option \<Rightarrow> string option \<Rightarrow> bool" where
  "commit_context_ok a require_consumed owner workflow_run_id \<longleftrightarrow>
     (require_consumed \<longrightarrow>
        truthy (pget (aq_payload a) ''_consumed_at'') \<or> truthy (pget (aq_payload a) ''consumed_at'')) \<and>
     (truthy (opt_str owner) \<and> payload_owner a \<noteq> [] \<longrightarrow> Some (payload_owner a) = owner) \<and>
     (truthy (opt_str workflow_run_id) \<and> sget (aq_payload a) ''workflow_run_id'' \<noteq> [] \<longrightarrow>
        Some (sget (aq_payload a) ''workflow_run_id'') = workflow_run_id)"

lemma py_res_Inr [simp]: "py_res r = Inr x \<longleftrightarrow> r = Inr x"
  by (auto simp: py_res_def split: sum.splits)

text \<open>The commit-time validation succeeds exactly under these conditions.\<close>

lemma validate_iff:
  "validate_committed_effect rt now a k raw fp rc owner wr = Inr b \<longleftrightarrow>
     aq_status a = ''approved'' \<and> commit_context_ok a rc owner wr \<and>
     read_proposed_effect rt a = Inr (Some b) \<and>
     (\<forall>t. pe_expires_at b = Some t \<longrightarrow> now < instant t) \<and>
     pe_action_key b = strip_tool_prefix k \<and>
     (\<exists>n. normalize_proposed_effect k raw = Inr n \<and> compute_effect_hash rt n k = Inr (pe_hash b)) \<and>
     (fp \<noteq> None \<and> truthy (pe_fingerprint b) \<longrightarrow> opt_str fp = pe_fingerprint b)"
proof -
  have ctx: "check_commit_context a rc owner wr = Inr u \<longleftrightarrow>
      aq_status a = ''approved'' \<and> commit_context_ok a rc owner wr" for u
    by (auto simp: check_commit_context_def commit_context_ok_def Let_def)
  have eff: "check_bound_effect rt x k raw fp = Inr b \<longleftrightarrow>
      x = b \<and> pe_action_key b = strip_tool_prefix k \<and>
      (\<exists>n. normalize_proposed_effect k raw = Inr n \<and> compute_effect_hash rt n k = Inr (pe_hash b)) \<and>
      (fp \<noteq> None \<and> truthy (pe_fingerprint b) \<longrightarrow> opt_str fp = pe_fingerprint b)" for x
    by (auto simp: check_bound_effect_def)
  show ?thesis
    unfolding validate_committed_effect_def is_approval_expired_def
    by (cases "read_proposed_effect rt a") (auto simp: ctx eff split: option.splits)
qed

lemma build_compute:
  assumes "build_proposed_effect rt k raw fp v ex rep t0 = Inr e"
    and "strip_tool_prefix (strip_tool_prefix k) = strip_tool_prefix k"
  shows "compute_effect_hash rt (pe_normalized e) (pe_action_key e) = Inr (pe_hash e)"
  using build_Inr [OF assms(1)] strip_prefix_keys [OF assms(2)]
  by (metis compute_effect_hash_def res_bind_simps(2))

lemma build_expiry:
  "build_proposed_effect rt k raw fp v ex rep t0 = Inr e \<Longrightarrow> pe_expires_at e \<noteq> None \<and> pe_version e \<ge> 1"
  by (erule build_Inr) (auto split: option.splits)

lemma arguments_hash_nonempty: "(\<And>s. rt_sha rt s \<noteq> []) \<Longrightarrow> arguments_hash (rt_sha rt) c \<noteq> []"
  by (simp add: arguments_hash_def)

text \<open>What reading the row of a built effect gives.\<close>

lemma read_built:
  assumes "build_proposed_effect rt k raw fp v ex rep t0 = Inr e" "bound_to a e"
    and "\<And>s. rt_sha rt s \<noteq> []" "strip_tool_prefix k \<noteq> []"
    and "strip_tool_prefix (strip_tool_prefix k) = strip_tool_prefix k" "pe_normalized e \<noteq> []"
  obtains b where "read_proposed_effect rt a = Inr (Some b)" "pe_action_key b = strip_tool_prefix k"
    "pe_hash b = pe_hash e" "pe_expires_at b = pe_expires_at e"
    "truthy (pe_fingerprint b) \<longrightarrow> pe_fingerprint b = opt_str fp"
proof -
  obtain c where e: "pe_hash e = arguments_hash (rt_sha rt) c" "pe_action_key e = strip_tool_prefix k"
    "pe_fingerprint e = opt_str fp"
    using assms(1) by (rule build_Inr)
  then show thesis
    using read_bound [OF assms(2) _ assms(6) _ build_compute [OF assms(1,5)]]
      build_expiry [OF assms(1)] arguments_hash_nonempty [OF assms(3)] assms(4,5) that
    by metis
qed

text \<open>What a successful commit says of the approved and the committed arguments.\<close>

lemma commit_exact_core:
  assumes "build_proposed_effect rt k raw fp v ex rep t0 = Inr e" "bound_to a e"
    and "validate_committed_effect rt now a k' raw' fp' rc owner wr = Inr b"
    and "inj (rt_sha rt)" "\<And>s. rt_sha rt s \<noteq> []" "strip_tool_prefix k \<noteq> []"
    and "strip_tool_prefix (strip_tool_prefix k) = strip_tool_prefix k" "pe_normalized e \<noteq> []"
  shows "aq_status a = ''approved'' \<and> strip_tool_prefix k' = strip_tool_prefix k \<and>
    (\<forall>t. pe_expires_at e = Some t \<longrightarrow> now < instant t) \<and>
    (\<exists>n c n' c'. normalize_proposed_effect k raw = Inr n \<and> hashed_form n k = Inr c \<and>
       normalize_proposed_effect k' raw' = Inr n' \<and> hashed_form n' k' = Inr c' \<and>
       sort_keys (PDict c') = sort_keys (PDict c))"
proof -
  obtain x where x: "read_proposed_effect rt a = Inr (Some x)" "pe_action_key x = strip_tool_prefix k"
    "pe_hash x = pe_hash e" "pe_expires_at x = pe_expires_at e"
    by (rule read_built [OF assms(1,2,5-8)])
  obtain n c where nc: "normalize_proposed_effect k raw = Inr n" "hashed_form n k = Inr c"
    "pe_hash e = arguments_hash (rt_sha rt) c"
    using assms(1) by (rule build_Inr)
  from assms(3) x have v: "aq_status a = ''approved''" "strip_tool_prefix k = strip_tool_prefix k'"
    "\<forall>t. pe_expires_at e = Some t \<longrightarrow> now < instant t"
    "\<exists>n'. normalize_proposed_effect k' raw' = Inr n' \<and> compute_effect_hash rt n' k' = Inr (pe_hash e)"
    unfolding validate_iff by auto
  then obtain n' c' where n': "normalize_proposed_effect k' raw' = Inr n'" "hashed_form n' k' = Inr c'"
    "arguments_hash (rt_sha rt) c' = arguments_hash (rt_sha rt) c"
    using nc(3) by (auto simp: compute_effect_hash_def)
  have "sort_keys (PDict c') = sort_keys (PDict c)"
    by (rule arguments_hash_eq [OF n'(3)]) (rule injD [OF assms(4)])
  with v nc n' show ?thesis by metis
qed

end
