(* ===== verification/Commit_Authorization.thy ===== *)
theory Commit_Authorization
  imports Exact_Effect
begin

text \<open>
  Commit-time authorization, \<open>orchestration/execution/hitl/commit_authorization.py\<close>: validating the
  approved effect, claiming a durable idempotency row, and recording what became of the external
  action. The rows are those of \<open>approval_requests\<close>, \<open>external_action_executions\<close> and the audit log.

  The recheck of the approver is an argument of the claim. \<open>race\<close> says that another transaction
  inserted the same key between the lookup and the flush, so the unique constraint fails.
\<close>

section \<open>Rows\<close>

record external_execution =
  ex_id :: string
  ex_owner_id :: string
  ex_installation :: "string option"
  ex_workflow_run_id :: "string option"
  ex_approval_id :: "string option"
  ex_action_key :: string
  ex_key :: string
  ex_arguments_hash :: string
  ex_status :: string
  ex_result_id :: "string option"
  ex_result :: "pyval dict"
  ex_error :: "string option"

record commit_db =
  cd_approvals :: "approval_request list"
  cd_executions :: "external_execution list"
  cd_audit :: "(string \<times> string) list"

record commit_claim =
  cc_execution :: external_execution
  cc_approval :: approval_request
  cc_effect :: proposed_effect
  cc_replayed :: bool

definition get_approval :: "commit_db \<Rightarrow> string \<Rightarrow> approval_request option" where
  "get_approval db i = find (\<lambda>a. aq_id a = i) (cd_approvals db)"

definition find_execution :: "commit_db \<Rightarrow> string \<Rightarrow> external_execution option" where
  "find_execution db key = find (\<lambda>e. ex_key e = key) (cd_executions db)"

definition update_execution ::
  "string \<Rightarrow> (external_execution \<Rightarrow> external_execution) \<Rightarrow> commit_db \<Rightarrow> commit_db" where
  "update_execution key f db =
     db\<lparr>cd_executions := map (\<lambda>e. if ex_key e = key then f e else e) (cd_executions db)\<rparr>"

definition update_approval ::
  "string \<Rightarrow> (approval_request \<Rightarrow> approval_request) \<Rightarrow> commit_db \<Rightarrow> commit_db" where
  "update_approval i f db =
     db\<lparr>cd_approvals := map (\<lambda>a. if aq_id a = i then f a else a) (cd_approvals db)\<rparr>"

definition log_audit :: "string \<Rightarrow> string \<Rightarrow> commit_db \<Rightarrow> commit_db" where
  "log_audit action resource_id db = db\<lparr>cd_audit := cd_audit db @ [(action, resource_id)]\<rparr>"

section \<open>The claim\<close>

definition build_idempotency_key :: "runtime \<Rightarrow> pyval list \<Rightarrow> string" where
  "build_idempotency_key rt parts =
     rt_sha rt (py_join '':''
       (filter (\<lambda>s. s \<noteq> []) (map py_str (filter (\<lambda>p. p \<noteq> PNone) parts))))"

type_synonym recheck = "approval_request \<Rightarrow> (hitl_error, unit) result"

text \<open>Only the named error is turned into a commit error; any other one passes through.\<close>

definition recheck_approver :: "recheck \<Rightarrow> approval_request \<Rightarrow> (hitl_error, unit) result" where
  "recheck_approver recheck approval =
     (if \<not> truthy (opt_str (aq_approved_by approval))
      then Inl (CommitAuthorizationError ''Approval requires an eligible approver decision'')
      else case recheck approval of
        Inl (ApproverEligibilityError m) \<Rightarrow> Inl (CommitAuthorizationError m)
      | r \<Rightarrow> r)"

definition validated_effect ::
  "runtime \<Rightarrow> int \<Rightarrow> approval_request \<Rightarrow> string \<Rightarrow> pyval dict \<Rightarrow> string option \<Rightarrow> bool \<Rightarrow> string \<Rightarrow>
   string option \<Rightarrow> (hitl_error, proposed_effect) result" where
  "validated_effect rt now approval action_key raw fingerprint require_consumed owner_id run_id =
     (case validate_committed_effect rt now approval action_key raw fingerprint require_consumed
             (Some owner_id) run_id of
        Inl (ExactEffectError m) \<Rightarrow> Inl (CommitAuthorizationError m)
      | r \<Rightarrow> r)"

text \<open>What an existing row with the same key allows.\<close>

definition REUSABLE_STATUSES :: "string list" where
  [guard_defs]: "REUSABLE_STATUSES = [''claimed'', ''sending'', ''retryable_failure'']"

definition reuse_execution ::
  "external_execution \<Rightarrow> string \<Rightarrow> approval_request \<Rightarrow> proposed_effect \<Rightarrow>
   (hitl_error, commit_claim) result" where
  "reuse_execution existing args_hash approval e =
     (if ex_arguments_hash existing \<noteq> args_hash
      then Inl (CommitAuthorizationError ''Idempotency key was reused with different content'')
      else if ex_status existing = ''succeeded''
      then Inr \<lparr>cc_execution = existing, cc_approval = approval, cc_effect = e, cc_replayed = True\<rparr>
      else if ex_status existing \<in> set REUSABLE_STATUSES
      then Inr \<lparr>cc_execution = existing, cc_approval = approval, cc_effect = e, cc_replayed = False\<rparr>
      else Inl (CommitAuthorizationError
        (str_or (opt_str (ex_error existing))
          (''External action blocked in status '' @ ex_status existing))))"

record claim_request =
  cr_owner_id :: string
  cr_action_key :: string
  cr_raw_arguments :: "pyval dict"
  cr_approval_id :: string
  cr_key :: string
  cr_arguments_hash :: string
  cr_installation :: "string option"
  cr_workflow_run_id :: "string option"
  cr_require_consumed :: bool
  cr_fingerprint :: "string option"
  cr_require_approver :: bool

definition new_execution :: "string \<Rightarrow> claim_request \<Rightarrow> external_execution" where
  "new_execution new_id cr =
     \<lparr>ex_id = new_id, ex_owner_id = cr_owner_id cr, ex_installation = cr_installation cr,
      ex_workflow_run_id = cr_workflow_run_id cr, ex_approval_id = Some (cr_approval_id cr),
      ex_action_key = cr_action_key cr, ex_key = cr_key cr,
      ex_arguments_hash = cr_arguments_hash cr, ex_status = ''claimed'', ex_result_id = None,
      ex_result = [], ex_error = None\<rparr>"

definition authorize_and_claim_execution ::
  "runtime \<Rightarrow> int \<Rightarrow> recheck \<Rightarrow> bool \<Rightarrow> string \<Rightarrow> commit_db \<Rightarrow> claim_request \<Rightarrow>
   commit_db \<times> (hitl_error, commit_claim) result" where
  "authorize_and_claim_execution rt now recheck race new_id db cr =
     (let err = (\<lambda>m. (db, Inl (CommitAuthorizationError m))) in
      case get_approval db (cr_approval_id cr) of
        None \<Rightarrow> err ''Approval request not found''
      | Some approval \<Rightarrow>
          if aq_status approval \<noteq> ''approved''
          then err (''Approval status '' @ repr_str (aq_status approval) @ '' is not committable'')
          else case (if cr_require_approver cr then recheck_approver recheck approval else Inr ()) of
            Inl e \<Rightarrow> (db, Inl e)
          | Inr _ \<Rightarrow>
              (case validated_effect rt now approval (cr_action_key cr) (cr_raw_arguments cr)
                      (cr_fingerprint cr) (cr_require_consumed cr) (cr_owner_id cr)
                      (cr_workflow_run_id cr) of
                 Inl e \<Rightarrow> (db, Inl e)
               | Inr eff \<Rightarrow>
                   (case find_execution db (cr_key cr) of
                      Some existing \<Rightarrow>
                        (db, reuse_execution existing (cr_arguments_hash cr) approval eff)
                    | None \<Rightarrow>
                        if race then err ''Concurrent duplicate external action blocked''
                        else
                          (let x = new_execution new_id cr in
                           (db\<lparr>cd_executions := cd_executions db @ [x]\<rparr>,
                            Inr \<lparr>cc_execution = x, cc_approval = approval, cc_effect = eff,
                                 cc_replayed = False\<rparr>)))))"

section \<open>Outcomes\<close>

definition mark_execution_sending :: "string \<Rightarrow> string \<Rightarrow> external_execution \<Rightarrow> commit_db \<Rightarrow> commit_db" where
  "mark_execution_sending owner_id audit_action x db =
     log_audit audit_action (ex_id x) (update_execution (ex_key x) (\<lambda>e. e\<lparr>ex_status := ''sending''\<rparr>) db)"

definition mark_execution_succeeded ::
  "string \<Rightarrow> string \<Rightarrow> pyval dict \<Rightarrow> string option \<Rightarrow> external_execution \<Rightarrow> commit_db \<Rightarrow>
   commit_db \<times> pyval dict" where
  "mark_execution_succeeded owner_id audit_action result_json result_id x db =
     (log_audit audit_action (ex_id x)
        (update_execution (ex_key x)
          (\<lambda>e. e\<lparr>ex_status := ''succeeded'', ex_result_id := result_id, ex_result := result_json,
                 ex_error := None\<rparr>) db),
      result_json)"

definition mark_execution_failed ::
  "string \<Rightarrow> bool \<Rightarrow> string option \<Rightarrow> external_execution \<Rightarrow> commit_db \<Rightarrow> commit_db" where
  "mark_execution_failed err retryable audit_action x db =
     (let db' = update_execution (ex_key x)
            (\<lambda>e. e\<lparr>ex_status := (if retryable then ''retryable_failure'' else ''failed''),
                   ex_error := Some err\<rparr>) db in
      if truthy (opt_str audit_action) then log_audit (the audit_action) (ex_id x) db' else db')"

definition mark_execution_stale ::
  "string \<Rightarrow> external_execution \<Rightarrow> approval_request \<Rightarrow> commit_db \<Rightarrow> commit_db" where
  "mark_execution_stale err x approval db =
     update_approval (aq_id approval)
       (\<lambda>a. a\<lparr>aq_status := ''stale'', aq_reason := Some err,
              aq_payload := dset ''stale_reason'' (PStr err) (aq_payload a)\<rparr>)
       (update_execution (ex_key x) (\<lambda>e. e\<lparr>ex_status := ''stale'', ex_error := Some err\<rparr>) db)"

definition mark_execution_outcome_unknown ::
  "string \<Rightarrow> external_execution \<Rightarrow> commit_db \<Rightarrow> commit_db" where
  "mark_execution_outcome_unknown err x db =
     update_execution (ex_key x) (\<lambda>e. e\<lparr>ex_status := ''outcome_unknown'', ex_error := Some err\<rparr>) db"

section \<open>The ledger\<close>

text \<open>
  What the adapters rely on: the ledger keeps one row per key, an update of a key changes the row
  of that key and no other, and a row once inserted stays.
\<close>

locale ledger =
  fixes row :: "'s \<Rightarrow> string \<Rightarrow> 'r option"
    and upd :: "string \<Rightarrow> ('r \<Rightarrow> 'r) \<Rightarrow> 's \<Rightarrow> 's"
    and key_of :: "'r \<Rightarrow> string"
  assumes row_upd: "(\<And>r. key_of (f r) = key_of r) \<Longrightarrow>
      row (upd k f s) j = (if j = k then map_option f (row s j) else row s j)"
    and row_key: "row s k = Some r \<Longrightarrow> key_of r = k"
begin

lemma row_upd_same:
  "(\<And>r. key_of (f r) = key_of r) \<Longrightarrow> row s k = Some r \<Longrightarrow> row (upd k f s) k = Some (f r)"
  by (simp add: row_upd)

lemma row_upd_other: "(\<And>r. key_of (f r) = key_of r) \<Longrightarrow> j \<noteq> k \<Longrightarrow> row (upd k f s) j = row s j"
  by (simp add: row_upd)

lemma row_upd_None: "(\<And>r. key_of (f r) = key_of r) \<Longrightarrow> row (upd k f s) j = None \<longleftrightarrow> row s j = None"
  by (simp add: row_upd)

end

lemma find_map_key:
  assumes "\<And>x. key (f x) = key x"
  shows "find (\<lambda>x. key x = j) (map (\<lambda>x. if key x = k then f x else x) xs) =
    (if j = k then map_option f (find (\<lambda>x. key x = j) xs) else find (\<lambda>x. key x = j) xs)"
  by (induction xs) (auto simp: assms)

interpretation executions: ledger find_execution update_execution ex_key
  by unfold_locales (simp add: find_execution_def update_execution_def find_map_key,
    auto simp: find_execution_def find_Some_iff)

interpretation approvals: ledger get_approval update_approval aq_id
  by unfold_locales (simp add: get_approval_def update_approval_def find_map_key,
    auto simp: get_approval_def find_Some_iff)

text \<open>The status of a key, and how each outcome moves it.\<close>

definition exec_status :: "commit_db \<Rightarrow> string \<Rightarrow> string option" where
  "exec_status db k = map_option ex_status (find_execution db k)"

lemma log_audit_frame [simp]:
  "find_execution (log_audit a i db) k = find_execution db k"
  "get_approval (log_audit a i db) j = get_approval db j"
  "exec_status (log_audit a i db) k = exec_status db k"
  by (simp_all add: log_audit_def find_execution_def get_approval_def exec_status_def)

lemma update_frames [simp]:
  "get_approval (update_execution k f db) j = get_approval db j"
  "find_execution (update_approval i g db) k = find_execution db k"
  "exec_status (update_approval i g db) k = exec_status db k"
  by (simp_all add: get_approval_def update_execution_def find_execution_def update_approval_def
      exec_status_def)

lemma exec_status_mark:
  assumes "\<And>e. ex_key (f e) = ex_key e" "\<And>e. ex_status (f e) = s"
  shows "exec_status (update_execution k f db) j =
    (if j = k then map_option (\<lambda>_. s) (exec_status db j) else exec_status db j)"
  by (simp add: exec_status_def executions.row_upd [OF assms(1)] option.map_comp comp_def assms(2))

lemma mark_status:
  "exec_status (mark_execution_sending ow a x db) k =
     (if k = ex_key x then map_option (\<lambda>_. ''sending'') (exec_status db k) else exec_status db k)"
  "exec_status (fst (mark_execution_succeeded ow a r ri x db)) k =
     (if k = ex_key x then map_option (\<lambda>_. ''succeeded'') (exec_status db k) else exec_status db k)"
  "exec_status (mark_execution_failed m retry au x db) k =
     (if k = ex_key x
      then map_option (\<lambda>_. if retry then ''retryable_failure'' else ''failed'') (exec_status db k)
      else exec_status db k)"
  "exec_status (mark_execution_stale m x ap db) k =
     (if k = ex_key x then map_option (\<lambda>_. ''stale'') (exec_status db k) else exec_status db k)"
  "exec_status (mark_execution_outcome_unknown m x db) k =
     (if k = ex_key x then map_option (\<lambda>_. ''outcome_unknown'') (exec_status db k)
      else exec_status db k)"
  by (simp_all add: mark_execution_sending_def mark_execution_succeeded_def mark_execution_failed_def
      mark_execution_stale_def mark_execution_outcome_unknown_def exec_status_mark Let_def)

text \<open>One row per key, kept by the claim and by every outcome.\<close>

definition unique_keys :: "commit_db \<Rightarrow> bool" where
  "unique_keys db \<longleftrightarrow> distinct (map ex_key (cd_executions db))"

lemma unique_keys_update:
  assumes "\<And>e. ex_key (f e) = ex_key e"
  shows "unique_keys (update_execution k f db) = unique_keys db"
proof -
  have "map ex_key (map (\<lambda>e. if ex_key e = k then f e else e) es) = map ex_key es" for es
    by (induction es) (simp_all add: assms)
  then show ?thesis by (simp add: unique_keys_def update_execution_def del: map_map)
qed

lemma unique_keys_frames [simp]:
  "unique_keys (log_audit a i db) = unique_keys db"
  "unique_keys (update_approval i g db) = unique_keys db"
  by (simp_all add: unique_keys_def log_audit_def update_approval_def)

lemma unique_keys_marks:
  assumes "unique_keys db"
  shows "unique_keys (mark_execution_sending ow a x db)"
    "unique_keys (fst (mark_execution_succeeded ow a r ri x db))"
    "unique_keys (mark_execution_failed m retry au x db)"
    "unique_keys (mark_execution_stale m x ap db)"
    "unique_keys (mark_execution_outcome_unknown m x db)"
  using assms
  by (simp_all add: mark_execution_sending_def mark_execution_succeeded_def mark_execution_failed_def
      mark_execution_stale_def mark_execution_outcome_unknown_def unique_keys_update Let_def)

section \<open>What a claim says\<close>

lemma claim_Inr:
  assumes "authorize_and_claim_execution rt now recheck race new_id db cr = (db', Inr c)"
  obtains approval where
    "get_approval db (cr_approval_id cr) = Some approval" "aq_status approval = ''approved''"
    "cc_approval c = approval"
    "validate_committed_effect rt now approval (cr_action_key cr) (cr_raw_arguments cr) (cr_fingerprint cr)
       (cr_require_consumed cr) (Some (cr_owner_id cr)) (cr_workflow_run_id cr) = Inr (cc_effect c)"
    "cr_require_approver cr \<Longrightarrow> recheck_approver recheck approval = Inr ()"
    "(find_execution db (cr_key cr) = None \<and> \<not> race \<and> cc_execution c = new_execution new_id cr \<and>
        \<not> cc_replayed c \<and> db' = db\<lparr>cd_executions := cd_executions db @ [cc_execution c]\<rparr>) \<or>
     (find_execution db (cr_key cr) = Some (cc_execution c) \<and> db' = db \<and>
        ex_arguments_hash (cc_execution c) = cr_arguments_hash cr \<and>
        (if cc_replayed c then ex_status (cc_execution c) = ''succeeded''
         else ex_status (cc_execution c) \<in> set REUSABLE_STATUSES))"
proof -
  obtain approval where a: "get_approval db (cr_approval_id cr) = Some approval"
    using assms by (cases "get_approval db (cr_approval_id cr)")
      (auto simp: authorize_and_claim_execution_def Let_def)
  have st: "aq_status approval = ''approved''"
    using assms a by (auto simp: authorize_and_claim_execution_def Let_def split: if_splits)
  have rc: "cr_require_approver cr \<Longrightarrow> recheck_approver recheck approval = Inr ()"
    using assms a st by (auto simp: authorize_and_claim_execution_def Let_def split: sum.splits)
  obtain eff where eff: "validated_effect rt now approval (cr_action_key cr) (cr_raw_arguments cr)
      (cr_fingerprint cr) (cr_require_consumed cr) (cr_owner_id cr) (cr_workflow_run_id cr) = Inr eff"
    using assms a st rc by (auto simp: authorize_and_claim_execution_def Let_def split: sum.splits if_splits)
  then have v: "validate_committed_effect rt now approval (cr_action_key cr) (cr_raw_arguments cr)
      (cr_fingerprint cr) (cr_require_consumed cr) (Some (cr_owner_id cr)) (cr_workflow_run_id cr) = Inr eff"
    by (auto simp: validated_effect_def split: sum.splits hitl_error.splits)
  have rest: "(case find_execution db (cr_key cr) of
        Some existing \<Rightarrow> (db, reuse_execution existing (cr_arguments_hash cr) approval eff)
      | None \<Rightarrow> if race then (db, Inl (CommitAuthorizationError ''Concurrent duplicate external action blocked''))
          else (db\<lparr>cd_executions := cd_executions db @ [new_execution new_id cr]\<rparr>,
             Inr \<lparr>cc_execution = new_execution new_id cr, cc_approval = approval, cc_effect = eff,
                  cc_replayed = False\<rparr>)) = (db', Inr c)"
    using assms a st rc eff
    by (cases "cr_require_approver cr"; cases "find_execution db (cr_key cr)"; cases race)
      (simp_all add: authorize_and_claim_execution_def Let_def)
  show thesis
  proof (rule that [OF a st _ _ rc])
    show "cc_approval c = approval"
      using rest by (auto simp: reuse_execution_def split: option.splits if_splits)
    show "validate_committed_effect rt now approval (cr_action_key cr) (cr_raw_arguments cr)
      (cr_fingerprint cr) (cr_require_consumed cr) (Some (cr_owner_id cr)) (cr_workflow_run_id cr) =
        Inr (cc_effect c)"
      using rest v by (auto simp: reuse_execution_def split: option.splits if_splits)
  qed (use rest in \<open>auto simp: reuse_execution_def split: option.splits if_splits\<close>)
qed

end
