(* ===== verification/Exactly_Once.thy ===== *)
theory Exactly_Once
  imports Commit_Authorization
begin

text \<open>
  The adapters that execute an approved external effect exactly once: \<open>send_draft_exactly_once\<close> of
  \<open>integrations/gmail.py\<close> and \<open>outlook.py\<close>, \<open>post_message_exactly_once\<close> of \<open>slack.py\<close> and
  \<open>_mutation_exactly_once\<close> of \<open>jira.py\<close> (the one of \<open>linear.py\<close>, \<open>hubspot.py\<close> and \<open>salesforce.py\<close> is
  the same text over another error class).

  The provider's HTTP API is a parameter: a response dictionary or an \<open>api_error\<close>. Every request
  that can deliver the effect is recorded, with its idempotency key and whether the provider
  accepted it. An exception keeps the rows flushed so far; the rollback of an aborted session and
  the audit metadata are not modelled.
\<close>

section \<open>State\<close>

record draft_metadata =
  dm_owner_id :: string
  dm_installation :: string
  dm_draft_id :: string
  dm_thread_id :: "string option"
  dm_thread_fingerprint :: string
  dm_content_hash :: string
  dm_status :: string

record adapter_state =
  st_db :: commit_db
  st_drafts :: "draft_metadata list"

record api_error =
  er_message :: string
  er_retryable :: bool
  er_status :: "int option"

datatype adapter_raise = ApiRaise api_error | OtherRaise hitl_error

type_synonym api_result = "(api_error, pyval dict) result"
type_synonym post_log = "(string \<times> bool) list"
type_synonym adapter_outcome = "adapter_state \<times> post_log \<times> (adapter_raise, pyval dict) result"

text \<open>The process-side inputs of a call: clock, fresh row id, lost race, installation.\<close>

record call_env =
  ce_rt :: runtime
  ce_now :: int
  ce_new_id :: string
  ce_race :: bool
  ce_owner_id :: string
  ce_installation :: string

definition api_fail :: "string \<Rightarrow> bool \<Rightarrow> adapter_raise" where
  "api_fail message retryable =
     ApiRaise \<lparr>er_message = message, er_retryable = retryable, er_status = None\<rparr>"

definition map_db :: "(commit_db \<Rightarrow> commit_db) \<Rightarrow> adapter_state \<Rightarrow> adapter_state" where
  "map_db f st = st\<lparr>st_db := f (st_db st)\<rparr>"

text \<open>The claim every adapter makes, and the key it makes it under.\<close>

definition adapter_request ::
  "call_env \<Rightarrow> string \<Rightarrow> pyval dict \<Rightarrow> string \<Rightarrow> string \<Rightarrow> claim_request" where
  "adapter_request env action_key arguments key args_hash =
     \<lparr>cr_owner_id = ce_owner_id env, cr_action_key = action_key, cr_raw_arguments = arguments,
      cr_approval_id = sget arguments ''approval_request_id'', cr_key = key,
      cr_arguments_hash = args_hash, cr_installation = Some (ce_installation env),
      cr_workflow_run_id = Some (sget arguments ''workflow_run_id''), cr_require_consumed = True,
      cr_fingerprint = None, cr_require_approver = False\<rparr>"

definition claim_for ::
  "call_env \<Rightarrow> adapter_state \<Rightarrow> claim_request \<Rightarrow> commit_db \<times> (hitl_error, commit_claim) result" where
  "claim_for env st cr =
     authorize_and_claim_execution (ce_rt env) (ce_now env) (\<lambda>_. Inr ()) (ce_race env)
       (ce_new_id env) (st_db st) cr"

definition CONCURRENT_DUPLICATE :: string where
  "CONCURRENT_DUPLICATE = ''Concurrent duplicate external action blocked''"

text \<open>How the adapters turn a commit error into their own; the email ones rename the race.\<close>

definition claim_error :: "hitl_error \<Rightarrow> adapter_raise" where
  "claim_error e = (case e of
       CommitAuthorizationError m \<Rightarrow> api_fail m (contains_str ''Concurrent duplicate'' m)
     | _ \<Rightarrow> OtherRaise e)"

definition email_claim_error :: "hitl_error \<Rightarrow> adapter_raise" where
  "email_claim_error e = (case e of
       CommitAuthorizationError m \<Rightarrow>
         api_fail (if m = CONCURRENT_DUPLICATE then ''Concurrent duplicate email send blocked'' else m)
           (contains_str ''Concurrent duplicate'' m)
     | _ \<Rightarrow> OtherRaise e)"

section \<open>Fingerprints\<close>

definition thread_fingerprint :: "runtime \<Rightarrow> pyval dict \<Rightarrow> string" where
  "thread_fingerprint rt thread =
     (let items = map dict_or_empty (list_or_empty (pget thread ''messages''));
          kept = filter (\<lambda>m. PStr ''DRAFT'' \<notin> set (list_or_empty (pget m ''labelIds''))) items;
          messages = map (\<lambda>m. PDict [(''id'', PStr (sget m ''id'')),
             (''history_id'', PStr (sget m ''historyId'')),
             (''internal_date'', PStr (sget m ''internalDate''))]) kept
      in arguments_hash (rt_sha rt)
           [(''thread_id'', PStr (sget thread ''id'')), (''messages'', PList messages)])"

definition outlook_thread_fingerprint :: "runtime \<Rightarrow> pyval dict \<Rightarrow> string" where
  "outlook_thread_fingerprint rt thread =
     (let items = map dict_or_empty (list_or_empty (pget thread ''value''));
          kept = filter (\<lambda>m. \<not> truthy (pget m ''isDraft'')) items;
          messages = map (\<lambda>m. PDict [(''id'', PStr (sget m ''id'')),
             (''last_modified'', PStr (sget m ''lastModifiedDateTime'')),
             (''received_at'', PStr (sget m ''receivedDateTime''))]) kept
      in arguments_hash (rt_sha rt)
           [(''conversation_id'', PStr (sget thread ''conversation_id'')),
            (''messages'', PList messages)])"

text \<open>\<open>json.dumps\<close> with the default separators, of a flat dictionary of strings.\<close>

definition json_flat_text :: "(string \<times> string) list \<Rightarrow> string" where
  "json_flat_text d =
     ''{'' @ py_join '', '' (map (\<lambda>(k, v). json_str k @ '': '' @ json_str v) (sort_key fst d)) @ ''}''"

definition slack_action_arguments_hash :: "runtime \<Rightarrow> pyval dict \<Rightarrow> string" where
  "slack_action_arguments_hash rt a =
     rt_sha rt (json_flat_text
       [(''channel'', sget a ''channel''), (''thread_ts'', sget a ''thread_ts''),
        (''text'', sget a ''text'')])"

section \<open>Gmail\<close>

record gmail_api =
  ga_get_draft :: "string \<Rightarrow> api_result"
  ga_get_thread :: "string \<Rightarrow> api_result"
  ga_send :: "string \<Rightarrow> api_result"

definition gmail_key :: "call_env \<Rightarrow> pyval dict \<Rightarrow> string" where
  "gmail_key env a = build_idempotency_key (ce_rt env)
     [PStr (sget a ''workflow_run_id''), PStr (sget a ''approval_request_id''),
      PStr (sget a ''gmail_draft_id''), PStr ''gmail.send_draft'']"

definition find_draft :: "call_env \<Rightarrow> string \<Rightarrow> adapter_state \<Rightarrow> draft_metadata option" where
  "find_draft env draft_id st =
     find (\<lambda>m. dm_owner_id m = ce_owner_id env \<and> dm_installation m = ce_installation env \<and>
               dm_draft_id m = draft_id) (st_drafts st)"

definition set_draft_status :: "call_env \<Rightarrow> string \<Rightarrow> string \<Rightarrow> adapter_state \<Rightarrow> adapter_state" where
  "set_draft_status env draft_id s st =
     st\<lparr>st_drafts := map (\<lambda>m. if dm_owner_id m = ce_owner_id env \<and>
            dm_installation m = ce_installation env \<and> dm_draft_id m = draft_id
          then m\<lparr>dm_status := s\<rparr> else m) (st_drafts st)\<rparr>"

definition UNKNOWN_OUTCOME :: string where
  "UNKNOWN_OUTCOME =
     ''Draft disappeared after an ambiguous send; manual reconciliation is required before retry''"

text \<open>
  After an attempt whose outcome is open, look whether the draft is still there. \<open>None\<close> lets the
  send proceed.
\<close>

definition reconcile_ambiguous_send ::
  "(string \<Rightarrow> api_result) \<Rightarrow> external_execution \<Rightarrow> string \<Rightarrow> adapter_state \<Rightarrow>
   adapter_state \<times> adapter_raise option" where
  "reconcile_ambiguous_send get_draft x draft_id st =
     (case get_draft draft_id of
        Inl e \<Rightarrow>
          if er_status e = Some 404
          then (map_db (mark_execution_outcome_unknown UNKNOWN_OUTCOME x) st,
                Some (api_fail UNKNOWN_OUTCOME False))
          else (st, Some (ApiRaise e))
      | Inr _ \<Rightarrow>
          if ex_status x = ''sending''
          then (st, Some (api_fail ''Email send is already in progress'' True))
          else (st, None))"

text \<open>The draft must still be the approved one, in an unchanged thread.\<close>

definition check_draft ::
  "call_env \<Rightarrow> (string \<Rightarrow> api_result) \<Rightarrow> (pyval dict \<Rightarrow> string) \<Rightarrow> string \<Rightarrow> commit_claim \<Rightarrow> string \<Rightarrow>
   string \<Rightarrow> adapter_state \<Rightarrow> adapter_state \<times> adapter_raise option" where
  "check_draft env get_thread fingerprint provider c draft_id args_hash st =
     (let x = cc_execution c;
          mismatch = ''Draft content does not match approval fingerprint'';
          reject = (map_db (mark_execution_failed mismatch False None x) st,
                    Some (api_fail mismatch False)) in
      case find_draft env draft_id st of
        None \<Rightarrow> reject
      | Some m \<Rightarrow>
          if dm_content_hash m \<noteq> args_hash then reject
          else if \<not> truthy (opt_str (dm_thread_id m)) then (st, None)
          else case get_thread (the (dm_thread_id m)) of
            Inl e \<Rightarrow> (st, Some (ApiRaise e))
          | Inr thread \<Rightarrow>
              if fingerprint thread = dm_thread_fingerprint m then (st, None)
              else
                (let msg = provider @ '' thread changed while approval was pending'' in
                 (map_db (mark_execution_stale msg x (cc_approval c))
                    (set_draft_status env draft_id ''stale'' st),
                  Some (api_fail msg False))))"

definition gmail_post ::
  "call_env \<Rightarrow> gmail_api \<Rightarrow> external_execution \<Rightarrow> string \<Rightarrow> adapter_state \<Rightarrow> adapter_outcome" where
  "gmail_post env api x draft_id st =
     (let owner = ce_owner_id env;
          st = map_db (mark_execution_sending owner ''connector.gmail.send_attempted'' x) st in
      case ga_send api draft_id of
        Inl e \<Rightarrow>
          (map_db (mark_execution_failed (er_message e) (er_retryable e)
             (Some ''connector.gmail.send_failed'') x) st, [(ex_key x, False)], Inl (ApiRaise e))
      | Inr sent \<Rightarrow>
          (map_db (\<lambda>db. fst (mark_execution_succeeded owner ''connector.gmail.send_succeeded'' sent
             (Some (sget sent ''id'')) x db)) (set_draft_status env draft_id ''sent'' st),
           [(ex_key x, True)], Inr sent))"

definition gmail_send_draft_exactly_once ::
  "call_env \<Rightarrow> gmail_api \<Rightarrow> adapter_state \<Rightarrow> pyval dict \<Rightarrow> adapter_outcome" where
  "gmail_send_draft_exactly_once env api st arguments =
     (let draft_id = sget arguments ''gmail_draft_id'' in
      if sget arguments ''workflow_run_id'' = [] \<or> sget arguments ''approval_request_id'' = [] \<or>
         draft_id = []
      then (st, [], Inl (api_fail
        ''gmail.send_draft requires workflow_run_id, approval_request_id, and gmail_draft_id'' False))
      else case email_action_arguments_hash (rt_sha (ce_rt env)) arguments of
        Inl e \<Rightarrow> (st, [], Inl (OtherRaise (PyError e)))
      | Inr args_hash \<Rightarrow>
          (case claim_for env st
              (adapter_request env ''gmail.send_draft'' arguments (gmail_key env arguments) args_hash) of
             (db, Inl e) \<Rightarrow> (st\<lparr>st_db := db\<rparr>, [], Inl (email_claim_error e))
           | (db, Inr c) \<Rightarrow>
               (let st = st\<lparr>st_db := db\<rparr>; x = cc_execution c in
                if cc_replayed c then (st, [], Inr (ex_result x))
                else case (if ex_status x \<in> {''sending'', ''retryable_failure''}
                           then reconcile_ambiguous_send (ga_get_draft api) x draft_id st
                           else (st, None)) of
                  (st, Some e) \<Rightarrow> (st, [], Inl e)
                | (st, None) \<Rightarrow>
                    (case check_draft env (ga_get_thread api) (thread_fingerprint (ce_rt env)) ''Gmail''
                            c draft_id args_hash st of
                       (st, Some e) \<Rightarrow> (st, [], Inl e)
                     | (st, None) \<Rightarrow> gmail_post env api x draft_id st))))"

section \<open>Outlook\<close>

record outlook_api =
  oa_get_draft :: "string \<Rightarrow> api_result"
  oa_get_thread :: "string \<Rightarrow> api_result"
  oa_send :: "string \<Rightarrow> api_result"
  oa_get_sent :: "string \<Rightarrow> api_result"

definition outlook_key :: "call_env \<Rightarrow> pyval dict \<Rightarrow> string" where
  "outlook_key env a = build_idempotency_key (ce_rt env)
     [PStr (sget a ''workflow_run_id''), PStr (sget a ''approval_request_id''),
      PStr (sget a ''outlook_draft_id''), PStr ''outlook.send_draft'']"

text \<open>
  The POST that sends and the GET that reads the sent message back are under one handler: a 404 of
  either counts as sent.
\<close>

definition outlook_post ::
  "call_env \<Rightarrow> outlook_api \<Rightarrow> external_execution \<Rightarrow> string \<Rightarrow> adapter_state \<Rightarrow> adapter_outcome" where
  "outlook_post env api x draft_id st =
     (let owner = ce_owner_id env;
          st = map_db (mark_execution_sending owner ''connector.outlook.send_attempted'' x) st;
          posted = oa_send api draft_id;
          log = [(ex_key x, case posted of Inl _ \<Rightarrow> False | Inr _ \<Rightarrow> True)];
          response = (case posted of Inl e \<Rightarrow> Inl e | Inr _ \<Rightarrow> oa_get_sent api draft_id);
          finish = (\<lambda>sent.
            (map_db (\<lambda>db. fst (mark_execution_succeeded owner ''connector.outlook.send_succeeded'' sent
               (Some (str_or (pget sent ''id'') draft_id)) x db)) (set_draft_status env draft_id ''sent'' st),
             log, Inr sent)) in
      case response of
        Inr sent \<Rightarrow> finish sent
      | Inl e \<Rightarrow>
          if er_status e = Some 404
          then finish [(''id'', PStr draft_id), (''status'', PStr ''sent'')]
          else (map_db (mark_execution_failed (er_message e) (er_retryable e)
                  (Some ''connector.outlook.send_failed'') x) st, log, Inl (ApiRaise e)))"

definition outlook_send_draft_exactly_once ::
  "call_env \<Rightarrow> outlook_api \<Rightarrow> adapter_state \<Rightarrow> pyval dict \<Rightarrow> adapter_outcome" where
  "outlook_send_draft_exactly_once env api st arguments =
     (let draft_id = sget arguments ''outlook_draft_id'' in
      if sget arguments ''workflow_run_id'' = [] \<or> sget arguments ''approval_request_id'' = [] \<or>
         draft_id = []
      then (st, [], Inl (api_fail
        ''outlook.send_draft requires workflow_run_id, approval_request_id, and outlook_draft_id'' False))
      else case outlook_email_action_arguments_hash (rt_sha (ce_rt env)) arguments of
        Inl e \<Rightarrow> (st, [], Inl (OtherRaise (PyError e)))
      | Inr args_hash \<Rightarrow>
          (case claim_for env st
              (adapter_request env ''outlook.send_draft'' arguments (outlook_key env arguments) args_hash) of
             (db, Inl e) \<Rightarrow> (st\<lparr>st_db := db\<rparr>, [], Inl (email_claim_error e))
           | (db, Inr c) \<Rightarrow>
               (let st = st\<lparr>st_db := db\<rparr>; x = cc_execution c in
                if cc_replayed c then (st, [], Inr (ex_result x))
                else case (if ex_status x \<in> {''sending'', ''retryable_failure''}
                           then reconcile_ambiguous_send (oa_get_draft api) x draft_id st
                           else (st, None)) of
                  (st, Some e) \<Rightarrow> (st, [], Inl e)
                | (st, None) \<Rightarrow>
                    (case check_draft env (oa_get_thread api) (outlook_thread_fingerprint (ce_rt env))
                            ''Outlook'' c draft_id args_hash st of
                       (st, Some e) \<Rightarrow> (st, [], Inl e)
                     | (st, None) \<Rightarrow> outlook_post env api x draft_id st))))"

section \<open>Slack, Jira and the other trackers\<close>

text \<open>
  These adapters end with \<open>mark_execution_succeeded(..., result=...)\<close>, a keyword the function does
  not have, next to a missing \<open>result_json\<close>: the call raises \<open>TypeError\<close> before its body runs, so
  the row keeps the status it had.
\<close>

definition succeeded_with_result :: "(adapter_raise, pyval dict) result" where
  "succeeded_with_result = Inl (OtherRaise (PyError ''TypeError''))"

definition slack_key :: "call_env \<Rightarrow> pyval dict \<Rightarrow> string" where
  "slack_key env a = build_idempotency_key (ce_rt env)
     [PStr (sget a ''workflow_run_id''), PStr (sget a ''approval_request_id''),
      PStr (sget a ''channel''), PStr (str_or (pget a ''thread_ts'') ''root''),
      PStr ''slack.post_message'']"

definition slack_payload :: "pyval dict \<Rightarrow> pyval dict" where
  "slack_payload a =
     [(''channel'', PStr (sget a ''channel'')), (''text'', PStr (sget a ''text''))] @
     (if truthy (pget a ''thread_ts'') then [(''thread_ts'', PStr (py_str (pget a ''thread_ts'')))] else [])"

definition slack_post ::
  "call_env \<Rightarrow> (pyval dict \<Rightarrow> api_result) \<Rightarrow> external_execution \<Rightarrow> pyval dict \<Rightarrow> adapter_state \<Rightarrow>
   adapter_outcome" where
  "slack_post env api x arguments st =
     (let st = map_db (mark_execution_sending (ce_owner_id env) ''connector.slack.post_attempted'' x) st in
      case api (slack_payload arguments) of
        Inl e \<Rightarrow> (map_db (mark_execution_failed (er_message e) False None x) st,
                  [(ex_key x, False)], Inl (ApiRaise e))
      | Inr result \<Rightarrow> (st, [(ex_key x, True)], succeeded_with_result))"

definition slack_post_message_exactly_once ::
  "call_env \<Rightarrow> (pyval dict \<Rightarrow> api_result) \<Rightarrow> adapter_state \<Rightarrow> pyval dict \<Rightarrow> adapter_outcome" where
  "slack_post_message_exactly_once env api st arguments =
     (if sget arguments ''workflow_run_id'' = [] \<or> sget arguments ''approval_request_id'' = [] \<or>
         sget arguments ''channel'' = []
      then (st, [], Inl (api_fail
        ''slack.post_message requires workflow_run_id, approval_request_id, and channel'' False))
      else case claim_for env st (adapter_request env ''slack.post_message'' arguments
                  (slack_key env arguments) (slack_action_arguments_hash (ce_rt env) arguments)) of
        (db, Inl e) \<Rightarrow> (st\<lparr>st_db := db\<rparr>, [], Inl (claim_error e))
      | (db, Inr c) \<Rightarrow>
          (let st = st\<lparr>st_db := db\<rparr> in
           if cc_replayed c then (st, [], Inr (ex_result (cc_execution c)))
           else slack_post env api (cc_execution c) arguments st))"

definition jira_key :: "call_env \<Rightarrow> string \<Rightarrow> string \<Rightarrow> pyval dict \<Rightarrow> string" where
  "jira_key env action_key resource_key a = build_idempotency_key (ce_rt env)
     [PStr (sget a ''workflow_run_id''), PStr (sget a ''approval_request_id''), PStr resource_key,
      PStr action_key]"

text \<open>\<open>perform\<close> is the mutation: its result, or the exception, which the handler marks as failed.\<close>

definition jira_mutation_exactly_once ::
  "call_env \<Rightarrow> (adapter_raise, pyval dict) result \<Rightarrow> (adapter_raise \<Rightarrow> string) \<Rightarrow> adapter_state \<Rightarrow>
   string \<Rightarrow> string \<Rightarrow> pyval dict \<Rightarrow> adapter_outcome" where
  "jira_mutation_exactly_once env perform message_of st action_key resource_key arguments =
     (if sget arguments ''workflow_run_id'' = [] \<or> sget arguments ''approval_request_id'' = [] \<or>
         resource_key = []
      then (st, [], Inl (api_fail (action_key @
        '' requires workflow_run_id, approval_request_id, and a resource key'') False))
      else case claim_for env st (adapter_request env action_key arguments
                  (jira_key env action_key resource_key arguments)
                  (jira_issue_arguments_hash (rt_sha (ce_rt env)) arguments)) of
        (db, Inl e) \<Rightarrow> (st\<lparr>st_db := db\<rparr>, [], Inl (claim_error e))
      | (db, Inr c) \<Rightarrow>
          (let st = st\<lparr>st_db := db\<rparr>; x = cc_execution c in
           if cc_replayed c then (st, [], Inr (ex_result x))
           else
             (let st = map_db (mark_execution_sending (ce_owner_id env)
                    (''connector.'' @ replace_char CHR ''.'' CHR ''_'' action_key @ ''_attempted'') x) st in
              case perform of
                Inl e \<Rightarrow> (map_db (mark_execution_failed (message_of e) False None x) st,
                          [(ex_key x, False)], Inl e)
              | Inr output \<Rightarrow> (st, [(ex_key x, True)], succeeded_with_result))))"

end
