(* ===== verification/Exact_Effect_Properties.thy ===== *)
theory Exact_Effect_Properties
  imports Exact_Effect
begin

text \<open>
  Properties of exact-effect approvals: an approved effect commits, a commit is exact, what the
  provider field can hide from the hash, and what an edit revokes.
\<close>

section \<open>A concrete binding\<close>

definition demo_rt :: runtime where
  "demo_rt = \<lparr>rt_sha = (\<lambda>s. ''h'' @ s), rt_iso = (\<lambda>_. ''t''), rt_from_iso = (\<lambda>_. None)\<rparr>"

definition demo_args :: "pyval dict" where
  "demo_args = [(''channel'', PStr ''c1''), (''text'', PStr ''hi'')]"

definition demo_effect :: proposed_effect where
  "demo_effect =
     \<lparr>pe_action_key = ''slack.post_message'', pe_normalized = demo_args,
      pe_hash = arguments_hash (rt_sha demo_rt) demo_args, pe_fingerprint = PNone, pe_version = 1,
      pe_expires_at = Some (default_effect_expiry 0), pe_replaces = None\<rparr>"

definition demo_row :: "string \<Rightarrow> approval_request" where
  "demo_row status =
     \<lparr>aq_id = ''a1'', aq_project_id = None, aq_task_id = None, aq_run_id = None,
      aq_issue_link_id = None, aq_requested_by = Some ''u1'', aq_approved_by = Some ''u2'',
      aq_approval_type = ''tool'', aq_status = status, aq_reason = None, aq_payload = [],
      aq_effect_hash = None, aq_effect_version = 1, aq_fingerprint = PNone, aq_expires_at = None,
      aq_proposed_effect = [], aq_workspace_id = None, aq_delegations = [],
      aq_escalation_state = [], aq_sla_policy = [], aq_due_at = None, aq_created_at = 0,
      aq_resolved_at = None, aq_eligible = [], aq_routing = [], aq_decided_reason = None\<rparr>"

lemma demo_strip: "strip_tool_prefix ''slack.post_message'' = ''slack.post_message''"
  by code_simp

lemma demo_rt_sha [simp]: "rt_sha demo_rt s = ''h'' @ s"
  by (simp add: demo_rt_def)

lemma demo_build:
  "build_proposed_effect demo_rt ''slack.post_message'' demo_args None 1 None None 0 = Inr demo_effect"
proof -
  have "normalize_generic demo_args = demo_args"
    by (simp add: normalize_generic_def demo_args_def binding_keys_def List.map_filter_def dhas_def)
  then have "normalize_proposed_effect ''slack.post_message'' demo_args = Inr demo_args"
    by (simp add: normalize_proposed_effect_def demo_strip guard_defs demo_args_def starts_with_def)
  moreover have "hashed_form demo_args ''slack.post_message'' = Inr demo_args"
    by (simp add: hashed_form_def demo_strip guard_defs demo_args_def)
  ultimately show ?thesis
    by (simp add: build_proposed_effect_def compute_effect_hash_def demo_effect_def demo_strip opt_str_def)
qed

definition demo_bound :: "string \<Rightarrow> approval_request" where
  "demo_bound status = apply_proposed_effect_to_approval demo_rt (demo_row status) demo_effect"

lemma demo_is_bound: "bound_to (demo_bound status) demo_effect"
  unfolding demo_bound_def by (rule bound_apply)

lemma demo_context: "commit_context_ok (demo_bound s) False (Some ''u1'') None"
  by (simp add: demo_bound_def commit_context_ok_def payload_owner_def apply_payload demo_row_def opt_str_def py_or_def)

lemma demo_validates:
  obtains x where "validate_committed_effect demo_rt 5 (demo_bound ''approved'') ''slack.post_message''
      demo_args None False (Some ''u1'') None = Inr x"
proof -
  obtain x where x: "read_proposed_effect demo_rt (demo_bound ''approved'') = Inr (Some x)"
    "pe_action_key x = strip_tool_prefix ''slack.post_message''"
    "pe_hash x = pe_hash demo_effect" "pe_expires_at x = pe_expires_at demo_effect"
    "truthy (pe_fingerprint x) \<longrightarrow> pe_fingerprint x = opt_str None"
    by (rule read_built [OF demo_build demo_is_bound [of "''approved''"]])
      (auto simp: demo_strip demo_effect_def demo_args_def)
  obtain n c where "normalize_proposed_effect ''slack.post_message'' demo_args = Inr n"
    "hashed_form n ''slack.post_message'' = Inr c" "pe_hash demo_effect = arguments_hash (rt_sha demo_rt) c"
    by (rule build_Inr [OF demo_build])
  then have "validate_committed_effect demo_rt 5 (demo_bound ''approved'') ''slack.post_message''
      demo_args None False (Some ''u1'') None = Inr x"
    unfolding validate_iff using x demo_context [of "''approved''"]
    by (auto simp: compute_effect_hash_def demo_effect_def default_effect_expiry_def demo_bound_def
        DEFAULT_APPROVAL_TTL_HOURS_def demo_row_def)
  then show thesis by (rule that)
qed

section \<open>Commits\<close>

lemma approved_commits_core:
  assumes "build_proposed_effect rt k raw fp v ex rep t0 = Inr e" "bound_to a e"
    and "aq_status a = ''approved''" "commit_context_ok a rc owner wr"
    and "\<And>s. rt_sha rt s \<noteq> []" "strip_tool_prefix k \<noteq> []"
    and "strip_tool_prefix (strip_tool_prefix k) = strip_tool_prefix k" "pe_normalized e \<noteq> []"
    and "\<And>t. pe_expires_at e = Some t \<Longrightarrow> now < instant t"
  shows "\<exists>b. validate_committed_effect rt now a k raw fp rc owner wr = Inr b \<and> pe_hash b = pe_hash e"
proof -
  obtain b where b: "read_proposed_effect rt a = Inr (Some b)" "pe_action_key b = strip_tool_prefix k"
    "pe_hash b = pe_hash e" "pe_expires_at b = pe_expires_at e"
    "truthy (pe_fingerprint b) \<longrightarrow> pe_fingerprint b = opt_str fp"
    by (rule read_built [OF assms(1,2,5-8)])
  obtain n c where "normalize_proposed_effect k raw = Inr n" "hashed_form n k = Inr c"
    "pe_hash e = arguments_hash (rt_sha rt) c"
    using assms(1) by (rule build_Inr)
  with b assms show ?thesis
    unfolding validate_iff by (auto simp: compute_effect_hash_def)
qed

text \<open>
  An approved effect commits. After an effect is built from some arguments and bound to an
  approval, and the approval is decided, a commit with the same action key, arguments and resource
  fingerprint, in the owner's context and before the expiry, is accepted with the same hash.
\<close>

theorem approved_effect_commits:
  assumes "build_proposed_effect rt k raw fp v ex rep t0 = Inr e" "bound_to a e"
    and "aq_status a = ''approved''" "commit_context_ok a rc owner wr"
    and "\<And>s. rt_sha rt s \<noteq> []" "strip_tool_prefix k \<noteq> []"
    and "strip_tool_prefix (strip_tool_prefix k) = strip_tool_prefix k" "pe_normalized e \<noteq> []"
    and "\<And>t. pe_expires_at e = Some t \<Longrightarrow> now < instant t"
  shows "\<exists>b. validate_committed_effect rt now a k raw fp rc owner wr = Inr b \<and> pe_hash b = pe_hash e"
  by (rule approved_commits_core [OF assms])

theorem approved_effect_commits_witness:
  "\<exists>b. validate_committed_effect demo_rt 5 (demo_bound ''approved'')
      ''slack.post_message'' demo_args None False (Some ''u1'') None = Inr b \<and>
    pe_hash b = pe_hash demo_effect"
  by (rule approved_effect_commits [OF demo_build demo_is_bound _ demo_context])
    (auto simp: demo_strip demo_effect_def demo_args_def default_effect_expiry_def
      DEFAULT_APPROVAL_TTL_HOURS_def demo_row_def demo_bound_def)

text \<open>
  C8. A commit is exact. If a commit validates against a row bound to an effect, the row is
  approved and not expired, the action keys agree, and the two canonical forms that were hashed are
  the same JSON value up to the order of dictionary keys, given a collision-free digest.
\<close>

theorem commit_is_exact:
  assumes "build_proposed_effect rt k raw fp v ex rep t0 = Inr e" "bound_to a e"
    and "validate_committed_effect rt now a k' raw' fp' rc owner wr = Inr b"
    and "inj (rt_sha rt)" "\<And>s. rt_sha rt s \<noteq> []" "strip_tool_prefix k \<noteq> []"
    and "strip_tool_prefix (strip_tool_prefix k) = strip_tool_prefix k" "pe_normalized e \<noteq> []"
  shows "aq_status a = ''approved'' \<and> strip_tool_prefix k' = strip_tool_prefix k \<and>
    (\<forall>t. pe_expires_at e = Some t \<longrightarrow> now < instant t) \<and>
    (\<exists>n c n' c'. normalize_proposed_effect k raw = Inr n \<and> hashed_form n k = Inr c \<and>
       normalize_proposed_effect k' raw' = Inr n' \<and> hashed_form n' k' = Inr c' \<and>
       sort_keys (PDict c') = sort_keys (PDict c))"
  by (rule commit_exact_core [OF assms])

theorem commit_is_exact_witness:
  "\<exists>b. validate_committed_effect demo_rt 5 (demo_bound ''approved'')
      ''slack.post_message'' demo_args None False (Some ''u1'') None = Inr b \<and>
   aq_status (demo_bound ''approved'') = ''approved'' \<and>
   (\<exists>n' c'. normalize_proposed_effect ''slack.post_message'' demo_args = Inr n' \<and>
      hashed_form n' ''slack.post_message'' = Inr c')"
proof -
  obtain x where v: "validate_committed_effect demo_rt 5 (demo_bound ''approved'') ''slack.post_message''
      demo_args None False (Some ''u1'') None = Inr x"
    by (rule demo_validates)
  have "inj (rt_sha demo_rt)" by (simp add: inj_def)
  from commit_is_exact [OF demo_build demo_is_bound v this] v show ?thesis
    by (simp add: demo_strip demo_effect_def demo_args_def) blast
qed

section \<open>Generic actions\<close>

definition CANONICAL_PROVIDERS :: "string list" where
  "CANONICAL_PROVIDERS = [''gmail'', ''outlook'', ''jira'', ''linear'', ''hubspot'', ''salesforce'']"

definition generic_action :: "string \<Rightarrow> bool" where
  "generic_action k \<longleftrightarrow>
     strip_tool_prefix k \<notin> set (GMAIL_ACTIONS @ OUTLOOK_ACTIONS @ GITHUB_COMMENT_ACTIONS @
       JIRA_MUTATION_ACTIONS @ LINEAR_MUTATION_ACTIONS @ HUBSPOT_MUTATION_ACTIONS @
       SALESFORCE_MUTATION_ACTIONS)"

definition names_provider :: "pyval dict \<Rightarrow> bool" where
  "names_provider c \<longleftrightarrow> (\<exists>s \<in> set CANONICAL_PROVIDERS. dget c ''provider'' = Some (PStr s))"

lemma names_provider_sget: "names_provider c \<Longrightarrow> sget c ''provider'' \<in> set CANONICAL_PROVIDERS"
  by (auto simp: names_provider_def sget_def pget_def CANONICAL_PROVIDERS_def)

lemma canonical_provider:
  "canonical_email_action_arguments a = Inr c \<Longrightarrow> names_provider c"
  "canonical_outlook_email_action_arguments a = Inr c \<Longrightarrow> names_provider c"
  "names_provider (canonical_jira_issue_arguments a)"
  "names_provider (canonical_linear_issue_arguments a)"
  "canonical_hubspot_crm_arguments a = Inr c \<Longrightarrow> names_provider c"
  "canonical_salesforce_crm_arguments a = Inr c \<Longrightarrow> names_provider c"
  by (auto simp: canonical_email_action_arguments_def canonical_outlook_email_action_arguments_def
      canonical_jira_issue_arguments_def canonical_linear_issue_arguments_def names_provider_def
      canonical_hubspot_crm_arguments_def canonical_salesforce_crm_arguments_def CANONICAL_PROVIDERS_def)

text \<open>A hashed form is the normalised effect itself, or names one of the six providers.\<close>

lemma hashed_form_cases:
  assumes "hashed_form n k = Inr c" "generic_action k"
  shows "c = n \<and> sget n ''provider'' \<notin> set CANONICAL_PROVIDERS \<or> names_provider c"
  using assms canonical_provider
  by (auto simp: hashed_form_def generic_action_def CANONICAL_PROVIDERS_def Let_def split: if_splits)

lemma normalized_cases:
  assumes "normalize_proposed_effect k a = Inr n" "generic_action k"
  shows "n = normalize_generic a \<or> names_provider n"
  using assms canonical_provider
  by (auto simp: normalize_proposed_effect_def generic_action_def Let_def split: if_splits)

lemma sget_normalize_generic [simp]: "sget (normalize_generic a) k = sget a k"
  by (simp add: sget_def pget_def)

lemma generic_form:
  assumes "generic_action k" "sget raw ''provider'' \<notin> set CANONICAL_PROVIDERS"
  shows "normalize_proposed_effect k raw = Inr (normalize_generic raw)"
    and "hashed_form (normalize_generic raw) k = Inr (normalize_generic raw)"
  using assms
  by (auto simp: normalize_proposed_effect_def hashed_form_def generic_action_def
      CANONICAL_PROVIDERS_def Let_def)

text \<open>
  For an action without a canonical shape of its own, whose approved arguments name none of
  the six providers, a commit validates only with the same arguments: every key has the same value
  in both, up to the order of nested dictionary keys, and no key is missing or added.
\<close>

theorem generic_commit_same_arguments:
  assumes "build_proposed_effect rt k raw fp v ex rep t0 = Inr e" "bound_to a e"
    and "validate_committed_effect rt now a k' raw' fp' rc owner wr = Inr b"
    and "inj (rt_sha rt)" "\<And>s. rt_sha rt s \<noteq> []" "strip_tool_prefix k \<noteq> []"
    and "strip_tool_prefix (strip_tool_prefix k) = strip_tool_prefix k" "raw \<noteq> []"
    and "generic_action k" "sget raw ''provider'' \<notin> set CANONICAL_PROVIDERS"
  shows "map_option sort_keys (dget raw' j) = map_option sort_keys (dget raw j)"
proof -
  obtain n where e: "normalize_proposed_effect k raw = Inr n" "pe_normalized e = n"
    using assms(1) by (rule build_Inr)
  have n: "n = normalize_generic raw" using e generic_form(1) [OF assms(9,10)] by simp
  obtain i w where "dget raw i = Some w" using assms(8) by (cases raw) force+
  then have "dget n i = Some w" by (simp add: n)
  then have "pe_normalized e \<noteq> []" using e by auto
  from commit_exact_core [OF assms(1-7) this]
  obtain c n' c' where c: "hashed_form (normalize_generic raw) k = Inr c"
    "normalize_proposed_effect k' raw' = Inr n'" "hashed_form n' k' = Inr c'"
    "sort_keys (PDict c') = sort_keys (PDict c)" "strip_tool_prefix k' = strip_tool_prefix k"
    using e n by auto
  have "c = normalize_generic raw" using c(1) generic_form(2) [OF assms(9,10)] by simp
  then have same: "map_option sort_keys (dget c' j) = map_option sort_keys (dget raw j)" for j
    using sort_keys_dict_eq [OF c(4)] by simp
  have gen: "generic_action k'" using assms(9) c(5) by (simp add: generic_action_def)
  have "\<not> names_provider c'"
  proof
    assume "names_provider c'"
    then obtain s where s: "s \<in> set CANONICAL_PROVIDERS" "dget c' ''provider'' = Some (PStr s)"
      by (auto simp: names_provider_def)
    then have "map_option sort_keys (dget raw ''provider'') = Some (PStr s)"
      using same [of "''provider''"] by simp
    then have "dget raw ''provider'' = Some (PStr s)" by auto
    then show False using s(1) assms(10) by (simp add: sget_def pget_def CANONICAL_PROVIDERS_def)
  qed
  then have "c' = n'" "\<not> names_provider n'"
    using hashed_form_cases [OF c(3) gen] names_provider_sget by auto
  then have "c' = normalize_generic raw'" using normalized_cases [OF c(2) gen] by simp
  with same show ?thesis by simp
qed

theorem generic_commit_same_arguments_witness:
  "generic_action ''slack.post_message'' \<and>
   map_option sort_keys (dget demo_args ''text'') = Some (PStr ''hi'')"
proof -
  have gen: "generic_action ''slack.post_message''"
    by (simp add: generic_action_def demo_strip guard_defs)
  have prov: "sget demo_args ''provider'' \<notin> set CANONICAL_PROVIDERS"
    by (simp add: demo_args_def CANONICAL_PROVIDERS_def)
  obtain x where v: "validate_committed_effect demo_rt 5 (demo_bound ''approved'') ''slack.post_message''
      demo_args None False (Some ''u1'') None = Inr x"
    by (rule demo_validates)
  have "map_option sort_keys (dget demo_args ''text'') = map_option sort_keys (dget demo_args ''text'')"
    by (rule generic_commit_same_arguments [OF demo_build demo_is_bound v _ _ _ _ _ gen prov])
      (auto simp: inj_def demo_strip demo_args_def)
  with gen show ?thesis by (simp add: demo_args_def)
qed

section \<open>What the provider argument hides\<close>

lemma email_ignores_summary:
  "canonical_email_action_arguments (dset ''summary'' v a) = canonical_email_action_arguments a"
  by (simp add: canonical_email_action_arguments_def sget_dset sget2_def)

text \<open>
  The arguments choose the canonical form: with \<open>provider\<close> set to \<open>gmail\<close>, the arguments of any
  other action, a Jira issue for instance, are bound by their email fields only, so a commit with
  another issue summary validates against the same approval.
\<close>

theorem provider_argument_unbinds:
  assumes "sget raw ''provider'' = ''gmail''"
  shows "validate_committed_effect rt now a ''jira.create_issue'' (dset ''summary'' v raw) fp rc owner wr =
         validate_committed_effect rt now a ''jira.create_issue'' raw fp rc owner wr"
proof -
  have "normalize_proposed_effect ''jira.create_issue'' (dset ''summary'' v raw) =
        normalize_proposed_effect ''jira.create_issue'' raw"
    using assms by (simp add: normalize_proposed_effect_def sget_dset email_ignores_summary)
  then show ?thesis unfolding validate_committed_effect_def check_bound_effect_def by simp
qed

theorem provider_argument_unbinds_witness:
  "validate_committed_effect demo_rt 5 (demo_bound ''approved'') ''jira.create_issue''
      (dset ''summary'' (PStr ''B'') [(''provider'', PStr ''gmail''), (''summary'', PStr ''A'')])
      None False None None =
   validate_committed_effect demo_rt 5 (demo_bound ''approved'') ''jira.create_issue''
      [(''provider'', PStr ''gmail''), (''summary'', PStr ''A'')] None False None None"
  by (rule provider_argument_unbinds) simp

section \<open>Edits\<close>

text \<open>
  An edit replaces the approval. Only a pending approval can be replaced; afterwards the old
  one can never authorise a commit again, and the new one is pending, so it cannot either until it
  is decided, and is bound to the edited effect.
\<close>

theorem replacement_revokes:
  assumes "create_replacement_approval rt t new_id a e owner_id reason = Inr (old, fresh)"
    and "aq_id a \<noteq> []"
  shows "aq_status a = ''pending'' \<and>
    (\<forall>now k raw fp rc owner wr b. validate_committed_effect rt now old k raw fp rc owner wr \<noteq> Inr b) \<and>
    (\<forall>now k raw fp rc owner wr b. validate_committed_effect rt now fresh k raw fp rc owner wr \<noteq> Inr b) \<and>
    bound_to fresh e \<and> aq_status fresh = ''pending'' \<and>
    pget (aq_payload fresh) ''replaces_approval_request_id'' = PStr (aq_id a)"
proof -
  have st: "aq_status a = ''pending''" "aq_status old = ''invalidated''" "aq_status fresh = ''pending''"
    using assms(1) by (auto simp: create_replacement_approval_def Let_def invalidate_approval_for_edit_def
        split: if_splits)
  have "bound_to fresh e" "pget (aq_payload fresh) ''replaces_approval_request_id'' = PStr (aq_id a)"
    using assms by (auto simp: create_replacement_approval_def Let_def bound_to_def apply_payload
        invalidate_approval_for_edit_def opt_str_def split: if_splits)
  then show ?thesis using st by (simp add: validate_iff)
qed

theorem replacement_revokes_witness:
  "\<exists>old fresh. create_replacement_approval demo_rt 1 ''a2'' (demo_bound ''pending'') demo_effect ''u1''
      None = Inr (old, fresh) \<and>
    bound_to fresh demo_effect \<and>
    (\<forall>now k raw fp rc owner wr b. validate_committed_effect demo_rt now old k raw fp rc owner wr \<noteq> Inr b)"
proof -
  have pending: "aq_status (demo_bound ''pending'') = ''pending''" "aq_id (demo_bound ''pending'') \<noteq> []"
    by (simp_all add: demo_bound_def demo_row_def apply_proposed_effect_to_approval_def Let_def)
  obtain old fresh where r: "create_replacement_approval demo_rt 1 ''a2'' (demo_bound ''pending'')
      demo_effect ''u1'' None = Inr (old, fresh)"
    using pending(1) by (simp add: create_replacement_approval_def Let_def)
  from replacement_revokes [OF r pending(2)] r show ?thesis by blast
qed

end
