(* ===== verification/Exactly_Once_Properties.thy ===== *)
theory Exactly_Once_Properties
  imports Exactly_Once Exact_Effect_Properties
begin

text \<open>
  What the exactly-once adapters guarantee: an abstract machine over the status of one idempotency
  key, the proof that every Gmail call is a step of it, and that the machine accepts at most one
  delivery; and where the Outlook, Slack and tracker adapters fall short of it.
\<close>

section \<open>The abstract send protocol\<close>

text \<open>
  A step takes the status of the key (\<open>None\<close>: no row), the deliveries attempted (whether the
  provider accepted each) and the next status.
\<close>

definition OPEN_STATUSES :: "string option set" where
  "OPEN_STATUSES = {None, Some ''claimed'', Some ''retryable_failure''}"

inductive send_step :: "string option \<Rightarrow> bool list \<Rightarrow> string option \<Rightarrow> bool" where
  stay: "send_step s [] s"
| claim: "send_step None [] (Some ''claimed'')"
| reject: "s \<in> OPEN_STATUSES \<Longrightarrow> t \<in> {''failed'', ''stale''} \<Longrightarrow> send_step s [] (Some t)"
| unknown: "s \<in> {Some ''sending'', Some ''retryable_failure''} \<Longrightarrow>
    send_step s [] (Some ''outcome_unknown'')"
| accepted: "s \<in> OPEN_STATUSES \<Longrightarrow> send_step s [True] (Some ''succeeded'')"
| refused: "s \<in> OPEN_STATUSES \<Longrightarrow> t \<in> {''failed'', ''retryable_failure''} \<Longrightarrow>
    send_step s [False] (Some t)"

inductive send_run :: "string option \<Rightarrow> bool list \<Rightarrow> string option \<Rightarrow> bool" where
  finish: "send_run s [] s"
| step: "send_step s l t \<Longrightarrow> send_run t m u \<Longrightarrow> send_run s (l @ m) u"

inductive_cases send_step_succeeded: "send_step (Some ''succeeded'') l t"

text \<open>Delivered keys are closed: nothing is attempted on them again.\<close>

lemma succeeded_closed: "send_run s log t \<Longrightarrow> s = Some ''succeeded'' \<Longrightarrow> log = [] \<and> t = s"
proof (induction rule: send_run.induct)
  case (step s l t m u)
  then have "send_step (Some ''succeeded'') l t" by simp
  then have "l = [] \<and> t = Some ''succeeded''"
    by (cases rule: send_step_succeeded) (auto simp: OPEN_STATUSES_def)
  with step show ?case by simp
qed simp

lemma accepted_is_last: "send_run s log t \<Longrightarrow> log = l @ True # m \<Longrightarrow> m = []"
proof (induction arbitrary: l rule: send_run.induct)
  case (step s l' t m' u)
  show ?case
  proof (cases "l' = [True]")
    case True
    then have "t = Some ''succeeded''" using step.hyps(1) by (auto elim: send_step.cases)
    then have "m' = []" using succeeded_closed [OF step.hyps(2)] by simp
    with True step.prems show ?thesis by (auto simp: Cons_eq_append_conv)
  next
    case False
    then have "l' = [] \<or> l' = [False]" using step.hyps(1) by (auto elim: send_step.cases)
    then obtain k where "m' = k @ True # m"
      using step.prems by (auto simp: Cons_eq_append_conv)
    then show ?thesis by (rule step.IH)
  qed
qed simp

lemma accepted_once: "send_run s log t \<Longrightarrow> length (filter id log) \<le> 1"
proof (rule ccontr)
  assume run: "send_run s log t" and many: "\<not> length (filter id log) \<le> 1"
  then have "filter id log \<noteq> []" by auto
  then have "True \<in> set log" by (auto simp: filter_empty_conv)
  then obtain l m where split: "log = l @ True # m" "True \<notin> set l" by (metis split_list_first)
  then have "m = []" using accepted_is_last [OF run] by simp
  moreover have "filter id l = []" using split(2) by (auto simp: filter_empty_conv)
  ultimately show False using split(1) many by simp
qed

section \<open>Gmail refines the protocol\<close>

definition posts_of :: "string \<Rightarrow> post_log \<Rightarrow> bool list" where
  "posts_of k log = map snd (filter (\<lambda>p. fst p = k) log)"

lemma posts_of_simps [simp]:
  "posts_of k [] = []"
  "posts_of k [(j, b)] = (if j = k then [b] else [])"
  "posts_of k (l @ m) = posts_of k l @ posts_of k m"
  by (simp_all add: posts_of_def)

abbreviation key_status :: "adapter_state \<Rightarrow> string \<Rightarrow> string option" where
  "key_status st k \<equiv> exec_status (st_db st) k"

lemma find_snoc:
  "find P (xs @ [x]) = (case find P xs of Some y \<Rightarrow> Some y | None \<Rightarrow> if P x then Some x else None)"
  by (induction xs) auto

lemma claim_for_Inl: "claim_for env st cr = (db, Inl e) \<Longrightarrow> db = st_db st"
  by (auto simp: claim_for_def authorize_and_claim_execution_def Let_def split: option.splits if_splits
      sum.splits)

lemma claim_for_Inr:
  assumes "claim_for env st cr = (db, Inr c)"
  shows "ex_key (cc_execution c) = cr_key cr"
    and "exec_status db (cr_key cr) = Some (ex_status (cc_execution c))"
    and "j \<noteq> cr_key cr \<Longrightarrow> exec_status db j = key_status st j"
    and "key_status st (cr_key cr) = None \<and> ex_status (cc_execution c) = ''claimed'' \<and> \<not> cc_replayed c \<or>
         key_status st (cr_key cr) = Some (ex_status (cc_execution c))"
    and "cc_replayed c \<Longrightarrow> ex_status (cc_execution c) = ''succeeded''"
    and "\<not> cc_replayed c \<Longrightarrow> ex_status (cc_execution c) \<in> set REUSABLE_STATUSES"
proof -
  from assms obtain ap where c:
    "(find_execution (st_db st) (cr_key cr) = None \<and> \<not> ce_race env \<and>
        cc_execution c = new_execution (ce_new_id env) cr \<and> \<not> cc_replayed c \<and>
        db = (st_db st)\<lparr>cd_executions := cd_executions (st_db st) @ [cc_execution c]\<rparr>) \<or>
     (find_execution (st_db st) (cr_key cr) = Some (cc_execution c) \<and> db = st_db st \<and>
        ex_arguments_hash (cc_execution c) = cr_arguments_hash cr \<and>
        (if cc_replayed c then ex_status (cc_execution c) = ''succeeded''
         else ex_status (cc_execution c) \<in> set REUSABLE_STATUSES))"
    unfolding claim_for_def by (rule claim_Inr)
  have app: "find_execution ((st_db st)\<lparr>cd_executions := cd_executions (st_db st) @ [x]\<rparr>) j =
      (case find_execution (st_db st) j of Some e \<Rightarrow> Some e
       | None \<Rightarrow> if ex_key x = j then Some x else None)" for x j
    by (simp add: find_execution_def find_snoc)
  show k: "ex_key (cc_execution c) = cr_key cr"
    using c executions.row_key by (auto simp: new_execution_def)
  show "exec_status db (cr_key cr) = Some (ex_status (cc_execution c))"
    using c k by (auto simp: exec_status_def app)
  show "exec_status db j = key_status st j" if "j \<noteq> cr_key cr"
    using c k that by (auto simp: exec_status_def app split: option.splits)
  show "key_status st (cr_key cr) = None \<and> ex_status (cc_execution c) = ''claimed'' \<and> \<not> cc_replayed c \<or>
         key_status st (cr_key cr) = Some (ex_status (cc_execution c))"
    using c by (auto simp: exec_status_def new_execution_def)
  show "cc_replayed c \<Longrightarrow> ex_status (cc_execution c) = ''succeeded''" using c by auto
  show "\<not> cc_replayed c \<Longrightarrow> ex_status (cc_execution c) \<in> set REUSABLE_STATUSES"
    using c by (auto simp: new_execution_def REUSABLE_STATUSES_def)
qed

text \<open>The two checks that may stop a call before it posts.\<close>

lemma reconcile_cases:
  assumes "reconcile_ambiguous_send get x d st = (st', r)"
    and "key_status st (ex_key x) = Some (ex_status x)"
  shows "(st' = st \<or> r \<noteq> None \<and> key_status st' (ex_key x) = Some ''outcome_unknown'') \<and>
         (\<forall>j. j \<noteq> ex_key x \<longrightarrow> key_status st' j = key_status st j) \<and>
         (r = None \<longrightarrow> st' = st \<and> ex_status x \<noteq> ''sending'')"
  using assms by (auto simp: reconcile_ambiguous_send_def map_db_def mark_status split: sum.splits if_splits)

lemma check_draft_forms:
  assumes "check_draft env get fp prov c d h st = (st', r)" "cc_execution c = x"
  shows "st' = st \<or>
    r \<noteq> None \<and> (\<exists>m. st' = map_db (mark_execution_failed m False None x) st) \<or>
    r \<noteq> None \<and> (\<exists>m. st' = map_db (mark_execution_stale m x (cc_approval c))
                           (set_draft_status env d ''stale'' st))"
  using assms(1)
  unfolding check_draft_def assms(2) Let_def
  by (simp split: option.splits if_splits sum.splits) blast+

lemma check_draft_cases:
  assumes "check_draft env get fp prov c d h st = (st', r)" "cc_execution c = x"
    and "key_status st (ex_key x) = Some s"
  shows "(st' = st \<or> r \<noteq> None \<and> key_status st' (ex_key x) \<in> {Some ''failed'', Some ''stale''}) \<and>
         (\<forall>j. j \<noteq> ex_key x \<longrightarrow> key_status st' j = key_status st j) \<and> (r = None \<longrightarrow> st' = st)"
  using check_draft_forms [OF assms(1,2)]
proof (elim disjE conjE exE)
  fix m assume "r \<noteq> None" "st' = map_db (mark_execution_failed m False None x) st"
  then show ?thesis using assms(3) by (auto simp: map_db_def mark_status)
next
  fix m assume "r \<noteq> None" "st' = map_db (mark_execution_stale m x (cc_approval c))
                           (set_draft_status env d ''stale'' st)"
  then show ?thesis using assms(3) by (auto simp: map_db_def mark_status set_draft_status_def)
qed simp

lemma gmail_post_forms:
  assumes "gmail_post env api x d st = (st', log, r)"
  obtains (ok) sent a where "log = [(ex_key x, True)]" "r = Inr sent"
      "st_db st' = fst (mark_execution_succeeded (ce_owner_id env) a sent (Some (sget sent ''id'')) x
         (mark_execution_sending (ce_owner_id env) ''connector.gmail.send_attempted'' x (st_db st)))"
  | (failed) e a where "log = [(ex_key x, False)]" "r = Inl (ApiRaise e)"
      "st_db st' = mark_execution_failed (er_message e) (er_retryable e) a x
         (mark_execution_sending (ce_owner_id env) ''connector.gmail.send_attempted'' x (st_db st))"
proof (cases "ga_send api d")
  case (Inl e)
  show thesis
    by (rule failed) (use assms Inl in \<open>simp_all add: gmail_post_def Let_def map_db_def\<close>, auto)
next
  case (Inr sent)
  show thesis
    by (rule ok) (use assms Inr in \<open>simp_all add: gmail_post_def Let_def map_db_def set_draft_status_def\<close>,
      auto)
qed

lemma gmail_post_cases:
  assumes "gmail_post env api x d st = (st', log, r)" "key_status st (ex_key x) = Some s"
  shows "\<exists>ok. log = [(ex_key x, ok)] \<and>
    (ok \<longrightarrow> key_status st' (ex_key x) = Some ''succeeded'') \<and>
    (\<not> ok \<longrightarrow> key_status st' (ex_key x) \<in> {Some ''failed'', Some ''retryable_failure''}) \<and>
    (\<forall>j. j \<noteq> ex_key x \<longrightarrow> key_status st' j = key_status st j)"
  using assms(1)
proof (cases rule: gmail_post_forms)
  case (ok sent a)
  then show ?thesis using assms(2) by (auto simp: mark_status)
next
  case (failed e a)
  then show ?thesis using assms(2) by (auto simp: mark_status)
qed

text \<open>What follows a claim that is not a replay: reconcile, check the draft, post.\<close>

definition gmail_after_claim ::
  "call_env \<Rightarrow> gmail_api \<Rightarrow> commit_claim \<Rightarrow> string \<Rightarrow> string \<Rightarrow> adapter_state \<Rightarrow> adapter_outcome" where
  "gmail_after_claim env api c d h st =
     (case (if ex_status (cc_execution c) \<in> {''sending'', ''retryable_failure''}
            then reconcile_ambiguous_send (ga_get_draft api) (cc_execution c) d st
            else (st, None)) of
        (st, Some e) \<Rightarrow> (st, [], Inl e)
      | (st, None) \<Rightarrow>
          (case check_draft env (ga_get_thread api) (thread_fingerprint (ce_rt env)) ''Gmail'' c d h st of
             (st, Some e) \<Rightarrow> (st, [], Inl e)
           | (st, None) \<Rightarrow> gmail_post env api (cc_execution c) d st))"

lemma gmail_after_claim_step:
  assumes run: "gmail_after_claim env api c d h st = (st', log, r)"
    and x: "cc_execution c = x" "ex_status x \<in> set REUSABLE_STATUSES"
    and now: "key_status st (ex_key x) = Some (ex_status x)"
    and old: "old = None \<and> ex_status x = ''claimed'' \<or> old = Some (ex_status x)"
  shows "send_step old (posts_of (ex_key x) log) (key_status st' (ex_key x)) \<and>
    (\<forall>k. k \<noteq> ex_key x \<longrightarrow> posts_of k log = [] \<and> key_status st' k = key_status st k)"
proof -
  obtain s1 r1 where rec: "(if ex_status x \<in> {''sending'', ''retryable_failure''}
        then reconcile_ambiguous_send (ga_get_draft api) x d st else (st, None)) = (s1, r1)"
    by fastforce
  note run' = run [unfolded gmail_after_claim_def x(1) rec]
  have rec_frame: "k \<noteq> ex_key x \<Longrightarrow> key_status s1 k = key_status st k" for k
    using rec reconcile_cases [of _ x d st s1 r1, OF _ now] by (auto split: if_splits)
  have idle: "send_step old [] (Some (ex_status x))"
    using old by (auto intro: send_step.intros)
  show ?thesis
  proof (cases r1)
    case (Some e)
    with run' have out: "st' = s1" "log = []" by simp_all
    have amb: "ex_status x \<in> {''sending'', ''retryable_failure''}"
      using rec Some by (auto split: if_splits)
    then have "key_status s1 (ex_key x) \<in> {Some (ex_status x), Some ''outcome_unknown''}"
      using rec reconcile_cases [of _ x d st s1 r1, OF _ now] now by auto
    moreover have "old = Some (ex_status x)" using old amb by auto
    ultimately have "send_step old [] (key_status s1 (ex_key x))"
      using amb idle by (auto intro: send_step.intros)
    then show ?thesis using out rec_frame by simp
  next
    case None
    then have s1: "s1 = st" "ex_status x \<noteq> ''sending''"
      using rec reconcile_cases [of _ x d st s1 r1, OF _ now] by (auto split: if_splits)
    then have opened: "old \<in> OPEN_STATUSES"
      using old x(2) by (auto simp: OPEN_STATUSES_def REUSABLE_STATUSES_def)
    obtain s2 r2 where chk: "check_draft env (ga_get_thread api) (thread_fingerprint (ce_rt env))
        ''Gmail'' c d h st = (s2, r2)" by fastforce
    note chk_cases = check_draft_cases [OF chk x(1) now]
    show ?thesis
    proof (cases r2)
      case (Some e)
      with run' None s1 chk have out: "st' = s2" "log = []" by simp_all
      have "key_status s2 (ex_key x) \<in> {Some (ex_status x), Some ''failed'', Some ''stale''}"
        using chk_cases now by auto
      then have "send_step old [] (key_status s2 (ex_key x))"
        using idle opened by (auto intro: send_step.intros)
      then show ?thesis using out chk_cases by simp
    next
      case no: None
      then have "gmail_post env api x d st = (st', log, r)"
        using run' None s1 chk chk_cases by simp
      from gmail_post_cases [OF this now] show ?thesis
        using opened by (auto intro: send_step.intros)
    qed
  qed
qed

lemma gmail_call_step:
  "send_step (key_status st k)
     (posts_of k (fst (snd (gmail_send_draft_exactly_once env api st arguments))))
     (key_status (fst (gmail_send_draft_exactly_once env api st arguments)) k)"
proof -
  let ?d = "sget arguments ''gmail_draft_id''"
  let ?cr = "adapter_request env ''gmail.send_draft'' arguments (gmail_key env arguments)"
  obtain st' log r where run: "gmail_send_draft_exactly_once env api st arguments = (st', log, r)"
    by (cases "gmail_send_draft_exactly_once env api st arguments") auto
  have call: "st' = st \<and> log = [] \<or>
    (\<exists>h db c. claim_for env st (?cr h) = (db, Inr c) \<and>
       (if cc_replayed c then st' = st\<lparr>st_db := db\<rparr> \<and> log = []
        else gmail_after_claim env api c ?d h (st\<lparr>st_db := db\<rparr>) = (st', log, r)))"
  proof (cases "email_action_arguments_hash (rt_sha (ce_rt env)) arguments")
    case (Inl e)
    with run show ?thesis by (auto simp: gmail_send_draft_exactly_once_def Let_def split: if_splits)
  next
    case (Inr h)
    obtain db res where cl: "claim_for env st (?cr h) = (db, res)" by fastforce
    show ?thesis
    proof (cases res)
      case (Inl e)
      with cl have "db = st_db st" by (simp add: claim_for_Inl)
      with run Inr cl Inl show ?thesis
        by (auto simp: gmail_send_draft_exactly_once_def Let_def split: if_splits)
    next
      case res: (Inr c)
      with run Inr cl show ?thesis
        unfolding gmail_send_draft_exactly_once_def gmail_after_claim_def Let_def
        by (auto split: if_splits)
    qed
  qed
  have "send_step (key_status st k) (posts_of k log) (key_status st' k)"
    using call
  proof (elim disjE conjE exE)
    fix h db c
    assume cl: "claim_for env st (?cr h) = (db, Inr c)"
      and out: "if cc_replayed c then st' = st\<lparr>st_db := db\<rparr> \<and> log = []
        else gmail_after_claim env api c ?d h (st\<lparr>st_db := db\<rparr>) = (st', log, r)"
    note claim = claim_for_Inr [OF cl, simplified adapter_request_def claim_request.simps]
    show ?thesis
    proof (cases "cc_replayed c")
      case True
      then have "key_status st' k = key_status st k"
        using out claim(2,3,4) by (cases "k = gmail_key env arguments") auto
      then show ?thesis using out True by (simp add: send_step.stay)
    next
      case False
      with out have "gmail_after_claim env api c ?d h (st\<lparr>st_db := db\<rparr>) = (st', log, r)" by simp
      from gmail_after_claim_step [OF this refl claim(6) [OF False], of "key_status st (gmail_key env arguments)"]
      show ?thesis using claim(1-4) False
        by (cases "k = gmail_key env arguments") (auto simp: send_step.stay)
    qed
  qed (simp add: send_step.stay)
  then show ?thesis by (simp add: run)
qed


text \<open>Calls one after the other, over any keys, clocks, installations and API behaviour.\<close>

fun gmail_calls ::
  "(call_env \<times> gmail_api \<times> pyval dict) list \<Rightarrow> adapter_state \<Rightarrow> adapter_state \<times> post_log" where
  "gmail_calls [] st = (st, [])"
| "gmail_calls ((env, api, a) # calls) st =
     (case gmail_send_draft_exactly_once env api st a of (st1, log, _) \<Rightarrow>
        (case gmail_calls calls st1 of (st2, log2) \<Rightarrow> (st2, log @ log2)))"

lemma gmail_calls_run:
  "send_run (key_status st k) (posts_of k (snd (gmail_calls calls st)))
     (key_status (fst (gmail_calls calls st)) k)"
proof (induction calls arbitrary: st)
  case (Cons c calls)
  obtain env api a where c: "c = (env, api, a)" by (cases c) auto
  obtain st1 log r where one: "gmail_send_draft_exactly_once env api st a = (st1, log, r)"
    by (cases "gmail_send_draft_exactly_once env api st a") auto
  obtain st2 log2 where rest: "gmail_calls calls st1 = (st2, log2)" by fastforce
  have "send_step (key_status st k) (posts_of k log) (key_status st1 k)"
    using gmail_call_step [of st k env api a] one by simp
  moreover have "send_run (key_status st1 k) (posts_of k log2) (key_status st2 k)"
    using Cons.IH [of st1] rest by simp
  ultimately have "send_run (key_status st k) (posts_of k (log @ log2)) (key_status st2 k)"
    by (simp add: send_run.step)
  then show ?case using c one rest by simp
qed (simp add: send_run.finish)

text \<open>
  C1. Gmail delivers once. Over any sequence of calls, with any arguments, clocks and API answers,
  and from any state of the ledger, the provider accepts at most one send per idempotency key, and
  no send of that key is attempted after the accepted one.
\<close>

theorem gmail_delivers_once:
  "length (filter id (posts_of k (snd (gmail_calls calls st)))) \<le> 1 \<and>
   \<not> (\<exists>l ok m. posts_of k (snd (gmail_calls calls st)) = l @ True # ok # m)"
  using accepted_once [OF gmail_calls_run] accepted_is_last [OF gmail_calls_run] by blast

section \<open>Slack and the trackers repeat\<close>

lemma claim_again:
  assumes cl: "claim_for env st cr = (db, Inr c)" and nr: "\<not> cc_replayed c"
    and db2: "db2 = mark_execution_sending owner audit (cc_execution c) db"
  shows "exec_status db2 (cr_key cr) = Some ''sending''" "ex_key (cc_execution c) = cr_key cr"
    and "\<exists>c2. claim_for env (st\<lparr>st_db := db2\<rparr>) cr = (db2, Inr c2) \<and> \<not> cc_replayed c2 \<and>
      ex_key (cc_execution c2) = cr_key cr"
proof -
  let ?x = "cc_execution c"
  show key: "ex_key ?x = cr_key cr" by (rule claim_for_Inr(1) [OF cl])
  show "exec_status db2 (cr_key cr) = Some ''sending''"
    using claim_for_Inr(2) [OF cl] by (simp add: db2 mark_status key)
  obtain ap where ap: "get_approval (st_db st) (cr_approval_id cr) = Some ap" "aq_status ap = ''approved''"
    "validate_committed_effect (ce_rt env) (ce_now env) ap (cr_action_key cr) (cr_raw_arguments cr)
       (cr_fingerprint cr) (cr_require_consumed cr) (Some (cr_owner_id cr)) (cr_workflow_run_id cr) =
       Inr (cc_effect c)"
    "cr_require_approver cr \<Longrightarrow> recheck_approver (\<lambda>_. Inr ()) ap = Inr ()"
    "find_execution db (cr_key cr) = Some ?x" "ex_arguments_hash ?x = cr_arguments_hash cr"
    "cd_approvals db = cd_approvals (st_db st)"
    using cl unfolding claim_for_def
    by (rule claim_Inr) (auto simp: new_execution_def find_execution_def find_snoc)
  have "find_execution db2 (cr_key cr) = Some (?x\<lparr>ex_status := ''sending''\<rparr>)"
    using ap(5) by (simp add: db2 mark_execution_sending_def executions.row_upd key)
  moreover have "get_approval db2 (cr_approval_id cr) = Some ap"
    using ap(1,7)
    by (simp add: db2 mark_execution_sending_def get_approval_def log_audit_def update_execution_def)
  ultimately show "\<exists>c2. claim_for env (st\<lparr>st_db := db2\<rparr>) cr = (db2, Inr c2) \<and> \<not> cc_replayed c2 \<and>
      ex_key (cc_execution c2) = cr_key cr"
    using ap(2,3,4,6) key
    by (cases "cr_require_approver cr")
      (simp_all add: claim_for_def authorize_and_claim_execution_def validated_effect_def
        reuse_execution_def REUSABLE_STATUSES_def)
qed

text \<open>A first claim of a validated effect inserts the row.\<close>

lemma claim_fresh:
  assumes "get_approval (st_db st) (cr_approval_id cr) = Some ap" "aq_status ap = ''approved''"
    and "validate_committed_effect (ce_rt env) (ce_now env) ap (cr_action_key cr) (cr_raw_arguments cr)
       (cr_fingerprint cr) (cr_require_consumed cr) (Some (cr_owner_id cr)) (cr_workflow_run_id cr) = Inr e"
    and "find_execution (st_db st) (cr_key cr) = None" "\<not> ce_race env" "\<not> cr_require_approver cr"
  shows "claim_for env st cr =
    ((st_db st)\<lparr>cd_executions := cd_executions (st_db st) @ [new_execution (ce_new_id env) cr]\<rparr>,
     Inr \<lparr>cc_execution = new_execution (ce_new_id env) cr, cc_approval = ap, cc_effect = e,
          cc_replayed = False\<rparr>)"
  using assms
  by (simp add: claim_for_def authorize_and_claim_execution_def validated_effect_def Let_def)

text \<open>A concrete state: one approved, consumed row bound to an effect, no execution yet.\<close>

definition live_row :: "proposed_effect \<Rightarrow> approval_request" where
  "live_row e = apply_proposed_effect_to_approval demo_rt
     ((demo_row ''approved'')\<lparr>aq_payload := [(''_consumed_at'', PStr ''now'')]\<rparr>) e"

definition live_state :: "proposed_effect \<Rightarrow> draft_metadata list \<Rightarrow> adapter_state" where
  "live_state e drafts =
     \<lparr>st_db = \<lparr>cd_approvals = [live_row e], cd_executions = [], cd_audit = []\<rparr>, st_drafts = drafts\<rparr>"

definition live_env :: call_env where
  "live_env = \<lparr>ce_rt = demo_rt, ce_now = 5, ce_new_id = ''x1'', ce_race = False,
     ce_owner_id = ''u1'', ce_installation = ''i1''\<rparr>"

lemma live_fields [simp]:
  "aq_status (live_row e) = ''approved''" "aq_id (live_row e) = ''a1''"
  "get_approval (st_db (live_state e ds)) j = (if j = ''a1'' then Some (live_row e) else None)"
  "find_execution (st_db (live_state e ds)) k = None"
  "st_drafts (live_state e ds) = ds"
  by (auto simp: live_row_def live_state_def demo_row_def get_approval_def find_execution_def
      apply_proposed_effect_to_approval_def Let_def)

lemma live_validates:
  assumes "build_proposed_effect demo_rt k args None 1 None None 0 = Inr e"
    and "strip_tool_prefix k = k" "k \<noteq> []" "pe_normalized e \<noteq> []"
  shows "\<exists>b. validate_committed_effect demo_rt 5 (live_row e) k args None True (Some ''u1'') wr = Inr b"
proof -
  have "bound_to (live_row e) e" by (simp add: live_row_def bound_apply)
  moreover have "commit_context_ok (live_row e) True (Some ''u1'') wr"
    by (simp add: live_row_def commit_context_ok_def payload_owner_def apply_payload demo_row_def
        opt_str_def py_or_def sget_def)
  moreover have "pe_expires_at e = Some (default_effect_expiry 0)"
    using assms(1) by (auto simp: build_proposed_effect_def res_bind_eq_Inr)
  ultimately show ?thesis
    using approved_commits_core [OF assms(1), of "live_row e" True "Some ''u1''" wr 5] assms
    by (auto simp: default_effect_expiry_def DEFAULT_APPROVAL_TTL_HOURS_def)
qed

text \<open>
  A Slack message is posted again. A call whose message Slack accepted ends in a
  \<open>TypeError\<close> with the row in \<open>sending\<close>; the same call made again on the state it left posts the
  same message a second time.
\<close>

theorem slack_reposts:
  assumes "slack_post_message_exactly_once env api st arguments = (st1, [(k, True)], r)"
  shows "r = Inl (OtherRaise (PyError ''TypeError'')) \<and> key_status st1 k = Some ''sending'' \<and>
    fst (snd (slack_post_message_exactly_once env api st1 arguments)) = [(k, True)]"
proof -
  let ?cr = "adapter_request env ''slack.post_message'' arguments (slack_key env arguments)
    (slack_action_arguments_hash (ce_rt env) arguments)"
  have ne: "sget arguments ''workflow_run_id'' \<noteq> []" "sget arguments ''approval_request_id'' \<noteq> []"
    "sget arguments ''channel'' \<noteq> []"
    using assms by (auto simp: slack_post_message_exactly_once_def split: if_splits)
  then obtain db c where cl: "claim_for env st ?cr = (db, Inr c)" and nr: "\<not> cc_replayed c"
    and post: "slack_post env api (cc_execution c) arguments (st\<lparr>st_db := db\<rparr>) = (st1, [(k, True)], r)"
    using assms
    by (auto simp: slack_post_message_exactly_once_def Let_def split: prod.splits sum.splits if_splits)
  obtain out where out: "api (slack_payload arguments) = Inr out"
    using post by (cases "api (slack_payload arguments)") (auto simp: slack_post_def Let_def)
  define db2 where "db2 = mark_execution_sending (ce_owner_id env) ''connector.slack.post_attempted''
    (cc_execution c) db"
  have st1: "st1 = st\<lparr>st_db := db2\<rparr>" "k = ex_key (cc_execution c)" "r = succeeded_with_result"
    using post out by (simp_all add: slack_post_def Let_def map_db_def db2_def)
  note again = claim_again [OF cl nr db2_def]
  obtain c2 where c2: "claim_for env st1 ?cr = (db2, Inr c2)" "\<not> cc_replayed c2"
    "ex_key (cc_execution c2) = cr_key ?cr"
    using again(3) st1 by auto
  have "fst (snd (slack_post_message_exactly_once env api st1 arguments)) = [(k, True)]"
    using ne c2 out st1(2) again(2)
    by (simp add: slack_post_message_exactly_once_def Let_def slack_post_def)
  then show ?thesis using again(1,2) st1 by (simp add: succeeded_with_result_def)
qed

definition slack_args :: "pyval dict" where
  "slack_args = [(''channel'', PStr ''c1''), (''text'', PStr ''hi''),
     (''workflow_run_id'', PStr ''w1''), (''approval_request_id'', PStr ''a1'')]"

lemma slack_build:
  obtains e where "build_proposed_effect demo_rt ''slack.post_message'' slack_args None 1 None None 0 = Inr e"
    "pe_normalized e \<noteq> []"
proof -
  have gen: "generic_action ''slack.post_message''"
    by (simp add: generic_action_def demo_strip guard_defs)
  have prov: "sget slack_args ''provider'' \<notin> set CANONICAL_PROVIDERS"
    by (simp add: slack_args_def CANONICAL_PROVIDERS_def)
  obtain e where "build_proposed_effect demo_rt ''slack.post_message'' slack_args None 1 None None 0 = Inr e"
    "pe_normalized e = normalize_generic slack_args"
    by (simp add: build_proposed_effect_def compute_effect_hash_def generic_form [OF gen prov])
  moreover have "normalize_generic slack_args \<noteq> []"
    by (simp add: normalize_generic_def slack_args_def binding_keys_def List.map_filter_def dhas_def)
  ultimately show thesis using that by simp
qed

lemma slack_live_run:
  obtains e st1 where "slack_post_message_exactly_once live_env (\<lambda>_. Inr []) (live_state e []) slack_args =
      (st1, [(slack_key live_env slack_args, True)], succeeded_with_result)"
proof -
  obtain e where e: "build_proposed_effect demo_rt ''slack.post_message'' slack_args None 1 None None 0 = Inr e"
    "pe_normalized e \<noteq> []" by (rule slack_build)
  obtain b where b: "validate_committed_effect demo_rt 5 (live_row e) ''slack.post_message'' slack_args
      None True (Some ''u1'') (Some ''w1'') = Inr b"
    using live_validates [OF e(1) demo_strip _ e(2), of "Some ''w1''"] by auto
  let ?cr = "adapter_request live_env ''slack.post_message'' slack_args (slack_key live_env slack_args)
    (slack_action_arguments_hash (ce_rt live_env) slack_args)"
  have "claim_for live_env (live_state e []) ?cr =
    ((st_db (live_state e []))\<lparr>cd_executions := cd_executions (st_db (live_state e [])) @
        [new_execution (ce_new_id live_env) ?cr]\<rparr>,
     Inr \<lparr>cc_execution = new_execution (ce_new_id live_env) ?cr, cc_approval = live_row e,
          cc_effect = b, cc_replayed = False\<rparr>)"
    by (rule claim_fresh)
      (use b in \<open>simp_all add: live_env_def adapter_request_def slack_args_def\<close>)
  then obtain st1 where "slack_post_message_exactly_once live_env (\<lambda>_. Inr []) (live_state e [])
      slack_args = (st1, [(slack_key live_env slack_args, True)], succeeded_with_result)"
    by (simp add: slack_post_message_exactly_once_def slack_post_def slack_args_def Let_def
        new_execution_def adapter_request_def)
  then show thesis by (rule that)
qed

theorem slack_reposts_witness:
  "\<exists>e st1. slack_post_message_exactly_once live_env (\<lambda>_. Inr []) (live_state e []) slack_args =
      (st1, [(slack_key live_env slack_args, True)], succeeded_with_result) \<and>
    fst (snd (slack_post_message_exactly_once live_env (\<lambda>_. Inr []) st1 slack_args)) =
      [(slack_key live_env slack_args, True)]"
proof -
  obtain e st1 where run: "slack_post_message_exactly_once live_env (\<lambda>_. Inr []) (live_state e [])
      slack_args = (st1, [(slack_key live_env slack_args, True)], succeeded_with_result)"
    by (rule slack_live_run)
  from slack_reposts [OF run] run show ?thesis by blast
qed

text \<open>
  So is a tracker mutation. A Jira mutation that succeeded raises after the fact and leaves
  \<open>sending\<close>; a retry performs it again.
\<close>

theorem jira_repeats:
  assumes "jira_mutation_exactly_once env (Inr out) msg st action rk arguments = (st1, [(k, True)], r)"
  shows "r = Inl (OtherRaise (PyError ''TypeError'')) \<and> key_status st1 k = Some ''sending'' \<and>
    fst (snd (jira_mutation_exactly_once env (Inr out) msg st1 action rk arguments)) = [(k, True)]"
proof -
  let ?cr = "adapter_request env action arguments (jira_key env action rk arguments)
    (jira_issue_arguments_hash (rt_sha (ce_rt env)) arguments)"
  let ?audit = "''connector.'' @ replace_char CHR ''.'' CHR ''_'' action @ ''_attempted''"
  have ne: "sget arguments ''workflow_run_id'' \<noteq> []" "sget arguments ''approval_request_id'' \<noteq> []"
    "rk \<noteq> []"
    using assms by (auto simp: jira_mutation_exactly_once_def split: if_splits)
  then obtain db c where cl: "claim_for env st ?cr = (db, Inr c)" and nr: "\<not> cc_replayed c"
    and st1: "st1 = st\<lparr>st_db := mark_execution_sending (ce_owner_id env) ?audit (cc_execution c) db\<rparr>"
      "k = ex_key (cc_execution c)" "r = succeeded_with_result"
    using assms
    by (auto simp: jira_mutation_exactly_once_def Let_def map_db_def split: prod.splits sum.splits if_splits)
  note again = claim_again [where owner = "ce_owner_id env" and audit = ?audit, OF cl nr refl]
  obtain db2 c2 where "claim_for env st1 ?cr = (db2, Inr c2)" "\<not> cc_replayed c2"
    "ex_key (cc_execution c2) = cr_key ?cr"
    using again(3) st1 by auto
  then have "fst (snd (jira_mutation_exactly_once env (Inr out) msg st1 action rk arguments)) = [(k, True)]"
    using ne st1(2) again(2) by (simp add: jira_mutation_exactly_once_def Let_def)
  then show ?thesis using again(1,2) st1 by (simp add: succeeded_with_result_def)
qed

lemma jira_strip: "strip_tool_prefix ''jira.create_issue'' = ''jira.create_issue''"
  by code_simp

definition jira_args :: "pyval dict" where
  "jira_args = [(''summary'', PStr ''s''), (''workflow_run_id'', PStr ''w1''),
     (''approval_request_id'', PStr ''a1'')]"

lemma jira_build:
  obtains e where "build_proposed_effect demo_rt ''jira.create_issue'' jira_args None 1 None None 0 = Inr e"
    "pe_normalized e \<noteq> []"
proof -
  have "normalize_proposed_effect ''jira.create_issue'' jira_args =
      Inr (canonical_jira_issue_arguments jira_args)"
    by (simp add: normalize_proposed_effect_def jira_strip guard_defs jira_args_def starts_with_def)
  moreover have "hashed_form (canonical_jira_issue_arguments jira_args) ''jira.create_issue'' =
      Inr (canonical_jira_issue_arguments jira_args)"
  proof -
    have "sget (canonical_jira_issue_arguments jira_args) ''provider'' = ''jira''"
      by (simp add: canonical_jira_issue_arguments_def)
    then show ?thesis by (simp add: hashed_form_def jira_strip guard_defs)
  qed
  moreover have "canonical_jira_issue_arguments jira_args \<noteq> []"
    by (simp add: canonical_jira_issue_arguments_def)
  ultimately show thesis
    using that by (simp add: build_proposed_effect_def compute_effect_hash_def)
qed

theorem jira_repeats_witness:
  "\<exists>e st1. jira_mutation_exactly_once live_env (Inr []) (\<lambda>_. []) (live_state e []) ''jira.create_issue''
      ''p1'' jira_args =
      (st1, [(jira_key live_env ''jira.create_issue'' ''p1'' jira_args, True)], succeeded_with_result) \<and>
    key_status st1 (jira_key live_env ''jira.create_issue'' ''p1'' jira_args) = Some ''sending''"
proof -
  obtain e where e: "build_proposed_effect demo_rt ''jira.create_issue'' jira_args None 1 None None 0 = Inr e"
    "pe_normalized e \<noteq> []" by (rule jira_build)
  obtain b where b: "validate_committed_effect demo_rt 5 (live_row e) ''jira.create_issue'' jira_args
      None True (Some ''u1'') (Some ''w1'') = Inr b"
    using live_validates [OF e(1) jira_strip _ e(2), of "Some ''w1''"] by auto
  let ?cr = "adapter_request live_env ''jira.create_issue'' jira_args
    (jira_key live_env ''jira.create_issue'' ''p1'' jira_args)
    (jira_issue_arguments_hash (rt_sha (ce_rt live_env)) jira_args)"
  have "claim_for live_env (live_state e []) ?cr =
    ((st_db (live_state e []))\<lparr>cd_executions := cd_executions (st_db (live_state e [])) @
        [new_execution (ce_new_id live_env) ?cr]\<rparr>,
     Inr \<lparr>cc_execution = new_execution (ce_new_id live_env) ?cr, cc_approval = live_row e,
          cc_effect = b, cc_replayed = False\<rparr>)"
    by (rule claim_fresh)
      (use b in \<open>simp_all add: live_env_def adapter_request_def jira_args_def\<close>)
  then obtain st1 where run: "jira_mutation_exactly_once live_env (Inr []) (\<lambda>_. []) (live_state e [])
      ''jira.create_issue'' ''p1'' jira_args =
      (st1, [(jira_key live_env ''jira.create_issue'' ''p1'' jira_args, True)], succeeded_with_result)"
    by (simp add: jira_mutation_exactly_once_def jira_args_def Let_def
        new_execution_def adapter_request_def)
  from jira_repeats [OF run] run show ?thesis by blast
qed

section \<open>Delivery\<close>

text \<open>
  C13. An approved Gmail draft is sent. With a validated approval, a key not claimed yet and the
  approved draft in an unchanged thread, a call whose POST the API accepts delivers once, records
  the success and returns the answer; the same call again delivers nothing and returns the recorded
  answer.
\<close>

theorem gmail_sends_approved:
  assumes d: "d = sget arguments ''gmail_draft_id''" "d \<noteq> []" and key: "key = gmail_key env arguments"
    and ids: "sget arguments ''workflow_run_id'' \<noteq> []" "sget arguments ''approval_request_id'' \<noteq> []"
    and h: "email_action_arguments_hash (rt_sha (ce_rt env)) arguments = Inr h"
    and ap: "get_approval (st_db st) (sget arguments ''approval_request_id'') = Some ap"
      "aq_status ap = ''approved''"
    and v: "validate_committed_effect (ce_rt env) (ce_now env) ap ''gmail.send_draft'' arguments None True
       (Some (ce_owner_id env)) (Some (sget arguments ''workflow_run_id'')) = Inr e"
    and new: "find_execution (st_db st) key = None" "\<not> ce_race env"
    and draft: "find_draft env d st = Some m" "dm_content_hash m = h"
      "\<And>t. dm_thread_id m = Some t \<Longrightarrow> t \<noteq> [] \<Longrightarrow> \<exists>th. ga_get_thread api t = Inr th \<and>
         thread_fingerprint (ce_rt env) th = dm_thread_fingerprint m"
    and sent: "ga_send api d = Inr sent"
  shows "\<exists>st1. gmail_send_draft_exactly_once env api st arguments = (st1, [(key, True)], Inr sent) \<and>
    key_status st1 key = Some ''succeeded'' \<and>
    gmail_send_draft_exactly_once env api st1 arguments = (st1, [], Inr sent)"
proof -
  let ?cr = "adapter_request env ''gmail.send_draft'' arguments key h"
  let ?x = "new_execution (ce_new_id env) ?cr"
  define db where "db = (st_db st)\<lparr>cd_executions := cd_executions (st_db st) @ [?x]\<rparr>"
  have cl: "claim_for env st ?cr = (db, Inr \<lparr>cc_execution = ?x, cc_approval = ap, cc_effect = e,
      cc_replayed = False\<rparr>)"
    unfolding db_def by (rule claim_fresh) (use ap v new in \<open>simp_all add: adapter_request_def\<close>)
  have chk: "check_draft env (ga_get_thread api) (thread_fingerprint (ce_rt env)) ''Gmail'' c d h
      (st\<lparr>st_db := db\<rparr>) = (st\<lparr>st_db := db\<rparr>, None)" for c
    using draft by (cases "dm_thread_id m") (auto simp: check_draft_def find_draft_def Let_def opt_str_def)
  obtain st1 where post: "gmail_post env api ?x d (st\<lparr>st_db := db\<rparr>) = (st1, [(key, True)], Inr sent)"
    and st1: "st_db st1 = fst (mark_execution_succeeded (ce_owner_id env) ''connector.gmail.send_succeeded''
      sent (Some (sget sent ''id'')) ?x
      (mark_execution_sending (ce_owner_id env) ''connector.gmail.send_attempted'' ?x db))"
    using sent by (simp add: gmail_post_def Let_def map_db_def set_draft_status_def new_execution_def
        adapter_request_def)
  have call: "gmail_send_draft_exactly_once env api st arguments = (st1, [(key, True)], Inr sent)"
    using d ids h cl chk post key
    by (simp add: gmail_send_draft_exactly_once_def Let_def) (simp add: new_execution_def)
  have row: "find_execution (st_db st1) key = Some (?x\<lparr>ex_status := ''succeeded'',
      ex_result_id := Some (sget sent ''id''), ex_result := sent, ex_error := None\<rparr>)"
    using new(1)
    by (simp add: st1 mark_execution_succeeded_def mark_execution_sending_def executions.row_upd db_def)
      (simp add: find_execution_def find_snoc new_execution_def adapter_request_def)
  have ap1: "get_approval (st_db st1) (sget arguments ''approval_request_id'') = Some ap"
    using ap(1) by (simp add: st1 mark_execution_succeeded_def mark_execution_sending_def db_def)
      (simp add: get_approval_def)
  have cl1: "\<exists>c. claim_for env st1 ?cr = (st_db st1, Inr c) \<and> cc_replayed c \<and> ex_result (cc_execution c) = sent"
    using ap1 ap(2) v row
    by (simp add: claim_for_def authorize_and_claim_execution_def validated_effect_def reuse_execution_def
        adapter_request_def new_execution_def Let_def)
  have "gmail_send_draft_exactly_once env api st1 arguments = (st1, [], Inr sent)"
    using cl1 d ids h key by (auto simp: gmail_send_draft_exactly_once_def Let_def)
  with call row show ?thesis by (auto simp: exec_status_def)
qed

lemma email_strip: "strip_tool_prefix ''gmail.send_draft'' = ''gmail.send_draft''"
  by code_simp

definition gmail_args :: "pyval dict" where
  "gmail_args = [(''gmail_draft_id'', PStr ''d1''), (''workflow_run_id'', PStr ''w1''),
     (''approval_request_id'', PStr ''a1'')]"

definition gmail_form :: "pyval dict" where
  "gmail_form =
     [(''provider'', PStr ''gmail''), (''connector_installation_id'', PStr []),
      (''gmail_draft_id'', PStr ''d1''), (''thread_id'', PStr []), (''in_reply_to'', PStr []),
      (''from'', PStr []), (''to'', PList []), (''cc'', PList []), (''bcc'', PList []),
      (''subject'', PStr []), (''body'', PStr []), (''attachments'', PList [])]"

lemma gmail_forms:
  "canonical_email_action_arguments gmail_args = Inr gmail_form"
  "canonical_email_action_arguments gmail_form = Inr gmail_form"
  by code_simp+

lemma gmail_build:
  obtains e where "build_proposed_effect demo_rt ''gmail.send_draft'' gmail_args None 1 None None 0 = Inr e"
    "pe_normalized e \<noteq> []"
proof -
  have "normalize_proposed_effect ''gmail.send_draft'' gmail_args = Inr gmail_form"
    by (simp add: normalize_proposed_effect_def email_strip guard_defs gmail_forms)
  moreover have "hashed_form gmail_form ''gmail.send_draft'' = Inr gmail_form"
    by (simp add: hashed_form_def email_strip guard_defs gmail_forms)
  ultimately show thesis
    using that by (simp add: build_proposed_effect_def compute_effect_hash_def gmail_form_def)
qed

definition gmail_draft :: draft_metadata where
  "gmail_draft = \<lparr>dm_owner_id = ''u1'', dm_installation = ''i1'', dm_draft_id = ''d1'',
     dm_thread_id = None, dm_thread_fingerprint = [],
     dm_content_hash = arguments_hash (rt_sha demo_rt) gmail_form, dm_status = ''draft''\<rparr>"

definition gmail_up :: gmail_api where
  "gmail_up = \<lparr>ga_get_draft = (\<lambda>_. Inr []), ga_get_thread = (\<lambda>_. Inr []),
     ga_send = (\<lambda>_. Inr [(''id'', PStr ''m1'')])\<rparr>"

theorem gmail_sends_approved_witness:
  "\<exists>e st1. gmail_send_draft_exactly_once live_env gmail_up (live_state e [gmail_draft]) gmail_args =
      (st1, [(gmail_key live_env gmail_args, True)], Inr [(''id'', PStr ''m1'')]) \<and>
    gmail_send_draft_exactly_once live_env gmail_up st1 gmail_args = (st1, [], Inr [(''id'', PStr ''m1'')])"
proof -
  obtain e where e: "build_proposed_effect demo_rt ''gmail.send_draft'' gmail_args None 1 None None 0 = Inr e"
    "pe_normalized e \<noteq> []" by (rule gmail_build)
  obtain b where b: "validate_committed_effect demo_rt 5 (live_row e) ''gmail.send_draft'' gmail_args
      None True (Some ''u1'') (Some ''w1'') = Inr b"
    using live_validates [OF e(1) email_strip _ e(2), of "Some ''w1''"] by auto
  have args: "sget gmail_args ''gmail_draft_id'' = ''d1''" "sget gmail_args ''workflow_run_id'' = ''w1''"
    "sget gmail_args ''approval_request_id'' = ''a1''"
    by (simp_all add: gmail_args_def)
  have h: "email_action_arguments_hash (rt_sha (ce_rt live_env)) gmail_args =
      Inr (arguments_hash (rt_sha demo_rt) gmail_form)"
    by (simp add: email_action_arguments_hash_def gmail_forms live_env_def)
  have "\<exists>st1. gmail_send_draft_exactly_once live_env gmail_up (live_state e [gmail_draft]) gmail_args =
      (st1, [(gmail_key live_env gmail_args, True)], Inr [(''id'', PStr ''m1'')]) \<and>
    key_status st1 (gmail_key live_env gmail_args) = Some ''succeeded'' \<and>
    gmail_send_draft_exactly_once live_env gmail_up st1 gmail_args = (st1, [], Inr [(''id'', PStr ''m1'')])"
    by (rule gmail_sends_approved [where d = "''d1''" and ap = "live_row e" and e = b and m = gmail_draft,
          OF _ _ refl _ _ h])
      (use b args in \<open>simp_all add: live_env_def find_draft_def gmail_draft_def gmail_up_def\<close>)
  then show ?thesis by blast
qed

text \<open>
  A missing Outlook draft is reported as sent. When the POST that sends answers 404 nothing
  was delivered, but the call returns \<open>sent\<close> and closes the key as succeeded, so no retry follows.
\<close>

theorem outlook_missing_reported_sent:
  assumes "oa_send api d = Inl e" "er_status e = Some 404" "key_status st (ex_key x) = Some s"
  shows "\<exists>st1. outlook_post env api x d st =
      (st1, [(ex_key x, False)], Inr [(''id'', PStr d), (''status'', PStr ''sent'')]) \<and>
    key_status st1 (ex_key x) = Some ''succeeded''"
  using assms
  by (simp add: outlook_post_def Let_def map_db_def set_draft_status_def mark_status)

theorem outlook_missing_reported_sent_witness:
  "\<exists>st1. outlook_post live_env \<lparr>oa_get_draft = (\<lambda>_. Inr []), oa_get_thread = (\<lambda>_. Inr []),
      oa_send = (\<lambda>_. Inl \<lparr>er_message = ''gone'', er_retryable = False, er_status = Some 404\<rparr>),
      oa_get_sent = (\<lambda>_. Inr [])\<rparr> (new_execution ''x1'' (adapter_request live_env ''outlook.send_draft'' [] ''k'' ''h''))
      ''d1'' \<lparr>st_db = \<lparr>cd_approvals = [], cd_executions = [new_execution ''x1''
        (adapter_request live_env ''outlook.send_draft'' [] ''k'' ''h'')], cd_audit = []\<rparr>, st_drafts = []\<rparr> =
      (st1, [(''k'', False)], Inr [(''id'', PStr ''d1''), (''status'', PStr ''sent'')]) \<and>
    key_status st1 ''k'' = Some ''succeeded''"
proof -
  let ?x = "new_execution ''x1'' (adapter_request live_env ''outlook.send_draft'' [] ''k'' ''h'')"
  have k: "ex_key ?x = ''k''" by (simp add: new_execution_def adapter_request_def)
  show ?thesis
    using outlook_missing_reported_sent [of "\<lparr>oa_get_draft = (\<lambda>_. Inr []), oa_get_thread = (\<lambda>_. Inr []),
        oa_send = (\<lambda>_. Inl \<lparr>er_message = ''gone'', er_retryable = False, er_status = Some 404\<rparr>),
        oa_get_sent = (\<lambda>_. Inr [])\<rparr>" "''d1''" _ "\<lparr>st_db = \<lparr>cd_approvals = [],
          cd_executions = [?x], cd_audit = []\<rparr>, st_drafts = []\<rparr>" ?x "''claimed''" live_env]
    by (simp add: k) (simp add: exec_status_def find_execution_def new_execution_def adapter_request_def)
qed

section \<open>No delivery without an approval\<close>

definition delivery_authorized :: "call_env \<Rightarrow> adapter_state \<Rightarrow> string \<Rightarrow> pyval dict \<Rightarrow> bool" where
  "delivery_authorized env st k a \<longleftrightarrow>
     (\<exists>ap b. get_approval (st_db st) (sget a ''approval_request_id'') = Some ap \<and>
        aq_status ap = ''approved'' \<and>
        validate_committed_effect (ce_rt env) (ce_now env) ap k a None True (Some (ce_owner_id env))
          (Some (sget a ''workflow_run_id'')) = Inr b)"

lemma claim_authorizes:
  "claim_for env st (adapter_request env k a key h) = (db, Inr c) \<Longrightarrow> delivery_authorized env st k a"
  unfolding claim_for_def delivery_authorized_def
  by (erule claim_Inr) (auto simp: adapter_request_def)

lemma gmail_authorized:
  "fst (snd (gmail_send_draft_exactly_once env api st a)) \<noteq> [] \<Longrightarrow>
     delivery_authorized env st ''gmail.send_draft'' a"
  by (auto simp: gmail_send_draft_exactly_once_def Let_def
      intro: claim_authorizes split: if_splits sum.splits prod.splits)

lemma outlook_authorized:
  "fst (snd (outlook_send_draft_exactly_once env api st a)) \<noteq> [] \<Longrightarrow>
     delivery_authorized env st ''outlook.send_draft'' a"
  by (auto simp: outlook_send_draft_exactly_once_def Let_def
      intro: claim_authorizes split: if_splits sum.splits prod.splits)

lemma slack_authorized:
  "fst (snd (slack_post_message_exactly_once env api st a)) \<noteq> [] \<Longrightarrow>
     delivery_authorized env st ''slack.post_message'' a"
  by (auto simp: slack_post_message_exactly_once_def Let_def
      intro: claim_authorizes split: if_splits sum.splits prod.splits)

lemma jira_authorized:
  "fst (snd (jira_mutation_exactly_once env perform msg st action rk a)) \<noteq> [] \<Longrightarrow>
     delivery_authorized env st action a"
  by (auto simp: jira_mutation_exactly_once_def Let_def
      intro: claim_authorizes split: if_splits sum.splits prod.splits)



end
