(* ===== verification/Workflow_Graph.thy ===== *)
theory Workflow_Graph
  imports Canonical_Arguments "HOL-Library.Multiset"
begin

text \<open>
  The canonical form of a workflow graph and its hash, \<open>workforce/services/workflow_graph.py\<close>:
  nodes sorted by id, edges by end points, node configurations and edge attributes by key. The
  digest is a parameter.
\<close>

section \<open>Canonical nodes and edges\<close>

definition sorted_node :: "pyval dict \<Rightarrow> pyval dict" where
  "sorted_node node =
     (case pget node ''config'' of
        PDict c \<Rightarrow> dset ''config'' (PDict (sort_key fst c)) node
      | _ \<Rightarrow> node)"

definition ENDPOINT_KEYS :: "string list" where
  "ENDPOINT_KEYS = [''from'', ''to'', ''source'', ''target'']"

definition edge_extra :: "pyval dict \<Rightarrow> pyval dict" where
  "edge_extra edge = sort_key fst (filter (\<lambda>kv. fst kv \<notin> set ENDPOINT_KEYS) edge)"

definition edge_from :: "pyval dict \<Rightarrow> string" where
  "edge_from edge = sget2 edge ''from'' ''source''"

definition edge_to :: "pyval dict \<Rightarrow> string" where
  "edge_to edge = sget2 edge ''to'' ''target''"

definition sorted_edge :: "pyval dict \<Rightarrow> pyval dict" where
  "sorted_edge edge =
     [(''from'', PStr (edge_from edge)), (''to'', PStr (edge_to edge))] @ edge_extra edge"

section \<open>Canonical graphs\<close>

definition dict_items :: "pyval list \<Rightarrow> pyval dict list" where
  "dict_items xs = List.map_filter (\<lambda>x. case x of PDict d \<Rightarrow> Some d | _ \<Rightarrow> None) xs"

definition node_id :: "pyval dict \<Rightarrow> string" where
  "node_id node = py_str (pget node ''id'')"

definition named_nodes :: "pyval list \<Rightarrow> pyval dict list" where
  "named_nodes nodes = filter (\<lambda>n. truthy (pget n ''id'')) (dict_items nodes)"

definition started_edges :: "pyval list \<Rightarrow> pyval dict list" where
  "started_edges edges =
     filter (\<lambda>e. truthy (pget e ''from'') \<or> truthy (pget e ''source'')) (dict_items edges)"

definition canonical_nodes :: "pyval list \<Rightarrow> pyval dict list" where
  "canonical_nodes nodes = sort_key node_id (map sorted_node (named_nodes nodes))"

definition edge_ends :: "pyval dict \<Rightarrow> string \<times> string" where
  "edge_ends edge = (py_str (pget edge ''from''), py_str (pget edge ''to''))"

definition canonical_edges :: "pyval list \<Rightarrow> pyval dict list" where
  "canonical_edges edges = sort_key edge_ends (map sorted_edge (started_edges edges))"

record workflow_graph =
  wg_nodes :: "pyval dict list"
  wg_edges :: "pyval dict list"
  wg_entry :: "string option"

definition canonicalize_workflow_graph ::
  "pyval list \<Rightarrow> pyval list \<Rightarrow> string option \<Rightarrow> workflow_graph" where
  "canonicalize_workflow_graph nodes edges entry =
     (let ns = canonical_nodes nodes;
          e = py_strip (str_or (opt_str entry) []) in
      \<lparr>wg_nodes = ns, wg_edges = canonical_edges edges,
       wg_entry = (if e \<noteq> [] then Some e
                   else case ns of [] \<Rightarrow> None | n # _ \<Rightarrow> Some (node_id n))\<rparr>)"

definition graph_payload :: "workflow_graph \<Rightarrow> pyval dict" where
  "graph_payload g =
     [(''nodes'', PList (map PDict (wg_nodes g))), (''edges'', PList (map PDict (wg_edges g))),
      (''entry_node_id'', opt_str (wg_entry g))]"

definition workflow_graph_hash :: "(string \<Rightarrow> string) \<Rightarrow> workflow_graph \<Rightarrow> string" where
  "workflow_graph_hash sha g = sha (json_dumps (PDict (graph_payload g)))"

text \<open>The columns of a version row that the canonical graph replaces.\<close>

record graph_version =
  gv_nodes :: "pyval list"
  gv_edges :: "pyval list"
  gv_entry :: "string option"
  gv_hash :: "string option"

definition apply_canonical_graph_to_version ::
  "(string \<Rightarrow> string) \<Rightarrow> graph_version \<Rightarrow> pyval list \<Rightarrow> pyval list \<Rightarrow> string option \<Rightarrow>
   graph_version \<times> workflow_graph" where
  "apply_canonical_graph_to_version sha v nodes edges entry =
     (let g = canonicalize_workflow_graph nodes edges entry in
      (v\<lparr>gv_nodes := map PDict (wg_nodes g), gv_edges := map PDict (wg_edges g),
         gv_entry := wg_entry g, gv_hash := Some (workflow_graph_hash sha g)\<rparr>, g))"

section \<open>Canonical forms are canonical\<close>

lemma dset_same [simp]: "dset k v (dset k v d) = dset k v d"
  by (induction d) auto

lemma sort_key_twice [simp]: "sort_key f (sort_key f xs) = sort_key f xs"
  by (simp add: sort_key_id_if_sorted)

lemma sorted_node_id [simp]:
  "pget (sorted_node n) ''id'' = pget n ''id''" "node_id (sorted_node n) = node_id n"
  by (auto simp: sorted_node_def node_id_def split: pyval.splits)

lemma sorted_node_idem [simp]: "sorted_node (sorted_node n) = sorted_node n"
  by (auto simp: sorted_node_def split: pyval.splits)

lemma dict_items_PDict [simp]: "dict_items (map PDict ds) = ds"
  by (induction ds) (simp_all add: dict_items_def List.map_filter_simps)

lemma canonical_nodes_truthy: "n \<in> set (canonical_nodes nodes) \<Longrightarrow> truthy (pget n ''id'')"
  by (auto simp: canonical_nodes_def named_nodes_def)

lemma canonical_nodes_sorted_node: "n \<in> set (canonical_nodes nodes) \<Longrightarrow> sorted_node n = n"
  by (auto simp: canonical_nodes_def)

lemma canonical_nodes_idem: "canonical_nodes (map PDict (canonical_nodes nodes)) = canonical_nodes nodes"
proof -
  let ?ns = "canonical_nodes nodes"
  have "named_nodes (map PDict ?ns) = ?ns"
    by (simp add: named_nodes_def filter_id_conv canonical_nodes_truthy)
  moreover have "map sorted_node ?ns = ?ns"
    by (simp add: canonical_nodes_sorted_node map_idI)
  ultimately have "canonical_nodes (map PDict ?ns) = sort_key node_id ?ns"
    by (simp add: canonical_nodes_def)
  also have "\<dots> = ?ns" by (simp add: canonical_nodes_def)
  finally show ?thesis .
qed

lemma edge_extra_keys: "kv \<in> set (edge_extra e) \<Longrightarrow> fst kv \<notin> set ENDPOINT_KEYS"
  by (simp add: edge_extra_def)

lemma pget_edge_extra: "k \<in> set ENDPOINT_KEYS \<Longrightarrow> pget (edge_extra e) k = PNone"
  using edge_extra_keys [of _ e] by (auto simp: pget_def split: option.splits dest!: map_of_SomeD)

lemma pget_sorted_edge:
  "pget (sorted_edge e) ''from'' = PStr (edge_from e)"
  "pget (sorted_edge e) ''to'' = PStr (edge_to e)"
  "pget (sorted_edge e) ''source'' = PNone"
  "pget (sorted_edge e) ''target'' = PNone"
  by (simp_all add: sorted_edge_def pget_edge_extra ENDPOINT_KEYS_def)

lemma edge_extra_idem [simp]: "edge_extra (sorted_edge e) = edge_extra e"
proof -
  have "filter (\<lambda>kv. fst kv \<notin> set ENDPOINT_KEYS) (sorted_edge e) = edge_extra e"
    by (simp add: sorted_edge_def filter_id_conv edge_extra_keys) (simp add: ENDPOINT_KEYS_def)
  then show ?thesis by (simp add: edge_extra_def [of "sorted_edge e"]) (simp add: edge_extra_def)
qed

lemma edge_ends_idem [simp]: "edge_from (sorted_edge e) = edge_from e" "edge_to (sorted_edge e) = edge_to e"
  by (simp_all add: edge_from_def [of "sorted_edge e"] edge_to_def [of "sorted_edge e"] sget2_def
      py_or_def pget_sorted_edge)

lemma sorted_edge_idem [simp]: "sorted_edge (sorted_edge e) = sorted_edge e"
  by (simp add: sorted_edge_def [of "sorted_edge e"]) (simp add: sorted_edge_def)

lemma edge_from_nonempty: "truthy (pget e ''from'') \<or> truthy (pget e ''source'') \<Longrightarrow> edge_from e \<noteq> []"
  by (auto simp: edge_from_def sget2_def str_or_def py_or_def py_str_nonempty)

lemma canonical_edges_idem: "canonical_edges (map PDict (canonical_edges edges)) = canonical_edges edges"
proof -
  let ?es = "canonical_edges edges"
  have form: "\<exists>e0. e = sorted_edge e0 \<and> edge_from e0 \<noteq> []" if "e \<in> set ?es" for e
    using that edge_from_nonempty by (auto simp: canonical_edges_def started_edges_def)
  then have "started_edges (map PDict ?es) = ?es"
    by (fastforce simp: started_edges_def filter_id_conv pget_sorted_edge)
  moreover have "sorted_edge e = e" if "e \<in> set ?es" for e using form [OF that] by auto
  then have "map sorted_edge ?es = ?es" by (simp add: map_idI)
  ultimately have "canonical_edges (map PDict ?es) = sort_key edge_ends ?es"
    by (simp add: canonical_edges_def)
  also have "\<dots> = ?es" by (simp add: canonical_edges_def)
  finally show ?thesis .
qed

text \<open>
  Canonicalising is idempotent: a stored canonical graph canonicalises to itself, when no node
  id has blanks around it.
\<close>

theorem canonicalize_idempotent:
  assumes "\<And>n. n \<in> set (named_nodes nodes) \<Longrightarrow> py_strip (node_id n) = node_id n"
    and "g = canonicalize_workflow_graph nodes edges entry"
  shows "canonicalize_workflow_graph (map PDict (wg_nodes g)) (map PDict (wg_edges g)) (wg_entry g) = g"
proof -
  have first: "py_strip (node_id n) = node_id n" "node_id n \<noteq> []" if "canonical_nodes nodes = n # ns" for n ns
  proof -
    have "n \<in> set (canonical_nodes nodes)" using that by simp
    then obtain m where m: "m \<in> set (named_nodes nodes)" "n = sorted_node m"
      by (auto simp: canonical_nodes_def)
    then show "py_strip (node_id n) = node_id n" using assms(1) by simp
    show "node_id n \<noteq> []"
      using m by (auto simp: named_nodes_def node_id_def py_str_nonempty)
  qed
  show ?thesis
    using first assms(2)
    by (auto simp: canonicalize_workflow_graph_def Let_def canonical_nodes_idem canonical_edges_idem
        opt_str_def split: list.splits)
qed

text \<open>The order of the stored nodes and edges does not matter.\<close>

lemma sort_key_mset_eq:
  assumes "mset xs = mset ys" "distinct (map f xs)"
  shows "sort_key f xs = sort_key f ys"
proof (rule map_sorted_distinct_set_unique [of f])
  have d: "distinct (map f ys)"
    using assms(2) mset_eq_imp_distinct_iff [of "map f xs" "map f ys"] assms(1) by simp
  have "set xs = set ys" using assms(1) by (metis set_mset_mset)
  then show "inj_on f (set (sort_key f xs) \<union> set (sort_key f ys))"
    using assms(2) by (simp add: distinct_map)
  show "set (sort_key f xs) = set (sort_key f ys)" using \<open>set xs = set ys\<close> by simp
  show "distinct (map f (sort_key f xs))" "distinct (map f (sort_key f ys))"
    using assms(2) d by (simp_all add: distinct_map)
qed simp_all

lemma mset_dict_items: "mset xs = mset ys \<Longrightarrow> mset (dict_items xs) = mset (dict_items ys)"
  by (simp add: dict_items_def List.map_filter_def)

lemma mset_named_nodes: "mset xs = mset ys \<Longrightarrow> mset (named_nodes xs) = mset (named_nodes ys)"
  using mset_dict_items [of xs ys] by (simp add: named_nodes_def)

lemma mset_started_edges: "mset xs = mset ys \<Longrightarrow> mset (started_edges xs) = mset (started_edges ys)"
  using mset_dict_items [of xs ys] by (simp add: started_edges_def)

lemma canonical_nodes_perm:
  assumes "mset nodes = mset nodes'" "distinct (map node_id (named_nodes nodes))"
  shows "canonical_nodes nodes = canonical_nodes nodes'"
  unfolding canonical_nodes_def
  by (rule sort_key_mset_eq)
    (simp_all add: mset_named_nodes [OF assms(1)] assms(2) comp_def)

lemma edge_ends_sorted [simp]: "edge_ends (sorted_edge e) = (edge_from e, edge_to e)"
  by (simp add: edge_ends_def pget_sorted_edge)

lemma canonical_edges_perm:
  assumes "mset edges = mset edges'"
    and "distinct (map (\<lambda>e. (edge_from e, edge_to e)) (started_edges edges))"
  shows "canonical_edges edges = canonical_edges edges'"
  unfolding canonical_edges_def
  by (rule sort_key_mset_eq) (simp_all add: mset_started_edges [OF assms(1)] assms(2) comp_def)

lemma hash_eq_iff:
  assumes "inj sha"
  shows "workflow_graph_hash sha g = workflow_graph_hash sha h \<longleftrightarrow>
    map (sort_keys \<circ> PDict) (wg_nodes g) = map (sort_keys \<circ> PDict) (wg_nodes h) \<and>
    map (sort_keys \<circ> PDict) (wg_edges g) = map (sort_keys \<circ> PDict) (wg_edges h) \<and>
    wg_entry g = wg_entry h"
proof -
  have entry: "sort_keys (opt_str e) = opt_str e" "opt_str e = opt_str f \<longleftrightarrow> e = f" for e f
    by (auto simp: opt_str_def split: option.splits)
  have payload: "sort_keys (PDict (graph_payload x)) = PDict
      [(''edges'', PList (map (sort_keys \<circ> PDict) (wg_edges x))), (''entry_node_id'', opt_str (wg_entry x)),
       (''nodes'', PList (map (sort_keys \<circ> PDict) (wg_nodes x)))]" for x
    by (simp add: graph_payload_def entry comp_def del: sort_keys.simps(2))
      (simp add: entry comp_def)
  show ?thesis
    by (simp only: workflow_graph_hash_def inj_eq [OF assms] json_dumps_inj payload) (auto simp: entry)
qed

text \<open>
  C35. The graph hash identifies the graph: for a collision-free digest two graphs have the same
  hash exactly when their nodes, edges and entry agree up to the order of dictionary keys.
\<close>

theorem graph_hash_identifies:
  assumes "inj sha"
  shows "workflow_graph_hash sha g = workflow_graph_hash sha h \<longleftrightarrow>
    map (sort_keys \<circ> PDict) (wg_nodes g) = map (sort_keys \<circ> PDict) (wg_nodes h) \<and>
    map (sort_keys \<circ> PDict) (wg_edges g) = map (sort_keys \<circ> PDict) (wg_edges h) \<and>
    wg_entry g = wg_entry h"
  by (rule hash_eq_iff [OF assms])

text \<open>
  The stored order does not matter: permuting the nodes (with distinct ids) and the edges (with
  distinct end points) of a graph with an entry keeps the canonical graph and its hash.
\<close>

theorem graph_order_independent:
  assumes "mset nodes = mset nodes'" "distinct (map node_id (named_nodes nodes))"
    and "mset edges = mset edges'"
    and "distinct (map (\<lambda>e. (edge_from e, edge_to e)) (started_edges edges))"
  shows "canonicalize_workflow_graph nodes edges entry = canonicalize_workflow_graph nodes' edges' entry"
  using canonical_nodes_perm [OF assms(1,2)] canonical_edges_perm [OF assms(3,4)]
  by (simp add: canonicalize_workflow_graph_def Let_def)

text \<open>A concrete graph: a condition between two tools, stored out of order.\<close>

definition demo_nodes :: "pyval list" where
  "demo_nodes =
     [PDict [(''id'', PStr ''b''), (''type'', PStr ''tool'')],
      PDict [(''id'', PStr ''a''), (''type'', PStr ''condition'')]]"

definition demo_edges :: "pyval list" where
  "demo_edges = [PDict [(''from'', PStr ''a''), (''to'', PStr ''b'')]]"

lemma demo_named:
  "named_nodes demo_nodes =
     [[(''id'', PStr ''b''), (''type'', PStr ''tool'')], [(''id'', PStr ''a''), (''type'', PStr ''condition'')]]"
  "started_edges demo_edges = [[(''from'', PStr ''a''), (''to'', PStr ''b'')]]"
  by (simp_all add: demo_nodes_def demo_edges_def named_nodes_def started_edges_def dict_items_def
      List.map_filter_simps)

lemma demo_ids: "py_strip ''a'' = ''a''" "py_strip ''b'' = ''b''"
  by code_simp+

theorem canonicalize_idempotent_witness:
  "let g = canonicalize_workflow_graph demo_nodes demo_edges None in
   canonicalize_workflow_graph (map PDict (wg_nodes g)) (map PDict (wg_edges g)) (wg_entry g) = g"
  unfolding Let_def
  by (rule canonicalize_idempotent [OF _ refl]) (auto simp: demo_named node_id_def demo_ids)

theorem graph_hash_identifies_witness:
  "workflow_graph_hash (\<lambda>s. s) (canonicalize_workflow_graph demo_nodes demo_edges None) \<noteq>
   workflow_graph_hash (\<lambda>s. s) (canonicalize_workflow_graph demo_nodes demo_edges (Some ''b''))"
  by (subst graph_hash_identifies)
    (auto simp: inj_def canonicalize_workflow_graph_def canonical_nodes_def demo_named Let_def
      opt_str_def str_or_def demo_ids sorted_node_def node_id_def)

theorem graph_order_independent_witness:
  "canonicalize_workflow_graph demo_nodes demo_edges None =
   canonicalize_workflow_graph (rev demo_nodes) (rev demo_edges) None"
  by (rule graph_order_independent) (simp_all add: demo_named node_id_def)

end
