(* ===== verification/Workflow_Graph_Diff.thy ===== *)
theory Workflow_Graph_Diff
  imports Workflow_Graph Exact_Effect
begin

text \<open>
  The structural diff of two workflow graphs, \<open>workforce/services/workflow_graph_diff.py\<close>. A Python
  \<open>set\<close> has no order of its own: where the code sorts a set of edges by their end points only, the
  order of edges with the same ends is the iteration order, the parameter \<open>ord\<close>.
\<close>

section \<open>Edge keys\<close>

text \<open>\<open>json.dumps(extra, sort_keys=True)\<close>, with the default separators.\<close>

fun json_text_spaced :: "pyval \<Rightarrow> string" where
  "json_text_spaced PNone = ''null''"
| "json_text_spaced (PBool b) = (if b then ''true'' else ''false'')"
| "json_text_spaced (PInt i) = str_of_int i"
| "json_text_spaced (PStr s) = json_str s"
| "json_text_spaced (PList xs) = ''['' @ py_join '', '' (map json_text_spaced xs) @ '']''"
| "json_text_spaced (PDict d) =
     ''{'' @ py_join '', '' (map (\<lambda>(k, v). json_str k @ '': '' @ json_text_spaced v) d) @ ''}''"

type_synonym edge_key = "string \<times> string \<times> string"

definition edge_key :: "pyval dict \<Rightarrow> edge_key" where
  "edge_key e = (edge_from e, edge_to e, json_text_spaced (sort_keys (PDict (edge_extra e))))"

section \<open>The diff\<close>

definition node_changed_fields :: "pyval dict \<Rightarrow> pyval dict \<Rightarrow> string list" where
  "node_changed_fields before after =
     filter (\<lambda>k. \<not> py_eq (pget before k) (pget after k))
       (py_sorted_set (map fst before @ map fst after))"

text \<open>A dictionary comprehension over the nodes or edges: the last one of a key wins.\<close>

definition by_key :: "(pyval dict \<Rightarrow> 'k) \<Rightarrow> pyval dict list \<Rightarrow> ('k \<times> pyval dict) list" where
  "by_key f xs = fold (\<lambda>x. AList.update (f x) x) xs []"

definition sorted_keys_minus :: "(string \<times> pyval dict) list \<Rightarrow> (string \<times> pyval dict) list \<Rightarrow> string list" where
  "sorted_keys_minus a b = filter (\<lambda>k. k \<notin> fst ` set b) (py_sorted_set (map fst a))"

definition edges_minus ::
  "(edge_key list \<Rightarrow> edge_key list) \<Rightarrow> (edge_key \<times> pyval dict) list \<Rightarrow> (edge_key \<times> pyval dict) list \<Rightarrow>
   pyval dict list" where
  "edges_minus ord a b =
     map (\<lambda>k. the (map_of a k))
       (sort_key (\<lambda>(f, t, _). (f, t)) (ord (filter (\<lambda>k. k \<notin> fst ` set b) (map fst a))))"

record graph_diff =
  gd_nodes_added :: "string list"
  gd_nodes_removed :: "string list"
  gd_nodes_changed :: "(string \<times> string list) list"
  gd_edges_added :: "pyval dict list"
  gd_edges_removed :: "pyval dict list"
  gd_entry_before :: "string option"
  gd_entry_after :: "string option"
  gd_hash_before :: string
  gd_hash_after :: string

definition gd_entry_changed :: "graph_diff \<Rightarrow> bool" where
  "gd_entry_changed d \<longleftrightarrow> gd_entry_before d \<noteq> gd_entry_after d"

definition gd_graph_changed :: "graph_diff \<Rightarrow> bool" where
  "gd_graph_changed d \<longleftrightarrow> gd_hash_before d \<noteq> gd_hash_after d"

definition gd_summary :: "graph_diff \<Rightarrow> (string \<times> nat) list" where
  "gd_summary d =
     [(''nodes_added'', length (gd_nodes_added d)), (''nodes_removed'', length (gd_nodes_removed d)),
      (''nodes_changed'', length (gd_nodes_changed d)), (''edges_added'', length (gd_edges_added d)),
      (''edges_removed'', length (gd_edges_removed d))]"

definition diff_workflow_graphs ::
  "(string \<Rightarrow> string) \<Rightarrow> (edge_key list \<Rightarrow> edge_key list) \<Rightarrow>
   pyval list \<times> pyval list \<times> string option \<Rightarrow> pyval list \<times> pyval list \<times> string option \<Rightarrow> graph_diff" where
  "diff_workflow_graphs sha ord l r =
     (let left = (case l of (ns, es, e) \<Rightarrow> canonicalize_workflow_graph ns es e);
          right = (case r of (ns, es, e) \<Rightarrow> canonicalize_workflow_graph ns es e);
          ln = by_key node_id (wg_nodes left); rn = by_key node_id (wg_nodes right);
          le = by_key edge_key (wg_edges left); re = by_key edge_key (wg_edges right);
          common = filter (\<lambda>k. k \<in> fst ` set rn) (py_sorted_set (map fst ln)) in
      \<lparr>gd_nodes_added = sorted_keys_minus rn ln, gd_nodes_removed = sorted_keys_minus ln rn,
       gd_nodes_changed =
         map (\<lambda>k. (k, node_changed_fields (the (map_of ln k)) (the (map_of rn k))))
           (filter (\<lambda>k. \<not> py_eq (PDict (the (map_of ln k))) (PDict (the (map_of rn k)))) common),
       gd_edges_added = edges_minus ord re le, gd_edges_removed = edges_minus ord le re,
       gd_entry_before = wg_entry left, gd_entry_after = wg_entry right,
       gd_hash_before = workflow_graph_hash sha left, gd_hash_after = workflow_graph_hash sha right\<rparr>)"

section \<open>Values equal up to the order of keys\<close>

fun distinct_keys :: "pyval \<Rightarrow> bool" where
  "distinct_keys (PList xs) = list_all distinct_keys xs"
| "distinct_keys (PDict d) = (distinct (map fst d) \<and> list_all (\<lambda>kv. distinct_keys (snd kv)) d)"
| "distinct_keys v = True"

lemma py_eq_containers:
  "py_eq (PList xs) (PList ys) \<longleftrightarrow> py_eq_list xs ys"
  "py_eq (PDict d) (PDict e) \<longleftrightarrow> length d = length e \<and> py_sub_dict d e"
  by (subst py_eq.simps, simp)+

lemma py_eq_refl_atom: "py_eq PNone PNone" "py_eq (PBool b) (PBool b)" "py_eq (PInt i) (PInt i)"
  by (subst py_eq.simps, simp add: as_int_def)+

lemma py_sub_dictI:
  "(\<And>k v. (k, v) \<in> set d \<Longrightarrow> \<exists>w. dget e k = Some w \<and> py_eq v w) \<Longrightarrow> py_sub_dict d e"
proof (induction d)
  case (Cons kv d)
  then show ?case by (cases kv) fastforce
qed simp

lemma py_eq_listI: "list_all2 py_eq xs ys \<Longrightarrow> py_eq_list xs ys"
  by (induction rule: list_all2_induct) simp_all

lemma sort_keys_py_eq: "sort_keys v = sort_keys w \<Longrightarrow> distinct_keys v \<Longrightarrow> py_eq v w"
proof (induction v arbitrary: w)
  case (PList xs)
  then obtain ys where ys: "w = PList ys" "map sort_keys xs = map sort_keys ys" by (cases w) auto
  have "list_all2 py_eq xs ys"
  proof (rule list_all2_all_nthI)
    show len: "length xs = length ys" using ys(2) map_eq_imp_length_eq by blast
    fix i assume i: "i < length xs"
    then have "sort_keys (xs ! i) = sort_keys (ys ! i)" using ys(2) len by (metis nth_map)
    then show "py_eq (xs ! i) (ys ! i)"
      using PList.IH [OF nth_mem [OF i]] PList.prems(2) i by (simp add: list_all_length)
  qed
  then show ?case by (simp add: ys py_eq_containers py_eq_listI)
next
  case (PDict d)
  then obtain e where e: "w = PDict e" by (cases w) auto
  let ?keyed = "map (\<lambda>(k, v). (k, sort_keys v))"
  have "sort_key fst (?keyed d) = sort_key fst (?keyed e)"
    using PDict.prems(1) by (simp add: e)
  then have "length (sort_key fst (?keyed d)) = length (sort_key fst (?keyed e))" by (rule arg_cong)
  then have len: "length d = length e" by simp
  have "py_sub_dict d e"
  proof (rule py_sub_dictI)
    fix k v assume kv: "(k, v) \<in> set d"
    then have "dget d k = Some v" using PDict.prems(2) by simp
    moreover have "map_option sort_keys (dget d k) = map_option sort_keys (dget e k)"
      using sort_keys_dict_eq PDict.prems(1) e by blast
    ultimately obtain u where u: "dget e k = Some u" "sort_keys v = sort_keys u"
      by (cases "dget e k") auto
    have "distinct_keys v" using PDict.prems(2) kv by (auto simp: list_all_iff)
    then have "py_eq v u" using PDict.IH [OF kv] u(2) by simp
    then show "\<exists>u. dget e k = Some u \<and> py_eq v u" using u(1) by blast
  qed
  then show ?case by (simp add: e py_eq_containers len)
next
  case (PBool b)
  then show ?case by (cases w) (auto simp: py_eq_refl_atom)
next
  case (PInt i)
  then show ?case by (cases w) (auto simp: py_eq_refl_atom)
next
  case (PStr s)
  then show ?case by (cases w) auto
next
  case PNone
  then show ?case by (cases w) auto
qed

section \<open>Equal hashes, empty diffs\<close>

text \<open>Two association lists with the same keys and related values, kept by every update.\<close>

definition related :: "('a \<Rightarrow> 'b \<Rightarrow> bool) \<Rightarrow> 'k \<times> 'a \<Rightarrow> 'k \<times> 'b \<Rightarrow> bool" where
  "related S p q \<longleftrightarrow> fst p = fst q \<and> S (snd p) (snd q)"

lemma related_update:
  "list_all2 (related S) al bl \<Longrightarrow> S x y \<Longrightarrow>
   list_all2 (related S) (AList.update k x al) (AList.update k y bl)"
  unfolding related_def by (induction rule: list_all2_induct) auto

lemma related_by_key:
  assumes "list_all2 (\<lambda>x y. f x = f y \<and> S x y) xs ys"
  shows "list_all2 (related S) (by_key f xs) (by_key f ys)"
proof -
  have "list_all2 (related S) al bl \<Longrightarrow>
      list_all2 (related S) (fold (\<lambda>x. AList.update (f x) x) xs al) (fold (\<lambda>x. AList.update (f x) x) ys bl)"
    for al bl
    using assms
    by (induction arbitrary: al bl rule: list_all2_induct) (simp_all add: related_update)
  then show ?thesis by (simp add: by_key_def)
qed

lemma related_keys: "list_all2 (related S) al bl \<Longrightarrow> map fst al = map fst bl"
  by (induction rule: list_all2_induct) (auto simp: related_def)

lemma related_lookup:
  "list_all2 (related S) al bl \<Longrightarrow> k \<in> fst ` set al \<Longrightarrow> S (the (map_of al k)) (the (map_of bl k))"
  by (induction rule: list_all2_induct) (auto simp: related_def)

lemma no_keys_minus:
  "map fst al = map fst bl \<Longrightarrow> sorted_keys_minus al bl = []"
  "map fst el = map fst fl \<Longrightarrow> ord [] = [] \<Longrightarrow> edges_minus ord el fl = []"
proof -
  assume "map fst al = map fst bl"
  then have "set (map fst al) = set (map fst bl)" by simp
  then show "sorted_keys_minus al bl = []" by (simp add: sorted_keys_minus_def filter_empty_conv)
next
  assume "map fst el = map fst fl" and ord: "ord [] = []"
  then have "set (map fst el) = set (map fst fl)" by simp
  then have "filter (\<lambda>k. k \<notin> fst ` set fl) (map fst el) = []" by (auto simp: filter_empty_conv)
  then show "edges_minus ord el fl = []" by (simp add: edges_minus_def ord)
qed

lemma map_eq_related: "map f xs = map f ys \<Longrightarrow> list_all2 (\<lambda>x y. f x = f y) xs ys"
  by (auto simp: list_all2_conv_all_nth list_eq_iff_nth_eq)

lemma map_insort: "(\<And>x. fst (g x) = fst x) \<Longrightarrow> map g (insort_key fst x xs) = insort_key fst (g x) (map g xs)"
  by (induction xs) auto

lemma map_sort_fst: "(\<And>x. fst (g x) = fst x) \<Longrightarrow> map g (sort_key fst xs) = sort_key fst (map g xs)"
  by (induction xs) (simp_all add: map_insort)

lemma sort_keys_extra:
  assumes "sort_keys (PDict e) = sort_keys (PDict f)"
  shows "sort_keys (PDict (edge_extra e)) = sort_keys (PDict (edge_extra f))"
proof -
  let ?g = "\<lambda>(k, v). (k, sort_keys v)" and ?P = "\<lambda>kv. fst kv \<notin> set ENDPOINT_KEYS"
  have "sort_key fst (map ?g (edge_extra x)) = filter ?P (sort_key fst (map ?g x))" for x
  proof -
    have "filter ?P (map ?g x) = map ?g (filter ?P x)" by (induction x) auto
    then show ?thesis by (simp add: edge_extra_def map_sort_fst filter_sort split_def)
  qed
  with assms show ?thesis by simp
qed

lemma edge_key_eq:
  assumes "sort_keys (PDict (sorted_edge e)) = sort_keys (PDict (sorted_edge f))"
  shows "edge_key (sorted_edge e) = edge_key (sorted_edge f)"
proof -
  have "map_option sort_keys (dget (sorted_edge e) k) = map_option sort_keys (dget (sorted_edge f) k)" for k
    by (rule sort_keys_dict_eq [OF assms])
  from this [of "''from''"] this [of "''to''"]
  have "edge_from e = edge_from f" "edge_to e = edge_to f" by (auto simp: sorted_edge_def)
  then show ?thesis using sort_keys_extra [OF assms] by (simp add: edge_key_def)
qed

lemma node_id_eq:
  assumes "sort_keys (PDict n) = sort_keys (PDict m)" "pget n ''id'' = PStr s"
  shows "node_id n = node_id m"
proof -
  have n: "dget n ''id'' = Some (PStr s)" using assms(2) by (auto simp: pget_def split: option.splits)
  have "map_option sort_keys (dget n ''id'') = map_option sort_keys (dget m ''id'')"
    by (rule sort_keys_dict_eq [OF assms(1)])
  then have "map_option sort_keys (dget m ''id'') = Some (PStr s)" by (simp add: n)
  then have "dget m ''id'' = Some (PStr s)" by auto
  then show ?thesis using n by (simp add: node_id_def pget_def)
qed

definition string_ids :: "pyval list \<Rightarrow> bool" where
  "string_ids nodes \<longleftrightarrow> (\<forall>n \<in> set (named_nodes nodes). \<exists>s. pget n ''id'' = PStr s)"

lemma distinct_keys_sort: "distinct_keys (PDict c) \<Longrightarrow> distinct_keys (PDict (sort_key fst c))"
  by (auto simp: list_all_iff distinct_map)

lemma distinct_keys_PDict_dset:
  assumes "distinct_keys (PDict d)" "distinct_keys v"
  shows "distinct_keys (PDict (dset k v d))"
proof -
  have "list_all (\<lambda>kv. distinct_keys (snd kv)) (dset k v d)"
    using assms by (induction d) auto
  then show ?thesis using assms by (simp add: distinct_update)
qed

lemma canonical_node_facts:
  assumes "n \<in> set (canonical_nodes nodes)" "string_ids nodes" "list_all distinct_keys nodes"
  shows "(\<exists>s. pget n ''id'' = PStr s) \<and> distinct_keys (PDict n)"
proof -
  obtain m where m: "m \<in> set (named_nodes nodes)" "n = sorted_node m"
    using assms(1) by (auto simp: canonical_nodes_def)
  then have "PDict m \<in> set nodes"
    by (auto simp: named_nodes_def dict_items_def List.map_filter_def split: pyval.splits)
  then have wf: "distinct_keys (PDict m)" using assms(3) unfolding list_all_iff by blast
  have "distinct_keys (PDict (sorted_node m))"
  proof (cases "pget m ''config''")
    case (PDict c)
    then have "(''config'', PDict c) \<in> set m"
      by (auto simp: pget_def split: option.splits dest: map_of_SomeD)
    moreover have "\<forall>kv \<in> set m. distinct_keys (snd kv)" using wf by (simp add: list_all_iff)
    ultimately have "distinct_keys (snd (''config'', PDict c))" by blast
    then have c: "distinct_keys (PDict c)" by simp
    show ?thesis
      using distinct_keys_PDict_dset [OF wf distinct_keys_sort [OF c]] PDict by (simp add: sorted_node_def)
  qed (use wf in \<open>simp_all add: sorted_node_def\<close>)
  then show ?thesis using m assms(2) by (auto simp: string_ids_def)
qed

lemma same_nodes_related:
  assumes "map (sort_keys \<circ> PDict) (canonical_nodes lns) = map (sort_keys \<circ> PDict) rs"
    and "string_ids lns" "list_all distinct_keys lns"
  shows "list_all2 (related (\<lambda>n m. py_eq (PDict n) (PDict m)))
    (by_key node_id (canonical_nodes lns)) (by_key node_id rs)"
proof -
  have "list_all2 (\<lambda>n m. sort_keys (PDict n) = sort_keys (PDict m)) (canonical_nodes lns) rs"
    using map_eq_related [OF assms(1)] by (simp del: sort_keys.simps)
  then have "list_all2 (\<lambda>n m. node_id n = node_id m \<and> py_eq (PDict n) (PDict m)) (canonical_nodes lns) rs"
  proof (rule list.rel_mono_strong)
    fix n m
    assume n: "n \<in> set (canonical_nodes lns)" and eq: "sort_keys (PDict n) = sort_keys (PDict m)"
    from canonical_node_facts [OF n assms(2,3)]
    obtain s where "pget n ''id'' = PStr s" "distinct_keys (PDict n)" by blast
    then show "node_id n = node_id m \<and> py_eq (PDict n) (PDict m)"
      using node_id_eq [OF eq] sort_keys_py_eq [OF eq] by simp
  qed
  then show ?thesis by (rule related_by_key)
qed

lemma same_edges_related:
  assumes "map (sort_keys \<circ> PDict) (canonical_edges les) = map (sort_keys \<circ> PDict) (canonical_edges res)"
  shows "list_all2 (related (\<lambda>_ _. True)) (by_key edge_key (canonical_edges les)) (by_key edge_key (canonical_edges res))"
proof -
  have "list_all2 (\<lambda>e f. sort_keys (PDict e) = sort_keys (PDict f)) (canonical_edges les) (canonical_edges res)"
    using map_eq_related [OF assms] by (simp del: sort_keys.simps)
  then have "list_all2 (\<lambda>e f. edge_key e = edge_key f \<and> True) (canonical_edges les) (canonical_edges res)"
  proof (rule list.rel_mono_strong)
    fix e f
    assume "e \<in> set (canonical_edges les)" "f \<in> set (canonical_edges res)"
      and eq: "sort_keys (PDict e) = sort_keys (PDict f)"
    then obtain e0 f0 where "e = sorted_edge e0" "f = sorted_edge f0" by (auto simp: canonical_edges_def)
    then show "edge_key e = edge_key f \<and> True" using edge_key_eq eq by blast
  qed
  then show ?thesis by (rule related_by_key)
qed

text \<open>
  An unchanged hash means an empty diff: when two graphs have the same hash under a
  collision-free digest, the diff lists no node and no edge, and the entry is the same.
\<close>

theorem same_hash_empty_diff:
  assumes "inj sha" "ord [] = []" "string_ids lns" "list_all distinct_keys lns"
    and "d = diff_workflow_graphs sha ord (lns, les, le) (rns, res, re)" "\<not> gd_graph_changed d"
  shows "gd_nodes_added d = [] \<and> gd_nodes_removed d = [] \<and> gd_nodes_changed d = [] \<and>
    gd_edges_added d = [] \<and> gd_edges_removed d = [] \<and> \<not> gd_entry_changed d"
proof -
  define L where "L = canonicalize_workflow_graph lns les le"
  define R where "R = canonicalize_workflow_graph rns res re"
  have "workflow_graph_hash sha L = workflow_graph_hash sha R"
    using assms(5,6) by (simp add: gd_graph_changed_def diff_workflow_graphs_def Let_def L_def R_def)
  then have same: "map (sort_keys \<circ> PDict) (wg_nodes L) = map (sort_keys \<circ> PDict) (wg_nodes R)"
    "map (sort_keys \<circ> PDict) (wg_edges L) = map (sort_keys \<circ> PDict) (wg_edges R)" "wg_entry L = wg_entry R"
    using hash_eq_iff [OF assms(1)] by auto
  have L: "wg_nodes L = canonical_nodes lns" "wg_edges L = canonical_edges les"
    and R: "wg_edges R = canonical_edges res"
    by (simp_all add: L_def R_def canonicalize_workflow_graph_def Let_def)
  note nodes = same_nodes_related [OF same(1) [unfolded L] assms(3,4), folded L]
  note edges = related_keys [OF same_edges_related [OF same(2) [unfolded L R]], folded L R]
  have "\<not> gd_entry_changed d"
    using same(3) assms(5) by (simp add: gd_entry_changed_def diff_workflow_graphs_def Let_def L_def R_def)
  moreover have "gd_nodes_added d = [] \<and> gd_nodes_removed d = [] \<and> gd_edges_added d = [] \<and> gd_edges_removed d = []"
    using no_keys_minus(1) [OF related_keys [OF nodes]] no_keys_minus(1) [OF related_keys [OF nodes, symmetric]]
      no_keys_minus(2) [where ord = ord, OF edges assms(2)]
      no_keys_minus(2) [where ord = ord, OF edges [symmetric] assms(2)] assms(5)
    by (simp add: diff_workflow_graphs_def Let_def L_def R_def)
  moreover have "gd_nodes_changed d = []"
    using related_lookup [OF nodes] assms(5)
    by (auto simp: diff_workflow_graphs_def Let_def L_def R_def filter_empty_conv)
  ultimately show ?thesis by blast
qed

theorem same_hash_empty_diff_witness:
  "let d = diff_workflow_graphs (\<lambda>s. s) (\<lambda>ks. ks) (demo_nodes, demo_edges, None)
             (rev demo_nodes, demo_edges, None) in
   gd_nodes_added d = [] \<and> gd_nodes_changed d = [] \<and> gd_edges_added d = []"
proof -
  let ?d = "diff_workflow_graphs (\<lambda>s. s) (\<lambda>ks. ks) (demo_nodes, demo_edges, None)
    (rev demo_nodes, demo_edges, None)"
  have "canonical_nodes demo_nodes = canonical_nodes (rev demo_nodes)"
    by (rule canonical_nodes_perm) (simp_all add: demo_named node_id_def)
  then have "\<not> gd_graph_changed ?d"
    by (simp add: gd_graph_changed_def diff_workflow_graphs_def canonicalize_workflow_graph_def Let_def)
  from same_hash_empty_diff [OF _ _ _ _ refl this]
  show ?thesis by (simp add: inj_def string_ids_def demo_named) (simp add: demo_nodes_def Let_def)
qed

end
