(* ===== verification/Workflow_Validation.thy ===== *)
theory Workflow_Validation
  imports Workflow_Graph Tool_Governance
begin

text \<open>
  Validation of workflow graphs: \<open>validate_graph\<close> of \<open>workforce/services/workflow_runtime.py\<close> and
  the publish checks of \<open>workflow_validation.py\<close>, with the breadth-first search for reachable nodes.
\<close>

section \<open>Structural validation\<close>

definition SUPPORTED_NODE_TYPES :: "string list" where
  "SUPPORTED_NODE_TYPES =
     [''agent'', ''skill'', ''tool'', ''router'', ''condition'', ''parallel'', ''approval'',
      ''human_input'', ''subworkflow'', ''delay'', ''trigger'']"

text \<open>Set membership hashes the value: lists and dictionaries raise.\<close>

definition hashable :: "pyval \<Rightarrow> bool" where
  "hashable v = (case v of PList _ \<Rightarrow> False | PDict _ \<Rightarrow> False | _ \<Rightarrow> True)"

definition in_set :: "pyval \<Rightarrow> pyval list \<Rightarrow> (string, bool) result" where
  "in_set v xs = (if hashable v then Inr (\<exists>x \<in> set xs. py_eq v x) else Inl ''TypeError'')"

definition raw_node_ids :: "pyval list \<Rightarrow> (string, pyval list) result" where
  "raw_node_ids nodes =
     (let ids = map (\<lambda>n. pget n ''id'') (named_nodes nodes) in
      guard_or (\<not> list_all hashable ids) ''TypeError'' (Inr ids))"

definition entry_errors :: "pyval list \<Rightarrow> string option \<Rightarrow> string list" where
  "entry_errors ids entry =
     (case entry of
        None \<Rightarrow> [''entry_node_id is required'']
      | Some e \<Rightarrow>
          if e = [] then [''entry_node_id is required'']
          else if \<exists>x \<in> set ids. py_eq (PStr e) x then []
          else [''entry node `'' @ e @ ''` missing from nodes''])"

definition node_type_errors :: "pyval \<Rightarrow> (string, string list) result" where
  "node_type_errors node =
     (case node of
        PDict n \<Rightarrow>
          res_bind (in_set (pget n ''type'') (map PStr SUPPORTED_NODE_TYPES)) (\<lambda>ok.
            Inr (if ok then [] else [''unsupported node type: '' @ py_str (pget n ''type'')]))
      | _ \<Rightarrow> Inr [''node must be object''])"

definition edge_errors :: "pyval list \<Rightarrow> pyval \<Rightarrow> (string, string list) result" where
  "edge_errors ids edge =
     (case edge of
        PDict e \<Rightarrow>
          res_bind (in_set (pget e ''from'') ids) (\<lambda>f.
          res_bind (if f then in_set (pget e ''to'') ids else Inr False) (\<lambda>ok.
            Inr (if ok then [] else [''edge references unknown nodes: '' @ py_repr edge])))
      | _ \<Rightarrow> Inr [''edge must be object''])"

definition validate_graph :: "pyval list \<Rightarrow> pyval list \<Rightarrow> string option \<Rightarrow> (string, string list) result" where
  "validate_graph nodes edges entry =
     res_bind (raw_node_ids nodes) (\<lambda>ids.
     res_bind (map_res node_type_errors nodes) (\<lambda>ns.
     res_bind (map_res (edge_errors ids) edges) (\<lambda>es.
       Inr ((if nodes = [] then [''nodes is required''] else []) @ entry_errors ids entry @
            concat ns @ concat es))))"

section \<open>Reachable nodes\<close>

definition graph_ids :: "pyval list \<Rightarrow> string list" where
  "graph_ids nodes = map node_id (named_nodes nodes)"

text \<open>The adjacency lists, filled in the order of the edges.\<close>

definition add_edge :: "string list \<Rightarrow> pyval dict \<Rightarrow> (string \<times> string list) list \<Rightarrow> (string \<times> string list) list" where
  "add_edge ids e adj =
     (case map_of adj (edge_from e) of
        Some ts \<Rightarrow>
          if edge_to e \<in> set ids then AList.update (edge_from e) (ts @ [edge_to e]) adj else adj
      | None \<Rightarrow> adj)"

definition adjacency :: "pyval list \<Rightarrow> pyval list \<Rightarrow> (string \<times> string list) list" where
  "adjacency nodes edges =
     fold (add_edge (graph_ids nodes)) (dict_items edges) (map (\<lambda>i. (i, [])) (graph_ids nodes))"

definition successors :: "(string \<times> string list) list \<Rightarrow> string \<Rightarrow> string list" where
  "successors adj v = (case map_of adj v of Some ts \<Rightarrow> ts | None \<Rightarrow> [])"

lemma successors_unknown: "v \<notin> fst ` set adj \<Longrightarrow> successors adj v = []"
  by (auto simp: successors_def split: option.splits dest!: map_of_SomeD) force

text \<open>
  A new node of the graph shrinks the unseen part; a node outside the graph has no successors, so
  it shortens the queue, as does a node already seen.
\<close>

function bfs :: "(string \<times> string list) list \<Rightarrow> string list \<Rightarrow> string list \<Rightarrow> string list" where
  "bfs adj seen [] = seen"
| "bfs adj seen (v # queue) =
     (if v \<in> set seen then bfs adj seen queue
      else bfs adj (v # seen) (queue @ successors adj v))"
  by pat_completeness auto

termination
proof (relation "measures [\<lambda>(adj, seen, _). card (fst ` set adj - set seen), \<lambda>(_, _, q). length q]")
  fix adj :: "(string \<times> string list) list" and seen queue :: "string list" and v :: string
  assume new: "v \<notin> set seen"
  show "((adj, v # seen, queue @ successors adj v), adj, seen, v # queue) \<in>
    measures [\<lambda>(adj, seen, _). card (fst ` set adj - set seen), \<lambda>(_, _, q). length q]"
  proof (cases "v \<in> fst ` set adj")
    case True
    then have "fst ` set adj - set (v # seen) \<subset> fst ` set adj - set seen" using new by auto
    then have "card (fst ` set adj - set (v # seen)) < card (fst ` set adj - set seen)"
      by (intro psubset_card_mono) auto
    then show ?thesis by simp
  next
    case False
    then have "fst ` set adj - set (v # seen) = fst ` set adj - set seen" by auto
    then show ?thesis using successors_unknown [OF False] by simp
  qed
qed auto

definition reachable_node_ids :: "pyval list \<Rightarrow> pyval list \<Rightarrow> string option \<Rightarrow> string list" where
  "reachable_node_ids nodes edges entry =
     (case entry of
        Some e \<Rightarrow> if e \<noteq> [] \<and> e \<in> set (graph_ids nodes) then bfs (adjacency nodes edges) [] [e] else []
      | None \<Rightarrow> [])"

section \<open>Publish checks\<close>

definition GMAIL_TRIGGER_TYPES :: "string list" where
  "GMAIL_TRIGGER_TYPES = [''gmail_new_message'', ''gmail.new_message'']"

definition OUTLOOK_TRIGGER_TYPES :: "string list" where
  "OUTLOOK_TRIGGER_TYPES = [''outlook_new_message'', ''outlook.new_message'']"

record write_node =
  wn_node_id :: string
  wn_tool_slug :: string

text \<open>The errors of one node and, for an external tool, its entry in the list of writes.\<close>

definition check_tool_node :: "string \<Rightarrow> pyval dict \<Rightarrow> string list \<times> write_node list" where
  "check_tool_node i config =
     (let slug = py_strip (sget2 config ''tool'' ''tool_slug'') in
      if slug = [] then ([''tool node `'' @ i @ ''` missing config.tool or config.tool_slug''], [])
      else if is_external_mutating_tool slug then ([], [\<lparr>wn_node_id = i, wn_tool_slug = slug\<rparr>])
      else ([], []))"

definition trigger_errors :: "string \<Rightarrow> pyval dict \<Rightarrow> string list" where
  "trigger_errors i config =
     (let t = py_strip (sget config ''trigger_type'');
          unbound = py_strip (sget config ''connector_installation_id'') = [] in
      (if t \<in> set GMAIL_TRIGGER_TYPES \<and> unbound
       then [''Gmail trigger node `'' @ i @ ''` requires connector_installation_id''] else []) @
      (if t \<in> set OUTLOOK_TRIGGER_TYPES \<and> unbound
       then [''Outlook trigger node `'' @ i @ ''` requires connector_installation_id''] else []))"

definition check_node :: "pyval dict \<Rightarrow> (string, string list \<times> write_node list) result" where
  "check_node n =
     res_bind (dict_or_raise (pget n ''config'')) (\<lambda>config.
       let i = sget n ''id''; t = sget n ''type'' in
       Inr (if t = ''tool'' then check_tool_node i config
            else if t = ''trigger'' then (trigger_errors i config, [])
            else if t = ''agent'' \<and> py_strip (sget config ''agent_id'') = []
            then ([''agent node `'' @ i @ ''` missing config.agent_id''], [])
            else if t = ''subworkflow'' \<and> py_strip (sget2 config ''workflow_id'' ''subworkflow_id'') = []
            then ([''subworkflow node `'' @ i @ ''` missing config.workflow_id''], [])
            else ([], [])))"

record publish_report =
  pr_errors :: "string list"
  pr_warnings :: "string list"
  pr_infos :: "string list"
  pr_external_writes :: "write_node list"

definition pr_valid :: "publish_report \<Rightarrow> bool" where
  "pr_valid r \<longleftrightarrow> pr_errors r = []"

definition unreachable_ids :: "pyval list \<Rightarrow> pyval list \<Rightarrow> string option \<Rightarrow> string list" where
  "unreachable_ids nodes edges entry =
     filter (\<lambda>i. i \<notin> set (reachable_node_ids nodes edges entry)) (py_sorted_set (graph_ids nodes))"

definition validate_for_publish ::
  "pyval list \<Rightarrow> pyval list \<Rightarrow> string option \<Rightarrow> (string, publish_report) result" where
  "validate_for_publish nodes edges entry =
     res_bind (validate_graph nodes edges entry) (\<lambda>errors.
     res_bind (map_res check_node (dict_items nodes)) (\<lambda>checks.
       let unreachable = unreachable_ids nodes edges entry; writes = concat (map snd checks) in
       Inr \<lparr>pr_errors = errors @ concat (map fst checks),
            pr_warnings = (if unreachable = [] then []
              else [''unreachable nodes from entry: '' @ py_join '', '' unreachable]),
            pr_infos = (if writes = [] then []
              else [str_of_int (int (length writes)) @ '' node(s) invoke external-mutating tools'']),
            pr_external_writes = writes\<rparr>))"

section \<open>The search finds the reachable nodes\<close>

definition succ_rel :: "(string \<times> string list) list \<Rightarrow> (string \<times> string) set" where
  "succ_rel adj = {(v, w). w \<in> set (successors adj v)}"

text \<open>
  The invariant of the search: what it has seen is closed except for the queue, so when the queue
  is empty the seen nodes are exactly those reachable from the seen and the queued ones.
\<close>

lemma bfs_sound: "w \<in> set (bfs adj seen queue) \<Longrightarrow> w \<in> set seen \<or> (\<exists>v \<in> set queue. (v, w) \<in> (succ_rel adj)\<^sup>*)"
proof (induction adj seen queue rule: bfs.induct)
  case (2 adj seen v queue)
  show ?case
  proof (cases "v \<in> set seen")
    case True
    with 2 show ?thesis by auto
  next
    case False
    with 2 have "w \<in> set (v # seen) \<or> (\<exists>u \<in> set (queue @ successors adj v). (u, w) \<in> (succ_rel adj)\<^sup>*)"
      by simp
    then show ?thesis
      by (auto simp: succ_rel_def intro: converse_rtrancl_into_rtrancl)
  qed
qed simp

lemma bfs_superset: "set seen \<union> set queue \<subseteq> set (bfs adj seen queue)"
  by (induction adj seen queue rule: bfs.induct) auto

lemma bfs_closed:
  "(\<And>v w. v \<in> set seen \<Longrightarrow> w \<in> set (successors adj v) \<Longrightarrow> w \<in> set seen \<union> set queue) \<Longrightarrow>
   v \<in> set (bfs adj seen queue) \<Longrightarrow> w \<in> set (successors adj v) \<Longrightarrow> w \<in> set (bfs adj seen queue)"
proof (induction adj seen queue rule: bfs.induct)
  case (2 adj seen u queue)
  show ?case
  proof (cases "u \<in> set seen")
    case True
    with 2 show ?thesis by auto
  next
    case False
    have "w \<in> set (bfs adj (u # seen) (queue @ successors adj u))"
    proof (rule "2.IH"(2) [OF False])
      show "v \<in> set (bfs adj (u # seen) (queue @ successors adj u))" using 2 False by simp
      show "w \<in> set (successors adj v)" by (rule "2.prems"(3))
      fix x y assume "x \<in> set (u # seen)" "y \<in> set (successors adj x)"
      then show "y \<in> set (u # seen) \<union> set (queue @ successors adj u)"
        using "2.prems"(1) by fastforce
    qed
    with False show ?thesis by simp
  qed
qed simp

lemma bfs_reachable: "set (bfs adj [] [v]) = {w. (v, w) \<in> (succ_rel adj)\<^sup>*}"
proof
  show "set (bfs adj [] [v]) \<subseteq> {w. (v, w) \<in> (succ_rel adj)\<^sup>*}"
    using bfs_sound [of _ adj "[]" "[v]"] by auto
  have "w \<in> set (bfs adj [] [v])" if "(v, w) \<in> (succ_rel adj)\<^sup>*" for w
    using that
  proof induction
    case base
    show ?case using bfs_superset [of "[]" "[v]" adj] by simp
  next
    case (step x y)
    then show ?case using bfs_closed [of "[]" adj "[v]" x y] by (simp add: succ_rel_def)
  qed
  then show "{w. (v, w) \<in> (succ_rel adj)\<^sup>*} \<subseteq> set (bfs adj [] [v])" by blast
qed

text \<open>The edges of the graph between its nodes.\<close>

definition graph_rel :: "pyval list \<Rightarrow> pyval list \<Rightarrow> (string \<times> string) set" where
  "graph_rel nodes edges =
     {(s, t). s \<in> set (graph_ids nodes) \<and> t \<in> set (graph_ids nodes) \<and>
              (\<exists>e. PDict e \<in> set edges \<and> edge_from e = s \<and> edge_to e = t)}"

lemma add_edges_lookup:
  "map_of (fold (add_edge ids) es adj) s =
     map_option (\<lambda>ts. ts @ map edge_to (filter (\<lambda>e. edge_from e = s \<and> edge_to e \<in> set ids) es))
       (map_of adj s)"
proof (induction es arbitrary: adj)
  case Nil
  then show ?case by (cases "map_of adj s") simp_all
next
  case (Cons e es)
  then show ?case
    by (cases "map_of adj s") (auto simp: add_edge_def update_conv' split: option.splits)
qed

lemma dict_items_iff: "d \<in> set (dict_items xs) \<longleftrightarrow> PDict d \<in> set xs"
proof (induction xs)
  case (Cons x xs)
  then show ?case by (cases x) (auto simp: dict_items_def List.map_filter_simps)
qed (simp add: dict_items_def List.map_filter_simps)

lemma map_of_empty_lists: "map_of (map (\<lambda>i. (i, [])) ids) s = (if s \<in> set ids then Some [] else None)"
  by (induction ids) auto

lemma successors_adjacency:
  "successors (adjacency nodes edges) s =
     (if s \<in> set (graph_ids nodes)
      then map edge_to (filter (\<lambda>e. edge_from e = s \<and> edge_to e \<in> set (graph_ids nodes)) (dict_items edges))
      else [])"
  by (simp add: successors_def adjacency_def add_edges_lookup map_of_empty_lists)

lemma succ_rel_adjacency: "succ_rel (adjacency nodes edges) = graph_rel nodes edges"
  by (auto simp: succ_rel_def graph_rel_def successors_adjacency dict_items_iff)

text \<open>
  C36. The search for reachable nodes terminates and finds exactly the nodes to which a path of
  edges leads from the entry, so the publish warning lists exactly the others, sorted.
\<close>

theorem reachable_exactly:
  assumes "e \<noteq> []" "e \<in> set (graph_ids nodes)"
  shows "set (reachable_node_ids nodes edges (Some e)) = {v. (e, v) \<in> (graph_rel nodes edges)\<^sup>*} \<and>
    sorted (unreachable_ids nodes edges (Some e)) \<and>
    set (unreachable_ids nodes edges (Some e)) =
      {v \<in> set (graph_ids nodes). (e, v) \<notin> (graph_rel nodes edges)\<^sup>*}"
proof -
  have "set (reachable_node_ids nodes edges (Some e)) = {v. (e, v) \<in> (graph_rel nodes edges)\<^sup>*}"
    using assms by (simp add: reachable_node_ids_def bfs_reachable succ_rel_adjacency del: bfs.simps)
  then show ?thesis
    by (auto simp: unreachable_ids_def py_sorted_set_def
        intro!: sorted_filter [where f = "\<lambda>x. x", simplified])
qed

theorem reachable_exactly_witness:
  "set (reachable_node_ids demo_nodes demo_edges (Some ''a'')) =
     {v. (''a'', v) \<in> (graph_rel demo_nodes demo_edges)\<^sup>*}"
  using reachable_exactly [of "''a''" demo_nodes demo_edges]
  by (simp add: graph_ids_def demo_named node_id_def)

end
