(* ===== verification/Workflow_Conditions.thy ===== *)
theory Workflow_Conditions
  imports Canonical_Arguments
begin

text \<open>
  The conditions of workflow edges and rules, \<open>workforce/services/workflow_conditions.py\<close>: values
  are literals or paths into the run's variables, operators come from a closed list. An order
  comparison of values Python cannot order raises \<open>TypeError\<close>.
\<close>

section \<open>Ordering values\<close>

datatype ordering = LT | LE | GT | GE

fun compare_with :: "ordering \<Rightarrow> 'a::linorder \<Rightarrow> 'a \<Rightarrow> bool" where
  "compare_with LT a b = (a < b)"
| "compare_with LE a b = (a \<le> b)"
| "compare_with GT a b = (a > b)"
| "compare_with GE a b = (a \<ge> b)"

text \<open>Lists compare at the first place where they differ, or by length.\<close>

function py_compare :: "ordering \<Rightarrow> pyval \<Rightarrow> pyval \<Rightarrow> (string, bool) result"
  and py_compare_list :: "ordering \<Rightarrow> pyval list \<Rightarrow> pyval list \<Rightarrow> (string, bool) result" where
  "py_compare c v w =
     (case (v, w) of
        (PStr s, PStr t) \<Rightarrow> Inr (compare_with c s t)
      | (PList xs, PList ys) \<Rightarrow> py_compare_list c xs ys
      | _ \<Rightarrow> (case (as_int v, as_int w) of
               (Some i, Some j) \<Rightarrow> Inr (compare_with c i j)
             | _ \<Rightarrow> Inl ''TypeError''))"
| "py_compare_list c [] ys = Inr (compare_with c 0 (length ys))"
| "py_compare_list c (x # xs) ys =
     (case ys of
        [] \<Rightarrow> Inr (compare_with c (Suc (length xs)) 0)
      | y # ys' \<Rightarrow> if py_eq x y then py_compare_list c xs ys' else py_compare c x y)"
  by pat_completeness auto
termination
  by (relation "measure (\<lambda>x. case x of Inl (_, v, _) \<Rightarrow> size v | Inr (_, xs, _) \<Rightarrow> size_list size xs)")
    auto

declare py_compare.simps [simp del]

section \<open>Conditions\<close>

fun walk_path :: "pyval \<Rightarrow> string list \<Rightarrow> pyval" where
  "walk_path cur [] = cur"
| "walk_path cur (part # parts) = (case cur of PDict d \<Rightarrow> walk_path (pget d part) parts | _ \<Rightarrow> PNone)"

definition resolve_value :: "pyval \<Rightarrow> pyval dict \<Rightarrow> pyval" where
  "resolve_value expr vars =
     (case expr of
        PDict d \<Rightarrow>
          (case dget d ''var'' of
             Some path \<Rightarrow> walk_path (PDict vars) (split_char CHR ''.'' (py_str path))
           | None \<Rightarrow> expr)
      | _ \<Rightarrow> expr)"

definition order_test :: "ordering \<Rightarrow> pyval \<Rightarrow> pyval \<Rightarrow> (string, bool) result" where
  "order_test c left right =
     (if left = PNone \<or> right = PNone then Inr False else py_compare c left right)"

definition evaluate_condition :: "pyval \<Rightarrow> pyval dict \<Rightarrow> (string, bool) result" where
  "evaluate_condition condition vars =
     (case condition of
        PDict d \<Rightarrow>
          (let operator = py_lower (py_strip (sget d ''operator''));
               left = resolve_value (pget d ''left'') vars;
               right = resolve_value (pget d ''right'') vars in
           if operator = ''truthy'' then Inr (truthy left)
           else if operator = ''falsy'' then Inr (\<not> truthy left)
           else if operator = ''eq'' then Inr (py_eq left right)
           else if operator = ''neq'' then Inr (\<not> py_eq left right)
           else if operator = ''gt'' then order_test GT left right
           else if operator = ''gte'' then order_test GE left right
           else if operator = ''lt'' then order_test LT left right
           else if operator = ''lte'' then order_test LE left right
           else if operator = ''in''
           then Inr (case right of PList xs \<Rightarrow> (\<exists>x \<in> set xs. py_eq left x) | _ \<Rightarrow> False)
           else Inr False)
      | _ \<Rightarrow> Inr False)"

definition condition_from_config :: "pyval dict \<Rightarrow> pyval option" where
  "condition_from_config config =
     (case pget config ''condition'' of
        PDict c \<Rightarrow> Some (PDict c)
      | _ \<Rightarrow> if truthy (pget config ''operator'') then Some (PDict config) else None)"

text \<open>\<open>evaluate_condition(cond, vars_) if cond else False\<close>, as the nodes call it.\<close>

definition node_condition :: "pyval dict \<Rightarrow> pyval dict \<Rightarrow> (string, bool) result" where
  "node_condition config vars =
     (case condition_from_config config of
        Some c \<Rightarrow> if truthy c then evaluate_condition c vars else Inr False
      | None \<Rightarrow> Inr False)"

lemma order_test_None [simp]: "order_test c PNone w = Inr False" "order_test c v PNone = Inr False"
  by (simp_all add: order_test_def)

lemma evaluate_condition_no_operator [simp]:
  "evaluate_condition PNone vars = Inr False" "evaluate_condition (PDict []) vars = Inr False"
  by (simp_all add: evaluate_condition_def sget_def str_or_def py_lower_def)

text \<open>Numbers, and strings, are ordered as expected, and the four orderings agree.\<close>

lemma py_compare_total:
  "as_int v = Some i \<Longrightarrow> as_int w = Some j \<Longrightarrow> py_compare c v w = Inr (compare_with c i j)"
  "py_compare c (PStr s) (PStr t) = Inr (compare_with c s t)"
  by (auto simp: py_compare.simps as_int_def split: pyval.splits)

end
