(* ===== verification/Workflow_State.thy ===== *)
theory Workflow_State
  imports Workflow_Validation Workflow_Conditions Exact_Effect Tool_Execution
begin

text \<open>
  The state of the workflow runner, \<open>workforce/services/workflow_runtime.py\<close>: its rows, what it
  asks of other services, and its pure parts (join and merge policies, mappings, routing).

  Node ids are strings, as the column that holds the cursor requires. The clock does not advance
  during a call. Numbers with a fraction are not represented, so a delay is a whole number of
  seconds. A raised exception is its message or class; the caller's session rolls back.
\<close>

section \<open>Rows\<close>

record wf_run =
  wr_id :: string
  wr_workflow_id :: string
  wr_version_id :: string
  wr_project_id :: "string option"
  wr_task_id :: "string option"
  wr_status :: string
  wr_current :: "string option"
  wr_context :: "pyval dict"
  wr_result :: "pyval dict"
  wr_created_by :: "string option"

record step_run =
  sr_run_id :: string
  sr_node_id :: string
  sr_node_type :: string
  sr_status :: string
  sr_output :: "pyval dict"

record child_execution =
  ce_id :: string
  ce_run_id :: string
  ce_node_id :: string
  ce_child_type :: string
  ce_child_run_id :: "string option"
  ce_branch_key :: "string option"
  ce_status :: string
  ce_output :: "pyval dict"

record task_run =
  tr_id :: string
  tr_status :: string
  tr_output :: "pyval dict"
  tr_checkpoint :: "pyval dict"

record wf_version =
  wv_id :: string
  wv_workflow_id :: string
  wv_nodes :: "pyval list"
  wv_edges :: "pyval list"
  wv_entry :: "string option"

record wf_definition =
  wdf_id :: string
  wdf_owner_id :: string
  wdf_is_template :: bool

record skill_version =
  sv_id :: string
  sv_skill_id :: string
  sv_number :: int
  sv_instructions :: string
  sv_tools :: "pyval list"
  sv_capabilities :: "pyval list"
  sv_published :: bool

text \<open>
  The database of a call. The last four fields record what leaves it: tool calls, scheduled
  resumes, terminal notifications and approval deliveries.
\<close>

record wf_db =
  wd_runs :: "wf_run list"
  wd_steps :: "step_run list"
  wd_children :: "child_execution list"
  wd_approvals :: "approval_request list"
  wd_tasks :: "task_run list"
  wd_fresh :: nat
  wd_calls :: "external_call list"
  wd_delays :: "(string \<times> string \<times> int) list"
  wd_terminal :: "(string \<times> string) list"
  wd_deliveries :: "(string \<times> string \<times> string) list"

record task_request =
  tq_user :: string
  tq_project_id :: string
  tq_task_id :: string
  tq_worker :: string
  tq_orchestrator :: pyval
  tq_run_mode :: string
  tq_input :: "pyval dict"

text \<open>
  The other services: the tool executor, the starter of task runs, the routing of a fresh approval,
  the graph of an environment; and the tables the runner only reads.
\<close>

record wf_env =
  we_rt :: runtime
  we_now :: int
  we_uuid :: "nat \<Rightarrow> string"
  we_tool :: "string \<Rightarrow> string \<Rightarrow> pyval dict \<Rightarrow> pyval dict \<Rightarrow> pyval dict \<times> external_call list"
  we_start_task :: "wf_db \<Rightarrow> task_request \<Rightarrow> (string, task_run) result"
  we_route :: "approval_request \<Rightarrow> (string, approval_request) result"
  we_environment :: "wf_definition \<Rightarrow> string \<Rightarrow> (string, wf_version) result"
  we_draft :: "wf_definition \<Rightarrow> wf_version option"
  we_versions :: "wf_version list"
  we_definitions :: "wf_definition list"
  we_skills :: "(string \<times> string option) list"
  we_skill_versions :: "skill_version list"
  we_user_exists :: "string \<Rightarrow> bool"

type_synonym vars = "pyval dict"

text \<open>What a node handler returns: the status and output of the step, and a status to pause in.\<close>

record step_out =
  so_status :: string
  so_output :: "pyval dict"
  so_pause :: "string option"

abbreviation step_result :: "string \<Rightarrow> pyval dict \<Rightarrow> string option \<Rightarrow> step_out" where
  "step_result s out p \<equiv> \<lparr>so_status = s, so_output = out, so_pause = p\<rparr>"

abbreviation step_failed :: "pyval dict \<Rightarrow> step_out" where
  "step_failed out \<equiv> step_result ''failed'' out (Some ''failed'')"

type_synonym node_result = "(string, wf_db \<times> vars \<times> step_out) result"

definition TASK_RUN_TERMINAL :: "string list" where
  "TASK_RUN_TERMINAL = [''completed'', ''failed'', ''cancelled'']"

definition RUN_TERMINAL :: "string list" where
  "RUN_TERMINAL = [''completed'', ''failed'', ''cancelled'']"

definition SIMPLE_PARALLEL_TYPES :: "string list" where
  "SIMPLE_PARALLEL_TYPES = [''tool'', ''skill'', ''condition'', ''trigger'']"

definition ASYNC_PARALLEL_TYPES :: "string list" where
  "ASYNC_PARALLEL_TYPES = [''agent'', ''subworkflow'', ''delay'']"

section \<open>Tables\<close>

definition find_run :: "wf_db \<Rightarrow> string \<Rightarrow> wf_run option" where
  "find_run db i = find (\<lambda>r. wr_id r = i) (wd_runs db)"

definition put_run :: "wf_run \<Rightarrow> wf_db \<Rightarrow> wf_db" where
  "put_run run db = db\<lparr>wd_runs := map (\<lambda>r. if wr_id r = wr_id run then run else r) (wd_runs db)\<rparr>"

definition find_task :: "wf_db \<Rightarrow> string \<Rightarrow> task_run option" where
  "find_task db i = find (\<lambda>t. tr_id t = i) (wd_tasks db)"

definition find_approval :: "wf_db \<Rightarrow> string \<Rightarrow> approval_request option" where
  "find_approval db i = find (\<lambda>a. aq_id a = i) (wd_approvals db)"

definition put_approval :: "approval_request \<Rightarrow> wf_db \<Rightarrow> wf_db" where
  "put_approval a db =
     db\<lparr>wd_approvals := map (\<lambda>b. if aq_id b = aq_id a then a else b) (wd_approvals db)\<rparr>"

definition fresh_id :: "wf_env \<Rightarrow> wf_db \<Rightarrow> string \<times> wf_db" where
  "fresh_id env db = (we_uuid env (wd_fresh db), db\<lparr>wd_fresh := Suc (wd_fresh db)\<rparr>)"

definition get_definition :: "wf_env \<Rightarrow> string \<Rightarrow> string \<Rightarrow> (string, wf_definition) result" where
  "get_definition env owner workflow_id =
     (case find (\<lambda>d. wdf_id d = workflow_id \<and> (wdf_owner_id d = owner \<or> wdf_is_template d))
             (we_definitions env) of
        Some d \<Rightarrow> Inr d | None \<Rightarrow> Inl ''workflow not found'')"

definition get_version :: "wf_env \<Rightarrow> string \<Rightarrow> wf_version option" where
  "get_version env i = find (\<lambda>v. wv_id v = i) (we_versions env)"

text \<open>\<open>dict(d.get(k) or {})\<close>.\<close>

abbreviation get_dict :: "pyval dict \<Rightarrow> string \<Rightarrow> (string, pyval dict) result" where
  "get_dict d k \<equiv> dict_or_raise (pget d k)"

text \<open>The children a node waits for, found by child run, else by branch, else by type.\<close>

definition child_matches ::
  "string \<Rightarrow> string \<Rightarrow> string \<Rightarrow> string option \<Rightarrow> string option \<Rightarrow> child_execution \<Rightarrow> bool" where
  "child_matches run_id nid child_type child_run branch c \<longleftrightarrow>
     ce_run_id c = run_id \<and> ce_node_id c = nid \<and>
     (if truthy (opt_str child_run) then ce_child_run_id c = child_run
      else if truthy (opt_str branch) then ce_branch_key c = branch
      else ce_child_type c = child_type)"

definition upsert_child_execution ::
  "wf_env \<Rightarrow> string \<Rightarrow> string \<Rightarrow> string \<Rightarrow> string option \<Rightarrow> string option \<Rightarrow> string \<Rightarrow> pyval dict \<Rightarrow>
   wf_db \<Rightarrow> wf_db" where
  "upsert_child_execution env run_id nid child_type child_run branch status out db =
     (let match = child_matches run_id nid child_type child_run branch;
          revise = (\<lambda>c. c\<lparr>ce_child_type := child_type, ce_status := status,
            ce_child_run_id := (case child_run of None \<Rightarrow> ce_child_run_id c | r \<Rightarrow> r),
            ce_branch_key := (case branch of None \<Rightarrow> ce_branch_key c | b \<Rightarrow> b),
            ce_output := out\<rparr>) in
      if \<exists>c \<in> set (wd_children db). match c
      then db\<lparr>wd_children := map (\<lambda>c. if match c then revise c else c) (wd_children db)\<rparr>
      else case fresh_id env db of (i, db) \<Rightarrow>
        db\<lparr>wd_children := wd_children db @
          [\<lparr>ce_id = i, ce_run_id = run_id, ce_node_id = nid, ce_child_type = child_type,
            ce_child_run_id = (if truthy (opt_str child_run) then child_run else None),
            ce_branch_key = (if truthy (opt_str branch) then branch else None),
            ce_status = status, ce_output = out\<rparr>]\<rparr>)"

definition notify_if_terminal :: "wf_run \<Rightarrow> wf_db \<Rightarrow> wf_db" where
  "notify_if_terminal run db =
     (if wr_status run \<in> set RUN_TERMINAL
      then db\<lparr>wd_terminal := wd_terminal db @ [(wr_id run, wr_status run)]\<rparr> else db)"

section \<open>Simulation\<close>

definition should_simulate_external_write :: "wf_run \<Rightarrow> string \<Rightarrow> bool" where
  "should_simulate_external_write run tool_slug \<longleftrightarrow>
     truthy (pget (wr_context run) ''test_mode'') \<and>
     truthy (pget (wr_context run) ''simulate_external_writes'') \<and>
     is_external_mutating_tool tool_slug"

definition simulated_tool_result :: "string \<Rightarrow> pyval dict \<Rightarrow> pyval dict" where
  "simulated_tool_result tool_slug params =
     [(''status'', PStr ''simulated''), (''tool_slug'', PStr tool_slug), (''params'', PDict params),
      (''simulated'', PBool True), (''reason'', PStr ''test_mode_external_write_simulation'')]"

section \<open>Join policies\<close>

definition normalize_policy :: "string \<Rightarrow> string" where
  "normalize_policy s = replace_char CHR ''-'' CHR ''_'' (py_lower s)"

definition normalize_join_policy :: "string \<Rightarrow> string" where
  "normalize_join_policy policy = normalize_policy (if policy = [] then ''all_success'' else policy)"

definition normalize_merge_policy :: "string \<Rightarrow> string" where
  "normalize_merge_policy policy = normalize_policy (if policy = [] then ''namespaced'' else policy)"

text \<open>\<open>s.split(sep, 1)[0]\<close>, and \<open>isdigit\<close> on ASCII.\<close>

fun before_str :: "string \<Rightarrow> string \<Rightarrow> string" where
  "before_str sep [] = []"
| "before_str sep (c # s) = (if starts_with sep (c # s) then [] else c # before_str sep s)"

definition all_digits :: "string \<Rightarrow> bool" where
  "all_digits s \<longleftrightarrow> s \<noteq> [] \<and> list_all is_digit s"

definition counted_policy :: "string \<Rightarrow> bool" where
  "counted_policy policy \<longleftrightarrow> contains_str ''_of_'' policy \<and> all_digits (before_str ''_of_'' policy)"

definition configured_count :: "pyval dict \<Rightarrow> (string, int option) result" where
  "configured_count config =
     (let v = (if pget config ''n'' \<noteq> PNone then pget config ''n'' else pget config ''min_success'') in
      if v = PNone then Inr None else res_bind (py_int v) (\<lambda>i. Inr (Some i)))"

definition parse_parallel_join_config :: "pyval dict \<Rightarrow> (string, string \<times> int option) result" where
  "parse_parallel_join_config config =
     (let policy = normalize_join_policy
            (str_or (py_or (pget config ''join_policy'') (pget config ''policy'')) ''all_success'') in
      res_bind (configured_count config) (\<lambda>n.
        if n = None \<and> counted_policy policy
        then res_bind (py_int (PStr (before_str ''_of_'' policy))) (\<lambda>i. Inr (''n_of_m'', Some i))
        else Inr (policy, n)))"

definition count_status :: "string \<Rightarrow> string list \<Rightarrow> int" where
  "count_status s statuses = int (length (filter (\<lambda>t. t = s) statuses))"

text \<open>
  The verdict over the counts of succeeded, failed and all branches. Under \<open>n_of_m\<close> without a count
  the code reads the head of the policy's own name as a number, which raises.
\<close>

definition required_count :: "string \<Rightarrow> int option \<Rightarrow> int \<Rightarrow> (string, int) result" where
  "required_count policy n number =
     (case n of Some i \<Rightarrow> Inr i
      | None \<Rightarrow> if contains_str ''_of_'' policy then py_int (PStr (before_str ''_of_'' policy)) else Inr number)"

definition join_verdict :: "string \<Rightarrow> int \<Rightarrow> int \<Rightarrow> int \<Rightarrow> int option \<Rightarrow> (string, string) result" where
  "join_verdict policy succeeded failed number n =
     (let pending = number - succeeded - failed in
      if policy = ''any_success''
      then Inr (if succeeded > 0 then ''succeeded'' else if pending = 0 then ''failed'' else ''paused'')
      else if policy = ''best_effort''
      then Inr (if succeeded > 0 then ''succeeded''
                else if pending = 0 \<and> failed = number then ''failed'' else ''paused'')
      else if policy = ''fail_fast''
      then Inr (if failed > 0 then ''failed'' else if pending > 0 then ''paused'' else ''succeeded'')
      else if policy = ''n_of_m'' \<or> counted_policy policy
      then res_bind (required_count policy n number)
        (\<lambda>required. Inr (if succeeded \<ge> required then ''succeeded''
                         else if succeeded + pending < required then ''failed'' else ''paused''))
      else Inr (if pending > 0 then ''paused'' else if failed > 0 then ''failed'' else ''succeeded''))"

definition evaluate_parallel_join ::
  "string \<Rightarrow> string list \<Rightarrow> int option \<Rightarrow> (string, string) result" where
  "evaluate_parallel_join policy statuses n =
     join_verdict (normalize_join_policy policy) (count_status ''succeeded'' statuses)
       (count_status ''failed'' statuses) (int (length statuses)) n"

section \<open>Merging branches\<close>

definition branch_of :: "pyval dict \<Rightarrow> string \<Rightarrow> (string, pyval dict) result" where
  "branch_of branches child = get_dict branches child"

fun succeeded_outputs :: "pyval dict \<Rightarrow> string list \<Rightarrow> (string, (string \<times> pyval dict) list) result" where
  "succeeded_outputs branches [] = Inr []"
| "succeeded_outputs branches (c # cs) =
     res_bind (branch_of branches c) (\<lambda>entry.
       if sget entry ''status'' \<noteq> ''succeeded'' then succeeded_outputs branches cs
       else res_bind (get_dict entry ''output'') (\<lambda>out.
            res_bind (succeeded_outputs branches cs) (\<lambda>rest. Inr ((c, out) # rest))))"

definition selected_branch_output ::
  "pyval dict \<Rightarrow> pyval dict \<Rightarrow> (string \<times> pyval dict) list \<Rightarrow> (string, pyval dict) result" where
  "selected_branch_output config branches outputs =
     (let selected = py_or (pget config ''selected_branch'')
            (py_or (pget config ''selected_output'') (pget config ''selected_branch_id'')) in
      if selected \<noteq> PNone
      then res_bind (branch_of branches (py_str selected)) (\<lambda>entry. get_dict entry ''output'')
      else Inr (case outputs of [] \<Rightarrow> [] | (_, out) # _ \<Rightarrow> out))"

definition merged_outputs ::
  "string \<Rightarrow> pyval dict \<Rightarrow> pyval dict \<Rightarrow> (string \<times> pyval dict) list \<Rightarrow> (string, pyval) result" where
  "merged_outputs policy config branches outputs =
     (if policy = ''collect_array'' then Inr (PList (map (PDict \<circ> snd) outputs))
      else if policy = ''merge_objects'' then Inr (PDict (fold (\<lambda>(_, out) m. dmerge m out) outputs []))
      else if policy = ''selected_output''
      then res_bind (selected_branch_output config branches outputs) (\<lambda>out. Inr (PDict out))
      else Inr (PDict (fold (\<lambda>(i, out) m. dset i (PDict out) m) outputs [])))"

definition apply_parallel_merge_policy ::
  "vars \<Rightarrow> string \<Rightarrow> pyval dict \<Rightarrow> string list \<Rightarrow> string \<Rightarrow> pyval dict \<Rightarrow> (string, vars) result" where
  "apply_parallel_merge_policy vars nid branches children merge_policy config =
     res_bind (succeeded_outputs branches children) (\<lambda>outputs.
     res_bind (get_dict vars ''parallel_outputs'') (\<lambda>all_outputs.
     res_bind (merged_outputs (normalize_merge_policy merge_policy) config branches outputs) (\<lambda>m.
       Inr (dset ''parallel_outputs'' (PDict (dset nid m all_outputs)) vars))))"

section \<open>Mappings\<close>

fun resolve_mapping :: "vars \<Rightarrow> pyval \<Rightarrow> pyval" where
  "resolve_mapping vars (PStr s) =
     (if starts_with ''$.'' s then walk_path (PDict vars) (split_char CHR ''.'' (drop 2 s)) else PStr s)"
| "resolve_mapping vars (PDict d) =
     (if dhas d ''$path''
      then (let r = walk_path (PDict vars) (split_char CHR ''.'' (py_str (pget d ''$path''))) in
            if truthy (pget d ''wrap_list'') \<and> r \<noteq> PNone then PList [r] else r)
      else PDict (map (\<lambda>(k, v). (k, resolve_mapping vars v)) d))"
| "resolve_mapping vars (PList xs) = PList (map (resolve_mapping vars) xs)"
| "resolve_mapping vars v = v"

section \<open>Routing\<close>

definition outgoing :: "pyval dict list \<Rightarrow> string \<Rightarrow> pyval dict list" where
  "outgoing edges nid = filter (\<lambda>e. py_eq (pget e ''from'') (PStr nid)) edges"

text \<open>The target of the first rule whose condition holds; a rule without a target ends the search.\<close>

fun matching_rule :: "vars \<Rightarrow> pyval list \<Rightarrow> (string, pyval dict option) result" where
  "matching_rule vars [] = Inr None"
| "matching_rule vars (PDict rule # rules) =
     (let c = (case pget rule ''condition'' of PDict c \<Rightarrow> c | _ \<Rightarrow> rule) in
      if truthy (pget c ''operator'')
      then res_bind (evaluate_condition (PDict c) vars) (\<lambda>b.
             if b then Inr (Some rule) else matching_rule vars rules)
      else matching_rule vars rules)"
| "matching_rule vars (_ # rules) = matching_rule vars rules"

fun matching_edge :: "vars \<Rightarrow> pyval dict list \<Rightarrow> (string, pyval dict option) result" where
  "matching_edge vars [] = Inr None"
| "matching_edge vars (e # es) =
     (case pget e ''when'' of
        PNone \<Rightarrow> matching_edge vars es
      | w \<Rightarrow>
          res_bind (if is_dict w \<and> truthy (pget (dict_or_empty w) ''operator'')
                    then evaluate_condition w vars else Inr (truthy w)) (\<lambda>b.
            if b then Inr (Some e) else matching_edge vars es))"

definition execute_router_node ::
  "pyval dict \<Rightarrow> string \<Rightarrow> pyval dict list \<Rightarrow> vars \<Rightarrow> (string, vars \<times> step_out) result" where
  "execute_router_node node nid edges vars =
     res_bind (get_dict node ''config'') (\<lambda>config.
     res_bind (py_iter_or_empty (pget config ''rules'')) (\<lambda>rules.
     res_bind (matching_rule vars rules) (\<lambda>rule.
     let out = outgoing edges nid;
         by_rule = (case rule of None \<Rightarrow> [] | Some r \<Rightarrow> sget2 r ''to'' ''target'') in
     res_bind (if by_rule \<noteq> [] then Inr None else matching_edge vars out) (\<lambda>edge.
     let by_edge = (case edge of None \<Rightarrow> [] | Some e \<Rightarrow> sget e ''to'');
         selected = (if by_rule \<noteq> [] then by_rule else if by_edge \<noteq> [] then by_edge
                     else case out of [] \<Rightarrow> [] | e # _ \<Rightarrow> sget e ''to'') in
     Inr (if selected \<noteq> [] then dset ''_router_target'' (PStr selected) vars else vars,
          step_result ''succeeded''
            [(''selected'', if rule = None \<and> edge = None \<and> out = [] then PNone else PStr selected),
             (''rules_evaluated'', PInt (int (length rules))),
             (''matched_rule'', case rule of None \<Rightarrow> PNone | Some r \<Rightarrow> PDict r)] None)))))"

text \<open>The edge end as a cursor.\<close>

definition edge_target :: "pyval dict \<Rightarrow> string option" where
  "edge_target e = (case pget e ''to'' of PNone \<Rightarrow> None | v \<Rightarrow> Some (py_str v))"

definition next_node :: "string \<Rightarrow> pyval dict list \<Rightarrow> vars \<Rightarrow> vars \<times> string option" where
  "next_node current edges vars =
     (let target = pget vars ''_router_target''; vars = ddel ''_router_target'' vars in
      if truthy target then (vars, Some (py_str target))
      else case outgoing edges current of
        [] \<Rightarrow> (vars, None)
      | e # es \<Rightarrow>
          (let cond = pget vars ''_last_condition'';
               chosen = (if cond = PNone then None
                 else find (\<lambda>e. pget e ''when'' \<noteq> PNone \<and> truthy (pget e ''when'') = truthy cond) (e # es)) in
           (vars, edge_target (case chosen of Some c \<Rightarrow> c | None \<Rightarrow> e))))"

end
