(* ===== verification/Workflow_Nodes.thy ===== *)
theory Workflow_Nodes
  imports Workflow_State
begin

text \<open>
  The node handlers of the workflow runner: tools with their approvals, skills, conditions,
  triggers, agents, subworkflows and parallel groups. Starting a child workflow is the parameter
  \<open>sub\<close>, which the runner ties to itself.
\<close>

section \<open>Approval requests\<close>

definition new_approval ::
  "wf_env \<Rightarrow> string \<Rightarrow> string option \<Rightarrow> string option \<Rightarrow> string option \<Rightarrow> string \<Rightarrow> string option \<Rightarrow>
   pyval dict \<Rightarrow> approval_request" where
  "new_approval env i project task user approval_type reason payload =
     \<lparr>aq_id = i, aq_project_id = project, aq_task_id = task, aq_run_id = None, aq_issue_link_id = None,
      aq_requested_by = user, aq_approved_by = None, aq_approval_type = approval_type,
      aq_status = ''pending'', aq_reason = reason, aq_payload = payload, aq_effect_hash = None,
      aq_effect_version = 1, aq_fingerprint = PNone, aq_expires_at = None, aq_proposed_effect = [],
      aq_workspace_id = None, aq_delegations = [], aq_escalation_state = [], aq_sla_policy = [],
      aq_due_at = None, aq_created_at = we_now env, aq_resolved_at = None,
      aq_eligible = [], aq_routing = [], aq_decided_reason = None\<rparr>"

definition with_draft :: "pyval \<Rightarrow> approval_request \<Rightarrow> approval_request" where
  "with_draft draft a =
     (if truthy draft then a\<lparr>aq_payload := dset ''draft_arguments'' draft (aq_payload a)\<rparr> else a)"

definition create_exact_effect_approval ::
  "wf_env \<Rightarrow> wf_run \<Rightarrow> string \<Rightarrow> string \<Rightarrow> pyval dict \<Rightarrow> string option \<Rightarrow> pyval dict \<Rightarrow> wf_db \<Rightarrow>
   (string, wf_db \<times> approval_request) result" where
  "create_exact_effect_approval env run approval_type action_key raw reason extra db =
     res_bind (build_proposed_effect (we_rt env) action_key raw None 1 None None (we_now env)) (\<lambda>effect.
     let payload = (if dhas extra ''owner_id'' then extra
                    else dset ''owner_id'' (opt_str (wr_created_by run)) extra);
         payload = (if raw \<noteq> [] \<and> \<not> dhas payload ''draft_arguments''
                    then dset ''draft_arguments'' (PDict raw) payload else payload) in
     case fresh_id env db of (i, db) \<Rightarrow>
       let a = new_approval env i (wr_project_id run) (wr_task_id run) (wr_created_by run)
                 approval_type reason payload;
           a = with_draft (pget payload ''draft_arguments'')
                 (apply_proposed_effect_to_approval (we_rt env) a effect) in
       res_bind (we_route env a) (\<lambda>a.
         Inr (db\<lparr>wd_approvals := wd_approvals db @ [a]\<rparr>, a)))"

definition create_workflow_approval_request ::
  "wf_env \<Rightarrow> wf_run \<Rightarrow> string \<Rightarrow> string \<Rightarrow> string \<Rightarrow> string option \<Rightarrow> string option \<Rightarrow> pyval dict \<Rightarrow> wf_db \<Rightarrow>
   (string, wf_db \<times> string) result" where
  "create_workflow_approval_request env run nid approval_type action_key args_hash reason extra db =
     res_bind (get_dict extra ''draft_arguments'') (\<lambda>draft.
     let raw = (if draft = []
                then filter (\<lambda>kv. fst kv \<notin> {''risk_level'', ''email'', ''tool_slug''}) extra else draft);
         payload = dmerge [(''workflow_run_id'', PStr (wr_id run)), (''workflow_node_id'', PStr nid),
                           (''owner_id'', opt_str (wr_created_by run))] extra in
     res_bind (create_exact_effect_approval env run approval_type action_key raw reason payload db)
       (\<lambda>(db, a).
         let a' = (if truthy (opt_str args_hash) \<and> aq_effect_hash a \<noteq> args_hash
                   then a\<lparr>aq_payload := dset ''arguments_hash'' (opt_str args_hash) (aq_payload a)\<rparr>
                   else a) in
         Inr (put_approval a' db, aq_id a)))"

section \<open>Tools\<close>

text \<open>The approval request of a tool node.\<close>

definition request_tool_approval ::
  "wf_env \<Rightarrow> wf_run \<Rightarrow> string \<Rightarrow> vars \<Rightarrow> pyval \<Rightarrow> pyval dict \<Rightarrow> string \<Rightarrow> wf_db \<Rightarrow>
   (string, wf_db \<times> string) result" where
  "request_tool_approval env run nid vars slug params risk db =
     create_workflow_approval_request env run nid (''tool:'' @ py_str slug) (''tool:'' @ py_str slug)
       (Some (arguments_hash (rt_sha (we_rt env)) params))
       (Some (''Workflow tool `'' @ py_str slug @ ''` requires approval''))
       [(''tool_slug'', slug), (''draft_arguments'', PDict params), (''risk_level'', PStr risk),
        (''email'', pget vars ''email'')] db"

definition simulated_step :: "string \<Rightarrow> string \<Rightarrow> pyval dict \<Rightarrow> vars \<Rightarrow> vars \<times> step_out" where
  "simulated_step nid slug params vars =
     (let r = PDict (simulated_tool_result slug params) in
      (dset (''tool_result_'' @ nid) r vars,
       step_result ''succeeded''
         [(''tool_slug'', PStr slug), (''result'', r), (''simulated'', PBool True)] None))"

definition drop_pending :: "vars \<Rightarrow> vars" where
  "drop_pending vars = ddel ''pending_approval_request_id'' (ddel ''pending_tool'' vars)"

text \<open>A call that still waits for its approval: simulate, or ask (once) and pause.\<close>

definition await_tool_approval ::
  "wf_env \<Rightarrow> wf_run \<Rightarrow> string \<Rightarrow> pyval dict \<Rightarrow> vars \<Rightarrow> wf_db \<Rightarrow> node_result" where
  "await_tool_approval env run nid pending vars db =
     (let slug = sget pending ''tool_slug''; params = get_dict pending ''params'' in
      if should_simulate_external_write run slug
      then res_bind params (\<lambda>params.
             case simulated_step nid slug params (drop_pending vars) of (vars, out) \<Rightarrow> Inr (db, vars, out))
      else
        (let known = py_or (pget pending ''approval_request_id'') (pget vars ''pending_approval_request_id'') in
         res_bind (if truthy known then Inr (db, known)
                   else res_bind params (\<lambda>params.
                        res_bind (request_tool_approval env run nid vars (pget pending ''tool_slug'') params
                               ''high'' db) (\<lambda>(db, i). Inr (db, PStr i)))) (\<lambda>(db, i).
         let pending = dset ''approval_request_id'' i pending in
         Inr (db, dset ''pending_tool'' (PDict pending) (dset ''pending_approval_request_id'' i vars),
              step_result ''paused''
                [(''pending_tool'', PDict pending), (''approval_request_id'', i)]
                (Some ''waiting_approval'')))))"

definition run_context_for :: "wf_run \<Rightarrow> string \<Rightarrow> pyval dict \<Rightarrow> pyval dict" where
  "run_context_for run nid params =
     [(''owner_id'', opt_str (wr_created_by run)), (''project_id'', opt_str (wr_project_id run)),
      (''task_id'', opt_str (wr_task_id run)), (''workflow_run_id'', PStr (wr_id run)),
      (''workflow_node_id'', PStr nid),
      (''connector_installation_id'', pget params ''connector_installation_id'')]"

text \<open>The call itself, and what its result means for the node.\<close>

definition run_tool ::
  "wf_env \<Rightarrow> wf_run \<Rightarrow> string \<Rightarrow> string \<Rightarrow> pyval dict \<Rightarrow> pyval dict \<Rightarrow> vars \<Rightarrow> wf_db \<Rightarrow> node_result" where
  "run_tool env run nid slug params ctx vars db =
     (if slug = []
      then Inr (db, vars, step_failed [(''error'', PStr ''tool node missing config.tool or config.tool_slug'')])
      else if should_simulate_external_write run slug
      then (case simulated_step nid slug params vars of (vars, out) \<Rightarrow> Inr (db, vars, out))
      else case we_tool env (str_or (opt_str (wr_created_by run)) []) slug params ctx of
        (r, calls) \<Rightarrow>
          (let db = db\<lparr>wd_calls := wd_calls db @ calls\<rparr>; status = pget r ''status'' in
           if py_eq status (PStr ''approval_required'')
           then res_bind (request_tool_approval env run nid vars (PStr slug) params
                  (if slug = ''gmail.send_draft'' then ''high'' else ''medium'') db) (\<lambda>(db, i).
             let pending =
               [(''node_id'', PStr nid), (''tool_slug'', PStr slug), (''params'', PDict params),
                (''context'', PDict (drop_keys [''approval_granted'', ''approval_request_id''] ctx)),
                (''auth'', PDict [(''decision'', pget r ''decision''),
                  (''resolution'', py_or (pget r ''resolution'') (PDict []))]),
                (''approval_request_id'', PStr i)] in
             Inr (db, dset ''pending_approval_request_id'' (PStr i) (dset ''pending_tool'' (PDict pending) vars),
                  step_result ''paused'' [(''approval_required'', PBool True), (''tool_slug'', PStr slug),
                    (''approval_request_id'', PStr i)] (Some ''waiting_approval'')))
           else if py_eq status (PStr ''denied'') \<or> py_eq status (PStr ''failed'')
           then Inr (db, vars, step_failed
                  [(''denied'', PBool True), (''tool_slug'', PStr slug), (''result'', PDict r)])
           else Inr (db, dset (''tool_result_'' @ nid) (PDict r) vars,
                  step_result ''succeeded'' [(''tool_slug'', PStr slug), (''result'', PDict r)] None)))"

definition pending_for :: "string \<Rightarrow> vars \<Rightarrow> pyval dict option" where
  "pending_for nid vars =
     (case pget vars ''pending_tool'' of
        PDict p \<Rightarrow> if py_eq (pget p ''node_id'') (PStr nid) then Some p else None
      | _ \<Rightarrow> None)"

definition execute_tool_node ::
  "wf_env \<Rightarrow> wf_run \<Rightarrow> pyval dict \<Rightarrow> string \<Rightarrow> vars \<Rightarrow> wf_db \<Rightarrow> node_result" where
  "execute_tool_node env run node nid vars db =
     res_bind (get_dict node ''config'') (\<lambda>config.
     case pending_for nid vars of
       Some pending \<Rightarrow>
         if \<not> truthy (pget pending ''approval_consumed'')
         then await_tool_approval env run nid pending vars db
         else res_bind (get_dict pending ''params'') (\<lambda>params.
              res_bind (get_dict pending ''context'') (\<lambda>ctx.
              let ctx = dset ''approval_request_id'' (pget pending ''approval_request_id'')
                          (dset ''approval_granted'' (PBool True) ctx) in
              run_tool env run nid (sget pending ''tool_slug'') params ctx (drop_pending vars) db))
     | None \<Rightarrow>
         (let configured = pget config ''params'';
              mapped = (if is_dict configured \<and> truthy configured then resolve_mapping vars configured
                        else PDict vars) in
          case mapped of
            PDict params \<Rightarrow>
              run_tool env run nid (sget2 config ''tool'' ''tool_slug'') params
                (run_context_for run nid params) vars db
          | _ \<Rightarrow> Inl ''AttributeError''))"

section \<open>Skills, conditions, triggers\<close>

definition resolve_skill_version :: "wf_env \<Rightarrow> pyval dict \<Rightarrow> skill_version option" where
  "resolve_skill_version env config =
     (let by_id = (\<lambda>i. find (\<lambda>v. sv_id v = i) (we_skill_versions env));
          published = (\<lambda>skill. let vs = filter (\<lambda>v. sv_skill_id v = skill \<and> sv_published v)
              (we_skill_versions env) in
            case sort_key (\<lambda>v. - sv_number v) vs of [] \<Rightarrow> None | v # _ \<Rightarrow> Some v) in
      if truthy (pget config ''skill_version_id'') then by_id (py_str (pget config ''skill_version_id''))
      else if \<not> truthy (pget config ''skill_id'') then None
      else (let skill = py_str (pget config ''skill_id'') in
            case map_of (we_skills env) skill of
              Some (Some current) \<Rightarrow>
                (if current = [] then published skill
                 else case by_id current of Some v \<Rightarrow> Some v | None \<Rightarrow> published skill)
            | _ \<Rightarrow> published skill))"

definition skill_payload :: "skill_version \<Rightarrow> pyval dict" where
  "skill_payload v =
     [(''skill_id'', PStr (sv_skill_id v)), (''skill_version_id'', PStr (sv_id v)),
      (''version_number'', PInt (sv_number v)), (''instructions_markdown'', PStr (sv_instructions v)),
      (''required_tools'', PList (sv_tools v)), (''capabilities'', PList (sv_capabilities v))]"

definition execute_skill :: "wf_env \<Rightarrow> pyval dict \<Rightarrow> vars \<Rightarrow> (string, vars \<times> step_out) result" where
  "execute_skill env node vars =
     res_bind (get_dict node ''config'') (\<lambda>config.
     case resolve_skill_version env config of
       None \<Rightarrow> Inr (vars, step_failed [(''error'', PStr ''skill version not found'')])
     | Some v \<Rightarrow> Inr (dset ''skill_payload'' (PDict (skill_payload v)) vars,
         step_result ''succeeded'' [(''skill_version_id'', PStr (sv_id v)), (''skill_id'', PStr (sv_skill_id v))]
           None))"

definition execute_condition :: "pyval dict \<Rightarrow> vars \<Rightarrow> (string, vars \<times> step_out) result" where
  "execute_condition node vars =
     res_bind (get_dict node ''config'') (\<lambda>config.
     res_bind (node_condition config vars) (\<lambda>b.
       Inr (dset ''_last_condition'' (PBool b) vars,
            step_result ''succeeded'' [(''branch'', PBool b),
              (''condition'', case condition_from_config config of None \<Rightarrow> PNone | Some c \<Rightarrow> c)] None)))"

definition execute_trigger :: "pyval dict \<Rightarrow> string \<Rightarrow> vars \<Rightarrow> (string, vars \<times> step_out) result" where
  "execute_trigger node nid vars =
     res_bind (get_dict node ''config'') (\<lambda>config.
     res_bind (get_dict config ''metadata'') (\<lambda>extra.
     let m = [(''trigger_type'', PStr (str_or (py_or (pget config ''trigger_type'') (pget config ''type'')) ''manual'')),
              (''source'', pget config ''source''), (''schedule'', pget config ''schedule''),
              (''webhook_key'', pget config ''webhook_key''), (''event'', pget config ''event''),
              (''metadata'', PDict extra)] in
     Inr (dset (''trigger_'' @ nid) (PDict m) vars, step_result ''succeeded'' m None)))"

definition execute_simple_node ::
  "wf_env \<Rightarrow> wf_run \<Rightarrow> pyval dict \<Rightarrow> string \<Rightarrow> vars \<Rightarrow> wf_db \<Rightarrow> node_result" where
  "execute_simple_node env run node nid vars db =
     (let t = sget node ''type''; pure = (\<lambda>r. res_bind r (\<lambda>(vars, out). Inr (db, vars, out))) in
      if t = ''tool'' then execute_tool_node env run node nid vars db
      else if t = ''skill'' then pure (execute_skill env node vars)
      else if t = ''condition'' then pure (execute_condition node vars)
      else if t = ''trigger'' then pure (execute_trigger node nid vars)
      else Inr (db, vars, step_failed
             [(''error'', PStr (''unsupported simple node type `'' @ t @ ''`''))]))"

section \<open>Agents\<close>

text \<open>The selected skill joins the snapshot in the checkpoint of a started task run.\<close>

definition union_list :: "pyval dict \<Rightarrow> pyval dict \<Rightarrow> string \<Rightarrow> (string, pyval) result" where
  "union_list snapshot skill k =
     res_bind (py_iter_or_empty (pget snapshot k)) (\<lambda>xs.
     res_bind (py_iter_or_empty (pget skill k)) (\<lambda>ys. Inr (PList (py_unique (xs @ ys)))))"

definition merge_skill_snapshot :: "pyval dict \<Rightarrow> pyval dict \<Rightarrow> (string, pyval dict) result" where
  "merge_skill_snapshot checkpoint skill =
     (let version = sget skill ''skill_version_id'' in
      if version = [] then Inr checkpoint
      else
        res_bind (get_dict checkpoint ''skill_version_snapshot'') (\<lambda>snapshot.
        res_bind (py_iter_or_empty (pget snapshot ''skill_version_ids'')) (\<lambda>ids.
        res_bind (py_iter_or_empty (pget snapshot ''skills'')) (\<lambda>skills.
        let ids = map py_str (filter truthy ids); known = version \<in> set ids;
            ids = (if known then ids else ids @ [version]);
            skills = (if known then skills else skills @ [PDict skill]) in
        res_bind (union_list snapshot skill ''required_tools'') (\<lambda>tools.
        res_bind (union_list snapshot skill ''capabilities'') (\<lambda>caps.
        Inr (dset ''skill_version_snapshot''
               (PDict (dset ''capabilities'' caps (dset ''required_tools'' tools
                 (dset ''skills'' (PList skills) (dset ''skill_version_ids'' (PList (map PStr ids))
                   snapshot))))) checkpoint)))))))"

definition task_output :: "task_run \<Rightarrow> pyval dict" where
  "task_output t = [(''task_run_id'', PStr (tr_id t)), (''task_run_status'', PStr (tr_status t))]"

definition run_user :: "wf_run \<Rightarrow> string" where
  "run_user run = str_or (opt_str (wr_created_by run)) []"

text \<open>The structured output of a finished agent is written over the variables of the run.\<close>

definition absorb_output :: "string \<Rightarrow> pyval dict \<Rightarrow> vars \<Rightarrow> vars" where
  "absorb_output nid payload vars =
     (let vars = dset (''agent_output_'' @ nid) (PDict payload) vars in
      case pget payload ''structured_output'' of
        PDict d \<Rightarrow> dmerge vars d
      | _ \<Rightarrow> dmerge vars payload)"

definition agent_task_finished ::
  "wf_env \<Rightarrow> wf_run \<Rightarrow> string \<Rightarrow> string \<Rightarrow> string option \<Rightarrow> task_run \<Rightarrow> vars \<Rightarrow> wf_db \<Rightarrow> wf_db \<times> vars \<times> step_out" where
  "agent_task_finished env run nid track branch t vars db =
     (let out = task_output t @ [(''agent_output'', PDict (tr_output t))];
          db = upsert_child_execution env (wr_id run) track ''task_run'' (Some (tr_id t)) branch
                 (tr_status t) out db in
      if tr_status t \<noteq> ''completed'' then (db, vars, step_failed out)
      else (db, absorb_output nid (tr_output t) vars, step_result ''succeeded'' out None))"

definition agent_task_waits ::
  "wf_env \<Rightarrow> wf_run \<Rightarrow> string \<Rightarrow> string option \<Rightarrow> string \<Rightarrow> task_run \<Rightarrow> vars \<Rightarrow> wf_db \<Rightarrow> wf_db \<times> vars \<times> step_out" where
  "agent_task_waits env run track branch dflt t vars db =
     (upsert_child_execution env (wr_id run) track ''task_run'' (Some (tr_id t)) branch
        (if tr_status t = [] then dflt else tr_status t) (task_output t) db,
      vars, step_result ''paused'' (task_output t) (Some ''paused''))"

definition agent_request ::
  "wf_run \<Rightarrow> pyval dict \<Rightarrow> string \<Rightarrow> string option \<Rightarrow> vars \<Rightarrow> (string, task_request) result" where
  "agent_request run config track branch vars =
     res_bind (dict_or_raise (py_or (pget config ''input'') (pget config ''input_payload''))) (\<lambda>input.
     let input = dmerge input [(''workflow_run_id'', PStr (wr_id run)),
           (''workflow_node_id'', PStr track), (''workflow_context'', PDict vars)];
         input = (if truthy (opt_str branch) then dset ''workflow_branch_key'' (opt_str branch) input
                  else input) in
     Inr \<lparr>tq_user = run_user run, tq_project_id = py_str (opt_str (wr_project_id run)),
          tq_task_id = py_str (opt_str (wr_task_id run)), tq_worker = py_str (pget config ''agent_id''),
          tq_orchestrator = pget config ''orchestrator_agent_id'',
          tq_run_mode = str_or (pget config ''run_mode'') ''single_agent'', tq_input = input\<rparr>)"

definition start_agent_task ::
  "wf_env \<Rightarrow> wf_run \<Rightarrow> pyval dict \<Rightarrow> string \<Rightarrow> string \<Rightarrow> string option \<Rightarrow> pyval dict \<Rightarrow> vars \<Rightarrow> wf_db \<Rightarrow>
   node_result" where
  "start_agent_task env run config nid track branch agent_runs vars db =
     (if \<not> we_user_exists env (run_user run)
      then Inr (db, vars, step_failed
             [(''error'', PStr ''workflow run owner user not found for agent TaskRun'')])
      else
        res_bind (agent_request run config track branch vars) (\<lambda>req.
        res_bind (we_start_task env db req) (\<lambda>t.
        res_bind (get_dict vars ''skill_payload'') (\<lambda>skill.
        res_bind (merge_skill_snapshot (tr_checkpoint t) skill) (\<lambda>checkpoint.
        let t = t\<lparr>tr_checkpoint := checkpoint\<rparr>;
            db = db\<lparr>wd_tasks := wd_tasks db @ [t]\<rparr>;
            vars = dset ''_agent_runs'' (PDict (dset nid (PStr (tr_id t)) agent_runs)) vars in
        Inr (agent_task_waits env run track branch ''queued'' t vars db))))))"

definition agent_handoff :: "wf_run \<Rightarrow> pyval dict \<Rightarrow> pyval dict" where
  "agent_handoff run config =
     [(''delegated_to'', PStr ''orchestration''), (''agent_id'', pget config ''agent_id''),
      (''project_id'', opt_str (wr_project_id run)), (''task_id'', opt_str (wr_task_id run))] @
     (if \<not> truthy (pget config ''agent_id'')
      then [(''reason'', PStr ''agent_id missing from node config'')]
      else if \<not> truthy (opt_str (wr_project_id run)) \<or> \<not> truthy (opt_str (wr_task_id run))
      then [(''reason'', PStr ''workflow run missing project_id or task_id'')] else [])"

definition execute_agent_node ::
  "wf_env \<Rightarrow> wf_run \<Rightarrow> pyval dict \<Rightarrow> string \<Rightarrow> string \<Rightarrow> string option \<Rightarrow> vars \<Rightarrow> wf_db \<Rightarrow> node_result" where
  "execute_agent_node env run node nid track branch vars db =
     res_bind (get_dict node ''config'') (\<lambda>config.
     res_bind (get_dict vars ''_agent_runs'') (\<lambda>agent_runs.
     let existing = pget agent_runs nid;
         fresh = (\<lambda>agent_runs vars.
           if truthy (pget config ''agent_id'') \<and> truthy (opt_str (wr_project_id run)) \<and>
              truthy (opt_str (wr_task_id run))
           then start_agent_task env run config nid track branch agent_runs vars db
           else Inr (db, vars, step_result ''succeeded'' (agent_handoff run config) None)) in
     if \<not> truthy existing then fresh agent_runs vars
     else case find_task db (py_str existing) of
       None \<Rightarrow> fresh (ddel nid agent_runs) (dset ''_agent_runs'' (PDict (ddel nid agent_runs)) vars)
     | Some t \<Rightarrow>
         if tr_status t \<in> set TASK_RUN_TERMINAL
         then Inr (agent_task_finished env run nid track branch t vars db)
         else Inr (agent_task_waits env run track branch ''running'' t vars db)))"

section \<open>Subworkflows\<close>

text \<open>\<open>sub\<close> creates the child run from its input and advances it.\<close>

type_synonym sub_runner = "wf_run \<Rightarrow> string \<Rightarrow> vars \<Rightarrow> wf_db \<Rightarrow> (string, wf_db \<times> wf_run) result"

definition child_step ::
  "wf_env \<Rightarrow> wf_run \<Rightarrow> string \<Rightarrow> string option \<Rightarrow> wf_run \<Rightarrow> vars \<Rightarrow> wf_db \<Rightarrow> wf_db \<times> vars \<times> step_out" where
  "child_step env run track branch child vars db =
     (let out = [(''child_run_id'', PStr (wr_id child)), (''child_status'', PStr (wr_status child))];
          status = (if wr_status child = [] then ''running'' else wr_status child);
          db = upsert_child_execution env (wr_id run) track ''workflow_run'' (Some (wr_id child)) branch
                 status out db in
      (db, vars,
       if wr_status child = ''completed'' then step_result ''succeeded'' out None
       else if wr_status child \<in> {''failed'', ''cancelled''} then step_failed out
       else step_result ''paused'' out (Some ''paused'')))"

definition execute_subworkflow_node ::
  "sub_runner \<Rightarrow> wf_env \<Rightarrow> wf_run \<Rightarrow> pyval dict \<Rightarrow> string \<Rightarrow> string \<Rightarrow> string option \<Rightarrow> vars \<Rightarrow> wf_db \<Rightarrow>
   node_result" where
  "execute_subworkflow_node sub env run node nid track branch vars db =
     res_bind (get_dict node ''config'') (\<lambda>config.
     res_bind (get_dict vars ''_subworkflow_runs'') (\<lambda>sub_runs.
     let existing = pget sub_runs nid;
         fresh = (\<lambda>sub_runs vars.
           if \<not> truthy (pget config ''workflow_id'')
           then Inr (db, vars, step_failed [(''error'', PStr ''subworkflow node missing config.workflow_id'')])
           else res_bind (sub run (py_str (pget config ''workflow_id'')) vars db) (\<lambda>(db, child).
             let vars = dset ''_subworkflow_runs'' (PDict (dset nid (PStr (wr_id child)) sub_runs)) vars in
             Inr (child_step env run track branch child vars db))) in
     if \<not> truthy existing then fresh sub_runs vars
     else case find_run db (py_str existing) of
       None \<Rightarrow> fresh (ddel nid sub_runs) (dset ''_subworkflow_runs'' (PDict (ddel nid sub_runs)) vars)
     | Some child \<Rightarrow> Inr (child_step env run track branch child vars db)))"

end
