(* ===== verification/Workflow_Parallel.thy ===== *)
theory Workflow_Parallel
  imports Workflow_Nodes
begin

text \<open>
  Parallel groups of the workflow runner: branches run on copies of the variables, keep their state
  under \<open>parallel_branches\<close>, and are joined and merged by policy.
\<close>

section \<open>Refreshing a paused branch\<close>

definition seconds_of :: "pyval dict \<Rightarrow> (string, int) result" where
  "seconds_of config = py_int (py_or (py_or (pget config ''seconds'') (pget config ''delay_seconds'')) (PInt 0))"

text \<open>\<open>datetime.fromisoformat(s)\<close> compared with the aware clock: a naive time raises.\<close>

definition is_due :: "wf_env \<Rightarrow> string \<Rightarrow> (string, bool) result" where
  "is_due env s =
     (case rt_from_iso (we_rt env) s of
        None \<Rightarrow> Inl ''ValueError''
      | Some (Naive _) \<Rightarrow> Inl ''TypeError''
      | Some (Aware t) \<Rightarrow> Inr (we_now env \<ge> t))"

definition set_branch :: "string \<Rightarrow> pyval dict \<Rightarrow> pyval dict \<Rightarrow> pyval dict" where
  "set_branch status out entry = dset ''output'' (PDict out) (dset ''status'' (PStr status) entry)"

definition refresh_agent_branch ::
  "wf_env \<Rightarrow> wf_run \<Rightarrow> string \<Rightarrow> string \<Rightarrow> pyval dict \<Rightarrow> wf_db \<Rightarrow> wf_db \<times> pyval dict" where
  "refresh_agent_branch env run track child entry db =
     (case find_task db (sget entry ''child_run_id'') of
        None \<Rightarrow> (db, entry)
      | Some t \<Rightarrow>
          if sget entry ''child_run_id'' = [] then (db, entry)
          else if tr_status t \<in> set TASK_RUN_TERMINAL
          then (upsert_child_execution env (wr_id run) track ''task_run'' (Some (tr_id t)) (Some child)
                  (tr_status t) (task_output t) db,
                set_branch (if tr_status t = ''completed'' then ''succeeded'' else ''failed'') (task_output t) entry)
          else (db, set_branch ''paused'' (task_output t) entry))"

definition refresh_workflow_branch ::
  "wf_env \<Rightarrow> wf_run \<Rightarrow> string \<Rightarrow> string \<Rightarrow> pyval dict \<Rightarrow> wf_db \<Rightarrow> wf_db \<times> pyval dict" where
  "refresh_workflow_branch env run track child entry db =
     (case find_run db (sget entry ''child_run_id'') of
        None \<Rightarrow> (db, entry)
      | Some r \<Rightarrow>
          let out = [(''child_run_id'', PStr (wr_id r)), (''child_status'', PStr (wr_status r))];
              up = upsert_child_execution env (wr_id run) track ''workflow_run'' (Some (wr_id r)) (Some child) in
          if sget entry ''child_run_id'' = [] then (db, entry)
          else if wr_status r = ''completed'' then (up ''completed'' out db, set_branch ''succeeded'' out entry)
          else if wr_status r \<in> {''failed'', ''cancelled''}
          then (up (wr_status r) out db, set_branch ''failed'' out entry)
          else (db, set_branch ''paused'' out entry))"

definition refresh_delay_branch ::
  "wf_env \<Rightarrow> wf_run \<Rightarrow> string \<Rightarrow> string \<Rightarrow> pyval dict \<Rightarrow> wf_db \<Rightarrow> (string, wf_db \<times> pyval dict) result" where
  "refresh_delay_branch env run track child entry db =
     res_bind (get_dict entry ''delay'') (\<lambda>delay.
     let at = pget delay ''resume_at'' in
     if \<not> truthy at then Inr (db, entry)
     else res_bind (is_due env (py_str at)) (\<lambda>due.
       let out = [(''delayed'', PBool True), (''resume_at'', at)] in
       Inr (if due
            then (upsert_child_execution env (wr_id run) track ''branch'' None (Some child) ''completed'' out db,
                  set_branch ''succeeded'' out entry)
            else (db, dset ''status'' (PStr ''paused'') entry))))"

definition refresh_parallel_branch_status ::
  "wf_env \<Rightarrow> wf_run \<Rightarrow> string \<Rightarrow> string \<Rightarrow> pyval dict \<Rightarrow> pyval dict option \<Rightarrow> wf_db \<Rightarrow>
   (string, wf_db \<times> pyval dict) result" where
  "refresh_parallel_branch_status env run track child entry child_node db =
     (let status = str_or (pget entry ''status'') ''pending'';
          t = py_lower (str_or (py_or (pget entry ''child_type'')
                (case child_node of None \<Rightarrow> PNone | Some n \<Rightarrow> pget n ''type'')) []) in
      if status \<in> {''succeeded'', ''failed''} then Inr (db, entry)
      else if t \<in> {''agent'', ''task_run''} then Inr (refresh_agent_branch env run track child entry db)
      else if t \<in> {''subworkflow'', ''workflow_run''}
      then Inr (refresh_workflow_branch env run track child entry db)
      else if t = ''delay'' \<or> truthy (pget entry ''delay'')
      then refresh_delay_branch env run track child entry db
      else Inr (db, entry))"

section \<open>Starting a branch\<close>

definition branch_status :: "step_out \<Rightarrow> string" where
  "branch_status out =
     (if truthy (opt_str (so_pause out)) then ''paused''
      else if so_status out = ''failed'' then ''failed'' else ''succeeded'')"

definition branch_entry :: "string \<Rightarrow> pyval dict \<Rightarrow> string \<Rightarrow> pyval dict" where
  "branch_entry status out child_type =
     [(''status'', PStr status), (''output'', PDict out), (''child_type'', PStr child_type)]"

text \<open>
  A branch that pauses is recorded as paused whatever it pauses for, so a failed node, whose handler
  asks for the pause status \<open>failed\<close>, is recorded as paused too.
\<close>

definition start_delay_branch ::
  "wf_env \<Rightarrow> wf_run \<Rightarrow> string \<Rightarrow> string \<Rightarrow> pyval dict \<Rightarrow> wf_db \<Rightarrow> (string, wf_db \<times> pyval dict) result" where
  "start_delay_branch env run track child node db =
     res_bind (get_dict node ''config'') (\<lambda>config.
     res_bind (seconds_of config) (\<lambda>seconds.
     let up = upsert_child_execution env (wr_id run) track ''branch'' None (Some child) in
     if seconds \<le> 0
     then (let out = [(''delayed'', PBool False), (''seconds'', PInt 0)] in
           Inr (up ''completed'' out db, branch_entry ''succeeded'' out ''delay''))
     else
       (let t = we_now env + seconds * 1000000; iso = rt_iso (we_rt env) (Aware t);
            delay = [(''node_id'', PStr child), (''resume_at'', PStr iso), (''parallel_node_id'', PStr track)];
            out = [(''resume_at'', PStr iso), (''seconds'', PInt seconds)];
            db = up ''paused'' out db in
        Inr (db\<lparr>wd_delays := wd_delays db @ [(wr_id run, track, t)]\<rparr>,
             branch_entry ''paused'' out ''delay'' @ [(''delay'', PDict delay)]))))"

definition start_parallel_async_branch ::
  "sub_runner \<Rightarrow> wf_env \<Rightarrow> wf_run \<Rightarrow> string \<Rightarrow> string \<Rightarrow> pyval dict \<Rightarrow> vars \<Rightarrow> wf_db \<Rightarrow>
   (string, wf_db \<times> pyval dict) result" where
  "start_parallel_async_branch sub env run track child node vars db =
     (let t = sget node ''type'' in
      if t = ''agent''
      then res_bind (execute_agent_node env run node child track (Some child) vars db) (\<lambda>(db, _, out).
             Inr (db, branch_entry (branch_status out) (so_output out) ''task_run'' @
                      [(''child_run_id'', pget (so_output out) ''task_run_id'')]))
      else if t = ''subworkflow''
      then res_bind (execute_subworkflow_node sub env run node child track (Some child) vars db) (\<lambda>(db, _, out).
             Inr (db, branch_entry (branch_status out) (so_output out) ''workflow_run'' @
                      [(''child_run_id'', pget (so_output out) ''child_run_id'')]))
      else if t = ''delay'' then start_delay_branch env run track child node db
      else Inr (db, branch_entry ''failed''
             [(''error'', PStr (''unsupported async branch type `'' @ t @ ''`''))] t))"

text \<open>One branch that is neither finished nor paused: missing, simple, asynchronous or unsupported.\<close>

definition start_branch ::
  "sub_runner \<Rightarrow> wf_env \<Rightarrow> wf_run \<Rightarrow> string \<Rightarrow> string \<Rightarrow> pyval dict option \<Rightarrow> pyval dict \<Rightarrow> vars \<Rightarrow> wf_db \<Rightarrow>
   (string, wf_db \<times> pyval dict) result" where
  "start_branch sub env run track child child_node entry vars db =
     (case child_node of
        None \<Rightarrow> Inr (db, set_branch ''failed'' [(''error'', PStr ''child node not found'')] entry)
      | Some n \<Rightarrow>
          let t = sget n ''type'' in
          if t \<in> set SIMPLE_PARALLEL_TYPES
          then res_bind (execute_simple_node env run n child vars db) (\<lambda>(db, _, out).
                 Inr (db, dset ''child_type'' (PStr t) (set_branch (branch_status out) (so_output out) entry)))
          else if t \<in> set ASYNC_PARALLEL_TYPES
          then start_parallel_async_branch sub env run track child n vars db
          else Inr (db, set_branch ''failed''
                 [(''error'', PStr (''child type `'' @ t @ ''` is not supported in parallel''))] entry))"

section \<open>The group\<close>

record join_spec =
  js_policy :: string
  js_n :: "int option"
  js_merge :: string

definition branch_statuses :: "pyval dict \<Rightarrow> string list" where
  "branch_statuses branches = map (\<lambda>(_, b). sget (dict_or_empty b) ''status'') branches"

definition join_decided :: "join_spec \<Rightarrow> pyval dict \<Rightarrow> (string, bool) result" where
  "join_decided spec branches =
     (if js_policy spec = ''n_of_m''
      then res_bind (evaluate_parallel_join (js_policy spec) (branch_statuses branches) (js_n spec))
             (\<lambda>r. Inr (r \<in> {''succeeded'', ''failed''}))
      else Inr False)"

text \<open>The loop over the children; every exit finalises the group with the branches so far.\<close>

fun run_branches ::
  "sub_runner \<Rightarrow> wf_env \<Rightarrow> wf_run \<Rightarrow> string \<Rightarrow> (string \<times> pyval dict) list \<Rightarrow> join_spec \<Rightarrow> vars \<Rightarrow>
   string list \<Rightarrow> pyval dict \<Rightarrow> wf_db \<Rightarrow> (string, wf_db \<times> pyval dict) result" where
  "run_branches sub env run track nodes spec snapshot [] branches db = Inr (db, branches)"
| "run_branches sub env run track nodes spec snapshot (c # cs) branches db =
     res_bind (if truthy (pget branches c) then get_dict branches c
               else Inr [(''status'', PStr ''pending''), (''output'', PDict [])]) (\<lambda>entry.
     let was_paused = str_or (pget entry ''status'') ''pending'' = ''paused'' in
     res_bind (if was_paused
               then refresh_parallel_branch_status env run track c entry (map_of nodes c) db
               else Inr (db, entry)) (\<lambda>(db, entry).
     let branches = (if was_paused then dset c (PDict entry) branches else branches);
         status = str_or (pget entry ''status'') ''pending'';
         continue = (\<lambda>branches db.
           run_branches sub env run track nodes spec snapshot cs branches db) in
     if status \<in> {''succeeded'', ''failed''}
     then res_bind (join_decided spec branches) (\<lambda>decided.
            if decided \<or> (js_policy spec = ''fail_fast'' \<and> status = ''failed'') then Inr (db, branches)
            else continue branches db)
     else if status = ''paused'' then continue branches db
     else
       res_bind (start_branch sub env run track c (map_of nodes c) entry snapshot db) (\<lambda>(db, entry).
       let branches = dset c (PDict entry) branches in
       if js_policy spec = ''fail_fast'' \<and> py_eq (pget entry ''status'') (PStr ''failed'') then Inr (db, branches)
       else if map_of nodes c = None then continue branches db
       else res_bind (join_decided spec branches) (\<lambda>decided.
         if decided then Inr (db, branches) else continue branches db))))"

definition initial_group :: "join_spec \<Rightarrow> string list \<Rightarrow> pyval dict" where
  "initial_group spec children =
     [(''join_policy'', PStr (js_policy spec)),
      (''n'', case js_n spec of None \<Rightarrow> PNone | Some n \<Rightarrow> PInt n),
      (''merge_policy'', PStr (js_merge spec)),
      (''branches'', PDict (fold (\<lambda>c d. dset c
         (PDict [(''status'', PStr ''pending''), (''output'', PDict [])]) d) children []))]"

definition set_default :: "string \<Rightarrow> pyval \<Rightarrow> pyval dict \<Rightarrow> pyval dict" where
  "set_default k v d = (if dhas d k then d else dset k v d)"

text \<open>A stored group keeps its policies; a configured count replaces the stored one.\<close>

definition group_state ::
  "join_spec \<Rightarrow> string list \<Rightarrow> pyval dict \<Rightarrow> (string, pyval dict \<times> join_spec) result" where
  "group_state spec children stored =
     (if stored = [] then Inr (initial_group spec children, spec)
      else
        (let g = set_default ''merge_policy'' (PStr (js_merge spec))
                   (set_default ''join_policy'' (PStr (js_policy spec)) stored);
             g = (case js_n spec of None \<Rightarrow> g | Some n \<Rightarrow> dset ''n'' (PInt n) g) in
         res_bind (if pget g ''n'' = PNone then Inr (js_n spec)
                   else res_bind (py_int (pget g ''n'')) (\<lambda>n. Inr (Some n))) (\<lambda>n.
         Inr (g, \<lparr>js_policy = str_or (pget g ''join_policy'') (js_policy spec), js_n = n,
                  js_merge = normalize_merge_policy (str_or (pget g ''merge_policy'') (js_merge spec))\<rparr>))))"

definition finalize_parallel ::
  "join_spec \<Rightarrow> pyval dict \<Rightarrow> string \<Rightarrow> string list \<Rightarrow> pyval dict \<Rightarrow> pyval dict \<Rightarrow> pyval dict \<Rightarrow> vars \<Rightarrow>
   (string, vars \<times> step_out) result" where
  "finalize_parallel spec config nid children groups g branches vars =
     (let g = dset ''merge_policy'' (PStr (js_merge spec)) (dset ''branches'' (PDict branches) g);
          vars = dset ''parallel_branches'' (PDict (dset nid (PDict g) groups)) vars in
      res_bind (evaluate_parallel_join (js_policy spec) (branch_statuses branches) (js_n spec)) (\<lambda>joined.
      let out = [(''parallel_branches'', PDict g), (''join_policy'', PStr (js_policy spec)),
                 (''merge_policy'', PStr (js_merge spec)),
                 (''n'', case js_n spec of None \<Rightarrow> PNone | Some n \<Rightarrow> PInt n),
                 (''join_result'', PStr joined)] in
      if joined = ''succeeded''
      then res_bind (apply_parallel_merge_policy vars nid branches children (js_merge spec) config) (\<lambda>vars.
           let merged = pget (dict_or_empty (pget vars ''parallel_outputs'')) nid in
           res_bind (if js_merge spec = ''namespaced'' then dict_or_raise merged
                     else Inr [(''value'', merged)]) (\<lambda>po.
           Inr (vars, step_result ''succeeded'' (dset ''parallel_outputs'' (PDict po) out) None)))
      else if joined = ''failed'' then Inr (vars, step_failed out)
      else Inr (vars, step_result ''paused'' out (Some ''paused''))))"

definition execute_parallel_node ::
  "sub_runner \<Rightarrow> wf_env \<Rightarrow> wf_run \<Rightarrow> pyval dict \<Rightarrow> string \<Rightarrow> (string \<times> pyval dict) list \<Rightarrow> vars \<Rightarrow> wf_db \<Rightarrow>
   node_result" where
  "execute_parallel_node sub env run node nid nodes vars db =
     res_bind (get_dict node ''config'') (\<lambda>config.
     res_bind (parse_parallel_join_config config) (\<lambda>(policy, n).
     res_bind (py_iter_or_empty (pget config ''children'')) (\<lambda>cs.
     res_bind (get_dict vars ''parallel_branches'') (\<lambda>groups.
     res_bind (get_dict groups nid) (\<lambda>stored.
     let children = map py_str cs;
         spec = \<lparr>js_policy = policy, js_n = n, js_merge = normalize_merge_policy
           (str_or (py_or (pget config ''merge_policy'') (pget config ''merge'')) ''namespaced'')\<rparr> in
     res_bind (group_state spec children stored) (\<lambda>(g, spec).
     res_bind (get_dict g ''branches'') (\<lambda>branches.
     res_bind (if js_policy spec = ''fail_fast'' \<and> ''failed'' \<in> set (branch_statuses branches)
               then Inr (db, branches)
               else run_branches sub env run nid nodes spec vars children branches db) (\<lambda>(db, branches).
     res_bind (finalize_parallel spec config nid children groups g branches vars) (\<lambda>(vars, out).
       Inr (db, vars, out))))))))))"

end
