(* ===== verification/Workflow_Runtime.thy ===== *)
theory Workflow_Runtime
  imports Workflow_Parallel
begin

text \<open>
  The workflow runner: one node at a time from the cursor until the run ends, pauses or has taken
  its quota of steps; starting, resuming and rejecting runs. \<open>depth\<close> is the interpreter's recursion
  limit, spent by nested workflows only.
\<close>

section \<open>Approval, input and delay nodes\<close>

definition approval_waits :: "vars \<Rightarrow> pyval dict \<Rightarrow> vars \<times> step_out" where
  "approval_waits vars out = (vars, step_result ''paused'' out (Some ''waiting_approval''))"

text \<open>The gate reads the variables only: the grant, its id, the node it was given for.\<close>

definition execute_approval_node ::
  "wf_env \<Rightarrow> wf_run \<Rightarrow> pyval dict \<Rightarrow> string \<Rightarrow> vars \<Rightarrow> wf_db \<Rightarrow> node_result" where
  "execute_approval_node env run node nid vars db =
     (if truthy (pget vars ''approval_granted'') \<and> truthy (pget vars ''approval_request_id'')
      then
        (let i = py_str (pget vars ''approval_request_id'') in
         res_bind (py_iter_or_empty (pget vars ''_consumed_approval_ids'')) (\<lambda>consumed.
         if \<exists>c \<in> set consumed. py_eq (PStr i) c
         then (case approval_waits vars [] of (vars, out) \<Rightarrow> Inr (db, vars, out))
         else if truthy (pget vars ''approval_node_id'') \<and>
                 \<not> py_eq (pget vars ''approval_node_id'') (PStr nid)
         then (case approval_waits vars [] of (vars, out) \<Rightarrow> Inr (db, vars, out))
         else
           (let vars = dset ''_consumed_approval_ids'' (PList (consumed @ [PStr i])) vars;
                vars = ddel ''pending_approval_request_id'' (ddel ''approval_node_id''
                         (ddel ''approval_request_id'' (ddel ''approval_granted'' vars))) in
            Inr (db, vars, step_result ''succeeded''
              [(''approved'', PBool True), (''approval_request_id'', PStr i)] None))))
      else
        (let pending = pget vars ''pending_approval_request_id'' in
         res_bind
           (if truthy pending then Inr (db, vars, pending)
            else res_bind (get_dict node ''config'') (\<lambda>config.
                 res_bind (create_workflow_approval_request env run nid ''workflow_approval''
                     ''workflow_approval'' None
                     (Some (str_or (pget config ''reason'') ''Workflow approval required'')) [] db) (\<lambda>(db, i).
                 Inr (db, dset ''pending_approval_request_id'' (PStr i) vars, PStr i)))) (\<lambda>(db, vars, i).
         case approval_waits vars [(''waiting'', PBool True), (''approval_request_id'', i)] of
           (vars, out) \<Rightarrow> Inr (db, vars, out))))"

definition execute_human_input :: "vars \<Rightarrow> vars \<times> step_out" where
  "execute_human_input vars =
     (case pget vars ''human_input'' of
        PDict h \<Rightarrow>
          if h = [] then (vars, step_result ''paused'' [] (Some ''waiting_input''))
          else (ddel ''approval_granted'' (ddel ''human_input_by'' (ddel ''human_input'' vars)),
                step_result ''succeeded'' [(''human_input'', PDict h),
                  (''submitted_by'', pget vars ''human_input_by'')] None)
      | _ \<Rightarrow> (vars, step_result ''paused'' [] (Some ''waiting_input'')))"

definition execute_delay_node ::
  "wf_env \<Rightarrow> wf_run \<Rightarrow> pyval dict \<Rightarrow> string \<Rightarrow> vars \<Rightarrow> wf_db \<Rightarrow> node_result" where
  "execute_delay_node env run node nid vars db =
     res_bind (get_dict node ''config'') (\<lambda>config.
     res_bind (get_dict vars ''_delay_resume'') (\<lambda>state.
     let at = (if py_eq (pget state ''node_id'') (PStr nid) then pget state ''resume_at'' else PNone) in
     if truthy at
     then (case at of
        PStr s \<Rightarrow> res_bind (is_due env s) (\<lambda>due.
          Inr (if due
               then (db, ddel ''_delay_resume'' vars,
                     step_result ''succeeded'' [(''delayed'', PBool True), (''resume_at'', at)] None)
               else (db, vars, step_result ''paused'' [] (Some ''paused''))))
      | _ \<Rightarrow> Inl ''TypeError'')
     else res_bind (seconds_of config) (\<lambda>seconds.
       if seconds > 0
       then (let t = we_now env + seconds * 1000000; iso = rt_iso (we_rt env) (Aware t) in
             Inr (db\<lparr>wd_delays := wd_delays db @ [(wr_id run, nid, t)]\<rparr>,
                  dset ''_delay_resume''
                    (PDict [(''node_id'', PStr nid), (''resume_at'', PStr iso)]) vars,
                  step_result ''paused'' [(''resume_at'', PStr iso), (''seconds'', PInt seconds)]
                    (Some ''paused'')))
       else Inr (db, vars, step_result ''succeeded''
              [(''delayed'', PBool False), (''seconds'', PInt 0)] None))))"

section \<open>One step\<close>

definition execute_node ::
  "sub_runner \<Rightarrow> wf_env \<Rightarrow> (string \<times> pyval dict) list \<Rightarrow> pyval dict list \<Rightarrow> wf_run \<Rightarrow> pyval dict \<Rightarrow> string \<Rightarrow>
   vars \<Rightarrow> wf_db \<Rightarrow> node_result" where
  "execute_node sub env nodes edges run node nid vars db =
     (let t = sget node ''type''; pure = (\<lambda>r. res_bind r (\<lambda>(vars, out). Inr (db, vars, out))) in
      if t = ''approval'' then execute_approval_node env run node nid vars db
      else if t = ''human_input'' then pure (Inr (execute_human_input vars))
      else if t = ''condition'' then pure (execute_condition node vars)
      else if t = ''delay'' then execute_delay_node env run node nid vars db
      else if t = ''parallel'' then execute_parallel_node sub env run node nid nodes vars db
      else if t = ''router'' then pure (execute_router_node node nid edges vars)
      else if t = ''trigger'' then pure (execute_trigger node nid vars)
      else if t = ''tool'' then execute_tool_node env run node nid vars db
      else if t = ''skill''
      then pure (res_bind (execute_skill env node vars) (\<lambda>(vars, out). Inr (vars, out\<lparr>so_pause := None\<rparr>)))
      else if t = ''agent'' then execute_agent_node env run node nid nid None vars db
      else if t = ''subworkflow'' then execute_subworkflow_node sub env run node nid nid None vars db
      else Inr (db, vars, step_result ''succeeded''
        [(''node_type'', PStr t),
         (''message'', PStr (''Node type `'' @ t @ ''` recorded without dedicated executor''))] None))"

definition record_step :: "wf_run \<Rightarrow> pyval dict \<Rightarrow> string \<Rightarrow> step_out \<Rightarrow> wf_db \<Rightarrow> wf_db" where
  "record_step run node nid out db =
     db\<lparr>wd_steps := wd_steps db @
       [\<lparr>sr_run_id = wr_id run, sr_node_id = nid, sr_node_type = str_or (pget node ''type'') ''agent'',
         sr_status = so_status out, sr_output = so_output out\<rparr>]\<rparr>"

text \<open>The context of a run keeps its other keys.\<close>

definition save_context :: "pyval list \<Rightarrow> vars \<Rightarrow> wf_run \<Rightarrow> wf_run" where
  "save_context completed vars run =
     run\<lparr>wr_context := dset ''vars'' (PDict vars) (dset ''completed'' (PList completed) (wr_context run))\<rparr>"

definition pause_run :: "string \<Rightarrow> string \<Rightarrow> pyval list \<Rightarrow> vars \<Rightarrow> wf_run \<Rightarrow> wf_run" where
  "pause_run status cursor completed vars run =
     save_context completed vars (run\<lparr>wr_status := status, wr_current := Some cursor\<rparr>)"

definition completed_result :: "pyval list \<Rightarrow> vars \<Rightarrow> pyval dict" where
  "completed_result completed vars = [(''completed_nodes'', PList completed), (''vars'', PDict vars)]"

section \<open>The loop\<close>

definition settle :: "wf_run \<Rightarrow> wf_db \<Rightarrow> wf_db \<times> wf_run" where
  "settle run db = (put_run run (notify_if_terminal run db), run)"

definition complete_run :: "pyval list \<Rightarrow> vars \<Rightarrow> wf_run \<Rightarrow> wf_db \<Rightarrow> wf_db \<times> wf_run" where
  "complete_run completed vars run db = settle (save_context completed vars
     (run\<lparr>wr_status := ''completed'', wr_result := completed_result completed vars\<rparr>)) db"

definition fail_run :: "pyval dict \<Rightarrow> pyval list \<Rightarrow> vars \<Rightarrow> wf_run \<Rightarrow> wf_db \<Rightarrow> wf_db \<times> wf_run" where
  "fail_run result completed vars run db =
     settle (save_context completed vars (run\<lparr>wr_status := ''failed'', wr_result := result\<rparr>)) db"

text \<open>The end of the loop: no cursor is left, or the quota of steps is spent.\<close>

definition leave_loop :: "string option \<Rightarrow> pyval list \<Rightarrow> vars \<Rightarrow> wf_run \<Rightarrow> wf_db \<Rightarrow> wf_db \<times> wf_run" where
  "leave_loop cursor completed vars run db =
     (if wr_status run = ''running'' \<and> cursor = None then complete_run completed vars run db
      else settle (save_context completed vars run) db)"

fun advance_loop ::
  "sub_runner \<Rightarrow> wf_env \<Rightarrow> (string \<times> pyval dict) list \<Rightarrow> pyval dict list \<Rightarrow> nat \<Rightarrow> wf_run \<Rightarrow>
   string option \<Rightarrow> pyval list \<Rightarrow> vars \<Rightarrow> wf_db \<Rightarrow> (string, wf_db \<times> wf_run) result" where
  "advance_loop sub env nodes edges 0 run cursor completed vars db =
     Inr (leave_loop cursor completed vars run db)"
| "advance_loop sub env nodes edges (Suc k) run cursor completed vars db =
     (if \<not> truthy (opt_str cursor) then Inr (leave_loop cursor completed vars run db)
      else
        (let c = the cursor in
         case map_of nodes c of
           None \<Rightarrow> Inr (fail_run [(''error'', PStr (''missing node '' @ c))] completed vars run db)
         | Some node \<Rightarrow>
             res_bind (execute_node sub env nodes edges run node c vars db) (\<lambda>(db, vars, out).
             let db = record_step run node c out db in
             if truthy (opt_str (so_pause out))
             then Inr (let r = pause_run (the (so_pause out)) c completed vars run in (put_run r db, r))
             else if so_status out = ''failed''
             then Inr (fail_run (so_output out) completed vars run db)
             else
               (let completed = completed @ [PStr c]; (vars, next) = next_node c edges vars;
                    run = run\<lparr>wr_current := next\<rparr> in
                case next of
                  None \<Rightarrow> Inr (complete_run completed vars run db)
                | Some _ \<Rightarrow> advance_loop sub env nodes edges k run next completed vars db))))"

definition node_table :: "pyval list \<Rightarrow> (string \<times> pyval dict) list" where
  "node_table nodes = fold (\<lambda>n d. AList.update (node_id n) n d) (named_nodes nodes) []"

definition max_steps :: "pyval list \<Rightarrow> nat" where
  "max_steps nodes = max 1 (length (node_table nodes) * 3)"

definition advance_run ::
  "sub_runner \<Rightarrow> wf_env \<Rightarrow> wf_version \<Rightarrow> wf_run \<Rightarrow> wf_db \<Rightarrow> (string, wf_db \<times> wf_run) result" where
  "advance_run sub env version run db =
     res_bind (py_iter_or_empty (pget (wr_context run) ''completed'')) (\<lambda>completed.
     res_bind (get_dict (wr_context run) ''vars'') (\<lambda>vars.
       advance_loop sub env (node_table (wv_nodes version)) (dict_items (wv_edges version))
         (max_steps (wv_nodes version)) run (wr_current run) completed vars db))"

section \<open>Creating runs\<close>

definition checked_version :: "wf_version \<Rightarrow> (string, wf_version) result" where
  "checked_version v =
     res_bind (validate_graph (wv_nodes v) (wv_edges v) (wv_entry v)) (\<lambda>errors.
       guard_or (errors \<noteq> []) (''graph errors: '' @ py_join ''; '' errors) (Inr v))"

definition run_version ::
  "wf_env \<Rightarrow> wf_definition \<Rightarrow> bool \<Rightarrow> string option \<Rightarrow> string \<Rightarrow> (string, wf_version) result" where
  "run_version env d test_mode version_id environment =
     (if truthy (opt_str version_id)
      then (case get_version env (the version_id) of
          Some v \<Rightarrow> guard_or (wv_workflow_id v \<noteq> wdf_id d) ''workflow version not found'' (Inr v)
        | None \<Rightarrow> Inl ''workflow version not found'')
      else if test_mode
      then (case we_draft env d of Some v \<Rightarrow> Inr v | None \<Rightarrow> Inl ''workflow has no draft to test'')
      else we_environment env d environment)"

definition initial_context :: "pyval dict \<Rightarrow> bool \<Rightarrow> string \<Rightarrow> pyval dict" where
  "initial_context input test_mode environment =
     [(''input'', PDict input), (''completed'', PList []), (''vars'', PDict input)] @
     (if test_mode then [(''test_mode'', PBool True), (''simulate_external_writes'', PBool True)]
      else [(''environment'', PStr environment)])"

definition create_run_record ::
  "wf_env \<Rightarrow> string \<Rightarrow> string \<Rightarrow> string option \<Rightarrow> string option \<Rightarrow> pyval dict \<Rightarrow> bool \<Rightarrow> string option \<Rightarrow> string \<Rightarrow>
   wf_db \<Rightarrow> (string, wf_db \<times> wf_run \<times> wf_version) result" where
  "create_run_record env owner workflow_id project task input test_mode version_id environment db =
     res_bind (get_definition env owner workflow_id) (\<lambda>d.
     res_bind (run_version env d test_mode version_id environment) (\<lambda>v.
     res_bind (checked_version v) (\<lambda>v.
     case fresh_id env db of (i, db) \<Rightarrow>
       let run = \<lparr>wr_id = i, wr_workflow_id = wdf_id d, wr_version_id = wv_id v, wr_project_id = project,
                  wr_task_id = task, wr_status = ''running'', wr_current = wv_entry v,
                  wr_context = initial_context input test_mode environment, wr_result = [],
                  wr_created_by = Some owner\<rparr> in
       Inr (db\<lparr>wd_runs := wd_runs db @ [run]\<rparr>, run, v))))"

text \<open>
  A child workflow is created like a production run, whatever the mode of its parent, and advanced
  at once.
\<close>

fun advance :: "nat \<Rightarrow> wf_env \<Rightarrow> wf_version \<Rightarrow> wf_run \<Rightarrow> wf_db \<Rightarrow> (string, wf_db \<times> wf_run) result" where
  "advance 0 env version run db = Inl ''RecursionError''"
| "advance (Suc depth) env version run db =
     advance_run
       (\<lambda>parent workflow_id vars db.
          res_bind (create_run_record env (run_user parent) workflow_id (wr_project_id parent)
              (wr_task_id parent) vars False None ''prod'' db) (\<lambda>(db, child, v).
            advance depth env v child db))
       env version run db"

definition deliver_pending_external_approval :: "wf_run \<Rightarrow> wf_version \<Rightarrow> wf_db \<Rightarrow> (string, wf_db) result" where
  "deliver_pending_external_approval run version db =
     (if wr_status run \<noteq> ''waiting_approval'' \<or> \<not> truthy (opt_str (wr_current run)) then Inr db
      else
        (let node = find (\<lambda>n. py_eq (pget n ''id'') (opt_str (wr_current run))) (dict_items (wv_nodes version)) in
         res_bind (case node of None \<Rightarrow> Inr [] | Some n \<Rightarrow> get_dict n ''config'') (\<lambda>config.
         res_bind (get_dict (wr_context run) ''vars'') (\<lambda>vars.
         let channel = sget config ''approval_delivery_channel'';
             installation = sget config ''approval_connector_installation_id'';
             approval = sget vars ''pending_approval_request_id'' in
         Inr (if channel \<in> {''telegram'', ''slack'', ''teams''} \<and> installation \<noteq> [] \<and> approval \<noteq> []
              then db\<lparr>wd_deliveries := wd_deliveries db @ [(channel, approval, installation)]\<rparr>
              else db)))))"

text \<open>The entry points notify once more after the loop has.\<close>

definition start_run ::
  "nat \<Rightarrow> wf_env \<Rightarrow> string \<Rightarrow> string \<Rightarrow> string option \<Rightarrow> string option \<Rightarrow> pyval dict \<Rightarrow> string \<Rightarrow> wf_db \<Rightarrow>
   (string, wf_db \<times> wf_run) result" where
  "start_run depth env owner workflow_id project task input environment db =
     res_bind (create_run_record env owner workflow_id project task input False None environment db)
       (\<lambda>(db, run, v).
     res_bind (advance depth env v run db) (\<lambda>(db, run).
     res_bind (deliver_pending_external_approval run v (notify_if_terminal run db)) (\<lambda>db.
       Inr (db, run))))"

definition start_test_run ::
  "nat \<Rightarrow> wf_env \<Rightarrow> string \<Rightarrow> string \<Rightarrow> string option \<Rightarrow> string option \<Rightarrow> pyval dict \<Rightarrow> string option \<Rightarrow> wf_db \<Rightarrow>
   (string, wf_db \<times> wf_run) result" where
  "start_test_run depth env owner workflow_id project task input version_id db =
     res_bind (create_run_record env owner workflow_id project task input True version_id ''prod'' db)
       (\<lambda>(db, run, v).
     res_bind (advance depth env v run db) (\<lambda>(db, run).
     res_bind (deliver_pending_external_approval run v (notify_if_terminal run db)) (\<lambda>db.
       Inr (db, run))))"

end
