(* ===== verification/Workflow_Resume.thy ===== *)
theory Workflow_Resume
  imports Workflow_Runtime
begin

text \<open>
  Resuming a paused run and applying the rejection of its approval, and the consumption of an
  approval for a node, from \<open>workforce/services/workflow_runtime.py\<close>.
\<close>

section \<open>Consuming an approval\<close>

definition consumed :: "pyval dict \<Rightarrow> bool" where
  "consumed payload \<longleftrightarrow> truthy (pget payload ''_consumed_at'') \<or> truthy (pget payload ''consumed_at'')"

definition exact_tool_keys :: "string \<Rightarrow> string list" where
  "exact_tool_keys slug = [slug, ''tool:'' @ slug, ''execute:'' @ slug, ''tool_execution:'' @ slug]"

definition check_pending_tool ::
  "wf_env \<Rightarrow> approval_request \<Rightarrow> pyval dict \<Rightarrow> pyval dict \<Rightarrow> (string, unit) result" where
  "check_pending_tool env a payload pending =
     res_bind (get_dict pending ''params'') (\<lambda>params.
     let slug = sget pending ''tool_slug'';
         action = str_or (py_or (pget payload ''action_key'')
                    (py_or (pget payload ''action'') (PStr (aq_approval_type a)))) [];
         grant = sget payload ''arguments_hash'' in
     guard_or (action \<notin> set (exact_tool_keys slug) \<and> aq_approval_type a \<notin> set (exact_tool_keys slug))
       ''approval action_key does not match pending tool''
     (guard_or (grant = [] \<or> grant \<noteq> arguments_hash (rt_sha (we_rt env)) params)
       ''approval arguments_hash does not match pending tool params''
       (Inr ())))"

definition approver_of :: "approval_request \<Rightarrow> string option \<Rightarrow> pyval" where
  "approver_of a actor = py_or (opt_str (aq_approved_by a)) (opt_str actor)"

definition grant_vars :: "bool \<Rightarrow> approval_request \<Rightarrow> string option \<Rightarrow> string option \<Rightarrow> pyval dict \<Rightarrow> vars \<Rightarrow> vars" where
  "grant_vars pending_tool a nid actor pending vars =
     (if pending_tool
      then dset ''pending_tool'' (PDict (dset ''approved_by'' (approver_of a actor)
             (dset ''approval_consumed'' (PBool True)
               (dset ''approval_request_id'' (PStr (aq_id a)) pending)))) vars
      else dset ''approved_by'' (approver_of a actor) (dset ''approval_node_id'' (opt_str nid)
             (dset ''approval_request_id'' (PStr (aq_id a)) (dset ''approval_granted'' (PBool True) vars))))"

definition consume_approval_for_node ::
  "wf_env \<Rightarrow> wf_run \<Rightarrow> string \<Rightarrow> string option \<Rightarrow> string option \<Rightarrow> bool \<Rightarrow> vars \<Rightarrow> wf_db \<Rightarrow>
   (string, wf_db \<times> vars) result" where
  "consume_approval_for_node env run approval_id nid actor pending_tool vars db =
     (case find_approval db approval_id of
        None \<Rightarrow> Inl ''approval_request_id must reference an approved ApprovalRequest''
      | Some a \<Rightarrow>
          let payload = aq_payload a in
          guard_or (aq_status a \<noteq> ''approved'')
            ''approval_request_id must reference an approved ApprovalRequest''
          (guard_or (truthy (opt_str (aq_project_id a)) \<and> truthy (opt_str (wr_project_id run)) \<and>
                     aq_project_id a \<noteq> wr_project_id run)
            ''approval does not match workflow run project''
          (guard_or (consumed payload) ''approval_request already consumed''
          (guard_or (sget payload ''workflow_run_id'' \<noteq> wr_id run)
            ''approval workflow_run_id does not match workflow run''
          (guard_or (sget payload ''workflow_node_id'' \<noteq> str_or (opt_str nid) [])
            ''approval workflow_node_id does not match current node''
          (res_bind (if pending_tool then get_dict vars ''pending_tool'' else Inr []) (\<lambda>pending.
           res_bind (if pending_tool then check_pending_tool env a payload pending else Inr ()) (\<lambda>_.
           let now = PStr (rt_iso (we_rt env) (Aware (we_now env)));
               payload = dset ''consumed_workflow_node_id'' (opt_str nid)
                           (dset ''consumed_at'' now (dset ''_consumed_at'' now payload)) in
           Inr (put_approval (a\<lparr>aq_payload := payload\<rparr>) db,
                grant_vars pending_tool a nid actor pending vars)))))))))"

section \<open>Resuming\<close>

definition RESUMABLE :: "string list" where
  "RESUMABLE = [''paused'', ''waiting_approval'', ''waiting_input'']"

definition current_node :: "wf_run \<Rightarrow> wf_version \<Rightarrow> pyval dict option" where
  "current_node run version =
     (if truthy (opt_str (wr_current run))
      then find (\<lambda>n. py_eq (pget n ''id'') (opt_str (wr_current run))) (dict_items (wv_nodes version))
      else None)"

text \<open>What each kind of node wants before it goes on.\<close>

definition resume_input ::
  "wf_env \<Rightarrow> wf_run \<Rightarrow> string \<Rightarrow> string option \<Rightarrow> pyval \<Rightarrow> string option \<Rightarrow> bool \<Rightarrow> vars \<Rightarrow> wf_db \<Rightarrow>
   (string, wf_db \<times> vars) result" where
  "resume_input env run t approval_id human_input actor granted vars db =
     (if t = ''approval''
      then (if \<not> truthy (opt_str approval_id)
            then Inl ''approval_request_id required''
            else consume_approval_for_node env run (the approval_id) (wr_current run) actor False vars db)
      else if t = ''tool'' \<and> truthy (pget vars ''pending_tool'')
      then (if \<not> truthy (opt_str approval_id)
            then Inl ''approval_request_id required for pending tool execution''
            else consume_approval_for_node env run (the approval_id) (wr_current run) actor True vars db)
      else if t = ''human_input''
      then (case human_input of
          PDict h \<Rightarrow> if h = [] then Inl ''human_input payload required for human_input nodes''
                    else Inr (db, dset ''human_input_by'' (opt_str actor)
                                    (dset ''human_input'' human_input vars))
        | _ \<Rightarrow> Inl ''human_input payload required for human_input nodes'')
      else guard_or granted ''approval_granted is not accepted'' (Inr (db, vars)))"

definition resume_run ::
  "nat \<Rightarrow> wf_env \<Rightarrow> string \<Rightarrow> string \<Rightarrow> string option \<Rightarrow> pyval \<Rightarrow> string option \<Rightarrow> bool \<Rightarrow> wf_db \<Rightarrow>
   (string, wf_db \<times> wf_run) result" where
  "resume_run depth env owner run_id approval_id human_input actor granted db =
     (case find_run db run_id of
        None \<Rightarrow> Inl ''run not found''
      | Some run \<Rightarrow>
          res_bind (get_definition env owner (wr_workflow_id run)) (\<lambda>d.
          guard_or (wr_status run \<notin> set RESUMABLE)
            (''run not resumable from status='' @ wr_status run)
          (case get_version env (wr_version_id run) of
             None \<Rightarrow> Inl ''workflow version missing''
           | Some version \<Rightarrow>
               res_bind (get_dict (wr_context run) ''vars'') (\<lambda>vars.
               let t = (case current_node run version of None \<Rightarrow> [] | Some n \<Rightarrow> sget n ''type'') in
               res_bind (resume_input env run t approval_id human_input actor granted vars db) (\<lambda>(db, vars).
               let run = run\<lparr>wr_context := dset ''vars'' (PDict vars) (wr_context run),
                             wr_status := ''running''\<rparr> in
               res_bind (advance depth env version run db) (\<lambda>(db, run).
               res_bind (deliver_pending_external_approval run version (notify_if_terminal run db)) (\<lambda>db.
                 Inr (db, run))))))))"

section \<open>Rejections\<close>

definition rejection_reason :: "approval_request \<Rightarrow> string" where
  "rejection_reason a =
     str_or (py_or (opt_str (aq_reason a)) (py_or (pget (aq_payload a) ''rejection_reason'')
       (pget (aq_payload a) ''reason''))) ''Approval rejected''"

definition rejection_record :: "approval_request \<Rightarrow> string \<Rightarrow> wf_run \<Rightarrow> pyval" where
  "rejection_record a on_reject run =
     PDict [(''approval_request_id'', PStr (aq_id a)),
            (''rejected_by'', py_or (opt_str (aq_approved_by a)) (pget (aq_payload a) ''rejected_by'')),
            (''reason'', PStr (rejection_reason a)), (''on_reject'', PStr on_reject),
            (''node_id'', opt_str (wr_current run))]"

definition mark_rejected :: "wf_env \<Rightarrow> approval_request \<Rightarrow> wf_db \<Rightarrow> wf_db" where
  "mark_rejected env a db =
     (let payload = aq_payload a; now = PStr (rt_iso (we_rt env) (Aware (we_now env))) in
      if truthy (pget payload ''_rejected_at'') \<or> truthy (pget payload ''rejected_at'') then db
      else put_approval (a\<lparr>aq_payload := dset ''rejection_reason'' (PStr (rejection_reason a))
             (dset ''rejected_at'' now (dset ''_rejected_at'' now payload))\<rparr>) db)"

definition forget_approval :: "vars \<Rightarrow> vars" where
  "forget_approval vars = ddel ''approval_request_id'' (ddel ''approval_granted''
     (ddel ''pending_tool'' (ddel ''pending_approval_request_id'' vars)))"

definition with_rejection :: "pyval \<Rightarrow> wf_run \<Rightarrow> wf_run" where
  "with_rejection rejection run =
     run\<lparr>wr_result := dset ''approval_rejection'' rejection (wr_result run)\<rparr>"

text \<open>A node may fail the run, cancel it, ask for changes, or route to another node.\<close>

definition apply_rejection_mode ::
  "nat \<Rightarrow> wf_env \<Rightarrow> wf_version \<Rightarrow> pyval dict \<Rightarrow> string \<Rightarrow> pyval \<Rightarrow> string \<Rightarrow> vars \<Rightarrow> pyval list \<Rightarrow> wf_run \<Rightarrow>
   wf_db \<Rightarrow> (string, wf_db \<times> wf_run) result" where
  "apply_rejection_mode depth env version config on_reject rejection reason vars completed run db =
     (let target = sget2 config ''reject_route'' ''route_to'' in
      if on_reject = ''request_changes''
      then (let run = with_rejection rejection (pause_run ''waiting_input'' (str_or (opt_str (wr_current run)) [])
                        completed (dset ''request_changes'' rejection vars) run) in
            Inr (put_run run db, run))
      else if on_reject = ''route_to'' \<and> target \<noteq> []
      then
        (let done_node = opt_str (wr_current run);
             completed = (if truthy done_node \<and> \<not> (\<exists>c \<in> set completed. py_eq done_node c)
                          then completed @ [done_node] else completed);
             run = with_rejection rejection ((save_context completed vars run)
                     \<lparr>wr_current := Some target, wr_status := ''running''\<rparr>) in
         res_bind (advance depth env version run db) (\<lambda>(db, run). Inr (notify_if_terminal run db, run)))
      else
        (let run = save_context completed vars
                     (run\<lparr>wr_status := (if on_reject = ''cancel'' then ''cancelled'' else ''failed'')\<rparr>);
             run = run\<lparr>wr_result := dset ''approval_rejection'' rejection
                     (dset ''error'' (PStr reason) (wr_result run))\<rparr> in
         Inr (settle run db)))"

definition apply_approval_rejection ::
  "nat \<Rightarrow> wf_env \<Rightarrow> string \<Rightarrow> string \<Rightarrow> string \<Rightarrow> wf_db \<Rightarrow> (string, wf_db \<times> wf_run) result" where
  "apply_approval_rejection depth env owner run_id approval_id db =
     (case find_run db run_id of
        None \<Rightarrow> Inl ''run not found''
      | Some run \<Rightarrow>
          res_bind (get_definition env owner (wr_workflow_id run)) (\<lambda>d.
          guard_or (wr_status run \<noteq> ''waiting_approval'')
            (''run not waiting_approval (status='' @ wr_status run @ '')'')
          (case find_approval db approval_id of
             None \<Rightarrow> Inl ''approval_request_id must reference a rejected ApprovalRequest''
           | Some a \<Rightarrow>
               guard_or (py_lower (aq_status a) \<noteq> ''rejected'')
                 ''approval_request_id must reference a rejected ApprovalRequest''
               (case get_version env (wr_version_id run) of
                  None \<Rightarrow> Inl ''workflow version missing''
                | Some version \<Rightarrow>
                    res_bind (get_dict (wr_context run) ''vars'') (\<lambda>vars.
                    res_bind (case current_node run version of None \<Rightarrow> Inr [] | Some n \<Rightarrow> get_dict n ''config'')
                      (\<lambda>config.
                    res_bind (py_iter_or_empty (pget (wr_context run) ''completed'')) (\<lambda>completed.
                    let on_reject = normalize_policy (str_or (pget config ''on_reject'') ''fail'');
                        rejection = rejection_record a on_reject run;
                        vars = forget_approval (dset ''approval_rejection'' rejection vars) in
                    apply_rejection_mode depth env version config on_reject rejection (rejection_reason a)
                      vars completed run (mark_rejected env a db))))))))"

end
