(* ===== verification/Workflow_Invariants.thy ===== *)
theory Workflow_Invariants
  imports Workflow_Resume
begin

text \<open>
  What every run of a workflow keeps. The locale \<open>run_relation\<close> states when a relation between
  databases is respected by every change the handlers make; inside it the relation is shown for every
  node and for the whole run, nested runs included. Its instances give the properties.
\<close>

section \<open>Well-formed runs\<close>

definition RUN_STATUSES :: "string list" where
  "RUN_STATUSES = [''running'', ''completed'', ''failed'', ''cancelled''] @ RESUMABLE"

text \<open>A run that waits stands at a node, a completed one has left the graph.\<close>

definition run_wf :: "wf_run \<Rightarrow> bool" where
  "run_wf r \<longleftrightarrow> wr_status r \<in> set RUN_STATUSES \<and>
     (wr_status r \<in> set RESUMABLE \<longrightarrow> truthy (opt_str (wr_current r))) \<and>
     (wr_status r = ''completed'' \<longrightarrow> wr_current r = None)"

definition PAUSES :: "string list" where
  "PAUSES = ''failed'' # RESUMABLE"

definition pause_ok :: "string option \<Rightarrow> bool" where
  "pause_ok p \<longleftrightarrow> (case p of None \<Rightarrow> True | Some s \<Rightarrow> s \<in> set PAUSES)"

lemma pause_ok_simps [simp]:
  "pause_ok None" "pause_ok (Some ''failed'')" "pause_ok (Some ''paused'')"
  "pause_ok (Some ''waiting_approval'')" "pause_ok (Some ''waiting_input'')"
  by (simp_all add: pause_ok_def PAUSES_def RESUMABLE_def)

named_theorems pauses

lemma run_tool_pause [pauses]:
  "run_tool env run nid slug params ctx vars db = Inr (db', vars', out) \<Longrightarrow> pause_ok (so_pause out)"
  by (auto simp: run_tool_def simulated_step_def Let_def split: if_splits prod.splits)

lemma await_tool_pause:
  "await_tool_approval env run nid pending vars db = Inr (db', vars', out) \<Longrightarrow> pause_ok (so_pause out)"
  unfolding await_tool_approval_def simulated_step_def Let_def by (clarsimp split: if_split_asm)

lemma execute_tool_cases:
  assumes "execute_tool_node env run node nid vars db = Inr y"
  obtains (waits) pending where "await_tool_approval env run nid pending vars db = Inr y"
  | (runs) slug params ctx vars1 where "run_tool env run nid slug params ctx vars1 db = Inr y"
proof -
  obtain config where eq: "(case pending_for nid vars of
       Some pending \<Rightarrow>
         if \<not> truthy (pget pending ''approval_consumed'')
         then await_tool_approval env run nid pending vars db
         else res_bind (get_dict pending ''params'') (\<lambda>params.
              res_bind (get_dict pending ''context'') (\<lambda>ctx.
              run_tool env run nid (sget pending ''tool_slug'') params
                (dset ''approval_request_id'' (pget pending ''approval_request_id'')
                  (dset ''approval_granted'' (PBool True) ctx)) (drop_pending vars) db))
     | None \<Rightarrow>
          (case (if is_dict (pget config ''params'') \<and> truthy (pget config ''params'')
                 then resolve_mapping vars (pget config ''params'') else PDict vars) of
            PDict params \<Rightarrow>
              run_tool env run nid (sget2 config ''tool'' ''tool_slug'') params
                (run_context_for run nid params) vars db
          | _ \<Rightarrow> Inl ''AttributeError'')) = Inr y"
    using assms unfolding execute_tool_node_def Let_def res_bind_eq_Inr by (elim exE conjE)
  show ?thesis
  proof (cases "pending_for nid vars")
    case None
    then show ?thesis using eq by (simp only: option.case split: pyval.split_asm) (auto intro: that(2))
  next
    case (Some pending)
    then show ?thesis using eq that(1)
      by (simp only: option.case res_bind_eq_Inr split: if_split_asm) (auto intro: that(2))
  qed
qed

lemma execute_tool_pause [pauses]:
  assumes "execute_tool_node env run node nid vars db = Inr (db', vars', out)"
  shows "pause_ok (so_pause out)"
  using assms by (cases rule: execute_tool_cases) (auto dest: await_tool_pause run_tool_pause)

lemma execute_agent_cases:
  assumes "execute_agent_node env run node nid track branch vars db = Inr (db', vars', out)"
  obtains (started) config runs vars1 where
    "start_agent_task env run config nid track branch runs vars1 db = Inr (db', vars', out)"
  | (handoff) config where "db' = db" "out = step_result ''succeeded'' (agent_handoff run config) None"
  | (finished) t where "agent_task_finished env run nid track branch t vars db = (db', vars', out)"
  | (waits) t where "agent_task_waits env run track branch ''running'' t vars db = (db', vars', out)"
  using assms unfolding execute_agent_node_def Let_def
  by (simp split: if_split_asm option.split_asm) metis+

lemma agent_pause [pauses]:
  assumes "execute_agent_node env run node nid track branch vars db = Inr (db', vars', out)"
  shows "pause_ok (so_pause out)"
  using assms by (cases rule: execute_agent_cases)
    (auto simp: start_agent_task_def agent_task_finished_def agent_task_waits_def Let_def split: if_split_asm)

lemma child_step_pause [simp]: "pause_ok (so_pause (snd (snd (child_step env run track branch child vars db))))"
  unfolding child_step_def Let_def snd_conv by (simp only: if_distrib [of so_pause] step_out.simps) simp

lemma subworkflow_pause [pauses]:
  assumes "execute_subworkflow_node sub env run node nid track branch vars db = Inr (db', vars', out)"
  shows "pause_ok (so_pause out)"
proof -
  have "\<exists>child vars db0. child_step env run track branch child vars db0 = (db', vars', out) \<or>
      out = step_failed [(''error'', PStr ''subworkflow node missing config.workflow_id'')]"
    using assms unfolding execute_subworkflow_node_def Let_def
    by (simp split: if_split_asm option.split_asm) metis+
  then show ?thesis by (metis child_step_pause snd_conv pause_ok_simps(2) step_out.select_convs(3))
qed

lemma delay_pause [pauses]:
  "execute_delay_node env run node nid vars db = Inr (db', vars', out) \<Longrightarrow> pause_ok (so_pause out)"
  by (auto simp: execute_delay_node_def Let_def split: if_splits pyval.splits)

lemma approval_pause [pauses]:
  "execute_approval_node env run node nid vars db = Inr (db', vars', out) \<Longrightarrow> pause_ok (so_pause out)"
  by (auto simp: execute_approval_node_def approval_waits_def Let_def split: if_splits)

lemma finalize_pause:
  "finalize_parallel spec config nid children groups g branches vars = Inr (vars', out) \<Longrightarrow>
   pause_ok (so_pause out)"
  by (auto simp: finalize_parallel_def Let_def split: if_split_asm)

lemma parallel_pause [pauses]:
  assumes "execute_parallel_node sub env run node nid nodes vars db = Inr (db', vars', out)"
  shows "pause_ok (so_pause out)"
proof -
  obtain spec config children groups g branches where
    "finalize_parallel spec config nid children groups g branches vars = Inr (vars', out)"
    using assms unfolding execute_parallel_node_def Let_def
    by (clarsimp simp del: if_split)
  then show ?thesis by (rule finalize_pause)
qed

lemma pure_pauses [pauses]:
  "execute_human_input vars = (vars', out) \<Longrightarrow> pause_ok (so_pause out)"
  "execute_condition node vars = Inr (vars', out) \<Longrightarrow> pause_ok (so_pause out)"
  "execute_router_node node nid edges vars = Inr (vars', out) \<Longrightarrow> pause_ok (so_pause out)"
  "execute_trigger node nid vars = Inr (vars', out) \<Longrightarrow> pause_ok (so_pause out)"
     apply (auto simp: execute_human_input_def split: pyval.splits if_splits) [1]
    apply (auto simp: execute_condition_def) [1]
   apply (auto simp: execute_router_node_def Let_def) [1]
  apply (auto simp: execute_trigger_def Let_def) [1]
  done

lemma execute_node_pause:
  assumes "execute_node sub env nodes edges run node nid vars db = Inr (db', vars', out)"
  shows "pause_ok (so_pause out)"
  using assms by (auto simp: execute_node_def Let_def split: if_splits intro: pauses)

section \<open>Relations every change respects\<close>

text \<open>What holds of the value a computation returns, if it does not raise.\<close>

definition gives :: "('a \<Rightarrow> bool) \<Rightarrow> ('e, 'a) result \<Rightarrow> bool" where
  "gives Q r \<longleftrightarrow> (\<forall>x. r = Inr x \<longrightarrow> Q x)"

lemma gives_simps [simp]: "gives Q (Inl e)" "gives Q (Inr x) \<longleftrightarrow> Q x"
  by (auto simp: gives_def)

lemma gives_bind: "gives Q' r \<Longrightarrow> (\<And>x. r = Inr x \<Longrightarrow> Q' x \<Longrightarrow> gives Q (f x)) \<Longrightarrow> gives Q (res_bind r f)"
  by (cases r) (auto simp: gives_def)

lemma gives_bind_any: "(\<And>x. gives Q (f x)) \<Longrightarrow> gives Q (res_bind r f)"
  by (cases r) auto

lemma gives_if: "(b \<Longrightarrow> gives Q r) \<Longrightarrow> (\<not> b \<Longrightarrow> gives Q s) \<Longrightarrow> gives Q (if b then r else s)"
  by simp

lemma givesD: "gives Q r \<Longrightarrow> r = Inr x \<Longrightarrow> Q x"
  by (simp add: gives_def)

text \<open>Nested runs are started from subworkflow nodes only.\<close>

definition sub_ok ::
  "(wf_version \<Rightarrow> wf_run \<Rightarrow> wf_db \<Rightarrow> bool) \<Rightarrow> (wf_db \<Rightarrow> wf_db \<Rightarrow> bool) \<Rightarrow> wf_version \<Rightarrow> wf_run \<Rightarrow>
   sub_runner \<Rightarrow> bool" where
  "sub_ok P R v run sub \<longleftrightarrow>
     (\<forall>n \<in> set (named_nodes (wv_nodes v)). sget n ''type'' = ''subworkflow'' \<longrightarrow>
       (\<forall>w vars db db' c. P v run db \<longrightarrow> sub run w vars db = Inr (db', c) \<longrightarrow> R db db'))"

lemma node_table_named: "(c, n) \<in> set (node_table nodes) \<Longrightarrow> n \<in> set (named_nodes nodes)"
proof -
  have "(c, n) \<in> set (fold (\<lambda>n d. AList.update (node_id n) n d) ns acc) \<Longrightarrow>
      n \<in> set ns \<or> (c, n) \<in> set acc" for ns acc
  proof (induction ns arbitrary: acc)
    case (Cons m ns)
    have "(c, n) \<in> set (AList.update k x acc) \<Longrightarrow> n = x \<or> (c, n) \<in> set acc" for k x
      by (induction acc) (auto split: if_split_asm)
    then show ?case using Cons by fastforce
  qed simp
  then show "(c, n) \<in> set (node_table nodes) \<Longrightarrow> n \<in> set (named_nodes nodes)"
    unfolding node_table_def by fastforce
qed

lemma node_table_Some: "map_of (node_table nodes) c = Some n \<Longrightarrow> n \<in> set (named_nodes nodes)"
  by (auto dest: map_of_SomeD node_table_named)

text \<open>
  \<open>R\<close> relates the database before and after, \<open>P\<close> says which runs of which version it is meant for.
  The handlers of the nodes respect \<open>R\<close> when it allows what they do beside starting nested runs.
\<close>

locale handler_relation =
  fixes env :: wf_env
    and P :: "wf_version \<Rightarrow> wf_run \<Rightarrow> wf_db \<Rightarrow> bool"
    and R :: "wf_db \<Rightarrow> wf_db \<Rightarrow> bool"
  assumes refl [simp]: "R db db"
    and trans [trans]: "R a b \<Longrightarrow> R b c \<Longrightarrow> R a c"
    and keep: "P v run a \<Longrightarrow> R a b \<Longrightarrow> P v run b"
    and fresh: "R db (db\<lparr>wd_fresh := Suc (wd_fresh db)\<rparr>)"
    and children: "R db (db\<lparr>wd_children := cs\<rparr>)"
    and tasks: "R db (db\<lparr>wd_tasks := ts\<rparr>)"
    and delays: "R db (db\<lparr>wd_delays := ds\<rparr>)"
    and approvals: "P v run db \<Longrightarrow> aq_id asked = we_uuid env (wd_fresh db) \<Longrightarrow> aq_status asked = ''pending'' \<Longrightarrow>
      we_route env asked = Inr routed \<Longrightarrow> aq_id final = aq_id routed \<Longrightarrow> aq_status final = aq_status routed \<Longrightarrow>
      R db (put_approval final
        (db\<lparr>wd_fresh := Suc (wd_fresh db), wd_approvals := wd_approvals db @ [routed]\<rparr>))"
    and calls: "P v run db \<Longrightarrow> \<not> should_simulate_external_write run slug \<Longrightarrow>
      we_tool env u slug params ctx = (r, xs) \<Longrightarrow> R db (db\<lparr>wd_calls := wd_calls db @ xs\<rparr>)"
begin

lemma upsert: "R db (upsert_child_execution env i nid ct cr b s out db)"
  unfolding upsert_child_execution_def fresh_id_def Let_def
  using trans [OF fresh children] by (simp add: children)

lemma new_approval_rel:
  assumes "P v run db" "create_workflow_approval_request env run nid ty key h reason extra db = Inr (db', i)"
  shows "R db db'"
proof -
  obtain draft raw payload db1 a where
    made: "create_exact_effect_approval env run ty key raw reason payload db = Inr (db1, a)" and
    db': "db' = put_approval (if truthy (opt_str h) \<and> aq_effect_hash a \<noteq> h
           then a\<lparr>aq_payload := dset ''arguments_hash'' (opt_str h) (aq_payload a)\<rparr> else a) db1"
    using assms(2) unfolding create_workflow_approval_request_def Let_def by (clarsimp simp del: if_split)
  obtain asked where "we_route env asked = Inr a" "aq_id asked = we_uuid env (wd_fresh db)"
    "aq_status asked = ''pending''"
    and db1: "db1 = db\<lparr>wd_fresh := Suc (wd_fresh db), wd_approvals := wd_approvals db @ [a]\<rparr>"
    using made unfolding create_exact_effect_approval_def fresh_id_def Let_def prod.case
    by (clarsimp simp: with_draft_def new_approval_def apply_proposed_effect_to_approval_def Let_def
        simp del: if_split)
  then show ?thesis unfolding db' db1 by (intro approvals [OF assms(1)]) auto
qed

lemma tool_approval_rel:
  "P v run db \<Longrightarrow> request_tool_approval env run nid vars slug params risk db = Inr (db', i) \<Longrightarrow> R db db'"
  unfolding request_tool_approval_def by (rule new_approval_rel)

lemma run_tool_rel:
  assumes "P v run db" "run_tool env run nid slug params ctx vars db = Inr (db', vars', out)"
  shows "R db db'"
proof (cases "slug = [] \<or> should_simulate_external_write run slug")
  case True
  then show ?thesis using assms(2)
    by (auto simp: run_tool_def simulated_step_def Let_def split: if_split_asm)
next
  case False
  obtain r xs where t: "we_tool env (str_or (opt_str (wr_created_by run)) []) slug params ctx = (r, xs)"
    by (cases "we_tool env (str_or (opt_str (wr_created_by run)) []) slug params ctx")
  define db1 where "db1 = db\<lparr>wd_calls := wd_calls db @ xs\<rparr>"
  have one: "R db db1" using calls [OF assms(1) _ t] False by (simp add: db1_def)
  have "db' = db1 \<or> (\<exists>risk i. request_tool_approval env run nid vars (PStr slug) params risk db1 = Inr (db', i))"
    using assms(2) False t unfolding run_tool_def Let_def db1_def
    by (simp split: if_split_asm) metis+
  then show ?thesis using one trans [OF one tool_approval_rel [OF keep [OF assms(1) one]]] by auto
qed

lemma tool_rel:
  assumes "P v run db" "execute_tool_node env run node nid vars db = Inr (db', vars', out)"
  shows "R db db'"
  using assms(2)
proof (cases rule: execute_tool_cases)
  case (waits pending)
  then show ?thesis unfolding await_tool_approval_def simulated_step_def Let_def
    by (auto split: if_split_asm dest: tool_approval_rel [OF assms(1)])
next
  case runs
  then show ?thesis by (rule run_tool_rel [OF assms(1)])
qed

lemma agent_waits_rel: "R db (fst (agent_task_waits env run track branch dflt t vars db))"
  by (simp add: agent_task_waits_def upsert)

lemma agent_rel:
  assumes "execute_agent_node env run node nid track branch vars db = Inr (db', vars', out)"
  shows "R db db'"
  using assms
proof (cases rule: execute_agent_cases)
  case (started config runs vars1)
  then consider "db' = db" | t vars2 where
    "agent_task_waits env run track branch ''queued'' t vars2 (db\<lparr>wd_tasks := wd_tasks db @ [t]\<rparr>) = (db', vars', out)"
    unfolding start_agent_task_def Let_def by (auto split: if_split_asm)
  then show ?thesis using trans [OF tasks agent_waits_rel] by cases (auto, metis fst_conv)
next
  case (finished t)
  then show ?thesis by (auto simp: agent_task_finished_def upsert Let_def split: if_split_asm)
next
  case (waits t)
  then show ?thesis using agent_waits_rel by (metis fst_conv)
qed auto

lemma delay_rel:
  "execute_delay_node env run node nid vars db = Inr (db', vars', out) \<Longrightarrow> R db db'"
  unfolding execute_delay_node_def Let_def
  by (auto split: if_split_asm pyval.split_asm simp: delays)

lemma approval_rel:
  "P v run db \<Longrightarrow> execute_approval_node env run node nid vars db = Inr (db', vars', out) \<Longrightarrow> R db db'"
  unfolding execute_approval_node_def approval_waits_def Let_def
  by (auto split: if_split_asm dest: new_approval_rel)

lemma simple_rel:
  assumes "P v run db" "execute_simple_node env run node nid vars db = Inr (db', vars', out)"
  shows "R db db'"
  using assms(2) unfolding execute_simple_node_def Let_def
  by (auto split: if_split_asm dest: tool_rel [OF assms(1)])

lemma child_step_rel: "R db (fst (child_step env run track branch c vars db))"
  by (simp add: child_step_def Let_def upsert)

lemma subworkflow_rel:
  assumes "sub_ok P R v run sub" "P v run db" "node \<in> set (named_nodes (wv_nodes v))"
    and "sget node ''type'' = ''subworkflow''"
    and "execute_subworkflow_node sub env run node nid track branch vars db = Inr (db', vars', out)"
  shows "R db db'"
proof -
  consider "db' = db" | c vars1 where "child_step env run track branch c vars1 db = (db', vars', out)"
    | w vars1 db1 c vars2 where "sub run w vars1 db = Inr (db1, c)"
      "child_step env run track branch c vars2 db1 = (db', vars', out)"
    using assms(5) unfolding execute_subworkflow_node_def Let_def
    by (auto split: if_split_asm option.split_asm)
  then show ?thesis
  proof cases
    case (3 w vars1 db1 c vars2)
    then have "R db db1" using assms unfolding sub_ok_def by blast
    then show ?thesis using trans child_step_rel 3(2) by (metis fst_conv)
  next
    case (2 c vars1)
    then show ?thesis using child_step_rel by (metis fst_conv)
  qed simp
qed

lemma refresh_rel:
  assumes "refresh_parallel_branch_status env run track c entry n db = Inr (db', entry')"
  shows "R db db'"
proof -
  have 1: "R db (fst (refresh_agent_branch env run track c entry db))"
    by (simp add: refresh_agent_branch_def upsert Let_def split: option.split)
  have 2: "R db (fst (refresh_workflow_branch env run track c entry db))"
    by (simp add: refresh_workflow_branch_def upsert Let_def split: option.split)
  have 3: "R db db1" if "refresh_delay_branch env run track c entry db = Inr (db1, e)" for db1 e
    using that by (auto simp: refresh_delay_branch_def upsert Let_def split: if_split_asm)
  show ?thesis using assms 1 2 3 unfolding refresh_parallel_branch_status_def Let_def
    by (auto split: if_split_asm)
qed

lemma start_delay_rel:
  assumes "start_delay_branch env run track c n db = Inr (db', entry)"
  shows "R db db'"
  using assms unfolding start_delay_branch_def Let_def
  by (auto split: if_split_asm intro: upsert trans [OF upsert delays])

lemma start_async_rel:
  assumes "sub_ok P R v run sub" "P v run db" "n \<in> set (named_nodes (wv_nodes v))"
    and "start_parallel_async_branch sub env run track c n vars db = Inr (db', entry)"
  shows "R db db'"
  using assms(4) unfolding start_parallel_async_branch_def Let_def
  by (auto split: if_split_asm dest: agent_rel start_delay_rel subworkflow_rel [OF assms(1-3)])

lemma start_branch_rel:
  assumes "sub_ok P R v run sub" "P v run db" "n = map_of (node_table (wv_nodes v)) c"
    and "start_branch sub env run track c n entry vars db = Inr (db', entry')"
  shows "R db db'"
proof (cases n)
  case None
  then show ?thesis using assms(4) by (simp add: start_branch_def)
next
  case (Some m)
  then have m: "m \<in> set (named_nodes (wv_nodes v))" using assms(3) by (simp add: node_table_Some)
  show ?thesis using assms(4) Some unfolding start_branch_def Let_def
    by (auto split: if_split_asm dest: simple_rel [OF assms(2)] start_async_rel [OF assms(1,2) m])
qed

lemma run_branches_gives:
  assumes "sub_ok P R v run sub"
  shows "P v run db \<Longrightarrow> gives (\<lambda>x. R db (fst x))
    (run_branches sub env run track (node_table (wv_nodes v)) spec snapshot cs branches db)"
proof (induction cs arbitrary: branches db)
  case (Cons c cs)
  note P = Cons.prems
  have go: "gives (\<lambda>x. R db (fst x))
      (run_branches sub env run track (node_table (wv_nodes v)) spec snapshot cs bs db2)" if "R db db2" for bs db2
    using Cons.IH [OF keep [OF P that]] trans [OF that] unfolding gives_def by blast
  have start: "gives (\<lambda>x. R db (fst x))
      (start_branch sub env run track c (map_of (node_table (wv_nodes v)) c) entry snapshot db1)"
    if "R db db1" for db1 entry
    using start_branch_rel [OF assms keep [OF P that] HOL.refl] trans [OF that]
    unfolding gives_def by fastforce
  have refresh: "gives (\<lambda>x. R db (fst x)) (if b then refresh_parallel_branch_status env run track c entry n db
      else Inr (db, entry))" for b entry n
    by (cases b) (auto simp: gives_def dest: refresh_rel)
  show ?case
    unfolding run_branches.simps Let_def
    apply (rule gives_bind_any)
    apply (rule gives_bind [OF refresh])
    apply (simp only: split_beta)
    apply (rule gives_if)
     apply (rule gives_bind_any)
     apply (rule gives_if)
      apply simp
     apply (rule go, assumption)
    apply (rule gives_if)
     apply (rule go, assumption)
    apply (rule gives_bind [OF start], assumption)
    apply (simp only: split_beta)
    apply (intro gives_if gives_bind_any go)
       apply simp_all
    done
qed simp

lemma parallel_rel:
  assumes "sub_ok P R v run sub" "P v run db"
    and "execute_parallel_node sub env run node nid (node_table (wv_nodes v)) vars db = Inr (db', vars', out)"
  shows "R db db'"
proof -
  have "gives (\<lambda>x. R db (fst x))
      (execute_parallel_node sub env run node nid (node_table (wv_nodes v)) vars db)"
    unfolding execute_parallel_node_def Let_def
    apply (intro gives_bind_any)
    apply (simp only: split_beta)
    apply (intro gives_bind_any)
    apply (simp only: split_beta)
    apply (rule gives_bind_any)
    apply (rule gives_bind [where Q' = "\<lambda>x. R db (fst x)"])
     apply (simp add: run_branches_gives assms)
    apply (simp only: split_beta)
    apply (intro gives_bind_any)
    apply (simp add: split_beta)
    done
  then show ?thesis using assms(3) by (auto dest: givesD)
qed

lemma execute_node_rel:
  assumes "sub_ok P R v run sub" "P v run db" "map_of (node_table (wv_nodes v)) nid = Some node"
    and "execute_node sub env (node_table (wv_nodes v)) edges run node nid vars db = Inr (db', vars', out)"
  shows "R db db'"
  using assms(4) node_table_Some [OF assms(3)] unfolding execute_node_def Let_def
  by (auto split: if_split_asm
      dest: approval_rel [OF assms(2)] delay_rel parallel_rel [OF assms(1,2)] tool_rel [OF assms(2)] agent_rel
        subworkflow_rel [OF assms(1,2)])

end

text \<open>A whole run, its steps and its nested runs.\<close>

locale run_relation = handler_relation +
  assumes move: "P v run db \<Longrightarrow> P v (run\<lparr>wr_current := cursor\<rparr>) db"
    and running: "P v run db \<Longrightarrow> wr_status run = ''running''"
    and terminal: "R db (db\<lparr>wd_terminal := ns\<rparr>)"
    and step: "P v run db \<Longrightarrow> R db (record_step run node nid out db)"
    and put: "P v run db \<Longrightarrow> wr_id run' = wr_id run \<Longrightarrow> run_wf run' \<Longrightarrow> R db (put_run run' db)"
    and child: "P v run db \<Longrightarrow> n \<in> set (named_nodes (wv_nodes v)) \<Longrightarrow> sget n ''type'' = ''subworkflow'' \<Longrightarrow>
      create_run_record env u w p t input False None ''prod'' db = Inr (db1, run1, v1) \<Longrightarrow>
      R db db1 \<and> P v1 run1 db1"
begin

lemma settle_rel:
  assumes "P v run db" "wr_id r = wr_id run" "run_wf r"
  shows "R db (fst (settle r db))"
proof -
  have one: "R db (notify_if_terminal r db)" by (simp add: notify_if_terminal_def terminal)
  show ?thesis
    unfolding settle_def fst_conv by (rule trans [OF one put [OF keep [OF assms(1) one] assms(2,3)]])
qed

text \<open>The run a finished loop returns, related to the run it was started with.\<close>

abbreviation (input) loop_ok :: "wf_run \<Rightarrow> wf_db \<Rightarrow> wf_db \<times> wf_run \<Rightarrow> bool" where
  "loop_ok run db x \<equiv> R db (fst x) \<and> run_wf (snd x) \<and> wr_id (snd x) = wr_id run"

lemma settled:
  assumes "P v run db" "wr_id r = wr_id run" "run_wf r"
  shows "loop_ok run db (settle r db)"
  using assms settle_rel by (simp add: settle_def)

lemma complete_ok:
  assumes "P v run db" "wr_current r = None" "wr_id r = wr_id run"
  shows "loop_ok run db (complete_run completed vars r db)"
  unfolding complete_run_def using assms(2,3)
  by (intro settled [OF assms(1)])
    (simp_all add: run_wf_def RUN_STATUSES_def RESUMABLE_def save_context_def)

lemma fail_ok:
  assumes "P v run db" "wr_id r = wr_id run"
  shows "loop_ok run db (fail_run result completed vars r db)"
  unfolding fail_run_def using assms(2)
  by (intro settled [OF assms(1)])
    (simp_all add: run_wf_def RUN_STATUSES_def RESUMABLE_def save_context_def)

lemma leave_ok:
  assumes "P v run db" "wr_current run = cursor"
  shows "loop_ok run db (leave_loop cursor completed vars run db)"
proof -
  have "run_wf (save_context completed vars run)"
    using running [OF assms(1)] by (simp add: run_wf_def RUN_STATUSES_def RESUMABLE_def save_context_def)
  moreover have "wr_id (save_context completed vars run) = wr_id run" by (simp add: save_context_def)
  ultimately show ?thesis
    unfolding leave_loop_def using complete_ok [OF assms(1) _ HOL.refl] settled [OF assms(1)] assms(2)
    by simp
qed

lemma pause_ok_run:
  assumes "P v run db" "pause_ok (so_pause out)" "truthy (opt_str (so_pause out))" "c \<noteq> []"
  shows "loop_ok run db (let r = pause_run (the (so_pause out)) c completed vars run in (put_run r db, r))"
proof -
  obtain s where s: "so_pause out = Some s" "s \<in> set PAUSES" using assms(2,3) by (auto simp: pause_ok_def)
  let ?r = "pause_run s c completed vars run"
  have "run_wf ?r" using s(2) assms(4)
    by (auto simp: run_wf_def pause_run_def save_context_def PAUSES_def RUN_STATUSES_def RESUMABLE_def)
  moreover have "wr_id ?r = wr_id run" by (simp add: pause_run_def save_context_def)
  ultimately show ?thesis using put [OF assms(1)] s(1) by (simp add: Let_def)
qed

lemma later: "R db db1 \<Longrightarrow> gives (loop_ok run db1) r \<Longrightarrow> gives (loop_ok run db) r"
  unfolding gives_def by (blast intro: trans)

lemma loop_rel:
  assumes sub: "\<And>r. sub_ok P R v r sub"
  shows "P v run db \<Longrightarrow> wr_current run = cursor \<Longrightarrow> gives (loop_ok run db)
    (advance_loop sub env (node_table (wv_nodes v)) edges k run cursor completed vars db)"
proof (induction k arbitrary: run cursor completed vars db)
  case 0
  then show ?case unfolding advance_loop.simps gives_simps by (rule leave_ok)
next
  case (Suc k)
  note P = Suc.prems(1) and cursor = Suc.prems(2)
  show ?case
  proof (cases "truthy (opt_str cursor)")
    case False
    then show ?thesis using leave_ok [OF P cursor] by simp
  next
    case True
    then obtain c where c: "cursor = Some c" "c \<noteq> []" by auto
    show ?thesis
    proof (cases "map_of (node_table (wv_nodes v)) c")
      case None
      then show ?thesis using c fail_ok [OF P HOL.refl] by simp
    next
      case (Some node)
      have exec: "gives (\<lambda>x. R db (fst x) \<and> pause_ok (so_pause (snd (snd x))))
          (execute_node sub env (node_table (wv_nodes v)) edges run node c vars db)"
        using execute_node_rel [OF sub P Some] execute_node_pause unfolding gives_def by fastforce
      have after: "gives (loop_ok run db1)
         (if truthy (opt_str (so_pause out))
             then Inr (let r = pause_run (the (so_pause out)) c completed vars run in (put_run r db1, r))
             else if so_status out = ''failed''
             then Inr (fail_run (so_output out) completed vars run db1)
             else (case next_node c edges vars of (vars, next) \<Rightarrow>
                (case next of
                  None \<Rightarrow> Inr (complete_run (completed @ [PStr c]) vars (run\<lparr>wr_current := next\<rparr>) db1)
                | Some _ \<Rightarrow> advance_loop sub env (node_table (wv_nodes v)) edges k (run\<lparr>wr_current := next\<rparr>) next
                    (completed @ [PStr c]) vars db1)))"
        if db1: "P v run db1" and p: "pause_ok (so_pause out)" for db1 out vars
      proof -
        obtain vars2 nxt where n: "next_node c edges vars = (vars2, nxt)" by (cases "next_node c edges vars")
        have go: "gives (loop_ok run db1) (advance_loop sub env (node_table (wv_nodes v)) edges k
            (run\<lparr>wr_current := nxt\<rparr>) nxt (completed @ [PStr c]) vars2 db1)"
          using Suc.IH [OF move [OF db1], of nxt nxt] by simp
        have fin: "loop_ok run db1 (complete_run (completed @ [PStr c]) vars2 (run\<lparr>wr_current := nxt\<rparr>) db1)"
          if "nxt = None" by (rule complete_ok [OF db1]) (simp_all add: that)
        show ?thesis unfolding n prod.case
        proof (intro gives_if)
          show "gives (loop_ok run db1)
              (Inr (let r = pause_run (the (so_pause out)) c completed vars run in (put_run r db1, r)))"
            if "truthy (opt_str (so_pause out))"
            unfolding gives_simps by (rule pause_ok_run [OF db1 p that c(2)])
          show "gives (loop_ok run db1) (Inr (fail_run (so_output out) completed vars run db1))"
            unfolding gives_simps by (rule fail_ok [OF db1 HOL.refl])
          show "gives (loop_ok run db1) (case nxt of
              None \<Rightarrow> Inr (complete_run (completed @ [PStr c]) vars2 (run\<lparr>wr_current := nxt\<rparr>) db1)
            | Some _ \<Rightarrow> advance_loop sub env (node_table (wv_nodes v)) edges k (run\<lparr>wr_current := nxt\<rparr>) nxt
                (completed @ [PStr c]) vars2 db1)"
            using go fin by (cases nxt) (simp_all only: option.case gives_simps simp_thms)
        qed
      qed
      show ?thesis
        unfolding advance_loop.simps Let_def c(1) option.sel Some option.case
        apply (rule gives_if)
        subgoal using c(2) by simp
        apply (rule gives_bind [OF exec])
        subgoal for x
          apply (cases x)
          apply (simp only: prod.case fst_conv snd_conv)
          apply (rule later [OF _ after [unfolded Let_def]])
            apply (blast intro: trans step keep [OF P])
           apply (blast intro: trans step keep [OF P])
          apply blast
          done
        done
    qed
  qed
qed

lemma nested_ok:
  assumes "\<And>v run db. P v run db \<Longrightarrow> gives (loop_ok run db) (advance depth env v run db)"
  shows "sub_ok P R v r (\<lambda>parent workflow_id vars db.
      res_bind (create_run_record env (run_user parent) workflow_id (wr_project_id parent)
          (wr_task_id parent) vars False None ''prod'' db) (\<lambda>(db, child, v). advance depth env v child db))"
  unfolding sub_ok_def
proof (intro ballI impI allI)
  fix n w vars db db' c
  assume n: "n \<in> set (named_nodes (wv_nodes v))" "sget n ''type'' = ''subworkflow''" and P: "P v r db"
    and sub: "res_bind (create_run_record env (run_user r) w (wr_project_id r) (wr_task_id r) vars False None
      ''prod'' db) (\<lambda>(db, child, v). advance depth env v child db) = Inr (db', c)"
  obtain db1 c1 v1 where made: "create_run_record env (run_user r) w (wr_project_id r) (wr_task_id r) vars
      False None ''prod'' db = Inr (db1, c1, v1)" and go: "advance depth env v1 c1 db1 = Inr (db', c)"
    using sub by auto
  have "R db db1" "P v1 c1 db1" using child [OF P n made] by auto
  moreover have "R db1 db'" using givesD [OF assms [OF \<open>P v1 c1 db1\<close>] go] by simp
  ultimately show "R db db'" using trans by blast
qed

lemma advance_gives: "P v run db \<Longrightarrow> gives (loop_ok run db) (advance depth env v run db)"
proof (induction depth arbitrary: v run db)
  case (Suc depth)
  show ?case
    unfolding advance.simps advance_run_def
    by (intro gives_bind_any loop_rel [OF nested_ok [OF Suc.IH] Suc.prems HOL.refl])
qed simp

lemma advance_rel:
  assumes "P v run db" "advance depth env v run db = Inr (db', run')"
  shows "R db db'" "run_wf run'" "wr_id run' = wr_id run"
  using givesD [OF advance_gives [OF assms(1)] assms(2)] by auto

end

section \<open>Instances\<close>

lemmas db_changes = record_step_def put_run_def put_approval_def

definition runs_wf :: "wf_db \<Rightarrow> bool" where
  "runs_wf db \<longleftrightarrow> list_all run_wf (wd_runs db)"

lemma created_run:
  assumes "create_run_record env u w p t input mode vid e db = Inr (db', run, v)"
  shows "db' = db\<lparr>wd_fresh := Suc (wd_fresh db), wd_runs := wd_runs db @ [run]\<rparr> \<and>
    wr_id run = we_uuid env (wd_fresh db) \<and> wr_status run = ''running'' \<and>
    wr_context run = initial_context input mode e \<and> wr_current run = wv_entry v"
  using assms by (auto simp: create_run_record_def fresh_id_def Let_def)

lemma running_wf: "wr_status run = ''running'' \<Longrightarrow> run_wf run"
  by (simp add: run_wf_def RUN_STATUSES_def RESUMABLE_def)

lemma runs_wf_put: "runs_wf db \<Longrightarrow> run_wf run \<Longrightarrow> runs_wf (put_run run db)"
  by (auto simp: runs_wf_def put_run_def list_all_iff)

lemma runs_wf_created:
  assumes "create_run_record env u w p t input mode vid e db = Inr (db', run, v)" "runs_wf db"
  shows "runs_wf db'"
  using created_run [OF assms(1)] assms(2) by (simp add: runs_wf_def running_wf)

text \<open>Every stored run is well formed.\<close>

interpretation wf: run_relation env "\<lambda>v run db. wr_status run = ''running''"
  "\<lambda>db db'. runs_wf db \<longrightarrow> runs_wf db'" for env
proof
  show "wr_status run = ''running'' \<Longrightarrow> wr_id run' = wr_id run \<Longrightarrow> run_wf run' \<Longrightarrow>
      runs_wf db \<longrightarrow> runs_wf (put_run run' db)" for run run' db
    by (simp add: runs_wf_put)
  show "create_run_record env u w p t input False None ''prod'' db = Inr (db1, run1, v1) \<Longrightarrow>
      (runs_wf db \<longrightarrow> runs_wf db1) \<and> wr_status run1 = ''running''" for u w p t input db db1 run1 v1
    by (simp add: runs_wf_created created_run)
qed (auto simp: runs_wf_def record_step_def put_approval_def)

section \<open>Steps of one run\<close>

definition old_id :: "wf_env \<Rightarrow> string \<Rightarrow> wf_db \<Rightarrow> bool" where
  "old_id env i db \<longleftrightarrow> (\<forall>k \<ge> wd_fresh db. we_uuid env k \<noteq> i)"

definition steps_of :: "string \<Rightarrow> wf_db \<Rightarrow> nat" where
  "steps_of i db = length (filter (\<lambda>s. sr_run_id s = i) (wd_steps db))"

definition same_steps :: "wf_env \<Rightarrow> string \<Rightarrow> wf_db \<Rightarrow> wf_db \<Rightarrow> bool" where
  "same_steps env i db db' \<longleftrightarrow> (old_id env i db \<longrightarrow> old_id env i db' \<and> steps_of i db' = steps_of i db)"

lemma same_stepsI: "wd_fresh db \<le> wd_fresh db' \<Longrightarrow> wd_steps db' = wd_steps db \<Longrightarrow> same_steps env i db db'"
  by (auto simp: same_steps_def old_id_def steps_of_def)

text \<open>Neither a handler nor a nested run adds a step to a run that exists.\<close>

interpretation own: handler_relation env "\<lambda>v run db. old_id env i db" "same_steps env i" for env i
proof
  show "same_steps env i a b \<Longrightarrow> same_steps env i b c \<Longrightarrow> same_steps env i a c" for a b c
    by (simp add: same_steps_def)
  show "old_id env i a \<Longrightarrow> same_steps env i a b \<Longrightarrow> old_id env i b" for a b
    by (simp add: same_steps_def)
qed (auto intro!: same_stepsI simp: put_approval_def)

interpretation nested: run_relation env "\<lambda>v run db. wr_status run = ''running'' \<and> wr_id run \<noteq> i \<and> old_id env i db"
  "same_steps env i" for env i
proof
  show "same_steps env i a b \<Longrightarrow> same_steps env i b c \<Longrightarrow> same_steps env i a c" for a b c
    by (simp add: same_steps_def)
  show "wr_status run = ''running'' \<and> wr_id run \<noteq> i \<and> old_id env i a \<Longrightarrow> same_steps env i a b \<Longrightarrow>
      wr_status run = ''running'' \<and> wr_id run \<noteq> i \<and> old_id env i b" for run a b
    by (simp add: same_steps_def)
  show "wr_status run = ''running'' \<and> wr_id run \<noteq> i \<and> old_id env i db \<Longrightarrow>
      same_steps env i db (record_step run node nid out db)" for run db node nid out
    by (simp add: same_steps_def steps_of_def old_id_def record_step_def)
  show "wr_status run = ''running'' \<and> wr_id run \<noteq> i \<and> old_id env i db \<Longrightarrow>
      create_run_record env u w p t input False None ''prod'' db = Inr (db1, run1, v1) \<Longrightarrow>
      same_steps env i db db1 \<and> wr_status run1 = ''running'' \<and> wr_id run1 \<noteq> i \<and> old_id env i db1"
    for run db u w p t input db1 run1 v1
    by (drule created_run) (auto intro!: same_stepsI simp: old_id_def)
qed (auto intro!: same_stepsI simp: put_approval_def put_run_def)

section \<open>Calls of a test run\<close>

definition test_run_of :: "wf_version \<Rightarrow> wf_run \<Rightarrow> bool" where
  "test_run_of v run \<longleftrightarrow> wr_status run = ''running'' \<and>
     truthy (pget (wr_context run) ''test_mode'') \<and>
     truthy (pget (wr_context run) ''simulate_external_writes'') \<and>
     (\<forall>n \<in> set (named_nodes (wv_nodes v)). sget n ''type'' \<noteq> ''subworkflow'')"

text \<open>New calls come from executions of tools that do not mutate anything outside.\<close>

definition harmless_calls :: "wf_env \<Rightarrow> wf_db \<Rightarrow> wf_db \<Rightarrow> bool" where
  "harmless_calls env db db' \<longleftrightarrow> (\<exists>xs. wd_calls db' = wd_calls db @ xs \<and>
     (\<forall>x \<in> set xs. \<exists>u slug params ctx. \<not> is_external_mutating_tool slug \<and>
       x \<in> set (snd (we_tool env u slug params ctx))))"

lemma harmless_none: "wd_calls db' = wd_calls db \<Longrightarrow> harmless_calls env db db'"
  by (simp add: harmless_calls_def)

interpretation tests: run_relation env "\<lambda>v run db. test_run_of v run" "harmless_calls env" for env
proof
  show "harmless_calls env a b \<Longrightarrow> harmless_calls env b c \<Longrightarrow> harmless_calls env a c" for a b c
    unfolding harmless_calls_def by (metis Un_iff append_assoc set_append)
  show "test_run_of v run \<Longrightarrow> \<not> should_simulate_external_write run slug \<Longrightarrow>
      we_tool env u slug params ctx = (r, xs) \<Longrightarrow> harmless_calls env db (db\<lparr>wd_calls := wd_calls db @ xs\<rparr>)"
    for v run slug u params ctx r xs db
    by (simp add: harmless_calls_def test_run_of_def should_simulate_external_write_def) (metis snd_conv)
qed (auto intro!: harmless_none simp: test_run_of_def put_approval_def put_run_def record_step_def)

section \<open>Approvals while a run advances\<close>

text \<open>
  Documented behaviour of the surroundings: the routing of an approval writes its approvers and
  workspace only; fresh ids are not empty and never repeated; a printed time is not empty.
\<close>

definition sound_env :: "wf_env \<Rightarrow> bool" where
  "sound_env env \<longleftrightarrow> inj (we_uuid env) \<and> (\<forall>k. we_uuid env k \<noteq> []) \<and> (\<forall>t. rt_iso (we_rt env) t \<noteq> []) \<and>
     (\<forall>a b. we_route env a = Inr b \<longrightarrow> aq_id b = aq_id a \<and> aq_status b = aq_status a \<and>
       aq_project_id b = aq_project_id a \<and> aq_payload b = aq_payload a)"

definition fresh_approvals :: "wf_env \<Rightarrow> wf_db \<Rightarrow> bool" where
  "fresh_approvals env db \<longleftrightarrow> (\<forall>a \<in> set (wd_approvals db). old_id env (aq_id a) db)"

definition only_requests :: "wf_env \<Rightarrow> wf_db \<Rightarrow> wf_db \<Rightarrow> bool" where
  "only_requests env db db' \<longleftrightarrow> (fresh_approvals env db \<longrightarrow> fresh_approvals env db' \<and>
     (\<exists>new. wd_approvals db' = wd_approvals db @ new \<and> (\<forall>a \<in> set new. aq_status a = ''pending'')))"

lemma only_requests_none:
  "wd_fresh db \<le> wd_fresh db' \<Longrightarrow> wd_approvals db' = wd_approvals db \<Longrightarrow> only_requests env db db'"
  by (auto simp: only_requests_def fresh_approvals_def old_id_def)

lemma only_requests_new:
  assumes "sound_env env" "aq_id asked = we_uuid env (wd_fresh db)" "aq_status asked = ''pending''"
    and "we_route env asked = Inr routed" "aq_id final = aq_id routed" "aq_status final = aq_status routed"
  shows "only_requests env db (put_approval final
    (db\<lparr>wd_fresh := Suc (wd_fresh db), wd_approvals := wd_approvals db @ [routed]\<rparr>))"
proof (cases "fresh_approvals env db")
  case True
  have final: "aq_id final = we_uuid env (wd_fresh db)" "aq_id routed = aq_id final" "aq_status final = ''pending''"
    using assms by (auto simp: sound_env_def)
  have "aq_id a \<noteq> aq_id final" if "a \<in> set (wd_approvals db)" for a
    using True that unfolding final(1) fresh_approvals_def old_id_def by (metis order_refl)
  then have "map (\<lambda>b. if aq_id b = aq_id final then final else b) (wd_approvals db) = wd_approvals db"
    by (intro map_idI) auto
  then have "wd_approvals (put_approval final
      (db\<lparr>wd_fresh := Suc (wd_fresh db), wd_approvals := wd_approvals db @ [routed]\<rparr>)) = wd_approvals db @ [final]"
    by (simp add: put_approval_def final(2))
  moreover have "we_uuid env k \<noteq> aq_id final" if "Suc (wd_fresh db) \<le> k" for k
    using assms(1) that unfolding final(1) sound_env_def by (auto dest: injD)
  ultimately show ?thesis using True final(3)
    by (auto simp: only_requests_def fresh_approvals_def old_id_def put_approval_def)
qed (simp add: only_requests_def)

interpretation requests: run_relation env "\<lambda>v run db. wr_status run = ''running'' \<and> sound_env env"
  "only_requests env" for env
proof
  show "only_requests env a b \<Longrightarrow> only_requests env b c \<Longrightarrow> only_requests env a c" for a b c
    unfolding only_requests_def by (metis Un_iff append_assoc set_append)
  show "create_run_record env u w p t input False None ''prod'' db = Inr (db1, run1, v1) \<Longrightarrow>
      wr_status run = ''running'' \<and> sound_env env \<Longrightarrow>
      only_requests env db db1 \<and> wr_status run1 = ''running'' \<and> sound_env env"
    for run db u w p t input db1 run1 v1
    by (drule created_run) (auto intro: only_requests_none)
qed (auto intro: only_requests_none only_requests_new simp: put_run_def record_step_def)

end
