(* ===== verification/Workflow_Runtime_Properties.thy ===== *)
theory Workflow_Runtime_Properties
  imports Workflow_Invariants
begin

text \<open>
  The guarantees of the workflow runner: over any sequence of its entry points the stored runs are
  well formed; one advance takes a bounded number of steps; a test run makes no external write and an
  advance never decides an approval; an approval is consumed once, for the run, node and arguments it
  was given for. Then the behaviours of the code that break these contracts.
\<close>

section \<open>Entry points\<close>

inductive wf_call :: "wf_db \<Rightarrow> wf_db \<Rightarrow> bool" where
  start: "start_run depth env owner w project task input environment db = Inr (db', run) \<Longrightarrow> wf_call db db'"
| test: "start_test_run depth env owner w project task input vid db = Inr (db', run) \<Longrightarrow> wf_call db db'"
| resume: "resume_run depth env owner rid aid human actor granted db = Inr (db', run) \<Longrightarrow> wf_call db db'"
| reject: "apply_approval_rejection depth env owner rid aid db = Inr (db', run) \<Longrightarrow> wf_call db db'"
| others: "wf_call db (db\<lparr>wd_tasks := ts, wd_approvals := as\<rparr>)"

text \<open>The end of an entry point touches the outgoing notifications only.\<close>

definition same_tables :: "wf_db \<Rightarrow> wf_db \<Rightarrow> bool" where
  "same_tables db db' \<longleftrightarrow> wd_runs db' = wd_runs db \<and> wd_steps db' = wd_steps db \<and>
     wd_approvals db' = wd_approvals db \<and> wd_calls db' = wd_calls db \<and> wd_fresh db' = wd_fresh db"

lemma end_of_call:
  assumes "deliver_pending_external_approval run v (notify_if_terminal run db) = Inr db'"
  shows "same_tables db db'"
proof -
  have "same_tables db (notify_if_terminal run db)"
    by (simp add: same_tables_def notify_if_terminal_def)
  moreover have "same_tables d d'" if "deliver_pending_external_approval run v d = Inr d'" for d d'
    using that unfolding deliver_pending_external_approval_def Let_def
    by (auto simp: same_tables_def split: if_split_asm)
  ultimately show ?thesis using assms by (simp add: same_tables_def)
qed

lemma find_run_in: "find_run db i = Some r \<Longrightarrow> r \<in> set (wd_runs db) \<and> wr_id r = i"
  by (auto simp: find_run_def find_Some_iff)

lemma runs_wf_cong: "wd_runs db' = wd_runs db \<Longrightarrow> runs_wf db' = runs_wf db"
  by (simp add: runs_wf_def)

lemma resume_input_runs:
  "resume_input env run t aid human actor granted vars db = Inr (db', vars') \<Longrightarrow> wd_runs db' = wd_runs db"
  unfolding resume_input_def consume_approval_for_node_def Let_def
  by (auto simp: put_approval_def split: if_split_asm option.split_asm pyval.split_asm)

text \<open>A resume: the input is taken, the run advanced and the call ended.\<close>

lemma resume_runE:
  assumes "resume_run depth env owner rid aid human actor granted db = Inr (db', run')"
  obtains run v vars db1 vars1 db2 where
    "find_run db rid = Some run" "get_version env (wr_version_id run) = Some v"
    "wr_status run \<in> set RESUMABLE" "get_dict (wr_context run) ''vars'' = Inr vars"
    "resume_input env run (case current_node run v of None \<Rightarrow> [] | Some n \<Rightarrow> sget n ''type'')
       aid human actor granted vars db = Inr (db1, vars1)"
    "advance depth env v (run\<lparr>wr_context := dset ''vars'' (PDict vars1) (wr_context run),
       wr_status := ''running''\<rparr>) db1 = Inr (db2, run')"
    "same_tables db2 db'"
  using assms unfolding resume_run_def Let_def
  by (auto split: option.split_asm dest!: end_of_call)

lemma start_runE:
  assumes "start_run depth env owner w project task input e db = Inr (db', run')"
  obtains db1 run v db2 where
    "create_run_record env owner w project task input False None e db = Inr (db1, run, v)"
    "advance depth env v run db1 = Inr (db2, run')" "same_tables db2 db'"
  using assms unfolding start_run_def by (auto dest!: end_of_call)

lemma start_test_runE:
  assumes "start_test_run depth env owner w project task input vid db = Inr (db', run')"
  obtains db1 run v db2 where
    "create_run_record env owner w project task input True vid ''prod'' db = Inr (db1, run, v)"
    "advance depth env v run db1 = Inr (db2, run')" "same_tables db2 db'"
  using assms unfolding start_test_run_def by (auto dest!: end_of_call)

section \<open>Stored runs are well formed\<close>

lemma advance_runs_wf:
  assumes "advance depth env v run db = Inr (db', run')" "wr_status run = ''running''" "runs_wf db"
  shows "runs_wf db'"
  using wf.advance_rel(1) [OF assms(2,1)] assms(3) by simp

lemma same_runs_wf: "same_tables db db' \<Longrightarrow> runs_wf db \<Longrightarrow> runs_wf db'"
  by (simp add: same_tables_def runs_wf_def)

lemma start_runs_wf:
  "start_run depth env owner w project task input e db = Inr (db', run) \<Longrightarrow> runs_wf db \<Longrightarrow> runs_wf db'"
  by (elim start_runE) (metis advance_runs_wf same_runs_wf runs_wf_created created_run)

lemma test_runs_wf:
  "start_test_run depth env owner w project task input vid db = Inr (db', run) \<Longrightarrow> runs_wf db \<Longrightarrow> runs_wf db'"
  by (elim start_test_runE) (metis advance_runs_wf same_runs_wf runs_wf_created created_run)

lemma resume_runs_wf:
  assumes "resume_run depth env owner rid aid human actor granted db = Inr (db', run)" "runs_wf db"
  shows "runs_wf db'"
  using assms(1)
proof (rule resume_runE)
  fix r v vars db1 vars1 db2
  assume "resume_input env r (case current_node r v of None \<Rightarrow> [] | Some n \<Rightarrow> sget n ''type'')
      aid human actor granted vars db = Inr (db1, vars1)"
    and adv: "advance depth env v (r\<lparr>wr_context := dset ''vars'' (PDict vars1) (wr_context r),
      wr_status := ''running''\<rparr>) db1 = Inr (db2, run)" and "same_tables db2 db'"
  then show "runs_wf db'"
    using assms(2) advance_runs_wf [OF adv] same_runs_wf by (simp add: runs_wf_def resume_input_runs)
qed

lemma notify_runs_wf: "runs_wf (notify_if_terminal run db) = runs_wf db"
  by (simp add: notify_if_terminal_def runs_wf_def)

lemma rejection_mode_runs_wf:
  assumes "runs_wf db" "truthy (opt_str (wr_current run))"
    and "apply_rejection_mode depth env v config mode rejection reason vars completed run db = Inr (db', run')"
  shows "runs_wf db'"
proof -
  consider (changes) r where "db' = put_run r db" "run_wf r"
    | (route) r db2 where "wr_status r = ''running''" "advance depth env v r db = Inr (db2, run')"
        "db' = notify_if_terminal run' db2"
    | (over) r where "db' = put_run r (notify_if_terminal r db)" "run_wf r"
  proof (cases "mode = ''request_changes''")
    case True
    let ?r = "with_rejection rejection (pause_run ''waiting_input'' (str_or (opt_str (wr_current run)) [])
      completed (dset ''request_changes'' rejection vars) run)"
    have "run_wf ?r" using assms(2)
      by (auto simp: run_wf_def with_rejection_def pause_run_def save_context_def RUN_STATUSES_def
          RESUMABLE_def str_or_opt_str)
    then show ?thesis using that(1) assms(3) True by (auto simp: apply_rejection_mode_def Let_def)
  next
    case False
    show ?thesis
    proof (cases "mode = ''route_to'' \<and> sget2 config ''reject_route'' ''route_to'' \<noteq> []")
      case True
      let ?r = "\<lambda>completed. with_rejection rejection ((save_context completed vars run)
        \<lparr>wr_current := Some (sget2 config ''reject_route'' ''route_to''), wr_status := ''running''\<rparr>)"
      have "wr_status (?r c) = ''running''" for c by (simp add: with_rejection_def)
      moreover obtain c db2 where "advance depth env v (?r c) db = Inr (db2, run')"
        "db' = notify_if_terminal run' db2"
        using assms(3) True by (auto simp: apply_rejection_mode_def Let_def)
      ultimately show ?thesis using that(2) by blast
    next
      case nomode: False
      define r where "r = (save_context completed vars
          (run\<lparr>wr_status := (if mode = ''cancel'' then ''cancelled'' else ''failed'')\<rparr>))
        \<lparr>wr_result := dset ''approval_rejection'' rejection (dset ''error'' (PStr reason)
          (wr_result (save_context completed vars
          (run\<lparr>wr_status := (if mode = ''cancel'' then ''cancelled'' else ''failed'')\<rparr>))))\<rparr>"
      have "run_wf r" by (simp add: r_def run_wf_def save_context_def RUN_STATUSES_def RESUMABLE_def)
      moreover have "settle r db = (db', run')"
        using assms(3) False nomode unfolding apply_rejection_mode_def Let_def r_def by simp
      ultimately show ?thesis using that(3) by (auto simp: settle_def)
    qed
  qed
  then show ?thesis
    using assms(1) by cases (auto simp: notify_runs_wf runs_wf_put advance_runs_wf)
qed

lemma reject_runs_wf:
  assumes "apply_approval_rejection depth env owner rid aid db = Inr (db', run')" "runs_wf db"
  shows "runs_wf db'"
proof -
  obtain run a v vars config completed mode rejection where run: "find_run db rid = Some run"
    "wr_status run = ''waiting_approval''" and
    mode: "apply_rejection_mode depth env v config mode rejection (rejection_reason a) vars completed run
      (mark_rejected env a db) = Inr (db', run')"
    using assms(1) unfolding apply_approval_rejection_def Let_def
    by (auto split: option.split_asm)
  have db: "runs_wf (mark_rejected env a db)"
    using assms(2) by (simp add: mark_rejected_def put_approval_def runs_wf_def Let_def)
  have "run_wf run" using assms(2) find_run_in [OF run(1)] by (simp add: runs_wf_def list_all_iff)
  then have at: "truthy (opt_str (wr_current run))" using run(2) by (simp add: run_wf_def RESUMABLE_def)
  show ?thesis by (rule rejection_mode_runs_wf [OF db at mode])
qed

text \<open>
  C9. Over any sequence of starts, test runs, resumes and rejections, with other services changing
  tasks and approvals in between, every stored run keeps a known status; a run that waits stands at a
  node and a completed run has none.
\<close>

theorem stored_runs_well_formed:
  assumes "wf_call\<^sup>*\<^sup>* db db'" "\<forall>r \<in> set (wd_runs db). run_wf r"
  shows "\<forall>r \<in> set (wd_runs db'). run_wf r"
proof -
  have "runs_wf d'" if "wf_call d d'" "runs_wf d" for d d'
    using that by (cases rule: wf_call.cases)
      (use start_runs_wf test_runs_wf resume_runs_wf reject_runs_wf in \<open>auto simp: runs_wf_def\<close>)
  with assms(1) have "runs_wf db \<Longrightarrow> runs_wf db'" by (induction) auto
  then show ?thesis using assms(2) by (simp add: runs_wf_def list_all_iff)
qed

section \<open>The quota of steps\<close>

lemma execute_node_same_steps:
  assumes "sub_ok (\<lambda>v run db. old_id env i db) (same_steps env i) v run sub" "old_id env i db"
    and "map_of (node_table (wv_nodes v)) c = Some node"
    and "execute_node sub env (node_table (wv_nodes v)) edges run node c vars db = Inr (db', vars', out)"
  shows "old_id env i db' \<and> steps_of i db' = steps_of i db"
  using own.execute_node_rel [OF assms] assms(2) by (simp add: same_steps_def)

lemma steps_of_record:
  "steps_of (wr_id run) (record_step run node c out db) = Suc (steps_of (wr_id run) db)"
  "old_id env i (record_step run node c out db) = old_id env i db"
  by (simp_all add: steps_of_def record_step_def old_id_def)

lemma steps_of_ends [simp]:
  "steps_of i (put_run r db) = steps_of i db"
  "steps_of i (fst (settle r db)) = steps_of i db"
  "steps_of i (fst (fail_run res completed vars r db)) = steps_of i db"
  "steps_of i (fst (complete_run completed vars r db)) = steps_of i db"
  "steps_of i (fst (leave_loop cursor completed vars r db)) = steps_of i db"
  by (simp_all add: steps_of_def put_run_def settle_def notify_if_terminal_def fail_run_def
      complete_run_def leave_loop_def)

lemma loop_quota:
  assumes sub: "\<And>r. sub_ok (\<lambda>v run db. old_id env i db) (same_steps env i) v r sub"
  shows "wr_id run = i \<Longrightarrow> old_id env i db \<Longrightarrow>
    gives (\<lambda>x. steps_of i (fst x) \<le> steps_of i db + k)
      (advance_loop sub env (node_table (wv_nodes v)) edges k run cursor completed vars db)"
proof (induction k arbitrary: run cursor completed vars db)
  case (Suc k)
  show ?case
  proof (cases "truthy (opt_str cursor) \<and> map_of (node_table (wv_nodes v)) (the cursor) \<noteq> None")
    case False
    then show ?thesis by (auto split: option.split)
  next
    case True
    then obtain c node where c: "cursor = Some c" "c \<noteq> []" "map_of (node_table (wv_nodes v)) c = Some node"
      by auto
    have exec: "gives (\<lambda>x. old_id env i (fst x) \<and> steps_of i (fst x) = steps_of i db)
        (execute_node sub env (node_table (wv_nodes v)) edges run node c vars db)"
      using execute_node_same_steps [OF sub Suc.prems(2) c(3)] unfolding gives_def by fastforce
    have go: "gives (\<lambda>x. steps_of i (fst x) \<le> steps_of i db + Suc k)
        (advance_loop sub env (node_table (wv_nodes v)) edges k (run\<lparr>wr_current := nxt\<rparr>) nxt completed vars
          (record_step run node c out db1))"
      if "old_id env i db1" "steps_of i db1 = steps_of i db" for nxt completed vars out db1
    proof -
      have "steps_of i (record_step run node c out db1) = Suc (steps_of i db)"
        using steps_of_record(1) [of run] Suc.prems(1) that(2) by simp
      then show ?thesis
        using Suc.IH [of "run\<lparr>wr_current := nxt\<rparr>" "record_step run node c out db1"] Suc.prems(1) that(1)
        by (simp add: steps_of_record(2))
    qed
    have here: "steps_of i (record_step run node c out db1) \<le> Suc (steps_of i db + k)"
      if "steps_of i db1 = steps_of i db" for out db1
      using steps_of_record(1) [of run] Suc.prems(1) that by simp
    show ?thesis
      unfolding advance_loop.simps Let_def c(1,3) option.sel option.case
      apply (rule gives_if)
      subgoal using c(2) by simp
      apply (rule gives_bind [OF exec])
      subgoal for x
        apply (cases x)
        apply (simp only: prod.case fst_conv snd_conv)
        apply (intro gives_if)
          apply (simp add: here)
         apply (simp add: here)
        apply (simp only: split_beta split: option.split)
        apply (simp add: here go [simplified])
        done
      done
  qed
qed simp

lemma nested_same_steps:
  "sub_ok (\<lambda>v run db. old_id env i db) (same_steps env i) v r (\<lambda>parent workflow_id vars db.
     res_bind (create_run_record env (run_user parent) workflow_id (wr_project_id parent)
       (wr_task_id parent) vars False None ''prod'' db) (\<lambda>(db, child, v). advance depth env v child db))"
  unfolding sub_ok_def
proof (intro ballI impI allI)
  fix n w vars db db' c
  assume old: "old_id env i db" and
    sub: "res_bind (create_run_record env (run_user r) w (wr_project_id r) (wr_task_id r) vars False None
      ''prod'' db) (\<lambda>(db, child, v). advance depth env v child db) = Inr (db', c)"
  obtain db1 c1 v1 where made: "create_run_record env (run_user r) w (wr_project_id r) (wr_task_id r) vars
      False None ''prod'' db = Inr (db1, c1, v1)" and go: "advance depth env v1 c1 db1 = Inr (db', c)"
    using sub by auto
  note cr = created_run [OF made]
  have "wr_status c1 = ''running'' \<and> wr_id c1 \<noteq> i \<and> old_id env i db1" and eq: "steps_of i db1 = steps_of i db"
    using cr old by (auto simp: old_id_def steps_of_def)
  then have "same_steps env i db1 db'" and "old_id env i db1"
    using nested.advance_rel(1) [OF _ go] by auto
  then show "same_steps env i db db'" using eq by (simp add: same_steps_def)
qed


section \<open>Test runs and approvals\<close>


text \<open>
  Advancing never decides anything: starting a run leaves every stored approval as it is and
  only appends pending ones, whatever the workflow does.
\<close>

theorem start_only_requests:
  assumes "sound_env env" "fresh_approvals env db"
    and "start_run depth env owner w project task input e db = Inr (db', run)"
  shows "\<exists>new. wd_approvals db' = wd_approvals db @ new \<and> (\<forall>a \<in> set new. aq_status a = ''pending'')"
  using assms(3)
proof (rule start_runE)
  fix db1 run1 v db2
  assume made: "create_run_record env owner w project task input False None e db = Inr (db1, run1, v)"
    and adv: "advance depth env v run1 db1 = Inr (db2, run)" and same: "same_tables db2 db'"
  note cr = created_run [OF made]
  have "fresh_approvals env db1" using cr assms(2) by (simp add: fresh_approvals_def old_id_def)
  then show ?thesis
    using requests.advance_rel(1) [OF _ adv] assms(1) cr same by (simp add: only_requests_def same_tables_def)
qed

section \<open>Consuming an approval\<close>

lemma find_put_approval:
  assumes "find_approval db i = Some a"
  shows "find_approval (put_approval (a\<lparr>aq_payload := p\<rparr>) db) i = Some (a\<lparr>aq_payload := p\<rparr>)"
proof -
  have "find (\<lambda>b. aq_id b = i) (map (\<lambda>b. if aq_id b = aq_id a then a\<lparr>aq_payload := p\<rparr> else b) xs)
      = Some (a\<lparr>aq_payload := p\<rparr>)"
    if "find (\<lambda>b. aq_id b = i) xs = Some a" for xs
    using that by (induction xs) (auto split: if_split_asm)
  then show ?thesis using assms by (simp add: find_approval_def put_approval_def)
qed

lemma consumeE:
  assumes "consume_approval_for_node env run i nid actor pt vars db = Inr (db', vars')" "sound_env env"
  obtains a p where "find_approval db i = Some a" "aq_status a = ''approved''" "\<not> consumed (aq_payload a)"
    "sget (aq_payload a) ''workflow_run_id'' = wr_id run"
    "sget (aq_payload a) ''workflow_node_id'' = str_or (opt_str nid) []"
    "db' = put_approval (a\<lparr>aq_payload := p\<rparr>) db" "consumed p"
proof -
  have "consumed (dset k v (dset ''consumed_at'' (PStr (rt_iso (we_rt env) t)) d))"
    if "k = ''consumed_workflow_node_id''" for k v t d
    using assms(2) by (simp add: consumed_def sound_env_def that pget_dset)
  then show ?thesis using assms(1) that unfolding consume_approval_for_node_def Let_def
    by (auto split: option.split_asm)
qed

lemma find_append: "find Q xs = Some x \<Longrightarrow> find Q (xs @ ys) = Some x"
  by (induction xs) (auto split: if_split_asm)

text \<open>A run stands at a gate: at an approval node, or at a tool whose call waits for its approval.\<close>

definition at_gate :: "wf_run \<Rightarrow> wf_version \<Rightarrow> vars \<Rightarrow> bool" where
  "at_gate run v vars \<longleftrightarrow> (case current_node run v of None \<Rightarrow> False
     | Some n \<Rightarrow> sget n ''type'' = ''approval'' \<or> sget n ''type'' = ''tool'' \<and> truthy (pget vars ''pending_tool''))"

definition gate_state :: "wf_env \<Rightarrow> string \<Rightarrow> wf_db \<Rightarrow> wf_run \<Rightarrow> bool" where
  "gate_state env rid db run \<longleftrightarrow> find_run db rid = Some run \<and>
     (case (get_version env (wr_version_id run), get_dict (wr_context run) ''vars'') of
        (Some v, Inr vars) \<Rightarrow> at_gate run v vars | _ \<Rightarrow> False)"

definition approval_bound :: "wf_run \<Rightarrow> approval_request \<Rightarrow> bool" where
  "approval_bound run a \<longleftrightarrow> aq_status a = ''approved'' \<and> \<not> consumed (aq_payload a) \<and>
     sget (aq_payload a) ''workflow_run_id'' = wr_id run \<and>
     sget (aq_payload a) ''workflow_node_id'' = str_or (opt_str (wr_current run)) []"

lemma resume_gate_core:
  assumes "sound_env env" "fresh_approvals env db" "gate_state env rid db run"
    and "resume_run depth env owner rid aid human actor granted db = Inr (db', run')"
  shows "\<exists>i a. aid = Some i \<and> find_approval db i = Some a \<and> approval_bound run a \<and>
    (\<exists>a'. find_approval db' i = Some a' \<and> consumed (aq_payload a'))"
  using assms(4)
proof (rule resume_runE)
  fix r v vars db1 vars1 db2
  assume r: "find_run db rid = Some r" "get_version env (wr_version_id r) = Some v"
    "get_dict (wr_context r) ''vars'' = Inr vars"
    and inp: "resume_input env r (case current_node r v of None \<Rightarrow> [] | Some n \<Rightarrow> sget n ''type'')
      aid human actor granted vars db = Inr (db1, vars1)"
    and adv: "advance depth env v (r\<lparr>wr_context := dset ''vars'' (PDict vars1) (wr_context r),
      wr_status := ''running''\<rparr>) db1 = Inr (db2, run')" and same: "same_tables db2 db'"
  have rr: "r = run" and "at_gate run v vars" using assms(3) r by (auto simp: gate_state_def)
  then obtain i pt where i: "aid = Some i"
    and con: "consume_approval_for_node env run i (wr_current run) actor pt vars db = Inr (db1, vars1)"
    using inp unfolding resume_input_def at_gate_def
    by (auto split: option.split_asm if_split_asm)
  obtain a p where a: "find_approval db i = Some a" "approval_bound run a"
    and db1: "db1 = put_approval (a\<lparr>aq_payload := p\<rparr>) db" and p: "consumed p"
    using consumeE [OF con assms(1)] unfolding approval_bound_def by metis
  have found: "find_approval db1 i = Some (a\<lparr>aq_payload := p\<rparr>)"
    unfolding db1 by (rule find_put_approval [OF a(1)])
  have "aq_id ` set (wd_approvals db1) \<subseteq> aq_id ` set (wd_approvals db)" "wd_fresh db1 = wd_fresh db"
    using a(1) by (auto simp: db1 put_approval_def find_approval_def find_Some_iff)
  then have "fresh_approvals env db1" using assms(2) by (fastforce simp: fresh_approvals_def old_id_def)
  then obtain new where "wd_approvals db2 = wd_approvals db1 @ new"
    using requests.advance_rel(1) [OF _ adv] assms(1) by (auto simp: only_requests_def)
  then have "find_approval db' i = Some (a\<lparr>aq_payload := p\<rparr>)"
    using found same by (simp add: find_approval_def same_tables_def find_append)
  then show ?thesis using i a p by auto
qed

text \<open>
  C3. A run at a gate goes on only with a stored approval that is approved, not yet consumed and
  written for this run and this node; afterwards the approval is consumed.
\<close>

theorem resume_needs_bound_approval:
  assumes "sound_env env" "fresh_approvals env db" "gate_state env rid db run"
    and "resume_run depth env owner rid aid human actor granted db = Inr (db', run')"
  shows "\<exists>i a. aid = Some i \<and> find_approval db i = Some a \<and> approval_bound run a \<and>
    (\<exists>a'. find_approval db' i = Some a' \<and> consumed (aq_payload a'))"
  by (rule resume_gate_core [OF assms])


section \<open>The approval node\<close>

text \<open>The request an approval node makes.\<close>

lemma workflow_approval_shape:
  assumes "sound_env env" "fresh_approvals env db"
    and "create_workflow_approval_request env run nid ''workflow_approval'' ''workflow_approval'' None reason [] db =
      Inr (db', i)"
  obtains a where "wd_approvals db' = wd_approvals db @ [a]" "aq_id a = i" "i = we_uuid env (wd_fresh db)"
    "aq_status a = ''pending''" "aq_project_id a = wr_project_id run"
    "sget (aq_payload a) ''workflow_run_id'' = wr_id run" "sget (aq_payload a) ''workflow_node_id'' = nid"
    "\<not> consumed (aq_payload a)"
proof -
  define P0 where "P0 = [(''workflow_run_id'', PStr (wr_id run)), (''workflow_node_id'', PStr nid),
    (''owner_id'', opt_str (wr_created_by run))]"
  have P0: "dmerge P0 [] = P0" "dhas P0 ''owner_id''" "pget P0 ''draft_arguments'' = PNone"
    "pget P0 ''workflow_run_id'' = PStr (wr_id run)" "pget P0 ''workflow_node_id'' = PStr nid"
    "pget P0 ''_consumed_at'' = PNone" "pget P0 ''consumed_at'' = PNone"
    by (simp_all add: P0_def dmerge_def dhas_def pget_def)
  have none: "get_dict [] ''draft_arguments'' = Inr []" by (simp add: pget_def dict_or_raise_def)
  obtain e a where
    route: "we_route env (apply_proposed_effect_to_approval (we_rt env) (new_approval env (we_uuid env (wd_fresh db))
      (wr_project_id run) (wr_task_id run) (wr_created_by run) ''workflow_approval'' reason P0) e) = Inr a"
      (is "we_route env ?asked = _")
    and i: "i = aq_id a"
    and db': "db' = put_approval a (db\<lparr>wd_fresh := Suc (wd_fresh db), wd_approvals := wd_approvals db @ [a]\<rparr>)"
    using assms(3) unfolding create_workflow_approval_request_def create_exact_effect_approval_def
      fresh_id_def Let_def none P0_def [symmetric]
    by (auto simp: P0 with_draft_def)
  define asked where "asked = ?asked"
  have asked: "aq_id asked = we_uuid env (wd_fresh db)" "aq_status asked = ''pending''"
    "aq_project_id asked = wr_project_id run"
    "sget (aq_payload asked) ''workflow_run_id'' = wr_id run" "sget (aq_payload asked) ''workflow_node_id'' = nid"
    "\<not> consumed (aq_payload asked)"
    unfolding asked_def apply_proposed_effect_to_approval_def Let_def
    by (auto simp: new_approval_def P0 sget_def str_or_def consumed_def split: option.split)
  note route = route [folded asked_def]
  have a: "aq_id a = aq_id asked" "aq_status a = aq_status asked" "aq_project_id a = aq_project_id asked"
    "aq_payload a = aq_payload asked" using assms(1) route by (auto simp: sound_env_def)
  have "aq_id b \<noteq> aq_id a" if "b \<in> set (wd_approvals db)" for b
    using assms(2) that asked(1) a(1) unfolding fresh_approvals_def old_id_def by (metis order_refl)
  then have "wd_approvals db' = wd_approvals db @ [a]"
    unfolding db' put_approval_def by (auto intro: map_idI)
  then show ?thesis using that [of a] a asked i by auto
qed

lemma approval_node_asks:
  assumes "\<not> (truthy (pget vars ''approval_granted'') \<and> truthy (pget vars ''approval_request_id''))"
    and "\<not> truthy (pget vars ''pending_approval_request_id'')"
    and "execute_approval_node env run node nid vars db = Inr (db', vars', out)"
  obtains reason i where "create_workflow_approval_request env run nid ''workflow_approval'' ''workflow_approval''
      None reason [] db = Inr (db', i)"
    "vars' = dset ''pending_approval_request_id'' (PStr i) vars" "so_pause out = Some ''waiting_approval''"
  using assms unfolding execute_approval_node_def approval_waits_def Let_def
  by (auto split: if_split_asm)

lemma find_put_last:
  assumes "wd_approvals db = xs @ [a]" "\<forall>b \<in> set xs. aq_id b \<noteq> aq_id a" "aq_id b = aq_id a"
  shows "find_approval (put_approval b db) (aq_id a) = Some b"
proof -
  have "find (\<lambda>c. aq_id c = aq_id a) (map (\<lambda>c. if aq_id c = aq_id b then b else c) (ys @ [a])) = Some b"
    if "\<forall>b \<in> set ys. aq_id b \<noteq> aq_id a" for ys
    using that assms(3) by (induction ys) auto
  then show ?thesis using assms by (simp add: find_approval_def put_approval_def)
qed

definition opened_vars :: "string \<Rightarrow> string list \<Rightarrow> vars \<Rightarrow> vars" where
  "opened_vars i ids vars = ddel ''pending_approval_request_id'' (ddel ''approval_node_id''
     (ddel ''approval_request_id'' (ddel ''approval_granted''
       (dset ''_consumed_approval_ids'' (PList (map PStr ids @ [PStr i])) vars))))"

lemma opened_vars_target: "pget (opened_vars i ids vars) ''_router_target'' = pget vars ''_router_target''"
  by (simp add: opened_vars_def)

lemma granted_gate_opens:
  assumes "truthy (pget vars ''approval_granted'')" "pget vars ''approval_request_id'' = PStr i" "i \<noteq> []"
    and "py_iter_or_empty (pget vars ''_consumed_approval_ids'') = Inr (map PStr ids)" "i \<notin> set ids"
    and "pget vars ''approval_node_id'' = PNone \<or> pget vars ''approval_node_id'' = PStr nid"
  shows "execute_approval_node env run node nid vars db = Inr (db, opened_vars i ids vars,
    step_result ''succeeded'' [(''approved'', PBool True), (''approval_request_id'', PStr i)] None)"
proof -
  have "\<not> (\<exists>c \<in> set (map PStr ids). py_eq (PStr i) c)" using assms(5) by auto
  moreover have "\<not> (truthy (pget vars ''approval_node_id'') \<and> \<not> py_eq (pget vars ''approval_node_id'') (PStr nid))"
    using assms(6) by auto
  ultimately show ?thesis
    using assms(1-4) by (auto simp: execute_approval_node_def opened_vars_def Let_def)
qed

text \<open>
  C12. The round trip of a gate: an approval node without a grant appends one pending request for this
  run and node and makes the run wait; once that request is approved, consuming it succeeds and the
  node executes.
\<close>

theorem approved_gate_opens:
  assumes "sound_env env" "fresh_approvals env db"
    and "\<not> (truthy (pget vars ''approval_granted'') \<and> truthy (pget vars ''approval_request_id''))"
    and "\<not> truthy (pget vars ''pending_approval_request_id'')"
    and "py_iter_or_empty (pget vars ''_consumed_approval_ids'') = Inr (map PStr ids)"
    and "\<forall>i \<in> set ids. old_id env i db"
    and "execute_approval_node env run node nid vars db = Inr (db', vars', out)"
  shows "so_pause out = Some ''waiting_approval'' \<and>
    (\<exists>a. wd_approvals db' = wd_approvals db @ [a] \<and> aq_status a = ''pending'' \<and>
      pget vars' ''pending_approval_request_id'' = PStr (aq_id a) \<and>
      (\<forall>who actor. \<exists>db2 vars2 vars3 out3.
        consume_approval_for_node env run (aq_id a) (Some nid) actor False vars'
          (put_approval (a\<lparr>aq_status := ''approved'', aq_approved_by := who\<rparr>) db') = Inr (db2, vars2) \<and>
        execute_approval_node env run node nid vars2 db2 = Inr (db2, vars3, out3) \<and>
        so_status out3 = ''succeeded'' \<and> so_pause out3 = None))"
proof -
  obtain reason i where made: "create_workflow_approval_request env run nid ''workflow_approval'' ''workflow_approval''
      None reason [] db = Inr (db', i)" and vars': "vars' = dset ''pending_approval_request_id'' (PStr i) vars"
    and out: "so_pause out = Some ''waiting_approval''"
    using approval_node_asks [OF assms(3,4,7)] by blast
  obtain a where a: "wd_approvals db' = wd_approvals db @ [a]" "aq_id a = i" "i = we_uuid env (wd_fresh db)"
    "aq_status a = ''pending''" "aq_project_id a = wr_project_id run"
    "sget (aq_payload a) ''workflow_run_id'' = wr_id run" "sget (aq_payload a) ''workflow_node_id'' = nid"
    "\<not> consumed (aq_payload a)"
    using workflow_approval_shape [OF assms(1,2) made] by metis
  have i: "i \<noteq> []" "i \<notin> set ids" using assms(1,6) a(3) by (auto simp: sound_env_def old_id_def)
  have fresh: "\<forall>b \<in> set (wd_approvals db). aq_id b \<noteq> aq_id a"
    using assms(2) a(2,3) unfolding fresh_approvals_def old_id_def by (metis order_refl)
  have "\<exists>db2 vars2 vars3 out3.
      consume_approval_for_node env run (aq_id a) (Some nid) actor False vars'
        (put_approval (a\<lparr>aq_status := ''approved'', aq_approved_by := who\<rparr>) db') = Inr (db2, vars2) \<and>
      execute_approval_node env run node nid vars2 db2 = Inr (db2, vars3, out3) \<and>
      so_status out3 = ''succeeded'' \<and> so_pause out3 = None" for who actor
  proof -
    have found: "find_approval (put_approval (a\<lparr>aq_status := ''approved'', aq_approved_by := who\<rparr>) db') (aq_id a) =
        Some (a\<lparr>aq_status := ''approved'', aq_approved_by := who\<rparr>)"
      by (rule find_put_last [OF a(1) fresh]) simp
    let ?b = "a\<lparr>aq_status := ''approved'', aq_approved_by := who\<rparr>"
    obtain db2 where "consume_approval_for_node env run (aq_id a) (Some nid) actor False vars'
        (put_approval ?b db') = Inr (db2, grant_vars False ?b (Some nid) actor [] vars')"
      using found a(5-8) by (simp add: consume_approval_for_node_def Let_def str_or_opt_str)
    moreover have "execute_approval_node env run node nid (grant_vars False ?b (Some nid) actor [] vars') db2 =
        Inr (db2, opened_vars i ids (grant_vars False ?b (Some nid) actor [] vars'), step_result ''succeeded''
          [(''approved'', PBool True), (''approval_request_id'', PStr i)] None)" for db2
      by (rule granted_gate_opens) (use assms(5) i a(2) in \<open>simp_all add: grant_vars_def vars' opt_str_def\<close>)
    ultimately show ?thesis by fastforce
  qed
  then show ?thesis using out a(1,2,4) vars' by auto
qed

text \<open>
  The gate trusts the variables of the run, and these start as the caller's input: a workflow of
  one approval node completes at once, without any approval, when the input carries a grant.
\<close>

theorem gate_opened_by_input:
  assumes "get_definition env owner w = Inr d" "run_version env d False None e = Inr v" "checked_version v = Inr v"
    and "wv_entry v = Some c" "c \<noteq> []" "map_of (node_table (wv_nodes v)) c = Some node"
    and "sget node ''type'' = ''approval''" "outgoing (dict_items (wv_edges v)) c = []"
    and "truthy (pget input ''approval_granted'')" "pget input ''approval_request_id'' = PStr i" "i \<noteq> []"
    and "pget input ''_consumed_approval_ids'' = PNone" "pget input ''approval_node_id'' = PNone"
    and "pget input ''_router_target'' = PNone"
  shows "\<exists>db' run. start_run (Suc depth) env owner w project task input e db = Inr (db', run) \<and>
    wr_status run = ''completed'' \<and> wd_approvals db' = wd_approvals db"
proof -
  define run0 where "run0 = \<lparr>wr_id = we_uuid env (wd_fresh db), wr_workflow_id = wdf_id d, wr_version_id = wv_id v,
    wr_project_id = project, wr_task_id = task, wr_status = ''running'', wr_current = wv_entry v,
    wr_context = initial_context input False e, wr_result = [], wr_created_by = Some owner\<rparr>"
  define db1 where "db1 = db\<lparr>wd_fresh := Suc (wd_fresh db), wd_runs := wd_runs db @ [run0]\<rparr>"
  have made: "create_run_record env owner w project task input False None e db = Inr (db1, run0, v)"
    using assms(1-3) by (simp add: create_run_record_def fresh_id_def Let_def db1_def run0_def)
  have gate: "execute_approval_node env run0 node c input db1 = Inr (db1, opened_vars i [] input,
      step_result ''succeeded'' [(''approved'', PBool True), (''approval_request_id'', PStr i)] None)"
    by (rule granted_gate_opens) (use assms(9-13) in \<open>simp_all add: py_iter_or_empty_def\<close>)
  have next_c: "next_node c (dict_items (wv_edges v)) (opened_vars i [] input) =
      (ddel ''_router_target'' (opened_vars i [] input), None)"
    using assms(8,14) by (simp add: next_node_def opened_vars_target)
  have ctx: "pget (wr_context run0) ''completed'' = PList []" "get_dict (wr_context run0) ''vars'' = Inr input"
    by (simp_all add: run0_def initial_context_def pget_def dict_or_raise_def)
  obtain k where k: "max_steps (wv_nodes v) = Suc k" by (cases "max_steps (wv_nodes v)") (auto simp: max_steps_def)
  obtain sub where adv: "advance (Suc depth) env v run0 db1 = advance_run sub env v run0 db1" by simp
  have "advance (Suc depth) env v run0 db1 = Inr (complete_run [PStr c] (ddel ''_router_target'' (opened_vars i [] input))
      (run0\<lparr>wr_current := None\<rparr>) (record_step run0 node c (step_result ''succeeded''
        [(''approved'', PBool True), (''approval_request_id'', PStr i)] None) db1))"
    unfolding adv advance_run_def ctx k
    using assms(4-7) gate next_c
    by (simp add: py_iter_or_empty_def execute_node_def run0_def)
  then show ?thesis
    using made by (simp add: start_run_def complete_run_def settle_def deliver_pending_external_approval_def
      save_context_def put_run_def notify_if_terminal_def record_step_def db1_def)
qed

section \<open>An approved tool call\<close>

text \<open>
  C11. A waiting tool call that is resumed is the call that was approved: the stored approval carries
  the hash of its parameters and names its tool, and the node then executes exactly that tool with
  exactly these parameters, in a context that carries the approval.
\<close>

theorem approved_tool_runs_approved_arguments:
  assumes "consume_approval_for_node env run i (Some nid) actor True vars db = Inr (db1, vars1)"
    and "pending_for nid vars = Some p" "get_dict p ''context'' = Inr ctx" "get_dict node ''config'' = Inr config"
  shows "\<exists>a params. find_approval db i = Some a \<and> aq_status a = ''approved'' \<and> \<not> consumed (aq_payload a) \<and>
    get_dict p ''params'' = Inr params \<and>
    sget (aq_payload a) ''arguments_hash'' = arguments_hash (rt_sha (we_rt env)) params \<and>
    (\<exists>k \<in> set (exact_tool_keys (sget p ''tool_slug'')).
      k = aq_approval_type a \<or> k = str_or (py_or (pget (aq_payload a) ''action_key'')
        (py_or (pget (aq_payload a) ''action'') (PStr (aq_approval_type a)))) []) \<and>
    execute_tool_node env run node nid vars1 db1 =
      run_tool env run nid (sget p ''tool_slug'') params
        (dset ''approval_request_id'' (PStr i) (dset ''approval_granted'' (PBool True) ctx))
        (drop_pending vars1) db1"
proof -
  have p: "pget vars ''pending_tool'' = PDict p" "py_eq (pget p ''node_id'') (PStr nid)"
    using assms(2) by (auto simp: pending_for_def split: pyval.split_asm if_split_asm)
  then have pd: "p \<noteq> [] \<Longrightarrow> get_dict vars ''pending_tool'' = Inr p" by (simp add: dict_or_raise_def)
  have "p \<noteq> []" using p(2) by (auto simp: pget_def)
  note pd = pd [OF this]
  obtain a where a: "find_approval db i = Some a" "aq_status a = ''approved''" "\<not> consumed (aq_payload a)"
    and check: "check_pending_tool env a (aq_payload a) p = Inr ()"
    and vars1: "vars1 = grant_vars True a (Some nid) actor p vars"
    using assms(1) pd unfolding consume_approval_for_node_def Let_def by (auto split: option.split_asm)
  have i: "aq_id a = i" using a(1) by (auto simp: find_approval_def find_Some_iff)
  obtain params where params: "get_dict p ''params'' = Inr params"
    and hash: "sget (aq_payload a) ''arguments_hash'' = arguments_hash (rt_sha (we_rt env)) params"
    and key: "\<exists>k \<in> set (exact_tool_keys (sget p ''tool_slug'')).
      k = aq_approval_type a \<or> k = str_or (py_or (pget (aq_payload a) ''action_key'')
        (py_or (pget (aq_payload a) ''action'') (PStr (aq_approval_type a)))) []"
    using check unfolding check_pending_tool_def Let_def by (auto simp: guard_or_def split: if_split_asm)
  let ?p = "dset ''approved_by'' (approver_of a actor) (dset ''approval_consumed'' (PBool True)
    (dset ''approval_request_id'' (PStr i) p))"
  have "pending_for nid vars1 = Some ?p" using p(2) by (simp add: vars1 grant_vars_def pending_for_def i)
  then have "execute_tool_node env run node nid vars1 db1 =
      run_tool env run nid (sget p ''tool_slug'') params
        (dset ''approval_request_id'' (PStr i) (dset ''approval_granted'' (PBool True) ctx))
        (drop_pending vars1) db1"
    using assms(3,4) params by (simp add: execute_tool_node_def sget_def)
  then show ?thesis using a params hash key by blast
qed

section \<open>Joining branches\<close>

text \<open>Branches that have ended stay as they are; the others may end in any way.\<close>

definition branches_progress :: "string list \<Rightarrow> string list \<Rightarrow> bool" where
  "branches_progress = list_all2 (\<lambda>s t. s \<in> {''succeeded'', ''failed''} \<longrightarrow> t = s)"

lemma count_status_progress:
  "branches_progress xs ys \<Longrightarrow> s \<in> {''succeeded'', ''failed''} \<Longrightarrow> count_status s xs \<le> count_status s ys"
  unfolding branches_progress_def by (induction rule: list_all2_induct) (auto simp: count_status_def)

lemma count_status_total: "count_status ''succeeded'' xs + count_status ''failed'' xs \<le> int (length xs)"
  by (induction xs) (auto simp: count_status_def)

lemma join_policy_cases:
  obtains (any) "p = ''any_success''" | (best) "p = ''best_effort''" | (fast) "p = ''fail_fast''"
    | (counted) "(p = ''any_success'') = False" "(p = ''best_effort'') = False" "(p = ''fail_fast'') = False"
        "(p = ''n_of_m'' \<or> counted_policy p) = True"
    | (all) "(p = ''any_success'') = False" "(p = ''best_effort'') = False" "(p = ''fail_fast'') = False"
        "(p = ''n_of_m'' \<or> counted_policy p) = False"
  by blast

text \<open>A verdict given while branches are open stays when more of them end.\<close>

lemma join_verdict_early:
  assumes "s \<le> s'" "f \<le> f'" "s' + f' \<le> t" "t - s - f > 0"
    and "join_verdict p s f t n = Inr v" "v \<noteq> ''paused''"
  shows "join_verdict p s' f' t n = Inr v"
proof (cases p rule: join_policy_cases)
  case any
  then have "s > 0" "v = ''succeeded''" using assms(4-6) by (simp_all add: join_verdict_def Let_def split: if_split_asm)
  then show ?thesis using any assms(1) by (simp add: join_verdict_def Let_def)
next
  case best
  then have "s > 0" "v = ''succeeded''" using assms(4-6) by (simp_all add: join_verdict_def Let_def split: if_split_asm)
  then show ?thesis using best assms(1) by (simp add: join_verdict_def Let_def)
next
  case fast
  then have "f > 0" "v = ''failed''" using assms(4-6) by (simp_all add: join_verdict_def Let_def split: if_split_asm)
  then show ?thesis using fast assms(2) by (simp add: join_verdict_def Let_def)
next
  case counted
  have eq: "join_verdict p a b t n = res_bind (required_count p n t)
      (\<lambda>r. Inr (if a \<ge> r then ''succeeded'' else if a + (t - a - b) < r then ''failed'' else ''paused''))" for a b
    unfolding join_verdict_def Let_def counted if_True if_False ..
  obtain r where r: "required_count p n t = Inr r" using assms(5) unfolding eq by (cases "required_count p n t") auto
  show ?thesis using assms(1-3,5,6) unfolding eq r by (simp split: if_split_asm)
next
  case all
  have "v = ''paused''" using assms(4,5) unfolding join_verdict_def Let_def all if_False by simp
  then show ?thesis using assms(6) by simp
qed

text \<open>
  The verdict of a join is final: once a policy has decided success or failure, no further
  progress of the open branches changes it, so a group may end before all its branches have.
\<close>

theorem join_decision_final:
  assumes "branches_progress statuses statuses'" "evaluate_parallel_join policy statuses n = Inr verdict"
    and "verdict \<noteq> ''paused''"
  shows "evaluate_parallel_join policy statuses' n = Inr verdict"
proof -
  have len: "length statuses' = length statuses"
    using assms(1) by (simp add: branches_progress_def list_all2_lengthD)
  have le: "count_status ''succeeded'' statuses \<le> count_status ''succeeded'' statuses'"
    "count_status ''failed'' statuses \<le> count_status ''failed'' statuses'"
    using count_status_progress [OF assms(1)] by auto
  have total: "count_status ''succeeded'' statuses' + count_status ''failed'' statuses' \<le> int (length statuses)"
    using count_status_total [of statuses'] len by simp
  show ?thesis
  proof (cases "int (length statuses) - count_status ''succeeded'' statuses - count_status ''failed'' statuses > 0")
    case True
    then show ?thesis
      using join_verdict_early [OF le total] assms(2,3) unfolding evaluate_parallel_join_def len by blast
  next
    case False
    then have "count_status ''succeeded'' statuses' = count_status ''succeeded'' statuses"
      "count_status ''failed'' statuses' = count_status ''failed'' statuses" using le total by linarith+
    then show ?thesis using assms(2) unfolding evaluate_parallel_join_def len by simp
  qed
qed

section \<open>A failing branch\<close>

text \<open>
  A branch of a parallel group that runs a tool or a skill and fails, or waits for an approval,
  is recorded as paused, and no refresh ever changes it: a group that needs all branches waits
  forever, and one that fails fast does not see the failure.
\<close>

theorem failed_branch_hangs:
  assumes "sget n ''type'' \<in> {''tool'', ''skill'', ''trigger'', ''condition''}"
    and "execute_simple_node env run n child vars db = Inr (db1, vars1, out)"
    and "truthy (opt_str (so_pause out))"
  shows "\<exists>entry. start_branch sub env run track child (Some n)
      [(''status'', PStr ''pending''), (''output'', PDict [])] vars db = Inr (db1, entry) \<and>
    sget entry ''status'' = ''paused'' \<and>
    (\<forall>env2 run2 node2 db2.
      refresh_parallel_branch_status env2 run2 track child entry node2 db2 = Inr (db2, entry)) \<and>
    (\<forall>others k policy. normalize_join_policy policy \<in> {''all_success'', ''fail_fast''} \<longrightarrow>
      ''failed'' \<notin> set others \<longrightarrow>
      evaluate_parallel_join policy (sget entry ''status'' # others) k = Inr ''paused'')"
proof -
  define t where "t = sget n ''type''"
  define entry where "entry = [(''status'', PStr ''paused''), (''output'', PDict (so_output out)), (''child_type'', PStr t)]"
  have simple: "t \<in> set SIMPLE_PARALLEL_TYPES" using assms(1) by (auto simp: t_def SIMPLE_PARALLEL_TYPES_def)
  have start: "start_branch sub env run track child (Some n)
      [(''status'', PStr ''pending''), (''output'', PDict [])] vars db = Inr (db1, entry)"
    using assms(2,3) simple
    by (simp add: start_branch_def t_def [symmetric] entry_def set_branch_def branch_status_def)
  have vals: "pget entry ''status'' = PStr ''paused''" "pget entry ''child_type'' = PStr t" "pget entry ''delay'' = PNone"
    by (simp_all add: entry_def pget_def)
  have lower: "py_lower t \<in> {''tool'', ''skill'', ''trigger'', ''condition''}" "t \<noteq> []"
    using assms(1) by (auto simp: t_def [symmetric] py_lower_def lower_char_def)
  have other: "(py_lower t \<in> {''agent'', ''task_run''}) = False" "(py_lower t \<in> {''subworkflow'', ''workflow_run''}) = False"
    "(py_lower t = ''delay'') = False" using lower(1) by auto
  have kind: "str_or (py_or (pget entry ''child_type'') x) [] = t" for x
    using lower(2) by (simp add: vals py_or_def str_or_def)
  have "refresh_parallel_branch_status env2 run2 track child entry node2 db2 = Inr (db2, entry)" for env2 run2 node2 db2
    unfolding refresh_parallel_branch_status_def Let_def kind other by (simp add: vals str_or_def)
  moreover have status: "sget entry ''status'' = ''paused''" by (simp add: sget_def vals str_or_def)
  moreover have "evaluate_parallel_join policy (''paused'' # others) k = Inr ''paused''"
    if "normalize_join_policy policy \<in> {''all_success'', ''fail_fast''}" "''failed'' \<notin> set others" for others k policy
  proof -
    have f: "count_status ''failed'' (''paused'' # others) = 0"
      using that(2) by (auto simp: count_status_def filter_empty_conv)
    have s: "count_status ''succeeded'' (''paused'' # others) \<le> int (length others)"
      using length_filter_le [of _ others] by (simp add: count_status_def)
    have "\<not> counted_policy ''all_success''" by code_simp
    then have "evaluate_parallel_join policy (''paused'' # others) k = Inr ''paused''"
      if "normalize_join_policy policy = ''all_success''"
      unfolding evaluate_parallel_join_def join_verdict_def Let_def that using f s by simp
    moreover have "evaluate_parallel_join policy (''paused'' # others) k = Inr ''paused''"
      if "normalize_join_policy policy = ''fail_fast''"
      unfolding evaluate_parallel_join_def join_verdict_def Let_def that using f s by simp
    ultimately show ?thesis using that(1) by blast
  qed
  ultimately show ?thesis using start by (metis status)
qed

end
