(* ===== verification/Workflow_Examples.thy ===== *)
theory Workflow_Examples
  imports Workflow_Runtime_Properties
begin

text \<open>
  Concrete workflows: the runs that show that the hypotheses of the runner's properties can hold, and
  the test run that writes.
\<close>

section \<open>Concrete workflows\<close>

definition node_of :: "string \<Rightarrow> string \<Rightarrow> pyval dict \<Rightarrow> pyval" where
  "node_of i t config = PDict [(''id'', PStr i), (''type'', PStr t), (''config'', PDict config)]"

definition one_node :: "string \<Rightarrow> string \<Rightarrow> string \<Rightarrow> pyval dict \<Rightarrow> wf_version" where
  "one_node vid w t config =
     \<lparr>wv_id = vid, wv_workflow_id = w, wv_nodes = [node_of ''n'' t config], wv_edges = [], wv_entry = Some ''n''\<rparr>"

text \<open>A workflow \<open>w\<close> and a workflow \<open>c\<close>; every tool call succeeds with one call to the provider.\<close>

definition demo_env :: "wf_version \<Rightarrow> wf_version \<Rightarrow> wf_env" where
  "demo_env main child =
     \<lparr>we_rt = \<lparr>rt_sha = (\<lambda>s. ''h'' @ s), rt_iso = (\<lambda>t. ''t''), rt_from_iso = (\<lambda>s. None)\<rparr>,
      we_now = 0, we_uuid = (\<lambda>k. replicate (Suc k) CHR ''x''),
      we_tool = (\<lambda>u slug params ctx. ([(''status'', PStr ''succeeded'')], [(slug, u)])),
      we_start_task = (\<lambda>db req. Inl ''unavailable''), we_route = Inr,
      we_environment = (\<lambda>d e. Inr (if wdf_id d = ''w'' then main else child)),
      we_draft = (\<lambda>d. Some main), we_versions = [main, child],
      we_definitions = [\<lparr>wdf_id = ''w'', wdf_owner_id = ''u'', wdf_is_template = False\<rparr>,
        \<lparr>wdf_id = ''c'', wdf_owner_id = ''u'', wdf_is_template = False\<rparr>],
      we_skills = [], we_skill_versions = [], we_user_exists = (\<lambda>u. True)\<rparr>"

definition empty_db :: wf_db where
  "empty_db = \<lparr>wd_runs = [], wd_steps = [], wd_children = [], wd_approvals = [], wd_tasks = [], wd_fresh = 0,
     wd_calls = [], wd_delays = [], wd_terminal = [], wd_deliveries = []\<rparr>"

definition leak_env :: wf_env where
  "leak_env = demo_env (one_node ''v1'' ''w'' ''subworkflow'' [(''workflow_id'', PStr ''c'')])
     (one_node ''v2'' ''c'' ''tool'' [(''tool'', PStr ''slack.post_message'')])"

lemma leak: "(case start_test_run 5 leak_env ''u'' ''w'' None None [] None empty_db of
    Inl _ \<Rightarrow> False | Inr (db, run) \<Rightarrow> wr_status run = ''completed'' \<and>
      wd_calls db = [(''slack.post_message'', ''u'')] \<and> is_external_mutating_tool ''slack.post_message'')"
  by code_simp

text \<open>
  The simulation of a test run does not reach its subworkflows: a test run whose only node starts
  a workflow that posts to Slack performs the post.
\<close>

theorem test_run_writes_in_subworkflow:
  "\<exists>db run. start_test_run 5 leak_env ''u'' ''w'' None None [] None empty_db = Inr (db, run) \<and>
    wr_status run = ''completed'' \<and> wd_calls db = [(''slack.post_message'', ''u'')] \<and>
    is_external_mutating_tool ''slack.post_message''"
  using leak by (cases "start_test_run 5 leak_env ''u'' ''w'' None None [] None empty_db") auto

text \<open>A workflow of one approval node, started.\<close>

definition gate_env :: wf_env where
  "gate_env = demo_env (one_node ''v1'' ''w'' ''approval'' []) (one_node ''v2'' ''c'' ''trigger'' [])"

definition gate_start :: "wf_db \<times> wf_run" where
  "gate_start = projr (start_run 2 gate_env ''u'' ''w'' None None [] ''prod'' empty_db)"

lemma gate_started: "start_run 2 gate_env ''u'' ''w'' None None [] ''prod'' empty_db = Inr gate_start"
proof -
  have "\<not> isl (start_run 2 gate_env ''u'' ''w'' None None [] ''prod'' empty_db)" by code_simp
  then show ?thesis by (cases "start_run 2 gate_env ''u'' ''w'' None None [] ''prod'' empty_db")
      (simp_all add: gate_start_def)
qed

lemma gate_started_facts:
  "wr_status (snd gate_start) = ''waiting_approval'' \<and> map aq_id (wd_approvals (fst gate_start)) = [''xx''] \<and>
   wd_fresh (fst gate_start) = 2 \<and> map wr_id (wd_runs (fst gate_start)) = [''x''] \<and>
   map aq_status (wd_approvals (fst gate_start)) = [''pending'']"
  by code_simp

lemma sound_demo: "sound_env (demo_env main child)"
  by (auto simp: sound_env_def demo_env_def inj_def replicate_eq_replicate)

lemma old_demo: "old_id (demo_env main child) (replicate (Suc j) CHR ''x'') db" if "j < wd_fresh db"
  using that by (auto simp: old_id_def demo_env_def replicate_eq_replicate)

theorem stored_runs_well_formed_witness: "list_all run_wf (wd_runs (fst gate_start))"
proof -
  have "wf_call empty_db (fst gate_start)" using gate_started by (metis prod.collapse wf_call.start)
  then have "wf_call\<^sup>*\<^sup>* empty_db (fst gate_start)" by blast
  then show ?thesis using stored_runs_well_formed [of empty_db "fst gate_start"]
    by (simp add: empty_db_def list_all_iff)
qed

theorem start_only_requests_witness:
  "\<exists>new. wd_approvals (fst gate_start) = wd_approvals empty_db @ new \<and> list_all (\<lambda>a. aq_status a = ''pending'') new"
  using start_only_requests [of gate_env empty_db 2 "''u''" "''w''" None None "[]" "''prod''"
      "fst gate_start" "snd gate_start"] gate_started sound_demo
  by (simp add: gate_env_def fresh_approvals_def empty_db_def list_all_iff)

theorem join_decision_final_witness:
  "evaluate_parallel_join ''n-of-m'' [''succeeded'', ''failed''] (Some 1) = Inr ''succeeded''"
proof (rule join_decision_final [of "[''succeeded'', ''pending'']"])
  show "branches_progress [''succeeded'', ''pending''] [''succeeded'', ''failed'']"
    by (simp add: branches_progress_def)
  show "evaluate_parallel_join ''n-of-m'' [''succeeded'', ''pending''] (Some 1) = Inr ''succeeded''"
    by code_simp
qed simp

text \<open>The request is approved and the run resumed with it; another run stands at the same gate.\<close>

definition gate_db :: wf_db where
  "gate_db = (fst gate_start)\<lparr>wd_runs := map (\<lambda>r. r\<lparr>wr_id := ''y''\<rparr>) (wd_runs (fst gate_start)) @
       wd_runs (fst gate_start),
     wd_approvals :=
     map (\<lambda>a. a\<lparr>aq_status := ''approved'', aq_approved_by := Some ''boss''\<rparr>) (wd_approvals (fst gate_start))\<rparr>"

definition gate_resume :: "wf_db \<Rightarrow> (string, wf_db \<times> wf_run) result" where
  "gate_resume = resume_run 2 gate_env ''u'' ''x'' (Some ''xx'') PNone None False"

definition gate_end :: "wf_db \<times> wf_run" where
  "gate_end = projr (gate_resume gate_db)"

lemma gate_resumed: "resume_run 2 gate_env ''u'' ''x'' (Some ''xx'') PNone None False gate_db =
    Inr (fst gate_end, snd gate_end)"
proof -
  have "\<not> isl (gate_resume gate_db)" by code_simp
  then have "gate_resume gate_db = Inr gate_end" by (cases "gate_resume gate_db") (simp_all add: gate_end_def)
  then show ?thesis by (simp add: gate_resume_def)
qed

lemma sound_gate: "sound_env gate_env"
  by (simp only: gate_env_def sound_demo)

lemma gate_state_demo: "gate_state gate_env ''x'' gate_db (snd gate_start)"
  by code_simp

lemma old_gate: "wd_fresh db = 2 \<Longrightarrow> map aq_id (wd_approvals db) = [''xx''] \<Longrightarrow> fresh_approvals gate_env db"
proof -
  assume fresh: "wd_fresh db = 2" and ids: "map aq_id (wd_approvals db) = [''xx'']"
  have xx: "replicate (Suc 1) CHR ''x'' = ''xx''" by simp
  have "old_id gate_env ''xx'' db" unfolding gate_env_def xx [symmetric] by (rule old_demo) (simp add: fresh)
  moreover have "aq_id a = ''xx''" if "a \<in> set (wd_approvals db)" for a
  proof -
    have "aq_id a \<in> set (map aq_id (wd_approvals db))" using that by simp
    then show ?thesis unfolding ids by simp
  qed
  ultimately show ?thesis by (simp add: fresh_approvals_def)
qed

lemma gate_fresh: "fresh_approvals gate_env gate_db"
  by (rule old_gate) (use gate_started_facts in \<open>simp_all add: gate_db_def o_def\<close>)

theorem resume_needs_bound_approval_witness:
  "\<exists>a. find_approval gate_db ''xx'' = Some a \<and> approval_bound (snd gate_start) a \<and>
    (\<exists>a'. find_approval (fst gate_end) ''xx'' = Some a' \<and> consumed (aq_payload a'))"
  using resume_needs_bound_approval [OF sound_gate gate_fresh gate_state_demo gate_resumed] by auto

lemma gate_end_facts:
  "map aq_id (wd_approvals (fst gate_end)) = [''xx''] \<and> wd_fresh (fst gate_end) = 2"
  by code_simp

lemma gate_end_state: "gate_state gate_env ''y'' (fst gate_end) ((snd gate_start)\<lparr>wr_id := ''y''\<rparr>)"
  by code_simp

lemma gate_end_fresh: "fresh_approvals gate_env (fst gate_end)"
  by (rule old_gate) (simp_all only: gate_end_facts)


text \<open>The started run of one node, before it advances.\<close>

definition first_run :: "wf_env \<Rightarrow> bool \<Rightarrow> wf_db \<times> wf_run \<times> wf_version" where
  "first_run env mode = projr (create_run_record env ''u'' ''w'' None None [] mode None ''prod'' empty_db)"

lemma not_isl: "\<not> isl r \<Longrightarrow> \<exists>x. r = Inr x"
  by (cases r) auto

definition first_advance :: "(string, wf_db \<times> wf_run) result" where
  "first_advance = (case first_run gate_env False of (db, run, v) \<Rightarrow> advance 2 gate_env v run db)"


definition test_env :: wf_env where
  "test_env = demo_env (one_node ''v1'' ''w'' ''tool'' [(''tool'', PStr ''slack.post_message'')])
     (one_node ''v2'' ''c'' ''trigger'' [])"


theorem failed_branch_hangs_witness:
  "\<exists>entry. start_branch (\<lambda>r w vars db. Inl []) test_env (snd gate_start) ''p'' ''n''
    (Some [(''type'', PStr ''tool'')]) [(''status'', PStr ''pending''), (''output'', PDict [])] [] empty_db =
      Inr (empty_db, entry) \<and> sget entry ''status'' = ''paused''"
proof -
  have out: "execute_simple_node test_env (snd gate_start) [(''type'', PStr ''tool'')] ''n'' [] empty_db =
      Inr (empty_db, [], step_failed [(''error'', PStr ''tool node missing config.tool or config.tool_slug'')])"
    by (simp add: execute_simple_node_def execute_tool_node_def pending_for_def run_tool_def Let_def
        sget_def sget2_def pget_def str_or_def py_or_def dict_or_raise_def)
  have "sget [(''type'', PStr ''tool'')] ''type'' \<in> {''tool'', ''skill'', ''trigger'', ''condition''}"
    by (simp add: sget_def pget_def str_or_def)
  from failed_branch_hangs [OF this out, of "\<lambda>r w vars db. Inl []" "''p''"] show ?thesis by auto
qed

definition gate_node :: "pyval dict" where
  "gate_node = [(''id'', PStr ''n''), (''type'', PStr ''approval''), (''config'', PDict [])]"

definition gate_run :: wf_run where
  "gate_run = fst (snd (first_run gate_env False))"

theorem approved_gate_opens_witness:
  "\<exists>db' vars' out a. execute_approval_node gate_env gate_run gate_node ''n'' [] empty_db = Inr (db', vars', out) \<and>
    wd_approvals db' = [a] \<and>
    (\<exists>db2 vars2. consume_approval_for_node gate_env gate_run (aq_id a) (Some ''n'') None False vars'
      (put_approval (a\<lparr>aq_status := ''approved'', aq_approved_by := Some ''boss''\<rparr>) db') = Inr (db2, vars2))"
proof -
  have "\<not> isl (execute_approval_node gate_env gate_run gate_node ''n'' [] empty_db)" by code_simp
  then obtain db' vars' out where
    run: "execute_approval_node gate_env gate_run gate_node ''n'' [] empty_db = Inr (db', vars', out)"
    by (metis not_isl prod.exhaust)
  have "fresh_approvals gate_env empty_db" by (simp add: fresh_approvals_def empty_db_def)
  from approved_gate_opens [OF sound_gate this _ _ _ _ run, of "[]"]
  obtain a where a: "wd_approvals db' = wd_approvals empty_db @ [a]" and
    opens: "\<forall>who actor. \<exists>db2 vars2 vars3 out3.
      consume_approval_for_node gate_env gate_run (aq_id a) (Some ''n'') actor False vars'
        (put_approval (a\<lparr>aq_status := ''approved'', aq_approved_by := who\<rparr>) db') = Inr (db2, vars2) \<and>
      execute_approval_node gate_env gate_run gate_node ''n'' vars2 db2 = Inr (db2, vars3, out3) \<and>
      so_status out3 = ''succeeded'' \<and> so_pause out3 = None"
    by (auto simp: py_iter_or_empty_def pget_def)
  have "wd_approvals db' = [a]" using a by (simp add: empty_db_def)
  then show ?thesis using run opens by blast
qed

theorem gate_opened_by_input_witness:
  "\<exists>db' run. start_run 1 gate_env ''u'' ''w'' None None
      [(''approval_granted'', PBool True), (''approval_request_id'', PStr ''none'')] ''prod'' empty_db = Inr (db', run) \<and>
    wr_status run = ''completed'' \<and> wd_approvals db' = []"
proof -
  let ?v = "one_node ''v1'' ''w'' ''approval'' []"
  let ?d = "\<lparr>wdf_id = ''w'', wdf_owner_id = ''u'', wdf_is_template = False\<rparr>"
  have "get_definition gate_env ''u'' ''w'' = Inr ?d" "run_version gate_env ?d False None ''prod'' = Inr ?v"
    by (simp_all add: get_definition_def run_version_def gate_env_def demo_env_def)
  moreover have "checked_version ?v = Inr ?v" by code_simp
  moreover have "map_of (node_table (wv_nodes ?v)) ''n'' = Some gate_node" by code_simp
  moreover have "sget gate_node ''type'' = ''approval''" by code_simp
  ultimately have "\<exists>db' run. start_run (Suc 0) gate_env ''u'' ''w'' None None
      [(''approval_granted'', PBool True), (''approval_request_id'', PStr ''none'')] ''prod'' empty_db = Inr (db', run) \<and>
    wr_status run = ''completed'' \<and> wd_approvals db' = wd_approvals empty_db"
    by (intro gate_opened_by_input [of gate_env "''u''" "''w''" ?d "''prod''" ?v "''n''" gate_node
          "[(''approval_granted'', PBool True), (''approval_request_id'', PStr ''none'')]" "''none''"])
      (simp_all add: one_node_def outgoing_def dict_items_def pget_def)
  then show ?thesis by (simp add: empty_db_def)
qed

text \<open>A tool call that waits for its approval, and the approval it was given.\<close>

definition waiting_vars :: vars where
  "waiting_vars = [(''pending_tool'', PDict [(''node_id'', PStr ''n''), (''tool_slug'', PStr ''slack.post_message''),
     (''params'', PDict [(''text'', PStr ''hi'')]), (''context'', PDict [])])]"

definition tool_approval :: approval_request where
  "tool_approval = (new_approval test_env ''a'' None None None ''tool:slack.post_message'' None
     [(''workflow_run_id'', PStr ''x''), (''workflow_node_id'', PStr ''n''),
      (''arguments_hash'', PStr (arguments_hash (rt_sha (we_rt test_env)) [(''text'', PStr ''hi'')]))])
     \<lparr>aq_status := ''approved''\<rparr>"

definition tool_db :: wf_db where
  "tool_db = empty_db\<lparr>wd_approvals := [tool_approval]\<rparr>"

theorem approved_tool_runs_approved_arguments_witness:
  "\<exists>db1 vars1. consume_approval_for_node test_env gate_run ''a'' (Some ''n'') None True waiting_vars tool_db =
      Inr (db1, vars1) \<and>
    (\<exists>params ctx. get_dict [(''params'', PDict [(''text'', PStr ''hi'')])] ''params'' = Inr params \<and>
      execute_tool_node test_env gate_run [(''type'', PStr ''tool'')] ''n'' vars1 db1 =
      run_tool test_env gate_run ''n'' ''slack.post_message'' params ctx (drop_pending vars1) db1)"
proof -
  let ?p = "[(''node_id'', PStr ''n''), (''tool_slug'', PStr ''slack.post_message''),
     (''params'', PDict [(''text'', PStr ''hi'')]), (''context'', PDict [])]"
  have "\<not> isl (consume_approval_for_node test_env gate_run ''a'' (Some ''n'') None True waiting_vars tool_db)"
    by code_simp
  then obtain db1 vars1 where
    c: "consume_approval_for_node test_env gate_run ''a'' (Some ''n'') None True waiting_vars tool_db = Inr (db1, vars1)"
    by (metis not_isl prod.exhaust)
  have "pending_for ''n'' waiting_vars = Some ?p" by (simp add: pending_for_def waiting_vars_def pget_def)
  from approved_tool_runs_approved_arguments [OF c this, of "[]" "[(''type'', PStr ''tool'')]" "[]"]
  show ?thesis using c by (auto simp: pget_def dict_or_raise_def sget_def str_or_def)
qed

end
