(* ===== verification/Hierarchy_Policy.thy ===== *)
theory Hierarchy_Policy
  imports Canonical_Arguments
begin

text \<open>
  Agent hierarchies of a project, \<open>orchestration/hierarchy_policy.py\<close>: the normal form of a
  policy, its copies in the execution settings, and the validation against the members, with the
  depth-first search for delegation cycles.

  A set of member ids is a list in the order the set is iterated. The search recurses once per
  edge of a path; the interpreter's recursion limit is not modelled.
\<close>

section \<open>Normal form\<close>

definition HIERARCHY_EDGE_TYPES :: "string list" where
  [guard_defs]: "HIERARCHY_EDGE_TYPES =
     [''delegates_to'', ''reviews'', ''escalates_to'', ''collaborates_with'']"

definition ROUTING_MODES :: "string list" where
  [guard_defs]: "ROUTING_MODES =
     [''capability_based'', ''priority_sla'', ''sla_priority'', ''cost_aware'',
      ''model_availability'', ''user_pinned'', ''throughput'']"

definition LOAD_BALANCE_MODES :: "string list" where
  [guard_defs]: "LOAD_BALANCE_MODES = [''queue_depth'', ''round_robin'']"

definition EXECUTION_MODES :: "string list" where
  [guard_defs]: "EXECUTION_MODES = [''single_agent'', ''manager_worker'', ''debate'']"

definition HANDOFF_MODES :: "string list" where
  [guard_defs]: "HANDOFF_MODES = [''escalation_path'', ''configured_agent'', ''sibling_with_capacity'']"

record hierarchy_edge =
  he_source :: string
  he_target :: string
  he_relationship :: string

record hierarchy_policy =
  hp_manager :: "string option"
  hp_edges :: "hierarchy_edge list"
  hp_delegation_rules :: "string list dict"
  hp_brainstorm_rules :: "string list dict"
  hp_reviewers :: "string list"
  hp_chain_mode :: string
  hp_routing_mode :: string
  hp_load_balance :: string
  hp_execution_mode :: string
  hp_handoff_mode :: string
  hp_handoff_target :: "string option"
  hp_fallback_to_manager :: bool

definition clean_ids :: "pyval \<Rightarrow> string list" where
  "clean_ids value =
     (let items = (case value of
          PStr s \<Rightarrow> map PStr (split_char (CHR '','') s)
        | PList xs \<Rightarrow> xs
        | _ \<Rightarrow> [])
      in py_unique (filter (\<lambda>i. i \<noteq> []) (map (py_strip \<circ> py_str) items)))"

text \<open>\<open>str(x or dflt).strip()\<close>\<close>

definition stripped_or :: "pyval \<Rightarrow> string \<Rightarrow> string" where
  "stripped_or v dflt = py_strip (str_or v dflt)"

definition or_none :: "string \<Rightarrow> string option" where
  "or_none s = (if s = [] then None else Some s)"

definition one_of :: "string list \<Rightarrow> string \<Rightarrow> string \<Rightarrow> string" where
  "one_of modes dflt s = (if s \<in> set modes then s else dflt)"

definition hierarchy_edge_of :: "pyval \<Rightarrow> hierarchy_edge option" where
  "hierarchy_edge_of item =
     (case item of
        PDict d \<Rightarrow>
          (let source = stripped_or (py_or (pget d ''source_agent_id'') (pget d ''source'')) [];
               target = stripped_or (py_or (pget d ''target_agent_id'') (pget d ''target'')) [];
               edge_data = dict_or_empty (pget d ''data'');
               rel = stripped_or (py_or (pget d ''relationship'')
                       (py_or (pget d ''semantic'') (pget edge_data ''semantic''))) ''delegates_to''
           in if source \<noteq> [] \<and> target \<noteq> [] \<and> rel \<in> set HIERARCHY_EDGE_TYPES \<and> source \<noteq> target
              then Some \<lparr>he_source = source, he_target = target, he_relationship = rel\<rparr> else None)
      | _ \<Rightarrow> None)"

text \<open>\<open>(raw.get(k) or {}).items()\<close>, for a truthy value that is no dictionary an error.\<close>

definition items_or_raise :: "pyval \<Rightarrow> (string, pyval dict) result" where
  "items_or_raise v =
     (if \<not> truthy v then Inr []
      else case v of PDict d \<Rightarrow> Inr d | _ \<Rightarrow> Inl ''AttributeError'')"

definition rules_of :: "pyval dict \<Rightarrow> string list dict" where
  "rules_of items =
     fold (\<lambda>(source, targets) rules.
        if py_strip source = [] then rules
        else dset (py_strip source) (clean_ids targets) rules) items []"

definition fallback_of :: "pyval dict \<Rightarrow> bool" where
  "fallback_of handoff = (dget handoff ''fallback_to_manager'' \<noteq> Some (PBool False))"

definition normalize_hierarchy_policy :: "pyval dict \<Rightarrow> (string, hierarchy_policy) result" where
  "normalize_hierarchy_policy raw =
     res_bind (py_iter_or_empty (py_or (pget raw ''edges'') (pget raw ''hierarchy_edges''))) (\<lambda>items.
     res_bind (items_or_raise (pget raw ''delegation_rules'')) (\<lambda>delegation.
     res_bind (items_or_raise (pget raw ''brainstorm_rules'')) (\<lambda>brainstorm.
     res_bind (dict_or_raise (pget raw ''blocked_handoff'')) (\<lambda>handoff.
     Inr \<lparr>hp_manager = or_none (stripped_or (pget raw ''manager_agent_id'') []),
          hp_edges = py_unique (List.map_filter hierarchy_edge_of items),
          hp_delegation_rules = rules_of delegation,
          hp_brainstorm_rules = rules_of brainstorm,
          hp_reviewers = clean_ids (pget raw ''reviewer_agent_ids''),
          hp_chain_mode = stripped_or (pget raw ''reviewer_chain_mode'') ''sequential'',
          hp_routing_mode = one_of ROUTING_MODES ''capability_based''
            (stripped_or (pget raw ''routing_mode'') ''capability_based''),
          hp_load_balance = one_of LOAD_BALANCE_MODES ''queue_depth''
            (stripped_or (pget raw ''sibling_load_balance'') ''queue_depth''),
          hp_execution_mode = one_of EXECUTION_MODES ''single_agent''
            (stripped_or (pget raw ''default_execution_mode'') ''single_agent''),
          hp_handoff_mode = one_of HANDOFF_MODES ''escalation_path''
            (stripped_or (pget handoff ''mode'') ''escalation_path''),
          hp_handoff_target = or_none (stripped_or (pget handoff ''target_agent_id'') []),
          hp_fallback_to_manager = fallback_of handoff\<rparr>))))"

text \<open>The dictionary the function returns and the settings store.\<close>

definition hierarchy_edge_value :: "hierarchy_edge \<Rightarrow> pyval" where
  "hierarchy_edge_value e =
     PDict [(''source_agent_id'', PStr (he_source e)), (''target_agent_id'', PStr (he_target e)),
            (''relationship'', PStr (he_relationship e))]"

definition ids_value :: "string list \<Rightarrow> pyval" where
  "ids_value ids = PList (map PStr ids)"

definition rules_value :: "string list dict \<Rightarrow> pyval" where
  "rules_value rules = PDict (map (\<lambda>(s, ts). (s, ids_value ts)) rules)"

definition handoff_value :: "hierarchy_policy \<Rightarrow> pyval" where
  "handoff_value p =
     PDict [(''mode'', PStr (hp_handoff_mode p)), (''target_agent_id'', opt_str (hp_handoff_target p)),
            (''fallback_to_manager'', PBool (hp_fallback_to_manager p))]"

definition hierarchy_policy_dict :: "hierarchy_policy \<Rightarrow> pyval dict" where
  "hierarchy_policy_dict p =
     [(''manager_agent_id'', opt_str (hp_manager p)),
      (''edges'', PList (map hierarchy_edge_value (hp_edges p))),
      (''delegation_rules'', rules_value (hp_delegation_rules p)),
      (''brainstorm_rules'', rules_value (hp_brainstorm_rules p)),
      (''reviewer_agent_ids'', ids_value (hp_reviewers p)),
      (''reviewer_chain_mode'', PStr (hp_chain_mode p)),
      (''routing_mode'', PStr (hp_routing_mode p)),
      (''sibling_load_balance'', PStr (hp_load_balance p)),
      (''default_execution_mode'', PStr (hp_execution_mode p)),
      (''blocked_handoff'', handoff_value p),
      (''final_authority'', PStr ''human_user'')]"

section \<open>Execution settings\<close>

definition COPIED_KEYS :: "string list" where
  "COPIED_KEYS =
     [''manager_agent_id'', ''reviewer_agent_ids'', ''reviewer_chain_mode'', ''routing_mode'',
      ''sibling_load_balance'', ''blocked_handoff'']"

definition copy_missing :: "pyval dict \<Rightarrow> pyval dict \<Rightarrow> pyval dict" where
  "copy_missing execution raw =
     fold (\<lambda>k r. if \<not> dhas r k \<and> dhas execution k then dset k (pget execution k) r else r)
       COPIED_KEYS raw"

definition policy_from_execution :: "pyval dict \<Rightarrow> (string, hierarchy_policy) result" where
  "policy_from_execution execution =
     res_bind (dict_or_raise (pget execution ''hierarchy_policy'')) (\<lambda>stored.
     let raw = copy_missing execution stored;
         raw = (if dhas raw ''default_execution_mode'' then raw
                else dset ''default_execution_mode''
                  (py_or (pget execution ''default_run_mode'') (PStr ''single_agent'')) raw);
         raw = (case pget execution ''team_graph_layout'' of
                  PDict layout \<Rightarrow> if truthy (pget raw ''edges'') then raw
                    else dset ''edges'' (py_or (pget layout ''edges'') (PList [])) raw
                | _ \<Rightarrow> raw)
     in normalize_hierarchy_policy raw)"

definition apply_policy_to_execution ::
  "pyval dict \<Rightarrow> pyval dict \<Rightarrow> (string, pyval dict) result" where
  "apply_policy_to_execution execution value =
     res_bind (normalize_hierarchy_policy value) (\<lambda>p. Inr (
       dset ''default_run_mode'' (PStr (hp_execution_mode p))
       (dset ''blocked_handoff'' (handoff_value p)
       (dset ''sibling_load_balance'' (PStr (hp_load_balance p))
       (dset ''routing_mode'' (PStr (hp_routing_mode p))
       (dset ''reviewer_chain_mode'' (PStr (hp_chain_mode p))
       (dset ''reviewer_agent_ids'' (ids_value (hp_reviewers p))
       (dset ''manager_agent_id'' (opt_str (hp_manager p))
       (dset ''hierarchy_policy'' (PDict (hierarchy_policy_dict p)) execution)))))))))"

section \<open>Delegation cycles\<close>

definition members_only :: "string list \<Rightarrow> hierarchy_edge \<Rightarrow> bool" where
  "members_only members e \<longleftrightarrow> he_source e \<in> set members \<and> he_target e \<in> set members"

definition children_of :: "string list dict \<Rightarrow> string \<Rightarrow> string list" where
  "children_of adj node = (case dget adj node of None \<Rightarrow> [] | Some cs \<Rightarrow> cs)"

definition delegation_adjacency :: "string list \<Rightarrow> hierarchy_edge list \<Rightarrow> string list dict" where
  "delegation_adjacency members edges =
     fold (\<lambda>e adj. dset (he_source e) (children_of adj (he_source e) @ [he_target e]) adj)
       (filter (\<lambda>e. members_only members e \<and> he_relationship e = ''delegates_to'') edges) []"

definition CYCLE_ERROR :: string where
  "CYCLE_ERROR = ''delegation relationships cannot contain cycles''"

text \<open>
  \<open>visiting\<close> is the set of the code at the time of the call: what a call adds it removes before it
  returns. The nodes visited, latest first, and the errors are threaded through.
\<close>

type_synonym dfs_state = "string list \<times> string list"

function (sequential) visit ::
    "string list dict \<Rightarrow> string list \<Rightarrow> string \<Rightarrow> dfs_state \<Rightarrow> dfs_state"
  and visit_children ::
    "string list dict \<Rightarrow> string list \<Rightarrow> string list \<Rightarrow> dfs_state \<Rightarrow> dfs_state" where
  "visit adj visiting node (visited, errors) =
     (if node \<in> set visiting then (visited, errors @ [CYCLE_ERROR])
      else if node \<in> set visited then (visited, errors)
      else (case visit_children adj (node # visiting) (children_of adj node) (visited, errors) of
              (visited', errors') \<Rightarrow> (node # visited', errors')))"
| "visit_children adj visiting [] st = st"
| "visit_children adj visiting (c # cs) st =
     visit_children adj visiting cs (visit adj visiting c st)"
  by pat_completeness auto
termination
proof (relation "measures
    [\<lambda>x. case x of Inl (adj, visiting, _) \<Rightarrow> card (fst ` set adj - set visiting)
               | Inr (adj, visiting, _) \<Rightarrow> card (fst ` set adj - set visiting),
     \<lambda>x. case x of Inl _ \<Rightarrow> 1 | Inr (_, _, cs, _) \<Rightarrow> 2 * length cs]", goal_cases)
  case (2 adj visiting node visited errors)
  show ?case
  proof (cases "node \<in> fst ` set adj")
    case True
    then have "card (fst ` set adj - set (node # visiting)) < card (fst ` set adj - set visiting)"
      using 2 by (intro psubset_card_mono) auto
    then show ?thesis by simp
  next
    case False
    then have "fst ` set adj - insert node (set visiting) = fst ` set adj - set visiting" by auto
    moreover have "children_of adj node = []"
      using False by (simp add: children_of_def map_of_eq_None_iff [THEN iffD2])
    ultimately show ?thesis by simp
  qed
qed simp_all

section \<open>Validation\<close>

definition rule_errors :: "string \<Rightarrow> string list \<Rightarrow> string list dict \<Rightarrow> string list" where
  "rule_errors kind members rules =
     concat (map (\<lambda>(source, targets).
       (if source \<notin> set members
        then [kind @ '' rule source is not a project member: '' @ source] else []) @
       (let missing = filter (\<lambda>t. t \<notin> set members) targets in
        if missing \<noteq> []
        then [kind @ '' rule for '' @ source @ '' contains non-members: '' @ py_join '', '' missing]
        else [])) rules)"

definition edge_member_errors :: "string list \<Rightarrow> hierarchy_edge list \<Rightarrow> string list" where
  "edge_member_errors members edges =
     map (\<lambda>e. ''hierarchy edge references a non-member: '' @ he_source e @ '' -> '' @ he_target e)
       (filter (\<lambda>e. \<not> members_only members e) edges)"

definition manager_errors :: "string list \<Rightarrow> string dict \<Rightarrow> string option \<Rightarrow> string list" where
  "manager_errors members roles manager =
     (case manager of
        None \<Rightarrow> []
      | Some m \<Rightarrow>
          (if m \<notin> set members then [''manager_agent_id must be a member of the project''] else []) @
          (if dget roles m \<notin> {Some ''manager'', Some ''team_lead''}
           then [''manager_agent_id must reference a manager or team lead''] else []))"

definition reviewer_errors :: "string list \<Rightarrow> string dict \<Rightarrow> string list \<Rightarrow> string list" where
  "reviewer_errors members roles reviewers =
     (if members \<noteq> [] \<and> roles \<noteq> [] \<and> \<not> (\<exists>m \<in> set members. dget roles m = Some ''reviewer'')
      then [''Project must include at least one reviewer role''] else []) @
     (if members \<noteq> [] \<and> reviewers = []
      then [''At least one reviewer agent must be configured in the reviewer chain''] else []) @
     (let missing = filter (\<lambda>r. r \<notin> set members) reviewers in
      if missing \<noteq> []
      then [''reviewer_agent_ids contain non-members: '' @ py_join '', '' missing] else []) @
     (let invalid = filter (\<lambda>r. dget roles r \<notin>
            {Some ''reviewer'', Some ''manager'', Some ''team_lead''}) reviewers in
      if invalid \<noteq> []
      then [''reviewer chain contains non-reviewer agents: '' @ py_join '', '' invalid] else [])"

definition delegation_cycle_errors :: "string list \<Rightarrow> hierarchy_edge list \<Rightarrow> string list" where
  "delegation_cycle_errors members edges =
     snd (visit_children (delegation_adjacency members edges) [] members ([], []))"

definition validate_hierarchy_policy ::
  "pyval dict \<Rightarrow> string list \<Rightarrow> string dict \<Rightarrow> (string, string list) result" where
  "validate_hierarchy_policy policy members roles =
     res_bind (normalize_hierarchy_policy policy) (\<lambda>p. Inr (py_unique (
       manager_errors members roles (hp_manager p) @
       reviewer_errors members roles (hp_reviewers p) @
       edge_member_errors members (hp_edges p) @
       delegation_cycle_errors members (hp_edges p) @
       rule_errors ''delegation'' members (hp_delegation_rules p) @
       rule_errors ''brainstorm'' members (hp_brainstorm_rules p) @
       (case hp_handoff_target p of
          Some t \<Rightarrow> if t \<notin> set members
            then [''blocked handoff target must be a member of the project''] else []
        | None \<Rightarrow> []))))"

section \<open>The search finds exactly the cycles\<close>

definition child_rel :: "string list dict \<Rightarrow> (string \<times> string) set" where
  "child_rel adj = {(v, w). w \<in> set (children_of adj v)}"

text \<open>Errors only ever accumulate, and what is on the current path is not recorded as visited.\<close>

lemma visit_errors_grow:
  "\<exists>k. snd (visit adj visiting node st) = snd st @ replicate k CYCLE_ERROR"
  "\<exists>k. snd (visit_children adj visiting cs st) = snd st @ replicate k CYCLE_ERROR"
proof (induction adj visiting node st and adj visiting cs st rule: visit_visit_children.induct)
  case (1 adj visiting node visited errors)
  have "\<exists>k. [CYCLE_ERROR] = replicate k CYCLE_ERROR" by (rule exI [of _ 1]) simp
  then show ?case using 1 by (auto split: prod.splits)
next
  case (2 adj visiting st)
  have "snd st = snd st @ replicate 0 CYCLE_ERROR" by simp
  then show ?case by (metis visit_children.simps(1))
next
  case (3 adj visiting c cs st)
  then show ?case by (metis append_assoc replicate_add visit_children.simps(2))
qed

lemma visit_errors_length:
  "length (snd st) \<le> length (snd (visit adj visiting node st))"
  using visit_errors_grow(1) [of adj visiting node st] by auto

lemma visit_path_unvisited:
  "v \<in> set visiting \<Longrightarrow> v \<notin> set (fst st) \<Longrightarrow> v \<notin> set (fst (visit adj visiting node st))"
  "v \<in> set visiting \<Longrightarrow> v \<notin> set (fst st) \<Longrightarrow> v \<notin> set (fst (visit_children adj visiting cs st))"
proof (induction adj visiting node st and adj visiting cs st rule: visit_visit_children.induct)
  case (1 adj visiting node visited errors)
  then show ?case by (auto split: prod.splits)
qed auto

text \<open>A reported cycle exists: the path leads from every node on it to the node being visited.\<close>

lemma visit_cycle_sound:
  "\<forall>v \<in> set visiting. (v, node) \<in> (child_rel adj)\<^sup>+ \<Longrightarrow>
   length (snd st) < length (snd (visit adj visiting node st)) \<Longrightarrow>
   \<exists>v. (v, v) \<in> (child_rel adj)\<^sup>+"
  "\<forall>v \<in> set visiting. \<forall>c \<in> set cs. (v, c) \<in> (child_rel adj)\<^sup>+ \<Longrightarrow>
   length (snd st) < length (snd (visit_children adj visiting cs st)) \<Longrightarrow>
   \<exists>v. (v, v) \<in> (child_rel adj)\<^sup>+"
proof (induction adj visiting node st and adj visiting cs st rule: visit_visit_children.induct)
  case (1 adj visiting node visited errors)
  show ?case
  proof (cases "node \<in> set visiting \<or> node \<in> set visited")
    case True
    then show ?thesis using 1 by (auto split: if_splits)
  next
    case False
    have "(v, c) \<in> (child_rel adj)\<^sup>+"
      if "v \<in> set (node # visiting)" "c \<in> set (children_of adj node)" for v c
    proof -
      have "(node, c) \<in> child_rel adj" using that(2) by (simp add: child_rel_def)
      then show ?thesis using that(1) 1(2) by (auto intro: trancl_into_trancl)
    qed
    then show ?thesis using 1(1) 1(3) False by (auto split: prod.splits)
  qed
next
  case (3 adj visiting c cs st)
  then show ?case
    using visit_errors_length [of st adj visiting c]
    by (cases "length (snd st) < length (snd (visit adj visiting c st))") auto
qed auto

text \<open>The nodes visited without an error are in topological order.\<close>

fun topological :: "string list dict \<Rightarrow> string list \<Rightarrow> bool" where
  "topological adj [] = True"
| "topological adj (n # ns) \<longleftrightarrow>
     set (children_of adj n) \<subseteq> set ns \<and> n \<notin> set ns \<and> topological adj ns"

lemma topological_closed:
  "topological adj ns \<Longrightarrow> n \<in> set ns \<Longrightarrow> set (children_of adj n) \<subseteq> set ns"
  by (induction ns) auto

lemma topological_reach:
  assumes "topological adj ns" "v \<in> set ns" "(v, w) \<in> (child_rel adj)\<^sup>+"
  shows "w \<in> set ns"
  using assms(3) by (induction) (use topological_closed [OF assms(1)] assms(2) in \<open>auto simp: child_rel_def\<close>)

lemma topological_acyclic:
  "topological adj ns \<Longrightarrow> v \<in> set ns \<Longrightarrow> (v, v) \<notin> (child_rel adj)\<^sup>+"
proof (induction ns)
  case (Cons n ns)
  have "(n, n) \<notin> (child_rel adj)\<^sup>+"
  proof
    assume "(n, n) \<in> (child_rel adj)\<^sup>+"
    then obtain c where "(n, c) \<in> child_rel adj" "c = n \<or> (c, n) \<in> (child_rel adj)\<^sup>+"
      by (auto elim: converse_tranclE)
    then show False using Cons.prems(1) topological_reach [of adj ns c n]
      by (auto simp: child_rel_def)
  qed
  then show ?case using Cons by auto
qed simp

lemma visit_topological:
  "topological adj (fst st) \<Longrightarrow> snd (visit adj visiting node st) = snd st \<Longrightarrow>
   topological adj (fst (visit adj visiting node st)) \<and>
   insert node (set (fst st)) \<subseteq> set (fst (visit adj visiting node st))"
  "topological adj (fst st) \<Longrightarrow> snd (visit_children adj visiting cs st) = snd st \<Longrightarrow>
   topological adj (fst (visit_children adj visiting cs st)) \<and>
   set cs \<union> set (fst st) \<subseteq> set (fst (visit_children adj visiting cs st))"
proof (induction adj visiting node st and adj visiting cs st rule: visit_visit_children.induct)
  case (1 adj visiting node visited errors)
  show ?case
  proof (cases "node \<in> set visiting \<or> node \<in> set visited")
    case True
    then show ?thesis using 1 by (auto split: if_splits)
  next
    case False
    let ?st = "visit_children adj (node # visiting) (children_of adj node) (visited, errors)"
    have "node \<notin> set (fst ?st)" by (rule visit_path_unvisited) (use False in auto)
    then show ?thesis using 1 False by (auto split: prod.splits)
  qed
next
  case (3 adj visiting c cs st)
  let ?st = "visit adj visiting c st"
  obtain k where k: "snd ?st = snd st @ replicate k CYCLE_ERROR"
    using visit_errors_grow(1) by blast
  obtain j where "snd (visit_children adj visiting cs ?st) = snd ?st @ replicate j CYCLE_ERROR"
    using visit_errors_grow(2) by blast
  then have "snd ?st = snd st" using k 3(4) by simp
  then show ?case using 3 by auto
qed simp_all

text \<open>The adjacency lists hold the delegation edges between members.\<close>

lemma children_of_adjacency:
  "children_of (fold (\<lambda>e adj. dset (he_source e) (children_of adj (he_source e) @ [he_target e]) adj)
     es adj) v = children_of adj v @ map he_target (filter (\<lambda>e. he_source e = v) es)"
  by (induction es arbitrary: adj) (auto simp: children_of_def split: option.splits)

definition delegates :: "string list \<Rightarrow> hierarchy_edge list \<Rightarrow> (string \<times> string) set" where
  "delegates members edges =
     {(he_source e, he_target e) | e. e \<in> set edges \<and> members_only members e \<and>
        he_relationship e = ''delegates_to''}"

lemma child_rel_adjacency:
  "child_rel (delegation_adjacency members edges) = delegates members edges"
proof -
  have "children_of [] v = []" for v by (simp add: children_of_def)
  then show ?thesis
    by (auto simp: child_rel_def delegation_adjacency_def children_of_adjacency delegates_def)
qed

lemma delegates_members: "(v, w) \<in> (delegates members edges)\<^sup>+ \<Longrightarrow> v \<in> set members"
  by (induction rule: trancl_induct) (auto simp: delegates_def members_only_def)

lemma cycle_errors_iff:
  "delegation_cycle_errors members edges \<noteq> [] \<longleftrightarrow> (\<exists>v. (v, v) \<in> (delegates members edges)\<^sup>+)"
proof -
  let ?adj = "delegation_adjacency members edges"
  let ?st = "visit_children ?adj [] members ([], [])"
  have "\<exists>v. (v, v) \<in> (child_rel ?adj)\<^sup>+" if "snd ?st \<noteq> []"
    by (rule visit_cycle_sound(2) [of "[]" members ?adj "([], [])"]) (use that in auto)
  moreover have "(v, v) \<notin> (child_rel ?adj)\<^sup>+" if "snd ?st = []" for v
  proof
    assume cycle: "(v, v) \<in> (child_rel ?adj)\<^sup>+"
    then have "v \<in> set members"
      using delegates_members [of v v members edges] by (simp add: child_rel_adjacency)
    then show False
      using topological_acyclic [OF _ _ , of ?adj "fst ?st" v] cycle
        visit_topological(2) [of ?adj "([], [])" "[]" members] that by auto
  qed
  ultimately show ?thesis
    unfolding delegation_cycle_errors_def child_rel_adjacency by blast
qed

lemma cycle_errors_set: "set (delegation_cycle_errors members edges) \<subseteq> {CYCLE_ERROR}"
  using visit_errors_grow(2) [of "delegation_adjacency members edges" "[]" members "([], [])"]
  by (auto simp: delegation_cycle_errors_def)

end
