(* ===== verification/Hierarchy_Properties.thy ===== *)
theory Hierarchy_Properties
  imports Hierarchy_Policy
begin

text \<open>
  What normalisation and validation of a hierarchy policy promise: the stored form is a fixed
  point, the cycle error is raised for exactly the cyclic delegation graphs, and a policy without
  errors refers to members only.
\<close>

section \<open>Normal forms\<close>

lemma py_unique_distinct [simp]: "distinct xs \<Longrightarrow> py_unique xs = xs"
  by (simp add: py_unique_def distinct_remdups_id)

definition clean_name :: "string \<Rightarrow> bool" where
  "clean_name s \<longleftrightarrow> s \<noteq> [] \<and> py_strip s = s"

definition clean_list :: "string list \<Rightarrow> bool" where
  "clean_list ids \<longleftrightarrow> distinct ids \<and> list_all clean_name ids"

lemma clean_ids_clean: "clean_list (clean_ids v)"
  by (auto simp: clean_list_def clean_ids_def clean_name_def list_all_iff Let_def)

lemma clean_ids_fixed [simp]: "clean_list ids \<Longrightarrow> clean_ids (ids_value ids) = ids"
proof -
  assume a: "clean_list ids"
  then have "map (py_strip \<circ> py_str) (map PStr ids) = ids"
    by (auto simp: clean_list_def clean_name_def list_all_iff intro: map_idI)
  moreover have "filter (\<lambda>i. i \<noteq> []) ids = ids"
    using a by (auto simp: clean_list_def clean_name_def list_all_iff intro: filter_True)
  ultimately show ?thesis using a
    by (simp add: clean_ids_def ids_value_def clean_list_def)
qed

lemma stripped_or_PStr [simp]: "stripped_or (PStr s) d = (if s = [] then py_strip d else py_strip s)"
  by (simp add: stripped_or_def str_or_def)

lemma stripped_or_opt_str [simp]:
  "stripped_or (opt_str s) [] = (case s of None \<Rightarrow> [] | Some t \<Rightarrow> py_strip t)"
  by (cases s) (simp_all add: stripped_or_def str_or_opt_str)

lemma stripped_or_idem [simp]: "py_strip (stripped_or v d) = stripped_or v d"
  by (simp add: stripped_or_def)

lemma or_none_fixed [simp]:
  "or_none (case or_none (stripped_or v d) of None \<Rightarrow> [] | Some t \<Rightarrow> py_strip t) = or_none (stripped_or v d)"
  by (simp add: or_none_def)

subsection \<open>Modes\<close>

lemma modes_clean:
  "list_all clean_name (ROUTING_MODES @ LOAD_BALANCE_MODES @ EXECUTION_MODES @ HANDOFF_MODES)"
  by code_simp

lemma one_of_fixed:
  assumes "dflt \<in> set modes" "list_all clean_name modes"
  shows "one_of modes dflt (stripped_or (PStr (one_of modes dflt s)) dflt) = one_of modes dflt s"
  using assms by (auto simp: one_of_def clean_name_def list_all_iff)

lemma modes_fixed [simp]:
  "one_of ROUTING_MODES ''capability_based''
     (stripped_or (PStr (one_of ROUTING_MODES ''capability_based'' s)) ''capability_based'') =
   one_of ROUTING_MODES ''capability_based'' s"
  "one_of LOAD_BALANCE_MODES ''queue_depth''
     (stripped_or (PStr (one_of LOAD_BALANCE_MODES ''queue_depth'' s)) ''queue_depth'') =
   one_of LOAD_BALANCE_MODES ''queue_depth'' s"
  "one_of EXECUTION_MODES ''single_agent''
     (stripped_or (PStr (one_of EXECUTION_MODES ''single_agent'' s)) ''single_agent'') =
   one_of EXECUTION_MODES ''single_agent'' s"
  "one_of HANDOFF_MODES ''escalation_path''
     (stripped_or (PStr (one_of HANDOFF_MODES ''escalation_path'' s)) ''escalation_path'') =
   one_of HANDOFF_MODES ''escalation_path'' s"
  by (rule one_of_fixed; use modes_clean in \<open>simp add: guard_defs\<close>)+

subsection \<open>Edges and rules\<close>

definition sound_edge :: "hierarchy_edge \<Rightarrow> bool" where
  "sound_edge e \<longleftrightarrow> clean_name (he_source e) \<and> clean_name (he_target e) \<and>
     he_source e \<noteq> he_target e \<and> he_relationship e \<in> set HIERARCHY_EDGE_TYPES"

lemma edge_types_clean: "list_all clean_name HIERARCHY_EDGE_TYPES"
  by code_simp

lemma hierarchy_edge_of_sound: "hierarchy_edge_of v = Some e \<Longrightarrow> sound_edge e"
  by (auto simp: hierarchy_edge_of_def sound_edge_def clean_name_def Let_def
      split: pyval.splits if_splits)

lemma hierarchy_edge_of_value [simp]: "sound_edge e \<Longrightarrow> hierarchy_edge_of (hierarchy_edge_value e) = Some e"
  using edge_types_clean
  by (auto simp: hierarchy_edge_of_def hierarchy_edge_value_def sound_edge_def clean_name_def
      py_or_def Let_def list_all_iff)

lemma edges_fixed:
  "list_all sound_edge es \<Longrightarrow> List.map_filter hierarchy_edge_of (map hierarchy_edge_value es) = es"
  by (induction es) (simp_all add: map_filter_simps)

lemma dset_new: "k \<notin> fst ` set d \<Longrightarrow> dset k v d = d @ [(k, v)]"
  by (induction d) auto

definition sound_rules :: "string list dict \<Rightarrow> bool" where
  "sound_rules rules \<longleftrightarrow> distinct (map fst rules) \<and>
     list_all (\<lambda>(s, ts). clean_name s \<and> clean_list ts) rules"

lemma sound_rules_dset:
  "sound_rules rules \<Longrightarrow> clean_name k \<Longrightarrow> clean_list ts \<Longrightarrow> sound_rules (dset k ts rules)"
proof -
  assume a: "sound_rules rules" "clean_name k" "clean_list ts"
  have "list_all (\<lambda>(s, ts). clean_name s \<and> clean_list ts) (dset k ts rules)"
    if "list_all (\<lambda>(s, ts). clean_name s \<and> clean_list ts) rules" for rules
    using that a by (induction rules) auto
  then show ?thesis using a by (simp add: sound_rules_def distinct_keys_dset)
qed

lemma rules_of_sound: "sound_rules (rules_of items)"
proof -
  have "sound_rules (fold (\<lambda>(s, ts) rules. if py_strip s = [] then rules
      else dset (py_strip s) (clean_ids ts) rules) items rules)" if "sound_rules rules" for rules
    using that
    by (induction items arbitrary: rules)
      (auto simp: sound_rules_dset clean_ids_clean clean_name_def)
  then show ?thesis by (simp add: rules_of_def sound_rules_def)
qed

lemma rules_fixed:
  assumes "sound_rules rules"
  shows "rules_of (map (\<lambda>(s, ts). (s, ids_value ts)) rules) = rules"
proof -
  have "fold (\<lambda>(s, ts) rules. if py_strip s = [] then rules
      else dset (py_strip s) (clean_ids ts) rules) (map (\<lambda>(s, ts). (s, ids_value ts)) new) old = old @ new"
    if "distinct (map fst (old @ new))" "list_all (\<lambda>(s, ts). clean_name s \<and> clean_list ts) new"
    for old new
    using that
  proof (induction new arbitrary: old)
    case (Cons p new)
    obtain k ts where p: "p = (k, ts)" by fastforce
    have "dset k ts old = old @ [(k, ts)]" using Cons.prems p by (intro dset_new) auto
    then show ?case using Cons.IH [of "old @ [(k, ts)]"] Cons.prems p by (auto simp: clean_name_def)
  qed simp
  from this [of "[]" rules] show ?thesis using assms by (simp add: rules_of_def sound_rules_def)
qed

definition sound_policy :: "hierarchy_policy \<Rightarrow> bool" where
  "sound_policy p \<longleftrightarrow> distinct (hp_edges p) \<and> list_all sound_edge (hp_edges p) \<and>
     sound_rules (hp_delegation_rules p) \<and> sound_rules (hp_brainstorm_rules p) \<and>
     clean_list (hp_reviewers p) \<and> hp_routing_mode p \<in> set ROUTING_MODES \<and>
     hp_load_balance p \<in> set LOAD_BALANCE_MODES \<and> hp_execution_mode p \<in> set EXECUTION_MODES \<and>
     hp_handoff_mode p \<in> set HANDOFF_MODES"

lemma one_of_in: "dflt \<in> set modes \<Longrightarrow> one_of modes dflt s \<in> set modes"
  by (simp add: one_of_def)

lemma normalized_sound:
  assumes "normalize_hierarchy_policy raw = Inr p"
  shows "sound_policy p"
proof -
  have "list_all sound_edge (py_unique (List.map_filter hierarchy_edge_of items))" for items
    by (auto simp: list_all_iff map_filter_def dest: hierarchy_edge_of_sound)
  then show ?thesis using assms
    by (auto simp: normalize_hierarchy_policy_def sound_policy_def rules_of_sound clean_ids_clean
        intro!: one_of_in) (simp_all add: guard_defs)
qed

text \<open>What reading the stored dictionary back finds in each entry.\<close>

lemma entry_fixed:
  assumes "normalize_hierarchy_policy raw = Inr p"
  shows "or_none (case hp_manager p of None \<Rightarrow> [] | Some t \<Rightarrow> py_strip t) = hp_manager p"
    "or_none (case hp_handoff_target p of None \<Rightarrow> [] | Some t \<Rightarrow> py_strip t) = hp_handoff_target p"
    "py_strip (hp_chain_mode p) = hp_chain_mode p"
    "one_of ROUTING_MODES ''capability_based''
       (stripped_or (PStr (hp_routing_mode p)) ''capability_based'') = hp_routing_mode p"
    "one_of LOAD_BALANCE_MODES ''queue_depth''
       (stripped_or (PStr (hp_load_balance p)) ''queue_depth'') = hp_load_balance p"
    "one_of EXECUTION_MODES ''single_agent''
       (stripped_or (PStr (hp_execution_mode p)) ''single_agent'') = hp_execution_mode p"
    "one_of HANDOFF_MODES ''escalation_path''
       (stripped_or (PStr (hp_handoff_mode p)) ''escalation_path'') = hp_handoff_mode p"
  using assms by (auto simp: normalize_hierarchy_policy_def simp del: stripped_or_PStr)

lemma dict_or_empty_list: "py_iter_or_empty (py_or (PList xs) w) = (if xs = [] then py_iter_or_empty w else Inr xs)"
  by (simp add: py_iter_or_empty_def py_or_def py_iter_def)

text \<open>
  Normalising the dictionary of a normalised policy gives the same policy, a blank reviewer
  chain mode alone becoming the default.
\<close>

lemma normalize_policy_dict:
  assumes "normalize_hierarchy_policy raw = Inr p"
  shows "normalize_hierarchy_policy (hierarchy_policy_dict p) =
    Inr (p\<lparr>hp_chain_mode := if hp_chain_mode p = [] then ''sequential'' else hp_chain_mode p\<rparr>)"
proof -
  have sound: "sound_policy p" by (rule normalized_sound [OF assms])
  let ?d = "hierarchy_policy_dict p"
  have get: "pget ?d ''edges'' = PList (map hierarchy_edge_value (hp_edges p))"
    "pget ?d ''hierarchy_edges'' = PNone"
    "pget ?d ''delegation_rules'' = rules_value (hp_delegation_rules p)"
    "pget ?d ''brainstorm_rules'' = rules_value (hp_brainstorm_rules p)"
    "pget ?d ''blocked_handoff'' = handoff_value p"
    "pget ?d ''manager_agent_id'' = opt_str (hp_manager p)"
    "pget ?d ''reviewer_agent_ids'' = ids_value (hp_reviewers p)"
    "pget ?d ''reviewer_chain_mode'' = PStr (hp_chain_mode p)"
    "pget ?d ''routing_mode'' = PStr (hp_routing_mode p)"
    "pget ?d ''sibling_load_balance'' = PStr (hp_load_balance p)"
    "pget ?d ''default_execution_mode'' = PStr (hp_execution_mode p)"
    by (simp_all add: hierarchy_policy_dict_def)
  have edges: "py_iter_or_empty (py_or (PList (map hierarchy_edge_value (hp_edges p))) PNone) =
      Inr (map hierarchy_edge_value (hp_edges p))"
    unfolding dict_or_empty_list by (auto simp: py_iter_or_empty_def)
  have rules: "items_or_raise (rules_value rs) = Inr (map (\<lambda>(s, ts). (s, ids_value ts)) rs)" for rs
    by (simp add: items_or_raise_def rules_value_def)
  have handoff: "dict_or_raise (handoff_value p) =
      Inr [(''mode'', PStr (hp_handoff_mode p)), (''target_agent_id'', opt_str (hp_handoff_target p)),
           (''fallback_to_manager'', PBool (hp_fallback_to_manager p))]" (is "_ = Inr ?h")
    by (simp add: dict_or_raise_def handoff_value_def)
  have h: "pget ?h ''mode'' = PStr (hp_handoff_mode p)"
    "pget ?h ''target_agent_id'' = opt_str (hp_handoff_target p)"
    "fallback_of ?h = hp_fallback_to_manager p"
    by (simp_all add: fallback_of_def)
  have parts: "py_unique (List.map_filter hierarchy_edge_of (map hierarchy_edge_value (hp_edges p))) = hp_edges p"
    "rules_of (map (\<lambda>(s, ts). (s, ids_value ts)) (hp_delegation_rules p)) = hp_delegation_rules p"
    "rules_of (map (\<lambda>(s, ts). (s, ids_value ts)) (hp_brainstorm_rules p)) = hp_brainstorm_rules p"
    "clean_ids (ids_value (hp_reviewers p)) = hp_reviewers p"
    using sound by (simp_all add: sound_policy_def edges_fixed rules_fixed)
  have seq: "py_strip ''sequential'' = ''sequential''" by code_simp
  show ?thesis
    unfolding normalize_hierarchy_policy_def get edges rules handoff res_bind_simps h parts
      entry_fixed(4-7) [OF assms] stripped_or_opt_str entry_fixed(1,2) [OF assms]
    by (simp add: entry_fixed(3) [OF assms] seq)
qed

lemma copy_missing_stored: "copy_missing execution (hierarchy_policy_dict p) = hierarchy_policy_dict p"
  by (simp add: copy_missing_def COPIED_KEYS_def dhas_def hierarchy_policy_dict_def)

text \<open>
  A policy applied to the execution settings reads back as the normalised policy (a blank
  reviewer chain mode as the default), provided it has an edge or no graph layout is stored.
\<close>

theorem hierarchy_settings_roundtrip:
  assumes "normalize_hierarchy_policy raw = Inr p"
    and "apply_policy_to_execution execution raw = Inr execution'"
    and "hp_edges p \<noteq> [] \<or> \<not> is_dict (pget execution ''team_graph_layout'')"
  shows "policy_from_execution execution' =
    Inr (p\<lparr>hp_chain_mode := if hp_chain_mode p = [] then ''sequential'' else hp_chain_mode p\<rparr>)"
proof -
  let ?d = "hierarchy_policy_dict p"
  have stored: "pget execution' ''hierarchy_policy'' = PDict ?d"
    "pget execution' ''team_graph_layout'' = pget execution ''team_graph_layout''"
    using assms(1,2) by (auto simp: apply_policy_to_execution_def)
  have "dict_or_raise (PDict ?d) = Inr ?d" by (simp add: dict_or_raise_def hierarchy_policy_dict_def)
  moreover have "dhas ?d ''default_execution_mode''" by (simp add: dhas_def hierarchy_policy_dict_def)
  moreover have "truthy (pget ?d ''edges'') \<longleftrightarrow> hp_edges p \<noteq> []" by (simp add: hierarchy_policy_dict_def)
  ultimately have "policy_from_execution execution' = normalize_hierarchy_policy ?d"
    using assms(3)
    by (cases "pget execution ''team_graph_layout''")
      (auto simp: policy_from_execution_def stored copy_missing_stored is_dict_def Let_def)
  then show ?thesis by (simp add: normalize_policy_dict [OF assms(1)])
qed

section \<open>Validation\<close>

lemma validate_Inr:
  assumes "validate_hierarchy_policy policy members roles = Inr errors"
  obtains p where "normalize_hierarchy_policy policy = Inr p"
    "set errors = set (manager_errors members roles (hp_manager p)) \<union>
       set (reviewer_errors members roles (hp_reviewers p)) \<union>
       set (edge_member_errors members (hp_edges p)) \<union>
       set (delegation_cycle_errors members (hp_edges p)) \<union>
       set (rule_errors ''delegation'' members (hp_delegation_rules p)) \<union>
       set (rule_errors ''brainstorm'' members (hp_brainstorm_rules p)) \<union>
       set (case hp_handoff_target p of
          Some t \<Rightarrow> if t \<notin> set members
            then [''blocked handoff target must be a member of the project''] else []
        | None \<Rightarrow> [])"
  using assms unfolding validate_hierarchy_policy_def by (auto simp: Un_assoc)

text \<open>No other check reports the cycle error.\<close>

lemma cycle_error_unique:
  "CYCLE_ERROR \<notin> set (manager_errors members roles m)"
  "CYCLE_ERROR \<notin> set (reviewer_errors members roles rs)"
  "CYCLE_ERROR \<notin> set (edge_member_errors members es)"
  "CYCLE_ERROR \<notin> set (rule_errors ''delegation'' members rules)"
  "CYCLE_ERROR \<notin> set (rule_errors ''brainstorm'' members rules)"
  "CYCLE_ERROR \<noteq> ''blocked handoff target must be a member of the project''"
  by (auto simp: CYCLE_ERROR_def manager_errors_def reviewer_errors_def edge_member_errors_def
      rule_errors_def Let_def split: option.splits if_splits)

text \<open>
  C40. Validation reports a delegation cycle exactly when the delegation edges between members have
  one; the search always ends.
\<close>

theorem cycle_reported_exactly:
  assumes "validate_hierarchy_policy policy members roles = Inr errors"
    and "normalize_hierarchy_policy policy = Inr p"
  shows "CYCLE_ERROR \<in> set errors \<longleftrightarrow> (\<exists>v. (v, v) \<in> (delegates members (hp_edges p))\<^sup>+)"
proof -
  have "CYCLE_ERROR \<in> set errors \<longleftrightarrow> CYCLE_ERROR \<in> set (delegation_cycle_errors members (hp_edges p))"
    by (rule validate_Inr [OF assms(1)])
      (use assms(2) in \<open>simp add: cycle_error_unique split: option.split\<close>)
  also have "\<dots> \<longleftrightarrow> delegation_cycle_errors members (hp_edges p) \<noteq> []"
    using cycle_errors_set [of members "hp_edges p"]
    by (cases "delegation_cycle_errors members (hp_edges p)") auto
  finally show ?thesis by (simp add: cycle_errors_iff)
qed

lemma rule_errors_none:
  "rule_errors kind members rules = [] \<longleftrightarrow>
     (\<forall>(s, ts) \<in> set rules. s \<in> set members \<and> set ts \<subseteq> set members)"
proof (induction rules)
  case (Cons p rules)
  then show ?case
    by (cases p) (auto simp: rule_errors_def Let_def filter_empty_conv split: if_splits)
qed (simp add: rule_errors_def)

text \<open>
  A policy validated without an error has a manager or team lead of the project as manager, if
  any, reviewers that are members with a reviewing role, edges and rules between members only, and
  no delegation cycle.
\<close>

theorem validated_policy_sound:
  assumes "validate_hierarchy_policy policy members roles = Inr []"
    and "normalize_hierarchy_policy policy = Inr p"
  shows "(\<forall>m. hp_manager p = Some m \<longrightarrow>
           m \<in> set members \<and> dget roles m \<in> {Some ''manager'', Some ''team_lead''}) \<and>
    (\<forall>r \<in> set (hp_reviewers p). r \<in> set members \<and>
       dget roles r \<in> {Some ''reviewer'', Some ''manager'', Some ''team_lead''}) \<and>
    (members \<noteq> [] \<longrightarrow> hp_reviewers p \<noteq> []) \<and>
    list_all (members_only members) (hp_edges p) \<and>
    (\<forall>(s, ts) \<in> set (hp_delegation_rules p @ hp_brainstorm_rules p).
       s \<in> set members \<and> set ts \<subseteq> set members) \<and>
    (\<forall>t. hp_handoff_target p = Some t \<longrightarrow> t \<in> set members) \<and>
    (\<nexists>v. (v, v) \<in> (delegates members (hp_edges p))\<^sup>+)"
proof -
  have none: "manager_errors members roles (hp_manager p) = []"
    "reviewer_errors members roles (hp_reviewers p) = []"
    "edge_member_errors members (hp_edges p) = []"
    "delegation_cycle_errors members (hp_edges p) = []"
    "rule_errors ''delegation'' members (hp_delegation_rules p) = []"
    "rule_errors ''brainstorm'' members (hp_brainstorm_rules p) = []"
    "\<And>t. hp_handoff_target p = Some t \<Longrightarrow> t \<in> set members"
    by (rule validate_Inr [OF assms(1)]; use assms(2) in \<open>auto split: if_splits\<close>)+
  have "dget roles m \<in> {Some ''manager'', Some ''team_lead''} \<and> m \<in> set members"
    if "hp_manager p = Some m" for m
    using none(1) that by (auto simp: manager_errors_def split: if_splits)
  moreover have "\<forall>r \<in> set (hp_reviewers p). r \<in> set members"
    "\<forall>r \<in> set (hp_reviewers p). dget roles r \<in> {Some ''reviewer'', Some ''manager'', Some ''team_lead''}"
    "members \<noteq> [] \<longrightarrow> hp_reviewers p \<noteq> []"
    using none(2) by (auto simp: reviewer_errors_def Let_def filter_empty_conv split: if_splits)
  moreover have "list_all (members_only members) (hp_edges p)"
    using none(3) by (simp add: edge_member_errors_def filter_empty_conv list_all_iff)
  ultimately show ?thesis
    using none(4-7) cycle_errors_iff [of members "hp_edges p"] rule_errors_none by auto
qed

section \<open>Examples\<close>

text \<open>A manager delegating to a lead, reviewed by one agent; and the same with the lead delegating back.\<close>

definition demo_edge :: "string \<Rightarrow> string \<Rightarrow> pyval" where
  "demo_edge s t = PDict [(''source'', PStr s), (''target'', PStr t),
     (''data'', PDict [(''semantic'', PStr '' delegates_to '')])]"

definition demo_hierarchy :: "pyval list \<Rightarrow> pyval dict" where
  "demo_hierarchy edges =
     [(''manager_agent_id'', PStr '' m''), (''edges'', PList edges),
      (''delegation_rules'', PDict [(''m'', PStr ''l, l'')]),
      (''reviewer_agent_ids'', PList [PStr ''r'', PStr ''r '']), (''reviewer_chain_mode'', PStr '' ''),
      (''routing_mode'', PStr ''fastest'')]"

definition demo_team_edges :: "(string \<times> string) list \<Rightarrow> hierarchy_edge list" where
  "demo_team_edges es =
     map (\<lambda>(s, t). \<lparr>he_source = s, he_target = t, he_relationship = ''delegates_to''\<rparr>) es"

definition demo_team_policy :: "(string \<times> string) list \<Rightarrow> hierarchy_policy" where
  "demo_team_policy es =
     \<lparr>hp_manager = Some ''m'', hp_edges = demo_team_edges es,
      hp_delegation_rules = [(''m'', [''l''])], hp_brainstorm_rules = [], hp_reviewers = [''r''],
      hp_chain_mode = [], hp_routing_mode = ''capability_based'', hp_load_balance = ''queue_depth'',
      hp_execution_mode = ''single_agent'', hp_handoff_mode = ''escalation_path'',
      hp_handoff_target = None, hp_fallback_to_manager = True\<rparr>"

definition demo_roles :: "string dict" where
  "demo_roles = [(''m'', ''manager''), (''l'', ''team_lead''), (''r'', ''reviewer'')]"

lemma demo_normal:
  "normalize_hierarchy_policy (demo_hierarchy [demo_edge ''m'' ''l'']) = Inr (demo_team_policy [(''m'', ''l'')])"
  "normalize_hierarchy_policy (demo_hierarchy [demo_edge ''m'' ''l'', demo_edge ''l'' ''m'']) =
     Inr (demo_team_policy [(''m'', ''l''), (''l'', ''m'')])"
  by code_simp+

lemma demo_valid:
  "validate_hierarchy_policy (demo_hierarchy [demo_edge ''m'' ''l'']) [''l'', ''m'', ''r''] demo_roles = Inr []"
  "validate_hierarchy_policy (demo_hierarchy [demo_edge ''m'' ''l'', demo_edge ''l'' ''m''])
     [''l'', ''m'', ''r''] demo_roles = Inr [CYCLE_ERROR]"
  by code_simp+

lemma demo_applied:
  obtains e where "apply_policy_to_execution [] (demo_hierarchy [demo_edge ''m'' ''l'']) = Inr e"
    "dget e ''hierarchy_policy'' \<noteq> None"
  by (simp add: apply_policy_to_execution_def demo_normal)

theorem hierarchy_settings_roundtrip_witness:
  "\<exists>e. apply_policy_to_execution [] (demo_hierarchy [demo_edge ''m'' ''l'']) = Inr e \<and>
     policy_from_execution e = Inr (demo_team_policy [(''m'', ''l'')]\<lparr>hp_chain_mode := ''sequential''\<rparr>)"
proof -
  obtain e where e: "apply_policy_to_execution [] (demo_hierarchy [demo_edge ''m'' ''l'']) = Inr e"
    by (rule demo_applied)
  show ?thesis
    using hierarchy_settings_roundtrip [OF demo_normal(1) e] e by (simp add: demo_team_policy_def demo_team_edges_def)
qed

theorem cycle_reported_exactly_witness:
  "\<exists>v. (v, v) \<in> (delegates [''l'', ''m'', ''r''] (demo_team_edges [(''m'', ''l''), (''l'', ''m'')]))\<^sup>+"
  using cycle_reported_exactly [OF demo_valid(2) demo_normal(2)] by (simp add: demo_team_policy_def)

theorem validated_policy_sound_witness:
  "hp_manager (demo_team_policy [(''m'', ''l'')]) = Some ''m'' \<and> ''m'' \<in> set [''l'', ''m'', ''r''] \<and>
   (\<nexists>v. (v, v) \<in> (delegates [''l'', ''m'', ''r''] (demo_team_edges [(''m'', ''l'')]))\<^sup>+)"
  using validated_policy_sound [OF demo_valid(1) demo_normal(1)] by (simp add: demo_team_policy_def)

end
