(* ===== verification/Pagination.thy ===== *)
theory Pagination
  imports Prelude "HOL-Library.Product_Lexorder"
begin

text \<open>
  Cursor pagination, \<open>core/pagination.py\<close>: a page is fetched with one extra row, the last row kept
  is the cursor of the next page, and the next query asks for the rows beyond it by creation time
  and id. Times are microseconds since the epoch; ids compare by code point, as the tuples of the
  code do.
\<close>

section \<open>Pages\<close>

record cursor_token =
  ct_created_at :: int
  ct_id :: string
  ct_position :: "int option"

definition fetch_limit :: "int \<Rightarrow> int" where
  "fetch_limit limit = max 1 limit + 1"

text \<open>\<open>xs[:n]\<close>, a negative bound counting from the end.\<close>

definition py_prefix :: "int \<Rightarrow> 'a list \<Rightarrow> 'a list" where
  "py_prefix n xs = (if 0 \<le> n then take (nat n) xs else take (length xs - nat (- n)) xs)"

definition paginate_rows ::
  "'a list \<Rightarrow> int \<Rightarrow> ('a \<Rightarrow> cursor_token) \<Rightarrow> (string, 'a list \<times> cursor_token option) result" where
  "paginate_rows rows limit token_from_row =
     (if limit < int (length rows)
      then (let page = py_prefix limit rows in
            if page = [] then Inl ''IndexError'' else Inr (page, Some (token_from_row (last page))))
      else Inr (rows, None))"

definition build_cursor_page ::
  "'a list \<Rightarrow> int \<Rightarrow> ('a \<Rightarrow> cursor_token) \<Rightarrow> (string, 'a list \<times> cursor_token option) result" where
  "build_cursor_page rows limit token_from_row = paginate_rows rows limit token_from_row"

definition token_from_created_at_id :: "int \<times> string \<Rightarrow> cursor_token" where
  "token_from_created_at_id k = \<lparr>ct_created_at = fst k, ct_id = snd k, ct_position = None\<rparr>"

text \<open>A limit of zero once meant no limit and is now the configured maximum.\<close>

definition resolve_query_limit :: "int option \<Rightarrow> int \<Rightarrow> int \<Rightarrow> int" where
  "resolve_query_limit limit default_limit maximum =
     (let effective = (case limit of
          None \<Rightarrow> default_limit
        | Some n \<Rightarrow> if n = 0 then maximum else n)
      in max 1 (min effective maximum))"

section \<open>Cursors\<close>

definition given_id :: "string option \<Rightarrow> bool" where
  "given_id i \<longleftrightarrow> i \<noteq> None \<and> i \<noteq> Some []"

definition apply_desc_time_id_cursor ::
  "('a \<Rightarrow> int \<times> string) \<Rightarrow> int option \<Rightarrow> string option \<Rightarrow> 'a list \<Rightarrow> 'a list" where
  "apply_desc_time_id_cursor key created_at cursor_id rows =
     (case created_at of
        None \<Rightarrow> rows
      | Some t \<Rightarrow>
          if given_id cursor_id then filter (\<lambda>r. key r < (t, the cursor_id)) rows
          else filter (\<lambda>r. fst (key r) < t) rows)"

definition apply_asc_time_id_cursor ::
  "('a \<Rightarrow> int \<times> string) \<Rightarrow> int option \<Rightarrow> string option \<Rightarrow> 'a list \<Rightarrow> 'a list" where
  "apply_asc_time_id_cursor key created_at cursor_id rows =
     (case created_at of
        None \<Rightarrow> rows
      | Some t \<Rightarrow>
          if given_id cursor_id then filter (\<lambda>r. (t, the cursor_id) < key r) rows
          else filter (\<lambda>r. t < fst (key r)) rows)"

text \<open>\<open>ORDER BY created_at DESC, id DESC LIMIT n\<close>\<close>

definition newest_first :: "('a \<Rightarrow> int \<times> string) \<Rightarrow> 'a list \<Rightarrow> 'a list" where
  "newest_first key rows = rev (sort_key key rows)"

definition token_time :: "cursor_token option \<Rightarrow> int option" where
  "token_time c = map_option ct_created_at c"

definition token_id :: "cursor_token option \<Rightarrow> string option" where
  "token_id c = map_option ct_id c"

section \<open>Facts\<close>

definition desc_by :: "('a \<Rightarrow> int \<times> string) \<Rightarrow> 'a list \<Rightarrow> bool" where
  "desc_by key rows \<longleftrightarrow> sorted_wrt (\<lambda>a b. key b < key a) rows"

definition keyed :: "('a \<Rightarrow> int \<times> string) \<Rightarrow> 'a list \<Rightarrow> bool" where
  "keyed key rows \<longleftrightarrow> distinct (map key rows) \<and> list_all (\<lambda>r. snd (key r) \<noteq> []) rows"

lemma desc_newest_first: "keyed key rows \<Longrightarrow> desc_by key (newest_first key rows)"
proof -
  assume "keyed key rows"
  then have "distinct (map key (sort_key key rows))" by (simp add: keyed_def distinct_map)
  moreover have "sorted (map key (sort_key key rows))" by (rule sorted_sort_key)
  ultimately have "sorted_wrt (<) (map key (sort_key key rows))" by (simp only: strict_sorted_iff)
  then show ?thesis
    by (simp only: desc_by_def newest_first_def sorted_wrt_rev sorted_wrt_map)
qed

lemma set_newest_first [simp]: "set (newest_first key rows) = set rows"
  by (simp add: newest_first_def)

lemma keyed_filter: "keyed key rows \<Longrightarrow> keyed key (filter P rows)"
  by (auto simp: keyed_def distinct_map list_all_iff inj_on_def)

lemma length_newest_first [simp]: "length (newest_first key rows) = length rows"
  by (simp add: newest_first_def)

definition beyond :: "cursor_token option \<Rightarrow> int \<times> string \<Rightarrow> bool" where
  "beyond c k = (case c of
       None \<Rightarrow> True
     | Some t \<Rightarrow> if ct_id t \<noteq> [] then k < (ct_created_at t, ct_id t) else fst k < ct_created_at t)"

lemma set_desc_cursor:
  "set (apply_desc_time_id_cursor key (token_time c) (token_id c) rows) =
     {r \<in> set rows. beyond c (key r)}"
  by (cases c)
    (auto simp: apply_desc_time_id_cursor_def token_time_def token_id_def given_id_def beyond_def)

lemma desc_cursor_filter:
  "\<exists>P. apply_desc_time_id_cursor key t i rows = filter P rows"
proof -
  have "\<exists>P. rows = filter P rows" by (rule exI [of _ "\<lambda>_. True"]) simp
  then show ?thesis unfolding apply_desc_time_id_cursor_def
    by (cases t; cases "given_id i") auto
qed

lemma keyed_cursor: "keyed key rows \<Longrightarrow> keyed key (apply_desc_time_id_cursor key t i rows)"
  using desc_cursor_filter [of key t i rows] keyed_filter by metis

text \<open>What a page is, for a positive limit.\<close>

lemma paginate_positive:
  assumes "0 < limit"
  shows "paginate_rows rows limit tok =
    (if length rows \<le> nat limit then Inr (rows, None)
     else Inr (take (nat limit) rows, Some (tok (rows ! (nat limit - 1)))))"
proof -
  have "last (take (nat limit) rows) = rows ! (nat limit - 1)" if "nat limit < length rows"
    using that assms by (subst last_conv_nth) auto
  then show ?thesis using assms
    by (auto simp: paginate_rows_def py_prefix_def Let_def)
qed

lemma set_py_prefix: "set (py_prefix n xs) \<subseteq> set xs"
  by (auto simp: py_prefix_def dest: in_set_takeD)

lemma paginate_Some:
  assumes "paginate_rows rows limit tok = Inr (page, Some t)"
  shows "page \<noteq> []" "t = tok (last page)" "set page \<subseteq> set rows"
  using assms set_py_prefix [of limit rows]
  by (auto simp: paginate_rows_def Let_def split: if_splits)

lemma resolve_query_limit_positive [simp]: "0 < resolve_query_limit l d m"
  by (simp add: resolve_query_limit_def Let_def)

section \<open>One page\<close>

text \<open>What a page holds of the rows \<open>S\<close> beyond the cursor, and what it leaves to the next one.\<close>

definition page_law ::
  "('a \<Rightarrow> int \<times> string) \<Rightarrow> 'a set \<Rightarrow> 'a list \<Rightarrow> cursor_token option \<Rightarrow> bool" where
  "page_law key S page next \<longleftrightarrow> desc_by key page \<and> set page \<subseteq> S \<and>
     (case next of
        None \<Rightarrow> S \<subseteq> set page
      | Some t \<Rightarrow> page \<noteq> [] \<and> t = token_from_created_at_id (key (last page)) \<and>
          (\<forall>r \<in> S - set page. key r < key (last page)))"

lemma page_law_last: "page_law key S page (Some t) \<Longrightarrow> last page \<in> S"
  using last_in_set by (auto simp: page_law_def)

lemma desc_by_take: "desc_by key rows \<Longrightarrow> desc_by key (take n rows)"
  by (simp add: desc_by_def sorted_wrt_take)

lemma page_law_prefix:
  assumes "desc_by key rows" "0 < n" "n < length rows"
  shows "page_law key (set rows) (take n rows) (Some (token_from_created_at_id (key (rows ! (n - 1)))))"
proof -
  have last: "last (take n rows) = rows ! (n - 1)"
    using assms by (subst last_conv_nth) auto
  have "key r < key (rows ! (n - 1))" if "r \<in> set rows - set (take n rows)" for r
  proof -
    from that have "r \<in> set rows" by simp
    then obtain i where i: "rows ! i = r" "i < length rows" unfolding in_set_conv_nth by blast
    moreover have "\<not> i < n" using that i by (auto simp: in_set_conv_nth)
    ultimately show ?thesis
      using assms by (auto simp: desc_by_def sorted_wrt_iff_nth_less)
  qed
  then show ?thesis
    using assms by (auto simp: page_law_def desc_by_take last dest: in_set_takeD)
qed

lemma fetched_page:
  fixes c :: "cursor_token option"
  assumes "keyed key rows" "0 < limit"
  defines "S \<equiv> {r \<in> set rows. beyond c (key r)}"
  shows "\<exists>page next. paginate_rows
      (py_prefix (fetch_limit limit)
        (newest_first key (apply_desc_time_id_cursor key (token_time c) (token_id c) rows)))
      limit (token_from_created_at_id \<circ> key) = Inr (page, next) \<and> page_law key S page next"
proof -
  define rest where
    "rest = newest_first key (apply_desc_time_id_cursor key (token_time c) (token_id c) rows)"
  have S: "set rest = S"
    unfolding rest_def S_def by (simp add: set_desc_cursor)
  have desc: "desc_by key rest"
    unfolding rest_def by (intro desc_newest_first keyed_cursor assms)
  have "py_prefix (fetch_limit limit) rest = take (nat limit + 1) rest"
    using assms(2) by (simp add: py_prefix_def fetch_limit_def nat_add_distrib)
  then show ?thesis
    using page_law_prefix [OF desc, of "nat limit"] assms(2) desc S
    unfolding rest_def [symmetric]
    by (auto simp: paginate_positive page_law_def)
qed

lemma last_least:
  assumes "desc_by key page" "r \<in> set page"
  shows "key (last page) \<le> key r"
proof -
  have "page \<noteq> []" using assms(2) by auto
  then have "page = butlast page @ [last page]" by simp
  then have "r = last page \<or> key (last page) < key r"
    using assms by (metis (no_types, lifting) desc_by_def in_set_conv_decomp rotate1.simps(2)
        set_ConsD set_rotate1 sorted_wrt_append list.set_intros(1))
  then show ?thesis by auto
qed

lemma beyond_less: "beyond c a \<Longrightarrow> b < a \<Longrightarrow> beyond c b"
  by (cases c) (auto simp: beyond_def less_prod_def split: if_splits)

section \<open>Walks\<close>

text \<open>
  A client that follows the cursors. The store may change between two requests: each request
  meets the next of \<open>dbs\<close>. The flag says that the last page came without a cursor.
\<close>

fun walk ::
  "('db \<Rightarrow> cursor_token option \<Rightarrow> (string, 'a list \<times> cursor_token option) result) \<Rightarrow>
   'db list \<Rightarrow> cursor_token option \<Rightarrow> (string, 'a list \<times> bool) result" where
  "walk fetch [] c = Inr ([], False)"
| "walk fetch (db # dbs) c =
     res_bind (fetch db c) (\<lambda>(page, next).
       case next of
         None \<Rightarrow> Inr (page, True)
       | Some t \<Rightarrow> res_bind (walk fetch dbs (Some t)) (\<lambda>(rest, fin). Inr (page @ rest, fin)))"

locale cursor_listing =
  fixes key :: "'a \<Rightarrow> int \<times> string"
    and rows :: "'db \<Rightarrow> 'a list"
    and fetch :: "'db \<Rightarrow> cursor_token option \<Rightarrow> (string, 'a list \<times> cursor_token option) result"
  assumes fetch_page: "keyed key (rows db) \<Longrightarrow>
    \<exists>page next. fetch db c = Inr (page, next) \<and> page_law key {r \<in> set (rows db). beyond c (key r)} page next"
begin

lemma beyond_last:
  assumes "keyed key (rows db)" "page_law key {r \<in> set (rows db). beyond c (key r)} page (Some t)"
  shows "beyond (Some t) (key r) \<longleftrightarrow> key r < key (last page)"
proof -
  have "last page \<in> set (rows db)" using page_law_last [OF assms(2)] by simp
  then have "snd (key (last page)) \<noteq> []" using assms(1) by (auto simp: keyed_def list_all_iff)
  then show ?thesis using assms(2)
    by (simp add: page_law_def beyond_def token_from_created_at_id_def)
qed

lemma walk_complete:
  assumes "\<forall>db \<in> set dbs. keyed key (rows db)"
  shows "\<exists>seen fin. walk fetch dbs c = Inr (seen, fin) \<and> desc_by key seen \<and>
    (\<forall>r \<in> set seen. beyond c (key r) \<and> (\<exists>db \<in> set dbs. r \<in> set (rows db))) \<and>
    (fin \<longrightarrow> (\<forall>k. beyond c k \<and> (\<forall>db \<in> set dbs. k \<in> key ` set (rows db)) \<longrightarrow> k \<in> key ` set seen))"
  using assms
proof (induction dbs arbitrary: c)
  case (Cons db dbs)
  have keyed: "keyed key (rows db)" using Cons.prems by simp
  obtain page "next" where page: "fetch db c = Inr (page, next)"
    "page_law key {r \<in> set (rows db). beyond c (key r)} page next"
    using fetch_page [OF keyed] by blast
  show ?case
  proof (cases "next")
    case None
    have "k \<in> key ` set page" if k: "beyond c k" "k \<in> key ` set (rows db)" for k
    proof -
      obtain r where "r \<in> set (rows db)" "k = key r" using k(2) by auto
      then show ?thesis using k(1) page(2) None by (auto simp: page_law_def)
    qed
    moreover have "walk fetch (db # dbs) c = Inr (page, True)" using page(1) None by simp
    moreover have "desc_by key page" "set page \<subseteq> {r \<in> set (rows db). beyond c (key r)}"
      using page(2) by (simp_all add: page_law_def)
    ultimately show ?thesis by (intro exI [of _ page] exI [of _ True]) auto
  next
    case (Some t)
    obtain seen fin where ih: "walk fetch dbs (Some t) = Inr (seen, fin)" "desc_by key seen"
      "\<forall>r \<in> set seen. beyond (Some t) (key r) \<and> (\<exists>db \<in> set dbs. r \<in> set (rows db))"
      "fin \<longrightarrow> (\<forall>k. beyond (Some t) k \<and> (\<forall>db \<in> set dbs. k \<in> key ` set (rows db)) \<longrightarrow>
         k \<in> key ` set seen)"
      using Cons.IH [of "Some t"] Cons.prems by auto
    note next_page = beyond_last [OF keyed page(2) [unfolded Some]]
    have last: "last page \<in> {r \<in> set (rows db). beyond c (key r)}"
      by (rule page_law_last [OF page(2) [unfolded Some]])
    have in_page: "desc_by key page"
      "set page \<subseteq> {r \<in> set (rows db). beyond c (key r)}"
      "\<forall>r \<in> {r \<in> set (rows db). beyond c (key r)} - set page. key r < key (last page)"
      using page(2) Some by (auto simp: page_law_def)
    have later: "\<forall>r \<in> set seen. key r < key (last page)" using ih(3) next_page by simp
    have "desc_by key (page @ seen)"
      using in_page(1) ih(2) later last_least [OF in_page(1)]
      by (auto simp: desc_by_def sorted_wrt_append intro: less_le_trans)
    moreover have "beyond c (key r) \<and> (\<exists>db \<in> set (db # dbs). r \<in> set (rows db))"
      if "r \<in> set (page @ seen)" for r
    proof (cases "r \<in> set page")
      case False
      then have "r \<in> set seen" using that by simp
      then show ?thesis using beyond_less [of c "key (last page)" "key r"] last later ih(3) by auto
    qed (use in_page(2) in auto)
    moreover have "k \<in> key ` set (page @ seen)"
      if k: "fin" "beyond c k" "\<forall>db \<in> set (db # dbs). k \<in> key ` set (rows db)" for k
    proof -
      obtain r where r: "r \<in> set (rows db)" "k = key r" using k(3) by auto
      have "beyond c (key r)" using k(2) r(2) by simp
      then have "r \<in> set page \<or> beyond (Some t) k"
        using in_page(3) r next_page by auto
      then show ?thesis using ih(4) k(1,3) r(2) by (auto simp del: split_paired_All split_paired_Ex)
    qed
    ultimately show ?thesis using page(1) ih(1) Some by auto
  qed
qed (simp add: desc_by_def, blast)

text \<open>On a store that stays as it is, a request more than there are rows reaches the end.\<close>

lemma walk_ends:
  assumes "keyed key (rows db)" "card {r \<in> set (rows db). beyond c (key r)} < n"
  shows "\<exists>seen. walk fetch (replicate n db) c = Inr (seen, True)"
  using assms(2)
proof (induction n arbitrary: c)
  case (Suc n)
  let ?S = "\<lambda>c. {r \<in> set (rows db). beyond c (key r)}"
  obtain page "next" where page: "fetch db c = Inr (page, next)" "page_law key (?S c) page next"
    using fetch_page [OF assms(1)] by blast
  show ?case
  proof (cases "next")
    case (Some t)
    note next_page = beyond_last [OF assms(1) page(2) [unfolded Some]]
    have last: "last page \<in> ?S c" by (rule page_law_last [OF page(2) [unfolded Some]])
    have "?S (Some t) \<subseteq> ?S c" using next_page last beyond_less [of c "key (last page)"] by blast
    moreover have "last page \<notin> ?S (Some t)" using next_page by simp
    ultimately have "card (?S (Some t)) < card (?S c)" using last by (intro psubset_card_mono) auto
    then obtain seen where "walk fetch (replicate n db) (Some t) = Inr (seen, True)"
      using Suc by force
    then show ?thesis using page(1) Some by simp
  qed (use page in simp)
qed simp

end

end
