(* ===== verification/Notifications.thy ===== *)
theory Notifications
  imports Pagination
begin

text \<open>
  The notification store (\<open>notifications/repository.py\<close>) and its paginated listing
  (\<open>notifications/router.py\<close>), and the in-memory walk \<open>simulate_desc_time_id_pages\<close> of
  \<open>core/pagination.py\<close>. Rows are in insertion order; the id of a new row is chosen by the caller
  of the model, as \<open>uuid4\<close> does.
\<close>

section \<open>The store\<close>

record notification =
  nt_id :: string
  nt_user :: string
  nt_type :: string
  nt_title :: string
  nt_body :: "string option"
  nt_read :: bool
  nt_created_at :: int

type_synonym notification_db = "notification list"

definition notification_key :: "notification \<Rightarrow> int \<times> string" where
  "notification_key n = (nt_created_at n, nt_id n)"

definition create_notification ::
  "string \<Rightarrow> int \<Rightarrow> string \<Rightarrow> string \<Rightarrow> string \<Rightarrow> string option \<Rightarrow> notification_db \<Rightarrow> notification_db" where
  "create_notification new_id now user_id kind title body db =
     db @ [\<lparr>nt_id = new_id, nt_user = user_id, nt_type = kind, nt_title = title, nt_body = body,
            nt_read = False, nt_created_at = now\<rparr>]"

definition owned_by :: "string \<Rightarrow> notification_db \<Rightarrow> notification list" where
  "owned_by user_id db = filter (\<lambda>n. nt_user n = user_id) db"

definition list_for_user ::
  "int \<Rightarrow> int \<Rightarrow> string \<Rightarrow> int option \<Rightarrow> int option \<Rightarrow> string option \<Rightarrow> notification_db \<Rightarrow>
   notification list" where
  "list_for_user default_limit maximum user_id limit created_at cursor_id db =
     (let cap = resolve_query_limit limit default_limit maximum
      in py_prefix (fetch_limit cap) (newest_first notification_key
           (apply_desc_time_id_cursor notification_key created_at cursor_id (owned_by user_id db))))"

definition count_unread_for_user :: "string \<Rightarrow> notification_db \<Rightarrow> nat" where
  "count_unread_for_user user_id db = length (filter (\<lambda>n. \<not> nt_read n) (owned_by user_id db))"

definition mark_read :: "string \<Rightarrow> notification_db \<Rightarrow> notification_db" where
  "mark_read ident db = map (\<lambda>n. if nt_id n = ident then n\<lparr>nt_read := True\<rparr> else n) db"

definition mark_all_read :: "string \<Rightarrow> notification_db \<Rightarrow> notification_db" where
  "mark_all_read user_id db =
     map (\<lambda>n. if nt_user n = user_id \<and> \<not> nt_read n then n\<lparr>nt_read := True\<rparr> else n) db"

definition list_notifications ::
  "int \<Rightarrow> int \<Rightarrow> string \<Rightarrow> int \<Rightarrow> notification_db \<Rightarrow> cursor_token option \<Rightarrow>
   (string, notification list \<times> cursor_token option) result" where
  "list_notifications default_limit maximum user_id limit db c =
     (let effective = resolve_query_limit (Some limit) default_limit maximum;
          rows = list_for_user default_limit maximum user_id (Some effective)
                   (token_time c) (token_id c) db
      in build_cursor_page rows effective (token_from_created_at_id \<circ> notification_key))"

section \<open>The walk in memory\<close>

function pages_from ::
  "int \<Rightarrow> (int \<times> string) list \<Rightarrow> cursor_token option \<Rightarrow> (string, (int \<times> string) list list) result" where
  "pages_from limit entities c =
     (case paginate_rows
             (py_prefix (fetch_limit limit)
               (apply_desc_time_id_cursor id (token_time c) (token_id c) entities))
             limit token_from_created_at_id of
        Inl e \<Rightarrow> Inl e
      | Inr (page, next) \<Rightarrow>
          if page = [] then Inr []
          else (case next of
             None \<Rightarrow> Inr [page]
           | Some t \<Rightarrow> res_bind (pages_from limit entities (Some t)) (\<lambda>pages. Inr (page # pages))))"
  by pat_completeness auto
termination
proof (relation "measure (\<lambda>(limit, entities, c). card {r \<in> set entities. beyond c r})",
    goal_cases)
  case (2 limit entities c p page "next" t)
  let ?rest = "apply_desc_time_id_cursor id (token_time c) (token_id c) entities"
  have "paginate_rows (py_prefix (fetch_limit limit) ?rest) limit token_from_created_at_id =
      Inr (page, Some t)"
    using 2 by simp
  note page = paginate_Some [OF this]
  have "last page \<in> set ?rest" using page(1,3) set_py_prefix by (meson last_in_set subsetD)
  then have last: "last page \<in> {r \<in> set entities. beyond c r}"
    by (simp add: set_desc_cursor)
  have "{r \<in> set entities. beyond (Some t) r} \<subset> {r \<in> set entities. beyond c r}"
    using last page(2)
    by (cases c) (auto simp: beyond_def token_from_created_at_id_def less_prod_def split: if_splits)
  then show ?case by (simp add: psubset_card_mono)
qed simp

declare pages_from.simps [simp del]

definition simulate_desc_time_id_pages ::
  "(int \<times> string) list \<Rightarrow> int \<Rightarrow> (string, (int \<times> string) list list) result" where
  "simulate_desc_time_id_pages rows limit = pages_from limit (newest_first id rows) None"

section \<open>The listing follows the page law\<close>

text \<open>The primary key, and its preservation by the operations.\<close>

definition notifications_wf :: "notification_db \<Rightarrow> bool" where
  "notifications_wf db \<longleftrightarrow> distinct (map nt_id db) \<and> [] \<notin> nt_id ` set db"

lemma create_notification_wf:
  "notifications_wf db \<Longrightarrow> new_id \<noteq> [] \<Longrightarrow> new_id \<notin> nt_id ` set db \<Longrightarrow>
   notifications_wf (create_notification new_id now u k t b db)"
  by (auto simp: notifications_wf_def create_notification_def)

lemma mark_read_wf [simp]:
  "notifications_wf (mark_read i db) \<longleftrightarrow> notifications_wf db"
  "notifications_wf (mark_all_read u db) \<longleftrightarrow> notifications_wf db"
proof -
  have "map nt_id (mark_read i db) = map nt_id db" "map nt_id (mark_all_read u db) = map nt_id db"
    by (simp_all add: mark_read_def mark_all_read_def)
  moreover have "notifications_wf d \<longleftrightarrow> distinct (map nt_id d) \<and> [] \<notin> set (map nt_id d)" for d
    by (simp add: notifications_wf_def)
  ultimately show "notifications_wf (mark_read i db) \<longleftrightarrow> notifications_wf db"
    "notifications_wf (mark_all_read u db) \<longleftrightarrow> notifications_wf db"
    by metis+
qed

lemma keyed_owned: "notifications_wf db \<Longrightarrow> keyed notification_key (owned_by u db)"
proof -
  assume wf: "notifications_wf db"
  have "distinct (map notification_key db)"
    using wf by (auto simp: notifications_wf_def notification_key_def distinct_map inj_on_def)
  then have "keyed notification_key db"
    using wf
    by (simp add: keyed_def notifications_wf_def list_all_iff notification_key_def) (metis image_eqI)
  then show ?thesis by (simp add: owned_by_def keyed_filter)
qed

lemma resolve_resolved:
  "resolve_query_limit (Some (resolve_query_limit l d m)) d m = resolve_query_limit l d m"
proof -
  have "resolve_query_limit l d m \<noteq> 0"
    by (metis less_irrefl resolve_query_limit_positive)
  then show ?thesis by (auto simp: resolve_query_limit_def Let_def split: option.splits if_splits)
qed

interpretation listing: cursor_listing notification_key "owned_by u" "list_notifications d m u l"
  for u d m l
proof
  fix db c
  assume "keyed notification_key (owned_by u db)"
  from fetched_page [OF this resolve_query_limit_positive, where c = c, of "Some l" d m]
  show "\<exists>page next. list_notifications d m u l db c = Inr (page, next) \<and>
      page_law notification_key {r \<in> set (owned_by u db). beyond c (notification_key r)} page next"
    by (simp add: list_notifications_def list_for_user_def build_cursor_page_def resolve_resolved Let_def)
qed

text \<open>
  C38. Following the cursors of the notification list from the start, whatever is created, marked or
  deleted between the requests: no notification is delivered twice, and when the last page has come,
  every notification that was there all the time has been delivered. On a store that does not change
  the last page comes after at most as many requests as there are notifications, and one.
\<close>

theorem notification_walk_complete:
  assumes "list_all notifications_wf dbs"
  shows "\<exists>seen fin. walk (list_notifications d m u l) dbs None = Inr (seen, fin) \<and>
    distinct (map notification_key seen) \<and>
    (\<forall>n \<in> set seen. \<exists>db \<in> set dbs. n \<in> set (owned_by u db)) \<and>
    (fin \<longrightarrow> (\<forall>k. (\<forall>db \<in> set dbs. k \<in> notification_key ` set (owned_by u db)) \<longrightarrow>
       k \<in> notification_key ` set seen)) \<and>
    (\<forall>db n. dbs = replicate n db \<and> length (owned_by u db) < n \<longrightarrow> fin)"
proof -
  have "\<forall>db \<in> set dbs. keyed notification_key (owned_by u db)"
    using assms by (auto simp: list_all_iff keyed_owned)
  from listing.walk_complete [OF this, of d m l None]
  obtain seen fin where seen: "walk (list_notifications d m u l) dbs None = Inr (seen, fin)"
    "desc_by notification_key seen"
    "\<forall>n \<in> set seen. \<exists>db \<in> set dbs. n \<in> set (owned_by u db)"
    "fin \<longrightarrow> (\<forall>k. (\<forall>db \<in> set dbs. k \<in> notification_key ` set (owned_by u db)) \<longrightarrow>
       k \<in> notification_key ` set seen)"
    by (auto simp: beyond_def simp del: split_paired_All split_paired_Ex)
  have "sorted_wrt (\<lambda>a b. b < a) (map notification_key seen)"
    using seen(2) by (simp add: desc_by_def sorted_wrt_map)
  then have "sorted_wrt (<) (rev (map notification_key seen))" by (simp only: sorted_wrt_rev)
  then have "distinct (map notification_key seen)"
    using strict_sorted_iff [of "rev (map notification_key seen)"] by (simp only: distinct_rev)
  moreover have "fin" if "dbs = replicate n db" "length (owned_by u db) < n" for db n
  proof -
    have "keyed notification_key (owned_by u db)"
      using assms that by (auto simp: list_all_iff keyed_owned)
    moreover have "card {r \<in> set (owned_by u db). beyond None (notification_key r)} < n"
      using that(2) card_length [of "owned_by u db"] by (simp add: beyond_def)
    ultimately have "\<exists>s. walk (list_notifications d m u l) (replicate n db) None = Inr (s, True)"
      by (rule listing.walk_ends)
    then show ?thesis using seen(1) that(1) by auto
  qed
  ultimately show ?thesis using seen(1,3,4) by blast
qed

section \<open>The walk in memory is exact\<close>

lemma desc_by_filter: "desc_by key rows \<Longrightarrow> desc_by key (filter P rows)"
  by (simp add: desc_by_def sorted_wrt_filter)

lemma filter_after:
  assumes "desc_by id rows" "0 < n" "n < length rows"
  shows "filter (\<lambda>r. r < rows ! (n - 1)) rows = drop n rows"
proof -
  have below: "\<not> r < rows ! (n - 1)" if "r \<in> set (take n rows)" for r
  proof -
    have "rows ! (n - 1) = last (take n rows)" using assms by (subst last_conv_nth) auto
    then show ?thesis
      using last_least [OF desc_by_take [OF assms(1)] that] by (simp add: not_less)
  qed
  have above: "r < rows ! (n - 1)" if "r \<in> set (drop n rows)" for r
  proof -
    from that obtain i where "drop n rows ! i = r" "i < length (drop n rows)"
      unfolding in_set_conv_nth by blast
    then show ?thesis
      using assms by (auto simp: desc_by_def sorted_wrt_iff_nth_less)
  qed
  have "filter (\<lambda>r. r < rows ! (n - 1)) (take n rows @ drop n rows) = drop n rows"
    unfolding filter_append using below above by (simp add: filter_empty_conv filter_id_conv)
  then show ?thesis by simp
qed

lemma desc_cursor_beyond:
  "apply_desc_time_id_cursor key (token_time c) (token_id c) rows =
     filter (\<lambda>r. beyond c (key r)) rows"
  by (cases c)
    (simp_all add: apply_desc_time_id_cursor_def token_time_def token_id_def given_id_def beyond_def)

lemma pages_from_exact:
  assumes "desc_by id entities" "list_all (\<lambda>r. snd r \<noteq> []) entities" "0 < limit"
  shows "\<exists>pages. pages_from limit entities c = Inr pages \<and>
    concat pages = filter (beyond c) entities \<and>
    list_all (\<lambda>p. p \<noteq> [] \<and> int (length p) \<le> limit) pages"
  using assms
proof (induction limit entities c rule: pages_from.induct)
  case (1 limit entities c)
  let ?rest = "filter (beyond c) entities" and ?n = "nat limit"
  have desc: "desc_by id ?rest" by (rule desc_by_filter [OF 1(2)])
  have prefix: "py_prefix (fetch_limit limit) ?rest = take (Suc ?n) ?rest"
    using 1(4) by (simp add: py_prefix_def fetch_limit_def nat_add_distrib)
  have rest: "apply_desc_time_id_cursor id (token_time c) (token_id c) entities = ?rest"
    by (simp add: desc_cursor_beyond)
  show ?case
  proof (cases "length ?rest \<le> ?n")
    case True
    have "pages_from limit entities c = Inr (if ?rest = [] then [] else [?rest])"
      using True unfolding pages_from.simps [of limit entities c] rest prefix
      by (simp add: paginate_positive [OF 1(4)])
    then show ?thesis using True 1(4) by auto
  next
    case False
    let ?t = "token_from_created_at_id (?rest ! (?n - 1))"
    have page: "paginate_rows (py_prefix (fetch_limit limit) ?rest) limit token_from_created_at_id =
        Inr (take ?n ?rest, Some ?t)"
      using False 1(4) by (simp add: prefix paginate_positive)
    have "snd (?rest ! (?n - 1)) \<noteq> []"
    proof -
      have "?rest ! (?n - 1) \<in> set ?rest" using False by (intro nth_mem) auto
      then show ?thesis using 1(3) by (auto simp: list_all_iff)
    qed
    then have "filter (beyond (Some ?t)) entities = filter (\<lambda>r. r < ?rest ! (?n - 1)) entities"
      by (intro filter_cong) (simp_all add: beyond_def token_from_created_at_id_def)
    also have "\<dots> = filter (\<lambda>r. r < ?rest ! (?n - 1)) ?rest"
    proof -
      have "?rest ! (?n - 1) \<in> set ?rest" using False by (intro nth_mem) auto
      then have "beyond c (?rest ! (?n - 1))" by simp
      then have "r < ?rest ! (?n - 1) \<longleftrightarrow> beyond c r \<and> r < ?rest ! (?n - 1)" for r
        using beyond_less by blast
      then show ?thesis by (simp add: filter_filter cong: filter_cong)
    qed
    also have "\<dots> = drop ?n ?rest"
      by (rule filter_after [OF desc]) (use False 1(4) in auto)
    finally have drop: "filter (beyond (Some ?t)) entities = drop ?n ?rest" .
    have nonempty: "take ?n ?rest \<noteq> []" using False 1(4) by auto
    obtain pages where pages: "pages_from limit entities (Some ?t) = Inr pages"
      "concat pages = drop ?n ?rest" "list_all (\<lambda>p. p \<noteq> [] \<and> int (length p) \<le> limit) pages"
      using 1(1) [of "(take ?n ?rest, Some ?t)" "take ?n ?rest" "Some ?t" ?t] 1(2-4) page nonempty
      unfolding rest drop by auto
    have "pages_from limit entities c = Inr (take ?n ?rest # pages)"
      unfolding pages_from.simps [of limit entities c] rest page using nonempty pages(1) by simp
    then show ?thesis using pages(2,3) nonempty 1(4) by auto
  qed
qed

text \<open>
  C39. For a positive limit and rows with distinct keys the loop over the pages ends, no page is empty
  or longer than the limit, and the pages together are all rows, newest first.
\<close>

theorem simulated_pages_exact:
  assumes "keyed id rows" "0 < limit"
  shows "\<exists>pages. simulate_desc_time_id_pages rows limit = Inr pages \<and>
    concat pages = newest_first id rows \<and>
    list_all (\<lambda>p. p \<noteq> [] \<and> int (length p) \<le> limit) pages"
  unfolding simulate_desc_time_id_pages_def
  using pages_from_exact [of "newest_first id rows" limit None] assms desc_newest_first [OF assms(1)]
  by (auto simp: beyond_def keyed_def list_all_iff)

section \<open>Examples\<close>

text \<open>Three notifications of one user, one of another; a fourth arrives after the first request.\<close>

definition demo_inbox :: notification_db where
  "demo_inbox =
     create_notification ''d'' 7 ''v'' ''k'' ''t'' None
    (create_notification ''c'' 7 ''u'' ''k'' ''t'' None
    (create_notification ''b'' 5 ''u'' ''k'' ''t'' None
    (create_notification ''a'' 7 ''u'' ''k'' ''t'' None [])))"

definition demo_inboxes :: "notification_db list" where
  "demo_inboxes =
     [demo_inbox, mark_all_read ''u'' (create_notification ''e'' 9 ''u'' ''k'' ''t'' None demo_inbox)]"

lemma demo_inboxes_wf: "list_all notifications_wf demo_inboxes"
  by code_simp

lemma demo_walk:
  "map_sum id (\<lambda>(seen, fin). (map nt_id seen, fin))
     (walk (list_notifications 50 100 ''u'' 2) demo_inboxes None) = Inr ([''c'', ''a'', ''b''], True)"
  by code_simp

theorem notification_walk_complete_witness:
  "\<exists>seen. walk (list_notifications 50 100 ''u'' 2) demo_inboxes None = Inr (seen, True) \<and>
     map nt_id seen = [''c'', ''a'', ''b''] \<and> distinct (map notification_key seen)"
proof -
  obtain seen fin where "walk (list_notifications 50 100 ''u'' 2) demo_inboxes None = Inr (seen, fin)"
    "distinct (map notification_key seen)"
    using notification_walk_complete [OF demo_inboxes_wf, of 50 100 "''u''" 2] by blast
  then show ?thesis using demo_walk by simp
qed

theorem simulated_pages_exact_witness:
  "\<exists>pages. simulate_desc_time_id_pages [(5, ''b''), (7, ''a''), (7, ''c'')] 2 = Inr pages \<and>
     concat pages = [(7, ''c''), (7, ''a''), (5, ''b'')]"
proof -
  have "keyed id [(5, ''b''), (7, ''a''), (7, ''c'')]" by code_simp
  moreover have "newest_first id [(5, ''b''), (7, ''a''), (7, ''c'')] =
      [(7, ''c''), (7, ''a''), (5 :: int, ''b'')]"
    by code_simp
  ultimately show ?thesis
    using simulated_pages_exact [of "[(5, ''b''), (7, ''a''), (7, ''c'')]" 2] by auto
qed

end
