(* ===== verification/Parallel_Groups.thy ===== *)
theory Parallel_Groups
  imports Governance_Properties
begin

text \<open>
  Parallel groups of read-only tool calls, \<open>orchestration/execution/parallel_group.py\<close>: which calls
  may share a group, how a list of calls is cut into batches, and the three semaphores that bound how
  many run at once.

  A call is the dictionary a model produced. The event loop may resume any coroutine whose semaphore
  has a permit left; this choice is the nondeterminism of \<open>pool_step\<close>.
\<close>

section \<open>Eligibility\<close>

type_synonym tool_call = "pyval dict"

definition called_tool :: "tool_call \<Rightarrow> string" where
  "called_tool call = py_strip (str_or (pget call ''tool'') [])"

definition parallel_group_id :: "tool_call \<Rightarrow> string option" where
  "parallel_group_id call =
     (let raw = pget call ''parallel_group_id'';
          raw = (if raw = PNone then pget call ''parallel_group'' else raw)
      in if raw = PNone then None
         else let text = py_strip (py_str raw) in if text = [] then None else Some text)"

definition provider_key_for_tool :: "string \<Rightarrow> string" where
  "provider_key_for_tool tool_slug =
     (let slug = py_strip tool_slug in
      if CHR ''.'' \<in> set slug then takeWhile (\<lambda>c. c \<noteq> CHR ''.'') slug
      else if starts_with ''github_'' slug then ''github''
      else ''native'')"

definition tool_call_parallel_eligible :: "string \<Rightarrow> bool" where
  "tool_call_parallel_eligible tool_slug =
     (let slug = py_strip tool_slug in
      if slug = [] then False
      else if catalog_tool_requires_approval slug \<or> tool_requires_hitl_execution_grant slug then False
      else (let g = governance_for_action_key slug in
        if \<not> gv_parallel_safe g then False
        else if gv_side_effect g \<noteq> SE_READ then False
        else gv_idempotency_strategy g \<in> {IS_NONE, IS_APPROVAL_DEDUP_ONLY}))"

definition call_eligible :: "tool_call \<Rightarrow> bool" where
  "call_eligible call \<longleftrightarrow>
     tool_call_parallel_eligible (called_tool call) \<and>
     (truthy (pget call ''approval_granted'') \<or> \<not> truthy (pget call ''requires_approval''))"

definition parallel_group_eligible :: "tool_call list \<Rightarrow> bool" where
  "parallel_group_eligible calls =
     (if length calls < 2 then False
      else let ids = remdups (map parallel_group_id calls) in
        if length ids \<noteq> 1 \<or> None \<in> set ids then False
        else list_all call_eligible calls)"

section \<open>Batches\<close>

datatype batch_kind = Serial | Parallel

record batch =
  bt_kind :: batch_kind
  bt_items :: "(nat \<times> tool_call) list"

definition serial_batch :: "nat \<times> tool_call \<Rightarrow> batch" where
  "serial_batch item = \<lparr>bt_kind = Serial, bt_items = [item]\<rparr>"

definition group_batches :: "(nat \<times> tool_call) list \<Rightarrow> batch list" where
  "group_batches grouped =
     (if 1 < length grouped \<and> parallel_group_eligible (map snd grouped)
      then [\<lparr>bt_kind = Parallel, bt_items = grouped\<rparr>] else map serial_batch grouped)"

function partition_from :: "(nat \<times> tool_call) list \<Rightarrow> batch list" where
  "partition_from [] = []"
| "partition_from (item # rest) =
     (case parallel_group_id (snd item) of
        None \<Rightarrow> serial_batch item # partition_from rest
      | Some g \<Rightarrow>
          (let same = (\<lambda>it. parallel_group_id (snd it) = Some g) in
           group_batches (item # takeWhile same rest) @ partition_from (dropWhile same rest)))"
  by pat_completeness auto
termination by (relation "measure length") (auto simp: le_imp_less_Suc length_dropWhile_le)

definition partition_tool_calls :: "tool_call list \<Rightarrow> batch list" where
  "partition_tool_calls tool_calls = partition_from (enumerate 0 tool_calls)"

text \<open>\<open>run_parallel_group\<close> returns the results in the order of the indices, or the first exception.\<close>

fun first_error :: "('e + 'a) list \<Rightarrow> ('e, 'a list) result" where
  "first_error [] = Inr []"
| "first_error (Inl e # rest) = Inl e"
| "first_error (Inr a # rest) = res_bind (first_error rest) (\<lambda>xs. Inr (a # xs))"

definition run_parallel_group ::
  "(nat \<times> tool_call) list \<Rightarrow> (nat \<Rightarrow> tool_call \<Rightarrow> 'e + 'a) \<Rightarrow> ('e, (nat \<times> 'a) list) result" where
  "run_parallel_group calls execute_call =
     res_bind (first_error (map (\<lambda>(i, c). map_sum id (Pair i) (execute_call i c)) calls))
       (\<lambda>gathered. Inr (sort_key fst gathered))"

section \<open>Every call is in exactly one batch\<close>

lemma serial_items: "concat (map (bt_items \<circ> serial_batch) items) = items"
  by (induction items) (auto simp: serial_batch_def)

lemma group_batches_items: "concat (map bt_items (group_batches items)) = items"
  by (simp add: group_batches_def serial_items)

lemma partition_from_items: "concat (map bt_items (partition_from items)) = items"
  by (induction items rule: partition_from.induct)
    (auto simp: Let_def group_batches_items serial_batch_def split: option.split)

lemma map_snd_enumerate: "map snd (enumerate n xs) = xs"
  by (induction xs arbitrary: n) auto

text \<open>A batch of more than one call is a group of read-only tools that need no approval.\<close>

definition sound_batch :: "batch \<Rightarrow> bool" where
  "sound_batch b \<longleftrightarrow> (case bt_kind b of
       Serial \<Rightarrow> length (bt_items b) = 1
     | Parallel \<Rightarrow> 2 \<le> length (bt_items b) \<and>
         (\<exists>g. \<forall>(_, c) \<in> set (bt_items b). parallel_group_id c = Some g) \<and>
         (\<forall>(_, c) \<in> set (bt_items b). call_eligible c))"

lemma parallel_group_eligible_iff:
  "parallel_group_eligible calls \<longleftrightarrow>
     2 \<le> length calls \<and> (\<exists>g. \<forall>c \<in> set calls. parallel_group_id c = Some g) \<and> list_all call_eligible calls"
proof (cases "2 \<le> length calls")
  case True
  have one: "length (remdups xs) = 1 \<longleftrightarrow> (\<exists>x. set xs = {x})" for xs :: "string option list"
    by (simp add: length_remdups_card_conv card_1_singleton_iff)
  have "length (remdups (map parallel_group_id calls)) = 1 \<and> None \<notin> parallel_group_id ` set calls \<longleftrightarrow>
      (\<exists>g. \<forall>c \<in> set calls. parallel_group_id c = Some g)"
  proof
    assume "length (remdups (map parallel_group_id calls)) = 1 \<and> None \<notin> parallel_group_id ` set calls"
    then have "\<exists>x. parallel_group_id ` set calls = {x}" "None \<notin> parallel_group_id ` set calls"
      using one [of "map parallel_group_id calls"] by simp_all
    then obtain x where "parallel_group_id ` set calls = {x}" "x \<noteq> None"
      by (metis insertI1)
    then show "\<exists>g. \<forall>c \<in> set calls. parallel_group_id c = Some g" by (metis image_eqI not_None_eq singletonD)
  next
    assume "\<exists>g. \<forall>c \<in> set calls. parallel_group_id c = Some g"
    then obtain g where g: "\<forall>c \<in> set calls. parallel_group_id c = Some g" by blast
    moreover have "calls \<noteq> []" using True by auto
    ultimately have "parallel_group_id ` set calls = {Some g}" by (cases calls) auto
    then show "length (remdups (map parallel_group_id calls)) = 1 \<and> None \<notin> parallel_group_id ` set calls"
      using one [of "map parallel_group_id calls"] by simp
  qed
  then show ?thesis using True by (auto simp: parallel_group_eligible_def Let_def)
qed (simp add: parallel_group_eligible_def)

lemma group_batches_sound: "b \<in> set (group_batches items) \<Longrightarrow> sound_batch b"
  by (fastforce simp: group_batches_def serial_batch_def sound_batch_def parallel_group_eligible_iff
      list_all_iff split: if_splits)

lemma serial_batch_sound: "sound_batch (serial_batch item)"
  by (simp add: sound_batch_def serial_batch_def)

lemma partition_from_sound: "b \<in> set (partition_from items) \<Longrightarrow> sound_batch b"
  by (induction items rule: partition_from.induct)
    (auto simp: Let_def group_batches_sound serial_batch_sound split: option.splits)

text \<open>
  The batches together are the calls in their order, each once. A serial batch is one call; a
  parallel one is two or more neighbouring calls that name the same group, each of a tool that the
  catalog lets run without approval and that only reads.
\<close>

theorem partition_sound:
  "concat (map bt_items (partition_tool_calls calls)) = enumerate 0 calls \<and>
   list_all sound_batch (partition_tool_calls calls)"
  by (auto simp: partition_tool_calls_def partition_from_items list_all_iff partition_from_sound)

text \<open>What a parallel call may be, in terms of the catalog and the inventory.\<close>

lemma eligible_reads:
  "tool_call_parallel_eligible slug \<Longrightarrow>
     \<not> catalog_tool_requires_approval (py_strip slug) \<and>
     gv_side_effect (governance_for_action_key (py_strip slug)) = SE_READ"
  by (auto simp: tool_call_parallel_eligible_def Let_def split: if_splits)

section \<open>Bounded concurrency\<close>

text \<open>
  A coroutine of a group passes the semaphore of its group, then that of its workspace, then that of
  the provider in the workspace, and releases all of them when its call ends, however it ends.
\<close>

datatype stage = Waiting | InGroup | InWorkspace | Running | Finished

record pooled_call =
  pc_group :: nat
  pc_workspace :: string
  pc_provider :: string
  pc_stage :: stage

record limits =
  lm_group :: "nat \<Rightarrow> nat"
  lm_workspace :: nat
  lm_provider :: nat

definition holding_group :: "nat \<Rightarrow> pooled_call list \<Rightarrow> nat" where
  "holding_group g calls =
     length (filter (\<lambda>c. pc_group c = g \<and> pc_stage c \<in> {InGroup, InWorkspace, Running}) calls)"

definition holding_workspace :: "string \<Rightarrow> pooled_call list \<Rightarrow> nat" where
  "holding_workspace w calls =
     length (filter (\<lambda>c. pc_workspace c = w \<and> pc_stage c \<in> {InWorkspace, Running}) calls)"

definition holding_provider :: "string \<Rightarrow> string \<Rightarrow> pooled_call list \<Rightarrow> nat" where
  "holding_provider w p calls =
     length (filter (\<lambda>c. pc_workspace c = w \<and> pc_provider c = p \<and> pc_stage c = Running) calls)"

definition may_advance :: "limits \<Rightarrow> pooled_call list \<Rightarrow> pooled_call \<Rightarrow> bool" where
  "may_advance lm calls c = (case pc_stage c of
       Waiting \<Rightarrow> holding_group (pc_group c) calls < lm_group lm (pc_group c)
     | InGroup \<Rightarrow> holding_workspace (pc_workspace c) calls < lm_workspace lm
     | InWorkspace \<Rightarrow> holding_provider (pc_workspace c) (pc_provider c) calls < lm_provider lm
     | Running \<Rightarrow> True
     | Finished \<Rightarrow> False)"

fun next_stage :: "stage \<Rightarrow> stage" where
  "next_stage Waiting = InGroup"
| "next_stage InGroup = InWorkspace"
| "next_stage InWorkspace = Running"
| "next_stage Running = Finished"
| "next_stage Finished = Finished"

inductive pool_step :: "limits \<Rightarrow> pooled_call list \<Rightarrow> pooled_call list \<Rightarrow> bool" for lm where
  "i < length calls \<Longrightarrow> may_advance lm calls (calls ! i) \<Longrightarrow>
   pool_step lm calls (calls[i := (calls ! i)\<lparr>pc_stage := next_stage (pc_stage (calls ! i))\<rparr>])"

inductive_cases pool_stepE: "pool_step lm calls calls'"

definition within_limits :: "limits \<Rightarrow> pooled_call list \<Rightarrow> bool" where
  "within_limits lm calls \<longleftrightarrow>
     (\<forall>g. holding_group g calls \<le> lm_group lm g) \<and>
     (\<forall>w. holding_workspace w calls \<le> lm_workspace lm) \<and>
     (\<forall>w p. holding_provider w p calls \<le> lm_provider lm)"

text \<open>The permits: at least one each, and no more for a group than it has calls.\<close>

definition pool_limits :: "int \<Rightarrow> int \<Rightarrow> int \<Rightarrow> pooled_call list \<Rightarrow> limits" where
  "pool_limits group_max workspace_max provider_max calls =
     \<lparr>lm_group = (\<lambda>g. nat (min (max 1 group_max) (int (length (filter (\<lambda>c. pc_group c = g) calls))))),
      lm_workspace = nat (max 1 workspace_max), lm_provider = nat (max 1 provider_max)\<rparr>"

lemma length_filter_update:
  "i < length xs \<Longrightarrow> length (filter P (xs[i := y])) + (if P (xs ! i) then 1 else 0) =
     length (filter P xs) + (if P y then 1 else 0)"
proof (induction xs arbitrary: i)
  case (Cons x xs)
  then show ?case by (cases i) auto
qed simp

lemma step_within_limits:
  assumes "pool_step lm calls calls'" "within_limits lm calls"
  shows "within_limits lm calls'"
proof -
  obtain i where i: "i < length calls" "may_advance lm calls (calls ! i)"
    "calls' = calls[i := (calls ! i)\<lparr>pc_stage := next_stage (pc_stage (calls ! i))\<rparr>]"
    using assms(1) by (rule pool_stepE)
  let ?c = "calls ! i" and ?d = "(calls ! i)\<lparr>pc_stage := next_stage (pc_stage (calls ! i))\<rparr>"
  have old: "holding_group g calls \<le> lm_group lm g" "holding_workspace w calls \<le> lm_workspace lm"
    "holding_provider w p calls \<le> lm_provider lm" for g w p
    using assms(2) by (simp_all add: within_limits_def)
  have "holding_group g calls' \<le> lm_group lm g" for g
    using length_filter_update [OF i(1), of "\<lambda>c. pc_group c = g \<and> pc_stage c \<in> {InGroup, InWorkspace, Running}" ?d]
      i(2) old(1) [of g]
    by (cases "pc_stage ?c") (auto simp: i(3) holding_group_def may_advance_def split: if_splits)
  moreover have "holding_workspace w calls' \<le> lm_workspace lm" for w
    using length_filter_update [OF i(1), of "\<lambda>c. pc_workspace c = w \<and> pc_stage c \<in> {InWorkspace, Running}" ?d]
      i(2) old(2) [of w]
    by (cases "pc_stage ?c") (auto simp: i(3) holding_workspace_def may_advance_def split: if_splits)
  moreover have "holding_provider w p calls' \<le> lm_provider lm" for w p
    using length_filter_update [OF i(1),
        of "\<lambda>c. pc_workspace c = w \<and> pc_provider c = p \<and> pc_stage c = Running" ?d] i(2) old(3) [of w p]
    by (cases "pc_stage ?c") (auto simp: i(3) holding_provider_def may_advance_def split: if_splits)
  ultimately show ?thesis by (simp add: within_limits_def)
qed

fun stages_left :: "stage \<Rightarrow> nat" where
  "stages_left Waiting = 4"
| "stages_left InGroup = 3"
| "stages_left InWorkspace = 2"
| "stages_left Running = 1"
| "stages_left Finished = 0"

definition remaining :: "pooled_call list \<Rightarrow> nat" where
  "remaining calls = sum_list (map (stages_left \<circ> pc_stage) calls)"

lemma sum_list_update_nat:
  "i < length (xs :: nat list) \<Longrightarrow> sum_list (xs[i := y]) + xs ! i = sum_list xs + y"
proof (induction xs arbitrary: i)
  case (Cons x xs)
  then show ?case by (cases i) auto
qed simp

lemma step_remaining: "pool_step lm calls calls' \<Longrightarrow> remaining calls = Suc (remaining calls')"
proof (erule pool_stepE)
  fix i
  assume i: "i < length calls" "may_advance lm calls (calls ! i)"
    "calls' = calls[i := (calls ! i)\<lparr>pc_stage := next_stage (pc_stage (calls ! i))\<rparr>]"
  let ?f = "stages_left \<circ> pc_stage"
  have "remaining calls' + ?f (calls ! i) =
      remaining calls + ?f ((calls ! i)\<lparr>pc_stage := next_stage (pc_stage (calls ! i))\<rparr>)"
    using sum_list_update_nat [of i "map ?f calls"] i(1) by (simp add: remaining_def i(3) map_update)
  then show ?thesis using i(2) by (cases "pc_stage (calls ! i)") (auto simp: may_advance_def)
qed

lemma advance_in: "c \<in> set calls \<Longrightarrow> may_advance lm calls c \<Longrightarrow> \<exists>calls'. pool_step lm calls calls'"
  by (metis in_set_conv_nth pool_step.intros)

text \<open>The permits of one kind are held only by calls that can go on without another of that kind.\<close>

lemma pool_progress:
  assumes "c \<in> set calls" "pc_stage c \<noteq> Finished"
    and "\<forall>c \<in> set calls. 0 < lm_group lm (pc_group c)" "0 < lm_workspace lm" "0 < lm_provider lm"
  shows "\<exists>calls'. pool_step lm calls calls'"
proof (cases "\<exists>d \<in> set calls. pc_stage d = Running")
  case True
  then show ?thesis by (auto intro: advance_in simp: may_advance_def)
next
  case False
  then have provider: "holding_provider w p calls = 0" for w p
    by (auto simp: holding_provider_def filter_empty_conv)
  show ?thesis
  proof (cases "\<exists>d \<in> set calls. pc_stage d = InWorkspace")
    case True
    then show ?thesis using provider assms(5) by (auto intro: advance_in simp: may_advance_def)
  next
    case no_workspace: False
    with False have workspace: "holding_workspace w calls = 0" for w
      by (auto simp: holding_workspace_def filter_empty_conv)
    show ?thesis
    proof (cases "\<exists>d \<in> set calls. pc_stage d = InGroup")
      case True
      then show ?thesis using workspace assms(4) by (auto intro: advance_in simp: may_advance_def)
    next
      case no_group: False
      with False no_workspace have group: "holding_group g calls = 0" for g
        by (auto simp: holding_group_def filter_empty_conv)
      have "pc_stage c = Waiting"
        using assms(1,2) False no_workspace no_group by (cases "pc_stage c") auto
      then show ?thesis using group assms(1,3) by (auto intro: advance_in simp: may_advance_def)
    qed
  qed
qed

lemma step_groups:
  "pool_step lm calls calls' \<Longrightarrow> map pc_group calls' = map pc_group calls"
  by (auto elim!: pool_stepE simp: map_update list_update_same_conv)

lemma pool_run_facts:
  "(pool_step lm ^^ n) start calls \<Longrightarrow> within_limits lm start \<Longrightarrow>
   within_limits lm calls \<and> remaining start = n + remaining calls \<and> map pc_group calls = map pc_group start"
proof (induction n arbitrary: calls)
  case (Suc n)
  then obtain mid where mid: "(pool_step lm ^^ n) start mid" "pool_step lm mid calls" by auto
  then show ?case
    using Suc.IH [OF mid(1) Suc.prems(2)] step_within_limits [OF mid(2)] step_remaining [OF mid(2)]
      step_groups [OF mid(2)] by simp
qed simp

lemma remaining_le: "remaining calls \<le> 4 * length calls"
  proof (induction calls)
  case (Cons c calls)
  then show ?case by (cases "pc_stage c") (simp_all add: remaining_def)
qed (simp add: remaining_def)

text \<open>
  C37. Whatever order the event loop picks: the calls in flight never exceed the limits of their group,
  workspace and provider, the pool does not deadlock while a call is unfinished, and after at most four
  steps per call all are finished.
\<close>

theorem pool_bounded_and_live:
  assumes "lm = pool_limits group_max workspace_max provider_max start"
    and "list_all (\<lambda>c. pc_stage c = Waiting) start" "(pool_step lm ^^ n) start calls"
  shows "within_limits lm calls \<and> n \<le> 4 * length start \<and>
    (list_all (\<lambda>c. pc_stage c = Finished) calls \<or> (\<exists>calls'. pool_step lm calls calls'))"
proof -
  have "within_limits lm start"
    using assms(2) by (auto simp: within_limits_def holding_group_def holding_workspace_def
        holding_provider_def list_all_iff filter_empty_conv)
  note run = pool_run_facts [OF assms(3) this]
  have "0 < lm_group lm (pc_group c)" if "c \<in> set calls" for c
  proof -
    have "pc_group c \<in> set (map pc_group start)" using run that by (metis image_eqI list.set_map)
    then obtain d where "d \<in> set start" "pc_group d = pc_group c" by auto
    then have "filter (\<lambda>d. pc_group d = pc_group c) start \<noteq> []" by (auto simp: filter_empty_conv)
    then show ?thesis by (simp add: assms(1) pool_limits_def)
  qed
  then have "\<exists>calls'. pool_step lm calls calls'" if "c \<in> set calls" "pc_stage c \<noteq> Finished" for c
    using pool_progress [OF that] by (auto simp: assms(1) pool_limits_def)
  then show ?thesis using run remaining_le [of start] by (auto simp: list_all_iff)
qed

section \<open>Examples\<close>

text \<open>Two searches of one group, one permit for the provider: the second waits for the first.\<close>

definition demo_pool :: "stage \<Rightarrow> stage \<Rightarrow> pooled_call list" where
  "demo_pool s t =
     [\<lparr>pc_group = 0, pc_workspace = ''w'', pc_provider = ''native'', pc_stage = s\<rparr>,
      \<lparr>pc_group = 0, pc_workspace = ''w'', pc_provider = ''native'', pc_stage = t\<rparr>]"

definition demo_limits :: limits where
  "demo_limits = pool_limits 4 8 1 (demo_pool Waiting Waiting)"

lemma demo_pool_step:
  "pool_step demo_limits (demo_pool Waiting Waiting) (demo_pool InGroup Waiting)"
  "pool_step demo_limits (demo_pool InGroup Waiting) (demo_pool InWorkspace Waiting)"
  "pool_step demo_limits (demo_pool InWorkspace Waiting) (demo_pool Running Waiting)"
proof -
  have first: "pool_step demo_limits (demo_pool s Waiting) (demo_pool (next_stage s) Waiting)"
    if "may_advance demo_limits (demo_pool s Waiting) (demo_pool s Waiting ! 0)" for s
    using pool_step.intros [of 0 "demo_pool s Waiting" demo_limits] that by (simp add: demo_pool_def)
  show "pool_step demo_limits (demo_pool Waiting Waiting) (demo_pool InGroup Waiting)"
    "pool_step demo_limits (demo_pool InGroup Waiting) (demo_pool InWorkspace Waiting)"
    "pool_step demo_limits (demo_pool InWorkspace Waiting) (demo_pool Running Waiting)"
    using first [of Waiting] first [of InGroup] first [of InWorkspace]
    by (simp_all add: may_advance_def demo_limits_def pool_limits_def demo_pool_def holding_group_def
        holding_workspace_def holding_provider_def)
qed

lemma pool_bounded_and_live_witness:
  "within_limits demo_limits (demo_pool Running Waiting) \<and>
   (\<exists>calls'. pool_step demo_limits (demo_pool Running Waiting) calls')"
proof -
  have "(pool_step demo_limits ^^ Suc (Suc (Suc 0))) (demo_pool Waiting Waiting) (demo_pool Running Waiting)"
    using demo_pool_step by auto
  from pool_bounded_and_live [OF demo_limits_def _ this] show ?thesis
    by (simp add: demo_pool_def)
qed

end
