(* ===== verification/Approver_Routing.thy ===== *)
theory Approver_Routing
  imports Commit_Authorization
begin

text \<open>
  Who may decide an approval, \<open>orchestration/execution/hitl/approver_resolver.py\<close>, with the
  workspace roles and queries it rests on (\<open>identity_access/workspace_roles.py\<close>,
  \<open>workspace_permissions.py\<close>, \<open>workspace_repository.py\<close>), the delegation constraints
  (\<open>approval_delegation.py\<close>) and the SLA policy (\<open>approval_sla.py\<close>) it reads.

  A query without an order returns the rows in insertion order. \<open>float\<close> of a string is a field of
  the environment; hours, like all JSON numbers here, have no fractional part.
\<close>

section \<open>Workspaces, roles and memberships\<close>

record workspace =
  ws_id :: string
  ws_owner :: string
  ws_default :: bool

record membership =
  wm_workspace :: string
  wm_user :: string
  wm_role :: string
  wm_status :: string

record project_row =
  pj_id :: string
  pj_owner :: string
  pj_company :: "string option"
  pj_department :: "string option"
  pj_settings :: "pyval dict"

record identity_db =
  id_workspaces :: "workspace list"
  id_memberships :: "membership list"
  id_projects :: "project_row list"

record hitl_env =
  he_rt :: runtime
  he_float :: "string \<Rightarrow> int option"
  he_iso_minutes :: "int \<Rightarrow> string"

definition WORKSPACE_ROLES :: "string list" where
  [guard_defs]: "WORKSPACE_ROLES =
     [''owner'', ''admin'', ''builder'', ''operator'', ''approver'', ''viewer'']"

definition PERM_APPROVAL_DECIDE :: string where
  "PERM_APPROVAL_DECIDE = ''approval:decide''"

definition PERM_WORKSPACE_ADMIN :: string where
  "PERM_WORKSPACE_ADMIN = ''workspace:admin''"

definition ALL_PERMISSIONS :: "string list" where
  "ALL_PERMISSIONS =
     [''project:read'', ''project:write'', ''run:execute'', PERM_APPROVAL_DECIDE,
      ''workflow:publish'', ''integration:manage'', PERM_WORKSPACE_ADMIN]"

definition ROLE_PERMISSIONS :: "string list dict" where
  [table_defs]: "ROLE_PERMISSIONS =
     [(''owner'', ALL_PERMISSIONS),
      (''admin'', ALL_PERMISSIONS),
      (''builder'', [''project:read'', ''project:write'', ''run:execute'', ''workflow:publish'',
                     ''integration:manage'']),
      (''operator'', [''project:read'', ''run:execute'']),
      (''approver'', [''project:read'', PERM_APPROVAL_DECIDE]),
      (''viewer'', [''project:read''])]"

definition permissions_for_role :: "string \<Rightarrow> string list" where
  "permissions_for_role role = (case dget ROLE_PERMISSIONS role of None \<Rightarrow> [] | Some ps \<Rightarrow> ps)"

definition role_has_permission :: "string \<Rightarrow> string \<Rightarrow> bool" where
  "role_has_permission role permission \<longleftrightarrow>
     permission \<in> set (permissions_for_role role) \<or>
     PERM_WORKSPACE_ADMIN \<in> set (permissions_for_role role)"

definition scalar_one_or_none :: "'a list \<Rightarrow> (hitl_error, 'a option) result" where
  "scalar_one_or_none rows =
     (case rows of
        [] \<Rightarrow> Inr None
      | [r] \<Rightarrow> Inr (Some r)
      | _ \<Rightarrow> Inl (PyError ''MultipleResultsFound''))"

definition get_default_workspace_for_user ::
  "identity_db \<Rightarrow> string \<Rightarrow> (hitl_error, workspace option) result" where
  "get_default_workspace_for_user idb user_id =
     scalar_one_or_none (filter (\<lambda>w. ws_owner w = user_id \<and> ws_default w) (id_workspaces idb))"

definition get_active_membership ::
  "identity_db \<Rightarrow> string \<Rightarrow> string \<Rightarrow> (hitl_error, membership option) result" where
  "get_active_membership idb workspace_id user_id =
     scalar_one_or_none (filter (\<lambda>m. wm_workspace m = workspace_id \<and> wm_user m = user_id \<and>
       wm_status m = ''active'') (id_memberships idb))"

definition list_active_memberships_by_roles ::
  "identity_db \<Rightarrow> string \<Rightarrow> pyval list \<Rightarrow> membership list" where
  "list_active_memberships_by_roles idb workspace_id roles =
     (let values = map py_str (filter (\<lambda>r. py_strip (py_str r) \<noteq> []) roles) in
      if values = [] then []
      else filter (\<lambda>m. wm_workspace m = workspace_id \<and> wm_status m = ''active'' \<and>
             wm_role m \<in> set values) (id_memberships idb))"

definition get_project :: "identity_db \<Rightarrow> string option \<Rightarrow> project_row option" where
  "get_project idb project_id =
     (case project_id of
        None \<Rightarrow> None
      | Some p \<Rightarrow> if p = [] then None else find (\<lambda>r. pj_id r = p) (id_projects idb))"

section \<open>SLA policy\<close>

definition DEFAULT_APPROVAL_SLA :: "pyval dict" where
  [table_defs]: "DEFAULT_APPROVAL_SLA =
     [(''enabled'', PBool True), (''response_hours'', PInt 24), (''warn_hours_before_due'', PInt 4),
      (''escalate_hours_after_due'', PInt 0),
      (''escalation_roles'', PList [PStr ''admin'', PStr ''owner''])]"

definition py_float :: "hitl_env \<Rightarrow> pyval \<Rightarrow> (hitl_error, int) result" where
  "py_float env v =
     (case v of
        PInt i \<Rightarrow> Inr i
      | PBool b \<Rightarrow> Inr (if b then 1 else 0)
      | PStr s \<Rightarrow> (case he_float env s of None \<Rightarrow> Inl (PyError ''ValueError'') | Some i \<Rightarrow> Inr i)
      | _ \<Rightarrow> Inl (PyError ''TypeError''))"

definition known_settings :: "pyval \<Rightarrow> pyval dict" where
  "known_settings raw =
     (case raw of
        PDict d \<Rightarrow> dmerge DEFAULT_APPROVAL_SLA (filter (\<lambda>kv. dhas DEFAULT_APPROVAL_SLA (fst kv)) d)
      | _ \<Rightarrow> DEFAULT_APPROVAL_SLA)"

definition escalation_roles_of :: "pyval \<Rightarrow> pyval list" where
  "escalation_roles_of v =
     (let roles = (case v of PList xs \<Rightarrow> xs | _ \<Rightarrow> [PStr ''admin'', PStr ''owner'']);
          named = filter (\<lambda>r. r \<noteq> []) (map (py_strip \<circ> py_str) roles)
      in if named = [] then [PStr ''admin'', PStr ''owner''] else map PStr named)"

definition normalize_approval_sla_policy ::
  "hitl_env \<Rightarrow> pyval \<Rightarrow> (hitl_error, pyval dict) result" where
  "normalize_approval_sla_policy env raw =
     (let policy = known_settings raw;
          policy = dset ''escalation_roles''
            (PList (escalation_roles_of (pget policy ''escalation_roles''))) policy
      in
      res_bind (py_float env (py_or (pget policy ''response_hours'') (PInt 24))) (\<lambda>response.
      res_bind (py_float env (py_or (pget policy ''warn_hours_before_due'') (PInt 0))) (\<lambda>warn.
      res_bind (py_float env (py_or (pget policy ''escalate_hours_after_due'') (PInt 0))) (\<lambda>escalate.
      Inr (dset ''enabled'' (PBool (truthy (pget policy ''enabled'')))
          (dset ''escalate_hours_after_due'' (PInt (max 0 escalate))
          (dset ''warn_hours_before_due'' (PInt (max 0 warn))
          (dset ''response_hours'' (PInt (max 1 response)) policy))))))))"

definition hours_of :: "pyval dict \<Rightarrow> string \<Rightarrow> int" where
  "hours_of policy k = (case pget policy k of PInt i \<Rightarrow> i | _ \<Rightarrow> 0)"

text \<open>A date is between the years 1 and 9999; leaving the range raises.\<close>

definition MIN_DATE :: int where "MIN_DATE = -62135596800000000"
definition MAX_DATE :: int where "MAX_DATE = 253402300799999999"

definition add_hours :: "int \<Rightarrow> int \<Rightarrow> (hitl_error, int) result" where
  "add_hours t hours =
     (let u = t + hours * 3600000000 in
      if u < MIN_DATE \<or> MAX_DATE < u then Inl (PyError ''OverflowError'') else Inr u)"

definition compute_approval_due_at ::
  "int \<Rightarrow> pyval dict \<Rightarrow> (hitl_error, py_datetime option) result" where
  "compute_approval_due_at created_at policy =
     (if \<not> truthy (pget policy ''enabled'') then Inr None
      else res_bind (add_hours created_at (hours_of policy ''response_hours''))
        (\<lambda>u. Inr (Some (Aware u))))"

definition project_sla_settings :: "project_row \<Rightarrow> (hitl_error, pyval dict) result" where
  "project_sla_settings project =
     py_res (res_bind (dict_or_raise (pget (pj_settings project) ''execution'')) (\<lambda>execution.
     res_bind (dict_or_raise (pget (pj_settings project) ''hitl'')) (\<lambda>hitl.
     res_bind (dict_or_raise (pget execution ''sla'')) (\<lambda>project_sla.
     res_bind (dict_or_raise (pget hitl ''approval_sla'')) (\<lambda>approval_sla.
     Inr (dmerge project_sla approval_sla))))))"

definition resolve_sla_policy_for_approval ::
  "hitl_env \<Rightarrow> identity_db \<Rightarrow> approval_request \<Rightarrow> (hitl_error, pyval dict) result" where
  "resolve_sla_policy_for_approval env idb approval =
     (if is_dict (pget (aq_payload approval) ''approval_sla'')
      then normalize_approval_sla_policy env (pget (aq_payload approval) ''approval_sla'')
      else case get_project idb (aq_project_id approval) of
        None \<Rightarrow> normalize_approval_sla_policy env PNone
      | Some project \<Rightarrow>
          res_bind (project_sla_settings project) (\<lambda>merged.
            normalize_approval_sla_policy env (if merged = [] then PNone else PDict merged)))"

definition apply_sla_on_approval ::
  "hitl_env \<Rightarrow> identity_db \<Rightarrow> approval_request \<Rightarrow> (hitl_error, approval_request) result" where
  "apply_sla_on_approval env idb approval =
     res_bind (resolve_sla_policy_for_approval env idb approval) (\<lambda>policy.
     res_bind (compute_approval_due_at (aq_created_at approval) policy) (\<lambda>due.
     Inr (approval\<lparr>aq_sla_policy := policy, aq_due_at := due\<rparr>)))"

definition is_escalated :: "pyval dict \<Rightarrow> bool" where
  "is_escalated state \<longleftrightarrow> truthy (pget state ''escalated_at'')"

section \<open>Delegations\<close>

definition active_delegations :: "pyval list \<Rightarrow> pyval dict list" where
  "active_delegations rows =
     filter (\<lambda>d. dget d ''active'' = None \<or> truthy (pget d ''active''))
       (List.map_filter (\<lambda>v. case v of PDict d \<Rightarrow> Some d | _ \<Rightarrow> None) rows)"

definition delegation_pairs :: "pyval list \<Rightarrow> (string \<times> string) list" where
  "delegation_pairs rows =
     filter (\<lambda>(from, to). from \<noteq> [] \<and> to \<noteq> [])
       (map (\<lambda>d. (str_or (pget d ''from_user_id'') [], str_or (pget d ''to_user_id'') []))
         (active_delegations rows))"

text \<open>Who delegated away, and for every delegate (in the order first named) who named them last.\<close>

definition delegation_constraints :: "pyval list \<Rightarrow> string list \<times> string dict" where
  "delegation_constraints rows =
     (map fst (delegation_pairs rows),
      fold (\<lambda>(from, to) targets. dset to from targets) (delegation_pairs rows) [])"

section \<open>Routing\<close>

definition ROLES_WITH_DECIDE :: "string list" where
  [guard_defs]: "ROLES_WITH_DECIDE = [''admin'', ''approver'', ''owner'']"

definition HIGH_RISK_ROLES :: "string list" where
  [guard_defs]: "HIGH_RISK_ROLES = [''admin'', ''owner'']"

record eligible_approver =
  ea_user :: string
  ea_role :: string
  ea_reasons :: "string list"

definition eligible_approver_to_dict :: "eligible_approver \<Rightarrow> pyval dict" where
  "eligible_approver_to_dict a =
     [(''user_id'', PStr (ea_user a)), (''role'', PStr (ea_role a)),
      (''reasons'', PList (map PStr (ea_reasons a)))]"

definition named_ids :: "pyval \<Rightarrow> string list" where
  "named_ids item =
     (case item of
        PStr s \<Rightarrow> if py_strip s \<noteq> [] then [py_strip s] else []
      | PDict d \<Rightarrow> (let u = py_or (pget d ''user_id'') (pget d ''id'') in
                    if truthy u then [py_str u] else [])
      | _ \<Rightarrow> [])"

definition extract_explicit_approver_ids :: "pyval dict \<Rightarrow> string list" where
  "extract_explicit_approver_ids payload =
     py_unique (concat (map (\<lambda>k. concat (map named_ids (list_or_empty (pget payload k))))
       [''approver_ids'', ''approvers'']))"

definition extract_explicit_roles :: "pyval dict \<Rightarrow> string list option" where
  "extract_explicit_roles payload =
     (let roles = filter (\<lambda>r. r \<in> set WORKSPACE_ROLES)
            (map (py_strip \<circ> py_str) (list_or_empty (pget payload ''approver_roles'')))
      in if roles = [] then None else Some roles)"

definition upper_char :: "char \<Rightarrow> char" where
  "upper_char c =
     (let n = (of_char c :: nat) in if 97 \<le> n \<and> n \<le> 122 then char_of (n - 32) else c)"

definition policy_required_roles ::
  "pyval dict \<Rightarrow> string \<Rightarrow> string option \<Rightarrow> string list option" where
  "policy_required_roles payload approval_type action_key =
     (let risk = map upper_char
            (str_or (py_or (pget payload ''risk_level'') (pget payload ''tool_risk_level'')) []) in
      if risk \<in> {''R2'', ''R3'', ''HIGH'', ''CRITICAL''} then Some HIGH_RISK_ROLES
      else if starts_with ''gmail_'' approval_type \<and> contains_str ''send'' approval_type
      then Some HIGH_RISK_ROLES
      else case action_key of
        None \<Rightarrow> None
      | Some k \<Rightarrow> if starts_with_any [''gmail_send'', ''telegram_send''] (py_lower k)
                  then Some HIGH_RISK_ROLES else None)"

definition workspace_of_user :: "identity_db \<Rightarrow> string \<Rightarrow> (hitl_error, string option) result" where
  "workspace_of_user idb user_id =
     res_bind (get_default_workspace_for_user idb user_id) (\<lambda>w. Inr (map_option ws_id w))"

definition resolve_workspace_id_for_approval ::
  "identity_db \<Rightarrow> string option \<Rightarrow> string option \<Rightarrow> (hitl_error, string option) result" where
  "resolve_workspace_id_for_approval idb project_id requested_by =
     (let by_requester = (case requested_by of
            None \<Rightarrow> Inr None
          | Some u \<Rightarrow> if u = [] then Inr None else workspace_of_user idb u)
      in case get_project idb project_id of
           None \<Rightarrow> by_requester
         | Some project \<Rightarrow>
             res_bind (workspace_of_user idb (pj_owner project)) (\<lambda>w.
               case w of Some i \<Rightarrow> Inr (Some i) | None \<Rightarrow> by_requester))"

definition match_roles ::
  "hitl_env \<Rightarrow> string list \<Rightarrow> string list option \<Rightarrow> pyval dict \<Rightarrow> pyval dict \<Rightarrow>
   string list option \<Rightarrow> (hitl_error, pyval list) result" where
  "match_roles env explicit_ids explicit_roles escalation sla policy_roles =
     (if explicit_ids \<noteq> [] then
        Inr (map PStr (case explicit_roles of Some rs \<Rightarrow> rs | None \<Rightarrow> ROLES_WITH_DECIDE))
      else case explicit_roles of
        Some rs \<Rightarrow> Inr (map PStr rs)
      | None \<Rightarrow>
          if is_escalated escalation then
            res_bind (normalize_approval_sla_policy env (PDict sla)) (\<lambda>policy.
              py_res (py_iter (py_or (pget escalation ''escalation_roles'')
                (py_or (pget policy ''escalation_roles'') (PList (map PStr HIGH_RISK_ROLES))))))
          else Inr (map PStr (case policy_roles of Some rs \<Rightarrow> rs | None \<Rightarrow> ROLES_WITH_DECIDE)))"

definition owner_reason :: "string option \<Rightarrow> string \<Rightarrow> string list" where
  "owner_reason project_owner user =
     (if project_owner = Some user \<and> user \<noteq> [] then [''project_owner''] else [])"

definition role_entry :: "string option \<Rightarrow> string option \<Rightarrow> membership \<Rightarrow> eligible_approver" where
  "role_entry project_owner company m =
     \<lparr>ea_user = wm_user m, ea_role = wm_role m,
      ea_reasons = [''workspace_role:'' @ wm_role m] @ owner_reason project_owner (wm_user m) @
        (case company of Some c \<Rightarrow> if c \<noteq> [] then [''company_context:'' @ c] else [] | None \<Rightarrow> [])\<rparr>"

definition explicit_entry :: "string option \<Rightarrow> membership \<Rightarrow> eligible_approver" where
  "explicit_entry project_owner m =
     \<lparr>ea_user = wm_user m, ea_role = wm_role m,
      ea_reasons = [''explicit_approver_id'', ''workspace_role:'' @ wm_role m] @
        owner_reason project_owner (wm_user m)\<rparr>"

definition delegate_entry :: "string \<Rightarrow> membership \<Rightarrow> eligible_approver" where
  "delegate_entry from m =
     \<lparr>ea_user = wm_user m, ea_role = wm_role m,
      ea_reasons = [''delegated_from:'' @ from, ''workspace_role:'' @ wm_role m]\<rparr>"

type_synonym eligibility = "eligible_approver dict"

text \<open>A named user counts only as an active member whose role may decide.\<close>

definition add_deciding_member ::
  "identity_db \<Rightarrow> string \<Rightarrow> (membership \<Rightarrow> eligible_approver) \<Rightarrow> string \<Rightarrow> eligibility \<Rightarrow>
   (hitl_error, eligibility) result" where
  "add_deciding_member idb workspace_id entry user_id eligible =
     res_bind (get_active_membership idb workspace_id user_id) (\<lambda>m.
       case m of
         None \<Rightarrow> Inr eligible
       | Some m \<Rightarrow>
           if role_has_permission (wm_role m) PERM_APPROVAL_DECIDE
           then Inr (dset user_id (entry m) eligible) else Inr eligible)"

fun add_deciding_members ::
  "identity_db \<Rightarrow> string \<Rightarrow> (string \<times> (membership \<Rightarrow> eligible_approver)) list \<Rightarrow> eligibility \<Rightarrow>
   (hitl_error, eligibility) result" where
  "add_deciding_members idb ws [] eligible = Inr eligible"
| "add_deciding_members idb ws ((user_id, entry) # rest) eligible =
     res_bind (add_deciding_member idb ws entry user_id eligible) (add_deciding_members idb ws rest)"

definition workspace_approvers ::
  "identity_db \<Rightarrow> string option \<Rightarrow> string option \<Rightarrow> string option \<Rightarrow> pyval list \<Rightarrow> string list \<Rightarrow>
   (hitl_error, eligibility) result" where
  "workspace_approvers idb workspace_id project_owner company matched_roles explicit_ids =
     (case workspace_id of
        None \<Rightarrow> Inr []
      | Some ws \<Rightarrow>
          if ws = [] then Inr []
          else add_deciding_members idb ws (map (\<lambda>u. (u, explicit_entry project_owner)) explicit_ids)
            (fold (\<lambda>m. dset (wm_user m) (role_entry project_owner company m))
              (list_active_memberships_by_roles idb ws matched_roles) []))"

definition add_owner_fallback :: "string option \<Rightarrow> eligibility \<Rightarrow> eligibility" where
  "add_owner_fallback project_owner eligible =
     (case project_owner of
        None \<Rightarrow> eligible
      | Some u \<Rightarrow>
          if u \<noteq> [] \<and> \<not> dhas eligible u
          then dset u \<lparr>ea_user = u, ea_role = ''owner'',
                       ea_reasons = [''project_owner'', ''legacy_owner_fallback'']\<rparr> eligible
          else eligible)"

definition apply_delegations ::
  "identity_db \<Rightarrow> string option \<Rightarrow> pyval list \<Rightarrow> eligibility \<Rightarrow> (hitl_error, eligibility) result" where
  "apply_delegations idb workspace_id delegations eligible =
     (case delegation_constraints delegations of (away, targets) \<Rightarrow>
        (let rest = filter (\<lambda>kv. fst kv \<notin> set away) eligible in
         case workspace_id of
           None \<Rightarrow> Inr rest
         | Some ws \<Rightarrow>
             if ws = [] then Inr rest
             else add_deciding_members idb ws
               (map (\<lambda>(to, from). (to, delegate_entry from)) targets) rest))"

definition snapshot_dict ::
  "string option \<Rightarrow> string option \<Rightarrow> string option \<Rightarrow> string \<Rightarrow> string option \<Rightarrow> pyval list \<Rightarrow>
   string list \<Rightarrow> pyval dict \<Rightarrow> string \<Rightarrow> pyval dict" where
  "snapshot_dict workspace_id company_id project_id approval_type action_key matched_roles
     explicit_ids conditions resolved_at =
     [(''workspace_id'', opt_str workspace_id), (''company_id'', opt_str company_id),
      (''project_id'', opt_str project_id), (''approval_type'', PStr approval_type),
      (''action_key'', opt_str action_key), (''matched_roles'', PList matched_roles),
      (''explicit_approver_ids'', PList (map PStr explicit_ids)),
      (''policy_conditions'', PDict conditions), (''resolved_at'', PStr resolved_at)]"

definition roles_value :: "string list option \<Rightarrow> pyval" where
  "roles_value roles = (case roles of None \<Rightarrow> PNone | Some rs \<Rightarrow> PList (map PStr rs))"

text \<open>
  The eligible approvers, the workspace and the routing snapshot, from the fields of the approval
  the callers pass.
\<close>

definition routed_action_key :: "approval_request \<Rightarrow> string option" where
  "routed_action_key approval =
     (let k = py_or (pget (aq_payload approval) ''action_key'') (pget (aq_payload approval) ''tool_slug'')
      in if truthy k then Some (py_str k) else None)"

definition resolve_eligible_approvers ::
  "hitl_env \<Rightarrow> int \<Rightarrow> identity_db \<Rightarrow> approval_request \<Rightarrow>
   (hitl_error, eligible_approver list \<times> string option \<times> pyval dict) result" where
  "resolve_eligible_approvers env now idb approval =
     (let payload = aq_payload approval;
          project = get_project idb (aq_project_id approval);
          company_id = (case project of None \<Rightarrow> None | Some p \<Rightarrow> pj_company p);
          project_owner = map_option pj_owner project;
          action_key = routed_action_key approval;
          explicit_ids = extract_explicit_approver_ids payload;
          explicit_roles = extract_explicit_roles payload;
          policy_roles = policy_required_roles payload (aq_approval_type approval) action_key;
          escalation = aq_escalation_state approval
      in
      res_bind (resolve_workspace_id_for_approval idb (aq_project_id approval) (aq_requested_by approval))
        (\<lambda>workspace_id.
      res_bind (match_roles env explicit_ids explicit_roles escalation (aq_sla_policy approval) policy_roles)
        (\<lambda>matched_roles.
      res_bind (workspace_approvers idb workspace_id project_owner company_id matched_roles explicit_ids)
        (\<lambda>eligible.
      res_bind (apply_delegations idb workspace_id (aq_delegations approval)
          (add_owner_fallback project_owner eligible)) (\<lambda>eligible.
      Inr (map snd eligible, workspace_id,
           snapshot_dict workspace_id company_id (aq_project_id approval) (aq_approval_type approval)
             action_key matched_roles explicit_ids
             [(''required_roles'', roles_value policy_roles),
              (''explicit_roles'', roles_value explicit_roles),
              (''escalated'', PBool (is_escalated escalation)),
              (''escalation_roles'', pget escalation ''escalation_roles'')]
             (rt_iso (he_rt env) (Aware now))))))))"

definition snapshot_routing_on_approval ::
  "hitl_env \<Rightarrow> int \<Rightarrow> identity_db \<Rightarrow> approval_request \<Rightarrow> (hitl_error, approval_request) result" where
  "snapshot_routing_on_approval env now idb approval =
     res_bind (apply_sla_on_approval env idb approval) (\<lambda>approval.
     res_bind (resolve_eligible_approvers env now idb approval) (\<lambda>(eligible, workspace_id, snapshot).
     Inr (approval\<lparr>aq_workspace_id := workspace_id,
                   aq_eligible := map eligible_approver_to_dict eligible, aq_routing := snapshot\<rparr>)))"

definition recheck_user_eligible ::
  "hitl_env \<Rightarrow> int \<Rightarrow> identity_db \<Rightarrow> approval_request \<Rightarrow> string \<Rightarrow>
   (hitl_error, eligible_approver) result" where
  "recheck_user_eligible env now idb approval user_id =
     res_bind (resolve_eligible_approvers env now idb approval) (\<lambda>(eligible, _, _).
       case find (\<lambda>a. ea_user a = user_id) eligible of
         Some a \<Rightarrow> Inr a
       | None \<Rightarrow> Inl (ApproverEligibilityError (''User '' @ repr_str user_id @
           '' is not an eligible approver for approval '' @ repr_str (aq_id approval))))"

definition format_eligibility_reason :: "eligible_approver \<Rightarrow> string" where
  "format_eligibility_reason a = py_join ''; '' (ea_reasons a)"

definition user_can_access_approval ::
  "hitl_env \<Rightarrow> int \<Rightarrow> identity_db \<Rightarrow> string \<Rightarrow> approval_request \<Rightarrow> (hitl_error, bool) result" where
  "user_can_access_approval env now idb user_id approval =
     (let scoped = truthy (opt_str (aq_project_id approval)) in
      if scoped \<and> map_option pj_owner (get_project idb (aq_project_id approval)) = Some user_id
      then Inr True
      else if \<not> scoped \<and> aq_requested_by approval = Some user_id then Inr True
      else case recheck_user_eligible env now idb approval user_id of
        Inl (ApproverEligibilityError _) \<Rightarrow> Inr False
      | Inl e \<Rightarrow> Inl e
      | Inr _ \<Rightarrow> Inr True)"

definition recheck_decided_approver_at_commit ::
  "hitl_env \<Rightarrow> int \<Rightarrow> identity_db \<Rightarrow> approval_request \<Rightarrow> (hitl_error, eligible_approver) result" where
  "recheck_decided_approver_at_commit env now idb approval =
     (case aq_approved_by approval of
        Some u \<Rightarrow> if u = []
          then Inl (ApproverEligibilityError ''Approval requires an eligible approver decision'')
          else recheck_user_eligible env now idb approval u
      | None \<Rightarrow> Inl (ApproverEligibilityError ''Approval requires an eligible approver decision''))"

section \<open>Facts\<close>

lemma scalar_one_or_none_Some:
  "scalar_one_or_none rows = Inr (Some r) \<Longrightarrow> r \<in> set rows"
  by (auto simp: scalar_one_or_none_def split: list.splits)

lemma get_project_Some: "get_project idb pid = Some p \<Longrightarrow> p \<in> set (id_projects idb) \<and> pid = Some (pj_id p)"
  by (auto simp: get_project_def find_Some_iff split: option.splits if_splits)

text \<open>An active member of the workspace with a role that may decide, named by the user id.\<close>

definition deciding_member :: "identity_db \<Rightarrow> string \<Rightarrow> string \<Rightarrow> bool" where
  "deciding_member idb ws user \<longleftrightarrow> (\<exists>m \<in> set (id_memberships idb). wm_workspace m = ws \<and>
     wm_user m = user \<and> wm_status m = ''active'' \<and> role_has_permission (wm_role m) PERM_APPROVAL_DECIDE)"

definition matching_member :: "identity_db \<Rightarrow> string \<Rightarrow> pyval list \<Rightarrow> string \<Rightarrow> bool" where
  "matching_member idb ws roles user \<longleftrightarrow> (\<exists>m \<in> set (id_memberships idb). wm_workspace m = ws \<and>
     wm_user m = user \<and> wm_status m = ''active'' \<and> wm_role m \<in> py_str ` set roles)"

lemma active_membership:
  "get_active_membership idb ws u = Inr (Some m) \<Longrightarrow>
     m \<in> set (id_memberships idb) \<and> wm_workspace m = ws \<and> wm_user m = u \<and> wm_status m = ''active''"
  by (auto simp: get_active_membership_def dest: scalar_one_or_none_Some)

text \<open>What the entries of the dictionary are: keyed by their user, and from where.\<close>

definition entries_ok :: "(string \<Rightarrow> bool) \<Rightarrow> eligibility \<Rightarrow> bool" where
  "entries_ok P d \<longleftrightarrow> (\<forall>(u, a) \<in> set d. ea_user a = u \<and> P u)"

lemma set_dset_cases: "(j, w) \<in> set (dset k v d) \<Longrightarrow> (j, w) = (k, v) \<or> (j, w) \<in> set d"
  by (induction d) (auto split: if_splits)

lemma entries_ok_dset:
  "entries_ok P d \<Longrightarrow> ea_user a = u \<Longrightarrow> P u \<Longrightarrow> entries_ok P (dset u a d)"
  by (auto simp: entries_ok_def dest!: set_dset_cases)

lemma entries_ok_mono: "entries_ok P d \<Longrightarrow> (\<And>u. P u \<Longrightarrow> Q u) \<Longrightarrow> entries_ok Q d"
  by (auto simp: entries_ok_def)

lemma add_deciding_member_cases:
  assumes "add_deciding_member idb ws f u d = Inr d'"
  obtains "d' = d"
  | m where "m \<in> set (id_memberships idb)" "wm_workspace m = ws" "wm_user m = u"
      "wm_status m = ''active''" "role_has_permission (wm_role m) PERM_APPROVAL_DECIDE"
      "d' = dset u (f m) d" "deciding_member idb ws u"
proof (cases "get_active_membership idb ws u")
  case (Inr r)
  then show ?thesis using assms that active_membership [of idb ws u]
    by (cases r) (auto simp: add_deciding_member_def deciding_member_def split: if_splits)
qed (use assms in \<open>simp add: add_deciding_member_def\<close>)

lemma add_deciding_members_ok:
  assumes "add_deciding_members idb ws es d = Inr d'" "entries_ok P d"
    and "\<forall>(u, f) \<in> set es. \<forall>m. ea_user (f m) = wm_user m"
    and "\<And>u. deciding_member idb ws u \<Longrightarrow> P u"
  shows "entries_ok P d'"
  using assms(1-3)
proof (induction es arbitrary: d)
  case (Cons e rest)
  obtain u f where e: "e = (u, f)" by fastforce
  obtain d1 where d1: "add_deciding_member idb ws f u d = Inr d1"
    "add_deciding_members idb ws rest d1 = Inr d'"
    using Cons.prems(1) e by auto
  have "entries_ok P d1"
    using d1(1)
  proof (rule add_deciding_member_cases)
    fix m assume "wm_user m = u" "d1 = dset u (f m) d" "deciding_member idb ws u"
    then show ?thesis using Cons.prems(2,3) e assms(4) [of u] by (auto intro!: entries_ok_dset)
  qed (use Cons.prems(2) in simp)
  then show ?case using Cons.IH [OF d1(2)] Cons.prems(3) by simp
qed simp

end
