(* ===== verification/Agent_Tools.thy ===== *)
theory Agent_Tools
  imports Approver_Routing Parallel_Groups Tool_Execution
begin

text \<open>
  Tool calls of agents in a task run: the context an authorization sees and the approval it may
  consume (\<open>orchestration/tool_execution_context.py\<close>), the toolbox (\<open>orchestration/tools.py\<close>), grants
  (\<open>execution/hitl/grants.py\<close>), the approval gates (\<open>orchestration/hitl_policy.py\<close>), the permission levels
  of agents (\<open>services/base.py\<close>, \<open>routing_service.py\<close>), and the loop over the calls a model asks for
  (\<open>execution/tool_execution.py\<close>).

  The handlers of the twelve native tools are the parameter \<open>ae_native\<close>; every dispatch is recorded in
  \<open>ag_calls\<close>. Events are recorded by run and type; artifacts and the event payloads are left out. An
  uncaught exception leaves the session as it is: what its owner rolls back is not modelled. The normalised
  execution settings of a project are the parameter \<open>ae_settings\<close>.
\<close>

section \<open>Approval gates\<close>

definition DEFAULT_APPROVAL_GATES :: "string list" where
  [guard_defs]: "DEFAULT_APPROVAL_GATES =
     [''post_to_github'', ''open_pr'', ''mark_complete'', ''change_task_ownership'', ''write_memory'',
      ''use_expensive_model'', ''run_tool'']"

definition MANDATORY_APPROVAL_GATES :: "string list" where
  [guard_defs]: "MANDATORY_APPROVAL_GATES = DEFAULT_APPROVAL_GATES"

definition normalize_approval_gates :: "pyval \<Rightarrow> string list" where
  "normalize_approval_gates value =
     (let requested = (case value of PList xs \<Rightarrow> xs | _ \<Rightarrow> map PStr DEFAULT_APPROVAL_GATES);
          selected = filter (\<lambda>g. g \<in> set MANDATORY_APPROVAL_GATES) (map (py_strip \<circ> py_str) requested)
      in filter (\<lambda>g. g \<in> set selected \<or> g \<in> set MANDATORY_APPROVAL_GATES) DEFAULT_APPROVAL_GATES)"

definition normalize_autonomy_level :: "pyval \<Rightarrow> string" where
  "normalize_autonomy_level value =
     (let candidate = py_lower (py_strip (str_or value ''assisted'')) in
      if candidate = ''autonomous'' then ''autonomous''
      else if candidate \<in> {''semi-autonomous'', ''semi_autonomous'', ''supervised''} then ''semi-autonomous''
      else ''assisted'')"

definition action_requires_approval :: "pyval dict \<Rightarrow> string \<Rightarrow> bool" where
  "action_requires_approval settings action_type =
     (if action_type \<in> set MANDATORY_APPROVAL_GATES then True
      else if normalize_autonomy_level (pget settings ''autonomy_level'') = ''autonomous'' then False
      else action_type \<in> set (normalize_approval_gates (pget settings ''approval_gates'')))"

section \<open>Rows, state and surroundings\<close>

record agent_profile =
  ap_id :: string
  ap_allowed_tools :: "pyval list"
  ap_model_policy :: "pyval dict"

record agent_run =
  ar_id :: string
  ar_project :: string
  ar_orchestrator :: "string option"
  ar_worker :: "string option"
  ar_triggered_by :: "string option"
  ar_checkpoint :: "pyval dict"
  ar_input :: "pyval dict"

record agent_task =
  at_id :: string
  at_issue_link :: "string option"
  at_reviewer :: "string option"

record agent_db =
  ag_approvals :: "approval_request list"
  ag_events :: "(string \<times> string) list"
  ag_calls :: "external_call list"

record agent_env =
  ae_hitl :: hitl_env
  ae_now :: int
  ae_identity :: identity_db
  ae_workforce :: workforce_db
  ae_failure :: "string option"
  ae_auth_error :: "string option"
  ae_fail_open :: bool
  ae_ext :: external_services
  ae_native :: toolbox
  ae_agents :: "agent_profile list"
  ae_fresh :: "nat \<Rightarrow> string"
  ae_settings :: "project_row \<Rightarrow> pyval dict"

datatype agent_error = Blocked string | ToolError string | Raised hitl_error

definition run_event :: "agent_run \<Rightarrow> string \<Rightarrow> agent_db \<Rightarrow> agent_db" where
  "run_event run kind db = db\<lparr>ag_events := ag_events db @ [(ar_id run, kind)]\<rparr>"

definition put_grant :: "approval_request \<Rightarrow> agent_db \<Rightarrow> agent_db" where
  "put_grant a db =
     db\<lparr>ag_approvals := map (\<lambda>b. if aq_id b = aq_id a then a else b) (ag_approvals db)\<rparr>"

definition lift_py :: "(string, 'a) result \<Rightarrow> (agent_error, 'a) result" where
  "lift_py r = (case r of Inl e \<Rightarrow> Inl (Raised (PyError e)) | Inr a \<Rightarrow> Inr a)"

text \<open>\<open>create_approval\<close>: the row is routed before it is stored.\<close>

definition create_approval ::
  "agent_env \<Rightarrow> agent_run \<Rightarrow> string \<Rightarrow> agent_task option \<Rightarrow> string option \<Rightarrow> string \<Rightarrow> pyval dict \<Rightarrow>
   agent_db \<Rightarrow> (agent_error, agent_db \<times> string) result" where
  "create_approval env run project_id task issue_link approval_type payload db =
     (let i = ae_fresh env (length (ag_approvals db));
          a = \<lparr>aq_id = i, aq_project_id = Some project_id, aq_task_id = map_option at_id task,
               aq_run_id = Some (ar_id run), aq_issue_link_id = issue_link,
               aq_requested_by = ar_triggered_by run, aq_approved_by = None,
               aq_approval_type = approval_type, aq_status = ''pending'', aq_reason = None,
               aq_payload = payload, aq_effect_hash = None, aq_effect_version = 1,
               aq_fingerprint = PNone, aq_expires_at = None, aq_proposed_effect = [],
               aq_workspace_id = None, aq_delegations = [], aq_escalation_state = [],
               aq_sla_policy = [], aq_due_at = None, aq_created_at = ae_now env, aq_resolved_at = None,
               aq_eligible = [], aq_routing = [], aq_decided_reason = None\<rparr>
      in case snapshot_routing_on_approval (ae_hitl env) (ae_now env) (ae_identity env) a of
           Inl e \<Rightarrow> Inl (Raised e)
         | Inr a \<Rightarrow> Inr (db\<lparr>ag_approvals := ag_approvals db @ [a]\<rparr>, i))"

section \<open>Context and approvals\<close>

definition snapshot_strings :: "string \<Rightarrow> agent_run \<Rightarrow> (string, string list) result" where
  "snapshot_strings key run =
     (let snapshot = pget (ar_checkpoint run) ''skill_version_snapshot'' in
      if truthy snapshot \<and> \<not> is_dict snapshot then Inl ''AttributeError''
      else res_bind (py_iter_or_empty (pget (dict_or_empty snapshot) key)) (\<lambda>xs.
             Inr (map py_str (filter truthy xs))))"

definition is_consumed :: "pyval dict \<Rightarrow> bool" where
  "is_consumed payload \<longleftrightarrow>
     truthy (pget payload ''_consumed_at'') \<or> truthy (pget payload ''consumed_at'')"

definition grant_owner :: "approval_request \<Rightarrow> string" where
  "grant_owner row =
     str_or (py_or (pget (aq_payload row) ''owner_id'')
       (py_or (opt_str (aq_requested_by row)) (opt_str (aq_approved_by row)))) []"

definition foreign_grant :: "string \<Rightarrow> approval_request \<Rightarrow> bool" where
  "foreign_grant owner_id row \<longleftrightarrow>
     grant_owner row \<noteq> [] \<and> grant_owner row \<noteq> owner_id \<and>
     str_or (opt_str (aq_requested_by row)) [] \<notin> {[], owner_id} \<and>
     \<not> truthy (opt_str (aq_project_id row))"

definition exact_tools :: "string \<Rightarrow> string list" where
  "exact_tools tool = [tool, ''tool:'' @ tool, ''execute:'' @ tool, ''tool_execution:'' @ tool]"

definition grant_action :: "approval_request \<Rightarrow> string" where
  "grant_action row =
     (let p = aq_payload row in
      str_or (py_or (pget p ''action_key'') (py_or (pget p ''action'')
        (py_or (pget p ''tool'') (PStr (aq_approval_type row))))) [])"

definition differs :: "string option \<Rightarrow> string option \<Rightarrow> bool" where
  "differs wanted given \<longleftrightarrow>
     truthy (opt_str wanted) \<and> truthy (opt_str given) \<and> given \<noteq> wanted"

definition hash_matches :: "bool \<Rightarrow> string \<Rightarrow> pyval dict \<Rightarrow> bool" where
  "hash_matches required args_hash payload \<longleftrightarrow>
     (let grant_hash = py_strip (str_or (pget payload ''arguments_hash'') []) in
      if required then grant_hash \<noteq> [] \<and> grant_hash = args_hash
      else grant_hash = [] \<or> grant_hash = args_hash)"

definition tool_grant_matches ::
  "string \<Rightarrow> string \<Rightarrow> string \<Rightarrow> string option \<Rightarrow> string option \<Rightarrow> bool \<Rightarrow> approval_request \<Rightarrow> bool" where
  "tool_grant_matches owner_id tool args_hash task_id agent_id required row \<longleftrightarrow>
     \<not> is_consumed (aq_payload row) \<and> \<not> foreign_grant owner_id row \<and>
     (grant_action row \<in> set (exact_tools tool) \<or> aq_approval_type row \<in> set (exact_tools tool)) \<and>
     \<not> differs task_id (aq_task_id row) \<and>
     \<not> (truthy (opt_str agent_id) \<and> truthy (pget (aq_payload row) ''agent_id'') \<and>
        Some (py_str (pget (aq_payload row) ''agent_id'')) \<noteq> agent_id) \<and>
     hash_matches required args_hash (aq_payload row)"

definition consumed_payload :: "hitl_env \<Rightarrow> int \<Rightarrow> string \<Rightarrow> string \<Rightarrow> pyval dict \<Rightarrow> pyval dict" where
  "consumed_payload env now tool args_hash payload =
     dset ''consumed_arguments_hash'' (PStr args_hash)
    (dset ''consumed_for_tool'' (PStr tool)
    (dset ''consumed_at'' (PStr (rt_iso (he_rt env) (Aware now)))
    (dset ''_consumed_at'' (PStr (rt_iso (he_rt env) (Aware now))) payload)))"

text \<open>The rows of the query: newest first, at most fifty.\<close>

definition approved_rows :: "string \<Rightarrow> string \<Rightarrow> agent_db \<Rightarrow> approval_request list" where
  "approved_rows project_id run_id db =
     take 50 (sort_key (\<lambda>a. - aq_created_at a) (filter (\<lambda>a. aq_status a = ''approved'' \<and>
       (project_id \<noteq> [] \<longrightarrow> aq_project_id a = Some project_id) \<and>
       (run_id \<noteq> [] \<longrightarrow> aq_run_id a = Some run_id)) (ag_approvals db)))"

definition consume_or_check_tool_approval ::
  "agent_env \<Rightarrow> project_row \<Rightarrow> agent_run \<Rightarrow> string option \<Rightarrow> string \<Rightarrow> string \<Rightarrow> bool \<Rightarrow> bool \<Rightarrow>
   agent_db \<Rightarrow> agent_db \<times> bool" where
  "consume_or_check_tool_approval env project run task_id tool args_hash consume required db =
     (case find (tool_grant_matches (pj_owner project) tool args_hash task_id (ar_worker run) required)
             (approved_rows (pj_id project) (ar_id run) db) of
        None \<Rightarrow> (db, False)
      | Some row \<Rightarrow>
          (if consume then put_grant (row\<lparr>aq_payload :=
              consumed_payload (ae_hitl env) (ae_now env) tool args_hash (aq_payload row)\<rparr>) db else db,
           True))"

definition declared_tools :: "agent_env \<Rightarrow> agent_run \<Rightarrow> string list" where
  "declared_tools env run =
     (case (if truthy (opt_str (ar_worker run))
            then find (\<lambda>a. Some (ap_id a) = ar_worker run) (ae_agents env) else None) of
        None \<Rightarrow> []
      | Some a \<Rightarrow> map py_str (filter truthy (ap_allowed_tools a)))"

definition build_tool_execution_context ::
  "agent_env \<Rightarrow> project_row \<Rightarrow> agent_task option \<Rightarrow> agent_run \<Rightarrow> string \<Rightarrow> pyval dict \<Rightarrow> bool \<Rightarrow>
   bool option \<Rightarrow> agent_db \<Rightarrow> (string, agent_db \<times> pyval dict) result" where
  "build_tool_execution_context env project task run tool arguments consume required db =
     (let args_hash = arguments_hash (rt_sha (he_rt (ae_hitl env))) arguments;
          required = (case required of Some b \<Rightarrow> b | None \<Rightarrow> \<not> is_low_risk_tool tool) in
      res_bind (snapshot_strings ''required_tools'' run) (\<lambda>skill_required.
      case consume_or_check_tool_approval env project run (map_option at_id task) tool args_hash
             consume required db of
        (db, granted) \<Rightarrow>
          res_bind (snapshot_strings ''skill_version_ids'' run) (\<lambda>skills. Inr (db,
            [(''owner_id'', PStr (pj_owner project)), (''project_id'', PStr (pj_id project)),
             (''task_id'', opt_str (map_option at_id task)), (''company_id'', opt_str (pj_company project)),
             (''department_id'', opt_str (pj_department project)), (''agent_id'', opt_str (ar_worker run)),
             (''run_id'', PStr (ar_id run)),
             (''allowed_tools'', PList (map PStr (declared_tools env run))),
             (''skill_required_tools'', PList (map PStr skill_required)),
             (''skill_version_ids'', PList (map PStr skills)),
             (''arguments_hash'', PStr args_hash), (''approval_granted'', PBool granted)]))))"

section \<open>The toolbox\<close>

definition DISPATCHED_TOOLS :: "string list" where
  [guard_defs]: "DISPATCHED_TOOLS =
     [''github_comment'', ''github_label_issue'', ''github_create_pr'', ''web_fetch'', ''web_search'',
      ''code_execute'', ''fs_read'', ''fs_write'', ''db_query'', ''repo_search'', ''knowledge_search'',
      ''invoke_specialist'']"

definition dispatch :: "toolbox \<Rightarrow> toolbox" where
  "dispatch native tool arguments ctx =
     (let tool = py_strip tool in
      if tool = [] then Inl ''Tool call is missing a tool name''
      else if tool \<in> set DISPATCHED_TOOLS then native tool arguments ctx
      else Inl (''Unsupported tool: '' @ tool))"

definition call_arguments :: "tool_call \<Rightarrow> pyval dict" where
  "call_arguments call = dict_or_empty (pget call ''arguments'')"

definition matched_scope :: "authorization \<Rightarrow> string \<Rightarrow> string" where
  "matched_scope auth dflt = str_or (pget (az_resolution auth) ''matched_scope'') dflt"

text \<open>
  The authorization of \<open>execute\<close>: the context to run with, or the refusal. \<open>ae_auth_error\<close> is an
  exception of this authorization; the service repeats the authorization before it dispatches.
\<close>

definition auth_failed ::
  "agent_env \<Rightarrow> string \<Rightarrow> string \<Rightarrow> pyval dict \<Rightarrow> (agent_error, pyval dict) result" where
  "auth_failed env tool e ctx =
     (if ae_fail_open env \<and> is_low_risk_tool tool then Inr ctx
      else Inl (ToolError (''Tool `'' @ tool @ ''` authorization failed closed: '' @ e)))"

definition authorize_call ::
  "agent_env \<Rightarrow> project_row \<Rightarrow> agent_task option \<Rightarrow> agent_run \<Rightarrow> string \<Rightarrow> pyval dict \<Rightarrow> pyval dict \<Rightarrow>
   agent_db \<Rightarrow> agent_db \<times> (agent_error, pyval dict) result" where
  "authorize_call env project task run tool arguments ctx db =
     (case ae_auth_error env of
        Some e \<Rightarrow> (db, auth_failed env tool e ctx)
      | None \<Rightarrow>
          (case authorize_tool (ae_workforce env) (ae_failure env) (pj_owner project) tool ctx of
             (auth, ctx) \<Rightarrow>
               if \<not> az_permitted auth then
                 (db, Inl (ToolError (''Tool `'' @ tool @ ''` is not permitted for this agent/context ('' @
                    matched_scope auth ''allowlist/grants'' @ '')'')))
               else if az_decision auth = PStr DECISION_PROHIBITED then
                 (db, Inl (ToolError (''Tool `'' @ tool @ ''` is prohibited by action policy ('' @
                    matched_scope auth ''policy'' @ '')'')))
               else if az_decision auth = PStr DECISION_APPROVAL then
                 (case build_tool_execution_context env project task run tool arguments True (Some True) db of
                    Inl e \<Rightarrow> (db, auth_failed env tool e ctx)
                  | Inr (db, granted) \<Rightarrow>
                      if \<not> truthy (pget granted ''approval_granted'') then
                        (db, Inl (ToolError (''APPROVAL_REQUIRED: Tool `'' @ tool @
                           ''` requires approval ('' @ matched_scope auth ''policy'' @ '')'')))
                      else (db, Inr (dset ''approval_granted'' (PBool True) ctx)))
               else (db, Inr ctx)))"

definition project_known :: "agent_env \<Rightarrow> string \<Rightarrow> bool" where
  "project_known env p \<longleftrightarrow> find (\<lambda>r. pj_id r = p) (id_projects (ae_identity env)) \<noteq> None"

text \<open>How the result of the service becomes the result of the toolbox.\<close>

definition toolbox_result :: "string \<Rightarrow> pyval dict \<Rightarrow> (agent_error, pyval dict) result" where
  "toolbox_result tool result =
     (let status = str_or (pget result ''status'') [] in
      if status = ''approval_required'' then
        Inl (ToolError (''APPROVAL_REQUIRED: Tool `'' @ tool @ ''` requires approval ('' @
          str_or (pget result ''reason'') ''policy'' @ '')''))
      else if status \<in> {''denied'', ''failed'', ''error''} then
        Inl (ToolError (''Tool `'' @ tool @ ''` '' @ status @ '': '' @
          py_str (py_or (pget result ''error'') (pget result ''reason''))))
      else case pget result ''output'' of
        PDict out \<Rightarrow> Inr out
      | PNone \<Rightarrow> if status \<in> {''succeeded'', ''completed''}
          then Inr (drop_keys [''status'', ''tool_slug'', ''evidence''] result) else Inr result
      | v \<Rightarrow> Inr [(''result'', v)])"

text \<open>
  For an MCP or A2A tool the toolbox rebuilds the authorization context from a
  \<open>ToolExecutionContext\<close>, which has no checkpoint: the attribute is missing.
\<close>

definition run_service ::
  "agent_env \<Rightarrow> project_row \<Rightarrow> string \<Rightarrow> pyval dict \<Rightarrow> pyval dict \<Rightarrow> agent_db \<Rightarrow>
   agent_db \<times> (agent_error, pyval dict) result" where
  "run_service env project tool arguments ctx db =
     (case execute_tool (ae_ext env) (dispatch (ae_native env)) (project_known env) (ae_workforce env)
             (ae_failure env) (pj_owner project) tool arguments ctx of
        (result, calls) \<Rightarrow>
          if calls \<noteq> [] \<and> runs_in_toolbox tool ctx \<and> starts_with_any [''mcp.'', ''a2a.''] tool
          then (db, Inl (Raised (PyError ''AttributeError'')))
          else (db\<lparr>ag_calls := ag_calls db @ calls\<rparr>, toolbox_result tool result))"

definition toolbox_execute ::
  "agent_env \<Rightarrow> project_row \<Rightarrow> agent_task option \<Rightarrow> agent_run \<Rightarrow> tool_call \<Rightarrow> agent_db \<Rightarrow>
   agent_db \<times> (agent_error, pyval dict) result" where
  "toolbox_execute env project task run call db =
     (let tool = called_tool call; arguments = call_arguments call in
      if tool = [] then (db, Inl (ToolError ''Tool call is missing a tool name''))
      else case build_tool_execution_context env project task run tool arguments False None db of
        Inl e \<Rightarrow> (db, Inl (Raised (PyError e)))
      | Inr (_, ctx) \<Rightarrow>
          if pj_owner project = [] then (db, Inl (ToolError ''Tool execution requires a project owner''))
          else (case authorize_call env project task run tool arguments ctx db of
             (db, Inl e) \<Rightarrow> (db, Inl e)
           | (db, Inr ctx) \<Rightarrow> run_service env project tool arguments ctx db))"

section \<open>Permission levels and grants\<close>

definition TOOL_MIN_PERMISSION :: "string dict" where
  [table_defs]: "TOOL_MIN_PERMISSION =
     [(''fs_read'', ''read-only''), (''repo_search'', ''read-only''), (''knowledge_search'', ''read-only''),
      (''web_fetch'', ''read-only''), (''web_search'', ''read-only''), (''github_comment'', ''comment-only''),
      (''github_label_issue'', ''code-write''), (''github_create_pr'', ''code-write''),
      (''fs_write'', ''code-write''), (''code_execute'', ''code-write''), (''db_query'', ''code-write'')]"

definition PERMISSION_RANK :: "int dict" where
  [table_defs]: "PERMISSION_RANK =
     [(''read-only'', 1), (''comment-only'', 2), (''code-write'', 3), (''merge-blocked'', 3)]"

definition MERGE_BLOCKED_TOOLS :: "string list" where
  [guard_defs]: "MERGE_BLOCKED_TOOLS = [''github_create_pr'', ''github_label_issue'']"

definition agent_permission :: "agent_profile \<Rightarrow> string \<Rightarrow> string" where
  "agent_permission agent tool =
     (let raw = pget (ap_model_policy agent) ''permissions'';
          raw = (case raw of
              PDict d \<Rightarrow> py_or (pget d tool) (py_or (pget d ''default'') (pget d ''level''))
            | v \<Rightarrow> v);
          perm = str_or raw ''read-only''
      in if dhas PERMISSION_RANK perm then perm else ''read-only'')"

definition rank_of :: "string \<Rightarrow> int" where
  "rank_of perm = (case dget PERMISSION_RANK perm of None \<Rightarrow> 3 | Some r \<Rightarrow> r)"

definition min_permission :: "string \<Rightarrow> string" where
  "min_permission tool = (case dget TOOL_MIN_PERMISSION tool of None \<Rightarrow> ''code-write'' | Some p \<Rightarrow> p)"

definition tool_allowed_for_agent_permissions ::
  "string \<Rightarrow> agent_profile option \<Rightarrow> (agent_error, unit) result" where
  "tool_allowed_for_agent_permissions tool agent =
     (case agent of
        None \<Rightarrow> Inr ()
      | Some a \<Rightarrow>
          (let perm = agent_permission a tool; need = min_permission tool in
           if perm = ''merge-blocked'' \<and> tool \<in> set MERGE_BLOCKED_TOOLS then
             Inl (Blocked (''Tool '' @ repr_str tool @
               '' is blocked for merge-blocked agents (no PR/label mutations).''))
           else if rank_of perm < rank_of need then
             Inl (Blocked (''Tool '' @ repr_str tool @ '' requires permission at least '' @ repr_str need @
               '' (agent is '' @ repr_str perm @ '').''))
           else Inr ()))"

text \<open>The oldest approved request of the run with this type and the expected payload, marked consumed.\<close>

definition hitl_grant_matches :: "string \<Rightarrow> pyval dict \<Rightarrow> approval_request \<Rightarrow> bool" where
  "hitl_grant_matches approval_type expected a \<longleftrightarrow>
     aq_approval_type a = approval_type \<and> \<not> truthy (pget (aq_payload a) ''_consumed_at'') \<and>
     list_all (\<lambda>(k, v). py_eq (pget (aq_payload a) k) v) expected"

definition run_grants :: "string \<Rightarrow> agent_db \<Rightarrow> approval_request list" where
  "run_grants run_id db =
     sort_key aq_created_at
       (filter (\<lambda>a. aq_run_id a = Some run_id \<and> aq_status a = ''approved'') (ag_approvals db))"

definition consume_hitl_grant ::
  "agent_env \<Rightarrow> agent_run \<Rightarrow> string \<Rightarrow> pyval dict \<Rightarrow> agent_db \<Rightarrow> agent_db \<times> bool" where
  "consume_hitl_grant env run approval_type expected db =
     (case find (hitl_grant_matches approval_type expected) (run_grants (ar_id run) db) of
        None \<Rightarrow> (db, False)
      | Some a \<Rightarrow>
          (run_event run ''approval_grant_consumed''
             (put_grant (a\<lparr>aq_payload := dset ''_consumed_at''
                (PStr (rt_iso (he_rt (ae_hitl env)) (Aware (ae_now env)))) (aq_payload a)\<rparr>) db),
           True))"

section \<open>One call\<close>

definition EXTERNAL_TOOLS :: "string list" where
  [guard_defs]: "EXTERNAL_TOOLS =
     [''github_comment'', ''github_label_issue'', ''github_create_pr'', ''web_fetch'', ''web_search'']"

definition dangerous_payload :: "string \<Rightarrow> int \<Rightarrow> pyval dict" where
  "dangerous_payload tool index = [(''tool'', PStr tool), (''tool_call_index'', PInt index)]"

definition requested_payload :: "string \<Rightarrow> int \<Rightarrow> tool_call \<Rightarrow> pyval dict" where
  "requested_payload tool index call =
     dangerous_payload tool index @ [(''arguments'', py_or (pget call ''arguments'') (PDict []))]"

text \<open>Consume the grant of this tool and index, or ask for one and stop.\<close>

definition grant_or_ask ::
  "agent_env \<Rightarrow> project_row \<Rightarrow> agent_task option \<Rightarrow> agent_run \<Rightarrow> string \<Rightarrow> int \<Rightarrow> tool_call \<Rightarrow>
   pyval dict \<Rightarrow> string \<Rightarrow> agent_db \<Rightarrow> agent_db \<times> (agent_error, unit) result" where
  "grant_or_ask env project task run tool index call extra message db =
     (case consume_hitl_grant env run ''dangerous_tool_call'' (dangerous_payload tool index) db of
        (db, True) \<Rightarrow> (db, Inr ())
      | (db, False) \<Rightarrow>
          (case create_approval env run (pj_id project) task
                  (case task of None \<Rightarrow> None | Some t \<Rightarrow> at_issue_link t) ''dangerous_tool_call''
                  (requested_payload tool index call @ extra) db of
             Inl e \<Rightarrow> (db, Inl e)
           | Inr (db, i) \<Rightarrow> (db, Inl (Blocked (message @ '' (approval_id='' @ i @ '').'')))))"

definition escalate_blocker ::
  "agent_env \<Rightarrow> agent_run \<Rightarrow> agent_task option \<Rightarrow> string \<Rightarrow> pyval dict \<Rightarrow> agent_db \<Rightarrow>
   (agent_error, agent_db) result" where
  "escalate_blocker env run task reason metadata db =
     (let target = (case task of
            None \<Rightarrow> PNone
          | Some t \<Rightarrow> py_or (opt_str (ar_orchestrator run)) (opt_str (at_reviewer t)))
      in res_bind (create_approval env run (ar_project run) task None ''task_escalation''
           [(''reason'', PStr reason), (''escalate_to_agent_id'', target),
            (''metadata'', PDict metadata)] db) (\<lambda>(db, _). Inr db))"

definition count_failure ::
  "agent_env \<Rightarrow> agent_run \<Rightarrow> agent_task option \<Rightarrow> int \<Rightarrow> agent_db \<Rightarrow>
   agent_db \<times> (agent_error, int) result" where
  "count_failure env run task failures db =
     (let db = run_event run ''tool_call_failed'' db; failures = failures + 1 in
      if failures \<ge> 2 then
        (case escalate_blocker env run task ''Multiple tool failures detected during execution.''
                [(''tool_failures'', PInt failures)] db of
           Inl e \<Rightarrow> (db, Inl e)
         | Inr db \<Rightarrow> (db, Inl (Blocked ''Task blocked after repeated tool-call failures'')))
      else (db, Inr failures))"

definition completed_payload :: "string \<Rightarrow> pyval dict \<Rightarrow> pyval dict" where
  "completed_payload tool result =
     [(''tool'', PStr tool), (''status'', PStr ''completed''), (''result'', PDict result)]"

definition failed_payload :: "string \<Rightarrow> string \<Rightarrow> pyval dict" where
  "failed_payload tool message =
     [(''tool'', PStr tool), (''status'', PStr ''failed''), (''error'', PStr message)]"

text \<open>The checks before a call runs, shared by the serial and, without the grant, the parallel path.\<close>

definition check_scope :: "string \<Rightarrow> string \<Rightarrow> (agent_error, unit) result" where
  "check_scope secret_scope tool =
     (if secret_scope = ''deny_external'' \<and> tool \<in> set EXTERNAL_TOOLS
      then Inl (Blocked (''Tool '' @ repr_str tool @ '' blocked by secret scope policy ('' @ secret_scope @ '').''))
      else Inr ())"

definition check_allowed :: "string list \<Rightarrow> string \<Rightarrow> (agent_error, unit) result" where
  "check_allowed allowed tool =
     (if allowed \<noteq> [] \<and> tool \<notin> set allowed
      then Inl (Blocked (''Tool '' @ repr_str tool @ '' is not allowed for this agent'')) else Inr ())"

definition gate_call ::
  "agent_env \<Rightarrow> project_row \<Rightarrow> pyval dict \<Rightarrow> agent_task option \<Rightarrow> agent_run \<Rightarrow> string \<Rightarrow> int \<Rightarrow>
   tool_call \<Rightarrow> agent_db \<Rightarrow> agent_db \<times> (agent_error, unit) result" where
  "gate_call env project settings task run tool index call db =
     (if action_requires_approval settings ''run_tool'' \<and> tool_requires_hitl_execution_grant tool
      then grant_or_ask env project task run tool index call []
        (''Dangerous tool '' @ repr_str tool @ '' requires approval'') db
      else (db, Inr ()))"

text \<open>The run of the call and the second request of an approval when a policy asks for one.\<close>

definition run_call ::
  "agent_env \<Rightarrow> project_row \<Rightarrow> agent_task option \<Rightarrow> agent_run \<Rightarrow> string \<Rightarrow> int \<Rightarrow> tool_call \<Rightarrow> int \<Rightarrow>
   agent_db \<Rightarrow> agent_db \<times> (agent_error, pyval dict \<times> int) result" where
  "run_call env project task run tool index call failures db =
     (case toolbox_execute env project task run call db of
        (db, Inr result) \<Rightarrow>
          (run_event run ''tool_call_completed'' db, Inr (completed_payload tool result, failures))
      | (db, Inl (ToolError message)) \<Rightarrow>
          if starts_with ''APPROVAL_REQUIRED:'' message then
            (case grant_or_ask env project task run tool index call [(''source'', PStr ''action_policy'')]
                    (''Tool '' @ repr_str tool @ '' requires approval'') db of
               (db, Inl e) \<Rightarrow> (db, Inl e)
             | (db, Inr _) \<Rightarrow>
                 (case toolbox_execute env project task run call db of
                    (db, Inl e) \<Rightarrow> (db, Inl e)
                  | (db, Inr result) \<Rightarrow> (run_event run ''tool_call_completed'' db,
                      Inr (completed_payload tool result, failures))))
          else
            (case count_failure env run task failures db of
               (db, Inl e) \<Rightarrow> (db, Inl e)
             | (db, Inr failures) \<Rightarrow> (db, Inr (failed_payload tool message, failures)))
      | (db, Inl e) \<Rightarrow> (db, Inl e))"

definition execute_one_tool_call ::
  "agent_env \<Rightarrow> project_row \<Rightarrow> pyval dict \<Rightarrow> string \<Rightarrow> string list \<Rightarrow> agent_profile option \<Rightarrow>
   agent_task option \<Rightarrow> agent_run \<Rightarrow> int \<Rightarrow> tool_call \<Rightarrow> int \<Rightarrow> agent_db \<Rightarrow>
   agent_db \<times> (agent_error, pyval dict \<times> int) result" where
  "execute_one_tool_call env project settings scope allowed agent task run index call failures db =
     (let tool = called_tool call in
      case tool_allowed_for_agent_permissions tool agent of
        Inl e \<Rightarrow> (db, Inl e)
      | Inr _ \<Rightarrow>
          (case gate_call env project settings task run tool index call db of
             (db, Inl e) \<Rightarrow> (db, Inl e)
           | (db, Inr _) \<Rightarrow>
               (case res_bind (check_scope scope tool) (\<lambda>_. check_allowed allowed tool) of
                  Inl e \<Rightarrow> (db, Inl e)
                | Inr _ \<Rightarrow> run_call env project task run tool index call failures
                             (run_event run ''tool_call_started'' db))))"

section \<open>All calls of a turn\<close>

text \<open>
  A parallel call runs in a session of its own that is closed without a commit, so of its writes only
  the dispatch remains. All calls of a group run, in some order, before the first exception is raised.
\<close>

definition isolated_read ::
  "agent_env \<Rightarrow> project_row \<Rightarrow> string \<Rightarrow> string list \<Rightarrow> agent_profile option \<Rightarrow> agent_task option \<Rightarrow>
   agent_run \<Rightarrow> agent_db \<Rightarrow> tool_call \<Rightarrow> external_call list \<times> (agent_error, pyval dict) result" where
  "isolated_read env project scope allowed agent task run db call =
     (let raw = str_or (pget call ''tool'') [] in
      case res_bind (tool_allowed_for_agent_permissions raw agent) (\<lambda>_.
           res_bind (check_allowed allowed raw) (\<lambda>_. check_scope scope raw)) of
        Inl e \<Rightarrow> ([], Inl e)
      | Inr _ \<Rightarrow>
          (case toolbox_execute env project task run call (db\<lparr>ag_calls := []\<rparr>) of
             (db', Inr result) \<Rightarrow> (ag_calls db', Inr (completed_payload (called_tool call) result))
           | (db', Inl (ToolError message)) \<Rightarrow>
               (ag_calls db', Inr (failed_payload (called_tool call) message))
           | (db', Inl e) \<Rightarrow> (ag_calls db', Inl e)))"

fun record_results ::
  "agent_env \<Rightarrow> agent_run \<Rightarrow> agent_task option \<Rightarrow> pyval dict list \<Rightarrow> int \<Rightarrow> agent_db \<Rightarrow>
   agent_db \<times> (agent_error, int) result" where
  "record_results env run task [] failures db = (db, Inr failures)"
| "record_results env run task (payload # rest) failures db =
     (if pget payload ''status'' = PStr ''failed'' then
        (case count_failure env run task failures db of
           (db, Inl e) \<Rightarrow> (db, Inl e)
         | (db, Inr failures) \<Rightarrow> record_results env run task rest failures db)
      else record_results env run task rest failures (run_event run ''tool_call_completed'' db))"

definition execute_parallel_batch ::
  "agent_env \<Rightarrow> project_row \<Rightarrow> string \<Rightarrow> string list \<Rightarrow> agent_profile option \<Rightarrow> agent_task option \<Rightarrow>
   agent_run \<Rightarrow> (nat \<times> tool_call) list \<Rightarrow> int \<Rightarrow> agent_db \<Rightarrow>
   agent_db \<times> (agent_error, pyval dict list \<times> int) result" where
  "execute_parallel_batch env project scope allowed agent task run items failures db =
     (let db = run_event run ''tool_parallel_group_started'' db;
          read = isolated_read env project scope allowed agent task run db;
          db' = db\<lparr>ag_calls := ag_calls db @ concat (map (fst \<circ> read \<circ> snd) items)\<rparr>
      in case run_parallel_group items (\<lambda>_ call. snd (read call)) of
           Inl e \<Rightarrow> (db', Inl e)
         | Inr results \<Rightarrow>
             (case record_results env run task (map snd results) failures db' of
                (db'', Inl e) \<Rightarrow> (db'', Inl e)
              | (db'', Inr failures) \<Rightarrow> (db'', Inr (map snd results, failures))))"

definition tool_calling_allowed :: "agent_profile option \<Rightarrow> bool" where
  "tool_calling_allowed agent =
     (case agent of
        None \<Rightarrow> True
      | Some a \<Rightarrow>
          if dhas (ap_model_policy a) ''tool_calling'' then truthy (pget (ap_model_policy a) ''tool_calling'')
          else if dhas (ap_model_policy a) ''tool_calling_enabled''
          then truthy (pget (ap_model_policy a) ''tool_calling_enabled'')
          else True)"

fun execute_batches ::
  "agent_env \<Rightarrow> project_row \<Rightarrow> pyval dict \<Rightarrow> string \<Rightarrow> string list \<Rightarrow> agent_profile option \<Rightarrow>
   agent_task option \<Rightarrow> agent_run \<Rightarrow> batch list \<Rightarrow> int \<Rightarrow> agent_db \<Rightarrow>
   agent_db \<times> (agent_error, pyval dict list) result" where
  "execute_batches env project settings scope allowed agent task run [] failures db = (db, Inr [])"
| "execute_batches env project settings scope allowed agent task run (b # bs) failures db =
     (case (if bt_kind b = Parallel
            then execute_parallel_batch env project scope allowed agent task run (bt_items b) failures db
            else (case hd (bt_items b) of (i, call) \<Rightarrow>
              (case execute_one_tool_call env project settings scope allowed agent task run (int i + 1)
                      call failures db of
                 (db, Inl e) \<Rightarrow> (db, Inl e)
               | (db, Inr (payload, failures)) \<Rightarrow> (db, Inr ([payload], failures))))) of
        (db, Inl e) \<Rightarrow> (db, Inl e)
      | (db, Inr (payloads, failures)) \<Rightarrow>
          (case execute_batches env project settings scope allowed agent task run bs failures db of
             (db, Inl e) \<Rightarrow> (db, Inl e)
           | (db, Inr rest) \<Rightarrow> (db, Inr (payloads @ rest))))"

definition skipped_payload :: "tool_call \<Rightarrow> pyval dict" where
  "skipped_payload call =
     [(''tool'', PStr (str_or (pget call ''tool'') [])), (''status'', PStr ''skipped''),
      (''error'', PStr ''Tool calling disabled by agent model policy.'')]"

definition secret_scope_of :: "project_row \<Rightarrow> (string, string) result" where
  "secret_scope_of project =
     (let hitl = pget (pj_settings project) ''hitl'' in
      if truthy hitl \<and> \<not> is_dict hitl then Inl ''AttributeError''
      else Inr (str_or (pget (dict_or_empty hitl) ''secret_scope'') ''project_default''))"

definition effective_allowed_tools :: "agent_run \<Rightarrow> agent_profile option \<Rightarrow> string list" where
  "effective_allowed_tools run agent =
     fold (\<lambda>tool allowed. if py_strip (py_str tool) = [] \<or> py_strip (py_str tool) \<in> set allowed
             then allowed else allowed @ [py_strip (py_str tool)])
       (list_or_empty (pget (ar_input run) ''agent_pattern_tools''))
       (case agent of None \<Rightarrow> [] | Some a \<Rightarrow> map py_str (ap_allowed_tools a))"

definition execute_tool_calls ::
  "agent_env \<Rightarrow> project_row \<Rightarrow> agent_task option \<Rightarrow> agent_run \<Rightarrow> tool_call list \<Rightarrow> string list \<Rightarrow>
   agent_profile option \<Rightarrow> agent_db \<Rightarrow> agent_db \<times> (agent_error, pyval dict list) result" where
  "execute_tool_calls env project task run tool_calls allowed agent db =
     (if tool_calls = [] then (db, Inr [])
      else if \<not> tool_calling_allowed agent then
        (run_event run ''tool_calls_skipped'' db, Inr (map skipped_payload tool_calls))
      else case secret_scope_of project of
        Inl e \<Rightarrow> (db, Inl (Raised (PyError e)))
      | Inr scope \<Rightarrow>
          execute_batches env project (ae_settings env project) scope allowed agent task run
            (partition_tool_calls tool_calls) 0 db)"

end
