(* ===== verification/Approval_Escalation.thy ===== *)
theory Approval_Escalation
  imports Approver_Routing Notifications
begin

text \<open>
  Handing an approval on: \<open>delegate_approval\<close> of \<open>orchestration/execution/hitl/approval_delegation.py\<close>
  and the SLA scan of \<open>approval_sla.py\<close>, which warns the eligible approvers before the deadline and
  escalates after it.

  Rows another transaction has locked are skipped: \<open>locked\<close> says which. An error anywhere in the
  scan leaves the store as it was, since only its end commits.
\<close>

section \<open>Delegation\<close>

fun check_delegations :: "string \<Rightarrow> string \<Rightarrow> pyval dict list \<Rightarrow> (hitl_error, unit) result" where
  "check_delegations from to [] = Inr ()"
| "check_delegations from to (row # rows) =
     (if str_or (pget row ''from_user_id'') [] = from
      then Inl (ApprovalDelegationError ''You have already delegated this approval'')
      else if str_or (pget row ''to_user_id'') [] = to
      then Inl (ApprovalDelegationError ''This user already has an active delegation'')
      else check_delegations from to rows)"

definition delegation_entry :: "hitl_env \<Rightarrow> int \<Rightarrow> string \<Rightarrow> string \<Rightarrow> string option \<Rightarrow> pyval" where
  "delegation_entry env now from to reason =
     (let r = py_strip (str_or (opt_str reason) []) in
      PDict [(''from_user_id'', PStr from), (''to_user_id'', PStr to),
             (''reason'', if r = [] then PNone else PStr r),
             (''created_at'', PStr (rt_iso (he_rt env) (Aware now))), (''active'', PBool True)])"

definition delegate_approval ::
  "hitl_env \<Rightarrow> int \<Rightarrow> identity_db \<Rightarrow> approval_request \<Rightarrow> string \<Rightarrow> string \<Rightarrow> string option \<Rightarrow>
   (hitl_error, approval_request) result" where
  "delegate_approval env now idb approval from to reason =
     guard_or (aq_status approval \<noteq> ''pending'')
       (ApprovalDelegationError (''Only pending approvals can be delegated; status is '' @
          repr_str (aq_status approval)))
     (guard_or (from = to) (ApprovalDelegationError ''Cannot delegate an approval to yourself'')
     (res_bind (recheck_user_eligible env now idb approval from) (\<lambda>_.
      case aq_workspace_id approval of
        None \<Rightarrow> Inl (ApprovalDelegationError ''Approval has no workspace context for delegation'')
      | Some ws \<Rightarrow>
          guard_or (ws = []) (ApprovalDelegationError ''Approval has no workspace context for delegation'')
          (res_bind (get_active_membership idb ws to) (\<lambda>m. case m of
             None \<Rightarrow> Inl (ApprovalDelegationError ''Delegate target is not an active workspace member'')
           | Some m \<Rightarrow>
               guard_or (\<not> role_has_permission (wm_role m) PERM_APPROVAL_DECIDE)
                 (ApprovalDelegationError (''Delegate target role '' @ repr_str (wm_role m) @
                    '' cannot decide approvals''))
               (res_bind (check_delegations from to (active_delegations (aq_delegations approval)))
                 (\<lambda>_. snapshot_routing_on_approval env now idb
                   (approval\<lparr>aq_delegations :=
                      aq_delegations approval @ [delegation_entry env now from to reason]\<rparr>)))))))) "

section \<open>The SLA scan\<close>

record sla_note =
  sn_user :: string
  sn_type :: string
  sn_title :: string
  sn_body :: string

definition eligible_users :: "approval_request \<Rightarrow> string list" where
  "eligible_users approval =
     filter (\<lambda>u. u \<noteq> []) (map (\<lambda>row. str_or (pget row ''user_id'') []) (aq_eligible approval))"

definition warn_notes :: "hitl_env \<Rightarrow> int \<Rightarrow> approval_request \<Rightarrow> sla_note list" where
  "warn_notes env due approval =
     map (\<lambda>u. \<lparr>sn_user = u, sn_type = ''approval_sla_warn'',
        sn_title = ''Approval nearing SLA deadline'',
        sn_body = ''Approval '' @ aq_approval_type approval @ '' is due by '' @ he_iso_minutes env due\<rparr>)
       (eligible_users approval)"

definition escalate_notes :: "pyval dict \<Rightarrow> approval_request \<Rightarrow> sla_note list" where
  "escalate_notes policy approval =
     map (\<lambda>u. \<lparr>sn_user = u, sn_type = ''approval_sla_escalated'', sn_title = ''Approval escalated'',
        sn_body = ''Approval '' @ aq_approval_type approval @
          '' breached SLA and was escalated to '' @
          py_join '', '' (map py_str (list_or_empty (pget policy ''escalation_roles'')))\<rparr>)
       (eligible_users approval)"

record scan_outcome =
  so_approval :: approval_request
  so_warned :: bool
  so_escalated :: bool
  so_notes :: "sla_note list"

definition warned :: "approval_request \<Rightarrow> bool" where
  "warned approval \<longleftrightarrow> truthy (pget (aq_escalation_state approval) ''warn_sent_at'')"

definition scan_warn ::
  "hitl_env \<Rightarrow> int \<Rightarrow> pyval dict \<Rightarrow> int \<Rightarrow> approval_request \<Rightarrow> (hitl_error, scan_outcome) result" where
  "scan_warn env now policy due approval =
     (let warn_hours = hours_of policy ''warn_hours_before_due'' in
      res_bind (add_hours due (- warn_hours)) (\<lambda>warn_at.
      Inr (if 0 < warn_hours \<and> warn_at \<le> now \<and> now < due \<and> \<not> warned approval
           then (let a = approval\<lparr>aq_escalation_state := dset ''warn_sent_at''
                       (PStr (rt_iso (he_rt env) (Aware now))) (aq_escalation_state approval)\<rparr>
                 in \<lparr>so_approval = a, so_warned = True, so_escalated = False,
                     so_notes = warn_notes env due a\<rparr>)
           else \<lparr>so_approval = approval, so_warned = False, so_escalated = False, so_notes = []\<rparr>)))"

definition escalate ::
  "hitl_env \<Rightarrow> int \<Rightarrow> identity_db \<Rightarrow> pyval dict \<Rightarrow> approval_request \<Rightarrow>
   (hitl_error, approval_request) result" where
  "escalate env now idb policy approval =
     snapshot_routing_on_approval env now idb
       (approval\<lparr>aq_escalation_state :=
          dset ''escalation_roles'' (PList (list_or_empty (pget policy ''escalation_roles'')))
         (dset ''escalated_at'' (PStr (rt_iso (he_rt env) (Aware now)))
            (aq_escalation_state approval))\<rparr>)"

definition scan_approval ::
  "hitl_env \<Rightarrow> int \<Rightarrow> identity_db \<Rightarrow> approval_request \<Rightarrow> (hitl_error, scan_outcome) result" where
  "scan_approval env now idb approval =
     res_bind (normalize_approval_sla_policy env (PDict (aq_sla_policy approval))) (\<lambda>policy.
     let idle = Inr \<lparr>so_approval = approval, so_warned = False, so_escalated = False, so_notes = []\<rparr> in
     if \<not> truthy (pget policy ''enabled'') then idle
     else case aq_due_at approval of
       None \<Rightarrow> idle
     | Some due \<Rightarrow>
         res_bind (scan_warn env now policy (instant due) approval) (\<lambda>w.
         res_bind (add_hours (instant due) (hours_of policy ''escalate_hours_after_due'')) (\<lambda>breach_at.
         if now < breach_at \<or> is_escalated (aq_escalation_state approval) then Inr w
         else res_bind (escalate env now idb policy (so_approval w)) (\<lambda>a.
           Inr (w\<lparr>so_approval := a, so_escalated := True,
                  so_notes := so_notes w @ escalate_notes policy a\<rparr>)))))"

definition sla_due :: "(approval_request \<Rightarrow> bool) \<Rightarrow> approval_request \<Rightarrow> bool" where
  "sla_due locked a \<longleftrightarrow> aq_status a = ''pending'' \<and> aq_due_at a \<noteq> None \<and> \<not> locked a"

definition push_note :: "(nat \<Rightarrow> string) \<Rightarrow> int \<Rightarrow> sla_note \<Rightarrow> notification_db \<Rightarrow> notification_db" where
  "push_note fresh now n db =
     create_notification (fresh (length db)) now (sn_user n) (sn_type n) (sn_title n) (Some (sn_body n)) db"

fun scan_rows ::
  "hitl_env \<Rightarrow> int \<Rightarrow> (approval_request \<Rightarrow> bool) \<Rightarrow> identity_db \<Rightarrow> approval_request list \<Rightarrow>
   (hitl_error, approval_request list \<times> scan_outcome list) result" where
  "scan_rows env now locked idb [] = Inr ([], [])"
| "scan_rows env now locked idb (a # rows) =
     (if sla_due locked a
      then res_bind (scan_approval env now idb a) (\<lambda>s.
           res_bind (scan_rows env now locked idb rows) (\<lambda>(rows', outcomes).
             Inr (so_approval s # rows', s # outcomes)))
      else res_bind (scan_rows env now locked idb rows) (\<lambda>(rows', outcomes).
             Inr (a # rows', outcomes)))"

definition scan_pending_approval_sla ::
  "hitl_env \<Rightarrow> int \<Rightarrow> (approval_request \<Rightarrow> bool) \<Rightarrow> (nat \<Rightarrow> string) \<Rightarrow> identity_db \<Rightarrow>
   approval_request list \<times> notification_db \<Rightarrow>
   (hitl_error, (approval_request list \<times> notification_db) \<times> nat \<times> nat \<times> nat) result" where
  "scan_pending_approval_sla env now locked fresh idb st =
     (case st of (approvals, inbox) \<Rightarrow>
        res_bind (scan_rows env now locked idb approvals) (\<lambda>(approvals', outcomes).
        Inr ((approvals', fold (push_note fresh now) (concat (map so_notes outcomes)) inbox),
             length outcomes, length (filter so_warned outcomes),
             length (filter so_escalated outcomes))))"

end
