(* ===== verification/Approval_Routing_Properties.thy ===== *)
theory Approval_Routing_Properties
  imports Approval_Escalation Exact_Effect_Properties
begin

text \<open>
  Who the routing makes eligible, what a delegation changes, how often the SLA scan speaks, and the
  commit that rechecks its approver.
\<close>

section \<open>Eligibility\<close>

lemma matching_memberI:
  "m \<in> set (list_active_memberships_by_roles idb ws roles) \<Longrightarrow> matching_member idb ws roles (wm_user m)"
  by (auto simp: list_active_memberships_by_roles_def matching_member_def Let_def split: if_splits)

lemma role_entries_ok:
  "entries_ok P d \<Longrightarrow> (\<And>m. m \<in> set ms \<Longrightarrow> P (wm_user m)) \<Longrightarrow>
   entries_ok P (fold (\<lambda>m. dset (wm_user m) (role_entry po c m)) ms d)"
proof (induction ms arbitrary: d)
  case (Cons m ms)
  have "entries_ok P (dset (wm_user m) (role_entry po c m) d)"
    by (rule entries_ok_dset) (use Cons.prems in \<open>auto simp: role_entry_def\<close>)
  then show ?case using Cons by simp
qed simp

lemma workspace_approvers_ok:
  assumes "workspace_approvers idb workspace_id po c roles ids = Inr d"
  shows "entries_ok (\<lambda>u. \<exists>w. workspace_id = Some w \<and>
    (matching_member idb w roles u \<or> deciding_member idb w u)) d" (is "entries_ok ?P d")
proof (cases workspace_id)
  case (Some w)
  show ?thesis
  proof (cases "w = []")
    case False
    have start: "entries_ok ?P (fold (\<lambda>m. dset (wm_user m) (role_entry po c m))
        (list_active_memberships_by_roles idb w roles) [])"
      by (rule role_entries_ok) (use Some in \<open>auto simp: entries_ok_def intro: matching_memberI\<close>)
    show ?thesis
      by (rule add_deciding_members_ok [OF _ start, of idb w "map (\<lambda>u. (u, explicit_entry po)) ids"])
        (use assms Some False in \<open>auto simp: workspace_approvers_def explicit_entry_def\<close>)
  qed (use assms Some in \<open>auto simp: workspace_approvers_def entries_ok_def\<close>)
qed (use assms in \<open>auto simp: workspace_approvers_def entries_ok_def\<close>)

lemma owner_fallback_ok:
  "entries_ok P d \<Longrightarrow> (\<And>u. project_owner = Some u \<Longrightarrow> P u) \<Longrightarrow>
   entries_ok P (add_owner_fallback project_owner d)"
  by (auto simp: add_owner_fallback_def intro!: entries_ok_dset split: option.split)

lemma apply_delegations_ok:
  assumes "apply_delegations idb workspace_id ds d = Inr d'" "entries_ok P d"
    and "\<And>w u. workspace_id = Some w \<Longrightarrow> deciding_member idb w u \<Longrightarrow> P u"
  shows "entries_ok P d'"
proof -
  obtain away targets where con: "delegation_constraints ds = (away, targets)" by fastforce
  have rest: "entries_ok P (filter (\<lambda>kv. fst kv \<notin> set away) d)"
    using assms(2) by (auto simp: entries_ok_def)
  show ?thesis
  proof (cases workspace_id)
    case (Some w)
    show ?thesis
    proof (cases "w = []")
      case False
      show ?thesis
        by (rule add_deciding_members_ok [OF _ rest, of idb w "map (\<lambda>(to, from). (to, delegate_entry from)) targets"])
          (use assms(1,3) con Some False in \<open>auto simp: apply_delegations_def delegate_entry_def\<close>)
    qed (use assms(1) con Some rest in \<open>auto simp: apply_delegations_def\<close>)
  qed (use assms(1) con rest in \<open>auto simp: apply_delegations_def\<close>)
qed

text \<open>The stages of a resolution.\<close>

lemma resolve_Inr:
  assumes "resolve_eligible_approvers env now idb approval = Inr (eligible, workspace_id, snapshot)"
  obtains roles d0 d where
    "match_roles env (extract_explicit_approver_ids (aq_payload approval))
       (extract_explicit_roles (aq_payload approval)) (aq_escalation_state approval)
       (aq_sla_policy approval)
       (policy_required_roles (aq_payload approval) (aq_approval_type approval)
         (routed_action_key approval)) = Inr roles"
    "pget snapshot ''matched_roles'' = PList roles"
    "workspace_approvers idb workspace_id (map_option pj_owner (get_project idb (aq_project_id approval)))
       (case get_project idb (aq_project_id approval) of None \<Rightarrow> None | Some p \<Rightarrow> pj_company p)
       roles (extract_explicit_approver_ids (aq_payload approval)) = Inr d0"
    "apply_delegations idb workspace_id (aq_delegations approval)
       (add_owner_fallback (map_option pj_owner (get_project idb (aq_project_id approval))) d0) = Inr d"
    "eligible = map snd d"
    "resolve_workspace_id_for_approval idb (aq_project_id approval) (aq_requested_by approval) =
       Inr workspace_id"
  using assms that by (auto simp: resolve_eligible_approvers_def snapshot_dict_def Let_def)

definition project_owner_of :: "identity_db \<Rightarrow> approval_request \<Rightarrow> string \<Rightarrow> bool" where
  "project_owner_of idb approval u \<longleftrightarrow>
     map_option pj_owner (get_project idb (aq_project_id approval)) = Some u"

lemma resolve_entries:
  assumes "resolve_eligible_approvers env now idb approval = Inr (eligible, workspace_id, snapshot)"
    and "pget snapshot ''matched_roles'' = PList roles" "a \<in> set eligible"
  shows "project_owner_of idb approval (ea_user a) \<or>
    (\<exists>w. workspace_id = Some w \<and>
       (matching_member idb w roles (ea_user a) \<or> deciding_member idb w (ea_user a)))"
proof -
  let ?P = "\<lambda>u. project_owner_of idb approval u \<or> (\<exists>w. workspace_id = Some w \<and>
       (matching_member idb w roles u \<or> deciding_member idb w u))"
  obtain d0 d where d: "workspace_approvers idb workspace_id
       (map_option pj_owner (get_project idb (aq_project_id approval)))
       (case get_project idb (aq_project_id approval) of None \<Rightarrow> None | Some p \<Rightarrow> pj_company p)
       roles (extract_explicit_approver_ids (aq_payload approval)) = Inr d0"
    "apply_delegations idb workspace_id (aq_delegations approval)
       (add_owner_fallback (map_option pj_owner (get_project idb (aq_project_id approval))) d0) = Inr d"
    "eligible = map snd d"
    by (rule resolve_Inr [OF assms(1)]) (use assms(2) in auto)
  have "entries_ok ?P d0" by (rule entries_ok_mono [OF workspace_approvers_ok [OF d(1)]]) auto
  then have "entries_ok ?P (add_owner_fallback
      (map_option pj_owner (get_project idb (aq_project_id approval))) d0)"
    by (rule owner_fallback_ok) (simp add: project_owner_of_def)
  then have "entries_ok ?P d" by (rule apply_delegations_ok [OF d(2)]) auto
  then show ?thesis using assms(3) d(3) by (auto simp: entries_ok_def)
qed

text \<open>Roles that may decide match deciding members only.\<close>

lemma matching_deciding:
  "matching_member idb w roles u \<Longrightarrow>
   list_all (\<lambda>r. role_has_permission (py_str r) PERM_APPROVAL_DECIDE) roles \<Longrightarrow> deciding_member idb w u"
  by (fastforce simp: matching_member_def deciding_member_def list_all_iff)

lemma default_roles_decide:
  "list_all (\<lambda>r. role_has_permission (py_str r) PERM_APPROVAL_DECIDE) (map PStr ROLES_WITH_DECIDE)"
  "list_all (\<lambda>r. role_has_permission (py_str r) PERM_APPROVAL_DECIDE) (map PStr HIGH_RISK_ROLES)"
  by code_simp+

lemma policy_roles_high: "policy_required_roles p t k = Some rs \<Longrightarrow> rs = HIGH_RISK_ROLES"
  by (auto simp: policy_required_roles_def Let_def split: option.splits if_splits)

lemma match_roles_decide:
  assumes "match_roles env ids None escalation sla (policy_required_roles p t k) = Inr roles"
    and "\<not> is_escalated escalation"
  shows "list_all (\<lambda>r. role_has_permission (py_str r) PERM_APPROVAL_DECIDE) roles"
  using assms default_roles_decide policy_roles_high [of p t k]
  by (cases "policy_required_roles p t k") (auto simp: match_roles_def split: if_splits)

lemma eligible_deciders:
  assumes "resolve_eligible_approvers env now idb approval = Inr (eligible, workspace_id, snapshot)"
    and "extract_explicit_roles (aq_payload approval) = None"
    and "\<not> is_escalated (aq_escalation_state approval)" "a \<in> set eligible"
  shows "project_owner_of idb approval (ea_user a) \<or>
    (\<exists>w. workspace_id = Some w \<and> deciding_member idb w (ea_user a))"
proof -
  obtain roles where roles: "pget snapshot ''matched_roles'' = PList roles"
    "match_roles env (extract_explicit_approver_ids (aq_payload approval)) None
       (aq_escalation_state approval) (aq_sla_policy approval)
       (policy_required_roles (aq_payload approval) (aq_approval_type approval)
         (routed_action_key approval)) = Inr roles"
    by (rule resolve_Inr [OF assms(1)]) (use assms(2) in auto)
  have "list_all (\<lambda>r. role_has_permission (py_str r) PERM_APPROVAL_DECIDE) roles"
    by (rule match_roles_decide [OF roles(2) assms(3)])
  then show ?thesis
    using resolve_entries [OF assms(1) roles(1) assms(4)] matching_deciding by blast
qed

text \<open>
  C15. When the payload names no roles and the approval is not escalated, every eligible approver is
  the owner of the project or an active member of the approval's workspace whose role may decide
  approvals; delegates and explicitly named users included.
\<close>

theorem eligible_may_decide:
  assumes "resolve_eligible_approvers env now idb approval = Inr (eligible, workspace_id, snapshot)"
    and "extract_explicit_roles (aq_payload approval) = None"
    and "\<not> is_escalated (aq_escalation_state approval)" "a \<in> set eligible"
  shows "project_owner_of idb approval (ea_user a) \<or>
    (\<exists>w. workspace_id = Some w \<and> deciding_member idb w (ea_user a))"
  using assms by (rule eligible_deciders)

section \<open>Delegation\<close>

lemma check_delegations_Inr:
  "check_delegations from to rows = Inr () \<longleftrightarrow>
     (\<forall>row \<in> set rows. str_or (pget row ''from_user_id'') [] \<noteq> from \<and>
        str_or (pget row ''to_user_id'') [] \<noteq> to)"
  by (induction rows) auto

lemma delegation_pairs_append:
  assumes "from \<noteq> []" "to \<noteq> []"
  shows "delegation_pairs (rows @ [delegation_entry env now from to reason]) =
    delegation_pairs rows @ [(from, to)]"
proof -
  have entry: "\<exists>d. delegation_entry env now from to reason = PDict d \<and>
      pget d ''from_user_id'' = PStr from \<and> pget d ''to_user_id'' = PStr to \<and>
      dget d ''active'' = Some (PBool True)"
    by (simp add: delegation_entry_def Let_def)
  then obtain d where d: "delegation_entry env now from to reason = PDict d"
    "pget d ''from_user_id'' = PStr from" "pget d ''to_user_id'' = PStr to"
    "dget d ''active'' = Some (PBool True)"
    by blast
  have "pget d ''active'' = PBool True" using d(4) by (simp add: pget_def)
  then show ?thesis using assms
    by (simp add: delegation_pairs_def active_delegations_def map_filter_simps d str_or_def
        map_filter_def)
qed

text \<open>What a successful delegation had checked.\<close>

lemma delegate_Inr:
  assumes "delegate_approval env now idb approval from to reason = Inr approval'"
  obtains a ws m where "aq_status approval = ''pending''" "from \<noteq> to"
    "recheck_user_eligible env now idb approval from = Inr a"
    "aq_workspace_id approval = Some ws" "ws \<noteq> []"
    "get_active_membership idb ws to = Inr (Some m)"
    "role_has_permission (wm_role m) PERM_APPROVAL_DECIDE"
    "\<forall>row \<in> set (active_delegations (aq_delegations approval)).
       str_or (pget row ''from_user_id'') [] \<noteq> from \<and> str_or (pget row ''to_user_id'') [] \<noteq> to"
    "snapshot_routing_on_approval env now idb
       (approval\<lparr>aq_delegations := aq_delegations approval @ [delegation_entry env now from to reason]\<rparr>) =
       Inr approval'"
proof -
  obtain a ws m where s: "aq_status approval = ''pending''" "from \<noteq> to"
    "recheck_user_eligible env now idb approval from = Inr a"
    "aq_workspace_id approval = Some ws" "ws \<noteq> []"
    "get_active_membership idb ws to = Inr (Some m)"
    "role_has_permission (wm_role m) PERM_APPROVAL_DECIDE"
    "check_delegations from to (active_delegations (aq_delegations approval)) = Inr ()"
    "snapshot_routing_on_approval env now idb
       (approval\<lparr>aq_delegations := aq_delegations approval @ [delegation_entry env now from to reason]\<rparr>) =
       Inr approval'"
    using assms unfolding delegate_approval_def
    by (auto split: option.splits)
  then show thesis using that by (simp add: check_delegations_Inr)
qed

lemma dhas_dset: "dhas (dset k v d) j \<longleftrightarrow> j = k \<or> dhas d j"
  by (simp add: dhas_def dom_update)

lemma add_deciding_members_keys:
  "add_deciding_members idb ws es d = Inr d' \<Longrightarrow> dhas d' u \<Longrightarrow> dhas d u \<or> u \<in> fst ` set es"
proof (induction es arbitrary: d)
  case (Cons e es)
  obtain k f where e: "e = (k, f)" by fastforce
  obtain d1 where d1: "add_deciding_member idb ws f k d = Inr d1" "add_deciding_members idb ws es d1 = Inr d'"
    using Cons.prems(1) e by auto
  have "dhas d1 u \<Longrightarrow> dhas d u \<or> u = k"
    using d1(1) by (rule add_deciding_member_cases) (auto simp: dhas_dset)
  then show ?case using Cons.IH [OF d1(2)] Cons.prems(2) e by auto
qed simp

lemma add_deciding_members_adds:
  assumes "add_deciding_members idb ws es d = Inr d'"
    and "dhas d u \<or> u \<in> fst ` set es \<and> get_active_membership idb ws u = Inr (Some m) \<and>
      role_has_permission (wm_role m) PERM_APPROVAL_DECIDE"
  shows "dhas d' u"
  using assms
proof (induction es arbitrary: d)
  case (Cons e es)
  obtain k f where e: "e = (k, f)" by fastforce
  obtain d1 where d1: "add_deciding_member idb ws f k d = Inr d1" "add_deciding_members idb ws es d1 = Inr d'"
    using Cons.prems(1) e by auto
  have "dhas d u \<Longrightarrow> dhas d1 u"
    using d1(1) by (rule add_deciding_member_cases) (auto simp: dhas_dset)
  moreover have "u = k \<Longrightarrow> get_active_membership idb ws u = Inr (Some m) \<Longrightarrow>
      role_has_permission (wm_role m) PERM_APPROVAL_DECIDE \<Longrightarrow> dhas d1 u"
    using d1(1) by (auto simp: add_deciding_member_def dhas_dset)
  ultimately show ?case using Cons.IH [OF d1(2)] Cons.prems(2) e by auto
qed simp

lemma targets_keys:
  "fst ` set (snd (delegation_constraints rows)) = snd ` set (delegation_pairs rows)"
proof -
  have "fst ` set (fold (\<lambda>(from, to) targets. dset to from targets) ps d) = fst ` set d \<union> snd ` set ps"
    for ps :: "(string \<times> string) list" and d
  proof (induction ps arbitrary: d)
    case (Cons p ps)
    show ?case using Cons.IH [of "dset (snd p) (fst p) d"]
      by (simp add: dom_update case_prod_unfold)
  qed simp
  then show ?thesis by (simp add: delegation_constraints_def)
qed

lemma entries_keys: "entries_ok P d \<Longrightarrow> u \<in> ea_user ` snd ` set d \<longleftrightarrow> dhas d u"
  by (force simp: entries_ok_def dhas_def)

text \<open>The eligible users of a routed approval are the keys of the resolved dictionary.\<close>

lemma snapshot_Inr:
  assumes "snapshot_routing_on_approval env now idb approval = Inr approval'"
  obtains workspace_id roles d0 d where
    "aq_workspace_id approval' = workspace_id"
    "resolve_workspace_id_for_approval idb (aq_project_id approval) (aq_requested_by approval) = Inr workspace_id"
    "entries_ok (\<lambda>_. True) d0"
    "apply_delegations idb workspace_id (aq_delegations approval) d0 = Inr d"
    "\<And>u. u \<noteq> [] \<Longrightarrow> u \<in> set (eligible_users approval') \<longleftrightarrow> dhas d u"
    "aq_delegations approval' = aq_delegations approval" "aq_status approval' = aq_status approval"
    "aq_escalation_state approval' = aq_escalation_state approval"
proof -
  obtain a1 eligible ws snap where a1: "apply_sla_on_approval env idb approval = Inr a1"
    "resolve_eligible_approvers env now idb a1 = Inr (eligible, ws, snap)"
    "approval' = a1\<lparr>aq_workspace_id := ws, aq_eligible := map eligible_approver_to_dict eligible,
                    aq_routing := snap\<rparr>"
    using assms by (auto simp: snapshot_routing_on_approval_def)
  have same: "aq_delegations a1 = aq_delegations approval" "aq_project_id a1 = aq_project_id approval"
    "aq_requested_by a1 = aq_requested_by approval" "aq_status a1 = aq_status approval"
    "aq_escalation_state a1 = aq_escalation_state approval"
    using a1(1) by (auto simp: apply_sla_on_approval_def)
  let ?owner = "map_option pj_owner (get_project idb (aq_project_id a1))"
  obtain roles d0 d where d: "workspace_approvers idb ws ?owner
       (case get_project idb (aq_project_id a1) of None \<Rightarrow> None | Some p \<Rightarrow> pj_company p)
       roles (extract_explicit_approver_ids (aq_payload a1)) = Inr d0"
    "apply_delegations idb ws (aq_delegations a1) (add_owner_fallback ?owner d0) = Inr d"
    "eligible = map snd d"
    "resolve_workspace_id_for_approval idb (aq_project_id a1) (aq_requested_by a1) = Inr ws"
    by (rule resolve_Inr [OF a1(2)]) auto
  have ok0: "entries_ok (\<lambda>_. True) (add_owner_fallback ?owner d0)"
    by (rule owner_fallback_ok, rule entries_ok_mono [OF workspace_approvers_ok [OF d(1)]]) auto
  have "entries_ok (\<lambda>_. True) d" by (rule apply_delegations_ok [OF d(2) ok0]) simp
  then have keys: "u \<in> ea_user ` set eligible \<longleftrightarrow> dhas d u" for u
    using entries_keys [of "\<lambda>_. True" d u] d(3) by (simp add: image_image)
  have "eligible_users approval' = filter (\<lambda>u. u \<noteq> []) (map ea_user eligible)"
    by (auto simp: eligible_users_def a1(3) eligible_approver_to_dict_def str_or_def comp_def
        intro!: arg_cong [of _ _ "filter _"])
  then have "u \<noteq> [] \<Longrightarrow> u \<in> set (eligible_users approval') \<longleftrightarrow> dhas d u" for u
    using keys [of u] by simp
  then show thesis
    using that [of ws "add_owner_fallback ?owner d0" d] ok0 d(2,4) same a1(3) by auto
qed


section \<open>The SLA scan\<close>

lemma snapshot_keeps:
  "snapshot_routing_on_approval env now idb approval = Inr approval' \<Longrightarrow>
     aq_escalation_state approval' = aq_escalation_state approval \<and>
     aq_status approval' = aq_status approval \<and> aq_delegations approval' = aq_delegations approval \<and>
     aq_id approval' = aq_id approval \<and> aq_approved_by approval' = aq_approved_by approval"
  by (auto simp: snapshot_routing_on_approval_def apply_sla_on_approval_def)

definition named_clock :: "hitl_env \<Rightarrow> bool" where
  "named_clock env \<longleftrightarrow> (\<forall>t. rt_iso (he_rt env) t \<noteq> [])"

lemma scan_warn_Inr:
  assumes "scan_warn env now policy due approval = Inr w" "named_clock env"
  shows "so_escalated w = False \<and> (so_warned w \<longrightarrow> \<not> warned approval) \<and>
    (warned (so_approval w) \<longleftrightarrow> warned approval \<or> so_warned w) \<and>
    is_escalated (aq_escalation_state (so_approval w)) = is_escalated (aq_escalation_state approval) \<and>
    aq_status (so_approval w) = aq_status approval \<and> aq_id (so_approval w) = aq_id approval \<and>
    aq_delegations (so_approval w) = aq_delegations approval \<and>
    aq_approved_by (so_approval w) = aq_approved_by approval"
  using assms
  by (auto simp: scan_warn_def Let_def warned_def is_escalated_def named_clock_def split: if_splits)

lemma escalate_Inr:
  assumes "escalate env now idb policy approval = Inr a" "named_clock env"
  shows "warned a = warned approval \<and> is_escalated (aq_escalation_state a) \<and>
    aq_status a = aq_status approval \<and> aq_id a = aq_id approval \<and>
    aq_delegations a = aq_delegations approval \<and> aq_approved_by a = aq_approved_by approval"
  using assms snapshot_keeps
  by (force simp: escalate_def warned_def is_escalated_def named_clock_def)

text \<open>One visit of a row: each notice is given only if it was not given, and is remembered.\<close>

lemma scan_approval_once:
  assumes "scan_approval env now idb approval = Inr s" "named_clock env"
  shows "(so_warned s \<longrightarrow> \<not> warned approval) \<and>
    (so_escalated s \<longrightarrow> \<not> is_escalated (aq_escalation_state approval)) \<and>
    (warned (so_approval s) \<longleftrightarrow> warned approval \<or> so_warned s) \<and>
    (is_escalated (aq_escalation_state (so_approval s)) \<longleftrightarrow>
       is_escalated (aq_escalation_state approval) \<or> so_escalated s) \<and>
    aq_status (so_approval s) = aq_status approval \<and> aq_id (so_approval s) = aq_id approval \<and>
    aq_delegations (so_approval s) = aq_delegations approval \<and>
    aq_approved_by (so_approval s) = aq_approved_by approval"
proof -
  obtain policy where p: "normalize_approval_sla_policy env (PDict (aq_sla_policy approval)) = Inr policy"
    using assms(1) by (auto simp: scan_approval_def)
  show ?thesis
  proof (cases "truthy (pget policy ''enabled'') \<and> aq_due_at approval \<noteq> None")
    case False
    then show ?thesis using assms(1) p by (auto simp: scan_approval_def Let_def split: if_splits)
  next
    case True
    then obtain due where due: "aq_due_at approval = Some due" by blast
    obtain w b where w: "scan_warn env now policy (instant due) approval = Inr w"
      "add_hours (instant due) (hours_of policy ''escalate_hours_after_due'') = Inr b"
      "(if now < b \<or> is_escalated (aq_escalation_state approval) then Inr w
        else res_bind (escalate env now idb policy (so_approval w)) (\<lambda>a.
           Inr (w\<lparr>so_approval := a, so_escalated := True,
                  so_notes := so_notes w @ escalate_notes policy a\<rparr>))) = Inr s"
      using assms(1) p True due by (auto simp: scan_approval_def Let_def)
    note warn = scan_warn_Inr [OF w(1) assms(2)]
    show ?thesis
    proof (cases "now < b \<or> is_escalated (aq_escalation_state approval)")
      case True
      then show ?thesis using w(3) warn by auto
    next
      case False
      then obtain a where a: "escalate env now idb policy (so_approval w) = Inr a"
        "s = w\<lparr>so_approval := a, so_escalated := True,
               so_notes := so_notes w @ escalate_notes policy a\<rparr>"
        using w(3) by auto
      show ?thesis using escalate_Inr [OF a(1) assms(2)] warn a(2) False by auto
    qed
  qed
qed

end
