(* ===== verification/Agent_Tool_Properties.thy ===== *)
theory Agent_Tool_Properties
  imports Agent_Tools Approval_Routing_Properties
begin

text \<open>
  What the tool calls of an agent may do: no dispatch without authorization and, where a policy asks
  for approval, without an approval of exactly these arguments; grants are used up; and where the
  protocol of approvals fails.
\<close>

section \<open>The approvals a call can use\<close>

definition consumed_ids :: "agent_db \<Rightarrow> string set" where
  "consumed_ids db = {aq_id a |a. a \<in> set (ag_approvals db) \<and> truthy (pget (aq_payload a) ''_consumed_at'')}"

lemma consumed_put_grant:
  assumes "truthy (pget (aq_payload a) ''_consumed_at'')"
  shows "consumed_ids db \<subseteq> consumed_ids (put_grant a db)"
proof
  fix i
  assume "i \<in> consumed_ids db"
  then obtain b where b: "b \<in> set (ag_approvals db)" "truthy (pget (aq_payload b) ''_consumed_at'')" "aq_id b = i"
    by (auto simp: consumed_ids_def)
  let ?b = "if aq_id b = aq_id a then a else b"
  have "?b \<in> set (ag_approvals (put_grant a db))" using b(1) by (auto simp: put_grant_def)
  moreover have "truthy (pget (aq_payload ?b) ''_consumed_at'')" "aq_id ?b = i" using assms b by auto
  ultimately show "i \<in> consumed_ids (put_grant a db)" unfolding consumed_ids_def by blast
qed

lemma put_grant_consumed:
  "truthy (pget (aq_payload a) ''_consumed_at'') \<Longrightarrow> b \<in> set (ag_approvals db) \<Longrightarrow> aq_id b = aq_id a \<Longrightarrow>
   aq_id a \<in> consumed_ids (put_grant a db)"
  by (force simp: consumed_ids_def put_grant_def)

lemma put_grant_same [simp]:
  "ag_calls (put_grant a db) = ag_calls db" "ag_events (put_grant a db) = ag_events db"
  by (simp_all add: put_grant_def)

lemma run_event_same [simp]:
  "ag_calls (run_event run k db) = ag_calls db" "ag_approvals (run_event run k db) = ag_approvals db"
  "consumed_ids (run_event run k db) = consumed_ids db"
  by (simp_all add: run_event_def consumed_ids_def)

lemma consumed_payload_marked:
  "named_clock env \<Longrightarrow> truthy (pget (consumed_payload env now tool h p) ''_consumed_at'')"
  by (simp add: consumed_payload_def named_clock_def)

lemma approved_rows_in:
  "row \<in> set (approved_rows project_id run_id db) \<Longrightarrow> row \<in> set (ag_approvals db) \<and>
     aq_status row = ''approved'' \<and> (project_id \<noteq> [] \<longrightarrow> aq_project_id row = Some project_id) \<and>
     (run_id \<noteq> [] \<longrightarrow> aq_run_id row = Some run_id)"
  by (auto simp: approved_rows_def dest!: in_set_takeD)

text \<open>An approval of a call: approved in the run, unused, and of exactly these arguments.\<close>

definition usable_grant :: "agent_db \<Rightarrow> project_row \<Rightarrow> agent_run \<Rightarrow> string \<Rightarrow> string \<Rightarrow> approval_request \<Rightarrow> bool" where
  "usable_grant db project run tool args_hash row \<longleftrightarrow>
     row \<in> set (ag_approvals db) \<and> aq_status row = ''approved'' \<and>
     (pj_id project \<noteq> [] \<longrightarrow> aq_project_id row = Some (pj_id project)) \<and>
     (ar_id run \<noteq> [] \<longrightarrow> aq_run_id row = Some (ar_id run)) \<and> \<not> is_consumed (aq_payload row) \<and>
     (grant_action row \<in> set (exact_tools tool) \<or> aq_approval_type row \<in> set (exact_tools tool)) \<and>
     py_strip (str_or (pget (aq_payload row) ''arguments_hash'') []) = args_hash"

lemma consume_approval:
  assumes "consume_or_check_tool_approval env project run task_id tool h consume required db = (db', granted)"
    and "named_clock (ae_hitl env)"
  shows "ag_calls db' = ag_calls db \<and> ag_events db' = ag_events db \<and> consumed_ids db \<subseteq> consumed_ids db' \<and>
    (\<not> consume \<longrightarrow> db' = db) \<and>
    (granted \<and> consume \<and> required \<longrightarrow>
       (\<exists>row. usable_grant db project run tool h row \<and> aq_id row \<in> consumed_ids db'))"
proof (cases "find (tool_grant_matches (pj_owner project) tool h task_id (ar_worker run) required)
    (approved_rows (pj_id project) (ar_id run) db)")
  case None
  then show ?thesis using assms(1) by (simp add: consume_or_check_tool_approval_def)
next
  case (Some row)
  then have row: "row \<in> set (approved_rows (pj_id project) (ar_id run) db)"
    "tool_grant_matches (pj_owner project) tool h task_id (ar_worker run) required row"
    by (auto simp: find_Some_iff)
  let ?row = "row\<lparr>aq_payload := consumed_payload (ae_hitl env) (ae_now env) tool h (aq_payload row)\<rparr>"
  have marked: "truthy (pget (aq_payload ?row) ''_consumed_at'')"
    using consumed_payload_marked [OF assms(2)] by simp
  have usable: "required \<longrightarrow> usable_grant db project run tool h row"
    using approved_rows_in [OF row(1)] row(2)
    by (auto simp: usable_grant_def tool_grant_matches_def hash_matches_def Let_def)
  have db': "db' = (if consume then put_grant ?row db else db)" "granted"
    using assms(1) Some by (auto simp: consume_or_check_tool_approval_def)
  have "aq_id row \<in> consumed_ids (put_grant ?row db)"
    using put_grant_consumed [OF marked, of row] approved_rows_in [OF row(1)] by simp
  then show ?thesis using db' usable consumed_put_grant [OF marked] by auto
qed

lemma build_context_Inr:
  assumes "build_tool_execution_context env project task run tool args consume required db = Inr (db', ctx)"
  obtains granted where
    "consume_or_check_tool_approval env project run (map_option at_id task) tool
       (arguments_hash (rt_sha (he_rt (ae_hitl env))) args) consume
       (case required of Some b \<Rightarrow> b | None \<Rightarrow> \<not> is_low_risk_tool tool) db = (db', granted)"
    "pget ctx ''approval_granted'' = PBool granted" "pget ctx ''project_id'' = PStr (pj_id project)"
proof -
  obtain db1 granted where c: "consume_or_check_tool_approval env project run (map_option at_id task) tool
       (arguments_hash (rt_sha (he_rt (ae_hitl env))) args) consume
       (case required of Some b \<Rightarrow> b | None \<Rightarrow> \<not> is_low_risk_tool tool) db = (db1, granted)"
    by fastforce
  then show thesis using assms that
    by (auto simp: build_tool_execution_context_def Let_def)
qed

section \<open>Authorization before every dispatch\<close>

text \<open>What an authorization that lets the call through has seen.\<close>

definition authorized_as ::
  "agent_env \<Rightarrow> project_row \<Rightarrow> agent_task option \<Rightarrow> agent_run \<Rightarrow> string \<Rightarrow> pyval dict \<Rightarrow> agent_db \<Rightarrow>
   authorization \<Rightarrow> bool" where
  "authorized_as env project task run tool args db auth \<longleftrightarrow>
     (\<exists>ctx ctx'. build_tool_execution_context env project task run tool args False None db = Inr (db, ctx) \<and>
        authorize_tool (ae_workforce env) (ae_failure env) (pj_owner project) tool ctx = (auth, ctx'))"

lemma authorize_call_Inr:
  assumes "authorize_call env project task run tool args ctx db = (db', Inr ctx'')"
    and "ae_auth_error env = None" "\<not> (ae_fail_open env \<and> is_low_risk_tool tool)"
    and "named_clock (ae_hitl env)"
  obtains auth ctx' where
    "authorize_tool (ae_workforce env) (ae_failure env) (pj_owner project) tool ctx = (auth, ctx')"
    "az_permitted auth" "az_decision auth \<noteq> PStr DECISION_PROHIBITED"
    "ag_calls db' = ag_calls db" "consumed_ids db \<subseteq> consumed_ids db'"
    "az_decision auth \<noteq> PStr DECISION_APPROVAL \<Longrightarrow> db' = db"
    "az_decision auth = PStr DECISION_APPROVAL \<Longrightarrow>
       \<exists>row. usable_grant db project run tool (arguments_hash (rt_sha (he_rt (ae_hitl env))) args) row \<and>
         aq_id row \<in> consumed_ids db'"
proof -
  obtain auth ctx' where auth: "authorize_tool (ae_workforce env) (ae_failure env) (pj_owner project) tool ctx = (auth, ctx')"
    by fastforce
  have ok: "az_permitted auth" "az_decision auth \<noteq> PStr DECISION_PROHIBITED"
    using assms(1,2) auth by (auto simp: authorize_call_def split: if_splits)
  show thesis
  proof (cases "az_decision auth = PStr DECISION_APPROVAL")
    case False
    then have "db' = db" using assms(1,2) auth ok by (simp add: authorize_call_def)
    then show thesis using that [OF auth ok] False by simp
  next
    case True
    show thesis
    proof (cases "build_tool_execution_context env project task run tool args True (Some True) db")
      case (Inl e)
      then show thesis using assms(1-3) auth ok True
        by (auto simp: authorize_call_def auth_failed_def split: if_splits)
    next
      case (Inr x)
      obtain db1 granted where x: "x = (db1, granted)" by fastforce
      then have g: "truthy (pget granted ''approval_granted'')" "db' = db1"
        using assms(1,2) auth ok True Inr by (auto simp: authorize_call_def split: if_splits)
      obtain b where b: "consume_or_check_tool_approval env project run (map_option at_id task) tool
          (arguments_hash (rt_sha (he_rt (ae_hitl env))) args) True True db = (db1, b)"
        "pget granted ''approval_granted'' = PBool b"
        by (rule build_context_Inr [OF Inr [unfolded x]]) auto
      then show thesis
        by (intro that [OF auth ok]) (use consume_approval [OF b(1) assms(4)] g b(2) True in auto)
    qed
  qed
qed

lemma run_service_state:
  "run_service env project tool args ctx db = (db', r) \<Longrightarrow>
     ag_approvals db' = ag_approvals db \<and> ag_events db' = ag_events db"
  by (auto simp: run_service_def split: prod.splits if_splits)

lemma execute_tool_slug:
  "execute_tool ext toolbox pe wdb failure owner tool params ctx = (result, calls) \<Longrightarrow>
     snd ` set calls \<subseteq> {tool}"
  by (auto simp: execute_tool_def execute_via_toolbox_def registry_execute_tool_def provider_execute_def
      Let_def split: prod.splits option.splits if_splits)

lemma run_service_calls:
  assumes "run_service env project tool args ctx db = (db', r)"
  obtains calls where "ag_calls db' = ag_calls db @ calls" "snd ` set calls \<subseteq> {tool}"
proof -
  obtain result calls where "execute_tool (ae_ext env) (dispatch (ae_native env)) (project_known env)
      (ae_workforce env) (ae_failure env) (pj_owner project) tool args ctx = (result, calls)"
    by fastforce
  then show thesis using assms that [of "[]"] that [of calls] execute_tool_slug
    by (auto simp: run_service_def split: if_splits)
qed

text \<open>What one execution of the toolbox does to the state.\<close>

lemma consumed_ids_cong: "ag_approvals db' = ag_approvals db \<Longrightarrow> consumed_ids db' = consumed_ids db"
  by (simp add: consumed_ids_def)

lemma authorize_call_state:
  assumes "authorize_call env project task run tool args ctx db = (db', r)" "named_clock (ae_hitl env)"
  shows "ag_calls db' = ag_calls db \<and> consumed_ids db \<subseteq> consumed_ids db'"
proof (cases "ae_auth_error env")
  case None
  obtain auth ctx' where auth: "authorize_tool (ae_workforce env) (ae_failure env) (pj_owner project) tool ctx = (auth, ctx')"
    by fastforce
  show ?thesis
  proof (cases "build_tool_execution_context env project task run tool args True (Some True) db")
    case (Inl e)
    then show ?thesis using assms(1) None auth by (auto simp: authorize_call_def split: if_splits)
  next
    case (Inr x)
    obtain db1 granted where x: "x = (db1, granted)" by fastforce
    obtain b where b: "consume_or_check_tool_approval env project run (map_option at_id task) tool
        (arguments_hash (rt_sha (he_rt (ae_hitl env))) args) True True db = (db1, b)"
      by (rule build_context_Inr [OF Inr [unfolded x]]) auto
    have "db' = db \<or> db' = db1"
      using assms(1) None auth Inr x by (auto simp: authorize_call_def split: if_splits)
    then show ?thesis using consume_approval [OF b assms(2)] by auto
  qed
qed (use assms in \<open>simp add: authorize_call_def\<close>)

text \<open>The stages of an execution; the first context is built without consuming anything.\<close>

lemma toolbox_cases:
  assumes "toolbox_execute env project task run call db = (db', r)" "named_clock (ae_hitl env)"
  obtains e where "db' = db" "r = Inl e"
  | ctx e where "build_tool_execution_context env project task run (called_tool call)
        (call_arguments call) False None db = Inr (db, ctx)"
      "authorize_call env project task run (called_tool call) (call_arguments call) ctx db = (db', Inl e)"
      "r = Inl e"
  | ctx db1 ctx' where "build_tool_execution_context env project task run (called_tool call)
        (call_arguments call) False None db = Inr (db, ctx)"
      "authorize_call env project task run (called_tool call) (call_arguments call) ctx db = (db1, Inr ctx')"
      "run_service env project (called_tool call) (call_arguments call) ctx' db1 = (db', r)"
proof (cases "called_tool call = [] \<or> pj_owner project = [] \<or>
    (\<exists>e. build_tool_execution_context env project task run (called_tool call) (call_arguments call) False None db = Inl e)")
  case True
  then have "db' = db \<and> (\<exists>e. r = Inl e)"
    using assms(1) by (auto simp: toolbox_execute_def Let_def split: sum.splits prod.splits if_splits)
  then show thesis using that(1) by blast
next
  case False
  then obtain ctx db0 where ctx: "build_tool_execution_context env project task run (called_tool call)
      (call_arguments call) False None db = Inr (db0, ctx)"
    by (metis old.prod.exhaust sum.exhaust)
  obtain g where "consume_or_check_tool_approval env project run (map_option at_id task) (called_tool call)
      (arguments_hash (rt_sha (he_rt (ae_hitl env))) (call_arguments call)) False
      (\<not> is_low_risk_tool (called_tool call)) db = (db0, g)"
    by (rule build_context_Inr [OF ctx]) auto
  then have db0: "db0 = db" using consume_approval [OF _ assms(2)] by blast
  obtain db1 a where a: "authorize_call env project task run (called_tool call) (call_arguments call) ctx db = (db1, a)"
    by fastforce
  show thesis
  proof (cases a)
    case (Inl e)
    then have "db' = db1 \<and> r = Inl e" using assms(1) False ctx a by (simp add: toolbox_execute_def Let_def db0)
    then show thesis using that(2) [OF ctx [unfolded db0]] a Inl by simp
  next
    case (Inr ctx')
    then have "run_service env project (called_tool call) (call_arguments call) ctx' db1 = (db', r)"
      using assms(1) False ctx a by (simp add: toolbox_execute_def Let_def db0)
    then show thesis using that(3) [OF ctx [unfolded db0]] a Inr by simp
  qed
qed

lemma toolbox_state:
  assumes "toolbox_execute env project task run call db = (db', r)" "named_clock (ae_hitl env)"
  obtains calls where "ag_calls db' = ag_calls db @ calls" "snd ` set calls \<subseteq> {called_tool call}"
    "consumed_ids db \<subseteq> consumed_ids db'"
  using assms
proof (cases rule: toolbox_cases)
  case (1 e)
  then show thesis using that [of "[]"] by simp
next
  case (2 ctx e)
  then show thesis using that [of "[]"] authorize_call_state [OF 2(2) assms(2)] by simp
next
  case (3 ctx db1 ctx')
  obtain calls where "ag_calls db' = ag_calls db1 @ calls" "snd ` set calls \<subseteq> {called_tool call}"
    by (rule run_service_calls [OF 3(3)])
  then show thesis
    using that [of calls] authorize_call_state [OF 3(2) assms(2)] consumed_ids_cong [of db' db1]
      run_service_state [OF 3(3)] by simp
qed

lemma toolbox_authorized:
  assumes "toolbox_execute env project task run call db = (db', r)" "ag_calls db' \<noteq> ag_calls db"
    and "ae_auth_error env = None" "\<not> (ae_fail_open env \<and> is_low_risk_tool (called_tool call))"
    and "named_clock (ae_hitl env)"
  shows "\<exists>auth. authorized_as env project task run (called_tool call) (call_arguments call) db auth \<and>
    az_permitted auth \<and> az_decision auth \<noteq> PStr DECISION_PROHIBITED \<and>
    (az_decision auth = PStr DECISION_APPROVAL \<longrightarrow>
       (\<exists>row. usable_grant db project run (called_tool call)
            (arguments_hash (rt_sha (he_rt (ae_hitl env))) (call_arguments call)) row \<and>
          aq_id row \<in> consumed_ids db'))"
  using assms(1,5)
proof (cases rule: toolbox_cases)
  case (3 ctx db1 ctx')
  have same: "consumed_ids db' = consumed_ids db1"
    using run_service_state [OF 3(3)] by (intro consumed_ids_cong) simp
  show ?thesis
  proof (rule authorize_call_Inr [OF 3(2) assms(3-5)])
    fix auth ctx2
    assume auth: "authorize_tool (ae_workforce env) (ae_failure env) (pj_owner project) (called_tool call) ctx =
        (auth, ctx2)" "az_permitted auth" "az_decision auth \<noteq> PStr DECISION_PROHIBITED"
      "az_decision auth = PStr DECISION_APPROVAL \<Longrightarrow>
         \<exists>row. usable_grant db project run (called_tool call)
           (arguments_hash (rt_sha (he_rt (ae_hitl env))) (call_arguments call)) row \<and>
           aq_id row \<in> consumed_ids db1"
    have "authorized_as env project task run (called_tool call) (call_arguments call) db auth"
      unfolding authorized_as_def using 3(1) auth(1) by blast
    then show ?thesis using auth(2-4) same by blast
  qed
qed (use assms(2) authorize_call_state [OF _ assms(5)] in auto)

text \<open>
  C21. A tool is dispatched only if, for the context built from the stored run, the authorization
  permits it and does not prohibit it; and where the decision asks for an approval, only if an
  approved, unused approval of this run names the tool and carries the hash of exactly these
  arguments, which is used up then.
\<close>

theorem dispatch_needs_authorization:
  assumes "toolbox_execute env project task run call db = (db', r)" "ag_calls db' \<noteq> ag_calls db"
    and "ae_auth_error env = None" "\<not> (ae_fail_open env \<and> is_low_risk_tool (called_tool call))"
    and "named_clock (ae_hitl env)"
  shows "\<exists>auth. authorized_as env project task run (called_tool call) (call_arguments call) db auth \<and>
    az_permitted auth \<and> az_decision auth \<noteq> PStr DECISION_PROHIBITED \<and>
    (az_decision auth = PStr DECISION_APPROVAL \<longrightarrow>
       (\<exists>row. usable_grant db project run (called_tool call)
            (arguments_hash (rt_sha (he_rt (ae_hitl env))) (call_arguments call)) row \<and>
          aq_id row \<in> consumed_ids db'))"
  by (rule toolbox_authorized [OF assms])

section \<open>Grants of dangerous calls\<close>

lemma run_grants_in:
  "a \<in> set (run_grants run_id db) \<Longrightarrow>
     a \<in> set (ag_approvals db) \<and> aq_run_id a = Some run_id \<and> aq_status a = ''approved''"
  by (auto simp: run_grants_def)

lemma consume_hitl:
  assumes "consume_hitl_grant env run kind expected db = (db', granted)" "named_clock (ae_hitl env)"
  shows "ag_calls db' = ag_calls db \<and> consumed_ids db \<subseteq> consumed_ids db' \<and>
    (granted \<longrightarrow> (\<exists>a \<in> set (ag_approvals db). aq_run_id a = Some (ar_id run) \<and>
       aq_status a = ''approved'' \<and> hitl_grant_matches kind expected a \<and> aq_id a \<in> consumed_ids db')) \<and>
    (\<not> granted \<longrightarrow> db' = db)"
proof (cases "find (hitl_grant_matches kind expected) (run_grants (ar_id run) db)")
  case (Some a)
  then have a: "a \<in> set (run_grants (ar_id run) db)" "hitl_grant_matches kind expected a"
    by (auto simp: find_Some_iff)
  let ?a = "a\<lparr>aq_payload := dset ''_consumed_at''
      (PStr (rt_iso (he_rt (ae_hitl env)) (Aware (ae_now env)))) (aq_payload a)\<rparr>"
  have marked: "truthy (pget (aq_payload ?a) ''_consumed_at'')"
    using assms(2) by (simp add: named_clock_def)
  have "aq_id a \<in> consumed_ids (put_grant ?a db)"
    using put_grant_consumed [OF marked, of a] run_grants_in [OF a(1)] by simp
  then show ?thesis
    using assms(1) Some a(2) run_grants_in [OF a(1)] consumed_put_grant [OF marked, of db]
    by (auto simp: consume_hitl_grant_def)
qed (use assms in \<open>simp add: consume_hitl_grant_def\<close>)

lemma create_approval_state:
  assumes "create_approval env run pid task link kind payload db = Inr (db', i)"
  shows "ag_calls db' = ag_calls db \<and> consumed_ids db \<subseteq> consumed_ids db' \<and>
    (\<exists>a. ag_approvals db' = ag_approvals db @ [a] \<and> aq_status a = ''pending'' \<and> aq_payload a = payload \<and>
       aq_run_id a = Some (ar_id run) \<and> aq_approval_type a = kind \<and> aq_id a = i)"
  using assms
  by (auto simp: create_approval_def Let_def snapshot_routing_on_approval_def apply_sla_on_approval_def
      consumed_ids_def split: sum.splits)

lemma grant_or_ask_state:
  assumes "grant_or_ask env project task run tool index call extra message db = (db', r)"
    and "named_clock (ae_hitl env)"
  shows "ag_calls db' = ag_calls db \<and> consumed_ids db \<subseteq> consumed_ids db' \<and>
    (r = Inr () \<longrightarrow> (\<exists>a \<in> set (ag_approvals db). aq_run_id a = Some (ar_id run) \<and> aq_status a = ''approved'' \<and>
       hitl_grant_matches ''dangerous_tool_call'' (dangerous_payload tool index) a \<and>
       aq_id a \<in> consumed_ids db'))"
proof -
  obtain db1 granted where c: "consume_hitl_grant env run ''dangerous_tool_call''
      (dangerous_payload tool index) db = (db1, granted)" by fastforce
  note consumed = consume_hitl [OF c assms(2)]
  show ?thesis
  proof (cases granted)
    case True
    then show ?thesis using assms(1) c consumed by (auto simp: grant_or_ask_def)
  next
    case False
    then show ?thesis using assms(1) c consumed create_approval_state
      by (fastforce simp: grant_or_ask_def split: sum.splits prod.splits)
  qed
qed

lemma escalate_state:
  "escalate_blocker env run task reason metadata db = Inr db' \<Longrightarrow>
     ag_calls db' = ag_calls db \<and> consumed_ids db \<subseteq> consumed_ids db'"
  by (auto simp: escalate_blocker_def Let_def dest!: create_approval_state)

lemma count_failure_state:
  "count_failure env run task failures db = (db', r) \<Longrightarrow>
     ag_calls db' = ag_calls db \<and> consumed_ids db \<subseteq> consumed_ids db'"
  by (auto simp: count_failure_def Let_def dest!: escalate_state split: sum.splits if_splits)

text \<open>The run of a call only dispatches the tool it names, and takes no mark of consumption back.\<close>

definition only_dispatches :: "string \<Rightarrow> agent_db \<Rightarrow> agent_db \<Rightarrow> bool" where
  "only_dispatches tool db db' \<longleftrightarrow> consumed_ids db \<subseteq> consumed_ids db' \<and>
     (\<exists>calls. ag_calls db' = ag_calls db @ calls \<and> snd ` set calls \<subseteq> {tool})"

lemma only_dispatches_refl [simp]: "only_dispatches tool db db"
  by (simp add: only_dispatches_def)

lemma only_dispatches_trans:
  "only_dispatches tool a b \<Longrightarrow> only_dispatches tool b c \<Longrightarrow> only_dispatches tool a c"
  by (fastforce simp: only_dispatches_def)

lemma only_dispatches_same:
  "ag_calls db' = ag_calls db \<Longrightarrow> consumed_ids db \<subseteq> consumed_ids db' \<Longrightarrow> only_dispatches tool db db'"
  by (simp add: only_dispatches_def)

lemma toolbox_only:
  "toolbox_execute env project task run call db = (db', r) \<Longrightarrow> named_clock (ae_hitl env) \<Longrightarrow>
   only_dispatches (called_tool call) db db'"
  by (rule toolbox_state) (auto simp: only_dispatches_def)

lemma run_event_only [simp]: "only_dispatches tool db (run_event run k db') \<longleftrightarrow> only_dispatches tool db db'"
  by (simp add: only_dispatches_def)

lemma run_call_only:
  assumes "run_call env project task run tool index call failures db = (db', r)" "tool = called_tool call"
    and "named_clock (ae_hitl env)"
  shows "only_dispatches tool db db'"
proof -
  obtain db1 r1 where first: "toolbox_execute env project task run call db = (db1, r1)" by fastforce
  note one = toolbox_only [OF first assms(3), folded assms(2)]
  show ?thesis
  proof (cases r1)
    case (Inr result)
    then show ?thesis using assms(1) first one by (auto simp: run_call_def)
  next
    case (Inl e)
    show ?thesis
    proof (cases e)
      case (ToolError message)
      note e = Inl this
      show ?thesis
      proof (cases "starts_with ''APPROVAL_REQUIRED:'' message")
        case True
        obtain db2 g where ask: "grant_or_ask env project task run tool index call
            [(''source'', PStr ''action_policy'')] (''Tool '' @ repr_str tool @ '' requires approval'') db1 = (db2, g)"
          by fastforce
        have two: "only_dispatches tool db db2"
          using only_dispatches_trans [OF one only_dispatches_same] grant_or_ask_state [OF ask assms(3)] by blast
        obtain db3 r3 where again: "toolbox_execute env project task run call db2 = (db3, r3)" by fastforce
        have three: "only_dispatches tool db db3"
          using only_dispatches_trans [OF two toolbox_only [OF again assms(3), folded assms(2)]] .
        show ?thesis
          using assms(1) first e True ask again two three
          by (auto simp: run_call_def split: sum.splits)
      next
        case False
        obtain db2 f where count: "count_failure env run task failures db1 = (db2, f)" by fastforce
        have "only_dispatches tool db db2"
          using only_dispatches_trans [OF one only_dispatches_same] count_failure_state [OF count] by blast
        then show ?thesis using assms(1) first e False count by (auto simp: run_call_def split: sum.splits)
      qed
    qed (use assms(1) first Inl one in \<open>auto simp: run_call_def\<close>)
  qed
qed

text \<open>The checks a serial call has passed when it is run.\<close>

definition call_cleared :: "string \<Rightarrow> string list \<Rightarrow> agent_profile option \<Rightarrow> string \<Rightarrow> bool" where
  "call_cleared scope allowed agent tool \<longleftrightarrow>
     (\<forall>a. agent = Some a \<longrightarrow> rank_of (min_permission tool) \<le> rank_of (agent_permission a tool) \<and>
        \<not> (agent_permission a tool = ''merge-blocked'' \<and> tool \<in> set MERGE_BLOCKED_TOOLS)) \<and>
     \<not> (scope = ''deny_external'' \<and> tool \<in> set EXTERNAL_TOOLS) \<and>
     (allowed \<noteq> [] \<longrightarrow> tool \<in> set allowed)"

lemma permissions_Inr:
  "tool_allowed_for_agent_permissions tool agent = Inr () \<longleftrightarrow>
     (\<forall>a. agent = Some a \<longrightarrow> rank_of (min_permission tool) \<le> rank_of (agent_permission a tool) \<and>
        \<not> (agent_permission a tool = ''merge-blocked'' \<and> tool \<in> set MERGE_BLOCKED_TOOLS))"
  by (auto simp: tool_allowed_for_agent_permissions_def Let_def not_less split: option.split)

lemma checks_Inr:
  "check_scope scope tool = Inr () \<longleftrightarrow> \<not> (scope = ''deny_external'' \<and> tool \<in> set EXTERNAL_TOOLS)"
  "check_allowed allowed tool = Inr () \<longleftrightarrow> (allowed \<noteq> [] \<longrightarrow> tool \<in> set allowed)"
  by (auto simp: check_scope_def check_allowed_def)

lemma call_clearedI:
  "tool_allowed_for_agent_permissions tool agent = Inr () \<Longrightarrow> check_scope scope tool = Inr () \<Longrightarrow>
   check_allowed allowed tool = Inr () \<Longrightarrow> call_cleared scope allowed agent tool"
  unfolding call_cleared_def permissions_Inr checks_Inr by blast

text \<open>What a serial call that dispatches something has passed and used up.\<close>

lemma execute_one_cases:
  assumes "execute_one_tool_call env project settings scope allowed agent task run index call failures db = (db', r)"
    and "named_clock (ae_hitl env)"
  shows "only_dispatches (called_tool call) db db' \<and>
    (ag_calls db' \<noteq> ag_calls db \<longrightarrow> call_cleared scope allowed agent (called_tool call) \<and>
       (tool_requires_hitl_execution_grant (called_tool call) \<longrightarrow>
          (\<exists>a \<in> set (ag_approvals db). aq_run_id a = Some (ar_id run) \<and> aq_status a = ''approved'' \<and>
             hitl_grant_matches ''dangerous_tool_call'' (dangerous_payload (called_tool call) index) a \<and>
             aq_id a \<in> consumed_ids db')))"
proof (cases "tool_allowed_for_agent_permissions (called_tool call) agent")
  case (Inl e)
  then show ?thesis using assms(1) by (simp add: execute_one_tool_call_def Let_def)
next
  case permitted: (Inr u)
  let ?tool = "called_tool call"
  obtain db1 g where gate: "gate_call env project settings task run ?tool index call db = (db1, g)" by fastforce
  have gated: "ag_calls db1 = ag_calls db" "consumed_ids db \<subseteq> consumed_ids db1"
    "g = Inr () \<and> tool_requires_hitl_execution_grant ?tool \<longrightarrow>
       (\<exists>a \<in> set (ag_approvals db). aq_run_id a = Some (ar_id run) \<and> aq_status a = ''approved'' \<and>
          hitl_grant_matches ''dangerous_tool_call'' (dangerous_payload ?tool index) a \<and>
          aq_id a \<in> consumed_ids db1)"
    using gate grant_or_ask_state [OF _ assms(2)]
    by (auto simp: gate_call_def action_requires_approval_def guard_defs split: if_splits)
  have one: "only_dispatches ?tool db db1" by (rule only_dispatches_same [OF gated(1,2)])
  show ?thesis
  proof (cases "g = Inr () \<and> check_scope scope ?tool = Inr () \<and> check_allowed allowed ?tool = Inr ()")
    case False
    then have "db' = db1"
      using assms(1) permitted gate
      by (cases g; cases "check_scope scope ?tool"; cases "check_allowed allowed ?tool")
        (auto simp: execute_one_tool_call_def Let_def)
    then show ?thesis using one gated(1) by simp
  next
    case True
    then have "run_call env project task run ?tool index call failures
        (run_event run ''tool_call_started'' db1) = (db', r)"
      using assms(1) permitted gate by (simp add: execute_one_tool_call_def Let_def)
    then have two: "only_dispatches ?tool db1 db'"
      using run_call_only [OF _ refl assms(2)] by (fastforce simp: only_dispatches_def)
    have "call_cleared scope allowed agent ?tool"
      using permitted True by (intro call_clearedI) simp_all
    moreover have "consumed_ids db1 \<subseteq> consumed_ids db'" using two by (simp add: only_dispatches_def)
    ultimately show ?thesis
      using gated(3) True only_dispatches_trans [OF one two] by blast
  qed
qed

text \<open>
  C22. A dangerous tool (one the catalog lets run only with an approval) is dispatched by a serial call
  only if an approved, unused request of this run for this tool at this position is used up by it. In
  a store with distinct ids every such call therefore needs an approval of its own.
\<close>

theorem dangerous_call_consumes_grant:
  assumes "execute_one_tool_call env project settings scope allowed agent task run index call failures db = (db', r)"
    and "named_clock (ae_hitl env)" "tool_requires_hitl_execution_grant (called_tool call)"
    and "ag_calls db' \<noteq> ag_calls db" "distinct (map aq_id (ag_approvals db))"
  shows "\<exists>a \<in> set (ag_approvals db). aq_run_id a = Some (ar_id run) \<and> aq_status a = ''approved'' \<and>
    hitl_grant_matches ''dangerous_tool_call'' (dangerous_payload (called_tool call) index) a \<and>
    aq_id a \<in> consumed_ids db' - consumed_ids db"
proof -
  obtain a where a: "a \<in> set (ag_approvals db)" "aq_run_id a = Some (ar_id run)" "aq_status a = ''approved''"
    "hitl_grant_matches ''dangerous_tool_call'' (dangerous_payload (called_tool call) index) a"
    "aq_id a \<in> consumed_ids db'"
    using execute_one_cases [OF assms(1,2)] assms(3,4) by blast
  have "aq_id a \<notin> consumed_ids db"
  proof
    assume "aq_id a \<in> consumed_ids db"
    then obtain b where "b \<in> set (ag_approvals db)" "aq_id b = aq_id a" "truthy (pget (aq_payload b) ''_consumed_at'')"
      by (auto simp: consumed_ids_def)
    moreover from this have "b = a" using assms(5) a(1) by (auto simp: distinct_map dest: inj_onD)
    ultimately show False using a(4) by (simp add: hitl_grant_matches_def)
  qed
  then show ?thesis using a by blast
qed

section \<open>A whole turn\<close>

lemma isolated_read_only:
  assumes "named_clock (ae_hitl env)"
  shows "snd ` set (fst (isolated_read env project scope allowed agent task run db call)) \<subseteq> {called_tool call} \<and>
    (fst (isolated_read env project scope allowed agent task run db call) \<noteq> [] \<longrightarrow>
       call_cleared scope allowed agent (str_or (pget call ''tool'') []))"
proof -
  let ?raw = "str_or (pget call ''tool'') []"
  obtain db' r where t: "toolbox_execute env project task run call (db\<lparr>ag_calls := []\<rparr>) = (db', r)" by fastforce
  obtain calls where calls: "ag_calls db' = [] @ calls" "snd ` set calls \<subseteq> {called_tool call}"
    by (rule toolbox_state [OF t assms]) simp
  show ?thesis
  proof (cases "tool_allowed_for_agent_permissions ?raw agent = Inr () \<and> check_allowed allowed ?raw = Inr () \<and>
      check_scope scope ?raw = Inr ()")
    case True
    then have "call_cleared scope allowed agent ?raw" by (intro call_clearedI) simp_all
    moreover have "fst (isolated_read env project scope allowed agent task run db call) = ag_calls db'"
      using True t by (simp add: isolated_read_def Let_def split: sum.split agent_error.split)
    ultimately show ?thesis using calls by simp
  next
    case False
    then have "fst (isolated_read env project scope allowed agent task run db call) = []"
      by (cases "tool_allowed_for_agent_permissions ?raw agent"; cases "check_allowed allowed ?raw";
          cases "check_scope scope ?raw") (auto simp: isolated_read_def Let_def)
    then show ?thesis by simp
  qed
qed

text \<open>The dispatches of a turn: of tools it was asked to call, each cleared.\<close>

definition cleared_dispatches ::
  "string \<Rightarrow> string list \<Rightarrow> agent_profile option \<Rightarrow> tool_call list \<Rightarrow> agent_db \<Rightarrow> agent_db \<Rightarrow> bool" where
  "cleared_dispatches scope allowed agent calls db db' \<longleftrightarrow>
     (\<exists>new. ag_calls db' = ag_calls db @ new \<and> list_all (\<lambda>(provider, tool).
        call_cleared scope allowed agent tool \<and> tool \<in> called_tool ` set calls) new)"

lemma cleared_refl [simp]: "ag_calls db' = ag_calls db \<Longrightarrow> cleared_dispatches scope allowed agent calls db db'"
  by (simp add: cleared_dispatches_def)

lemma cleared_trans:
  "cleared_dispatches scope allowed agent calls a b \<Longrightarrow> cleared_dispatches scope allowed agent calls b c \<Longrightarrow>
   cleared_dispatches scope allowed agent calls a c"
  by (force simp: cleared_dispatches_def)

lemma record_results_calls:
  "record_results env run task payloads failures db = (db', r) \<Longrightarrow> ag_calls db' = ag_calls db"
proof (induction payloads arbitrary: failures db)
  case (Cons payload payloads)
  show ?case
  proof (cases "pget payload ''status'' = PStr ''failed''")
    case True
    obtain db1 f where count: "count_failure env run task failures db = (db1, f)" by fastforce
    then show ?thesis
      using Cons.prems Cons.IH [of _ db1] count_failure_state [OF count] True
      by (auto split: sum.splits)
  next
    case False
    then show ?thesis using Cons.prems Cons.IH [of _ "run_event run ''tool_call_completed'' db"] by simp
  qed
qed simp

definition plain_name :: "tool_call \<Rightarrow> bool" where
  "plain_name call \<longleftrightarrow> str_or (pget call ''tool'') [] = called_tool call"

lemma parallel_cleared:
  assumes "execute_parallel_batch env project scope allowed agent task run items failures db = (db', r)"
    and "named_clock (ae_hitl env)" "snd ` set items \<subseteq> set calls" "list_all plain_name calls"
  shows "cleared_dispatches scope allowed agent calls db db'"
proof -
  let ?db = "run_event run ''tool_parallel_group_started'' db"
  let ?read = "isolated_read env project scope allowed agent task run ?db"
  let ?mid = "?db\<lparr>ag_calls := ag_calls ?db @ concat (map (fst \<circ> ?read \<circ> snd) items)\<rparr>"
  have "call_cleared scope allowed agent tool \<and> tool \<in> called_tool ` set calls"
    if new: "(provider, tool) \<in> set (concat (map (fst \<circ> ?read \<circ> snd) items))" for provider tool
  proof -
    obtain item where item: "item \<in> set items" "(provider, tool) \<in> set (fst (?read (snd item)))"
      using new by auto
    define c where "c = snd item"
    have c: "c \<in> snd ` set items" "(provider, tool) \<in> set (fst (?read c))" using item by (simp_all add: c_def)
    have "tool = called_tool c" "call_cleared scope allowed agent (str_or (pget c ''tool'') [])"
      using isolated_read_only [OF assms(2), of project scope allowed agent task run ?db c] c(2) by force+
    moreover have "c \<in> set calls" using c(1) assms(3) by blast
    ultimately show ?thesis using assms(4) by (auto simp: plain_name_def list_all_iff)
  qed
  then have "cleared_dispatches scope allowed agent calls db ?mid"
    by (auto simp: cleared_dispatches_def list_all_iff)
  moreover have "ag_calls db' = ag_calls ?mid"
    using assms(1) record_results_calls
    by (fastforce simp: execute_parallel_batch_def Let_def split: sum.splits prod.splits)
  ultimately show ?thesis by (simp add: cleared_dispatches_def)
qed

lemma serial_cleared:
  assumes "execute_one_tool_call env project settings scope allowed agent task run index call failures db = (db', r)"
    and "named_clock (ae_hitl env)" "call \<in> set calls"
  shows "cleared_dispatches scope allowed agent calls db db'"
proof (cases "ag_calls db' = ag_calls db")
  case False
  note one = execute_one_cases [OF assms(1,2)]
  obtain new where "ag_calls db' = ag_calls db @ new" "snd ` set new \<subseteq> {called_tool call}"
    using one by (auto simp: only_dispatches_def)
  then show ?thesis using one False assms(3) by (fastforce simp: cleared_dispatches_def list_all_iff)
qed simp

lemma batches_cleared:
  assumes "execute_batches env project settings scope allowed agent task run bs failures db = (db', r)"
    and "named_clock (ae_hitl env)" "list_all plain_name calls"
    and "\<forall>b \<in> set bs. bt_items b \<noteq> [] \<and> snd ` set (bt_items b) \<subseteq> set calls"
  shows "cleared_dispatches scope allowed agent calls db db'"
  using assms(1,4)
proof (induction bs arbitrary: failures db r)
  case (Cons b bs)
  obtain i c where hd: "hd (bt_items b) = (i, c)" by fastforce
  have c: "c \<in> set calls" using Cons.prems(2) hd by (metis hd_in_set imageI list.set_intros(1) snd_conv subsetD)
  let ?serial = "execute_one_tool_call env project settings scope allowed agent task run (int i + 1) c failures db"
  let ?parallel = "execute_parallel_batch env project scope allowed agent task run (bt_items b) failures db"
  obtain db1 x where first: "(if bt_kind b = Parallel then ?parallel
      else (case ?serial of (db, Inl e) \<Rightarrow> (db, Inl e)
        | (db, Inr (payload, failures)) \<Rightarrow> (db, Inr ([payload], failures)))) = (db1, x)"
    by fastforce
  have step: "(db', r) = (case (db1, x) of (db, Inl e) \<Rightarrow> (db, Inl e)
      | (db, Inr (payloads, failures)) \<Rightarrow>
          (case execute_batches env project settings scope allowed agent task run bs failures db of
             (db, Inl e) \<Rightarrow> (db, Inl e)
           | (db, Inr rest) \<Rightarrow> (db, Inr (payloads @ rest))))"
    using Cons.prems(1) unfolding execute_batches.simps hd prod.case first by (rule sym)
  have one: "cleared_dispatches scope allowed agent calls db db1"
  proof (cases "bt_kind b = Parallel")
    case True
    then show ?thesis using first Cons.prems(2) parallel_cleared [OF _ assms(2) _ assms(3)] by auto
  next
    case False
    obtain db2 y where y: "?serial = (db2, y)" by fastforce
    then have "db2 = db1" using first False by (auto split: sum.splits)
    then show ?thesis using serial_cleared [OF y assms(2) c] by simp
  qed
  show ?case
  proof (cases x)
    case (Inl e)
    then have "db' = db1" using step by simp
    then show ?thesis using one by simp
  next
    case (Inr z)
    obtain payloads failures1 where z: "z = (payloads, failures1)" by fastforce
    obtain db2 y where rest: "execute_batches env project settings scope allowed agent task run bs failures1 db1 =
        (db2, y)" by fastforce
    then have db: "db' = db2" using step Inr z by (auto split: sum.splits)
    then show ?thesis using cleared_trans [OF one Cons.IH [OF rest [folded db]]] Cons.prems(2) by simp
  qed
qed simp

lemma partition_items:
  "b \<in> set (partition_tool_calls calls) \<Longrightarrow> bt_items b \<noteq> [] \<and> snd ` set (bt_items b) \<subseteq> set calls"
proof
  assume b: "b \<in> set (partition_tool_calls calls)"
  then have "sound_batch b" by (auto simp: partition_tool_calls_def dest: partition_from_sound)
  then show "bt_items b \<noteq> []" by (auto simp: sound_batch_def split: batch_kind.splits)
  have "set (bt_items b) \<subseteq> set (enumerate 0 calls)"
    using b arg_cong [OF partition_from_items [of "enumerate 0 calls"], of set]
    unfolding partition_tool_calls_def [symmetric] set_concat set_map by blast
  then show "snd ` set (bt_items b) \<subseteq> set calls"
    using map_snd_enumerate [of 0 calls] by (metis image_mono list.set_map)
qed

text \<open>
  C23. Whatever tools a model asks for in one turn, whether they run one after the other or in parallel
  groups: every dispatch is of a tool it asked for that the permission level of the agent reaches,
  that is among the allowed tools if any are named, and that is none of the external ones when the
  secret scope denies these; provided no name is padded with blanks.
\<close>

theorem turn_dispatches_cleared:
  assumes "execute_tool_calls env project task run calls allowed agent db = (db', r)"
    and "named_clock (ae_hitl env)" "list_all plain_name calls" "secret_scope_of project = Inr scope"
  shows "cleared_dispatches scope allowed agent calls db db'"
proof (cases "calls = [] \<or> \<not> tool_calling_allowed agent")
  case True
  then show ?thesis using assms(1) by (auto simp: execute_tool_calls_def split: if_splits)
next
  case False
  then have "execute_batches env project (ae_settings env project) scope allowed agent task run
      (partition_tool_calls calls) 0 db = (db', r)"
    using assms(1,4) by (auto simp: execute_tool_calls_def)
  then show ?thesis by (rule batches_cleared [OF _ assms(2,3)]) (use partition_items in blast)
qed

end
