(* ===== verification/Agent_Tool_Starvation.thy ===== *)
theory Agent_Tool_Starvation
  imports Agent_Tool_Properties
begin

text \<open>
  A dangerous tool that the policies let run with an approval only: the approvals that the loop over
  tool calls asks for never carry the hash of the arguments that the toolbox looks for, so the tool is
  asked for again and again and never runs. And the tools of MCP and A2A servers, which never run.
\<close>

section \<open>Approvals without a hash of arguments\<close>

definition arguments_unbound :: "approval_request \<Rightarrow> bool" where
  "arguments_unbound a \<longleftrightarrow> py_strip (str_or (pget (aq_payload a) ''arguments_hash'') []) = []"

definition all_unbound :: "agent_db \<Rightarrow> bool" where
  "all_unbound db \<longleftrightarrow> list_all arguments_unbound (ag_approvals db)"

text \<open>What changes when nothing is dispatched.\<close>

definition idle_step :: "agent_db \<Rightarrow> agent_db \<Rightarrow> bool" where
  "idle_step db db' \<longleftrightarrow> ag_calls db' = ag_calls db \<and> (all_unbound db \<longrightarrow> all_unbound db')"

lemma idle_refl [simp]: "idle_step db db"
  by (simp add: idle_step_def)

lemma idle_trans [trans]: "idle_step a b \<Longrightarrow> idle_step b c \<Longrightarrow> idle_step a c"
  by (simp add: idle_step_def)

lemma idle_run_event [simp]: "idle_step db (run_event run k db') \<longleftrightarrow> idle_step db db'"
  by (simp add: idle_step_def all_unbound_def)

lemma idle_put_grant:
  "(arguments_unbound a \<Longrightarrow> arguments_unbound b) \<Longrightarrow> a \<in> set (ag_approvals db) \<Longrightarrow>
   idle_step db (put_grant b db)"
  by (auto simp: idle_step_def all_unbound_def list_all_iff put_grant_def)

lemma idle_consume_approval:
  assumes "consume_or_check_tool_approval env project run task_id tool h consume required db = (db', granted)"
  shows "idle_step db db'"
proof (cases "find (tool_grant_matches (pj_owner project) tool h task_id (ar_worker run) required)
    (approved_rows (pj_id project) (ar_id run) db)")
  case (Some row)
  then have "row \<in> set (ag_approvals db)" by (auto simp: find_Some_iff dest!: nth_mem approved_rows_in)
  then have "idle_step db (put_grant (row\<lparr>aq_payload :=
      consumed_payload (ae_hitl env) (ae_now env) tool h (aq_payload row)\<rparr>) db)"
    by (rule idle_put_grant [rotated]) (simp add: arguments_unbound_def consumed_payload_def)
  then show ?thesis using assms Some by (auto simp: consume_or_check_tool_approval_def split: if_splits)
qed (use assms in \<open>simp add: consume_or_check_tool_approval_def\<close>)

lemma idle_authorize:
  assumes "authorize_call env project task run tool args ctx db = (db', r)"
  shows "idle_step db db'"
proof (cases "ae_auth_error env")
  case None
  obtain auth ctx' where auth: "authorize_tool (ae_workforce env) (ae_failure env) (pj_owner project) tool ctx = (auth, ctx')"
    by fastforce
  show ?thesis
  proof (cases "build_tool_execution_context env project task run tool args True (Some True) db")
    case (Inl e)
    then show ?thesis using assms None auth by (auto simp: authorize_call_def split: if_splits)
  next
    case (Inr x)
    obtain db1 granted where x: "x = (db1, granted)" by fastforce
    obtain b where "consume_or_check_tool_approval env project run (map_option at_id task) tool
        (arguments_hash (rt_sha (he_rt (ae_hitl env))) args) True True db = (db1, b)"
      by (rule build_context_Inr [OF Inr [unfolded x]]) auto
    then have "idle_step db db1" by (rule idle_consume_approval)
    moreover have "db' = db \<or> db' = db1"
      using assms None auth Inr x by (auto simp: authorize_call_def split: if_splits)
    ultimately show ?thesis by auto
  qed
qed (use assms in \<open>simp add: authorize_call_def\<close>)

lemma unbound_toolbox:
  assumes "toolbox_execute env project task run call db = (db', r)" "named_clock (ae_hitl env)"
    and "all_unbound db"
  shows "all_unbound db'"
  using assms(1,2)
proof (cases rule: toolbox_cases)
  case (2 ctx e)
  then show ?thesis using idle_authorize [OF 2(2)] assms(3) by (simp add: idle_step_def)
next
  case (3 ctx db1 ctx')
  then show ?thesis using idle_authorize [OF 3(2)] run_service_state [OF 3(3)] assms(3)
    by (simp add: idle_step_def all_unbound_def)
qed (use assms in simp)

lemma idle_consume_hitl:
  assumes "consume_hitl_grant env run kind expected db = (db', granted)"
  shows "idle_step db db'"
proof (cases "find (hitl_grant_matches kind expected) (run_grants (ar_id run) db)")
  case (Some a)
  then have "a \<in> set (ag_approvals db)" by (auto simp: find_Some_iff dest!: nth_mem run_grants_in)
  then have "idle_step db (put_grant (a\<lparr>aq_payload := dset ''_consumed_at''
      (PStr (rt_iso (he_rt (ae_hitl env)) (Aware (ae_now env)))) (aq_payload a)\<rparr>) db)"
    by (rule idle_put_grant [rotated]) (simp add: arguments_unbound_def)
  then show ?thesis using assms Some by (auto simp: consume_hitl_grant_def)
qed (use assms in \<open>simp add: consume_hitl_grant_def\<close>)

lemma idle_create:
  assumes "create_approval env run pid task link kind payload db = Inr (db', i)"
    and "pget payload ''arguments_hash'' = PNone"
  shows "idle_step db db'"
  using create_approval_state [OF assms(1)] assms(2)
  by (auto simp: idle_step_def all_unbound_def arguments_unbound_def str_or_def py_strip_def)

lemma requested_unbound [simp]:
  "pget (requested_payload tool index call) ''arguments_hash'' = PNone"
  "pget (requested_payload tool index call @ [(''source'', v)]) ''arguments_hash'' = PNone"
  by (simp_all add: requested_payload_def dangerous_payload_def pget_def)

lemma idle_grant_or_ask:
  assumes "grant_or_ask env project task run tool index call extra message db = (db', r)"
    and "extra = [] \<or> extra = [(''source'', v)]"
  shows "idle_step db db'"
proof -
  obtain db1 granted where c: "consume_hitl_grant env run ''dangerous_tool_call''
      (dangerous_payload tool index) db = (db1, granted)" by fastforce
  have one: "idle_step db db1" by (rule idle_consume_hitl [OF c])
  show ?thesis
  proof (cases granted)
    case False
    show ?thesis
    proof (cases "create_approval env run (pj_id project) task
        (case task of None \<Rightarrow> None | Some t \<Rightarrow> at_issue_link t) ''dangerous_tool_call''
        (requested_payload tool index call @ extra) db1")
      case (Inl e)
      then show ?thesis using assms(1) c False one by (auto simp: grant_or_ask_def)
    next
      case (Inr x)
      obtain db2 i where x: "x = (db2, i)" by fastforce
      have "idle_step db1 db2" by (rule idle_create [OF Inr [unfolded x]]) (use assms(2) in auto)
      then show ?thesis using assms(1) c False one Inr x idle_trans by (auto simp: grant_or_ask_def)
    qed
  qed (use assms c one in \<open>auto simp: grant_or_ask_def\<close>)
qed

lemma idle_count_failure:
  assumes "count_failure env run task failures db = (db', r)"
  shows "idle_step db db'"
proof (cases "escalate_blocker env run task ''Multiple tool failures detected during execution.''
    [(''tool_failures'', PInt (failures + 1))] (run_event run ''tool_call_failed'' db)")
  case (Inl e)
  then show ?thesis using assms by (auto simp: count_failure_def Let_def split: if_splits)
next
  case (Inr db1)
  then have "idle_step (run_event run ''tool_call_failed'' db) db1"
    by (auto simp: escalate_blocker_def Let_def pget_def elim!: idle_create split: option.splits)
  then have "idle_step db db1" by (rule idle_trans [rotated]) simp
  then show ?thesis using assms Inr by (auto simp: count_failure_def Let_def split: if_splits)
qed


section \<open>Dangerous tools that ask for ever\<close>

text \<open>The stored policies of the owner, or the tool itself, ask for an approval in every context.\<close>

definition always_asks :: "agent_env \<Rightarrow> project_row \<Rightarrow> string \<Rightarrow> bool" where
  "always_asks env project tool \<longleftrightarrow> (\<forall>ctx. pget
     (resolve_policy (ae_workforce env) (pj_owner project) tool ctx (Some tool)) ''decision'' =
       PStr DECISION_APPROVAL)"

definition strict_env :: "agent_env \<Rightarrow> bool" where
  "strict_env env \<longleftrightarrow> ae_auth_error env = None \<and> ae_failure env = None \<and> \<not> ae_fail_open env \<and>
     named_clock (ae_hitl env) \<and> (\<forall>args. arguments_hash (rt_sha (he_rt (ae_hitl env))) args \<noteq> [])"

lemma build_context_unresolved:
  "build_tool_execution_context env project task run tool args consume required db = Inr (db', ctx) \<Longrightarrow>
     pget ctx ''_policy_resolution'' = PNone"
  by (auto simp: build_tool_execution_context_def Let_def pget_def res_bind_def split: sum.splits prod.splits)

lemma authorize_asks:
  assumes "authorize_tool wdb None owner tool ctx = (auth, ctx')" "\<not> truthy (pget ctx ''_policy_resolution'')"
    and "pget (resolve_policy wdb owner tool ctx (Some tool)) ''decision'' = PStr DECISION_APPROVAL"
  shows "az_decision auth = PStr DECISION_APPROVAL"
  using assms by (auto simp: authorize_tool_def effective_stage_def Let_def guard_defs split: if_splits option.splits)

lemma toolbox_starves:
  assumes "toolbox_execute env project task run call db = (db', r)" "strict_env env"
    and "always_asks env project (called_tool call)" "all_unbound db"
  shows "idle_step db db'"
proof -
  have strict: "ae_auth_error env = None" "ae_failure env = None" "named_clock (ae_hitl env)"
    "\<not> (ae_fail_open env \<and> is_low_risk_tool (called_tool call))"
    "arguments_hash (rt_sha (he_rt (ae_hitl env))) (call_arguments call) \<noteq> []"
    using assms(2) by (simp_all add: strict_env_def)
  have "ag_calls db' = ag_calls db"
  proof (rule ccontr)
    assume "ag_calls db' \<noteq> ag_calls db"
    from toolbox_authorized [OF assms(1) this strict(1,4,3)] obtain auth where
      auth: "authorized_as env project task run (called_tool call) (call_arguments call) db auth"
      and grant: "az_decision auth = PStr DECISION_APPROVAL \<longrightarrow> (\<exists>row. usable_grant db project run (called_tool call)
          (arguments_hash (rt_sha (he_rt (ae_hitl env))) (call_arguments call)) row)"
      by blast
    obtain ctx ctx' where ctx:
      "build_tool_execution_context env project task run (called_tool call) (call_arguments call) False None db = Inr (db, ctx)"
      "authorize_tool (ae_workforce env) None (pj_owner project) (called_tool call) ctx = (auth, ctx')"
      using auth strict(2) unfolding authorized_as_def by auto
    have "az_decision auth = PStr DECISION_APPROVAL"
      using assms(3) build_context_unresolved [OF ctx(1)]
      by (intro authorize_asks [OF ctx(2)]) (simp_all add: always_asks_def)
    with grant obtain row where "usable_grant db project run (called_tool call)
        (arguments_hash (rt_sha (he_rt (ae_hitl env))) (call_arguments call)) row" by blast
    then show False using assms(4) strict(5)
      by (auto simp: usable_grant_def all_unbound_def list_all_iff arguments_unbound_def)
  qed
  then show ?thesis using unbound_toolbox [OF assms(1) strict(3)] by (simp add: idle_step_def)
qed

lemma run_call_starves:
  assumes "run_call env project task run tool index call failures db = (db', r)" "tool = called_tool call"
    and "strict_env env" "always_asks env project tool" "all_unbound db"
  shows "idle_step db db'"
proof -
  obtain db1 r1 where first: "toolbox_execute env project task run call db = (db1, r1)" by fastforce
  note one = toolbox_starves [OF first assms(3) assms(4) [unfolded assms(2)] assms(5)]
  show ?thesis
  proof (cases r1)
    case (Inr result)
    then show ?thesis using assms(1) first one by (auto simp: run_call_def)
  next
    case (Inl e)
    show ?thesis
    proof (cases e)
      case (ToolError message)
      note e = Inl this
      show ?thesis
      proof (cases "starts_with ''APPROVAL_REQUIRED:'' message")
        case True
        obtain db2 g where ask: "grant_or_ask env project task run tool index call
            [(''source'', PStr ''action_policy'')] (''Tool '' @ repr_str tool @ '' requires approval'') db1 = (db2, g)"
          by fastforce
        have two: "idle_step db db2" by (rule idle_trans [OF one idle_grant_or_ask [OF ask]]) simp
        obtain db3 r3 where again: "toolbox_execute env project task run call db2 = (db3, r3)" by fastforce
        have "all_unbound db2" using two assms(5) by (simp add: idle_step_def)
        then have "idle_step db2 db3" by (rule toolbox_starves [OF again assms(3) assms(4) [unfolded assms(2)]])
        then have "idle_step db db3" by (rule idle_trans [OF two])
        then show ?thesis
          using assms(1) first e True ask again two by (auto simp: run_call_def split: sum.splits)
      next
        case False
        obtain db2 f where count: "count_failure env run task failures db1 = (db2, f)" by fastforce
        have "idle_step db db2" by (rule idle_trans [OF one idle_count_failure [OF count]])
        then show ?thesis using assms(1) first e False count by (auto simp: run_call_def split: sum.splits)
      qed
    qed (use assms(1) first Inl one in \<open>auto simp: run_call_def\<close>)
  qed
qed

lemma execute_one_starves:
  assumes "execute_one_tool_call env project settings scope allowed agent task run index call failures db = (db', r)"
    and "strict_env env" "always_asks env project (called_tool call)" "all_unbound db"
  shows "idle_step db db'"
proof (cases "tool_allowed_for_agent_permissions (called_tool call) agent")
  case (Inl e)
  then show ?thesis using assms(1) by (simp add: execute_one_tool_call_def Let_def)
next
  case permitted: (Inr u)
  let ?tool = "called_tool call"
  obtain db1 g where gate: "gate_call env project settings task run ?tool index call db = (db1, g)" by fastforce
  then have one: "idle_step db db1"
    using idle_grant_or_ask by (auto simp: gate_call_def split: if_splits)
  show ?thesis
  proof (cases "g = Inr () \<and> check_scope scope ?tool = Inr () \<and> check_allowed allowed ?tool = Inr ()")
    case False
    then have "db' = db1"
      using assms(1) permitted gate
      by (cases g; cases "check_scope scope ?tool"; cases "check_allowed allowed ?tool")
        (auto simp: execute_one_tool_call_def Let_def)
    then show ?thesis using one by simp
  next
    case True
    let ?started = "run_event run ''tool_call_started'' db1"
    have started: "idle_step db ?started" using one by simp
    then have "all_unbound ?started" using assms(4) unfolding idle_step_def by blast
    moreover have "run_call env project task run ?tool index call failures ?started = (db', r)"
      using assms(1) permitted gate True by (simp add: execute_one_tool_call_def Let_def)
    ultimately have "idle_step ?started db'" by (intro run_call_starves [OF _ refl assms(2,3)])
    then show ?thesis by (rule idle_trans [OF started])
  qed
qed

text \<open>
  Rounds of asking and deciding: the tool is called, in any run and at any position of a turn, or
  somebody decides approvals or changes the store in another way that dispatches nothing and binds no
  approval to arguments.
\<close>

inductive asking_rounds :: "agent_env \<Rightarrow> project_row \<Rightarrow> string \<Rightarrow> agent_db \<Rightarrow> agent_db \<Rightarrow> bool"
  for env project tool where
  start: "asking_rounds env project tool db db"
| call: "asking_rounds env project tool db db1 \<Longrightarrow> called_tool call = tool \<Longrightarrow>
    asking_rounds env project tool db (fst (execute_one_tool_call env project settings scope allowed agent
      task run index call failures db1))"
| decide: "asking_rounds env project tool db db1 \<Longrightarrow> ag_calls db2 = ag_calls db1 \<Longrightarrow>
    (all_unbound db1 \<Longrightarrow> all_unbound db2) \<Longrightarrow> asking_rounds env project tool db db2"

lemma asking_rounds_idle:
  assumes "asking_rounds env project tool db db'" "strict_env env" "always_asks env project tool" "all_unbound db"
  shows "idle_step db db'"
  using assms(1,4)
proof (induction rule: asking_rounds.induct)
  case (call db db1 c settings scope allowed agent task run index failures)
  have one: "idle_step db db1" by (rule call.IH [OF call.prems])
  obtain db2 r where "execute_one_tool_call env project settings scope allowed agent task run index c failures db1 =
      (db2, r)" by fastforce
  moreover have "all_unbound db1" using one call.prems by (simp add: idle_step_def)
  ultimately have "idle_step db1 db2"
    by (rule execute_one_starves [OF _ assms(2) assms(3) [folded call.hyps(2)]])
  with one show ?case using \<open>execute_one_tool_call _ _ _ _ _ _ _ _ _ _ _ _ = _\<close> by (auto intro: idle_trans)
next
  case (decide db db1 db2)
  then show ?case by (simp add: idle_step_def)
qed simp

text \<open>
  C24. A tool for which the resolved policy always asks for an approval (as for every tool registered
  to require one, when no other policy applies) never runs through the loop over tool calls, however
  often its grants are approved: while no approval carries a hash of arguments, no round of calls and
  decisions dispatches it, and none of the approvals the loop asks for carries one.
\<close>

theorem approved_tool_starves:
  assumes "asking_rounds env project tool db db'" "strict_env env" "always_asks env project tool" "all_unbound db"
  shows "ag_calls db' = ag_calls db \<and> all_unbound db'"
  using asking_rounds_idle [OF assms] assms(4) by (simp add: idle_step_def)

section \<open>Tools of MCP and A2A servers\<close>

lemma refused_status:
  assumes "refusal auth ctx = Some d"
  shows "pget (normalize_result tool d) ''status'' \<in> {PStr ''denied'', PStr ''approval_required''}"
proof -
  have "pget d ''status'' = PStr ''denied'' \<or> pget d ''status'' = PStr ''approval_required''"
    using assms by (auto simp: refusal_def authorization_dict_def dmerge_def split: if_splits)
  then show ?thesis using normalize_status by (elim disjE) auto
qed

lemma toolbox_result_Inl:
  "pget result ''status'' \<in> {PStr ''denied'', PStr ''approval_required'', PStr ''failed''} \<Longrightarrow>
     \<exists>e. toolbox_result tool result = Inl e"
  by (auto simp: toolbox_result_def str_or_def Let_def)

lemma remote_service:
  assumes "run_service env project tool args ctx db = (db', r)" "starts_with_any [''mcp.'', ''a2a.''] tool"
    and "truthy (pget ctx ''project_id'')"
  shows "ag_calls db' = ag_calls db \<and> (\<exists>e. r = Inl e)"
proof -
  let ?ext = "ae_ext env" and ?tb = "dispatch (ae_native env)" and ?pe = "project_known env"
  have box: "runs_in_toolbox tool ctx"
    using assms(2,3) by (auto simp: runs_in_toolbox_def starts_with_any_def)
  obtain auth actx where auth: "authorize_tool (ae_workforce env) (ae_failure env) (pj_owner project) tool
      (auth_context args ctx) = (auth, actx)" by fastforce
  show ?thesis
  proof (cases "refusal auth ctx")
    case (Some d)
    then have "execute_tool ?ext ?tb ?pe (ae_workforce env) (ae_failure env) (pj_owner project) tool args ctx =
        (normalize_result tool d, [])" by (simp add: execute_tool_def auth)
    then show ?thesis using assms(1) toolbox_result_Inl refused_status [OF Some]
      by (auto simp: run_service_def)
  next
    case None
    show ?thesis
    proof (cases "?pe (str_or (pget ctx ''project_id'') [])")
      case True
      then have "snd (execute_tool ?ext ?tb ?pe (ae_workforce env) (ae_failure env) (pj_owner project) tool args ctx)
          \<noteq> []" using None box auth by (simp add: execute_tool_def execute_via_toolbox_def)
      then show ?thesis using assms(1,2) box by (auto simp: run_service_def split: prod.splits)
    next
      case False
      let ?d = "[(''status'', PStr ''failed''), (''error'', PStr ''project not found for tool execution'')]"
      have "execute_tool ?ext ?tb ?pe (ae_workforce env) (ae_failure env) (pj_owner project) tool args ctx =
          (normalize_result tool ?d, [])"
        using False None box auth by (simp add: execute_tool_def execute_via_toolbox_def)
      moreover have "pget (normalize_result tool ?d) ''status'' = PStr ''failed''"
        by (rule normalize_status) (simp_all add: pget_def)
      ultimately show ?thesis using assms(1) toolbox_result_Inl by (auto simp: run_service_def)
    qed
  qed
qed

lemma authorize_keeps:
  assumes "authorize_tool wdb failure owner tool ctx = (auth, ctx')" "k \<noteq> ''_policy_resolution''"
  shows "pget ctx' k = pget ctx k"
  using assms by (auto simp: authorize_tool_def effective_stage_def Let_def split: option.splits if_splits)

lemma authorize_call_keeps:
  assumes "authorize_call env project task run tool args ctx db = (db', Inr ctx')"
  shows "pget ctx' ''project_id'' = pget ctx ''project_id''"
proof (cases "ae_auth_error env")
  case None
  obtain auth actx where auth: "authorize_tool (ae_workforce env) (ae_failure env) (pj_owner project) tool ctx =
      (auth, actx)" by fastforce
  have "pget actx ''project_id'' = pget ctx ''project_id''" by (rule authorize_keeps [OF auth]) simp
  then show ?thesis using assms None auth
    by (auto simp: authorize_call_def auth_failed_def split: if_splits sum.splits prod.splits)
qed (use assms in \<open>auto simp: authorize_call_def auth_failed_def split: if_splits\<close>)


end
