(* ===== verification/Approval_Decisions.thy ===== *)
theory Approval_Decisions
  imports Approval_Escalation
begin

text \<open>
  Deciding an approval: \<open>decide_approval\<close> and \<open>delegate_approval\<close> of
  \<open>orchestration/services/approvals_service.py\<close>, with the access rule of
  \<open>OrchestrationRepository.get_approval_for_update\<close>, the task state machine
  (\<open>workforce/constants.py\<close>, \<open>orchestration/execution/policies.py\<close>) and
  \<open>_transition_task_status\<close> of \<open>execution/run_lifecycle/events.py\<close>.

  The methods of other modules that some approval types call (posting to GitHub, writing semantic
  memory, promoting a memory) are the field \<open>de_effect\<close>: what they leave in the other tables, the
  payload they leave on the approval, the exception they raise and whether they had committed
  before. A persisted error carries the state the last commit left; every other error rolls back.
  Metrics and log lines are left out.
\<close>

section \<open>Task state machine\<close>

definition TASK_TRANSITIONS :: "string list dict" where
  [table_defs]: "TASK_TRANSITIONS =
     [(''backlog'', [''ready'', ''queued'', ''planned'', ''archived'', ''cancelled'']),
      (''ready'', [''planned'', ''in_progress'', ''blocked'', ''archived'', ''cancelled'']),
      (''queued'', [''ready'', ''planned'', ''blocked'', ''failed'', ''archived'', ''cancelled'']),
      (''planned'', [''in_progress'', ''blocked'', ''archived'', ''failed'', ''cancelled'', ''needs_input'']),
      (''in_progress'', [''blocked'', ''needs_input'', ''needs_review'', ''needs_approval'', ''completed'',
         ''failed'', ''planned'', ''cancelled'']),
      (''needs_input'', [''in_progress'', ''planned'', ''blocked'', ''cancelled'', ''archived'']),
      (''blocked'', [''planned'', ''in_progress'', ''ready'', ''failed'', ''archived'', ''cancelled'']),
      (''needs_review'', [''needs_approval'', ''approved'', ''planned'', ''blocked'', ''failed'',
         ''in_progress'', ''cancelled'']),
      (''needs_approval'', [''completed'', ''approved'', ''planned'', ''blocked'', ''cancelled'']),
      (''approved'', [''completed'', ''planned'', ''archived'', ''needs_approval'']),
      (''completed'', [''synced_to_github'', ''planned'', ''archived'', ''cancelled'']),
      (''failed'', [''planned'', ''queued'', ''ready'', ''archived'', ''cancelled'']),
      (''synced_to_github'', [''archived'', ''planned'', ''completed'']),
      (''cancelled'', [''backlog'', ''archived'']),
      (''archived'', [])]"

definition TASK_STATUS_VALUES :: "string list" where
  "TASK_STATUS_VALUES = map fst TASK_TRANSITIONS @ concat (map snd TASK_TRANSITIONS)"

definition is_valid_task_transition :: "string \<Rightarrow> string \<Rightarrow> bool" where
  "is_valid_task_transition current next_status \<longleftrightarrow>
     current = next_status \<or>
     next_status \<in> set (case dget TASK_TRANSITIONS current of None \<Rightarrow> [] | Some ns \<Rightarrow> ns)"

section \<open>Rows\<close>

record task_row =
  tk_id :: string
  tk_project :: string
  tk_status :: string
  tk_assigned :: pyval
  tk_metadata :: "pyval dict"

record run_row =
  rn_id :: string
  rn_project :: string
  rn_task :: "string option"
  rn_status :: string
  rn_error :: "string option"
  rn_completed_at :: "int option"
  rn_created_at :: int

record memory_row =
  mm_id :: string
  mm_owner :: string
  mm_project :: "string option"
  mm_status :: string
  mm_approved_by :: "string option"
  mm_deleted_at :: "int option"

record 'w decision_db =
  dd_approvals :: "approval_request list"
  dd_tasks :: "task_row list"
  dd_runs :: "run_row list"
  dd_memories :: "memory_row list"
  dd_audit :: "(string \<times> string \<times> string) list"
  dd_events :: "(string \<times> string) list"
  dd_submitted :: "(string \<times> string) list"
  dd_decided :: "string list"
  dd_world :: 'w

record 'w effect_outcome =
  eo_db :: "'w decision_db"
  eo_payload :: "pyval dict"
  eo_error :: "hitl_error option"
  eo_committed :: bool

record 'w decision_env =
  de_hitl :: hitl_env
  de_now :: int
  de_identity :: identity_db
  de_effect :: "string \<Rightarrow> approval_request \<Rightarrow> 'w decision_db \<Rightarrow> 'w effect_outcome"
  de_handoff :: "task_row \<Rightarrow> pyval dict"

type_synonym 'w failure = "'w decision_db option \<times> hitl_error"

definition put_row :: "('a \<Rightarrow> string) \<Rightarrow> 'a \<Rightarrow> 'a list \<Rightarrow> 'a list" where
  "put_row key r rows = map (\<lambda>x. if key x = key r then r else x) rows"

definition store_approval :: "approval_request \<Rightarrow> 'w decision_db \<Rightarrow> 'w decision_db" where
  "store_approval a db = db\<lparr>dd_approvals := put_row aq_id a (dd_approvals db)\<rparr>"

definition find_row :: "('a \<Rightarrow> string) \<Rightarrow> string option \<Rightarrow> 'a list \<Rightarrow> 'a option" where
  "find_row key i rows = (case i of
       None \<Rightarrow> None
     | Some k \<Rightarrow> if k = [] then None else find (\<lambda>x. key x = k) rows)"

definition latest_run :: "'w decision_db \<Rightarrow> task_row \<Rightarrow> run_row option" where
  "latest_run db task =
     (case sort_key (\<lambda>r. - rn_created_at r)
        (filter (\<lambda>r. rn_project r = tk_project task \<and> rn_task r = Some (tk_id task)) (dd_runs db)) of
        [] \<Rightarrow> None | r # _ \<Rightarrow> Some r)"

definition log_event :: "string \<Rightarrow> string \<Rightarrow> 'w decision_db \<Rightarrow> 'w decision_db" where
  "log_event run_id kind db = db\<lparr>dd_events := dd_events db @ [(run_id, kind)]\<rparr>"

text \<open>A transition that is not allowed raises; nothing it did is kept.\<close>

definition transition_task_status ::
  "'w decision_env \<Rightarrow> task_row \<Rightarrow> string \<Rightarrow> run_row option \<Rightarrow> 'w decision_db \<Rightarrow>
   ('w failure, 'w decision_db) result" where
  "transition_task_status env task next_status run db =
     (if tk_status task = next_status then Inr db
      else if \<not> is_valid_task_transition (tk_status task) next_status
      then Inl (None, HttpError 409 (''Invalid task transition from '' @ tk_status task @ '' to '' @ next_status))
      else
        (let t = task\<lparr>tk_status := next_status\<rparr>;
             t = (if next_status = ''blocked'' then t\<lparr>tk_metadata := de_handoff env t\<rparr> else t);
             db = db\<lparr>dd_tasks := put_row tk_id t (dd_tasks db)\<rparr>
         in Inr (case (case run of Some r \<Rightarrow> Some r | None \<Rightarrow> latest_run db task) of
              None \<Rightarrow> db
            | Some r \<Rightarrow> log_event (rn_id r) ''task_status_changed'' db)))"

section \<open>What a decision causes\<close>

definition run_effect ::
  "'w decision_env \<Rightarrow> string \<Rightarrow> approval_request \<Rightarrow> 'w decision_db \<Rightarrow>
   ('w failure, 'w decision_db) result" where
  "run_effect env method approval db =
     (let out = de_effect env method approval db;
          db' = store_approval (approval\<lparr>aq_payload := eo_payload out\<rparr>)
                  ((eo_db out)\<lparr>dd_approvals := dd_approvals db\<rparr>)
      in case eo_error out of
           Some e \<Rightarrow> Inl (if eo_committed out then Some db' else None, e)
         | None \<Rightarrow> Inr db')"

definition GITHUB_COMMENT_APPROVALS :: "string list" where
  "GITHUB_COMMENT_APPROVALS = [''github_comment'', ''github_progress_comment'', ''github_manager_closure'']"

definition decide_memory ::
  "'w decision_env \<Rightarrow> string \<Rightarrow> string \<Rightarrow> approval_request \<Rightarrow> 'w decision_db \<Rightarrow>
   ('w failure, 'w decision_db) result" where
  "decide_memory env user status approval db =
     (let entry = pget (aq_payload approval) ''memory_entry_id'' in
      case (if truthy entry then find (\<lambda>m. mm_owner m = user \<and> PStr (mm_id m) = entry) (dd_memories db)
            else None) of
        None \<Rightarrow> Inr db
      | Some m \<Rightarrow>
          if status = ''approved'' then
            (let m = m\<lparr>mm_status := ''approved'', mm_approved_by := Some user\<rparr>;
                 db = db\<lparr>dd_memories := put_row mm_id m (dd_memories db)\<rparr>
             in if get_project (de_identity env) (mm_project m) \<noteq> None
                then run_effect env ''promote_agent_memory'' approval db else Inr db)
          else Inr (db\<lparr>dd_memories := put_row mm_id
                  (m\<lparr>mm_status := ''rejected'', mm_deleted_at := Some (de_now env)\<rparr>) (dd_memories db)\<rparr>))"

definition decide_semantic_memory ::
  "'w decision_env \<Rightarrow> string \<Rightarrow> approval_request \<Rightarrow> 'w decision_db \<Rightarrow>
   ('w failure, 'w decision_db) result" where
  "decide_semantic_memory env status approval db =
     (let op = pget (aq_payload approval) ''operation'' in
      if truthy (opt_str (aq_project_id approval)) \<and> status = ''approved'' \<and>
         op \<in> {PStr ''create'', PStr ''update'', PStr ''delete''}
      then run_effect env (''semantic_memory.'' @ py_str op) approval db else Inr db)"

definition decide_mark_complete ::
  "'w decision_env \<Rightarrow> string \<Rightarrow> approval_request \<Rightarrow> 'w decision_db \<Rightarrow>
   ('w failure, 'w decision_db) result" where
  "decide_mark_complete env status approval db =
     (case (if status = ''approved'' then find_row tk_id (aq_task_id approval) (dd_tasks db) else None) of
        None \<Rightarrow> Inr db
      | Some task \<Rightarrow>
          (let target = str_or (pget (aq_payload approval) ''to_status'') ''completed'';
               target = (if target \<notin> set TASK_STATUS_VALUES then ''completed'' else target)
           in transition_task_status env task target None db))"

definition assign_task ::
  "string \<Rightarrow> approval_request \<Rightarrow> 'w decision_db \<Rightarrow> 'w decision_db" where
  "assign_task status approval db =
     (case (if status = ''approved'' then find_row tk_id (aq_task_id approval) (dd_tasks db) else None) of
        None \<Rightarrow> db
      | Some task \<Rightarrow> db\<lparr>dd_tasks := put_row tk_id
          (task\<lparr>tk_assigned := pget (aq_payload approval) ''to_assigned_agent_id''\<rparr>) (dd_tasks db)\<rparr>)"

definition share_memory ::
  "string \<Rightarrow> approval_request \<Rightarrow> 'w decision_db \<Rightarrow> ('w failure, 'w decision_db) result" where
  "share_memory status approval db =
     (case (if status = ''approved'' then find_row tk_id (aq_task_id approval) (dd_tasks db) else None) of
        None \<Rightarrow> Inr db
      | Some task \<Rightarrow>
          (case dict_or_raise (pget (tk_metadata task) ''memory_coordination'') of
             Inl e \<Rightarrow> Inl (None, PyError e)
           | Inr cur \<Rightarrow>
               (let cur = dset ''shared'' (PStr (str_or (pget (aq_payload approval) ''shared'') [])) cur in
                Inr (db\<lparr>dd_tasks := put_row tk_id
                  (task\<lparr>tk_metadata := dset ''memory_coordination'' (PDict cur) (tk_metadata task)\<rparr>)
                  (dd_tasks db)\<rparr>))))"

definition TERMINAL_RUNS :: "string list" where
  "TERMINAL_RUNS = [''completed'', ''failed'', ''cancelled'']"

text \<open>A live run of the rejected approval fails; emitting its event commits.\<close>

definition live_run :: "approval_request \<Rightarrow> 'w decision_db \<Rightarrow> run_row option" where
  "live_run approval db =
     (case find_row rn_id (aq_run_id approval) (dd_runs db) of
        Some r \<Rightarrow> if rn_status r \<in> set TERMINAL_RUNS then None else Some r
      | None \<Rightarrow> None)"

definition fail_rejected_run ::
  "string option \<Rightarrow> run_row \<Rightarrow> 'w decision_db \<Rightarrow> 'w decision_db" where
  "fail_rejected_run reason run db =
     log_event (rn_id run) ''approval_rejected''
       (db\<lparr>dd_runs := put_row rn_id (run\<lparr>rn_status := ''failed'',
             rn_error := Some (''Approval rejected: '' @ str_or (opt_str reason) ''No reason provided'')\<rparr>)
             (dd_runs db)\<rparr>)"

definition reopen_task ::
  "'w decision_env \<Rightarrow> string list \<Rightarrow> approval_request \<Rightarrow> 'w decision_db \<Rightarrow>
   ('w failure, 'w decision_db) result" where
  "reopen_task env statuses approval db =
     (case find_row tk_id (aq_task_id approval) (dd_tasks db) of
        None \<Rightarrow> Inr db
      | Some task \<Rightarrow> if tk_status task \<in> set statuses
          then transition_task_status env task ''planned'' None db else Inr db)"

definition reject_generic ::
  "'w decision_env \<Rightarrow> string option \<Rightarrow> approval_request \<Rightarrow> 'w decision_db \<Rightarrow>
   ('w failure, 'w decision_db) result" where
  "reject_generic env reason approval db =
     res_bind (reopen_task env [''approved'', ''completed''] approval db) (\<lambda>db.
     case live_run approval db of
       None \<Rightarrow> Inr db
     | Some run \<Rightarrow>
         (let db' = fail_rejected_run reason run db in
          case find_row tk_id (aq_task_id approval) (dd_tasks db') of
            None \<Rightarrow> Inr db'
          | Some task \<Rightarrow>
              (case transition_task_status env task ''planned'' (Some run) db' of
                 Inl (_, e) \<Rightarrow> Inl (Some db', e)
               | Inr db'' \<Rightarrow> Inr db'')))"

text \<open>The branch of the approval type.\<close>

definition decide_branch ::
  "'w decision_env \<Rightarrow> string \<Rightarrow> string \<Rightarrow> string option \<Rightarrow> approval_request \<Rightarrow> 'w decision_db \<Rightarrow>
   ('w failure, 'w decision_db) result" where
  "decide_branch env user status reason approval db =
     (let kind = aq_approval_type approval; approved = (status = ''approved'') in
      if approved \<and> kind \<in> set GITHUB_COMMENT_APPROVALS \<and> truthy (opt_str (aq_issue_link_id approval))
      then run_effect env ''post_approved_github_comment'' approval db
      else if approved \<and> kind = ''github_create_pr'' then run_effect env ''approve_github_create_pr'' approval db
      else if approved \<and> kind = ''github_pr_review_comment''
      then run_effect env ''approve_github_pr_review_comment'' approval db
      else if approved \<and> kind = ''github_issue_sync'' then run_effect env ''approve_github_issue_sync'' approval db
      else if kind = ''agent_memory_write'' then decide_memory env user status approval db
      else if kind = ''semantic_memory_write'' then decide_semantic_memory env status approval db
      else if kind = ''task_assignment_change'' then Inr (assign_task status approval db)
      else if kind = ''task_mark_complete'' then decide_mark_complete env status approval db
      else if kind = ''shared_memory_write'' then share_memory status approval db
      else if approved \<and> truthy (opt_str (aq_run_id approval)) then Inr db
      else if status = ''rejected'' \<and> truthy (opt_str (aq_task_id approval))
      then reject_generic env reason approval db
      else Inr db)"

definition reject_uniformly ::
  "'w decision_env \<Rightarrow> string option \<Rightarrow> approval_request \<Rightarrow> 'w decision_db \<Rightarrow>
   ('w failure, 'w decision_db) result" where
  "reject_uniformly env reason approval db =
     res_bind (reopen_task env [''blocked'', ''approved'', ''completed''] approval db) (\<lambda>db.
     Inr (case live_run approval db of
            None \<Rightarrow> db
          | Some run \<Rightarrow> fail_rejected_run reason run db))"

text \<open>An approval queues the run that waits for it; the result names the run to submit.\<close>

definition resume_blocked_run ::
  "'w decision_env \<Rightarrow> approval_request \<Rightarrow> 'w decision_db \<Rightarrow>
   ('w failure, 'w decision_db \<times> string option) result" where
  "resume_blocked_run env approval db =
     (case find_row rn_id (aq_run_id approval) (dd_runs db) of
        None \<Rightarrow> Inr (db, None)
      | Some run \<Rightarrow>
          if rn_status run \<noteq> ''blocked'' then Inr (db, None)
          else
            (let run = run\<lparr>rn_status := ''queued'', rn_error := None, rn_completed_at := None\<rparr>;
                 db = db\<lparr>dd_runs := put_row rn_id run (dd_runs db)\<rparr>
             in res_bind
               (case find_row tk_id (rn_task run) (dd_tasks db) of
                  None \<Rightarrow> Inr db
                | Some task \<Rightarrow> if tk_status task = ''blocked''
                    then transition_task_status env task ''planned'' (Some run) db else Inr db)
               (\<lambda>db. Inr (log_event (rn_id run) ''unblocked'' db, Some (rn_id run)))))"

section \<open>Deciding\<close>

definition get_approval_for_update ::
  "'w decision_env \<Rightarrow> string \<Rightarrow> string \<Rightarrow> 'w decision_db \<Rightarrow>
   (hitl_error, approval_request option) result" where
  "get_approval_for_update env user approval_id db =
     (case find (\<lambda>a. aq_id a = approval_id) (dd_approvals db) of
        None \<Rightarrow> Inr None
      | Some a \<Rightarrow>
          res_bind (user_can_access_approval (de_hitl env) (de_now env) (de_identity env) user a)
            (\<lambda>ok. Inr (if ok then Some a else None)))"

definition decided_row ::
  "'w decision_env \<Rightarrow> string \<Rightarrow> string \<Rightarrow> string option \<Rightarrow> eligible_approver \<Rightarrow> approval_request \<Rightarrow>
   approval_request" where
  "decided_row env user status reason eligible approval =
     approval\<lparr>aq_status := status, aq_reason := reason, aq_approved_by := Some user,
       aq_decided_reason := Some (format_eligibility_reason eligible),
       aq_resolved_at := Some (Aware (de_now env))\<rparr>"

definition run_owner :: "'w decision_env \<Rightarrow> string \<Rightarrow> approval_request \<Rightarrow> string" where
  "run_owner env user approval =
     (case get_project (de_identity env) (aq_project_id approval) of
        None \<Rightarrow> user | Some p \<Rightarrow> pj_owner p)"

text \<open>From the stored decision to the commit: the branch, the rejection, the resumed run, the audit.\<close>

definition settle_decision ::
  "'w decision_env \<Rightarrow> string \<Rightarrow> string \<Rightarrow> string option \<Rightarrow> approval_request \<Rightarrow> 'w decision_db \<Rightarrow>
   ('w failure, 'w decision_db) result" where
  "settle_decision env user status reason approval db =
     res_bind (decide_branch env user status reason approval db) (\<lambda>db.
     res_bind (if status = ''rejected'' \<and> truthy (opt_str (aq_task_id approval))
               then reject_uniformly env reason approval db else Inr db) (\<lambda>db.
     res_bind (if status = ''approved'' then resume_blocked_run env approval db else Inr (db, None))
       (\<lambda>(db, resumed).
     Inr (db\<lparr>dd_audit := dd_audit db @ [(user, ''orchestration.approval.'' @ status, aq_id approval)],
             dd_submitted := dd_submitted db @ (case resumed of
                None \<Rightarrow> [] | Some r \<Rightarrow> [(r, run_owner env user approval)]),
             dd_decided := dd_decided db @ [aq_id approval]\<rparr>))))"

definition check_decision ::
  "'w decision_env \<Rightarrow> string \<Rightarrow> string \<Rightarrow> string option \<Rightarrow> approval_request \<Rightarrow>
   (hitl_error, eligible_approver) result" where
  "check_decision env user status reason approval =
     (case recheck_user_eligible (de_hitl env) (de_now env) (de_identity env) approval user of
        Inl (ApproverEligibilityError m) \<Rightarrow> Inl (HttpError 403 m)
      | Inl e \<Rightarrow> Inl e
      | Inr eligible \<Rightarrow>
          guard_or (status = ''rejected'' \<and> py_strip (str_or (opt_str reason) []) = [])
            (HttpError 422 ''A rejection reason is required.'') (Inr eligible))"

definition decide_approval ::
  "'w decision_env \<Rightarrow> 'w decision_db \<Rightarrow> string \<Rightarrow> string \<Rightarrow> string \<Rightarrow> string option \<Rightarrow>
   'w decision_db \<times> (hitl_error, approval_request) result" where
  "decide_approval env db user approval_id status reason =
     (case get_approval_for_update env user approval_id db of
        Inl e \<Rightarrow> (db, Inl e)
      | Inr None \<Rightarrow> (db, Inl (HttpError 404 ''Approval request not found''))
      | Inr (Some approval) \<Rightarrow>
          if aq_status approval \<noteq> ''pending'' then
            (db, Inl (HttpError 409 (''Approval request is already '' @ aq_status approval @
               '' and cannot be decided again.'')))
          else case is_approval_expired (he_rt (de_hitl env)) (de_now env) approval of
            Inl e \<Rightarrow> (db, Inl (PyError e))
          | Inr True \<Rightarrow>
              (store_approval (approval\<lparr>aq_status := ''stale'',
                 aq_reason := Some ''Approval effect expired before decision''\<rparr>) db,
               Inl (HttpError 409 ''Approval effect expired before decision''))
          | Inr False \<Rightarrow>
              (case check_decision env user status reason approval of
                 Inl e \<Rightarrow> (db, Inl e)
               | Inr eligible \<Rightarrow>
                   (let row = decided_row env user status reason eligible approval in
                    case settle_decision env user status reason row (store_approval row db) of
                      Inl (None, e) \<Rightarrow> (db, Inl e)
                    | Inl (Some persisted, e) \<Rightarrow> (persisted, Inl e)
                    | Inr db' \<Rightarrow> (db', case find (\<lambda>a. aq_id a = approval_id) (dd_approvals db') of
                        Some a \<Rightarrow> Inr a | None \<Rightarrow> Inl (PyError ''InvalidRequestError'')))))"

definition delegate_approval_request ::
  "'w decision_env \<Rightarrow> 'w decision_db \<Rightarrow> string \<Rightarrow> string \<Rightarrow> string \<Rightarrow> string option \<Rightarrow>
   'w decision_db \<times> (hitl_error, approval_request) result" where
  "delegate_approval_request env db user approval_id to_user reason =
     (case get_approval_for_update env user approval_id db of
        Inl e \<Rightarrow> (db, Inl e)
      | Inr None \<Rightarrow> (db, Inl (HttpError 404 ''Approval request not found''))
      | Inr (Some approval) \<Rightarrow>
          (case delegate_approval (de_hitl env) (de_now env) (de_identity env) approval user to_user reason of
             Inl (ApproverEligibilityError m) \<Rightarrow> (db, Inl (HttpError 403 m))
           | Inl (ApprovalDelegationError m) \<Rightarrow> (db, Inl (HttpError 409 m))
           | Inl e \<Rightarrow> (db, Inl e)
           | Inr a \<Rightarrow>
               (let db = store_approval a db in
                (db\<lparr>dd_audit := dd_audit db @ [(user, ''orchestration.approval.delegated'', aq_id a)]\<rparr>,
                 Inr a))))"

end
