(* ===== verification/Approval_Decision_Properties.thy ===== *)
theory Approval_Decision_Properties
  imports Approval_Decisions Approval_Routing_Properties
begin

text \<open>
  What deciding, delegating and the SLA scan can do to the approvals: who can approve, that a decided
  row is final, how often a row is warned about and escalated, and what an approval or a rejection
  does to the run that waits for it.
\<close>

section \<open>The approvals table\<close>

lemma map_put_row [simp]: "map key (put_row key r rows) = map key rows"
  by (auto simp: put_row_def)

lemma set_put_row: "x \<in> set (put_row key r rows) \<Longrightarrow> x = r \<or> (x \<in> set rows \<and> key x \<noteq> key r)"
  by (auto simp: put_row_def split: if_splits)

lemma put_row_other: "x \<in> set rows \<Longrightarrow> key x \<noteq> key r \<Longrightarrow> x \<in> set (put_row key r rows)"
  by (force simp: put_row_def)

lemma put_row_twice [simp]: "key r = key s \<Longrightarrow> put_row key r (put_row key s rows) = put_row key r rows"
  by (auto simp: put_row_def)

named_theorems decision_defs

lemmas [decision_defs] = decide_memory_def decide_semantic_memory_def assign_task_def
  decide_mark_complete_def share_memory_def reopen_task_def fail_rejected_run_def log_event_def

text \<open>Apart from the payload of the decided row, the branches leave the approvals alone.\<close>

definition only_payload :: "approval_request \<Rightarrow> 'w decision_db \<Rightarrow> 'w decision_db \<Rightarrow> bool" where
  "only_payload row db db' \<longleftrightarrow> dd_approvals db' = dd_approvals db \<or>
     (\<exists>p. dd_approvals db' = put_row aq_id (row\<lparr>aq_payload := p\<rparr>) (dd_approvals db))"

lemma only_payload_trans:
  "only_payload row a b \<Longrightarrow> only_payload row b c \<Longrightarrow> only_payload row a c"
proof -
  assume "only_payload row a b" "only_payload row b c"
  then consider "dd_approvals b = dd_approvals a" | "dd_approvals c = dd_approvals b"
    | p q where "dd_approvals b = put_row aq_id (row\<lparr>aq_payload := p\<rparr>) (dd_approvals a)"
        "dd_approvals c = put_row aq_id (row\<lparr>aq_payload := q\<rparr>) (dd_approvals b)"
    by (auto simp: only_payload_def)
  then show ?thesis
  proof cases
    case (3 p q)
    then have "dd_approvals c = put_row aq_id (row\<lparr>aq_payload := q\<rparr>) (dd_approvals a)" by simp
    then show ?thesis by (auto simp: only_payload_def)
  qed (use \<open>only_payload row a b\<close> \<open>only_payload row b c\<close> in \<open>auto simp: only_payload_def\<close>)
qed

lemma only_payload_refl [simp, intro]: "only_payload row db db"
  by (simp add: only_payload_def)

lemma only_payload_stored:
  assumes "only_payload row (store_approval row db) db'"
  obtains p where "dd_approvals db' = put_row aq_id (row\<lparr>aq_payload := p\<rparr>) (dd_approvals db)"
proof -
  have "row\<lparr>aq_payload := aq_payload row\<rparr> = row" by simp
  then show thesis using assms that that [of "aq_payload row"]
    by (auto simp: only_payload_def store_approval_def)
qed

text \<open>A result and a persisted failure are both states the store can be left in.\<close>

fun left_state :: "('w failure, 'w decision_db) result \<Rightarrow> 'w decision_db option" where
  "left_state (Inr db) = Some db"
| "left_state (Inl (persisted, e)) = persisted"

definition safe_step :: "approval_request \<Rightarrow> 'w decision_db \<Rightarrow> ('w failure, 'w decision_db) result \<Rightarrow> bool" where
  "safe_step row db r \<longleftrightarrow> (\<forall>db'. left_state r = Some db' \<longrightarrow> only_payload row db db')"

lemma safe_stepI:
  "(\<And>db'. r = Inr db' \<Longrightarrow> only_payload row db db') \<Longrightarrow>
   (\<And>db' e. r = Inl (Some db', e) \<Longrightarrow> only_payload row db db') \<Longrightarrow> safe_step row db r"
  by (cases r) (auto simp: safe_step_def)

lemma safe_bind:
  assumes "safe_step row db r" "\<And>db'. r = Inr db' \<Longrightarrow> safe_step row db' (f db')"
  shows "safe_step row db (res_bind r f)"
proof (cases r)
  case (Inr db')
  then have "only_payload row db db'" using assms(1) by (simp add: safe_step_def)
  then show ?thesis using assms(2) [OF Inr] Inr only_payload_trans by (fastforce simp: safe_step_def)
next
  case (Inl x)
  then show ?thesis using assms(1) by (cases x) (simp add: safe_step_def)
qed

lemma safe_unchanged:
  "(\<And>db'. r = Inr db' \<Longrightarrow> dd_approvals db' = dd_approvals db) \<Longrightarrow>
   (\<And>db' e. r \<noteq> Inl (Some db', e)) \<Longrightarrow> safe_step row db r"
  by (rule safe_stepI) (auto simp: only_payload_def)

lemma safe_effect: "safe_step row db (run_effect env m row db)"
  by (rule safe_stepI)
    (auto simp: run_effect_def Let_def only_payload_def store_approval_def split: option.splits if_splits)

lemma transition_approvals:
  "transition_task_status env t s r db = Inr db' \<Longrightarrow> dd_approvals db' = dd_approvals db"
  "transition_task_status env t s r db \<noteq> Inl (Some x, e)"
  by (auto simp: transition_task_status_def Let_def log_event_def split: if_splits option.splits)

lemma safe_transition: "safe_step row db (transition_task_status env t s r db)"
  by (rule safe_unchanged) (auto dest: transition_approvals(1) simp: transition_approvals(2))

lemma safe_Inr: "dd_approvals db' = dd_approvals db \<Longrightarrow> safe_step row db (Inr db')"
  by (simp add: safe_step_def only_payload_def)

lemma safe_rollback [simp]: "safe_step row db (Inl (None, e))"
  by (simp add: safe_step_def)

lemma safe_from: "dd_approvals db = dd_approvals db0 \<Longrightarrow> safe_step row db r \<Longrightarrow> safe_step row db0 r"
  by (simp add: safe_step_def only_payload_def)

lemma safe_reopen: "safe_step row db (reopen_task env ss a db)"
  by (auto simp: reopen_task_def safe_transition safe_Inr split: option.split)

lemma fail_run_approvals [simp]: "dd_approvals (fail_rejected_run reason run db) = dd_approvals db"
  by (simp add: fail_rejected_run_def log_event_def)

lemma safe_reject_generic: "safe_step row db (reject_generic env reason a db)"
  unfolding reject_generic_def
proof (rule safe_bind [OF safe_reopen])
  fix db'
  show "safe_step row db' (case live_run a db' of None \<Rightarrow> Inr db'
     | Some run \<Rightarrow>
         (let db1 = fail_rejected_run reason run db' in
          case find_row tk_id (aq_task_id a) (dd_tasks db1) of
            None \<Rightarrow> Inr db1
          | Some task \<Rightarrow>
              (case transition_task_status env task ''planned'' (Some run) db1 of
                 Inl (_, e) \<Rightarrow> Inl (Some db1, e)
               | Inr db2 \<Rightarrow> Inr db2)))"
  proof (cases "live_run a db'")
    case (Some run)
    let ?db = "fail_rejected_run reason run db'"
    show ?thesis
    proof (cases "find_row tk_id (aq_task_id a) (dd_tasks ?db)")
      case None
      then show ?thesis using Some by (simp add: safe_Inr)
    next
      case (Some task)
      note task = this
      show ?thesis
      proof (cases "transition_task_status env task ''planned'' (Some run) ?db")
        case (Inl x)
        then show ?thesis using \<open>live_run a db' = Some run\<close> task
          by (cases x) (simp add: safe_step_def only_payload_def)
      next
        case (Inr db2)
        then show ?thesis using \<open>live_run a db' = Some run\<close> task transition_approvals(1) [OF Inr]
          by (simp add: safe_Inr)
      qed
    qed
  qed (simp add: safe_Inr)
qed

lemma safe_memory: "safe_step row db (decide_memory env user status row db)"
proof -
  have "safe_step row db (run_effect env m row (db\<lparr>dd_memories := ms\<rparr>))" for m ms
    by (rule safe_from [OF _ safe_effect]) simp
  then show ?thesis by (auto simp: decide_memory_def Let_def safe_Inr split: option.split)
qed

lemma safe_branch: "safe_step row db (decide_branch env user status reason row db)"
proof -
  have "safe_step row db (share_memory status row db)"
    by (auto simp: share_memory_def Let_def safe_Inr split: option.split sum.split)
  moreover have "safe_step row db (decide_mark_complete env status row db)"
    by (auto simp: decide_mark_complete_def Let_def safe_Inr safe_transition split: option.split)
  moreover have "safe_step row db (decide_semantic_memory env status row db)"
    by (simp add: decide_semantic_memory_def Let_def safe_effect safe_Inr)
  moreover have "safe_step row db (Inr (assign_task status row db))"
    by (rule safe_Inr) (auto simp: assign_task_def split: option.split)
  ultimately show ?thesis
    by (simp add: decide_branch_def Let_def safe_effect safe_memory safe_reject_generic safe_Inr)
qed

lemma safe_reject_uniformly: "safe_step row db (reject_uniformly env reason a db)"
  unfolding reject_uniformly_def
  by (rule safe_bind [OF safe_reopen]) (auto simp: safe_Inr split: option.split)

lemma res_bind_eq_Inl: "res_bind r f = Inl e \<longleftrightarrow> r = Inl e \<or> (\<exists>a. r = Inr a \<and> f a = Inl e)"
  by (cases r) auto

lemma resume_approvals:
  "resume_blocked_run env a db = Inr (db', r) \<Longrightarrow> dd_approvals db' = dd_approvals db"
  "resume_blocked_run env a db \<noteq> Inl (Some x, e)"
  by (auto simp: resume_blocked_run_def Let_def log_event_def transition_approvals(2) res_bind_eq_Inl
      dest!: transition_approvals(1) split: option.splits if_splits sum.splits)

lemma settle_safe: "safe_step row db (settle_decision env user status reason row db)"
  unfolding settle_decision_def
proof (rule safe_bind [OF safe_branch], rule safe_bind)
  fix db1 :: "'a decision_db"
  show "safe_step row db1 (if status = ''rejected'' \<and> truthy (opt_str (aq_task_id row))
     then reject_uniformly env reason row db1 else Inr db1)"
    by (simp add: safe_reject_uniformly safe_Inr)
next
  fix db2 :: "'a decision_db"
  show "safe_step row db2 (res_bind (if status = ''approved'' then resume_blocked_run env row db2
      else Inr (db2, None)) (\<lambda>(db, resumed). Inr
        (db\<lparr>dd_audit := dd_audit db @ [(user, ''orchestration.approval.'' @ status, aq_id row)],
             dd_submitted := dd_submitted db @ (case resumed of
                None \<Rightarrow> [] | Some r \<Rightarrow> [(r, run_owner env user row)]),
             dd_decided := dd_decided db @ [aq_id row]\<rparr>)))"
  proof (cases "if status = ''approved'' then resume_blocked_run env row db2 else Inr (db2, None)")
    case (Inl x)
    then show ?thesis
      by (cases x) (auto simp: safe_step_def resume_approvals(2) split: if_splits)
  next
    case (Inr y)
    then show ?thesis
      using resume_approvals(1) [of env row db2] by (cases y) (auto intro!: safe_Inr split: if_splits)
  qed
qed

text \<open>What a call of the handler leaves of the approvals.\<close>

lemma decide_approvals:
  assumes "decide_approval env db user i status reason = (db', r)"
  obtains "dd_approvals db' = dd_approvals db"
  | old where "find (\<lambda>a. aq_id a = i) (dd_approvals db) = Some old" "aq_status old = ''pending''"
      "is_approval_expired (he_rt (de_hitl env)) (de_now env) old = Inr True"
      "dd_approvals db' = put_row aq_id (old\<lparr>aq_status := ''stale'',
         aq_reason := Some ''Approval effect expired before decision''\<rparr>) (dd_approvals db)"
  | old e p where "find (\<lambda>a. aq_id a = i) (dd_approvals db) = Some old" "aq_status old = ''pending''"
      "recheck_user_eligible (de_hitl env) (de_now env) (de_identity env) old user = Inr e"
      "is_approval_expired (he_rt (de_hitl env)) (de_now env) old = Inr False"
      "dd_approvals db' = put_row aq_id ((decided_row env user status reason e old)\<lparr>aq_payload := p\<rparr>)
         (dd_approvals db)"
proof (cases "get_approval_for_update env user i db")
  case (Inl e)
  then show thesis using assms that(1) by (simp add: decide_approval_def)
next
  case (Inr found)
  note access = this
  show thesis
  proof (cases found)
    case None
    then show thesis using assms access that(1) by (simp add: decide_approval_def)
  next
    case (Some old)
    have find: "find (\<lambda>a. aq_id a = i) (dd_approvals db) = Some old"
      using access Some by (auto simp: get_approval_for_update_def split: option.splits if_splits)
    show thesis
    proof (cases "aq_status old = ''pending''")
      case False
      then show thesis using assms access Some that(1) by (simp add: decide_approval_def)
    next
      case True
      note pending = this
      show thesis
      proof (cases "is_approval_expired (he_rt (de_hitl env)) (de_now env) old")
        case (Inl e)
        then show thesis using assms access Some pending that(1) by (simp add: decide_approval_def)
      next
        case (Inr expired)
        show thesis
        proof (cases expired)
          case True
          then show thesis using assms access Some pending Inr
            by (intro that(2) [OF find pending]) (auto simp: decide_approval_def store_approval_def)
        next
          case False
          show thesis
          proof (cases "check_decision env user status reason old")
            case (Inl e)
            then show thesis using assms access Some pending \<open>_ = Inr expired\<close> False that(1)
              by (simp add: decide_approval_def)
          next
            case (Inr e)
            note checked = this
            have ok: "recheck_user_eligible (de_hitl env) (de_now env) (de_identity env) old user = Inr e"
              using Inr by (auto simp: check_decision_def split: sum.splits hitl_error.splits)
            let ?row = "decided_row env user status reason e old"
            let ?r = "settle_decision env user status reason ?row (store_approval ?row db)"
            have run: "(case ?r of Inl (None, e) \<Rightarrow> (db, Inl e)
                | Inl (Some persisted, e) \<Rightarrow> (persisted, Inl e)
                | Inr db' \<Rightarrow> (db', case find (\<lambda>a. aq_id a = i) (dd_approvals db') of
                    Some a \<Rightarrow> Inr a | None \<Rightarrow> Inl (PyError ''InvalidRequestError''))) = (db', r)"
              using assms access Some pending \<open>_ = Inr expired\<close> False checked
              by (simp add: decide_approval_def Let_def)
            consider "db' = db" | "left_state ?r = Some db'"
              using run by (auto split: sum.splits option.splits prod.splits)
            then show thesis
            proof cases
              case 2
              then have "only_payload ?row (store_approval ?row db) db'"
                using settle_safe [of ?row "store_approval ?row db" env user status reason] by (auto simp: safe_step_def)
              then obtain p where
                "dd_approvals db' = put_row aq_id (?row\<lparr>aq_payload := p\<rparr>) (dd_approvals db)"
                by (rule only_payload_stored)
              then show thesis
                using that(3) [OF find pending ok] \<open>_ = Inr expired\<close> False by simp
            qed (use that(1) in simp)
          qed
        qed
      qed
    qed
  qed
qed

section \<open>The life of an approval\<close>

text \<open>
  The contract of one row: a pending approval may be rewritten and stay pending (a delegation, a
  notice of the scan), become stale once its effect expired, or be decided by a user who is eligible
  at that moment. Nothing else ever happens to a row, and nothing at all to one that is not pending.
\<close>

inductive approval_moves :: "approval_request \<Rightarrow> approval_request \<Rightarrow> bool" where
  kept: "approval_moves a a"
| waits: "aq_status a = ''pending'' \<Longrightarrow> aq_status b = ''pending'' \<Longrightarrow> aq_id b = aq_id a \<Longrightarrow>
    aq_approved_by b = aq_approved_by a \<Longrightarrow> (warned a \<Longrightarrow> warned b) \<Longrightarrow>
    (is_escalated (aq_escalation_state a) \<Longrightarrow> is_escalated (aq_escalation_state b)) \<Longrightarrow>
    approval_moves a b"
| stale: "aq_status a = ''pending'' \<Longrightarrow> is_approval_expired rt now a = Inr True \<Longrightarrow>
    approval_moves a (a\<lparr>aq_status := ''stale'', aq_reason := r\<rparr>)"
| decided: "aq_status a = ''pending'' \<Longrightarrow> is_approval_expired (he_rt henv) now a = Inr False \<Longrightarrow>
    recheck_user_eligible henv now idb a user = Inr e \<Longrightarrow> status \<in> {''approved'', ''rejected''} \<Longrightarrow>
    aq_id b = aq_id a \<Longrightarrow> aq_status b = status \<Longrightarrow> aq_approved_by b = Some user \<Longrightarrow>
    aq_decided_reason b = Some (format_eligibility_reason e) \<Longrightarrow>
    aq_delegations b = aq_delegations a \<Longrightarrow> aq_escalation_state b = aq_escalation_state a \<Longrightarrow>
    approval_moves a b"

inductive_cases moves_cases: "approval_moves a b"

lemma moves_id: "approval_moves a b \<Longrightarrow> aq_id b = aq_id a"
  by (auto elim: moves_cases)

lemma moves_final: "approval_moves a b \<Longrightarrow> aq_status a \<noteq> ''pending'' \<Longrightarrow> b = a"
  by (auto elim: moves_cases)

text \<open>
  A step of the service: a request decides or delegates, or the SLA scan runs; its users, clock and
  identity tables are those of the moment. The request schema admits two statuses. A printed date is
  never empty. The last rule is everything else the program does to the other tables.
\<close>

inductive hitl_step :: "'w decision_db \<Rightarrow> scan_outcome list \<Rightarrow> 'w decision_db \<Rightarrow> bool" where
  decide: "status \<in> {''approved'', ''rejected''} \<Longrightarrow>
    decide_approval env db user i status reason = (db', r) \<Longrightarrow> hitl_step db [] db'"
| delegate: "delegate_approval_request env db user i to_user reason = (db', r) \<Longrightarrow> hitl_step db [] db'"
| scan: "named_clock henv \<Longrightarrow> scan_rows henv now locked idb (dd_approvals db) = Inr (rows, outs) \<Longrightarrow>
    hitl_step db outs (db\<lparr>dd_approvals := rows\<rparr>)"
| other: "dd_approvals db' = dd_approvals db \<Longrightarrow> hitl_step db [] db'"

inductive hitl_run :: "'w decision_db \<Rightarrow> scan_outcome list \<Rightarrow> 'w decision_db \<Rightarrow> bool" where
  start: "hitl_run db [] db"
| step: "hitl_run db outs db1 \<Longrightarrow> hitl_step db1 outs1 db2 \<Longrightarrow> hitl_run db (outs @ outs1) db2"

abbreviation distinct_ids :: "'w decision_db \<Rightarrow> bool" where
  "distinct_ids db \<equiv> distinct (map aq_id (dd_approvals db))"

lemma moves_put_row:
  assumes "find (\<lambda>a. aq_id a = i) rows = Some old" "distinct (map aq_id rows)"
    and "approval_moves old new"
  shows "list_all2 approval_moves rows (put_row aq_id new rows)"
proof -
  have old: "old \<in> set rows" "aq_id old = i" using assms(1) by (auto simp: find_Some_iff)
  have new: "aq_id new = i" using moves_id [OF assms(3)] old(2) by simp
  have all: "approval_moves a (if aq_id a = aq_id new then new else a)" if "a \<in> set rows" for a
  proof (cases "aq_id a = i")
    case True
    then have "a = old" using assms(2) old that by (auto simp: distinct_map dest: inj_onD)
    then show ?thesis using assms(3) new True by simp
  qed (simp add: new kept)
  show ?thesis unfolding put_row_def list_all2_map2 by (rule list.rel_refl_strong) (rule all)
qed

lemma moves_rows_refl: "list_all2 approval_moves rows rows"
  by (rule list_all2_refl) (rule kept)

lemma decide_moves:
  assumes "decide_approval env db user i status reason = (db', r)" "distinct_ids db"
    and "status \<in> {''approved'', ''rejected''}"
  shows "list_all2 approval_moves (dd_approvals db) (dd_approvals db')"
  using assms(1)
proof (cases rule: decide_approvals)
  case (2 old)
  then show ?thesis
    using moves_put_row [OF 2(1) assms(2) stale [OF 2(2,3)]] by simp
next
  case (3 old e p)
  have "approval_moves old ((decided_row env user status reason e old)\<lparr>aq_payload := p\<rparr>)"
    by (rule decided [OF 3(2) 3(4) 3(3) assms(3)]) (simp_all add: decided_row_def)
  then show ?thesis using moves_put_row [OF 3(1) assms(2)] 3(5) by simp
qed (simp add: moves_rows_refl)

lemma found_for_update:
  "get_approval_for_update env user i db = Inr (Some a) \<Longrightarrow> find (\<lambda>a. aq_id a = i) (dd_approvals db) = Some a"
  by (auto simp: get_approval_for_update_def split: option.splits if_splits)

lemma delegate_request_approvals:
  assumes "delegate_approval_request env db user i to_user reason = (db', r)"
  obtains "dd_approvals db' = dd_approvals db"
  | old new where "find (\<lambda>a. aq_id a = i) (dd_approvals db) = Some old"
      "delegate_approval (de_hitl env) (de_now env) (de_identity env) old user to_user reason = Inr new"
      "dd_approvals db' = put_row aq_id new (dd_approvals db)"
proof (cases "get_approval_for_update env user i db")
  case (Inr found)
  show thesis
  proof (cases found)
    case (Some old)
    show thesis
    proof (cases "delegate_approval (de_hitl env) (de_now env) (de_identity env) old user to_user reason")
      case (Inl e)
      then have "db' = db"
        using assms \<open>_ = Inr found\<close> Some
        by (cases e) (auto simp: delegate_approval_request_def split: prod.splits)
      then show thesis using that(1) by simp
    next
      case new: (Inr new)
      have found: "find (\<lambda>a. aq_id a = i) (dd_approvals db) = Some old"
        using Inr Some by (simp add: found_for_update)
      show thesis
        using assms Inr Some new
        by (intro that(2) [OF found new])
          (auto simp: delegate_approval_request_def Let_def store_approval_def)
    qed
  next
    case None
    show thesis by (rule that(1)) (use assms Inr None in \<open>simp add: delegate_approval_request_def\<close>)
  qed
next
  case (Inl e)
  show thesis by (rule that(1)) (use assms Inl in \<open>simp add: delegate_approval_request_def\<close>)
qed

lemma delegate_moves:
  assumes "delegate_approval_request env db user i to_user reason = (db', r)" "distinct_ids db"
  shows "list_all2 approval_moves (dd_approvals db) (dd_approvals db')"
  using assms(1)
proof (cases rule: delegate_request_approvals)
  case (2 old new)
  have "aq_status old = ''pending''" by (rule delegate_Inr [OF 2(2)])
  moreover have "aq_status new = aq_status old \<and> aq_id new = aq_id old \<and>
      aq_approved_by new = aq_approved_by old"
    by (rule delegate_Inr [OF 2(2)]) (auto dest: snapshot_keeps)
  moreover have "aq_escalation_state new = aq_escalation_state old"
    by (rule delegate_Inr [OF 2(2)]) (auto dest: snapshot_keeps)
  ultimately have "approval_moves old new" by (intro waits) (simp_all add: warned_def)
  then show ?thesis using moves_put_row [OF 2(1) assms(2)] 2(3) by simp
qed (simp add: moves_rows_refl)

lemma scan_moves:
  assumes "scan_rows henv now locked idb rows = Inr (rows', outs)" "named_clock henv"
  shows "list_all2 approval_moves rows rows'"
  using assms(1)
proof (induction rows arbitrary: rows' outs)
  case (Cons a rows)
  show ?case
  proof (cases "sla_due locked a")
    case True
    then obtain s rows1 outs1 where s: "scan_approval henv now idb a = Inr s"
      "scan_rows henv now locked idb rows = Inr (rows1, outs1)" "rows' = so_approval s # rows1"
      using Cons.prems by (auto simp: res_bind_eq_Inr)
    have "approval_moves a (so_approval s)"
      by (rule waits) (use scan_approval_once [OF s(1) assms(2)] True in \<open>auto simp: sla_due_def\<close>)
    then show ?thesis using Cons.IH [OF s(2)] s(3) by simp
  next
    case False
    then show ?thesis using Cons by (auto simp: kept res_bind_eq_Inr)
  qed
qed simp

lemma step_moves:
  "hitl_step db outs db' \<Longrightarrow> distinct_ids db \<Longrightarrow>
   list_all2 approval_moves (dd_approvals db) (dd_approvals db')"
  by (induction rule: hitl_step.induct)
    (auto simp: decide_moves delegate_moves moves_rows_refl intro: scan_moves)

lemma list_all2_ids: "list_all2 approval_moves rows rows' \<Longrightarrow> map aq_id rows' = map aq_id rows"
  by (induction rule: list_all2_induct) (auto dest: moves_id)

lemma run_ids: "hitl_run db outs db' \<Longrightarrow> distinct_ids db \<Longrightarrow> distinct_ids db'"
proof (induction rule: hitl_run.induct)
  case (step db outs db1 outs1 db2)
  then show ?case using list_all2_ids [OF step_moves [OF step.hyps(2)]] by simp
qed simp

lemma list_all2_from: "list_all2 P xs ys \<Longrightarrow> y \<in> set ys \<Longrightarrow> \<exists>x \<in> set xs. P x y"
  by (induction rule: list_all2_induct) auto

lemma list_all2_to: "list_all2 P xs ys \<Longrightarrow> x \<in> set xs \<Longrightarrow> \<exists>y \<in> set ys. P x y"
  by (induction rule: list_all2_induct) auto

text \<open>
  C5. A decided, stale or consumed approval is never touched again by the approvals service: whatever
  requests and scans follow, in any order and with any users, clock and workspace membership, the row
  stays as it is.
\<close>

theorem decided_rows_untouched:
  assumes "hitl_run db outs db'" "distinct_ids db"
    and "a \<in> set (dd_approvals db)" "aq_status a \<noteq> ''pending''"
  shows "a \<in> set (dd_approvals db')"
  using assms
proof (induction rule: hitl_run.induct)
  case (step db outs db1 outs1 db2)
  then have "a \<in> set (dd_approvals db1)" by simp
  with step_moves [OF step.hyps(2) run_ids [OF step.hyps(1) step.prems(1)]]
  obtain b where "b \<in> set (dd_approvals db2)" "approval_moves a b" by (blast dest: list_all2_to)
  then show ?case using moves_final step.prems(3) by auto
qed simp

text \<open>An approval given during a run of the service.\<close>

definition approved_in_time :: "'w decision_db \<Rightarrow> approval_request \<Rightarrow> bool" where
  "approved_in_time db b \<longleftrightarrow> (\<exists>outs db1 a henv now idb user e. hitl_run db outs db1 \<and>
     a \<in> set (dd_approvals db1) \<and> aq_id b = aq_id a \<and> aq_status a = ''pending'' \<and>
     is_approval_expired (he_rt henv) now a = Inr False \<and>
     recheck_user_eligible henv now idb a user = Inr e \<and> aq_approved_by b = Some user \<and>
     aq_decided_reason b = Some (format_eligibility_reason e))"

lemma approved_run:
  assumes "hitl_run db outs db'" "distinct_ids db"
    and "b \<in> set (dd_approvals db')" "aq_status b = ''approved''"
  shows "b \<in> set (dd_approvals db) \<or> approved_in_time db b"
  using assms
proof (induction arbitrary: b rule: hitl_run.induct)
  case (step db outs db1 outs1 db2)
  obtain a where a: "a \<in> set (dd_approvals db1)" "approval_moves a b"
    using step_moves [OF step.hyps(2) run_ids [OF step.hyps(1) step.prems(1)]] step.prems(2)
    by (blast dest: list_all2_from)
  from a(2) step.prems(3) show ?case
  proof (cases rule: approval_moves.cases)
    case kept
    then show ?thesis using step.IH [OF step.prems(1) a(1)] step.prems(3) by simp
  next
    case (decided henv now idb user e status)
    then show ?thesis unfolding approved_in_time_def using step.hyps(1) a(1) by blast
  qed simp_all
qed simp

text \<open>
  C6. Every approved row a run of the service ends with was there at its start, or was pending at
  some state in between where a user whom the routing rechecked as eligible at that moment approved
  it, unexpired; the row names that user and the reasons of the eligibility.
\<close>

theorem approved_needs_eligible:
  assumes "hitl_run db outs db'" "distinct_ids db"
    and "b \<in> set (dd_approvals db')" "aq_status b = ''approved''"
  shows "b \<in> set (dd_approvals db) \<or> approved_in_time db b"
  using assms by (rule approved_run)

section \<open>Each notice at most once\<close>

definition warnings :: "string \<Rightarrow> scan_outcome list \<Rightarrow> nat" where
  "warnings i outs = length (filter (\<lambda>s. so_warned s \<and> aq_id (so_approval s) = i) outs)"

definition escalations :: "string \<Rightarrow> scan_outcome list \<Rightarrow> nat" where
  "escalations i outs = length (filter (\<lambda>s. so_escalated s \<and> aq_id (so_approval s) = i) outs)"

text \<open>What is still to be given of the rows with an id: one notice each, unless it was given.\<close>

definition due_warnings :: "string \<Rightarrow> approval_request list \<Rightarrow> nat" where
  "due_warnings i rows = length (filter (\<lambda>a. aq_id a = i \<and> \<not> warned a) rows)"

definition due_escalations :: "string \<Rightarrow> approval_request list \<Rightarrow> nat" where
  "due_escalations i rows =
     length (filter (\<lambda>a. aq_id a = i \<and> \<not> is_escalated (aq_escalation_state a)) rows)"

lemmas notice_defs = warnings_def escalations_def due_warnings_def due_escalations_def

lemma scan_notices:
  assumes "scan_rows henv now locked idb rows = Inr (rows', outs)" "named_clock henv"
  shows "warnings i outs + due_warnings i rows' = due_warnings i rows \<and>
    escalations i outs + due_escalations i rows' = due_escalations i rows"
  using assms(1)
proof (induction rows arbitrary: rows' outs)
  case (Cons a rows)
  show ?case
  proof (cases "sla_due locked a")
    case True
    then obtain s rows1 outs1 where s: "scan_approval henv now idb a = Inr s"
      "scan_rows henv now locked idb rows = Inr (rows1, outs1)"
      "rows' = so_approval s # rows1" "outs = s # outs1"
      using Cons.prems by auto
    show ?thesis
      using Cons.IH [OF s(2)] scan_approval_once [OF s(1) assms(2)] s(3,4)
      by (cases "so_warned s"; cases "so_escalated s") (simp_all add: notice_defs)
  next
    case False
    then obtain rows1 where "scan_rows henv now locked idb rows = Inr (rows1, outs)" "rows' = a # rows1"
      using Cons.prems by auto
    then show ?thesis using Cons.IH by (simp add: notice_defs)
  qed
qed (simp add: notice_defs)

lemma moves_notices:
  "list_all2 approval_moves rows rows' \<Longrightarrow>
   due_warnings i rows' \<le> due_warnings i rows \<and> due_escalations i rows' \<le> due_escalations i rows"
proof (induction rule: list_all2_induct)
  case (Cons a rows b rows')
  have "aq_id b = aq_id a" using Cons.hyps(1) by (rule moves_id)
  moreover have "warned a \<longrightarrow> warned b"
    "is_escalated (aq_escalation_state a) \<longrightarrow> is_escalated (aq_escalation_state b)"
    using Cons.hyps(1) by (auto elim!: moves_cases simp: warned_def)
  ultimately show ?case using Cons.IH by (auto simp: notice_defs)
qed simp

lemma step_notices:
  assumes "hitl_step db outs db'" "distinct_ids db"
  shows "warnings i outs + due_warnings i (dd_approvals db') \<le> due_warnings i (dd_approvals db) \<and>
    escalations i outs + due_escalations i (dd_approvals db') \<le> due_escalations i (dd_approvals db)"
  using assms(1)
proof (cases rule: hitl_step.cases)
  case (scan henv now locked idb rows)
  then show ?thesis using scan_notices [OF scan(3,2)] by simp
qed (use moves_notices [OF step_moves [OF assms]] in \<open>simp_all add: warnings_def escalations_def\<close>)

lemma run_notices:
  assumes "hitl_run db outs db'" "distinct_ids db"
  shows "warnings i outs + due_warnings i (dd_approvals db') \<le> due_warnings i (dd_approvals db) \<and>
    escalations i outs + due_escalations i (dd_approvals db') \<le> due_escalations i (dd_approvals db)"
  using assms
proof (induction rule: hitl_run.induct)
  case (step db outs db1 outs1 db2)
  then show ?case
    using step_notices [OF step.hyps(2) run_ids [OF step.hyps(1) step.prems], of i]
    by (auto simp: warnings_def escalations_def)
qed (simp add: warnings_def escalations_def)

lemma due_once:
  "distinct (map aq_id rows) \<Longrightarrow> due_warnings i rows \<le> 1 \<and> due_escalations i rows \<le> 1"
proof -
  assume d: "distinct (map aq_id rows)"
  have "length (filter (\<lambda>a. aq_id a = i \<and> P a) rows) \<le> 1" for P
    using d
  proof (induction rows)
    case (Cons a rows)
    then show ?case by (cases "aq_id a = i") (auto simp: filter_empty_conv image_iff)
  qed simp
  then show ?thesis by (simp add: due_warnings_def due_escalations_def)
qed

text \<open>
  C17. However often the SLA scan runs, and whatever is decided and delegated in between, an approval
  is warned about at most once and escalated at most once.
\<close>

theorem notices_at_most_once:
  assumes "hitl_run db outs db'" "distinct_ids db"
  shows "warnings i outs \<le> 1 \<and> escalations i outs \<le> 1"
  using run_notices [OF assms, of i] due_once [OF assms(2), of i] by linarith

section \<open>What a decision does to the run\<close>

definition GENERIC_EXCEPTIONS :: "string list" where
  "GENERIC_EXCEPTIONS = GITHUB_COMMENT_APPROVALS @
     [''github_create_pr'', ''github_pr_review_comment'', ''github_issue_sync'', ''agent_memory_write'',
      ''semantic_memory_write'', ''task_assignment_change'', ''task_mark_complete'', ''shared_memory_write'']"

lemmas generic_defs = GENERIC_EXCEPTIONS_def GITHUB_COMMENT_APPROVALS_def

lemma generic_branch:
  assumes "aq_approval_type a \<notin> set GENERIC_EXCEPTIONS"
  shows "decide_branch env user ''approved'' reason a db = Inr db"
    "truthy (opt_str (aq_task_id a)) \<Longrightarrow>
     decide_branch env user ''rejected'' reason a db = reject_generic env reason a db"
  using assms by (simp_all add: decide_branch_def generic_defs Let_def)

lemma planned_from_blocked: "is_valid_task_transition ''blocked'' ''planned''"
  by (simp add: is_valid_task_transition_def TASK_TRANSITIONS_def)

lemma find_put_row:
  "find (\<lambda>x. key x = k) rows = Some r \<Longrightarrow> key r' = k \<Longrightarrow>
   find (\<lambda>x. key x = k) (put_row key r' rows) = Some r'"
  by (induction rows) (auto simp: put_row_def)

lemma resume_queues:
  assumes "aq_run_id a = Some i" "i \<noteq> []" "find (\<lambda>r. rn_id r = i) (dd_runs db) = Some run"
    and "rn_status run = ''blocked''"
  obtains db' where "resume_blocked_run env a db = Inr (db', Some i)"
    "find (\<lambda>r. rn_id r = i) (dd_runs db') =
       Some (run\<lparr>rn_status := ''queued'', rn_error := None, rn_completed_at := None\<rparr>)"
    "dd_approvals db' = dd_approvals db"
    "\<And>t. find_row tk_id (rn_task run) (dd_tasks db) = Some t \<Longrightarrow> tk_status t = ''blocked'' \<Longrightarrow>
       find_row tk_id (rn_task run) (dd_tasks db') = Some (t\<lparr>tk_status := ''planned''\<rparr>)"
proof -
  have id: "rn_id run = i" using assms(3) by (auto simp: find_Some_iff)
  let ?run = "run\<lparr>rn_status := ''queued'', rn_error := None, rn_completed_at := None\<rparr>"
  let ?db = "db\<lparr>dd_runs := put_row rn_id ?run (dd_runs db)\<rparr>"
  have run: "find_row rn_id (aq_run_id a) (dd_runs db) = Some run"
    using assms by (simp add: find_row_def)
  have queued: "find (\<lambda>r. rn_id r = i) (put_row rn_id ?run (dd_runs db)) = Some ?run"
    by (rule find_put_row [OF assms(3)]) (simp add: id)
  show thesis
  proof (cases "\<exists>t. find_row tk_id (rn_task run) (dd_tasks db) = Some t \<and> tk_status t = ''blocked''")
    case True
    then obtain t where t: "find_row tk_id (rn_task run) (dd_tasks db) = Some t"
      "tk_status t = ''blocked''" by blast
    then obtain k where k: "rn_task run = Some k" "k \<noteq> []" "find (\<lambda>x. tk_id x = k) (dd_tasks db) = Some t"
      by (auto simp: find_row_def split: option.splits if_splits)
    then have "tk_id t = k" by (auto simp: find_Some_iff)
    then have "find_row tk_id (rn_task run) (put_row tk_id (t\<lparr>tk_status := ''planned''\<rparr>) (dd_tasks db)) =
        Some (t\<lparr>tk_status := ''planned''\<rparr>)"
      using k find_put_row [OF k(3), of "t\<lparr>tk_status := ''planned''\<rparr>"] by (simp add: find_row_def)
    then show thesis
      using run queued t assms(4) id planned_from_blocked
      by (intro that [of "log_event i ''unblocked'' (log_event i ''task_status_changed''
          (?db\<lparr>dd_tasks := put_row tk_id (t\<lparr>tk_status := ''planned''\<rparr>) (dd_tasks db)\<rparr>))"])
        (simp_all add: resume_blocked_run_def Let_def transition_task_status_def log_event_def)
  next
    case False
    then have "resume_blocked_run env a db = Inr (log_event i ''unblocked'' ?db, Some i)"
      using run assms(4) id
      by (auto simp: resume_blocked_run_def Let_def split: option.split)
    then show thesis using queued False
      by (intro that [of "log_event i ''unblocked'' ?db"]) (auto simp: log_event_def)
  qed
qed

text \<open>An undecided, unexpired approval in the hands of an eligible user.\<close>

definition decidable :: "'w decision_env \<Rightarrow> 'w decision_db \<Rightarrow> string \<Rightarrow> string \<Rightarrow> approval_request \<Rightarrow> bool" where
  "decidable env db user i a \<longleftrightarrow>
     find (\<lambda>a. aq_id a = i) (dd_approvals db) = Some a \<and> aq_status a = ''pending'' \<and>
     is_approval_expired (he_rt (de_hitl env)) (de_now env) a = Inr False \<and>
     (\<exists>e. recheck_user_eligible (de_hitl env) (de_now env) (de_identity env) a user = Inr e)"

lemma decidable_decide:
  assumes "decidable env db user i a"
    and "status \<noteq> ''rejected'' \<or> py_strip (str_or (opt_str reason) []) \<noteq> []"
  obtains e where
    "recheck_user_eligible (de_hitl env) (de_now env) (de_identity env) a user = Inr e"
    "decide_approval env db user i status reason =
      (let row = decided_row env user status reason e a in
       case settle_decision env user status reason row (store_approval row db) of
         Inl (None, e) \<Rightarrow> (db, Inl e)
       | Inl (Some persisted, e) \<Rightarrow> (persisted, Inl e)
       | Inr db' \<Rightarrow> (db', case find (\<lambda>a. aq_id a = i) (dd_approvals db') of
           Some a \<Rightarrow> Inr a | None \<Rightarrow> Inl (PyError ''InvalidRequestError'')))"
proof -
  obtain e where d: "find (\<lambda>a. aq_id a = i) (dd_approvals db) = Some a" "aq_status a = ''pending''"
    "is_approval_expired (he_rt (de_hitl env)) (de_now env) a = Inr False"
    "recheck_user_eligible (de_hitl env) (de_now env) (de_identity env) a user = Inr e"
    using assms(1) by (auto simp: decidable_def)
  have "user_can_access_approval (de_hitl env) (de_now env) (de_identity env) user a = Inr True"
    using d(4) by (simp add: user_can_access_approval_def Let_def)
  then have "get_approval_for_update env user i db = Inr (Some a)"
    using d(1) by (simp add: get_approval_for_update_def)
  moreover have "check_decision env user status reason a = Inr e"
    using d(4) assms(2) by (auto simp: check_decision_def)
  ultimately show thesis
    using that [OF d(4)] d(2,3) by (simp add: decide_approval_def)
qed

lemma stored_row:
  "find (\<lambda>a. aq_id a = i) (dd_approvals db) = Some a \<Longrightarrow>
   find (\<lambda>a. aq_id a = i) (dd_approvals (store_approval (decided_row env user st r e a) db)) =
     Some (decided_row env user st r e a)"
proof -
  assume find: "find (\<lambda>a. aq_id a = i) (dd_approvals db) = Some a"
  then have "aq_id a = i" by (auto simp: find_Some_iff)
  then show ?thesis using find_put_row [OF find] by (simp add: store_approval_def decided_row_def)
qed


text \<open>
  Rejecting an approval whose task was meanwhile archived or cancelled while its run is still
  live fails half way: the client gets the error 409, but the rejection and the failed run are
  stored, and neither the audit log nor the workflow that waits for the decision hears of it.
\<close>

theorem rejection_of_archived_task:
  assumes "decidable env db user i a" "aq_approval_type a \<notin> set GENERIC_EXCEPTIONS"
    and "find_row tk_id (aq_task_id a) (dd_tasks db) = Some t"
    and "tk_status t \<in> {''archived'', ''cancelled''}"
    and "live_run a db = Some run" "py_strip reason \<noteq> []"
  shows "\<exists>db' m. decide_approval env db user i ''rejected'' (Some reason) = (db', Inl (HttpError 409 m)) \<and>
    (\<exists>b. find (\<lambda>a. aq_id a = i) (dd_approvals db') = Some b \<and> aq_status b = ''rejected'') \<and>
    (\<exists>r. find (\<lambda>r. rn_id r = rn_id run) (dd_runs db') = Some r \<and> rn_status r = ''failed'') \<and>
    dd_audit db' = dd_audit db \<and> dd_decided db' = dd_decided db"
proof -
  have reason: "py_strip (str_or (opt_str (Some reason)) []) \<noteq> []"
    using assms(6) by (cases "reason = []") (auto simp: str_or_def opt_str_def)
  obtain e where d: "decide_approval env db user i ''rejected'' (Some reason) =
      (let row = decided_row env user ''rejected'' (Some reason) e a in
       case settle_decision env user ''rejected'' (Some reason) row (store_approval row db) of
         Inl (None, e) \<Rightarrow> (db, Inl e)
       | Inl (Some persisted, e) \<Rightarrow> (persisted, Inl e)
       | Inr db' \<Rightarrow> (db', case find (\<lambda>a. aq_id a = i) (dd_approvals db') of
           Some a \<Rightarrow> Inr a | None \<Rightarrow> Inl (PyError ''InvalidRequestError'')))"
    by (rule decidable_decide [OF assms(1), of "''rejected''" "Some reason"]) (use reason in auto)
  let ?row = "decided_row env user ''rejected'' (Some reason) e a"
  let ?db = "store_approval ?row db"
  let ?failed = "fail_rejected_run (Some reason) run ?db"
  have row: "aq_approval_type ?row = aq_approval_type a" "aq_task_id ?row = aq_task_id a"
    "aq_status ?row = ''rejected''"
    by (simp_all add: decided_row_def)
  have live: "live_run ?row ?db = Some run"
    using assms(5) by (simp add: live_run_def store_approval_def decided_row_def)
  have task: "find_row tk_id (aq_task_id a) (dd_tasks ?db) = Some t"
    "find_row tk_id (aq_task_id a) (dd_tasks ?failed) = Some t"
    using assms(3) by (simp_all add: store_approval_def fail_rejected_run_def log_event_def)
  have named: "truthy (opt_str (aq_task_id ?row))"
    using assms(3) by (auto simp: find_row_def row opt_str_def split: option.splits if_splits)
  have stuck: "\<not> is_valid_task_transition (tk_status t) ''planned''" "tk_status t \<noteq> ''planned''"
    "tk_status t \<notin> {''approved'', ''completed''}"
    using assms(4) by (auto simp: is_valid_task_transition_def TASK_TRANSITIONS_def)
  have "reject_generic env (Some reason) ?row ?db =
      Inl (Some ?failed, HttpError 409 (''Invalid task transition from '' @ tk_status t @ '' to '' @ ''planned''))"
    using live task stuck row
    by (simp add: reject_generic_def reopen_task_def transition_task_status_def Let_def)
  moreover have "decide_branch env user ''rejected'' (Some reason) ?row ?db =
      reject_generic env (Some reason) ?row ?db"
    by (rule generic_branch(2) [OF _ named]) (simp add: row(1) assms(2))
  ultimately have branch: "decide_branch env user ''rejected'' (Some reason) ?row ?db =
      Inl (Some ?failed, HttpError 409 (''Invalid task transition from '' @ tk_status t @ '' to '' @ ''planned''))"
    by simp
  have settle: "settle_decision env user ''rejected'' (Some reason) ?row ?db =
      Inl (Some ?failed, HttpError 409 (''Invalid task transition from '' @ tk_status t @ '' to '' @ ''planned''))"
    unfolding settle_decision_def branch by (simp only: res_bind_simps)
  have stored: "find (\<lambda>a. aq_id a = i) (dd_approvals ?failed) = Some ?row"
    using assms(1) by (auto simp: decidable_def intro!: stored_row)
  obtain k where k: "find (\<lambda>r. rn_id r = k) (dd_runs db) = Some run" "rn_id run = k"
    using assms(5) by (auto simp: live_run_def find_row_def find_Some_iff split: option.splits if_splits)
  have failed: "find (\<lambda>r. rn_id r = rn_id run) (dd_runs ?failed) = Some (run\<lparr>rn_status := ''failed'',
      rn_error := Some (''Approval rejected: '' @ str_or (opt_str (Some reason)) ''No reason provided'')\<rparr>)"
    using find_put_row [OF k(1)] k(2) by (simp add: fail_rejected_run_def log_event_def store_approval_def)
  show ?thesis
    using d settle stored failed row(3)
    by (simp add: Let_def fail_rejected_run_def log_event_def store_approval_def)
qed

section \<open>The approver at the commit\<close>

lemma recheck_approver_commit:
  "recheck_approver (\<lambda>a. res_bind (recheck_decided_approver_at_commit henv now idb a) (\<lambda>_. Inr ())) a = Inr () \<Longrightarrow>
   \<exists>u e. aq_approved_by a = Some u \<and> u \<noteq> [] \<and> recheck_user_eligible henv now idb a u = Inr e"
  by (auto simp: recheck_approver_def recheck_decided_approver_at_commit_def
      split: option.splits if_splits sum.splits hitl_error.splits)

text \<open>
  C18. A commit that asks for its approver proceeds only while the user who approved is still an
  eligible approver of the approval, by the workspace as it is at the commit.
\<close>

theorem commit_needs_current_approver:
  assumes "authorize_and_claim_execution rt now
      (\<lambda>a. res_bind (recheck_decided_approver_at_commit henv now idb a) (\<lambda>_. Inr ()))
      race new_id db cr = (db', Inr c)"
    and "cr_require_approver cr"
  shows "\<exists>u e. aq_approved_by (cc_approval c) = Some u \<and>
    get_approval db (cr_approval_id cr) = Some (cc_approval c) \<and> aq_status (cc_approval c) = ''approved'' \<and>
    recheck_user_eligible henv now idb (cc_approval c) u = Inr e"
  using assms(1)
proof (rule claim_Inr)
  fix approval
  assume "get_approval db (cr_approval_id cr) = Some approval" "aq_status approval = ''approved''"
    "cc_approval c = approval"
    "cr_require_approver cr \<Longrightarrow> recheck_approver (\<lambda>a. res_bind
       (recheck_decided_approver_at_commit henv now idb a) (\<lambda>_. Inr ())) approval = Inr ()"
  then show ?thesis using recheck_approver_commit [of henv now idb approval] assms(2) by auto
qed

end
