(* ===== verification/Approval_Examples.thy ===== *)
theory Approval_Examples
  imports Approval_Decision_Properties
begin

text \<open>
  The approvals of one small workspace: \<open>u1\<close> owns it and its project, \<open>u2\<close> is an approver, \<open>u3\<close> a
  viewer, and the admin \<open>u4\<close> is suspended.
\<close>

section \<open>A workspace, an approval and the run that waits for it\<close>

definition demo_henv :: hitl_env where
  "demo_henv = \<lparr>he_rt = demo_rt, he_float = (\<lambda>_. None), he_iso_minutes = (\<lambda>_. ''t'')\<rparr>"

definition demo_identity :: identity_db where
  "demo_identity =
     \<lparr>id_workspaces = [\<lparr>ws_id = ''w1'', ws_owner = ''u1'', ws_default = True\<rparr>],
      id_memberships =
        [\<lparr>wm_workspace = ''w1'', wm_user = ''u1'', wm_role = ''owner'', wm_status = ''active''\<rparr>,
         \<lparr>wm_workspace = ''w1'', wm_user = ''u2'', wm_role = ''approver'', wm_status = ''active''\<rparr>,
         \<lparr>wm_workspace = ''w1'', wm_user = ''u3'', wm_role = ''viewer'', wm_status = ''active''\<rparr>,
         \<lparr>wm_workspace = ''w1'', wm_user = ''u4'', wm_role = ''admin'', wm_status = ''suspended''\<rparr>,
         \<lparr>wm_workspace = ''w1'', wm_user = ''u5'', wm_role = ''admin'', wm_status = ''active''\<rparr>],
      id_projects = [\<lparr>pj_id = ''p1'', pj_owner = ''u1'', pj_company = None, pj_department = None, pj_settings = []\<rparr>]\<rparr>"

definition demo_pending :: approval_request where
  "demo_pending = (demo_row ''pending'')\<lparr>aq_project_id := Some ''p1'', aq_workspace_id := Some ''w1'',
     aq_run_id := Some ''r1'', aq_task_id := Some ''t1'', aq_approved_by := None\<rparr>"

definition demo_task :: "string \<Rightarrow> task_row" where
  "demo_task status = \<lparr>tk_id = ''t1'', tk_project = ''p1'', tk_status = status, tk_assigned = PNone,
     tk_metadata = []\<rparr>"

definition demo_run :: run_row where
  "demo_run = \<lparr>rn_id = ''r1'', rn_project = ''p1'', rn_task = Some ''t1'', rn_status = ''blocked'',
     rn_error = None, rn_completed_at = None, rn_created_at = 0\<rparr>"

definition demo_decisions :: "string \<Rightarrow> unit decision_db" where
  "demo_decisions status = \<lparr>dd_approvals = [demo_pending], dd_tasks = [demo_task status],
     dd_runs = [demo_run], dd_memories = [], dd_audit = [], dd_events = [], dd_submitted = [],
     dd_decided = [], dd_world = ()\<rparr>"

definition demo_denv :: "unit decision_env" where
  "demo_denv = \<lparr>de_hitl = demo_henv, de_now = 5, de_identity = demo_identity,
     de_effect = (\<lambda>_ a db. \<lparr>eo_db = db, eo_payload = aq_payload a, eo_error = None, eo_committed = False\<rparr>),
     de_handoff = tk_metadata\<rparr>"

definition demo_decided :: "unit decision_db" where
  "demo_decided = fst (decide_approval demo_denv (demo_decisions ''blocked'') ''u2'' ''a1'' ''approved'' None)"

lemma demo_clock: "named_clock demo_henv"
  by (simp add: named_clock_def demo_henv_def demo_rt_def)

lemma demo_distinct: "distinct_ids (demo_decisions s)"
  by (simp add: demo_decisions_def)

lemma demo_can_decide: "decidable demo_denv (demo_decisions s) ''u2'' ''a1'' demo_pending"
proof -
  have "recheck_user_eligible demo_henv 5 demo_identity demo_pending ''u2'' =
      Inr \<lparr>ea_user = ''u2'', ea_role = ''approver'', ea_reasons = [''workspace_role:approver'']\<rparr>"
    by code_simp
  moreover have "is_approval_expired (he_rt demo_henv) 5 demo_pending = Inr False" by code_simp
  moreover have "aq_status demo_pending = ''pending''" "aq_id demo_pending = ''a1''" by code_simp+
  ultimately show ?thesis by (simp add: decidable_def demo_denv_def demo_decisions_def)
qed

lemma demo_decided_rows: "map aq_status (dd_approvals demo_decided) = [''approved'']"
  by code_simp

lemma demo_decide_run: "hitl_run (demo_decisions ''blocked'') ([] @ []) demo_decided"
  by (rule hitl_run.step [OF start decide [of "''approved''"]]) (simp_all add: demo_decided_def prod_eq_iff)

section \<open>Witnesses\<close>

lemma eligible_may_decide_witness:
  "\<exists>eligible ws snapshot a. resolve_eligible_approvers demo_henv 5 demo_identity demo_pending =
      Inr (eligible, ws, snapshot) \<and> ea_user a = ''u2'' \<and> a \<in> set eligible \<and>
    (project_owner_of demo_identity demo_pending (ea_user a) \<or>
     (\<exists>w. ws = Some w \<and> deciding_member demo_identity w (ea_user a)))"
proof -
  have "(case resolve_eligible_approvers demo_henv 5 demo_identity demo_pending of
      Inr (eligible, _) \<Rightarrow> ''u2'' \<in> set (map ea_user eligible) | Inl _ \<Rightarrow> False)"
    by code_simp
  then obtain eligible ws snapshot a where
    r: "resolve_eligible_approvers demo_henv 5 demo_identity demo_pending = Inr (eligible, ws, snapshot)"
    "ea_user a = ''u2''" "a \<in> set eligible"
    by (auto split: sum.splits)
  have "extract_explicit_roles (aq_payload demo_pending) = None"
    "\<not> is_escalated (aq_escalation_state demo_pending)" by code_simp+
  from eligible_may_decide [OF r(1) this r(3)] r show ?thesis by blast
qed


lemma decided_rows_untouched_witness:
  "\<exists>a. aq_status a = ''approved'' \<and> a \<in> set (dd_approvals demo_decided) \<and>
     a \<in> set (dd_approvals (fst (decide_approval demo_denv demo_decided ''u1'' ''a1'' ''rejected'' (Some ''no''))))"
proof -
  let ?again = "fst (decide_approval demo_denv demo_decided ''u1'' ''a1'' ''rejected'' (Some ''no''))"
  obtain a where a: "dd_approvals demo_decided = [a]" "aq_status a = ''approved''"
    using demo_decided_rows by auto
  have "hitl_run demo_decided ([] @ []) ?again"
    by (rule hitl_run.step [OF start decide [of "''rejected''"]]) (simp_all add: prod_eq_iff)
  from decided_rows_untouched [OF this, of a] a show ?thesis by auto
qed

lemma approved_needs_eligible_witness:
  "\<exists>b. b \<in> set (dd_approvals demo_decided) \<and> aq_status b = ''approved'' \<and>
     (b \<in> set (dd_approvals (demo_decisions ''blocked'')) \<or> approved_in_time (demo_decisions ''blocked'') b)"
proof -
  obtain b where b: "dd_approvals demo_decided = [b]" "aq_status b = ''approved''"
    using demo_decided_rows by auto
  from approved_needs_eligible [OF demo_decide_run demo_distinct, of b] b show ?thesis by auto
qed

text \<open>Past the deadline of the default policy (24 hours), the first scan escalates, the next is silent.\<close>

definition demo_late :: int where "demo_late = 90000000000"

definition demo_due :: "unit decision_db" where
  "demo_due = (demo_decisions ''blocked'')\<lparr>dd_approvals := [demo_pending\<lparr>
     aq_sla_policy := DEFAULT_APPROVAL_SLA, aq_due_at := Some (Aware 86400000000)\<rparr>]\<rparr>"

lemma notices_at_most_once_witness:
  "\<exists>rows rows' outs outs'.
     scan_rows demo_henv demo_late (\<lambda>_. False) demo_identity (dd_approvals demo_due) = Inr (rows, outs) \<and>
     scan_rows demo_henv demo_late (\<lambda>_. False) demo_identity rows = Inr (rows', outs') \<and>
     escalations ''a1'' outs = 1 \<and> warnings ''a1'' (outs @ outs') \<le> 1 \<and> escalations ''a1'' (outs @ outs') \<le> 1"
proof -
  let ?scan = "scan_rows demo_henv demo_late (\<lambda>_. False) demo_identity"
  have "(case ?scan (dd_approvals demo_due) of Inl _ \<Rightarrow> False
      | Inr (rows, outs) \<Rightarrow> escalations ''a1'' outs = 1 \<and> (case ?scan rows of Inl _ \<Rightarrow> False | Inr _ \<Rightarrow> True))"
    by code_simp
  then obtain rows outs rows' outs' where s: "?scan (dd_approvals demo_due) = Inr (rows, outs)"
    "?scan rows = Inr (rows', outs')" "escalations ''a1'' outs = 1"
    by (auto split: sum.splits)
  have one: "hitl_run demo_due ([] @ outs) (demo_due\<lparr>dd_approvals := rows\<rparr>)"
    by (rule hitl_run.step [OF start scan [OF demo_clock s(1)]])
  have "hitl_step (demo_due\<lparr>dd_approvals := rows\<rparr>) outs'
      ((demo_due\<lparr>dd_approvals := rows\<rparr>)\<lparr>dd_approvals := rows'\<rparr>)"
    by (rule scan [OF demo_clock, where now = demo_late and locked = "\<lambda>_. False" and
          idb = demo_identity]) (simp add: s(2))
  then have "hitl_run demo_due (([] @ outs) @ outs') ((demo_due\<lparr>dd_approvals := rows\<rparr>)\<lparr>dd_approvals := rows'\<rparr>)"
    by (rule hitl_run.step [OF one])
  moreover have "distinct_ids demo_due" by (simp add: demo_due_def)
  ultimately show ?thesis using notices_at_most_once [of demo_due "outs @ outs'"] s by auto
qed


lemma rejection_of_archived_task_witness:
  "\<exists>db' m. decide_approval demo_denv (demo_decisions ''archived'') ''u2'' ''a1'' ''rejected'' (Some ''no'') =
       (db', Inl (HttpError 409 m)) \<and> dd_decided db' = []"
proof -
  have generic: "aq_approval_type demo_pending \<notin> set GENERIC_EXCEPTIONS"
    "py_strip ''no'' \<noteq> []" by code_simp+
  have "find_row tk_id (aq_task_id demo_pending) (dd_tasks (demo_decisions ''archived'')) =
      Some (demo_task ''archived'')"
    "live_run demo_pending (demo_decisions ''archived'') = Some demo_run"
    by (simp_all add: find_row_def live_run_def demo_decisions_def demo_pending_def demo_task_def
        demo_run_def TERMINAL_RUNS_def)
  moreover have "tk_status (demo_task ''archived'') \<in> {''archived'', ''cancelled''}"
    "dd_decided (demo_decisions ''archived'') = []"
    by (simp_all add: demo_task_def demo_decisions_def)
  ultimately show ?thesis
    using rejection_of_archived_task [OF demo_can_decide [of "''archived''"] generic(1)] generic(2)
    by metis
qed

text \<open>A claim on an approval that \<open>u2\<close>, still an approver, gave.\<close>

definition demo_commit :: claim_request where
  "demo_commit = \<lparr>cr_owner_id = ''u1'', cr_action_key = ''slack.post_message'',
     cr_raw_arguments = demo_args, cr_approval_id = ''a1'', cr_key = ''k'', cr_arguments_hash = ''h'',
     cr_installation = None, cr_workflow_run_id = None, cr_require_consumed = False,
     cr_fingerprint = None, cr_require_approver = True\<rparr>"

definition demo_commit_db :: commit_db where
  "demo_commit_db = \<lparr>cd_approvals = [demo_bound ''approved''], cd_executions = [], cd_audit = []\<rparr>"

lemma demo_claimed:
  "\<exists>db' c. authorize_and_claim_execution demo_rt 5
      (\<lambda>a. res_bind (recheck_decided_approver_at_commit demo_henv 5 demo_identity a) (\<lambda>_. Inr ()))
      False ''x1'' demo_commit_db demo_commit = (db', Inr c)"
proof -
  have "(case authorize_and_claim_execution demo_rt 5
      (\<lambda>a. res_bind (recheck_decided_approver_at_commit demo_henv 5 demo_identity a) (\<lambda>_. Inr ()))
      False ''x1'' demo_commit_db demo_commit of (_, Inr _) \<Rightarrow> True | _ \<Rightarrow> False)"
    by code_simp
  then show ?thesis by (auto split: prod.splits sum.splits)
qed

lemma commit_needs_current_approver_witness:
  "\<exists>a e. get_approval demo_commit_db ''a1'' = Some a \<and> aq_status a = ''approved'' \<and>
     recheck_user_eligible demo_henv 5 demo_identity a ''u2'' = Inr e"
proof -
  obtain db' c where claimed: "authorize_and_claim_execution demo_rt 5
      (\<lambda>a. res_bind (recheck_decided_approver_at_commit demo_henv 5 demo_identity a) (\<lambda>_. Inr ()))
      False ''x1'' demo_commit_db demo_commit = (db', Inr c)"
    using demo_claimed by blast
  have "cr_require_approver demo_commit" "cr_approval_id demo_commit = ''a1''"
    by (simp_all add: demo_commit_def)
  moreover have "map_option aq_approved_by (get_approval demo_commit_db ''a1'') = Some (Some ''u2'')"
    by code_simp
  ultimately show ?thesis
    using commit_needs_current_approver [OF claimed] by fastforce
qed

end
