(* ===== verification/Agent_Tool_Examples.thy ===== *)
theory Agent_Tool_Examples
  imports Agent_Tool_Starvation Approval_Examples
begin

text \<open>
  Agents at work in the project of the approval examples: a writer with the right to write code, and
  the stored tools and approvals it finds.
\<close>

section \<open>An agent, its run and what is stored\<close>

definition demo_agent :: agent_profile where
  "demo_agent = \<lparr>ap_id = ''a1'', ap_allowed_tools = [], ap_model_policy =
     [(''permissions'', PStr ''code-write'')]\<rparr>"

definition demo_project :: project_row where
  "demo_project = \<lparr>pj_id = ''p1'', pj_owner = ''u1'', pj_company = None, pj_department = None,
     pj_settings = []\<rparr>"

definition demo_agent_run :: agent_run where
  "demo_agent_run = \<lparr>ar_id = ''r1'', ar_project = ''p1'', ar_orchestrator = None, ar_worker = Some ''a1'',
     ar_triggered_by = Some ''u1'', ar_checkpoint = [], ar_input = []\<rparr>"

definition demo_aenv :: "string \<Rightarrow> bool \<Rightarrow> agent_env" where
  "demo_aenv tool asks = \<lparr>ae_hitl = demo_henv, ae_now = 5, ae_identity = demo_identity,
     ae_workforce = (demo_db tool [])\<lparr>db_tools := [demo_tool tool asks],
       db_grants := [demo_grant ''Allow'']\<rparr>,
     ae_failure = None, ae_auth_error = None, ae_fail_open = False,
     ae_ext = (\<lambda>_ _ _ _. []), ae_native = (\<lambda>_ _ _. Inr (PDict [(''done'', PBool True)])),
     ae_agents = [demo_agent], ae_fresh = (\<lambda>n. replicate (Suc n) CHR 0x66), ae_settings = (\<lambda>_. [])\<rparr>"

definition demo_call :: "string \<Rightarrow> tool_call" where
  "demo_call tool = [(''tool'', PStr tool), (''arguments'', PDict [(''path'', PStr ''x'')])]"

definition demo_granted :: "string \<Rightarrow> pyval dict \<Rightarrow> approval_request" where
  "demo_granted kind payload = demo_pending\<lparr>aq_status := ''approved'', aq_approval_type := kind,
     aq_payload := payload\<rparr>"

definition demo_adb :: "approval_request list \<Rightarrow> agent_db" where
  "demo_adb rows = \<lparr>ag_approvals = rows, ag_events = [], ag_calls = []\<rparr>"



section \<open>The query tool, allowed by a grant\<close>

definition demo_perms :: perm_context where
  "demo_perms = \<lparr>pc_agent_id = PStr ''a1'', pc_project_id = PStr ''p1'', pc_company_id = PNone,
     pc_department_id = PNone, pc_skill_ids = []\<rparr>"

abbreviation demo_wdb :: "bool \<Rightarrow> workforce_db" where
  "demo_wdb asks \<equiv> ae_workforce (demo_aenv ''db_query'' asks)"

lemma query_contract:
  obtains c where "get_external_effect_contract ''db_query'' = Some c" "\<not> blocks_autonomous_use c"
proof -
  obtain c where "(''db_query'', c) \<in> set execution_contracts" "ec_side_effect c = SE_READ"
    by (simp add: execution_contracts_def)
  moreover have "set execution_contracts \<subseteq> set EXTERNAL_EFFECT_CONTRACTS"
    unfolding EXTERNAL_EFFECT_CONTRACTS_def by auto
  ultimately have "get_external_effect_contract ''db_query'' = Some c" "\<not> blocks_autonomous_use c"
    using contract_of_entry [of "''db_query''" c]
    by (auto simp: py_strip_def is_space_def blocks_autonomous_use_def)
  then show thesis by (rule that)
qed

lemma query_resolution:
  "pget (resolve_policy (demo_wdb asks) ''u1'' ''db_query'' ctx (Some ''db_query'')) ''decision'' =
     PStr (if asks then DECISION_APPROVAL else DECISION_AUTONOMOUS)"
proof -
  have "list_applicable_policies (demo_wdb asks) ''u1'' ''db_query'' ctx = []"
    by (simp add: list_applicable_policies_def policies_for_key_def demo_aenv_def demo_db_def Let_def)
  moreover have "ordered_policies [] = []"
    by (auto simp: ordered_policies_def List.map_filter_def Let_def)
  moreover have "get_tool_definition (demo_wdb asks) ''db_query'' = Some (demo_tool ''db_query'' asks)"
    by (simp add: get_tool_definition_def demo_aenv_def demo_db_def demo_tool_def)
  ultimately show ?thesis
    by (simp add: resolution_decision_pget resolve_policy_decision resolve_decision_cases
        tool_default_decision_def demo_tool_def str_or_def guard_defs)
qed

lemma query_granted:
  "ep_allow (resolve_effective_tool_permissions (demo_wdb False) ''u1'' demo_perms [''db_query''] []) =
     [''db_query'']"
  "ep_by_tool (resolve_effective_tool_permissions (demo_wdb False) ''u1'' demo_perms [''db_query''] []) =
     [(''db_query'', tool_permission_for (demo_wdb False) ''u1'' demo_perms [] [demo_grant ''Allow''] ''db_query'')]"
  "tp_effect (tool_permission_for (demo_wdb False) ''u1'' demo_perms [] [demo_grant ''Allow''] ''db_query'') =
     ''allow''"
proof -
  have grants: "all_grants (demo_wdb False) demo_perms = [demo_grant ''Allow'']" by code_simp
  have slug: "slug_by_id (demo_wdb False) [demo_grant ''Allow''] (stripped_nonempty [''db_query'']) ''t1'' =
      Some ''db_query''" by code_simp
  have strip: "stripped_nonempty [''db_query''] = [''db_query'']" by code_simp
  have low: "py_lower ''Allow'' = ''allow''" by code_simp
  show effect: "tp_effect (tool_permission_for (demo_wdb False) ''u1'' demo_perms [] [demo_grant ''Allow'']
      ''db_query'') = ''allow''"
    by (simp add: tool_permission_for_def Let_def demo_grant_def low tool_effect_def query_resolution
        str_or_def guard_defs)
  show "ep_by_tool (resolve_effective_tool_permissions (demo_wdb False) ''u1'' demo_perms [''db_query''] []) =
     [(''db_query'', tool_permission_for (demo_wdb False) ''u1'' demo_perms [] [demo_grant ''Allow''] ''db_query'')]"
    using slug by (simp add: resolve_effective_tool_permissions_def Let_def grants strip py_unique_def
        demo_grant_def) (simp add: stripped_nonempty_def)
  show "ep_allow (resolve_effective_tool_permissions (demo_wdb False) ''u1'' demo_perms [''db_query''] []) =
     [''db_query'']"
    using slug effect by (simp add: resolve_effective_tool_permissions_def Let_def grants strip py_unique_def
        demo_grant_def py_sorted_set_def) (simp add: stripped_nonempty_def)
qed

lemma query_authorized:
  assumes "authorize_tool (demo_wdb False) None ''u1'' ''db_query'' ctx = (auth, ctx')"
    and "perm_context_of ctx = demo_perms" "\<not> truthy (pget ctx ''_policy_resolution'')"
  shows "az_permitted auth \<and> az_decision auth = PStr DECISION_AUTONOMOUS \<and> ctx' = ctx"
proof -
  obtain c where c: "get_external_effect_contract ''db_query'' = Some c" "\<not> blocks_autonomous_use c"
    by (rule query_contract)
  have "pget ctx ''project_id'' = PStr ''p1''" using assms(2) by (simp add: perm_context_of_def demo_perms_def)
  moreover have "ep_deny (resolve_effective_tool_permissions (demo_wdb False) ''u1'' demo_perms [''db_query''] []) = []
      \<and> ep_unavailable (resolve_effective_tool_permissions (demo_wdb False) ''u1'' demo_perms [''db_query''] []) = []"
    using effective_single [OF _ _ refl, of "''db_query''" "demo_wdb False" "''u1''" demo_perms] query_granted(1)
    by (simp add: py_strip_def is_space_def)
  ultimately show ?thesis
    using assms(1,3) c
    by (auto simp: authorize_tool_def effective_stage_def Let_def assms(2) query_granted query_resolution
        apply_effective_def guard_defs)
qed

lemma query_context:
  obtains ctx where "build_tool_execution_context (demo_aenv ''db_query'' asks) demo_project None demo_agent_run
      ''db_query'' args False None db = Inr (db, ctx)"
    "perm_context_of ctx = demo_perms" "pget ctx ''_policy_resolution'' = PNone"
proof -
  have snapshots: "snapshot_strings ''required_tools'' demo_agent_run = Inr []"
    "snapshot_strings ''skill_version_ids'' demo_agent_run = Inr []" by code_simp+
  obtain granted where c: "consume_or_check_tool_approval (demo_aenv ''db_query'' asks) demo_project demo_agent_run
      None ''db_query'' (arguments_hash (rt_sha (he_rt (ae_hitl (demo_aenv ''db_query'' asks)))) args) False
      (\<not> is_low_risk_tool ''db_query'') db = (db, granted)"
    unfolding consume_or_check_tool_approval_def by (metis (no_types, lifting) option.case_eq_if)
  show thesis
    by (rule that, simp add: build_tool_execution_context_def Let_def snapshots c,
      simp_all add: perm_context_of_def demo_perms_def pget_def demo_project_def demo_agent_run_def
        opt_str_def list_or_empty_def)
qed

lemma query_runs:
  obtains r where
    "toolbox_execute (demo_aenv ''db_query'' False) demo_project None demo_agent_run (demo_call ''db_query'') db =
       (db\<lparr>ag_calls := ag_calls db @ [(''toolbox'', ''db_query'')]\<rparr>, Inr r)"
proof -
  let ?env = "demo_aenv ''db_query'' False"
  let ?args = "[(''path'', PStr ''x'')]"
  have call: "called_tool (demo_call ''db_query'') = ''db_query''" "call_arguments (demo_call ''db_query'') = ?args"
    by code_simp+
  have env: "ae_auth_error ?env = None" "ae_failure ?env = None" "pj_owner demo_project = ''u1''"
    "project_known ?env ''p1''" "dispatch (ae_native ?env) ''db_query'' ?args ctx = Inr (PDict [(''done'', PBool True)])"
    for ctx by code_simp+
  obtain ctx where ctx: "build_tool_execution_context ?env demo_project None demo_agent_run ''db_query'' ?args
      False None db = Inr (db, ctx)" "perm_context_of ctx = demo_perms" "pget ctx ''_policy_resolution'' = PNone"
    by (rule query_context)
  have project: "pget ctx ''project_id'' = PStr ''p1''" using ctx(2) by (simp add: perm_context_of_def demo_perms_def)
  obtain auth ctx' where auth: "authorize_tool (demo_wdb False) None ''u1'' ''db_query'' ctx = (auth, ctx')"
    by fastforce
  note q = query_authorized [OF auth ctx(2)]
  have "authorize_call ?env demo_project None demo_agent_run ''db_query'' ?args ctx db = (db, Inr ctx)"
    using auth q env ctx(3) by (simp add: authorize_call_def guard_defs)
  moreover have "execute_tool (ae_ext ?env) (dispatch (ae_native ?env)) (project_known ?env) (demo_wdb False) None
      ''u1'' ''db_query'' ?args ctx =
      (normalize_result ''db_query'' [(''status'', PStr ''succeeded''), (''output'', PDict [(''done'', PBool True)])],
       [(''toolbox'', ''db_query'')])"
    using auth q ctx(3) env(4,5) project
    by (simp add: execute_tool_def auth_context_def refusal_def runs_in_toolbox_def NATIVE_EXECUTABLE_def
        execute_via_toolbox_def str_or_def guard_defs)
  moreover have "toolbox_result ''db_query'' (normalize_result ''db_query''
      [(''status'', PStr ''succeeded''), (''output'', PDict [(''done'', PBool True)])]) = Inr [(''done'', PBool True)]"
    by code_simp
  ultimately have "toolbox_execute ?env demo_project None demo_agent_run (demo_call ''db_query'') db =
      (db\<lparr>ag_calls := ag_calls db @ [(''toolbox'', ''db_query'')]\<rparr>, Inr [(''done'', PBool True)])"
    by (simp add: toolbox_execute_def Let_def call env(1-3) ctx(1) run_service_def starts_with_any_def starts_with_def)
  then show thesis by (rule that)
qed

section \<open>A turn that asks for one query\<close>

definition demo_dangerous :: agent_db where
  "demo_dangerous = demo_adb [demo_granted ''dangerous_tool_call'' (dangerous_payload ''db_query'' 1)]"

lemma query_dangerous: "tool_requires_hitl_execution_grant ''db_query''"
  by code_simp

lemma query_index: "py_eq (PInt 1) (PInt 1)"
  by (simp add: py_eq.simps as_int_def)

lemma query_serial:
  obtains db' r where "execute_one_tool_call (demo_aenv ''db_query'' False) demo_project [] ''project_default'' []
     (Some demo_agent) None demo_agent_run 1 (demo_call ''db_query'') 0 demo_dangerous = (db', Inr r)"
    "ag_calls db' = [(''toolbox'', ''db_query'')]"
proof -
  let ?env = "demo_aenv ''db_query'' False"
  obtain db1 where grant: "consume_hitl_grant ?env demo_agent_run ''dangerous_tool_call''
      (dangerous_payload ''db_query'' 1) demo_dangerous = (db1, True)" "ag_calls db1 = []"
  proof -
    have "find (hitl_grant_matches ''dangerous_tool_call'' (dangerous_payload ''db_query'' 1))
        (run_grants (ar_id demo_agent_run) demo_dangerous) \<noteq> None"
      by (simp add: run_grants_def demo_dangerous_def demo_adb_def demo_granted_def demo_pending_def
          demo_agent_run_def hitl_grant_matches_def dangerous_payload_def pget_def query_index)
    then obtain a where "find (hitl_grant_matches ''dangerous_tool_call'' (dangerous_payload ''db_query'' 1))
        (run_grants (ar_id demo_agent_run) demo_dangerous) = Some a" by blast
    moreover have "ag_calls demo_dangerous = []" by (simp add: demo_dangerous_def demo_adb_def)
    ultimately show thesis by - (rule that, simp add: consume_hitl_grant_def, simp)
  qed
  have checks: "called_tool (demo_call ''db_query'') = ''db_query''"
    "tool_allowed_for_agent_permissions ''db_query'' (Some demo_agent) = Inr ()"
    "action_requires_approval [] ''run_tool''" "check_scope ''project_default'' ''db_query'' = Inr ()"
    "check_allowed [] ''db_query'' = Inr ()" by code_simp+
  obtain r where "toolbox_execute ?env demo_project None demo_agent_run (demo_call ''db_query'')
      (run_event demo_agent_run ''tool_call_started'' db1) =
      ((run_event demo_agent_run ''tool_call_started'' db1)\<lparr>ag_calls :=
        ag_calls (run_event demo_agent_run ''tool_call_started'' db1) @ [(''toolbox'', ''db_query'')]\<rparr>, Inr r)"
    by (rule query_runs)
  then show thesis using grant
    by - (rule that, simp add: execute_one_tool_call_def Let_def checks gate_call_def query_dangerous
        grant_or_ask_def run_call_def, simp add: run_event_def)
qed

text \<open>The same call as the only one of a turn.\<close>

lemma query_turn:
  obtains db' r where "execute_tool_calls (demo_aenv ''db_query'' False) demo_project None demo_agent_run
     [demo_call ''db_query''] [] (Some demo_agent) demo_dangerous = (db', r)"
    "ag_calls db' = [(''toolbox'', ''db_query'')]"
proof -
  obtain db' x where one: "execute_one_tool_call (demo_aenv ''db_query'' False) demo_project [] ''project_default'' []
     (Some demo_agent) None demo_agent_run 1 (demo_call ''db_query'') 0 demo_dangerous = (db', Inr x)"
    "ag_calls db' = [(''toolbox'', ''db_query'')]" by (rule query_serial)
  obtain payload failures where x: "x = (payload, failures)" by fastforce
  have batches: "partition_tool_calls [demo_call ''db_query''] = [serial_batch (0, demo_call ''db_query'')]"
  proof -
    have "parallel_group_id (demo_call ''db_query'') = None" by code_simp
    then show ?thesis by (simp add: partition_tool_calls_def)
  qed
  have "tool_calling_allowed (Some demo_agent)" "secret_scope_of demo_project = Inr ''project_default''"
    "ae_settings (demo_aenv ''db_query'' False) demo_project = []" by code_simp+
  then show thesis using one x batches
    by (intro that [of db' "Inr [payload]"])
      (simp_all add: execute_tool_calls_def serial_batch_def)
qed

section \<open>Witnesses\<close>

lemma demo_aenv_clock: "named_clock (ae_hitl (demo_aenv tool asks))"
  using demo_clock by (simp add: demo_aenv_def)

lemma dispatch_needs_authorization_witness:
  "\<exists>auth. authorized_as (demo_aenv ''db_query'' False) demo_project None demo_agent_run ''db_query''
     (call_arguments (demo_call ''db_query'')) demo_dangerous auth \<and> az_permitted auth"
proof -
  obtain r where run: "toolbox_execute (demo_aenv ''db_query'' False) demo_project None demo_agent_run
      (demo_call ''db_query'') demo_dangerous =
      (demo_dangerous\<lparr>ag_calls := ag_calls demo_dangerous @ [(''toolbox'', ''db_query'')]\<rparr>, Inr r)"
    by (rule query_runs)
  have "called_tool (demo_call ''db_query'') = ''db_query''" by code_simp
  with dispatch_needs_authorization [OF run _ _ _ demo_aenv_clock] show ?thesis
    by (force simp: demo_aenv_def)
qed

lemma dangerous_call_consumes_grant_witness:
  "\<exists>db' r. execute_one_tool_call (demo_aenv ''db_query'' False) demo_project [] ''project_default'' []
      (Some demo_agent) None demo_agent_run 1 (demo_call ''db_query'') 0 demo_dangerous = (db', Inr r) \<and>
    ''a1'' \<in> consumed_ids db' - consumed_ids demo_dangerous"
proof -
  obtain db' r where one: "execute_one_tool_call (demo_aenv ''db_query'' False) demo_project [] ''project_default'' []
      (Some demo_agent) None demo_agent_run 1 (demo_call ''db_query'') 0 demo_dangerous = (db', Inr r)"
    "ag_calls db' = [(''toolbox'', ''db_query'')]" by (rule query_serial)
  have tool: "called_tool (demo_call ''db_query'') = ''db_query''" by code_simp
  have "\<exists>a \<in> set (ag_approvals demo_dangerous). aq_id a \<in> consumed_ids db' - consumed_ids demo_dangerous"
    using dangerous_call_consumes_grant [OF one(1) demo_aenv_clock] one(2) query_dangerous
    by (force simp: tool demo_dangerous_def demo_adb_def)
  moreover have "map aq_id (ag_approvals demo_dangerous) = [''a1'']" by code_simp
  ultimately show ?thesis using one(1) by (auto simp: map_eq_Cons_conv)
qed

lemma turn_dispatches_cleared_witness:
  "\<exists>db' r. execute_tool_calls (demo_aenv ''db_query'' False) demo_project None demo_agent_run
      [demo_call ''db_query''] [] (Some demo_agent) demo_dangerous = (db', r) \<and>
    ag_calls db' = [(''toolbox'', ''db_query'')] \<and>
    cleared_dispatches ''project_default'' [] (Some demo_agent) [demo_call ''db_query''] demo_dangerous db'"
proof -
  obtain db' r where turn: "execute_tool_calls (demo_aenv ''db_query'' False) demo_project None demo_agent_run
      [demo_call ''db_query''] [] (Some demo_agent) demo_dangerous = (db', r)"
    "ag_calls db' = [(''toolbox'', ''db_query'')]" by (rule query_turn)
  have "list_all plain_name [demo_call ''db_query'']" "secret_scope_of demo_project = Inr ''project_default''"
    by (simp add: plain_name_def demo_call_def called_tool_def str_or_def pget_def py_strip_def is_space_def) code_simp
  with turn_dispatches_cleared [OF turn(1) demo_aenv_clock] turn show ?thesis by blast
qed

text \<open>The same tool registered to require an approval: its granted call does not run, it asks again.\<close>

lemma approved_tool_starves_witness:
  "ag_calls (fst (execute_one_tool_call (demo_aenv ''db_query'' True) demo_project [] ''project_default'' []
     (Some demo_agent) None demo_agent_run 1 (demo_call ''db_query'') 0 demo_dangerous)) = []"
proof -
  let ?env = "demo_aenv ''db_query'' True"
  let ?db' = "fst (execute_one_tool_call ?env demo_project [] ''project_default'' [] (Some demo_agent) None
    demo_agent_run 1 (demo_call ''db_query'') 0 demo_dangerous)"
  have tool: "called_tool (demo_call ''db_query'') = ''db_query''" by code_simp
  have "asking_rounds ?env demo_project ''db_query'' demo_dangerous ?db'"
    by (rule asking_rounds.call [OF asking_rounds.start tool])
  moreover have "strict_env ?env"
    using demo_aenv_clock by (simp add: strict_env_def demo_aenv_def demo_henv_def arguments_hash_def)
  moreover have "always_asks ?env demo_project ''db_query''"
    using query_resolution [of True] by (simp add: always_asks_def demo_project_def)
  moreover have "all_unbound demo_dangerous"
    by (simp add: all_unbound_def demo_dangerous_def demo_adb_def demo_granted_def dangerous_payload_def
        arguments_unbound_def pget_def str_or_def py_strip_def)
  ultimately show ?thesis
    using approved_tool_starves [of ?env demo_project "''db_query''" demo_dangerous ?db']
    by (simp add: demo_dangerous_def demo_adb_def)
qed


end
