(* ===== verification/Workflow_Versions.thy ===== *)
theory Workflow_Versions
  imports Workflow_State Workflow_Graph_Diff
begin

text \<open>
  Drafts and published versions of a workflow, \<open>workforce/services/workflow_version_service.py\<close>. A
  definition points to its draft, which is edited in place, and to its published version; publishing
  stores a new row and numbers it.

  The definition an operation is given is returned changed beside the tables. Dictionaries a
  \<open>ValueError\<close> carries are kept as their list of errors. Audit metadata and activation hooks are
  left out.
\<close>

section \<open>Rows and errors\<close>

record version_row = wf_version +
  vr_number :: int
  vr_metadata :: "pyval dict"
  vr_hash :: "string option"
  vr_published :: bool
  vr_created_by :: "string option"

record definition_row = wf_definition +
  dr_status :: string
  dr_current :: "string option"
  dr_draft :: "string option"
  dr_published :: "string option"

record deployment =
  dp_id :: string
  dp_workflow :: string
  dp_environment :: string
  dp_version :: string
  dp_bindings :: "pyval dict"
  dp_by :: "string option"
  dp_at :: int
  dp_metadata :: "pyval dict"

record deployment_event =
  dv_id :: string
  dv_workflow :: string
  dv_environment :: string
  dv_action :: string
  dv_version :: string
  dv_bindings :: "pyval dict"
  dv_previous_version :: "string option"
  dv_previous_bindings :: "pyval dict option"
  dv_actor :: "string option"
  dv_created :: int
  dv_metadata :: "pyval dict"

record installation_row =
  ir_id :: string
  ir_owner :: string
  ir_environment :: string

record version_db =
  vd_definitions :: "definition_row list"
  vd_versions :: "version_row list"
  vd_deployments :: "deployment list"
  vd_events :: "deployment_event list"
  vd_installations :: "installation_row list"
  vd_audit :: "(string \<times> string) list"
  vd_fresh :: nat

record version_env =
  ve_sha :: "string \<Rightarrow> string"
  ve_uuid :: "nat \<Rightarrow> string"
  ve_now :: int

datatype version_error =
  VersionError string | InvalidGraph "string list" | VersionImmutable string | VersionCrash string

type_synonym 'a version_result = "(version_error, definition_row \<times> version_db \<times> 'a) result"

definition crash_or :: "(string, 'a) result \<Rightarrow> (version_error, 'a) result" where
  "crash_or r = (case r of Inl e \<Rightarrow> Inl (VersionCrash e) | Inr a \<Rightarrow> Inr a)"

definition fresh_row :: "version_env \<Rightarrow> version_db \<Rightarrow> string \<times> version_db" where
  "fresh_row env db = (ve_uuid env (vd_fresh db), db\<lparr>vd_fresh := Suc (vd_fresh db)\<rparr>)"

definition put_version :: "version_row \<Rightarrow> version_db \<Rightarrow> version_db" where
  "put_version v db = db\<lparr>vd_versions := map (\<lambda>w. if wv_id w = wv_id v then v else w) (vd_versions db)\<rparr>"

definition audit :: "string \<Rightarrow> definition_row \<Rightarrow> version_db \<Rightarrow> version_db" where
  "audit action d db = db\<lparr>vd_audit := vd_audit db @ [(action, wdf_id d)]\<rparr>"

section \<open>Reading\<close>

definition DRAFT_VERSION_NUMBER :: int where
  "DRAFT_VERSION_NUMBER = 0"

definition assert_mutable :: "version_row \<Rightarrow> (version_error, unit) result" where
  "assert_mutable v =
     (if vr_published v
      then Inl (VersionImmutable (''Workflow version '' @ repr_str (wv_id v) @ '' is published and immutable''))
      else Inr ())"

definition get_version_row :: "version_db \<Rightarrow> string option \<Rightarrow> version_row option" where
  "get_version_row db i =
     (case i of
        None \<Rightarrow> None
      | Some s \<Rightarrow> if s = [] then None else find (\<lambda>v. wv_id v = s) (vd_versions db))"

definition get_draft :: "version_db \<Rightarrow> definition_row \<Rightarrow> version_row option" where
  "get_draft db d = get_version_row db (dr_draft d)"

definition get_published :: "version_db \<Rightarrow> definition_row \<Rightarrow> version_row option" where
  "get_published db d = get_version_row db (dr_published d)"

definition published_of :: "version_db \<Rightarrow> string \<Rightarrow> version_row list" where
  "published_of db workflow_id =
     filter (\<lambda>v. wv_workflow_id v = workflow_id \<and> vr_published v) (vd_versions db)"

definition next_published_version_number :: "version_db \<Rightarrow> string \<Rightarrow> int" where
  "next_published_version_number db workflow_id =
     (case map vr_number (published_of db workflow_id) of
        [] \<Rightarrow> 0
      | n # ns \<Rightarrow> fold max ns n) + 1"

definition list_published_versions :: "version_db \<Rightarrow> string \<Rightarrow> version_row list" where
  "list_published_versions db workflow_id = sort_key (\<lambda>v. - vr_number v) (published_of db workflow_id)"

definition graph_of :: "version_row \<Rightarrow> pyval list \<times> pyval list \<times> string option" where
  "graph_of v = (wv_nodes v, wv_edges v, wv_entry v)"

section \<open>Drafts\<close>

text \<open>\<open>apply_canonical_graph_to_version\<close> on a row.\<close>

definition with_graph ::
  "version_env \<Rightarrow> version_row \<Rightarrow> pyval list \<Rightarrow> pyval list \<Rightarrow> string option \<Rightarrow> version_row \<times> workflow_graph" where
  "with_graph env v nodes edges entry =
     (case apply_canonical_graph_to_version (ve_sha env)
             \<lparr>gv_nodes = wv_nodes v, gv_edges = wv_edges v, gv_entry = wv_entry v, gv_hash = vr_hash v\<rparr>
             nodes edges entry of
        (g, graph) \<Rightarrow>
          (v\<lparr>wv_nodes := gv_nodes g, wv_edges := gv_edges g, wv_entry := gv_entry g, vr_hash := gv_hash g\<rparr>, graph))"

definition new_draft ::
  "version_env \<Rightarrow> string option \<Rightarrow> pyval list \<Rightarrow> pyval list \<Rightarrow> string option \<Rightarrow> definition_row \<Rightarrow> version_db \<Rightarrow>
   definition_row \<times> version_db \<times> version_row" where
  "new_draft env created_by nodes edges entry d db =
     (case fresh_row env db of
        (i, db) \<Rightarrow>
          (let draft = \<lparr>wv_id = i, wv_workflow_id = wdf_id d, wv_nodes = nodes, wv_edges = edges, wv_entry = entry,
                 vr_number = DRAFT_VERSION_NUMBER, vr_metadata = [(''kind'', PStr ''draft'')], vr_hash = None,
                 vr_published = False, vr_created_by = created_by\<rparr>;
               draft = (if nodes \<noteq> [] then fst (with_graph env draft nodes edges entry) else draft)
           in (d\<lparr>dr_draft := Some i, dr_current := Some i\<rparr>, db\<lparr>vd_versions := vd_versions db @ [draft]\<rparr>, draft)))"

text \<open>\<open>ensure_draft\<close> without a graph.\<close>

definition draft_or_new ::
  "version_env \<Rightarrow> string option \<Rightarrow> definition_row \<Rightarrow> version_db \<Rightarrow> definition_row \<times> version_db \<times> version_row" where
  "draft_or_new env created_by d db =
     (case get_draft db d of
        Some draft \<Rightarrow> (d, db, draft)
      | None \<Rightarrow> new_draft env created_by [] [] None d db)"

definition update_draft ::
  "version_env \<Rightarrow> pyval list \<Rightarrow> pyval list \<Rightarrow> string option \<Rightarrow> string option \<Rightarrow> definition_row \<Rightarrow> version_db \<Rightarrow>
   version_row version_result" where
  "update_draft env nodes edges entry actor d db =
     (case draft_or_new env actor d db of
        (d, db, draft) \<Rightarrow>
          res_bind (assert_mutable draft) (\<lambda>_.
          res_bind (crash_or (validate_graph nodes edges entry)) (\<lambda>errors.
          if errors \<noteq> [] then Inl (InvalidGraph errors)
          else
            (let draft = (fst (with_graph env draft nodes edges entry))\<lparr>vr_created_by :=
                   if truthy (opt_str actor) then actor else vr_created_by draft\<rparr>;
                 d = d\<lparr>dr_draft := Some (wv_id draft), dr_current := Some (wv_id draft),
                       dr_status := if dr_status d \<noteq> ''active'' then ''draft'' else dr_status d\<rparr>
             in Inr (d, put_version draft db, draft)))))"

definition list_or :: "pyval list option \<Rightarrow> pyval list \<Rightarrow> pyval list" where
  "list_or given stored = (case given of None \<Rightarrow> stored | Some xs \<Rightarrow> if xs = [] then stored else xs)"

definition ensure_draft ::
  "version_env \<Rightarrow> string option \<Rightarrow> pyval list option \<Rightarrow> pyval list option \<Rightarrow> string option \<Rightarrow> definition_row \<Rightarrow>
   version_db \<Rightarrow> version_row version_result" where
  "ensure_draft env created_by nodes edges entry d db =
     (case get_draft db d of
        Some draft \<Rightarrow>
          if nodes \<noteq> None \<or> edges \<noteq> None \<or> entry \<noteq> None then
            update_draft env (list_or nodes (wv_nodes draft)) (list_or edges (wv_edges draft))
              (if entry \<noteq> None then entry else wv_entry draft) created_by d db
          else Inr (d, db, draft)
      | None \<Rightarrow> Inr (new_draft env created_by (list_or nodes []) (list_or edges []) entry d db))"

definition validate_draft :: "version_db \<Rightarrow> definition_row \<Rightarrow> (version_error, publish_report) result" where
  "validate_draft db d =
     (case get_draft db d of
        None \<Rightarrow> Inr \<lparr>pr_errors = [''workflow has no draft''], pr_warnings = [], pr_infos = [], pr_external_writes = []\<rparr>
      | Some draft \<Rightarrow> crash_or (validate_for_publish (wv_nodes draft) (wv_edges draft) (wv_entry draft)))"

definition diff_draft_vs_published ::
  "version_env \<Rightarrow> (edge_key list \<Rightarrow> edge_key list) \<Rightarrow> version_db \<Rightarrow> definition_row \<Rightarrow> (version_error, graph_diff) result" where
  "diff_draft_vs_published env ord db d =
     (case get_draft db d of
        None \<Rightarrow> Inl (VersionError ''workflow has no draft'')
      | Some draft \<Rightarrow>
          Inr (diff_workflow_graphs (ve_sha env) ord
            (case get_published db d of None \<Rightarrow> ([], [], None) | Some p \<Rightarrow> graph_of p) (graph_of draft)))"

section \<open>Publishing\<close>

definition rollback_to_version ::
  "string \<Rightarrow> definition_row \<Rightarrow> version_db \<Rightarrow> version_row version_result" where
  "rollback_to_version target_id d db =
     (case get_version_row db (Some target_id) of
        None \<Rightarrow> Inl (VersionError ''workflow version not found'')
      | Some target \<Rightarrow>
          if wv_workflow_id target \<noteq> wdf_id d then Inl (VersionError ''workflow version not found'')
          else if \<not> vr_published target then Inl (VersionError ''rollback target must be a published version'')
          else Inr (d\<lparr>dr_published := Some (wv_id target), dr_status := ''active''\<rparr>,
                    audit ''workflow.rollback'' d db, target))"

definition published_row ::
  "string \<Rightarrow> version_db \<Rightarrow> definition_row \<Rightarrow> version_row \<Rightarrow> string option \<Rightarrow> version_row" where
  "published_row i db d draft actor =
     draft\<lparr>wv_id := i, wv_workflow_id := wdf_id d, vr_number := next_published_version_number db (wdf_id d),
       vr_metadata := [(''kind'', PStr ''published''), (''source_draft_id'', PStr (wv_id draft))],
       vr_published := True, vr_created_by := actor\<rparr>"

definition publish_draft ::
  "version_env \<Rightarrow> string option \<Rightarrow> pyval list option \<Rightarrow> pyval list option \<Rightarrow> string option \<Rightarrow> definition_row \<Rightarrow>
   version_db \<Rightarrow> version_row version_result" where
  "publish_draft env actor nodes edges entry d db =
     (case draft_or_new env actor d db of
        (d, db, draft) \<Rightarrow>
          (let ns = (case nodes of Some xs \<Rightarrow> xs | None \<Rightarrow> wv_nodes draft);
               es = (case edges of Some xs \<Rightarrow> xs | None \<Rightarrow> wv_edges draft);
               e = (case entry of Some s \<Rightarrow> Some s | None \<Rightarrow> wv_entry draft)
           in res_bind (crash_or (validate_for_publish ns es e)) (\<lambda>report.
              if pr_errors report \<noteq> [] then Inl (InvalidGraph (pr_errors report))
              else
                (let draft = fst (with_graph env draft ns es e); db = put_version draft db in
                 case fresh_row env db of
                   (i, db) \<Rightarrow>
                     (let row = published_row i db d draft actor in
                      Inr (d\<lparr>dr_published := Some i, dr_status := ''active'', dr_draft := Some (wv_id draft),
                             dr_current := Some (wv_id draft)\<rparr>,
                           db\<lparr>vd_versions := vd_versions db @ [row]\<rparr>, row))))))"

definition resolve_run_version :: "version_db \<Rightarrow> definition_row \<Rightarrow> (version_error, version_row) result" where
  "resolve_run_version db d =
     (case get_published db d of
        None \<Rightarrow> Inl (VersionError ''workflow has no published version'')
      | Some v \<Rightarrow>
          if \<not> vr_published v
          then Inl (VersionError ''published_version_id must reference a published version'') else Inr v)"

end
