(* ===== verification/Workflow_Environments.thy ===== *)
theory Workflow_Environments
  imports Workflow_Versions
begin

text \<open>
  Environments of a workflow, \<open>workforce/services/workflow_environment_service.py\<close>: a deployment names
  a published version and binds its nodes to connector installations; promotion replaces it, rollback
  restores an earlier one, and a run asks for the bound graph.

  Two deployments of one workflow in one environment are ruled out by a unique constraint, so
  \<open>scalar_one_or_none\<close> is the first match. The code walks over a set of installation ids; here the order
  is that of their first use.
\<close>

section \<open>Environments and bindings\<close>

definition WORKFLOW_ENVIRONMENTS :: "string list" where
  "WORKFLOW_ENVIRONMENTS = [''dev'', ''staging'', ''prod'']"

definition BINDING_KEYS :: "string list" where
  "BINDING_KEYS = [''connector_installation_id'', ''approval_connector_installation_id'']"

definition lower_or_dev :: "string \<Rightarrow> string" where
  "lower_or_dev value = py_lower (py_strip (if value = [] then ''dev'' else value))"

definition normalize_environment :: "string \<Rightarrow> (version_error, string) result" where
  "normalize_environment value =
     (let env = lower_or_dev value in
      if env \<in> set WORKFLOW_ENVIRONMENTS then Inr env
      else Inl (VersionError (''invalid environment `'' @ env @ ''`'')))"

definition installation_allowed_for_environment :: "string \<Rightarrow> string \<Rightarrow> (version_error, bool) result" where
  "installation_allowed_for_environment installation_environment target_environment =
     (let inst = lower_or_dev installation_environment in
      res_bind (normalize_environment target_environment) (\<lambda>target.
      Inr (if target = ''prod'' then inst = ''prod''
           else if target = ''staging'' then inst \<in> {''staging'', ''prod''}
           else True)))"

text \<open>The non-empty binding values of a dictionary.\<close>

definition bound_value :: "pyval dict \<Rightarrow> string \<Rightarrow> string" where
  "bound_value d key = py_strip (str_or (pget d key) [])"

definition bound_keys :: "pyval dict \<Rightarrow> pyval dict" where
  "bound_keys d = List.map_filter
     (\<lambda>k. if bound_value d k = [] then None else Some (k, PStr (bound_value d k))) BINDING_KEYS"

definition binding_id :: "pyval dict \<Rightarrow> string" where
  "binding_id node = str_or (pget node ''id'') []"

fun extract_bindings :: "pyval dict list \<Rightarrow> pyval dict \<Rightarrow> (string, pyval dict) result" where
  "extract_bindings [] bindings = Inr bindings"
| "extract_bindings (node # nodes) bindings =
     (if binding_id node = [] then extract_bindings nodes bindings
      else res_bind (get_dict node ''config'') (\<lambda>config.
        extract_bindings nodes
          (if bound_keys config = [] then bindings
           else dset (binding_id node) (PDict (bound_keys config)) bindings)))"

definition extract_bindings_from_graph :: "pyval list \<Rightarrow> (string, pyval dict) result" where
  "extract_bindings_from_graph nodes = extract_bindings (dict_items nodes) []"

text \<open>The configuration of a node under the binding stored for it.\<close>

definition overlay_config :: "pyval \<Rightarrow> pyval dict \<Rightarrow> pyval dict" where
  "overlay_config overlay config =
     (case overlay of
        PDict own \<Rightarrow> fold (\<lambda>kv. dset (fst kv) (snd kv)) (bound_keys own) config
      | PStr s \<Rightarrow> if py_strip s = [] then config
          else dset ''connector_installation_id'' (PStr (py_strip s)) config
      | _ \<Rightarrow> config)"

definition bind_node :: "pyval dict \<Rightarrow> pyval dict \<Rightarrow> (string, pyval) result" where
  "bind_node bindings node =
     res_bind (get_dict node ''config'') (\<lambda>config.
       Inr (PDict (dset ''config'' (PDict (overlay_config (pget bindings (binding_id node)) config)) node)))"

definition apply_bindings_to_graph :: "pyval list \<Rightarrow> pyval dict \<Rightarrow> (string, pyval list) result" where
  "apply_bindings_to_graph nodes bindings = map_res (bind_node bindings) (dict_items nodes)"

record binding_diff =
  bd_added :: "string list"
  bd_removed :: "string list"
  bd_changed :: "(string \<times> pyval \<times> pyval) list"
  bd_count :: nat

definition diff_bindings :: "pyval dict \<Rightarrow> pyval dict \<Rightarrow> binding_diff" where
  "diff_bindings l r =
     (let ids = py_sorted_set (map fst l @ map fst r);
          added = filter (\<lambda>i. \<not> dhas l i) ids;
          removed = filter (\<lambda>i. dhas l i \<and> \<not> dhas r i) ids;
          changed = map (\<lambda>i. (i, pget l i, pget r i))
            (filter (\<lambda>i. dhas l i \<and> dhas r i \<and> \<not> py_eq (pget l i) (pget r i)) ids)
      in \<lparr>bd_added = added, bd_removed = removed, bd_changed = changed,
          bd_count = length changed + length added + length removed\<rparr>)"

section \<open>Deployments\<close>

definition get_deployment :: "version_db \<Rightarrow> definition_row \<Rightarrow> string \<Rightarrow> (version_error, deployment option) result" where
  "get_deployment db d environment =
     res_bind (normalize_environment environment) (\<lambda>env.
       Inr (find (\<lambda>p. dp_workflow p = wdf_id d \<and> dp_environment p = env) (vd_deployments db)))"

record environment_summary =
  es_environment :: string
  es_deployment :: "string option"
  es_version :: "string option"
  es_number :: "int option"
  es_hash :: "string option"
  es_at :: "int option"
  es_bindings :: "pyval dict"

definition list_environment_summaries :: "version_db \<Rightarrow> definition_row \<Rightarrow> environment_summary list" where
  "list_environment_summaries db d =
     map (\<lambda>env.
       let p = find (\<lambda>p. dp_environment p = env) (rev (filter (\<lambda>p. dp_workflow p = wdf_id d) (vd_deployments db)));
           v = (case p of None \<Rightarrow> None | Some p \<Rightarrow> get_version_row db (Some (dp_version p)))
       in \<lparr>es_environment = env, es_deployment = map_option dp_id p, es_version = map_option dp_version p,
           es_number = map_option vr_number v, es_hash = (case v of None \<Rightarrow> None | Some v \<Rightarrow> vr_hash v),
           es_at = map_option dp_at p, es_bindings = (case p of None \<Rightarrow> [] | Some p \<Rightarrow> dp_bindings p)\<rparr>)
       WORKFLOW_ENVIRONMENTS"

definition resolve_version_for_environment ::
  "version_db \<Rightarrow> definition_row \<Rightarrow> string \<Rightarrow> (version_error, version_row \<times> deployment option) result" where
  "resolve_version_for_environment db d environment =
     res_bind (normalize_environment environment) (\<lambda>env.
     res_bind (get_deployment db d env) (\<lambda>p.
     case p of
       Some p \<Rightarrow>
         (case get_version_row db (Some (dp_version p)) of
            None \<Rightarrow> Inl (VersionError (env @ '' deployment references missing workflow version''))
          | Some v \<Rightarrow>
              if \<not> vr_published v
              then Inl (VersionError (env @ '' deployment must reference a published version''))
              else Inr (v, Some p))
     | None \<Rightarrow>
         (case (if env = ''dev'' \<and> truthy (opt_str (dr_published d)) then get_published db d else None) of
            Some v \<Rightarrow> Inr (v, None)
          | None \<Rightarrow> Inl (VersionError (''workflow has no deployment for `'' @ env @ ''`'')))))"

definition resolved_graph_for_environment ::
  "version_db \<Rightarrow> definition_row \<Rightarrow> string \<Rightarrow> (version_error, version_row \<times> pyval list) result" where
  "resolved_graph_for_environment db d environment =
     res_bind (resolve_version_for_environment db d environment) (\<lambda>(v, p).
     res_bind (normalize_environment environment) (\<lambda>env.
     res_bind (case p of
         Some p \<Rightarrow> crash_or (apply_bindings_to_graph (wv_nodes v) (dp_bindings p))
       | None \<Rightarrow> if env = ''dev''
           then crash_or (res_bind (extract_bindings_from_graph (wv_nodes v)) (apply_bindings_to_graph (wv_nodes v)))
           else Inr (wv_nodes v)) (\<lambda>nodes.
       Inr (v, nodes))))"

section \<open>Validation of bindings\<close>

definition installations_of :: "pyval \<Rightarrow> string list" where
  "installations_of binding =
     (case binding of
        PDict d \<Rightarrow> filter (\<lambda>s. s \<noteq> []) (map (bound_value d) BINDING_KEYS)
      | PStr s \<Rightarrow> if py_strip s = [] then [] else [py_strip s]
      | _ \<Rightarrow> [])"

definition bound_installations :: "pyval dict \<Rightarrow> string list" where
  "bound_installations bindings = py_unique (concat (map (installations_of \<circ> snd) bindings))"

definition installation_error ::
  "version_db \<Rightarrow> string \<Rightarrow> string \<Rightarrow> string \<Rightarrow> (version_error, string list) result" where
  "installation_error db owner env i =
     (case find (\<lambda>r. ir_id r = i \<and> ir_owner r = owner) (vd_installations db) of
        None \<Rightarrow> Inr [''connector installation `'' @ i @ ''` not found'']
      | Some r \<Rightarrow>
          res_bind (installation_allowed_for_environment (ir_environment r) env) (\<lambda>ok.
            Inr (if ok then []
                 else [''installation `'' @ i @ ''` ('' @ (if ir_environment r = [] then ''dev'' else ir_environment r) @
                       '') cannot be used in `'' @ env @ ''`''])))"

definition binding_warnings :: "pyval dict \<Rightarrow> pyval dict \<Rightarrow> (string, string list) result" where
  "binding_warnings bindings node =
     (let ntype = str_or (pget node ''type'') []; i = binding_id node in
      if ntype \<notin> {''trigger'', ''tool''} then Inr []
      else res_bind (get_dict node ''config'') (\<lambda>inline.
        if installations_of (pget bindings i) \<noteq> [] \<or> bound_keys inline \<noteq> [] then Inr []
        else if ntype = ''tool'' then Inr [''tool node `'' @ i @ ''` has no environment binding'']
        else if str_or (py_or (pget inline ''trigger_type'') (pget inline ''event_type'')) [] \<in>
                {''manual'', ''schedule'', []} then Inr []
        else Inr [''trigger node `'' @ i @ ''` has no environment binding'']))"

fun map_err :: "('a \<Rightarrow> (version_error, 'b) result) \<Rightarrow> 'a list \<Rightarrow> (version_error, 'b list) result" where
  "map_err f [] = Inr []"
| "map_err f (x # xs) = res_bind (f x) (\<lambda>y. res_bind (map_err f xs) (\<lambda>ys. Inr (y # ys)))"

definition validate_bindings ::
  "version_db \<Rightarrow> string \<Rightarrow> string \<Rightarrow> pyval dict \<Rightarrow> pyval list \<Rightarrow> (version_error, string list \<times> string list) result" where
  "validate_bindings db owner environment bindings nodes =
     res_bind (normalize_environment environment) (\<lambda>env.
     res_bind (map_err (installation_error db owner env) (bound_installations bindings)) (\<lambda>errors.
     res_bind (crash_or (map_res (binding_warnings bindings) (dict_items nodes))) (\<lambda>warnings.
       Inr (concat errors, concat warnings))))"

section \<open>Promotion and rollback\<close>

definition put_deployment :: "deployment \<Rightarrow> version_db \<Rightarrow> version_db" where
  "put_deployment p db = db\<lparr>vd_deployments := map (\<lambda>q. if dp_id q = dp_id p then p else q) (vd_deployments db)\<rparr>"

definition store_deployment ::
  "version_env \<Rightarrow> string \<Rightarrow> string \<Rightarrow> string \<Rightarrow> pyval dict \<Rightarrow> string option \<Rightarrow> deployment option \<Rightarrow> version_db \<Rightarrow>
   version_db \<times> deployment" where
  "store_deployment env workflow environment version bindings actor existing db =
     (case existing of
        None \<Rightarrow>
          (case fresh_row env db of
             (i, db) \<Rightarrow>
               (let p = \<lparr>dp_id = i, dp_workflow = workflow, dp_environment = environment, dp_version = version,
                         dp_bindings = bindings, dp_by = actor, dp_at = ve_now env,
                         dp_metadata = [(''action'', PStr ''promote'')]\<rparr>
                in (db\<lparr>vd_deployments := vd_deployments db @ [p]\<rparr>, p)))
      | Some q \<Rightarrow>
          (let p = q\<lparr>dp_version := version, dp_bindings := bindings, dp_by := actor, dp_at := ve_now env,
                     dp_metadata := dset ''action'' (PStr ''promote'') (dp_metadata q)\<rparr>
           in (put_deployment p db, p)))"

definition log_deployment ::
  "version_env \<Rightarrow> string \<Rightarrow> deployment \<Rightarrow> deployment option \<Rightarrow> string option \<Rightarrow> pyval dict \<Rightarrow> version_db \<Rightarrow> version_db" where
  "log_deployment env action p previous actor metadata db =
     (case fresh_row env db of
        (i, db) \<Rightarrow>
          db\<lparr>vd_events := vd_events db @
            [\<lparr>dv_id = i, dv_workflow = dp_workflow p, dv_environment = dp_environment p, dv_action = action,
              dv_version = dp_version p, dv_bindings = dp_bindings p,
              dv_previous_version = map_option dp_version previous,
              dv_previous_bindings = map_option dp_bindings previous, dv_actor = actor,
              dv_created = ve_now env, dv_metadata = metadata\<rparr>]\<rparr>)"

definition promote ::
  "version_env \<Rightarrow> string \<Rightarrow> string \<Rightarrow> pyval dict option \<Rightarrow> string option \<Rightarrow> definition_row \<Rightarrow> version_db \<Rightarrow>
   deployment version_result" where
  "promote env environment version_id bindings actor d db =
     res_bind (normalize_environment environment) (\<lambda>e.
     case get_version_row db (Some version_id) of
       None \<Rightarrow> Inl (VersionError ''workflow version not found'')
     | Some v \<Rightarrow>
         if wv_workflow_id v \<noteq> wdf_id d then Inl (VersionError ''workflow version not found'')
         else if \<not> vr_published v
         then Inl (VersionError ''only published versions can be promoted to an environment'')
         else
           res_bind (case bindings of
               Some (b # bs) \<Rightarrow> Inr (b # bs)
             | _ \<Rightarrow> crash_or (extract_bindings_from_graph (wv_nodes v))) (\<lambda>bindings.
           res_bind (validate_bindings db (wdf_owner_id d) e bindings (wv_nodes v)) (\<lambda>(errors, warnings).
           if errors \<noteq> [] then Inl (InvalidGraph errors)
           else
             res_bind (get_deployment db d e) (\<lambda>existing.
             case store_deployment env (wdf_id d) e (wv_id v) bindings actor existing db of
               (db, p) \<Rightarrow>
                 (let db = log_deployment env ''promote'' p existing actor [] db;
                      d = (if e = ''dev'' then d\<lparr>dr_published := Some (wv_id v), dr_status := ''active''\<rparr> else d)
                  in Inr (d, audit ''workflow.promote'' d db, p))))))"

text \<open>The events of a query, newest first; the query leaves open the order of events of one instant.\<close>

definition events_of :: "version_db \<Rightarrow> definition_row \<Rightarrow> string \<Rightarrow> deployment_event list" where
  "events_of db d e =
     sort_key (\<lambda>v. - dv_created v)
       (filter (\<lambda>v. dv_workflow v = wdf_id d \<and> dv_environment v = e) (vd_events db))"

definition promotions :: "version_db \<Rightarrow> definition_row \<Rightarrow> string \<Rightarrow> deployment_event list" where
  "promotions db d e = filter (\<lambda>v. dv_action v = ''promote'') (events_of db d e)"

definition rollback_environment ::
  "version_env \<Rightarrow> string \<Rightarrow> string option \<Rightarrow> definition_row \<Rightarrow> version_db \<Rightarrow> deployment version_result" where
  "rollback_environment env environment actor d db =
     res_bind (normalize_environment environment) (\<lambda>e.
     case take 2 (promotions db d e) of
       [_, previous] \<Rightarrow>
         res_bind (get_deployment db d e) (\<lambda>found.
         case found of
           None \<Rightarrow> Inl (VersionError ''no active deployment'')
         | Some q \<Rightarrow>
             (let p = q\<lparr>dp_version := dv_version previous, dp_bindings := dv_bindings previous, dp_by := actor,
                        dp_at := ve_now env\<rparr>;
                  db = log_deployment env ''rollback'' p (Some q) actor
                         [(''restored_from_event_id'', PStr (dv_id previous))] (put_deployment p db)
              in Inr (d, audit ''workflow.rollback_environment'' d db, p)))
     | _ \<Rightarrow> Inl (VersionError ''no previous deployment to roll back to''))"

definition diff_promotion ::
  "version_env \<Rightarrow> (edge_key list \<Rightarrow> edge_key list) \<Rightarrow> string \<Rightarrow> string \<Rightarrow> pyval dict option \<Rightarrow> definition_row \<Rightarrow>
   version_db \<Rightarrow> (version_error, graph_diff \<times> binding_diff) result" where
  "diff_promotion env ord environment candidate_id bindings d db =
     res_bind (normalize_environment environment) (\<lambda>e.
     case get_version_row db (Some candidate_id) of
       None \<Rightarrow> Inl (VersionError ''workflow version not found'')
     | Some candidate \<Rightarrow>
         if wv_workflow_id candidate \<noteq> wdf_id d then Inl (VersionError ''workflow version not found'')
         else
           res_bind (get_deployment db d e) (\<lambda>current.
           let version = (case current of Some p \<Rightarrow> get_version_row db (Some (dp_version p)) | None \<Rightarrow> get_published db d);
               (ns, es, entry) = (case version of None \<Rightarrow> ([], [], None) | Some v \<Rightarrow> graph_of v)
           in res_bind (case current of
                  Some p \<Rightarrow> Inr (dp_bindings p)
                | None \<Rightarrow> crash_or (extract_bindings_from_graph ns)) (\<lambda>before.
              res_bind (case bindings of
                  Some (b # bs) \<Rightarrow> Inr (b # bs)
                | _ \<Rightarrow> crash_or (extract_bindings_from_graph (wv_nodes candidate))) (\<lambda>after.
                Inr (diff_workflow_graphs (ve_sha env) ord (ns, es, entry) (graph_of candidate),
                     diff_bindings before after)))))"

definition list_history ::
  "string \<Rightarrow> nat \<Rightarrow> definition_row \<Rightarrow> version_db \<Rightarrow> (version_error, deployment_event list) result" where
  "list_history environment limit d db =
     res_bind (normalize_environment environment) (\<lambda>e. Inr (take limit (events_of db d e)))"

section \<open>What the runner asks for\<close>

text \<open>The graph of an environment, in the form the runner's surroundings promise it.\<close>

definition error_text :: "version_error \<Rightarrow> string" where
  "error_text e = (case e of VersionError m \<Rightarrow> m | VersionImmutable m \<Rightarrow> m | InvalidGraph _ \<Rightarrow> ''ValueError''
     | VersionCrash m \<Rightarrow> m)"

definition environment_graph :: "version_db \<Rightarrow> wf_definition \<Rightarrow> string \<Rightarrow> (string, wf_version) result" where
  "environment_graph db w environment =
     (case find (\<lambda>d. wdf_id d = wdf_id w) (vd_definitions db) of
        None \<Rightarrow> Inl ''ValueError''
      | Some d \<Rightarrow>
          (case resolved_graph_for_environment db d environment of
             Inl e \<Rightarrow> Inl (error_text e)
           | Inr (v, nodes) \<Rightarrow> Inr ((wf_version.truncate v)\<lparr>wv_nodes := nodes\<rparr>)))"

end
