(* ===== verification/Workflow_Version_Properties.thy ===== *)
theory Workflow_Version_Properties
  imports Workflow_Environments
begin

text \<open>
  What holds of the stored versions and deployments of workflows whatever is edited, published,
  promoted and rolled back.
\<close>

section \<open>Well-formed tables\<close>

definition version_ok :: "version_db \<Rightarrow> string \<Rightarrow> string \<Rightarrow> bool" where
  "version_ok db i w \<longleftrightarrow>
     (\<exists>v \<in> set (vd_versions db). wv_id v = i \<and> vr_published v \<and> wv_workflow_id v = w)"

definition draft_ok :: "version_db \<Rightarrow> string \<Rightarrow> string \<Rightarrow> bool" where
  "draft_ok db i w \<longleftrightarrow>
     (\<exists>v \<in> set (vd_versions db). wv_id v = i \<and> \<not> vr_published v \<and> wv_workflow_id v = w)"

definition definition_ok :: "version_db \<Rightarrow> definition_row \<Rightarrow> bool" where
  "definition_ok db d \<longleftrightarrow>
     (\<forall>i. dr_draft d = Some i \<longrightarrow> draft_ok db i (wdf_id d)) \<and>
     (\<forall>i. dr_published d = Some i \<longrightarrow> version_ok db i (wdf_id d))"

text \<open>The hash of the graph a row stores.\<close>

definition stored_hash :: "(string \<Rightarrow> string) \<Rightarrow> version_row \<Rightarrow> string" where
  "stored_hash sha v = workflow_graph_hash sha
     \<lparr>wg_nodes = dict_items (wv_nodes v), wg_edges = dict_items (wv_edges v), wg_entry = wv_entry v\<rparr>"

definition versions_ok :: "(string \<Rightarrow> string) \<Rightarrow> (nat \<Rightarrow> string) \<Rightarrow> version_db \<Rightarrow> bool" where
  "versions_ok sha uuid db \<longleftrightarrow>
     distinct (map wv_id (vd_versions db)) \<and>
     (\<forall>v \<in> set (vd_versions db). \<exists>n < vd_fresh db. wv_id v = uuid n) \<and>
     (\<forall>v \<in> set (vd_versions db). vr_published v \<longrightarrow> 0 < vr_number v \<and> vr_hash v = Some (stored_hash sha v)) \<and>
     (\<forall>v \<in> set (vd_versions db). \<forall>w \<in> set (vd_versions db). vr_published v \<and> vr_published w \<and>
        wv_workflow_id v = wv_workflow_id w \<and> vr_number v = vr_number w \<longrightarrow> v = w)"

definition deployments_ok :: "(nat \<Rightarrow> string) \<Rightarrow> version_db \<Rightarrow> bool" where
  "deployments_ok uuid db \<longleftrightarrow>
     distinct (map dp_id (vd_deployments db)) \<and>
     distinct (map (\<lambda>p. (dp_workflow p, dp_environment p)) (vd_deployments db)) \<and>
     (\<forall>p \<in> set (vd_deployments db). (\<exists>n < vd_fresh db. dp_id p = uuid n) \<and>
        dp_environment p \<in> set WORKFLOW_ENVIRONMENTS \<and> version_ok db (dp_version p) (dp_workflow p)) \<and>
     (\<forall>e \<in> set (vd_events db). version_ok db (dv_version e) (dv_workflow e))"

definition tables_ok :: "(string \<Rightarrow> string) \<Rightarrow> (nat \<Rightarrow> string) \<Rightarrow> version_db \<Rightarrow> bool" where
  "tables_ok sha uuid db \<longleftrightarrow> versions_ok sha uuid db \<and> deployments_ok uuid db"

definition proper_ids :: "(nat \<Rightarrow> string) \<Rightarrow> bool" where
  "proper_ids uuid \<longleftrightarrow> inj uuid \<and> (\<forall>n. uuid n \<noteq> [])"

definition surroundings :: "(string \<Rightarrow> string) \<Rightarrow> (nat \<Rightarrow> string) \<Rightarrow> version_env \<Rightarrow> bool" where
  "surroundings sha uuid env \<longleftrightarrow> ve_sha env = sha \<and> ve_uuid env = uuid"

text \<open>What no operation takes away.\<close>

definition keeps :: "version_db \<Rightarrow> version_db \<Rightarrow> bool" where
  "keeps db db' \<longleftrightarrow> vd_definitions db' = vd_definitions db \<and> vd_fresh db \<le> vd_fresh db' \<and>
     (\<forall>v \<in> set (vd_versions db). vr_published v \<longrightarrow> v \<in> set (vd_versions db')) \<and>
     (\<forall>i w. draft_ok db i w \<longrightarrow> draft_ok db' i w)"

lemma keeps_refl [simp]: "keeps db db"
  by (simp add: keeps_def)

lemma keeps_trans [trans]: "keeps a b \<Longrightarrow> keeps b c \<Longrightarrow> keeps a c"
  by (simp add: keeps_def)

lemma keeps_version: "keeps db db' \<Longrightarrow> version_ok db i w \<Longrightarrow> version_ok db' i w"
  by (auto simp: keeps_def version_ok_def)

lemma keeps_definition: "keeps db db' \<Longrightarrow> definition_ok db d \<Longrightarrow> definition_ok db' d"
  using keeps_version by (auto simp: keeps_def definition_ok_def)

section \<open>Elementary changes of the tables\<close>

lemma fold_max_ge: "(x::int) \<in> set (n # ns) \<Longrightarrow> x \<le> fold max ns n"
  unfolding Max.set_eq_fold [symmetric] by (rule Max_ge) simp_all

lemma next_number_greater: "v \<in> set (published_of db w) \<Longrightarrow> vr_number v < next_published_version_number db w"
proof -
  assume "v \<in> set (published_of db w)"
  then have "vr_number v \<in> set (map vr_number (published_of db w))" by simp
  then obtain n ns where ns: "map vr_number (published_of db w) = n # ns" "vr_number v \<in> set (n # ns)"
    by (cases "map vr_number (published_of db w)") auto
  then show ?thesis using fold_max_ge [OF ns(2)] by (simp add: next_published_version_number_def)
qed

lemma next_number_positive:
  assumes "versions_ok sha uuid db"
  shows "0 < next_published_version_number db w"
proof (cases "published_of db w")
  case (Cons v vs)
  then have v: "v \<in> set (published_of db w)" by simp
  then have "0 < vr_number v" using assms by (auto simp: published_of_def versions_ok_def)
  with next_number_greater [OF v] show ?thesis by simp
qed (simp add: next_published_version_number_def)

lemma add_version:
  assumes "versions_ok sha uuid db" "proper_ids uuid" "fresh_row env db = (i, db1)" "surroundings sha uuid env"
    and "wv_id v = i"
    and "vr_published v \<Longrightarrow> vr_number v = next_published_version_number db (wv_workflow_id v)"
    and "vr_published v \<Longrightarrow> vr_hash v = Some (stored_hash sha v)"
  shows "versions_ok sha uuid (db1\<lparr>vd_versions := vd_versions db1 @ [v]\<rparr>)"
    and "keeps db (db1\<lparr>vd_versions := vd_versions db1 @ [v]\<rparr>)" and "i \<noteq> []"
proof -
  have i: "i = uuid (vd_fresh db)" "db1 = db\<lparr>vd_fresh := Suc (vd_fresh db)\<rparr>"
    using assms(3,4) by (auto simp: fresh_row_def surroundings_def)
  show "i \<noteq> []" using assms(2) i by (simp add: proper_ids_def)
  have new: "i \<notin> wv_id ` set (vd_versions db)"
  proof
    assume "i \<in> wv_id ` set (vd_versions db)"
    then obtain w where "w \<in> set (vd_versions db)" "wv_id w = i" by auto
    then obtain n where "n < vd_fresh db" "uuid n = uuid (vd_fresh db)"
      using assms(1) i unfolding versions_ok_def by metis
    then show False using assms(2) by (auto simp: proper_ids_def dest: injD)
  qed
  have old: "w \<in> set (vd_versions db) \<Longrightarrow> vr_published w \<Longrightarrow> vr_published v \<Longrightarrow>
      wv_workflow_id w = wv_workflow_id v \<Longrightarrow> vr_number w < vr_number v" for w
    using next_number_greater [of w db "wv_workflow_id v"] assms(6) by (simp add: published_of_def)
  have "\<exists>n < Suc (vd_fresh db). wv_id w = uuid n" if "w \<in> set (vd_versions db) \<or> w = v" for w
    using that assms(1,5) i unfolding versions_ok_def by (metis less_Suc_eq)
  moreover have "vr_published v \<longrightarrow> 0 < vr_number v" using assms(6) next_number_positive [OF assms(1)] by simp
  moreover have "\<exists>n < Suc (vd_fresh db). i = uuid n" using i by blast
  moreover have "x = y" if "x \<in> set (vd_versions db) \<or> x = v" "y \<in> set (vd_versions db) \<or> y = v"
      "vr_published x \<and> vr_published y \<and> wv_workflow_id x = wv_workflow_id y \<and> vr_number x = vr_number y" for x y
    using that old [of x] old [of y] assms(1) unfolding versions_ok_def by (metis less_irrefl)
  ultimately show "versions_ok sha uuid (db1\<lparr>vd_versions := vd_versions db1 @ [v]\<rparr>)"
    using assms(1,5,7) new unfolding versions_ok_def i(2) by simp
  show "keeps db (db1\<lparr>vd_versions := vd_versions db1 @ [v]\<rparr>)"
    unfolding i(2) by (auto simp: keeps_def draft_ok_def)
qed

text \<open>A draft is replaced by another state of itself.\<close>

lemma replace_draft:
  assumes "versions_ok sha uuid db" "u \<in> set (vd_versions db)" "\<not> vr_published u"
    and "wv_id v = wv_id u" "wv_workflow_id v = wv_workflow_id u" "\<not> vr_published v"
  shows "versions_ok sha uuid (put_version v db) \<and> keeps db (put_version v db) \<and>
    next_published_version_number (put_version v db) w = next_published_version_number db w"
proof -
  let ?r = "\<lambda>w. if wv_id w = wv_id v then v else w"
  have same: "w = u" if "w \<in> set (vd_versions db)" "wv_id w = wv_id v" for w
    using assms(1,2,4) that by (auto simp: versions_ok_def distinct_map dest: inj_onD)
  have ids: "map wv_id (map ?r (vd_versions db)) = map wv_id (vd_versions db)" by simp
  have pub: "w \<in> set (map ?r (vd_versions db)) \<and> vr_published w \<longleftrightarrow> w \<in> set (vd_versions db) \<and> vr_published w" for w
    using same assms(3,6) by (force simp: image_iff)
  have "filter (\<lambda>x. wv_workflow_id x = w \<and> vr_published x) (map ?r xs) =
      filter (\<lambda>x. wv_workflow_id x = w \<and> vr_published x) xs" if "set xs \<subseteq> set (vd_versions db)" for xs
    using that same assms(3,6) by (induction xs) auto
  then have "published_of (put_version v db) w = published_of db w"
    by (simp add: published_of_def put_version_def)
  then have number: "next_published_version_number (put_version v db) w = next_published_version_number db w"
    by (simp add: next_published_version_number_def)
  have drafts: "draft_ok (put_version v db) i w" if "draft_ok db i w" for i w
  proof -
    obtain x where x: "x \<in> set (vd_versions db)" "wv_id x = i" "\<not> vr_published x" "wv_workflow_id x = w"
      using \<open>draft_ok db i w\<close> by (auto simp: draft_ok_def)
    have "?r x \<in> set (vd_versions (put_version v db))" using x(1) by (simp add: put_version_def)
    moreover have "wv_id (?r x) = i" "\<not> vr_published (?r x)" "wv_workflow_id (?r x) = w"
      using x same [OF x(1)] assms(5,6) by auto
    ultimately show ?thesis unfolding draft_ok_def by blast
  qed
  have "versions_ok sha uuid (put_version v db)"
    unfolding versions_ok_def
  proof (intro conjI ballI impI)
    show "distinct (map wv_id (vd_versions (put_version v db)))"
      using assms(1) ids by (simp add: versions_ok_def put_version_def del: map_map)
  next
    fix x assume "x \<in> set (vd_versions (put_version v db))"
    then obtain y where "y \<in> set (vd_versions db)" "wv_id x = wv_id y" by (auto simp: put_version_def)
    then show "\<exists>n<vd_fresh (put_version v db). wv_id x = uuid n"
      using assms(1) by (auto simp: versions_ok_def put_version_def)
  next
    fix x assume "x \<in> set (vd_versions (put_version v db))" "vr_published x"
    then have "x \<in> set (vd_versions db)" using pub [of x] by (simp add: put_version_def)
    then show "0 < vr_number x" "vr_hash x = Some (stored_hash sha x)"
      using assms(1) \<open>vr_published x\<close> by (auto simp: versions_ok_def)
  next
    fix x y assume xy: "x \<in> set (vd_versions (put_version v db))" "y \<in> set (vd_versions (put_version v db))"
      "vr_published x \<and> vr_published y \<and> wv_workflow_id x = wv_workflow_id y \<and> vr_number x = vr_number y"
    then have "x \<in> set (vd_versions db)" "y \<in> set (vd_versions db)"
      using pub [of x] pub [of y] by (simp_all add: put_version_def)
    then show "x = y" using assms(1) xy(3) by (auto simp: versions_ok_def)
  qed
  moreover have "keeps db (put_version v db)"
    using pub drafts by (auto simp: keeps_def put_version_def)
  ultimately show ?thesis using number by blast
qed

text \<open>Deployments survive changes of the versions.\<close>

lemma deployments_keep:
  assumes "deployments_ok uuid db" "keeps db db'" "vd_deployments db' = vd_deployments db" "vd_events db' = vd_events db"
  shows "deployments_ok uuid db'"
  using assms(1,3,4) keeps_version [OF assms(2)] assms(2)
  by (auto simp: deployments_ok_def keeps_def intro: less_le_trans) (metis less_le_trans)

section \<open>Every operation\<close>

text \<open>What an operation on a definition guarantees.\<close>

definition op_safe ::
  "(string \<Rightarrow> string) \<Rightarrow> (nat \<Rightarrow> string) \<Rightarrow> definition_row \<Rightarrow> version_db \<Rightarrow> definition_row \<Rightarrow> version_db \<Rightarrow> bool" where
  "op_safe sha uuid d db d' db' \<longleftrightarrow> (tables_ok sha uuid db \<and> definition_ok db d \<longrightarrow>
     tables_ok sha uuid db' \<and> keeps db db' \<and> definition_ok db' d' \<and> wdf_id d' = wdf_id d)"

lemma op_safeI:
  "(tables_ok sha uuid db \<Longrightarrow> definition_ok db d \<Longrightarrow>
     tables_ok sha uuid db' \<and> keeps db db' \<and> definition_ok db' d' \<and> wdf_id d' = wdf_id d) \<Longrightarrow>
   op_safe sha uuid d db d' db'"
  by (simp add: op_safe_def)

lemma op_safe_refl [simp]: "op_safe sha uuid d db d db"
  by (simp add: op_safe_def)

lemma op_safe_trans: "op_safe sha uuid d db d1 db1 \<Longrightarrow> op_safe sha uuid d1 db1 d2 db2 \<Longrightarrow> op_safe sha uuid d db d2 db2"
  by (auto simp: op_safe_def intro: keeps_trans)

lemma tables_keep:
  "versions_ok sha uuid db' \<Longrightarrow> tables_ok sha uuid db \<Longrightarrow> keeps db db' \<Longrightarrow> vd_deployments db' = vd_deployments db \<Longrightarrow>
   vd_events db' = vd_events db \<Longrightarrow> tables_ok sha uuid db'"
  using deployments_keep by (auto simp: tables_ok_def)

lemma graph_record [simp]: "\<lparr>wg_nodes = wg_nodes g, wg_edges = wg_edges g, wg_entry = wg_entry g\<rparr> = g"
  by (cases g) simp

lemma with_graph_fields:
  assumes "with_graph env v nodes edges entry = (v', g)"
  shows "wv_id v' = wv_id v \<and> wv_workflow_id v' = wv_workflow_id v \<and> vr_published v' = vr_published v \<and>
    vr_number v' = vr_number v \<and> vr_hash v' = Some (stored_hash (ve_sha env) v')"
  using assms by (auto simp: with_graph_def apply_canonical_graph_to_version_def stored_hash_def Let_def)

lemma get_version_row_in:
  "get_version_row db i = Some v \<Longrightarrow> v \<in> set (vd_versions db) \<and> i = Some (wv_id v)"
  by (auto simp: get_version_row_def find_Some_iff split: option.splits if_splits)

lemma get_draft_unpublished:
  assumes "get_draft db d = Some v" "definition_ok db d" "versions_ok sha uuid db"
  shows "v \<in> set (vd_versions db) \<and> \<not> vr_published v \<and> wv_workflow_id v = wdf_id d"
proof -
  have v: "v \<in> set (vd_versions db)" "dr_draft d = Some (wv_id v)"
    using get_version_row_in assms(1) by (auto simp: get_draft_def)
  then obtain u where "u \<in> set (vd_versions db)" "wv_id u = wv_id v" "\<not> vr_published u" "wv_workflow_id u = wdf_id d"
    using assms(2) by (auto simp: definition_ok_def draft_ok_def)
  then show ?thesis using v assms(3) by (auto simp: versions_ok_def distinct_map dest: inj_onD)
qed

lemma new_draft_safe:
  assumes "new_draft env by nodes edges entry d db = (d', db', v)" "surroundings sha uuid env" "proper_ids uuid"
  shows "op_safe sha uuid d db d' db'"
    and "v \<in> set (vd_versions db') \<and> \<not> vr_published v \<and> wv_workflow_id v = wdf_id d"
proof -
  obtain i db1 where fresh: "fresh_row env db = (i, db1)" by fastforce
  then have db1: "vd_versions db1 = vd_versions db" by (auto simp: fresh_row_def)
  have v: "wv_id v = i" "\<not> vr_published v" "wv_workflow_id v = wdf_id d"
    "db' = db1\<lparr>vd_versions := vd_versions db1 @ [v]\<rparr>" "d' = d\<lparr>dr_draft := Some i, dr_current := Some i\<rparr>"
    using assms(1) with_graph_fields [OF surjective_pairing] fresh
    by (auto simp: new_draft_def Let_def split: if_splits)
  show "v \<in> set (vd_versions db') \<and> \<not> vr_published v \<and> wv_workflow_id v = wdf_id d" using v by simp
  show "op_safe sha uuid d db d' db'"
  proof (rule op_safeI)
    assume ok: "tables_ok sha uuid db" "definition_ok db d"
    have new: "versions_ok sha uuid db'" "keeps db db'"
      using add_version(1,2) [OF _ assms(3) fresh assms(2) v(1)] ok(1) v(2,4) by (auto simp: tables_ok_def)
    moreover have "tables_ok sha uuid db'"
      using tables_keep [OF new(1) ok(1) new(2)] fresh v(4) by (auto simp: fresh_row_def)
    moreover have "draft_ok db' i (wdf_id d)" using v by (auto simp: draft_ok_def)
    ultimately show "tables_ok sha uuid db' \<and> keeps db db' \<and> definition_ok db' d' \<and> wdf_id d' = wdf_id d"
      using keeps_definition [OF new(2) ok(2)] v(5) by (simp add: definition_ok_def)
  qed
qed

lemma draft_or_new_safe:
  assumes "draft_or_new env by d db = (d', db', v)" "surroundings sha uuid env" "proper_ids uuid"
    and "tables_ok sha uuid db" "definition_ok db d"
  shows "tables_ok sha uuid db' \<and> keeps db db' \<and> definition_ok db' d' \<and> wdf_id d' = wdf_id d \<and>
    v \<in> set (vd_versions db') \<and> \<not> vr_published v \<and> wv_workflow_id v = wdf_id d"
proof (cases "get_draft db d")
  case None
  then have new: "new_draft env by [] [] None d db = (d', db', v)" using assms(1) by (simp add: draft_or_new_def)
  show ?thesis
    using new_draft_safe [OF new assms(2,3)] assms(4,5) by (simp add: op_safe_def)
next
  case (Some u)
  then have "d' = d \<and> db' = db \<and> v = u" using assms(1) by (simp add: draft_or_new_def)
  then show ?thesis using get_draft_unpublished [OF Some assms(5)] assms(4,5) by (auto simp: tables_ok_def)
qed

text \<open>The draft of a definition takes a new graph.\<close>

lemma draft_edited:
  assumes "tables_ok sha uuid db" "definition_ok db d" "u \<in> set (vd_versions db)" "\<not> vr_published u"
    and "wv_workflow_id u = wdf_id d" "wv_id w = wv_id u" "wv_workflow_id w = wv_workflow_id u" "\<not> vr_published w"
    and "dr_draft d' = Some (wv_id w)" "dr_published d' = dr_published d" "wdf_id d' = wdf_id d"
  shows "tables_ok sha uuid (put_version w db) \<and> keeps db (put_version w db) \<and> definition_ok (put_version w db) d'"
proof -
  have r: "versions_ok sha uuid (put_version w db)" "keeps db (put_version w db)"
    using replace_draft [of sha uuid db u w] assms(1,3-8) by (auto simp: tables_ok_def)
  moreover have "tables_ok sha uuid (put_version w db)"
    using tables_keep [OF r(1) assms(1) r(2)] by (simp add: put_version_def)
  moreover have "draft_ok (put_version w db) (wv_id w) (wdf_id d)"
    using assms(3,5-8) by (force simp: draft_ok_def put_version_def)
  ultimately show ?thesis
    using keeps_version [OF r(2)] assms(2,9-11) by (auto simp: definition_ok_def)
qed

lemma update_draft_safe:
  assumes "update_draft env nodes edges entry actor d db = Inr (d', db', v)" "surroundings sha uuid env" "proper_ids uuid"
  shows "op_safe sha uuid d db d' db'"
proof (rule op_safeI)
  assume ok: "tables_ok sha uuid db" "definition_ok db d"
  obtain d1 db1 u where first: "draft_or_new env actor d db = (d1, db1, u)" by (metis prod_cases3)
  note one = draft_or_new_safe [OF first assms(2,3) ok]
  let ?u = "fst (with_graph env u nodes edges entry)"
  define w where "w = ?u\<lparr>vr_created_by := if truthy (opt_str actor) then actor else vr_created_by u\<rparr>"
  have w: "wv_id w = wv_id u" "wv_workflow_id w = wv_workflow_id u" "vr_published w = vr_published u"
    using with_graph_fields [OF surjective_pairing, of env u nodes edges entry] by (simp_all add: w_def)
  have result: "db' = put_version w db1" "dr_draft d' = Some (wv_id w)" "wdf_id d' = wdf_id d1"
      "dr_published d' = dr_published d1"
    using assms(1) first by (auto simp: update_draft_def Let_def w_def split: if_splits)
  show "tables_ok sha uuid db' \<and> keeps db db' \<and> definition_ok db' d' \<and> wdf_id d' = wdf_id d"
    using draft_edited [of sha uuid db1 d1 u w d'] one w result keeps_trans [of db db1 db'] by simp
qed

lemma ensure_draft_safe:
  assumes "ensure_draft env creator nodes edges entry d db = Inr (d', db', v)" "surroundings sha uuid env" "proper_ids uuid"
  shows "op_safe sha uuid d db d' db'"
  using assms update_draft_safe [OF _ assms(2,3)] new_draft_safe(1) [OF _ assms(2,3)]
  by (auto simp: ensure_draft_def split: option.splits if_splits)

lemma publish_draft_safe:
  assumes "publish_draft env actor nodes edges entry d db = Inr (d', db', row)" "surroundings sha uuid env" "proper_ids uuid"
  shows "op_safe sha uuid d db d' db'"
proof (rule op_safeI)
  assume ok: "tables_ok sha uuid db" "definition_ok db d"
  obtain d1 db1 u where first: "draft_or_new env actor d db = (d1, db1, u)" by (metis prod_cases3)
  note one = draft_or_new_safe [OF first assms(2,3) ok]
  define ns where "ns = (case nodes of Some xs \<Rightarrow> xs | None \<Rightarrow> wv_nodes u)"
  define es where "es = (case edges of Some xs \<Rightarrow> xs | None \<Rightarrow> wv_edges u)"
  define e where "e = (case entry of Some s \<Rightarrow> Some s | None \<Rightarrow> wv_entry u)"
  define w where "w = fst (with_graph env u ns es e)"
  have w: "wv_id w = wv_id u" "wv_workflow_id w = wv_workflow_id u" "vr_published w = vr_published u"
    "vr_hash w = Some (stored_hash sha w)"
    using with_graph_fields [OF surjective_pairing, of env u ns es e] assms(2) by (simp_all add: w_def surroundings_def)
  obtain i db3 where fresh: "fresh_row env (put_version w db1) = (i, db3)" by fastforce
  have result: "d' = d1\<lparr>dr_published := Some i, dr_status := ''active'', dr_draft := Some (wv_id w), dr_current := Some (wv_id w)\<rparr>"
    "row = published_row i db3 d1 w actor" "db' = db3\<lparr>vd_versions := vd_versions db3 @ [row]\<rparr>"
    using assms(1) first fresh
    by (auto simp: publish_draft_def Let_def w_def ns_def es_def e_def split: if_splits)
  let ?d = "d1\<lparr>dr_draft := Some (wv_id w)\<rparr>"
  have two: "tables_ok sha uuid (put_version w db1)" "keeps db1 (put_version w db1)" "definition_ok (put_version w db1) ?d"
    using draft_edited [of sha uuid db1 d1 u w ?d] one w by simp_all
  have db3: "vd_versions db3 = vd_versions (put_version w db1)" "vd_deployments db3 = vd_deployments (put_version w db1)"
    "vd_events db3 = vd_events (put_version w db1)" using fresh by (auto simp: fresh_row_def)
  have row: "wv_id row = i" "vr_published row" "wv_workflow_id row = wdf_id d1"
    "vr_number row = next_published_version_number (put_version w db1) (wdf_id d1)" "vr_hash row = Some (stored_hash sha row)"
    using result(2) w(4) db3(1)
    by (simp_all add: published_row_def next_published_version_number_def published_of_def stored_hash_def)
  have three: "versions_ok sha uuid db'" "keeps (put_version w db1) db'"
    using add_version [OF _ assms(3) fresh assms(2) row(1)] two(1) row result(3) by (auto simp: tables_ok_def)
  have "tables_ok sha uuid db'"
    using tables_keep [OF three(1) two(1) three(2)] db3 result(3) by simp
  moreover have "keeps db db'" using one two(2) three(2) keeps_trans by blast
  moreover have "version_ok db' i (wdf_id d1)" using row result(3) by (auto simp: version_ok_def)
  ultimately show "tables_ok sha uuid db' \<and> keeps db db' \<and> definition_ok db' d' \<and> wdf_id d' = wdf_id d"
    using keeps_definition [OF three(2) two(3)] result(1) one by (auto simp: definition_ok_def)
qed

lemma version_found:
  "get_version_row db i = Some v \<Longrightarrow> vr_published v \<Longrightarrow> version_ok db (wv_id v) (wv_workflow_id v)"
  by (auto simp: version_ok_def dest: get_version_row_in)

lemma audit_same [simp]:
  "vd_definitions (audit a d db) = vd_definitions db" "vd_versions (audit a d db) = vd_versions db"
  "vd_deployments (audit a d db) = vd_deployments db" "vd_events (audit a d db) = vd_events db"
  "vd_installations (audit a d db) = vd_installations db" "vd_fresh (audit a d db) = vd_fresh db"
  by (simp_all add: audit_def)

lemma audit_ok [simp]:
  "versions_ok sha uuid (audit a d db) = versions_ok sha uuid db" "deployments_ok uuid (audit a d db) = deployments_ok uuid db"
  "tables_ok sha uuid (audit a d db) = tables_ok sha uuid db" "keeps db1 (audit a d db) = keeps db1 db"
  "version_ok (audit a d db) i w = version_ok db i w" "draft_ok (audit a d db) i w = draft_ok db i w"
  "definition_ok (audit a d db) e = definition_ok db e"
  by (simp_all add: tables_ok_def versions_ok_def deployments_ok_def version_ok_def keeps_def draft_ok_def definition_ok_def)

lemma rollback_to_version_safe:
  assumes "rollback_to_version target d db = Inr (d', db', v)"
  shows "op_safe sha uuid d db d' db'"
proof (rule op_safeI)
  assume ok: "tables_ok sha uuid db" "definition_ok db d"
  have v: "get_version_row db (Some target) = Some v" "vr_published v" "wv_workflow_id v = wdf_id d"
    "db' = audit ''workflow.rollback'' d db" "d' = d\<lparr>dr_published := Some (wv_id v), dr_status := ''active''\<rparr>"
    using assms by (auto simp: rollback_to_version_def split: option.splits if_splits)
  show "tables_ok sha uuid db' \<and> keeps db db' \<and> definition_ok db' d' \<and> wdf_id d' = wdf_id d"
    using ok v version_found [OF v(1,2)] by (simp add: definition_ok_def)
qed

lemma normalize_Inr: "normalize_environment x = Inr e \<Longrightarrow> e \<in> set WORKFLOW_ENVIRONMENTS"
  by (auto simp: normalize_environment_def Let_def split: if_splits)

lemma normalize_twice [simp]: "e \<in> set WORKFLOW_ENVIRONMENTS \<Longrightarrow> normalize_environment e = Inr e"
  by (auto simp: WORKFLOW_ENVIRONMENTS_def normalize_environment_def lower_or_dev_def py_lower_def py_strip_def
      is_space_def lower_char_def)

lemma get_deployment_Inr:
  assumes "get_deployment db d e = Inr p" "e \<in> set WORKFLOW_ENVIRONMENTS"
  shows "p = find (\<lambda>p. dp_workflow p = wdf_id d \<and> dp_environment p = e) (vd_deployments db)"
  using assms by (simp add: get_deployment_def)

lemma version_ok_same: "vd_versions db' = vd_versions db \<Longrightarrow> version_ok db' i w = version_ok db i w"
  by (simp add: version_ok_def)

lemma replace_deployment:
  assumes "deployments_ok uuid db" "q \<in> set (vd_deployments db)" "dp_id p = dp_id q" "dp_workflow p = dp_workflow q"
    and "dp_environment p = dp_environment q" "version_ok db (dp_version p) (dp_workflow p)"
  shows "deployments_ok uuid (put_deployment p db) \<and> keeps db (put_deployment p db) \<and>
    vd_versions (put_deployment p db) = vd_versions db"
proof -
  let ?db = "put_deployment p db"
  have same: "x = q" if "x \<in> set (vd_deployments db)" "dp_id x = dp_id p" for x
    using that assms(1-3) by (auto simp: deployments_ok_def distinct_map dest: inj_onD)
  have keys: "map (\<lambda>p. (dp_workflow p, dp_environment p)) (vd_deployments ?db) =
      map (\<lambda>p. (dp_workflow p, dp_environment p)) (vd_deployments db)"
    "map dp_id (vd_deployments ?db) = map dp_id (vd_deployments db)"
    using same assms(3-5) by (auto simp: put_deployment_def)
  have "(\<exists>n < vd_fresh db. dp_id x = uuid n) \<and> dp_environment x \<in> set WORKFLOW_ENVIRONMENTS \<and>
      version_ok db (dp_version x) (dp_workflow x)" if "x \<in> set (vd_deployments ?db)" for x
  proof (cases "x = p")
    case True
    then show ?thesis using assms by (auto simp: deployments_ok_def)
  next
    case False
    then have "x \<in> set (vd_deployments db)" using that by (auto simp: put_deployment_def split: if_splits)
    then show ?thesis using assms(1) by (auto simp: deployments_ok_def)
  qed
  moreover have "vd_versions ?db = vd_versions db" "vd_events ?db = vd_events db" "vd_fresh ?db = vd_fresh db"
    "vd_definitions ?db = vd_definitions db"
    by (simp_all add: put_deployment_def)
  moreover have "version_ok ?db i x = version_ok db i x" "draft_ok ?db i x = draft_ok db i x" for i x
    by (simp_all add: version_ok_def draft_ok_def put_deployment_def)
  ultimately show ?thesis using assms(1) keys by (simp add: deployments_ok_def keeps_def)
qed

text \<open>A deployment is written and an event recorded, both of a published version of the workflow.\<close>

lemma store_deployment_ok:
  assumes "store_deployment env w e v bs actor existing db = (db', p)" "deployments_ok uuid db"
    and "surroundings sha uuid env" "proper_ids uuid" "version_ok db v w" "e \<in> set WORKFLOW_ENVIRONMENTS"
    and "existing = find (\<lambda>p. dp_workflow p = w \<and> dp_environment p = e) (vd_deployments db)"
  shows "deployments_ok uuid db' \<and> keeps db db' \<and> vd_versions db' = vd_versions db \<and> vd_events db' = vd_events db \<and>
    dp_workflow p = w \<and> dp_environment p = e \<and> dp_version p = v \<and> dp_bindings p = bs"
proof (cases existing)
  case None
  have new: "(w, e) \<notin> (\<lambda>p. (dp_workflow p, dp_environment p)) ` set (vd_deployments db)"
    using None assms(7) by (auto simp: find_None_iff)
  obtain i db1 where fresh: "fresh_row env db = (i, db1)" by fastforce
  then have i: "i = uuid (vd_fresh db)" "db1 = db\<lparr>vd_fresh := Suc (vd_fresh db)\<rparr>"
    using assms(3) by (auto simp: fresh_row_def surroundings_def)
  have "i \<notin> dp_id ` set (vd_deployments db)"
  proof
    assume "i \<in> dp_id ` set (vd_deployments db)"
    then obtain q where "q \<in> set (vd_deployments db)" "dp_id q = i" by auto
    then obtain n where "n < vd_fresh db" "uuid n = uuid (vd_fresh db)"
      using assms(2) i unfolding deployments_ok_def by metis
    then show False using assms(4) by (auto simp: proper_ids_def dest: injD)
  qed
  moreover have "\<exists>n < Suc (vd_fresh db). i = uuid n" using i by blast
  moreover have "\<exists>n < Suc (vd_fresh db). dp_id q = uuid n" if "q \<in> set (vd_deployments db)" for q
    using that assms(2) unfolding deployments_ok_def by (metis less_Suc_eq)
  moreover have p: "db' = db\<lparr>vd_fresh := Suc (vd_fresh db), vd_deployments := vd_deployments db @ [p]\<rparr>"
    "dp_id p = i" "dp_workflow p = w" "dp_environment p = e" "dp_version p = v" "dp_bindings p = bs"
    using None assms(1) fresh i(2) by (auto simp: store_deployment_def Let_def)
  moreover have "version_ok (db\<lparr>vd_fresh := n, vd_deployments := ps\<rparr>) j x = version_ok db j x" for n ps j x
    by (simp add: version_ok_def)
  ultimately have "deployments_ok uuid db'"
    using assms(2,5,6) new by (auto simp: deployments_ok_def)
  then show ?thesis using p by (simp add: keeps_def draft_ok_def)
next
  case (Some q)
  then have q: "q \<in> set (vd_deployments db)" "dp_workflow q = w" "dp_environment q = e"
    using assms(7) by (auto simp: find_Some_iff)
  have p: "db' = put_deployment p db" "dp_id p = dp_id q" "dp_workflow p = w" "dp_environment p = e"
    "dp_version p = v" "dp_bindings p = bs"
    using Some assms(1) q by (auto simp: store_deployment_def Let_def)
  show ?thesis
    using replace_deployment [OF assms(2) q(1), of p] p q assms(5) by (simp add: put_deployment_def)
qed

lemma log_deployment_ok:
  assumes "deployments_ok uuid db" "version_ok db (dp_version p) (dp_workflow p)"
  shows "deployments_ok uuid (log_deployment env action p previous actor m db) \<and>
    keeps db (log_deployment env action p previous actor m db) \<and>
    vd_versions (log_deployment env action p previous actor m db) = vd_versions db \<and>
    vd_deployments (log_deployment env action p previous actor m db) = vd_deployments db"
proof -
  have "version_ok (db\<lparr>vd_fresh := n, vd_events := es\<rparr>) j x = version_ok db j x"
    "draft_ok (db\<lparr>vd_fresh := n, vd_events := es\<rparr>) j x = draft_ok db j x" for n es j x
    by (simp_all add: version_ok_def draft_ok_def)
  moreover have "\<exists>n < Suc (vd_fresh db). dp_id q = uuid n" if "q \<in> set (vd_deployments db)" for q
    using that assms(1) unfolding deployments_ok_def by (metis less_Suc_eq)
  ultimately show ?thesis
    using assms by (auto simp: log_deployment_def fresh_row_def deployments_ok_def keeps_def)
qed

lemma versions_keep:
  assumes "versions_ok sha uuid db" "vd_versions db' = vd_versions db" "vd_fresh db \<le> vd_fresh db'"
  shows "versions_ok sha uuid db'"
proof -
  have "\<exists>n < vd_fresh db'. wv_id v = uuid n" if v: "v \<in> set (vd_versions db)" for v
  proof -
    obtain n where "n < vd_fresh db" "wv_id v = uuid n" using v assms(1) unfolding versions_ok_def by blast
    then show ?thesis using assms(3) by (intro exI [of _ n]) simp
  qed
  then show ?thesis using assms(1,2) by (simp add: versions_ok_def)
qed

lemma deployed_ok:
  assumes "tables_ok sha uuid db" "deployments_ok uuid db'" "keeps db db'" "vd_versions db' = vd_versions db"
  shows "tables_ok sha uuid db'"
  using assms versions_keep [of sha uuid db db'] by (simp add: tables_ok_def keeps_def)

text \<open>What a promotion has checked and written.\<close>

lemma promote_Inr:
  assumes "promote env environment version_id bindings actor d db = Inr (d', db', p)"
  obtains e v bs warnings existing db1 where
    "normalize_environment environment = Inr e" "get_version_row db (Some version_id) = Some v"
    "wv_workflow_id v = wdf_id d" "vr_published v"
    "(case bindings of Some (b # bs) \<Rightarrow> Inr (b # bs) | _ \<Rightarrow> crash_or (extract_bindings_from_graph (wv_nodes v))) = Inr bs"
    "validate_bindings db (wdf_owner_id d) e bs (wv_nodes v) = Inr ([], warnings)"
    "existing = find (\<lambda>p. dp_workflow p = wdf_id d \<and> dp_environment p = e) (vd_deployments db)"
    "store_deployment env (wdf_id d) e (wv_id v) bs actor existing db = (db1, p)"
    "d' = (if e = ''dev'' then d\<lparr>dr_published := Some (wv_id v), dr_status := ''active''\<rparr> else d)"
    "db' = audit ''workflow.promote'' d' (log_deployment env ''promote'' p existing actor [] db1)"
proof -
  obtain e where e: "normalize_environment environment = Inr e"
    using assms by (auto simp: promote_def)
  obtain v where v: "get_version_row db (Some version_id) = Some v"
    using assms e by (auto simp: promote_def split: option.splits)
  have ok: "wv_workflow_id v = wdf_id d" "vr_published v"
    using assms e v by (auto simp: promote_def split: if_splits)
  obtain bs where bs:
    "(case bindings of Some (b # bs) \<Rightarrow> Inr (b # bs) | _ \<Rightarrow> crash_or (extract_bindings_from_graph (wv_nodes v))) = Inr bs"
    using assms e v ok by (auto simp: promote_def)
  obtain errors warnings where val: "validate_bindings db (wdf_owner_id d) e bs (wv_nodes v) = Inr (errors, warnings)"
    using assms e v ok bs by (auto simp: promote_def)
  have none: "errors = []" using assms e v ok bs val by (auto simp: promote_def split: if_splits)
  obtain existing where ex: "get_deployment db d e = Inr existing"
    using assms e v ok bs val none by (auto simp: promote_def)
  obtain db1 q where st: "store_deployment env (wdf_id d) e (wv_id v) bs actor existing db = (db1, q)" by fastforce
  show thesis
    by (rule that [OF e v ok bs val [unfolded none] get_deployment_Inr [OF ex normalize_Inr [OF e]] _ _ _])
      (use assms e v ok bs val none ex st in \<open>auto simp: promote_def Let_def split: if_splits\<close>)
qed

lemma promote_safe:
  assumes "promote env environment version_id bindings actor d db = Inr (d', db', p)"
    and "surroundings sha uuid env" "proper_ids uuid"
  shows "op_safe sha uuid d db d' db'"
proof (rule op_safeI)
  assume ok: "tables_ok sha uuid db" "definition_ok db d"
  obtain e v bs existing db1 where p: "normalize_environment environment = Inr e"
    "get_version_row db (Some version_id) = Some v" "wv_workflow_id v = wdf_id d" "vr_published v"
    "existing = find (\<lambda>p. dp_workflow p = wdf_id d \<and> dp_environment p = e) (vd_deployments db)"
    "store_deployment env (wdf_id d) e (wv_id v) bs actor existing db = (db1, p)"
    "d' = (if e = ''dev'' then d\<lparr>dr_published := Some (wv_id v), dr_status := ''active''\<rparr> else d)"
    "db' = audit ''workflow.promote'' d' (log_deployment env ''promote'' p existing actor [] db1)"
    using assms(1) by (rule promote_Inr)
  have v: "version_ok db (wv_id v) (wdf_id d)" using version_found [OF p(2,4)] p(3) by simp
  have one: "deployments_ok uuid db1" "keeps db db1" "vd_versions db1 = vd_versions db"
    "dp_workflow p = wdf_id d" "dp_version p = wv_id v"
    using store_deployment_ok [OF p(6) _ assms(2,3) v normalize_Inr [OF p(1)] p(5)] ok(1) by (auto simp: tables_ok_def)
  have two: "deployments_ok uuid db'" "keeps db1 db'" "vd_versions db' = vd_versions db1"
    using log_deployment_ok [OF one(1), of p env "''promote''" existing actor "[]"] keeps_version [OF one(2) v] one(4,5) p(8)
    by (auto simp: deployments_ok_def)
  have k: "keeps db db'" by (rule keeps_trans [OF one(2) two(2)])
  show "tables_ok sha uuid db' \<and> keeps db db' \<and> definition_ok db' d' \<and> wdf_id d' = wdf_id d"
    using deployed_ok [OF ok(1) two(1) k] two(3) one(3) k keeps_definition [OF k ok(2)] keeps_version [OF k v] p(7)
    by (simp add: definition_ok_def)
qed

lemma promotions_in: "v \<in> set (promotions db d e) \<Longrightarrow> v \<in> set (vd_events db) \<and> dv_workflow v = wdf_id d"
  by (auto simp: promotions_def events_of_def)

lemma rollback_Inr:
  assumes "rollback_environment env environment actor d db = Inr (d', db', p)"
  obtains e last previous rest q where "normalize_environment environment = Inr e"
    "promotions db d e = last # previous # rest"
    "find (\<lambda>p. dp_workflow p = wdf_id d \<and> dp_environment p = e) (vd_deployments db) = Some q"
    "p = q\<lparr>dp_version := dv_version previous, dp_bindings := dv_bindings previous, dp_by := actor, dp_at := ve_now env\<rparr>"
    "d' = d" "db' = audit ''workflow.rollback_environment'' d (log_deployment env ''rollback'' p (Some q) actor
       [(''restored_from_event_id'', PStr (dv_id previous))] (put_deployment p db))"
proof -
  obtain e where e: "normalize_environment environment = Inr e"
    using assms by (auto simp: rollback_environment_def)
  obtain last previous where two: "take 2 (promotions db d e) = [last, previous]"
    using assms e by (auto simp: rollback_environment_def split: list.splits)
  then have ps: "promotions db d e = last # previous # drop 2 (promotions db d e)"
    by (metis append_Cons append_Nil append_take_drop_id)
  obtain found where f: "get_deployment db d e = Inr found"
    using assms e two by (auto simp: rollback_environment_def)
  obtain q where q: "found = Some q"
    using assms e two f by (auto simp: rollback_environment_def split: option.splits)
  show thesis
    by (rule that [OF e ps get_deployment_Inr [OF f normalize_Inr [OF e], unfolded q, symmetric]])
      (use assms e two f q in \<open>auto simp: rollback_environment_def Let_def\<close>)
qed

lemma rollback_safe:
  assumes "rollback_environment env environment actor d db = Inr (d', db', p)"
  shows "op_safe sha uuid d db d' db'"
proof (rule op_safeI)
  assume ok: "tables_ok sha uuid db" "definition_ok db d"
  obtain e last previous rest q where r: "normalize_environment environment = Inr e"
    "promotions db d e = last # previous # rest"
    "find (\<lambda>p. dp_workflow p = wdf_id d \<and> dp_environment p = e) (vd_deployments db) = Some q"
    "p = q\<lparr>dp_version := dv_version previous, dp_bindings := dv_bindings previous, dp_by := actor, dp_at := ve_now env\<rparr>"
    "d' = d" "db' = audit ''workflow.rollback_environment'' d (log_deployment env ''rollback'' p (Some q) actor
       [(''restored_from_event_id'', PStr (dv_id previous))] (put_deployment p db))"
    using assms by (rule rollback_Inr)
  have q: "q \<in> set (vd_deployments db)" "dp_workflow q = wdf_id d" "dp_environment q = e"
    using r(3) by (auto simp: find_Some_iff)
  have v: "version_ok db (dv_version previous) (wdf_id d)"
    using promotions_in [of previous db d e] r(2) ok(1) by (auto simp: tables_ok_def deployments_ok_def)
  have one: "deployments_ok uuid (put_deployment p db)" "keeps db (put_deployment p db)"
    "vd_versions (put_deployment p db) = vd_versions db"
    using replace_deployment [OF _ q(1), of uuid p] ok(1) v q r(4) by (auto simp: tables_ok_def)
  have "version_ok (put_deployment p db) (dp_version p) (dp_workflow p)"
    using keeps_version [OF one(2) v] r(4) q(2) by simp
  from log_deployment_ok [OF one(1) this]
  have two: "deployments_ok uuid db'"
    "keeps (put_deployment p db) db'" "vd_versions db' = vd_versions (put_deployment p db)"
    unfolding r(6) by (simp_all add: tables_ok_def)
  have k: "keeps db db'" by (rule keeps_trans [OF one(2) two(2)])
  show "tables_ok sha uuid db' \<and> keeps db db' \<and> definition_ok db' d' \<and> wdf_id d' = wdf_id d"
    using deployed_ok [OF ok(1) two(1) k] two(3) one(3) k keeps_definition [OF k ok(2)] r(5) by simp
qed

section \<open>Sequences of operations\<close>

definition put_definition :: "definition_row \<Rightarrow> version_db \<Rightarrow> version_db" where
  "put_definition d db =
     db\<lparr>vd_definitions := map (\<lambda>e. if wdf_id e = wdf_id d then d else e) (vd_definitions db)\<rparr>"

text \<open>
  A request loads a stored definition, changes it and the tables, and commits; one that raises leaves
  no trace. Workflows are created without versions, and installations change in any way.
\<close>

inductive version_step :: "(string \<Rightarrow> string) \<Rightarrow> (nat \<Rightarrow> string) \<Rightarrow> version_db \<Rightarrow> version_db \<Rightarrow> bool"
  for sha uuid where
  create: "wdf_id d \<notin> wdf_id ` set (vd_definitions db) \<Longrightarrow> dr_draft d = None \<Longrightarrow> dr_published d = None \<Longrightarrow>
    version_step sha uuid db (db\<lparr>vd_definitions := vd_definitions db @ [d]\<rparr>)"
| install: "version_step sha uuid db (db\<lparr>vd_installations := rows\<rparr>)"
| ensure: "d \<in> set (vd_definitions db) \<Longrightarrow> surroundings sha uuid env \<Longrightarrow>
    ensure_draft env creator nodes edges entry d db = Inr (d', db', v) \<Longrightarrow> version_step sha uuid db (put_definition d' db')"
| update: "d \<in> set (vd_definitions db) \<Longrightarrow> surroundings sha uuid env \<Longrightarrow>
    update_draft env ns es entry actor d db = Inr (d', db', v) \<Longrightarrow> version_step sha uuid db (put_definition d' db')"
| publish: "d \<in> set (vd_definitions db) \<Longrightarrow> surroundings sha uuid env \<Longrightarrow>
    publish_draft env actor nodes edges entry d db = Inr (d', db', v) \<Longrightarrow> version_step sha uuid db (put_definition d' db')"
| revert: "d \<in> set (vd_definitions db) \<Longrightarrow> rollback_to_version target d db = Inr (d', db', v) \<Longrightarrow>
    version_step sha uuid db (put_definition d' db')"
| promote: "d \<in> set (vd_definitions db) \<Longrightarrow> surroundings sha uuid env \<Longrightarrow>
    promote env environment version bindings actor d db = Inr (d', db', p) \<Longrightarrow> version_step sha uuid db (put_definition d' db')"
| rollback: "d \<in> set (vd_definitions db) \<Longrightarrow> surroundings sha uuid env \<Longrightarrow>
    rollback_environment env environment actor d db = Inr (d', db', p) \<Longrightarrow> version_step sha uuid db (put_definition d' db')"

inductive version_run :: "(string \<Rightarrow> string) \<Rightarrow> (nat \<Rightarrow> string) \<Rightarrow> version_db \<Rightarrow> version_db \<Rightarrow> bool"
  for sha uuid where
  start: "version_run sha uuid db db"
| step: "version_run sha uuid db db1 \<Longrightarrow> version_step sha uuid db1 db2 \<Longrightarrow> version_run sha uuid db db2"

definition store_ok :: "(string \<Rightarrow> string) \<Rightarrow> (nat \<Rightarrow> string) \<Rightarrow> version_db \<Rightarrow> bool" where
  "store_ok sha uuid db \<longleftrightarrow> tables_ok sha uuid db \<and> distinct (map wdf_id (vd_definitions db)) \<and>
     (\<forall>d \<in> set (vd_definitions db). definition_ok db d)"

definition empty_versions :: version_db where
  "empty_versions = \<lparr>vd_definitions = [], vd_versions = [], vd_deployments = [], vd_events = [],
     vd_installations = [], vd_audit = [], vd_fresh = 0\<rparr>"

lemma empty_ok: "store_ok sha uuid empty_versions"
  by (simp add: store_ok_def tables_ok_def versions_ok_def deployments_ok_def empty_versions_def)

lemma other_definitions [simp]:
  "versions_ok sha uuid (db\<lparr>vd_definitions := ds\<rparr>) = versions_ok sha uuid db"
  "deployments_ok uuid (db\<lparr>vd_definitions := ds\<rparr>) = deployments_ok uuid db"
  "definition_ok (db\<lparr>vd_definitions := ds\<rparr>) d = definition_ok db d"
  "versions_ok sha uuid (db\<lparr>vd_installations := rs\<rparr>) = versions_ok sha uuid db"
  "deployments_ok uuid (db\<lparr>vd_installations := rs\<rparr>) = deployments_ok uuid db"
  "definition_ok (db\<lparr>vd_installations := rs\<rparr>) d = definition_ok db d"
  by (simp_all add: versions_ok_def deployments_ok_def definition_ok_def version_ok_def draft_ok_def)

lemma put_definition_ok:
  assumes "store_ok sha uuid db" "d \<in> set (vd_definitions db)" "op_safe sha uuid d db d' db'"
  shows "store_ok sha uuid (put_definition d' db') \<and>
    (\<forall>v \<in> set (vd_versions db). vr_published v \<longrightarrow> v \<in> set (vd_versions (put_definition d' db')))"
proof -
  have ok: "tables_ok sha uuid db'" "keeps db db'" "definition_ok db' d'" "wdf_id d' = wdf_id d"
    using assms by (auto simp: op_safe_def store_ok_def)
  have defs: "vd_definitions db' = vd_definitions db" using ok(2) by (simp add: keeps_def)
  have ids: "map wdf_id (vd_definitions (put_definition d' db')) = map wdf_id (vd_definitions db)"
    by (simp add: put_definition_def defs)
  have "definition_ok db' e" if "e \<in> set (vd_definitions (put_definition d' db'))" for e
    using that ok(3) keeps_definition [OF ok(2)] assms(1) defs
    by (auto simp: put_definition_def store_ok_def split: if_splits)
  then show ?thesis using ok assms(1) ids by (simp add: store_ok_def tables_ok_def keeps_def) (simp add: put_definition_def)
qed

lemma step_ok:
  assumes "version_step sha uuid db db'" "store_ok sha uuid db" "proper_ids uuid"
  shows "store_ok sha uuid db' \<and> (\<forall>v \<in> set (vd_versions db). vr_published v \<longrightarrow> v \<in> set (vd_versions db'))"
  using assms(1)
proof cases
  case (create d)
  then have "definition_ok db d" by (simp add: definition_ok_def)
  then show ?thesis using assms(2) create by (auto simp: store_ok_def tables_ok_def)
next
  case (install rows)
  then show ?thesis using assms(2) by (auto simp: store_ok_def tables_ok_def)
next
  case (ensure d env creator nodes edges entry d' db1 v)
  then show ?thesis using put_definition_ok [OF assms(2)] ensure_draft_safe [OF _ _ assms(3)] by metis
next
  case (update d env ns es entry actor d' db1 v)
  then show ?thesis using put_definition_ok [OF assms(2)] update_draft_safe [OF _ _ assms(3)] by metis
next
  case (publish d env actor nodes edges entry d' db1 v)
  then show ?thesis using put_definition_ok [OF assms(2)] publish_draft_safe [OF _ _ assms(3)] by metis
next
  case (revert d target d' db1 v)
  then show ?thesis using put_definition_ok [OF assms(2)] rollback_to_version_safe by metis
next
  case (promote d env environment version bindings actor d' db1 p)
  then show ?thesis using put_definition_ok [OF assms(2)] promote_safe [OF _ _ assms(3)] by metis
next
  case (rollback d env environment actor d' db1 p)
  then show ?thesis using put_definition_ok [OF assms(2)] rollback_safe by metis
qed

lemma run_ok:
  assumes "version_run sha uuid db db'" "store_ok sha uuid db" "proper_ids uuid"
  shows "store_ok sha uuid db' \<and> (\<forall>v \<in> set (vd_versions db). vr_published v \<longrightarrow> v \<in> set (vd_versions db'))"
  using assms(1,2)
proof (induction rule: version_run.induct)
  case (step db db1 db2)
  then show ?case using step_ok [OF step.hyps(2) _ assms(3)] by blast
qed simp

lemma find_by_key: "p \<in> set ps \<Longrightarrow> distinct (map f ps) \<Longrightarrow> find (\<lambda>q. f q = f p) ps = Some p"
  by (induction ps) auto

lemma version_row_found:
  assumes "versions_ok sha uuid db" "proper_ids uuid" "v \<in> set (vd_versions db)"
  shows "get_version_row db (Some (wv_id v)) = Some v"
  using assms find_by_key [of v "vd_versions db" wv_id]
  by (auto simp: get_version_row_def versions_ok_def proper_ids_def)

text \<open>
  C26. A published version is immutable: whatever is edited, published, reverted, promoted and rolled
  back afterwards, in any workflow, the row stays stored exactly as it was published.
\<close>

theorem published_versions_immutable:
  assumes "version_run sha uuid empty_versions db" "version_run sha uuid db db'" "proper_ids uuid"
    and "v \<in> set (vd_versions db)" "vr_published v"
  shows "v \<in> set (vd_versions db') \<and> get_version_row db' (Some (wv_id v)) = Some v"
proof -
  have ok: "store_ok sha uuid db'" "v \<in> set (vd_versions db')"
    using run_ok [OF assms(2) _ assms(3)] run_ok [OF assms(1) empty_ok assms(3)] assms(4,5) by blast+
  show ?thesis using version_row_found [OF _ assms(3) ok(2)] ok by (auto simp: store_ok_def tables_ok_def)
qed

text \<open>
  C27. In every reachable store the published versions of a workflow carry distinct positive numbers and
  the hash of the graph they store; a workflow has at most one deployment per environment, and it is of
  a published version of this workflow, so that the graph of a deployed environment always resolves to it,
  or fails on the shape of a node.
\<close>

theorem deployments_resolve:
  assumes "version_run sha uuid empty_versions db" "proper_ids uuid"
    and "d \<in> set (vd_definitions db)" "p \<in> set (vd_deployments db)" "dp_workflow p = wdf_id d"
  shows "\<exists>v. v \<in> set (vd_versions db) \<and> wv_id v = dp_version p \<and> wv_workflow_id v = wdf_id d \<and> vr_published v \<and>
    0 < vr_number v \<and> vr_hash v = Some (stored_hash sha v) \<and>
    list_all (\<lambda>w. w = v \<or> vr_number w \<noteq> vr_number v) (published_of db (wdf_id d)) \<and>
    resolve_version_for_environment db d (dp_environment p) = Inr (v, Some p)"
proof -
  have ok: "store_ok sha uuid db" using run_ok [OF assms(1) empty_ok assms(2)] by blast
  then have v_ok: "versions_ok sha uuid db" and d_ok: "deployments_ok uuid db" by (auto simp: store_ok_def tables_ok_def)
  obtain v where v: "v \<in> set (vd_versions db)" "wv_id v = dp_version p" "wv_workflow_id v = wdf_id d" "vr_published v"
    using d_ok assms(4,5) by (auto simp: deployments_ok_def version_ok_def)
  have "get_version_row db (Some (wv_id v)) = Some v"
    using version_row_found [OF v_ok assms(2) v(1)] .
  moreover have env: "dp_environment p \<in> set WORKFLOW_ENVIRONMENTS" using d_ok assms(4) by (auto simp: deployments_ok_def)
  moreover have "find (\<lambda>q. dp_workflow q = wdf_id d \<and> dp_environment q = dp_environment p) (vd_deployments db) = Some p"
    using d_ok assms(4,5) find_by_key [of p "vd_deployments db" "\<lambda>p. (dp_workflow p, dp_environment p)"]
    by (simp add: deployments_ok_def)
  ultimately have "resolve_version_for_environment db d (dp_environment p) = Inr (v, Some p)"
    using v by (simp add: resolve_version_for_environment_def get_deployment_def)
  moreover have "list_all (\<lambda>w. w = v \<or> vr_number w \<noteq> vr_number v) (published_of db (wdf_id d))"
    using v v_ok by (auto simp: list_all_iff published_of_def versions_ok_def)
  ultimately show ?thesis using v v_ok by (auto simp: versions_ok_def)
qed

end
