(* ===== verification/Workflow_Environment_Properties.thy ===== *)
theory Workflow_Environment_Properties
  imports Workflow_Version_Properties
begin

text \<open>
  What promotion and rollback do to a deployed environment, and which connector installations its
  graph is bound to.
\<close>

section \<open>The history of an environment\<close>

lemma insort_before: "f y < f x \<Longrightarrow> insort_key f x (y # ys) = y # insort_key f x ys" for f :: "'a \<Rightarrow> int"
  by auto

lemma newest_first:
  fixes f :: "'a \<Rightarrow> int"
  assumes "list_all (\<lambda>x. f y < f x) xs"
  shows "sort_key f (xs @ [y]) = y # sort_key f xs"
  using assms by (induction xs) (simp_all add: insort_before)

lemma promotions_alt:
  "promotions db d e = sort_key (\<lambda>v. - dv_created v)
     (filter (\<lambda>v. dv_workflow v = wdf_id d \<and> dv_environment v = e \<and> dv_action v = ''promote'') (vd_events db))"
  by (simp add: promotions_def events_of_def filter_sort)

lemma audit_events [simp]: "vd_events (audit a d db) = vd_events db"
  by (simp add: audit_def)

lemma log_events:
  "vd_events (log_deployment env action p previous actor m db) = vd_events db @
     [\<lparr>dv_id = ve_uuid env (vd_fresh db), dv_workflow = dp_workflow p, dv_environment = dp_environment p,
       dv_action = action, dv_version = dp_version p, dv_bindings = dp_bindings p,
       dv_previous_version = map_option dp_version previous,
       dv_previous_bindings = map_option dp_bindings previous, dv_actor = actor,
       dv_created = ve_now env, dv_metadata = m\<rparr>]"
  by (simp add: log_deployment_def fresh_row_def)

lemma promotions_same: "wdf_id d' = wdf_id d \<Longrightarrow> promotions db d' e = promotions db d e"
  by (simp add: promotions_alt)

lemma get_deployment_same: "wdf_id d' = wdf_id d \<Longrightarrow> get_deployment db d' e = get_deployment db d e"
  by (simp add: get_deployment_def)

lemma deployment_found:
  assumes "deployments_ok uuid db" "p \<in> set (vd_deployments db)" "dp_workflow p = wdf_id d"
  shows "get_deployment db d (dp_environment p) = Inr (Some p)"
proof -
  have "dp_environment p \<in> set WORKFLOW_ENVIRONMENTS" using assms(1,2) by (auto simp: deployments_ok_def)
  moreover have "find (\<lambda>q. dp_workflow q = wdf_id d \<and> dp_environment q = dp_environment p) (vd_deployments db) = Some p"
    using assms find_by_key [of p "vd_deployments db" "\<lambda>p. (dp_workflow p, dp_environment p)"]
    by (simp add: deployments_ok_def)
  ultimately show ?thesis by (simp add: get_deployment_def)
qed

text \<open>What a state of the tables says of one environment of a workflow.\<close>

definition environment_state ::
  "version_db \<Rightarrow> definition_row \<Rightarrow> string \<Rightarrow> deployment \<Rightarrow> deployment_event list \<Rightarrow> bool" where
  "environment_state db d e p history \<longleftrightarrow> e \<in> set WORKFLOW_ENVIRONMENTS \<and> dp_workflow p = wdf_id d \<and>
     dp_environment p = e \<and> p \<in> set (vd_deployments db) \<and> promotions db d e = history"

lemma store_events [simp]:
  "store_deployment env w e v bs actor existing db = (db', p) \<Longrightarrow> vd_events db' = vd_events db"
  by (auto simp: store_deployment_def put_deployment_def fresh_row_def Let_def split: option.splits)

lemma store_present:
  assumes "store_deployment env w e v bs actor existing db = (db', p)"
    and "existing = find (\<lambda>p. dp_workflow p = w \<and> dp_environment p = e) (vd_deployments db)"
  shows "p \<in> set (vd_deployments db')"
  using assms
  by (auto simp: store_deployment_def put_deployment_def fresh_row_def Let_def find_Some_iff image_iff split: option.splits)
    (metis nth_mem)

text \<open>A promotion later than every event of the store heads the history.\<close>

lemma promote_effect:
  assumes "promote env environment version_id bindings actor d db = Inr (d', db', p)"
    and "surroundings sha uuid env" "proper_ids uuid" "tables_ok sha uuid db" "definition_ok db d"
    and "list_all (\<lambda>v. dv_created v < ve_now env) (vd_events db)"
  obtains e v event where "normalize_environment environment = Inr e"
    "environment_state db' d' e p (event # promotions db d e)"
    "dv_version event = dp_version p" "dv_bindings event = dp_bindings p"
    "get_version_row db (Some version_id) = Some v" "wv_workflow_id v = wdf_id d" "vr_published v" "dp_version p = wv_id v"
    "tables_ok sha uuid db'" "definition_ok db' d'" "wdf_id d' = wdf_id d" "vd_versions db' = vd_versions db"
    "list_all (\<lambda>v. dv_created v \<le> ve_now env) (vd_events db')"
proof -
  obtain e v bs warnings existing db1 where p: "normalize_environment environment = Inr e"
    "get_version_row db (Some version_id) = Some v" "wv_workflow_id v = wdf_id d" "vr_published v"
    "existing = find (\<lambda>p. dp_workflow p = wdf_id d \<and> dp_environment p = e) (vd_deployments db)"
    "store_deployment env (wdf_id d) e (wv_id v) bs actor existing db = (db1, p)"
    "d' = (if e = ''dev'' then d\<lparr>dr_published := Some (wv_id v), dr_status := ''active''\<rparr> else d)"
    "db' = audit ''workflow.promote'' d' (log_deployment env ''promote'' p existing actor [] db1)"
    using assms(1) by (rule promote_Inr)
  have v: "version_ok db (wv_id v) (wdf_id d)" using version_found [OF p(2,4)] p(3) by simp
  have one: "vd_versions db1 = vd_versions db" "dp_workflow p = wdf_id d" "dp_environment p = e" "dp_version p = wv_id v"
    using store_deployment_ok [OF p(6) _ assms(2,3) v normalize_Inr [OF p(1)] p(5)] assms(4) by (auto simp: tables_ok_def)
  have d': "wdf_id d' = wdf_id d" using p(7) by simp
  define event where "event = last (vd_events db')"
  have events: "vd_events db' = vd_events db @ [event]"
    and event: "dv_workflow event = wdf_id d" "dv_environment event = e" "dv_action event = ''promote''"
      "dv_version event = dp_version p" "dv_bindings event = dp_bindings p" "dv_created event = ve_now env"
    using p(8) store_events [OF p(6)] one by (simp_all add: event_def log_events)
  have "list_all (\<lambda>v. - dv_created event < - dv_created v) (filter Q (vd_events db))" for Q
    using assms(6) event(6) by (auto simp: list_all_iff)
  then have "promotions db' d' e = event # promotions db d e"
    using event newest_first [of "\<lambda>v. - dv_created v" event] d' by (simp add: promotions_alt events)
  moreover have "p \<in> set (vd_deployments db')"
    using store_present [OF p(6,5)] p(8) by (simp add: log_deployment_def fresh_row_def audit_def)
  ultimately have state: "environment_state db' d' e p (event # promotions db d e)"
    using one d' normalize_Inr [OF p(1)] by (simp add: environment_state_def)
  have versions: "vd_versions db' = vd_versions db"
    using p(8) one(1) by (simp add: log_deployment_def fresh_row_def audit_def)
  have times: "list_all (\<lambda>v. dv_created v \<le> ve_now env) (vd_events db')"
    using assms(6) event(6) events by (auto simp: list_all_iff)
  have safe: "tables_ok sha uuid db'" "definition_ok db' d'"
    using promote_safe [OF assms(1-3)] assms(4,5) by (auto simp: op_safe_def)
  show thesis by (rule that [OF p(1) state event(4,5) p(2-4) one(4) safe d' versions times])
qed

text \<open>A rollback leaves the promotions of the history alone, and needs two of them.\<close>

lemma rollback_effect:
  assumes "tables_ok sha uuid db" "definition_ok db d" "normalize_environment environment = Inr e"
    and "environment_state db d e q (latest # previous # rest)"
  obtains db' p where "rollback_environment env environment actor d db = Inr (d, db', p)"
    "environment_state db' d e p (latest # previous # rest)"
    "dp_version p = dv_version previous" "dp_bindings p = dv_bindings previous"
    "tables_ok sha uuid db'" "definition_ok db' d" "vd_versions db' = vd_versions db"
    "\<forall>t. list_all (\<lambda>v. dv_created v \<le> t) (vd_events db) \<and> ve_now env \<le> t \<longrightarrow>
       list_all (\<lambda>v. dv_created v \<le> t) (vd_events db')"
proof -
  have q: "e \<in> set WORKFLOW_ENVIRONMENTS" "dp_workflow q = wdf_id d" "dp_environment q = e"
    "q \<in> set (vd_deployments db)" "promotions db d e = latest # previous # rest"
    using assms(4) by (auto simp: environment_state_def)
  have found: "get_deployment db d e = Inr (Some q)"
    using deployment_found [of uuid db q d] q assms(1) by (auto simp: tables_ok_def)
  define p where "p = q\<lparr>dp_version := dv_version previous, dp_bindings := dv_bindings previous, dp_by := actor,
    dp_at := ve_now env\<rparr>"
  define db' where "db' = audit ''workflow.rollback_environment'' d (log_deployment env ''rollback'' p (Some q) actor
    [(''restored_from_event_id'', PStr (dv_id previous))] (put_deployment p db))"
  have r: "rollback_environment env environment actor d db = Inr (d, db', p)"
    using assms(3) q(5) found by (simp add: rollback_environment_def p_def db'_def Let_def)
  have safe: "tables_ok sha uuid db'" "definition_ok db' d"
    using rollback_safe [OF r] assms(1,2) by (auto simp: op_safe_def)
  have "promotions db' d e = promotions db d e"
    by (simp add: promotions_alt db'_def log_events put_deployment_def)
  moreover have "p \<in> set (vd_deployments db')"
    using q(4) by (auto simp: db'_def log_deployment_def fresh_row_def audit_def put_deployment_def image_iff p_def)
  ultimately have state: "environment_state db' d e p (latest # previous # rest)"
    using q by (simp add: environment_state_def p_def)
  have versions: "vd_versions db' = vd_versions db"
    by (simp add: db'_def log_deployment_def fresh_row_def audit_def put_deployment_def)
  have times: "\<forall>t. list_all (\<lambda>v. dv_created v \<le> t) (vd_events db) \<and> ve_now env \<le> t \<longrightarrow>
      list_all (\<lambda>v. dv_created v \<le> t) (vd_events db')"
    by (simp add: db'_def log_events put_deployment_def)
  show thesis
    by (rule that [OF r state _ _ safe versions times]) (simp_all add: p_def)
qed

text \<open>What a run of the environment resolves to depends on the deployment only.\<close>

lemma resolved_by_state:
  assumes "environment_state db d e p history" "environment_state db' d' e p' history'"
    and "tables_ok sha uuid db" "tables_ok sha uuid db'" "normalize_environment environment = Inr e"
    and "vd_versions db' = vd_versions db" "dp_version p' = dp_version p" "dp_bindings p' = dp_bindings p"
  shows "resolved_graph_for_environment db' d' environment = resolved_graph_for_environment db d environment"
proof -
  have found: "get_deployment db d e = Inr (Some p)" "get_deployment db' d' e = Inr (Some p')"
    using deployment_found [of uuid db p d] deployment_found [of uuid db' p' d'] assms(1-4)
    by (auto simp: environment_state_def tables_ok_def)
  have "get_version_row db' i = get_version_row db i" for i
    using assms(6) by (simp add: get_version_row_def split: option.split)
  then show ?thesis
    using found assms(5,7,8)
    by (auto simp: resolved_graph_for_environment_def resolve_version_for_environment_def split: option.splits)
qed

lemma reachable_ok:
  assumes "version_run sha uuid empty_versions db" "proper_ids uuid" "d \<in> set (vd_definitions db)"
  shows "tables_ok sha uuid db" "definition_ok db d"
  using run_ok [OF assms(1) empty_ok assms(2)] assms(3) by (auto simp: store_ok_def)

text \<open>
  C29. Rolling an environment back undoes the last promotion: the environment has the version and the
  bindings of the promotion before, and its runs resolve to the same graph as then.
\<close>

theorem rollback_undoes_promotion:
  assumes "version_run sha uuid empty_versions db" "proper_ids uuid" "d \<in> set (vd_definitions db)"
    and "surroundings sha uuid env1" "surroundings sha uuid env2"
    and "list_all (\<lambda>v. dv_created v < ve_now env1) (vd_events db)" "ve_now env1 < ve_now env2"
    and "promote env1 environment version1 bindings1 actor1 d db = Inr (d1, db1, p1)"
    and "promote env2 environment version2 bindings2 actor2 d1 db1 = Inr (d2, db2, p2)"
  shows "\<exists>d3 db3 p3. rollback_environment env3 environment actor3 d2 db2 = Inr (d3, db3, p3) \<and>
    dp_version p3 = version1 \<and> dp_bindings p3 = dp_bindings p1 \<and>
    resolved_graph_for_environment db3 d3 environment = resolved_graph_for_environment db1 d1 environment"
proof -
  note ok = reachable_ok [OF assms(1-3)]
  obtain e v event1 where one: "normalize_environment environment = Inr e"
    "environment_state db1 d1 e p1 (event1 # promotions db d e)"
    "dv_version event1 = dp_version p1" "dv_bindings event1 = dp_bindings p1"
    "get_version_row db (Some version1) = Some v" "dp_version p1 = wv_id v"
    "tables_ok sha uuid db1" "definition_ok db1 d1"
    "list_all (\<lambda>v. dv_created v \<le> ve_now env1) (vd_events db1)"
    by (rule promote_effect [OF assms(8,4,2) ok assms(6)])
  have later: "list_all (\<lambda>v. dv_created v < ve_now env2) (vd_events db1)"
    using one(9) assms(7) by (auto simp: list_all_iff)
  obtain e' event2 where "normalize_environment environment = Inr e'"
    and two: "environment_state db2 d2 e' p2 (event2 # promotions db1 d1 e')"
    "tables_ok sha uuid db2" "definition_ok db2 d2" "vd_versions db2 = vd_versions db1"
    by (rule promote_effect [OF assms(9,5,2) one(7,8) later])
  then have state: "environment_state db2 d2 e p2 (event2 # event1 # promotions db d e)"
    using one(1,2) by (auto simp: environment_state_def)
  obtain db3 p3 where three: "rollback_environment env3 environment actor3 d2 db2 = Inr (d2, db3, p3)"
    "environment_state db3 d2 e p3 (event2 # event1 # promotions db d e)"
    "dp_version p3 = dv_version event1" "dp_bindings p3 = dv_bindings event1"
    "tables_ok sha uuid db3" "vd_versions db3 = vd_versions db2"
    by (rule rollback_effect [OF two(2,3) one(1) state, of env3 actor3])
  have "resolved_graph_for_environment db3 d2 environment = resolved_graph_for_environment db1 d1 environment"
    using resolved_by_state [OF one(2) three(2) one(7) three(5) one(1)] three two(4) one(3,4) by simp
  then show ?thesis using three one(3-6) get_version_row_in [OF one(5)] by auto
qed

text \<open>
  C33. A version that was rolled back comes back: rolling back looks at the promotions only, so after a
  further promotion a rollback restores the version that had been withdrawn, not the one that ran.
\<close>

theorem rollback_restores_withdrawn:
  assumes "version_run sha uuid empty_versions db" "proper_ids uuid" "d \<in> set (vd_definitions db)"
    and "surroundings sha uuid env1" "surroundings sha uuid env3"
    and "list_all (\<lambda>v. dv_created v < ve_now env1) (vd_events db)"
    and "ve_now env1 \<le> ve_now env2" "ve_now env2 < ve_now env3"
    and "promote env1 environment bad bindings1 actor1 d db = Inr (d1, db1, p1)"
    and "rollback_environment env2 environment actor2 d1 db1 = Inr (d2, db2, p2)"
    and "promote env3 environment next_one bindings3 actor3 d2 db2 = Inr (d3, db3, p3)"
  shows "\<exists>d4 db4 p4. rollback_environment env4 environment actor4 d3 db3 = Inr (d4, db4, p4) \<and>
    dp_version p4 = bad \<and> dp_bindings p4 = dp_bindings p1"
proof -
  note ok = reachable_ok [OF assms(1-3)]
  obtain e v event1 where one: "normalize_environment environment = Inr e"
    "environment_state db1 d1 e p1 (event1 # promotions db d e)"
    "dv_version event1 = dp_version p1" "dv_bindings event1 = dp_bindings p1"
    "get_version_row db (Some bad) = Some v" "dp_version p1 = wv_id v"
    "tables_ok sha uuid db1" "definition_ok db1 d1"
    "list_all (\<lambda>v. dv_created v \<le> ve_now env1) (vd_events db1)"
    by (rule promote_effect [OF assms(9,4,2) ok assms(6)])
  have "promotions db1 d1 e = event1 # promotions db d e" using one(2) by (simp add: environment_state_def)
  then obtain previous rest where more: "promotions db d e = previous # rest"
    using assms(10) one(1) by (cases "promotions db d e") (auto simp: rollback_environment_def)
  obtain db2' p2' where two: "rollback_environment env2 environment actor2 d1 db1 = Inr (d1, db2', p2')"
    "environment_state db2' d1 e p2' (event1 # previous # rest)"
    "tables_ok sha uuid db2'" "definition_ok db2' d1"
    "\<forall>t. list_all (\<lambda>v. dv_created v \<le> t) (vd_events db1) \<and> ve_now env2 \<le> t \<longrightarrow>
       list_all (\<lambda>v. dv_created v \<le> t) (vd_events db2')"
    by (rule rollback_effect [OF one(7,8,1) one(2) [unfolded more], of env2 actor2])
  have same: "d2 = d1" "db2 = db2'" using two(1) assms(10) by simp_all
  have "list_all (\<lambda>v. dv_created v \<le> ve_now env2) (vd_events db1)"
    using one(9) assms(7) by (auto simp: list_all_iff)
  with two(5) have "list_all (\<lambda>v. dv_created v \<le> ve_now env2) (vd_events db2')" by blast
  then have later: "list_all (\<lambda>v. dv_created v < ve_now env3) (vd_events db2')"
    using assms(8) by (auto simp: list_all_iff)
  obtain e' event3 where "normalize_environment environment = Inr e'"
    and three: "environment_state db3 d3 e' p3 (event3 # promotions db2' d1 e')"
    "tables_ok sha uuid db3" "definition_ok db3 d3"
    by (rule promote_effect [OF assms(11) [unfolded same] assms(5,2) two(3,4) later])
  then have state: "environment_state db3 d3 e p3 (event3 # event1 # previous # rest)"
    using one(1) two(2) by (auto simp: environment_state_def)
  obtain db4 p4 where "rollback_environment env4 environment actor4 d3 db3 = Inr (d3, db4, p4)"
    "dp_version p4 = dv_version event1" "dp_bindings p4 = dv_bindings event1"
    by (rule rollback_effect [OF three(2,3) one(1) state, of env4 actor4])
  then show ?thesis using one(3-6) get_version_row_in [OF one(5)] by auto
qed

section \<open>Which installations an environment uses\<close>

lemma binding_keys: "k \<in> set BINDING_KEYS \<longleftrightarrow>
  k = ''connector_installation_id'' \<or> k = ''approval_connector_installation_id''"
  by (auto simp: BINDING_KEYS_def)

lemma bound_keys_two:
  "bound_keys d =
     (if bound_value d ''connector_installation_id'' = [] then []
      else [(''connector_installation_id'', PStr (bound_value d ''connector_installation_id''))]) @
     (if bound_value d ''approval_connector_installation_id'' = [] then []
      else [(''approval_connector_installation_id'', PStr (bound_value d ''approval_connector_installation_id''))])"
  by (simp add: bound_keys_def BINDING_KEYS_def List.map_filter_def)

lemma dget_bound_keys:
  "dget (bound_keys d) k =
     (if k \<in> set BINDING_KEYS \<and> bound_value d k \<noteq> [] then Some (PStr (bound_value d k)) else None)"
proof -
  have two: "a \<noteq> b \<Longrightarrow> dget ((if x = [] then [] else [(a, PStr x)]) @ (if y = [] then [] else [(b, PStr y)])) k =
    (if k = a \<and> x \<noteq> [] then Some (PStr x) else if k = b \<and> y \<noteq> [] then Some (PStr y) else None)" for a b x y
    by simp
  have "''connector_installation_id'' \<noteq> ''approval_connector_installation_id''" by simp
  from two [OF this] show ?thesis unfolding bound_keys_two binding_keys by auto
qed

lemma bound_value_idem [simp]: "py_strip (bound_value d k) = bound_value d k"
  by (simp add: bound_value_def)

lemma bound_value_keys [simp]:
  "k \<in> set BINDING_KEYS \<Longrightarrow> bound_value (bound_keys d) k = bound_value d k"
  by (simp add: bound_value_def [of "bound_keys d"] pget_def dget_bound_keys str_or_def)

lemma bound_keys_nonempty: "k \<in> set BINDING_KEYS \<Longrightarrow> bound_value d k \<noteq> [] \<Longrightarrow> bound_keys d \<noteq> []"
  using dget_bound_keys [of d k] by auto

lemma pget_overlay:
  "pget (overlay_config (PDict own) config) k =
    (if k \<in> set BINDING_KEYS \<and> bound_value own k \<noteq> [] then PStr (bound_value own k) else pget config k)"
proof -
  have two: "pget (fold (\<lambda>kv. dset (fst kv) (snd kv))
      ((if x = [] then [] else [(a, PStr x)]) @ (if y = [] then [] else [(b, PStr y)])) config) k =
    (if k = b \<and> y \<noteq> [] then PStr y else if k = a \<and> x \<noteq> [] then PStr x else pget config k)" for a b x y
    by simp
  show ?thesis unfolding overlay_config_def pyval.case bound_keys_two two binding_keys by auto
qed

lemma bound_value_overlay:
  assumes "k \<in> set BINDING_KEYS"
  shows "bound_value (overlay_config (PDict own) config) k =
    (if bound_value own k \<noteq> [] then bound_value own k else bound_value config k)"
  unfolding bound_value_def [of "overlay_config (PDict own) config"] pget_overlay
  using assms by (simp add: str_or_def) (simp add: bound_value_def str_or_def)

lemma extract_other:
  "extract_bindings nodes acc = Inr bs \<Longrightarrow> i \<notin> set (map binding_id nodes) \<Longrightarrow> dget bs i = dget acc i"
proof (induction nodes arbitrary: acc)
  case (Cons node nodes)
  then show ?case by (cases "binding_id node = []") (auto split: if_splits)
qed simp

lemma extract_node:
  assumes "extract_bindings nodes acc = Inr bs" "distinct (filter (\<lambda>i. i \<noteq> []) (map binding_id nodes))"
    and "n \<in> set nodes" "binding_id n \<noteq> []" "get_dict n ''config'' = Inr c"
  shows "dget bs (binding_id n) =
    (if bound_keys c = [] then dget acc (binding_id n) else Some (PDict (bound_keys c)))"
  using assms
proof (induction nodes arbitrary: acc)
  case (Cons node nodes)
  show ?case
  proof (cases "binding_id node = []")
    case True
    then show ?thesis using Cons by auto
  next
    case named: False
    then obtain c' where c': "get_dict node ''config'' = Inr c'"
      "extract_bindings nodes (if bound_keys c' = [] then acc else dset (binding_id node) (PDict (bound_keys c')) acc)
         = Inr bs"
      using Cons.prems(1) by auto
    have fresh: "binding_id node \<notin> set (map binding_id nodes)" using Cons.prems(2) named by auto
    show ?thesis
    proof (cases "n = node")
      case True
      then show ?thesis using extract_other [OF c'(2)] fresh c'(1) Cons.prems(5) by auto
    next
      case False
      then have n: "n \<in> set nodes" using Cons.prems(3) by simp
      then have "binding_id n \<noteq> binding_id node" using fresh by (metis image_eqI set_map)
      then show ?thesis using Cons.IH [OF c'(2) _ n] Cons.prems(2,4,5) named by (auto split: if_splits)
    qed
  qed
qed simp

lemma map_err_Inr: "map_err f xs = Inr ys \<Longrightarrow> concat ys = [] \<Longrightarrow> x \<in> set xs \<Longrightarrow> f x = Inr []"
  by (induction f xs arbitrary: ys rule: map_err.induct) auto

lemma map_res_Inr: "map_res f xs = Inr ys \<Longrightarrow> y \<in> set ys \<Longrightarrow> \<exists>x \<in> set xs. f x = Inr y"
  by (induction xs arbitrary: ys) auto

lemma map_res_each: "map_res f xs = Inr ys \<Longrightarrow> x \<in> set xs \<Longrightarrow> \<exists>y \<in> set ys. f x = Inr y"
  by (induction xs arbitrary: ys) auto

lemma in_dict_items: "d \<in> set (dict_items xs) \<longleftrightarrow> PDict d \<in> set xs"
  by (induction xs) (auto simp: dict_items_def List.map_filter_def split: pyval.splits)

lemma bound_node:
  assumes "bind_node bindings n = Inr (PDict n')"
  obtains c where "get_dict n ''config'' = Inr c" "binding_id n' = binding_id n"
    "get_dict n' ''config'' = Inr (overlay_config (pget bindings (binding_id n)) c)"
proof -
  obtain c where c: "get_dict n ''config'' = Inr c"
    "n' = dset ''config'' (PDict (overlay_config (pget bindings (binding_id n)) c)) n"
    using assms by (auto simp: bind_node_def)
  then show thesis by (intro that [of c]) (simp_all add: binding_id_def dict_or_raise_def)
qed

text \<open>A validated binding names an installation of the owner that the environment admits.\<close>

lemma validated_installation:
  assumes "validate_bindings db owner environment bindings nodes = Inr ([], warnings)"
    and "i \<in> set (bound_installations bindings)"
  shows "\<exists>r \<in> set (vd_installations db). ir_id r = i \<and> ir_owner r = owner \<and>
    installation_allowed_for_environment (ir_environment r) environment = Inr True"
proof -
  obtain e errors where e: "normalize_environment environment = Inr e"
    "map_err (installation_error db owner e) (bound_installations bindings) = Inr errors" "concat errors = []"
    using assms(1) by (auto simp: validate_bindings_def)
  have none: "installation_error db owner e i = Inr []" by (rule map_err_Inr [OF e(2,3) assms(2)])
  then obtain r where "find (\<lambda>r. ir_id r = i \<and> ir_owner r = owner) (vd_installations db) = Some r"
    "installation_allowed_for_environment (ir_environment r) e = Inr True"
    by (auto simp: installation_error_def split: option.splits if_splits)
  moreover have "normalize_environment e = Inr e" using normalize_twice [OF normalize_Inr [OF e(1)]] .
  ultimately show ?thesis
    using e(1) by (auto simp: find_Some_iff installation_allowed_for_environment_def Let_def)
qed

lemma crash_or_Inr [simp]: "crash_or r = Inr a \<longleftrightarrow> r = Inr a"
  by (simp add: crash_or_def split: sum.splits)

lemma resolved_nodes:
  assumes "resolved_graph_for_environment db d environment = Inr (v, nodes)"
    and "normalize_environment environment = Inr e" "get_deployment db d e = Inr (Some p)"
  shows "apply_bindings_to_graph (wv_nodes v) (dp_bindings p) = Inr nodes"
    and "get_version_row db (Some (dp_version p)) = Some v"
proof -
  obtain w q where w: "resolve_version_for_environment db d environment = Inr (w, q)"
    using assms(1) by (auto simp: resolved_graph_for_environment_def)
  then have row: "get_version_row db (Some (dp_version p)) = Some w" and q: "q = Some p"
    using assms(2,3) by (auto simp: resolve_version_for_environment_def split: option.splits if_splits)
  then have graph: "w = v" "apply_bindings_to_graph (wv_nodes v) (dp_bindings p) = Inr nodes"
    using assms(1,2) w by (auto simp: resolved_graph_for_environment_def)
  then show "apply_bindings_to_graph (wv_nodes v) (dp_bindings p) = Inr nodes"
    and "get_version_row db (Some (dp_version p)) = Some v" using row by simp_all
qed

text \<open>The deployed graph is the published one under the bindings of the promotion.\<close>

lemma promoted_graph:
  assumes "version_run sha uuid empty_versions db" "proper_ids uuid" "d \<in> set (vd_definitions db)"
    and "surroundings sha uuid env"
    and "promote env environment version_id bindings actor d db = Inr (d', db', p)"
    and "resolved_graph_for_environment db' d' environment = Inr (v, nodes)"
  obtains bs warnings where "dp_bindings p = bs"
    "(case bindings of Some (b # bs) \<Rightarrow> Inr (b # bs) | _ \<Rightarrow> crash_or (extract_bindings_from_graph (wv_nodes v))) = Inr bs"
    "apply_bindings_to_graph (wv_nodes v) bs = Inr nodes"
    "validate_bindings db (wdf_owner_id d) environment bs (wv_nodes v) = Inr ([], warnings)"
proof -
  note ok = reachable_ok [OF assms(1-3)]
  obtain e w bs warnings existing db1 where p: "normalize_environment environment = Inr e"
    "get_version_row db (Some version_id) = Some w" "wv_workflow_id w = wdf_id d" "vr_published w"
    "(case bindings of Some (b # bs) \<Rightarrow> Inr (b # bs) | _ \<Rightarrow> crash_or (extract_bindings_from_graph (wv_nodes w))) = Inr bs"
    "validate_bindings db (wdf_owner_id d) e bs (wv_nodes w) = Inr ([], warnings)"
    "existing = find (\<lambda>p. dp_workflow p = wdf_id d \<and> dp_environment p = e) (vd_deployments db)"
    "store_deployment env (wdf_id d) e (wv_id w) bs actor existing db = (db1, p)"
    "d' = (if e = ''dev'' then d\<lparr>dr_published := Some (wv_id w), dr_status := ''active''\<rparr> else d)"
    "db' = audit ''workflow.promote'' d' (log_deployment env ''promote'' p existing actor [] db1)"
    using assms(5) by (rule promote_Inr)
  have ok': "deployments_ok uuid db'"
    using promote_safe [OF assms(5,4,2)] ok by (simp add: op_safe_def tables_ok_def)
  have row: "version_ok db (wv_id w) (wdf_id d)" using version_found [OF p(2,4)] p(3) by simp
  have one: "vd_versions db1 = vd_versions db" "dp_workflow p = wdf_id d" "dp_environment p = e"
    "dp_version p = wv_id w" "dp_bindings p = bs"
    using store_deployment_ok [OF p(8) _ assms(4,2) row normalize_Inr [OF p(1)] p(7)] ok(1) by (auto simp: tables_ok_def)
  have "p \<in> set (vd_deployments db')"
    using store_present [OF p(8,7)] p(10) by (simp add: log_deployment_def fresh_row_def audit_def)
  then have "get_deployment db' d' e = Inr (Some p)"
    using deployment_found [OF ok', of p d'] one p(9) by simp
  from resolved_nodes [OF assms(6) p(1) this]
  have graph: "apply_bindings_to_graph (wv_nodes v) bs = Inr nodes" "get_version_row db' (Some (wv_id w)) = Some v"
    using one by simp_all
  have "vd_versions db' = vd_versions db" using p(10) one(1) by (simp add: log_deployment_def fresh_row_def audit_def)
  then have "get_version_row db' i = get_version_row db i" for i by (simp add: get_version_row_def split: option.split)
  then have same: "v = w" using graph(2) p(2) get_version_row_in [OF p(2)] by simp
  have "validate_bindings db (wdf_owner_id d) environment bs (wv_nodes w) = Inr ([], warnings)"
    using p(1,6) normalize_twice [OF normalize_Inr [OF p(1)]] by (simp add: validate_bindings_def)
  from that [OF one(5) p(5) [folded same] graph(1) this [folded same]] show thesis .
qed

lemma bound_is_listed:
  assumes "dget bs i = Some (PDict own)" "k \<in> set BINDING_KEYS" "bound_value own k \<noteq> []"
  shows "bound_value own k \<in> set (bound_installations bs)"
proof -
  have "(i, PDict own) \<in> set bs" using assms(1) by (simp add: map_of_SomeD)
  then show ?thesis using assms(2,3) by (force simp: bound_installations_def installations_of_def)
qed

text \<open>
  C28. A promotion that takes the bindings from the graph isolates the environment: every connector
  installation that a node of the deployed graph names belongs to the owner of the workflow and is one
  that the environment admits, so that production uses production installations only.
\<close>

theorem default_promotion_isolated:
  assumes "version_run sha uuid empty_versions db" "proper_ids uuid" "d \<in> set (vd_definitions db)"
    and "surroundings sha uuid env" "promote env environment version_id None actor d db = Inr (d', db', p)"
    and "resolved_graph_for_environment db' d' environment = Inr (v, nodes)"
    and "distinct (filter (\<lambda>i. i \<noteq> []) (map binding_id (dict_items (wv_nodes v))))"
    and "node \<in> set (dict_items nodes)" "binding_id node \<noteq> []" "get_dict node ''config'' = Inr config"
    and "key \<in> set BINDING_KEYS" "bound_value config key \<noteq> []"
  shows "\<exists>r \<in> set (vd_installations db). ir_id r = bound_value config key \<and> ir_owner r = wdf_owner_id d \<and>
    installation_allowed_for_environment (ir_environment r) environment = Inr True"
proof -
  obtain bs warnings where bs: "extract_bindings_from_graph (wv_nodes v) = Inr bs"
    "apply_bindings_to_graph (wv_nodes v) bs = Inr nodes"
    "validate_bindings db (wdf_owner_id d) environment bs (wv_nodes v) = Inr ([], warnings)"
    by (rule promoted_graph [OF assms(1-6)]) simp
  obtain n where n: "n \<in> set (dict_items (wv_nodes v))" "bind_node bs n = Inr (PDict node)"
    using map_res_Inr [OF bs(2) [unfolded apply_bindings_to_graph_def]] assms(8) [unfolded in_dict_items] by blast
  obtain c where c: "get_dict n ''config'' = Inr c" "binding_id node = binding_id n"
    "config = overlay_config (pget bs (binding_id n)) c"
    using bound_node [OF n(2)] assms(10) by auto
  have bound: "dget bs (binding_id n) = (if bound_keys c = [] then None else Some (PDict (bound_keys c)))"
    using extract_node [OF bs(1) [unfolded extract_bindings_from_graph_def] assms(7) n(1) _ c(1)] c(2) assms(9) by simp
  have own: "bound_value config key = bound_value c key"
    using bound assms(11) bound_value_overlay [OF assms(11), of "bound_keys c" c]
    by (simp add: c(3) pget_def overlay_config_def split: if_splits)
  then have "bound_keys c \<noteq> []" using bound_keys_nonempty [OF assms(11)] assms(12) by simp
  then have "bound_value config key \<in> set (bound_installations bs)"
    using bound_is_listed [of bs "binding_id n" "bound_keys c" key] bound own assms(11,12) by simp
  then show ?thesis by (rule validated_installation [OF bs(3)])
qed


end
