(* ===== verification/Workflow_Environment_Runs.thy ===== *)
theory Workflow_Environment_Runs
  imports Workflow_Environment_Properties Workflow_Examples
begin

text \<open>
  The runner on deployed workflows: which version a run executes and where the bindings of its
  environment get to. The surroundings of the runner are instantiated with the environments of
  \<open>Workflow_Environments\<close>, and concrete stores show that the hypotheses of the properties hold.
\<close>

section \<open>The version of a run\<close>

text \<open>
  C30. Every run that is neither a test nor pinned to a version executes a published version of its own
  workflow, the deployed one of the environment where there is one: a draft is never run.
\<close>

theorem run_uses_deployed:
  assumes "version_run sha uuid empty_versions vdb" "proper_ids uuid" "we_environment env = environment_graph vdb"
    and "create_run_record env owner workflow project task input False None environment db = Inr (db', run, v)"
  shows "\<exists>d row. d \<in> set (vd_definitions vdb) \<and> wdf_id d = wr_workflow_id run \<and> row \<in> set (vd_versions vdb) \<and>
    wv_id row = wr_version_id run \<and> vr_published row \<and> wv_workflow_id row = wr_workflow_id run \<and>
    (case get_deployment vdb d environment of
       Inr (Some p) \<Rightarrow> dp_version p = wr_version_id run | Inr None \<Rightarrow> dr_published d = Some (wr_version_id run)
     | Inl _ \<Rightarrow> False)"
proof -
  obtain w where w: "get_definition env owner workflow = Inr w" "environment_graph vdb w environment = Inr v"
      "wr_workflow_id run = wdf_id w" "wr_version_id run = wv_id v"
    using assms(3,4)
    by (cases "fresh_id env db") (auto simp: create_run_record_def run_version_def opt_str_def checked_version_def Let_def)
  obtain d where d: "find (\<lambda>d. wdf_id d = wdf_id w) (vd_definitions vdb) = Some d"
    using w(2) by (auto simp: environment_graph_def split: option.splits)
  obtain row nodes where row: "resolved_graph_for_environment vdb d environment = Inr (row, nodes)" "wv_id v = wv_id row"
    using w(2) d by (auto simp: environment_graph_def wf_version.defs split: sum.splits)
  obtain p where p: "resolve_version_for_environment vdb d environment = Inr (row, p)"
    using row(1) by (auto simp: resolved_graph_for_environment_def)
  have d_in: "d \<in> set (vd_definitions vdb)" "wdf_id d = wdf_id w" using d by (auto simp: find_Some_iff)
  note ok = reachable_ok [OF assms(1,2) d_in(1)]
  obtain e where e: "normalize_environment environment = Inr e"
    using p by (auto simp: resolve_version_for_environment_def)
  have same: "get_deployment vdb d environment = get_deployment vdb d e"
    using e normalize_twice [OF normalize_Inr [OF e]] by (simp add: get_deployment_def)
  obtain q where q: "get_deployment vdb d e = Inr q"
    using p e by (auto simp: resolve_version_for_environment_def)
  then have "q = p"
    using p e by (cases q) (auto simp: resolve_version_for_environment_def split: option.splits if_splits)
  then have deployed: "get_deployment vdb d environment = Inr p" using q same by simp
  have rows: "(case p of Some q \<Rightarrow> get_version_row vdb (Some (dp_version q)) = Some row \<and> vr_published row
      | None \<Rightarrow> get_version_row vdb (dr_published d) = Some row)"
    using p e deployed same
    by (auto simp: resolve_version_for_environment_def get_published_def split: option.splits if_splits)
  have unique: "x = y" if "x \<in> set (vd_versions vdb)" "y \<in> set (vd_versions vdb)" "wv_id x = wv_id y" for x y
    using that ok(1) by (auto simp: tables_ok_def versions_ok_def distinct_map dest: inj_onD)
  have "row \<in> set (vd_versions vdb) \<and> vr_published row \<and> wv_workflow_id row = wdf_id d"
  proof (cases p)
    case None
    then have "row \<in> set (vd_versions vdb)" "dr_published d = Some (wv_id row)"
      using rows get_version_row_in by auto
    then show ?thesis using ok(2) unique by (auto simp: definition_ok_def version_ok_def)
  next
    case (Some q)
    then have q: "q \<in> set (vd_deployments vdb)" "dp_workflow q = wdf_id d" "row \<in> set (vd_versions vdb)"
      "dp_version q = wv_id row"
      using deployed e rows get_version_row_in by (auto simp: get_deployment_def find_Some_iff)
    then have "version_ok vdb (wv_id row) (wdf_id d)" using ok(1) by (auto simp: tables_ok_def deployments_ok_def)
    then show ?thesis using unique q(3) by (auto simp: version_ok_def)
  qed
  moreover have "(case p of Some q \<Rightarrow> dp_version q = wv_id row | None \<Rightarrow> dr_published d = Some (wv_id row))"
    using rows get_version_row_in by (auto split: option.splits)
  ultimately show ?thesis using d_in w(3,4) row(2) deployed
    by (intro exI [of _ d] exI [of _ row]) (auto split: option.splits)
qed

section \<open>Where the bindings get to\<close>

lemma overlay_other:
  assumes "k \<notin> set BINDING_KEYS"
  shows "pget (overlay_config binding config) k = pget config k"
proof (cases binding)
  case (PDict own)
  then show ?thesis using assms by (simp add: pget_overlay)
qed (use assms in \<open>auto simp: overlay_config_def BINDING_KEYS_def\<close>)

text \<open>
  C31. The binding of a tool node does not reach its tool call: whatever installation the environment
  binds it to, the node runs exactly as the published one, on the installation that its parameters name.
\<close>

theorem bindings_miss_tools:
  assumes "bind_node bindings node = Inr (PDict bound)"
  shows "execute_tool_node env run bound nid vars db = execute_tool_node env run node nid vars db"
proof -
  obtain c where c: "get_dict node ''config'' = Inr c"
    "get_dict bound ''config'' = Inr (overlay_config (pget bindings (binding_id node)) c)"
    using bound_node [OF assms] by metis
  have same: "pget (overlay_config binding c) ''params'' = pget c ''params''"
    "sget2 (overlay_config binding c) ''tool'' ''tool_slug'' = sget2 c ''tool'' ''tool_slug''" for binding
    by (simp_all add: overlay_other BINDING_KEYS_def sget2_def)
  show ?thesis unfolding execute_tool_node_def c res_bind_simps same by (rule refl)
qed

end
