(* ===== verification/Workflow_Environment_Examples.thy ===== *)
theory Workflow_Environment_Examples
  imports Workflow_Environment_Runs
begin

text \<open>
  A workflow of two approval gates that ask over Slack, published once with the installation for
  development and once with the one for production, and its production environment.
\<close>

section \<open>A store\<close>

definition clock :: "int \<Rightarrow> version_env" where
  "clock t = \<lparr>ve_sha = (\<lambda>s. ''h''), ve_uuid = (\<lambda>k. replicate (Suc k) CHR ''x''), ve_now = t\<rparr>"

definition gate_config :: "string \<Rightarrow> pyval dict" where
  "gate_config i = [(''approval_connector_installation_id'', PStr i), (''approval_delivery_channel'', PStr ''slack'')]"

definition gate_nodes :: "string \<Rightarrow> pyval list" where
  "gate_nodes i = [node_of ''a'' ''approval'' (gate_config i), node_of ''b'' ''approval'' (gate_config i)]"

definition gate_edges :: "pyval list" where
  "gate_edges = [PDict [(''from'', PStr ''a''), (''to'', PStr ''b'')]]"

definition gate_row :: "string \<Rightarrow> int \<Rightarrow> string \<Rightarrow> version_row" where
  "gate_row i n installation = \<lparr>wv_id = i, wv_workflow_id = ''w'', wv_nodes = gate_nodes installation,
     wv_edges = gate_edges, wv_entry = Some ''a'', vr_number = n,
     vr_metadata = (if n = 0 then [(''kind'', PStr ''draft'')]
       else [(''kind'', PStr ''published''), (''source_draft_id'', PStr ''x'')]),
     vr_hash = Some ''h'', vr_published = (n \<noteq> 0), vr_created_by = Some ''u''\<rparr>"

definition new_workflow :: definition_row where
  "new_workflow = \<lparr>wdf_id = ''w'', wdf_owner_id = ''u'', wdf_is_template = False, dr_status = ''draft'',
     dr_current = None, dr_draft = None, dr_published = None\<rparr>"

definition workflow_at :: "string \<Rightarrow> definition_row" where
  "workflow_at i = new_workflow\<lparr>dr_status := ''active'', dr_current := Some ''x'', dr_draft := Some ''x'',
     dr_published := Some i\<rparr>"

definition gate_store :: "version_row list \<Rightarrow> definition_row \<Rightarrow> version_db" where
  "gate_store rows d = empty_versions\<lparr>vd_definitions := [d], vd_versions := rows, vd_fresh := length rows,
     vd_installations := [\<lparr>ir_id = ''slack-dev'', ir_owner = ''u'', ir_environment = ''dev''\<rparr>,
       \<lparr>ir_id = ''slack-prod'', ir_owner = ''u'', ir_environment = ''prod''\<rparr>]\<rparr>"

definition rows1 :: "version_row list" where
  "rows1 = [gate_row ''x'' 0 ''slack-dev'', gate_row ''xx'' 1 ''slack-dev'']"

definition rows2 :: "version_row list" where
  "rows2 = [gate_row ''x'' 0 ''slack-prod'', gate_row ''xx'' 1 ''slack-dev'', gate_row ''xxx'' 2 ''slack-prod'']"

definition publish_gates :: "string \<Rightarrow> definition_row \<Rightarrow> version_db \<Rightarrow> version_row version_result" where
  "publish_gates i d db = publish_draft (clock 0) (Some ''u'') (Some (gate_nodes i)) (Some gate_edges) (Some ''a'') d db"

lemma publish1: "publish_gates ''slack-dev'' new_workflow (gate_store [] new_workflow) =
    Inr (workflow_at ''xx'', gate_store rows1 new_workflow, gate_row ''xx'' 1 ''slack-dev'')"
  by code_simp

lemma publish2: "publish_gates ''slack-prod'' (workflow_at ''xx'') (gate_store rows1 (workflow_at ''xx'')) =
    Inr (workflow_at ''xxx'', gate_store rows2 (workflow_at ''xx''), gate_row ''xxx'' 2 ''slack-prod'')"
  by code_simp

definition clock_id :: "nat \<Rightarrow> string" where
  "clock_id k = replicate (Suc k) CHR ''x''"

lemma clock_ok: "surroundings (\<lambda>s. ''h'') clock_id (clock t)" "proper_ids clock_id"
  by (auto simp: surroundings_def clock_def clock_id_def fun_eq_iff proper_ids_def inj_def replicate_eq_replicate)

lemma put_gate [simp]:
  "wdf_id d' = wdf_id d \<Longrightarrow> put_definition d' (gate_store rows d) = gate_store rows d'"
  by (simp add: put_definition_def gate_store_def)

lemma gate_definitions [simp]: "vd_definitions (gate_store rows d) = [d]" "wdf_id (workflow_at i) = ''w''"
  "wdf_id new_workflow = ''w''"
  by (simp_all add: gate_store_def workflow_at_def new_workflow_def)

text \<open>The stores are the results of creating the workflow and publishing it once and twice.\<close>

lemma reached1: "version_run (\<lambda>s. ''h'') clock_id empty_versions (gate_store rows1 (workflow_at ''xx''))"
proof -
  let ?run = "version_run (\<lambda>s. ''h'') clock_id"
  let ?rows = "vd_installations (gate_store [] new_workflow)"
  have "?run empty_versions (empty_versions\<lparr>vd_definitions := vd_definitions empty_versions @ [new_workflow]\<rparr>)"
    by (rule version_run.step [OF version_run.start], rule version_step.create)
      (simp_all add: empty_versions_def new_workflow_def)
  from version_run.step [OF this version_step.install [where rows = ?rows]]
  have "?run empty_versions (gate_store [] new_workflow)" by (simp add: gate_store_def empty_versions_def)
  from version_run.step [OF this version_step.publish [OF _ clock_ok(1) publish1 [unfolded publish_gates_def]]]
  show ?thesis by simp
qed

lemma step2: "version_step (\<lambda>s. ''h'') clock_id (gate_store rows1 (workflow_at ''xx'')) (gate_store rows2 (workflow_at ''xxx''))"
  using version_step.publish [OF _ clock_ok(1) publish2 [unfolded publish_gates_def]] by simp

definition gates :: version_db where
  "gates = gate_store rows2 (workflow_at ''xxx'')"

lemma reached2: "version_run (\<lambda>s. ''h'') clock_id empty_versions gates"
  unfolding gates_def by (rule version_run.step [OF reached1 step2])

theorem published_versions_immutable_witness:
  "get_version_row gates (Some ''xx'') = Some (gate_row ''xx'' 1 ''slack-dev'')"
  using published_versions_immutable [OF reached1 version_run.step [OF version_run.start step2] clock_ok(2),
      of "gate_row ''xx'' 1 ''slack-dev''"]
  by (simp add: gates_def gate_store_def rows1_def gate_row_def)

section \<open>Promotions to production\<close>

definition bind_gates :: "string list \<Rightarrow> pyval dict" where
  "bind_gates ids = map (\<lambda>i. (i, PDict [(''approval_connector_installation_id'', PStr ''slack-prod'')])) ids"

definition prod_row :: "int \<Rightarrow> string \<Rightarrow> pyval dict \<Rightarrow> deployment" where
  "prod_row t v bs = \<lparr>dp_id = clock_id 3, dp_workflow = ''w'', dp_environment = ''prod'', dp_version = v,
     dp_bindings = bs, dp_by = Some ''u'', dp_at = t, dp_metadata = [(''action'', PStr ''promote'')]\<rparr>"

definition event :: "nat \<Rightarrow> string \<Rightarrow> deployment \<Rightarrow> deployment option \<Rightarrow> pyval dict \<Rightarrow> deployment_event" where
  "event k action p previous m = \<lparr>dv_id = clock_id k, dv_workflow = ''w'', dv_environment = ''prod'', dv_action = action,
     dv_version = dp_version p, dv_bindings = dp_bindings p, dv_previous_version = map_option dp_version previous,
     dv_previous_bindings = map_option dp_bindings previous, dv_actor = Some ''u'', dv_created = dp_at p,
     dv_metadata = m\<rparr>"

definition live_store :: "deployment \<Rightarrow> deployment_event list \<Rightarrow> string list \<Rightarrow> version_db" where
  "live_store p events actions = gates\<lparr>vd_deployments := [p], vd_events := events,
     vd_audit := map (\<lambda>a. (a, ''w'')) actions, vd_fresh := 4 + length events\<rparr>"

definition prod1 :: deployment where "prod1 = prod_row 1 ''xx'' (bind_gates [''a'', ''b''])"
definition prod2 :: deployment where "prod2 = prod_row 2 ''xxx'' (bind_gates [''a'', ''b''])"
definition prod3 :: deployment where "prod3 = prod_row 3 ''xx'' (bind_gates [''a'', ''b''])"
definition prod4 :: deployment where "prod4 = prod_row 4 ''xx'' (bind_gates [''a''])"

definition history :: "deployment_event list" where
  "history = [event 4 ''promote'' prod1 None [], event 5 ''promote'' prod2 (Some prod1) [],
     event 6 ''rollback'' prod3 (Some prod2) [(''restored_from_event_id'', PStr (clock_id 4))],
     event 7 ''promote'' prod4 (Some prod3) []]"

definition actions :: "string list" where
  "actions = [''workflow.promote'', ''workflow.promote'', ''workflow.rollback_environment'', ''workflow.promote'']"

definition live :: "nat \<Rightarrow> deployment \<Rightarrow> version_db" where
  "live n p = live_store p (take n history) (take n actions)"

lemma live1: "promote (clock 1) ''prod'' ''xx'' (Some (bind_gates [''a'', ''b''])) (Some ''u'') (workflow_at ''xxx'') gates =
    Inr (workflow_at ''xxx'', live 1 prod1, prod1)"
  by code_simp

lemma live2: "promote (clock 2) ''prod'' ''xxx'' None (Some ''u'') (workflow_at ''xxx'') (live 1 prod1) =
    Inr (workflow_at ''xxx'', live 2 prod2, prod2)"
  by code_simp

lemma live3: "rollback_environment (clock 3) ''prod'' (Some ''u'') (workflow_at ''xxx'') (live 2 prod2) =
    Inr (workflow_at ''xxx'', live 3 prod3, prod3)"
  by code_simp

lemma live4: "promote (clock 4) ''prod'' ''xx'' (Some (bind_gates [''a''])) (Some ''u'') (workflow_at ''xxx'') (live 3 prod3) =
    Inr (workflow_at ''xxx'', live 4 prod4, prod4)"
  by code_simp

lemma gates_in [simp]: "vd_definitions gates = [workflow_at ''xxx'']" "vd_definitions (live n p) = [workflow_at ''xxx'']"
  "put_definition (workflow_at ''xxx'') (live n p) = live n p" "vd_deployments (live n p) = [p]"
  by (simp_all add: live_def live_store_def gates_def put_definition_def gate_store_def)

lemma reached_live:
  "version_run (\<lambda>s. ''h'') clock_id empty_versions (live 1 prod1)"
  "version_run (\<lambda>s. ''h'') clock_id empty_versions (live 2 prod2)"
  "version_run (\<lambda>s. ''h'') clock_id empty_versions (live 3 prod3)"
proof -
  show one: "version_run (\<lambda>s. ''h'') clock_id empty_versions (live 1 prod1)"
    using version_run.step [OF reached2 version_step.promote [OF _ clock_ok(1) live1]] by simp
  show two: "version_run (\<lambda>s. ''h'') clock_id empty_versions (live 2 prod2)"
    using version_run.step [OF one version_step.promote [OF _ clock_ok(1) live2]] by simp
  show "version_run (\<lambda>s. ''h'') clock_id empty_versions (live 3 prod3)"
    using version_run.step [OF two version_step.rollback [OF _ clock_ok(1) live3]] by simp
qed

lemma live_events [simp]: "vd_events gates = []" "vd_events (live n p) = take n history"
  by (simp_all add: gates_def gate_store_def empty_versions_def live_def live_store_def)

lemma live_times: "dv_created (event k a (prod_row t v bs) q m) = t" "ve_now (clock t) = t"
  by (simp_all add: event_def prod_row_def clock_def)

theorem deployments_resolve_witness:
  "\<exists>v. resolve_version_for_environment (live 1 prod1) (workflow_at ''xxx'') ''prod'' = Inr (v, Some prod1) \<and> vr_published v"
  using deployments_resolve [OF reached_live(1) clock_ok(2), of "workflow_at ''xxx''" prod1]
  by (auto simp: prod1_def prod_row_def)

theorem rollback_undoes_promotion_witness:
  "\<exists>d3 db3 p3. rollback_environment (clock 3) ''prod'' (Some ''u'') (workflow_at ''xxx'') (live 2 prod2) = Inr (d3, db3, p3) \<and>
    dp_version p3 = ''xx'' \<and> dp_bindings p3 = dp_bindings prod1"
  using rollback_undoes_promotion [OF reached2 clock_ok(2) _ clock_ok(1) clock_ok(1) _ _ live1 live2, of "clock 3" "Some ''u''"]
  by (auto simp: live_times)

theorem rollback_restores_withdrawn_witness:
  "\<exists>d4 db4 p4. rollback_environment (clock 5) ''prod'' None (workflow_at ''xxx'') (live 4 prod4) = Inr (d4, db4, p4) \<and>
    dp_version p4 = ''xxx'' \<and> dp_bindings p4 = dp_bindings prod2"
  using rollback_restores_withdrawn [OF reached_live(1) clock_ok(2) _ clock_ok(1) clock_ok(1) _ _ _ live2 live3 live4]
  by (simp add: live_times history_def prod1_def)

lemma live_graphs:
  "resolved_graph_for_environment (live 2 prod2) (workflow_at ''xxx'') ''prod'' =
     Inr (gate_row ''xxx'' 2 ''slack-prod'', gate_nodes ''slack-prod'')"
  "resolved_graph_for_environment (live 4 prod4) (workflow_at ''xxx'') ''prod'' =
     Inr (gate_row ''xx'' 1 ''slack-dev'', [hd (gate_nodes ''slack-prod''), last (gate_nodes ''slack-dev'')])"
  by code_simp+

lemma gate_facts:
  "distinct (filter (\<lambda>i. i \<noteq> []) (map binding_id (dict_items (wv_nodes (gate_row ''xxx'' 2 ''slack-prod'')))))"
  "bound_value (gate_config i) ''approval_connector_installation_id'' = py_strip i"
  "\<not> dhas (bind_gates [''a'']) ''b''" "bind_gates [''a''] \<noteq> []"
  by (simp_all add: gate_row_def gate_nodes_def node_of_def dict_items_def List.map_filter_def binding_id_def
      bound_value_def gate_config_def str_or_def dhas_def bind_gates_def)

text \<open>The second gate of either version.\<close>

definition second_gate :: "string \<Rightarrow> pyval dict" where
  "second_gate i = [(''id'', PStr ''b''), (''type'', PStr ''approval''), (''config'', PDict (gate_config i))]"

lemma second_gate_facts:
  "second_gate i \<in> set (dict_items (gate_nodes i))" "binding_id (second_gate i) = ''b''"
  "get_dict (second_gate i) ''config'' = Inr (gate_config i)"
  by (simp_all add: second_gate_def gate_nodes_def node_of_def dict_items_def List.map_filter_def binding_id_def
      str_or_def dict_or_raise_def gate_config_def)

theorem default_promotion_isolated_witness:
  "\<exists>r. r \<in> set (vd_installations (live 1 prod1)) \<and> ir_id r = ''slack-prod'' \<and> ir_owner r = ''u'' \<and>
    installation_allowed_for_environment (ir_environment r) ''prod'' = Inr True"
proof -
  have "py_strip ''slack-prod'' = ''slack-prod''" by code_simp
  then show ?thesis
    using default_promotion_isolated [OF reached_live(1) clock_ok(2) _ clock_ok(1) live2 live_graphs(1) gate_facts(1)
        second_gate_facts(1), of "gate_config ''slack-prod''" "''approval_connector_installation_id''"]
      second_gate_facts(2,3) gate_facts(2) [of "''slack-prod''"]
    by (auto simp: binding_keys workflow_at_def new_workflow_def)
qed


section \<open>Runs in production\<close>

definition runner :: "version_db \<Rightarrow> wf_env" where
  "runner vdb = (demo_env (one_node ''v'' ''c'' ''trigger'' []) (one_node ''v'' ''c'' ''trigger'' []))
     \<lparr>we_environment := environment_graph vdb, we_versions := map wf_version.truncate (vd_versions vdb)\<rparr>"

lemma created: "(case create_run_record (runner (live 1 prod1)) ''u'' ''w'' None None [] False None ''prod'' empty_db of
    Inl _ \<Rightarrow> False | Inr (db, run, v) \<Rightarrow> wr_version_id run = ''xx'' \<and> wr_workflow_id run = ''w'')"
  by code_simp

theorem run_uses_deployed_witness:
  "\<exists>row. row \<in> set (vd_versions (live 1 prod1)) \<and> wv_id row = ''xx'' \<and> vr_published row"
proof -
  obtain db run v where r: "create_run_record (runner (live 1 prod1)) ''u'' ''w'' None None [] False None ''prod'' empty_db
      = Inr (db, run, v)" "wr_version_id run = ''xx''" "wr_workflow_id run = ''w''"
    using created by (auto split: sum.splits prod.splits)
  have "we_environment (runner (live 1 prod1)) = environment_graph (live 1 prod1)" by (simp add: runner_def)
  from run_uses_deployed [OF reached_live(1) clock_ok(2) this r(1)] show ?thesis using r(2) by auto
qed

definition post_node :: "pyval dict" where
  "post_node = [(''id'', PStr ''t''), (''type'', PStr ''tool''),
     (''config'', PDict [(''tool'', PStr ''slack.post_message''), (''connector_installation_id'', PStr ''slack-dev'')])]"

definition bound_post :: "pyval dict" where
  "bound_post = [(''id'', PStr ''t''), (''type'', PStr ''tool''),
     (''config'', PDict [(''tool'', PStr ''slack.post_message''), (''connector_installation_id'', PStr ''slack-prod'')])]"

lemma post_bound:
  "bind_node [(''t'', PDict [(''connector_installation_id'', PStr ''slack-prod'')])] post_node = Inr (PDict bound_post)"
  by code_simp

theorem bindings_miss_tools_witness:
  "execute_tool_node leak_env (snd gate_start) bound_post ''t'' [] empty_db =
     execute_tool_node leak_env (snd gate_start) post_node ''t'' [] empty_db"
  by (rule bindings_miss_tools [OF post_bound])

text \<open>Both gates are bound to the Slack of production. The run starts, its request is approved, and it goes on.\<close>

definition prod_start :: "(string, wf_db \<times> wf_run) result" where
  "prod_start = start_run 2 (runner (live 1 prod1)) ''u'' ''w'' None None [] ''prod'' empty_db"

definition prod_approve :: "wf_db \<Rightarrow> wf_db" where
  "prod_approve db = db\<lparr>wd_approvals := map (\<lambda>a. a\<lparr>aq_status := ''approved'', aq_approved_by := Some ''boss''\<rparr>) (wd_approvals db)\<rparr>"

definition prod_resume :: "(string, wf_db \<times> wf_run) result" where
  "prod_resume = res_bind prod_start (\<lambda>(db, run).
     resume_run 3 (runner (live 1 prod1)) ''u'' (wr_id run) (Some (aq_id (hd (wd_approvals db)))) PNone None False (prod_approve db))"

lemma resumed: "(case prod_resume of
    Inl _ \<Rightarrow> False | Inr (db, run) \<Rightarrow> wr_status run = ''waiting_approval'' \<and> wr_current run = Some ''b'' \<and>
      wd_deliveries db = [(''slack'', ''xx'', ''slack-prod''), (''slack'', ''xxx'', ''slack-dev'')])"
  by code_simp


end
