(* ===== verification/Spec2Isabelle.thy ===== *)
theory Spec2Isabelle
  imports Governance_Properties Exactly_Once_Properties Workflow_Graph_Diff Workflow_Examples
    Hierarchy_Properties Notifications Parallel_Groups Agent_Tool_Examples Workflow_Environment_Examples
begin

text \<open>
  A model of the tool governance, the external effects and the workflows of Troop, a platform on which
  agents act through tools. Every tool call passes an authorization; an effect on the outside world
  passes, in addition, a human approval bound to its exact content, and a durable idempotency row. A
  workflow is a graph of such calls, agents, conditions and approvals that a runner advances node by
  node, pausing where it waits for somebody.

  The parts and their theories, with the files under \<open>src/backend/modules\<close> they model:

  \<^item> \<open>Prelude\<close>: the Python values (\<open>pyval\<close>, dictionaries in insertion order, \<open>str\<close>, \<open>repr\<close>, truth),
    results, string helpers and their lemmas.
  \<^item> \<open>Governance_Types\<close>, \<open>Effect_Inventory\<close>, \<open>Action_Metadata\<close>: the vocabulary and the governance of
    \<open>workforce/action_metadata.py\<close> and the contracts of \<open>orchestration/external_effect_inventory.py\<close>.
  \<^item> \<open>Tool_Catalog\<close>: the rows of \<open>workforce/constants.py\<close>.
  \<^item> \<open>Workforce_Db\<close>: the tables authorization reads (\<open>workforce/models.py\<close>, \<open>repository.py\<close>).
  \<^item> \<open>Action_Policy\<close>, \<open>Tool_Governance\<close>, \<open>Effective_Permissions\<close>, \<open>Tool_Registry\<close>,
    \<open>Tool_Execution\<close>: the services of the same names in \<open>workforce/services\<close>, and the providers of
    \<open>ecosystem_providers.py\<close> and \<open>integrations/tool_provider.py\<close>.
  \<^item> \<open>Governed_Execution\<close>, \<open>Governance_Properties\<close>: what the chain from policy to call guarantees.
  \<^item> \<open>Json_Hash\<close>: the canonical JSON text that \<open>arguments_hash\<close> digests, and its injectivity.
  \<^item> \<open>Canonical_Arguments\<close>: the canonical forms of \<open>integrations/email.py\<close>, \<open>issue_tracking.py\<close> and
    \<open>crm_records.py\<close>.
  \<^item> \<open>Exact_Effect\<close>, \<open>Exact_Effect_Properties\<close>: \<open>orchestration/execution/hitl/exact_effect.py\<close>.
  \<^item> \<open>Commit_Authorization\<close>: \<open>hitl/commit_authorization.py\<close>, the ledger of idempotency rows.
  \<^item> \<open>Exactly_Once\<close>, \<open>Exactly_Once_Properties\<close>: the delivery paths of \<open>integrations/gmail.py\<close>,
    \<open>outlook.py\<close>, \<open>slack.py\<close> and \<open>jira.py\<close>, and the send protocol they are measured against.
  \<^item> \<open>Workflow_Conditions\<close>, \<open>Workflow_Graph\<close>, \<open>Workflow_Graph_Diff\<close>, \<open>Workflow_Validation\<close>: the
    modules of the same names in \<open>workforce/services\<close>; the canonical form of a graph, its hash and diff,
    and the checks before publishing, with reachability proved against paths.
  \<^item> \<open>Workflow_State\<close>, \<open>Workflow_Nodes\<close>, \<open>Workflow_Parallel\<close>, \<open>Workflow_Runtime\<close>, \<open>Workflow_Resume\<close>:
    \<open>workforce/services/workflow_runtime.py\<close>, all of \<open>WorkflowRuntimeService\<close>: the rows and pure parts,
    the handler of every node type, parallel groups, the loop of \<open>_advance\<close> with the starts, and
    resuming, consuming and rejecting approvals. \<open>create_exact_effect_approval\<close> is that of
    \<open>orchestration/services/exact_effect_approval.py\<close>.
  \<^item> \<open>Workflow_Invariants\<close>, \<open>Workflow_Runtime_Properties\<close>, \<open>Workflow_Examples\<close>: what every run keeps, the
    guarantees of the entry points, and concrete runs.
  \<^item> \<open>Workflow_Versions\<close>, \<open>Workflow_Environments\<close>: drafts and published versions
    (\<open>workflow_version_service.py\<close>), deployments and connection bindings
    (\<open>workflow_environment_service.py\<close>), every operation on the definition and the tables it is given.
  \<^item> \<open>Workflow_Version_Properties\<close>, \<open>Workflow_Environment_Properties\<close>: the tables as a step relation
    (\<open>version_step\<close>) and its invariant (\<open>store_ok\<close>), immutable versions, deployments that resolve;
    promotion against rollback, and the installations a deployed graph can use.
  \<^item> \<open>Workflow_Environment_Runs\<close>, \<open>Workflow_Environment_Examples\<close>: the runner with these environments in
    the place of its parameter: the version of a run, and where the bindings do not get to.
  \<^item> \<open>Approver_Routing\<close>, \<open>Approval_Escalation\<close>: who may decide an approval, its deadline, delegation
    and the SLA scan, from \<open>orchestration/execution/hitl\<close> (\<open>approver_resolver.py\<close>, \<open>approval_sla.py\<close>,
    \<open>approval_delegation.py\<close>) and the workspace roles of \<open>identity_access\<close>.
  \<^item> \<open>Approval_Decisions\<close>: \<open>decide_approval\<close> and \<open>delegate_approval\<close> of
    \<open>orchestration/services/approvals_service.py\<close> with every approval type, the task state machine and
    the resumed or failed run.
  \<^item> \<open>Approval_Routing_Properties\<close>, \<open>Approval_Decision_Properties\<close>, \<open>Approval_Examples\<close>: eligibility and
    delegation; the life of an approval as a contract on single rows (\<open>approval_moves\<close>) that every
    request and scan keeps (\<open>hitl_step\<close>), whence who can approve, that decisions are final and notices
    are given once; what a decision does to the run; the approver at the commit; one small workspace.
  \<^item> \<open>Hierarchy_Policy\<close>, \<open>Hierarchy_Properties\<close>: \<open>orchestration/hierarchy_policy.py\<close>, the normal form
    of an agent hierarchy and its validation, with the cycle search proved against paths.
  \<^item> \<open>Parallel_Groups\<close>: \<open>orchestration/execution/parallel_group.py\<close>, the batches a list of tool calls is
    cut into and the semaphores that bound the calls in flight, as steps in any order.
  \<^item> \<open>Agent_Tools\<close>: the calls a model asks for in one turn of a task run, serial and in groups
    (\<open>orchestration/execution/tool_execution.py\<close>, \<open>tools.py\<close>, \<open>tool_execution_context.py\<close>,
    \<open>hitl_policy.py\<close>, \<open>hitl/grants.py\<close>, the permission levels of \<open>services/base.py\<close>).
  \<^item> \<open>Agent_Tool_Properties\<close>, \<open>Agent_Tool_Starvation\<close>, \<open>Agent_Tool_Examples\<close>: no dispatch without
    authorization, permission and grant; the approvals that never open a tool; one agent and its run.
  \<^item> \<open>Pagination\<close>, \<open>Notifications\<close>: \<open>core/pagination.py\<close> and the \<open>notifications\<close> module; following
    the cursors of a listing while the store changes.

  State is passed explicitly: a function that changes rows returns the changed database beside its
  result, a raise is the left side of a sum. The clock, fresh ids, the outcome of a lost race on a
  unique constraint, the digest and every provider API are arguments. The walk along the
  organization hierarchy and most other loops are structural recursions; the breadth-first search, the
  depth-first search for delegation cycles and the walk over pages have termination proofs. The loop of the runner recurses on the quota of steps the code itself counts, and
  \<open>advance\<close> on the interpreter's recursion limit, which nested workflows spend: at its end it is a
  raised \<open>RecursionError\<close>, as in the code, and a run without subworkflows needs one unit of it. The
  surroundings of the runner (\<open>wf_env\<close>: the tool executor, the starter of task runs, the routing of
  approvals, the graph of an environment) are arguments; scheduled resumes, terminal notifications and
  deliveries of approvals are recorded in the state and not performed. \<open>environment_graph\<close> gives the
  graph of an environment from the tables of deployments, and the properties of
  \<open>Workflow_Environment_Runs\<close> are about the runner with it.

  The locales state the contracts between parts: \<open>permission_check\<close> and \<open>policy_check\<close> between the
  registry and the services it asks, \<open>ledger\<close> between the adapters and the tables of keyed rows,
  \<open>handler_relation\<close> and \<open>run_relation\<close> between the handlers of the runner and a relation on the state
  they respect, interpreted for well-formed runs, counted steps, simulated calls and approvals, and \<open>cursor_listing\<close>
  between a listing with cursors and its reader, interpreted for the notifications.

  Not modelled: the HTTP layer, OAuth and webhooks; the ORM and the rollback of an aborted session;
  audit metadata and activation hooks; text outside the character lists of HOL, whose code points
  end at 255. Numbers with a fraction
  are not represented, and the clock of the runner stands still during a call. The routers, the
  planner, the language-model calls, memory and retrieval, the GitHub service and the frontend are
  outside this development.
\<close>

end
